(* ===== verification/JS_Date.thy ===== *)
theory JS_Date
  imports JS_Prelude
begin

text \<open>
  \<open>Date\<close>: time values are integers (milliseconds since the epoch) and \<open>None\<close> is \<open>NaN\<close>.
  \<open>date_parse\<close> is \<open>new Date(s).getTime()\<close> on the interchange format of ECMAScript
  (\<open>YYYY\<close>, \<open>YYYY-MM\<close>, \<open>YYYY-MM-DD\<close>, each optionally followed by \<open>THH:mm\<close>,
  \<open>THH:mm:ss\<close> or \<open>THH:mm:ss.sss\<close> and an offset); any other text is \<open>NaN\<close>, and a
  date-time without an offset is read as UTC, the time zone of the containers the hub runs in.
  \<open>to_iso_string\<close> is \<open>toISOString\<close>, which throws on \<open>NaN\<close>.

  Shown here: the year, month and day computations invert each other, reading a printed time
  gives the time back, and the order of printed times with four-digit years is the order of time.
  The modules compare instants as strings; the last fact is why that is sound.
\<close>

section \<open>Years and months\<close>

definition is_leap :: "int \<Rightarrow> bool" where
  "is_leap y \<longleftrightarrow> y mod 4 = 0 \<and> (y mod 100 \<noteq> 0 \<or> y mod 400 = 0)"

definition day_from_year :: "int \<Rightarrow> int" where
  "day_from_year y = 365 * (y - 1970) + (y - 1969) div 4 - (y - 1901) div 100 + (y - 1601) div 400"

definition days_in_year :: "int \<Rightarrow> int" where
  "days_in_year y = (if is_leap y then 366 else 365)"

definition year_from_day :: "int \<Rightarrow> int" where
  "year_from_day d = (let y = d * 400 div 146097 + 1970 in
     if d < day_from_year y then y - 1 else if day_from_year (y + 1) \<le> d then y + 1 else y)"

lemma div_Suc_int:
  assumes "0 < k"
  shows "(x + 1) div k = x div k + (if (x + 1) mod k = 0 then 1 else (0::int))"
proof -
  define q r where "q = x div k" and "r = x mod k"
  have x: "x = k * q + r" and r: "0 \<le> r" "r < k"
    using assms by (simp_all add: q_def r_def)
  show ?thesis
  proof (cases "r + 1 = k")
    case True
    then have "x + 1 = k * (q + 1)" using x by (simp add: algebra_simps)
    then show ?thesis using assms by (simp add: q_def [symmetric])
  next
    case False
    with r have "(x + 1) div k = q" "(x + 1) mod k = r + 1"
      using div_pos_pos_trivial [of "r + 1" k] mod_pos_pos_trivial [of "r + 1" k] assms
      unfolding x by (simp_all add: add.assoc)
    with r show ?thesis by (simp add: q_def [symmetric])
  qed
qed

lemma leap_indicator:
  "(r \<Longrightarrow> q) \<Longrightarrow> (q \<Longrightarrow> p) \<Longrightarrow>
   (if p then 1 else 0) - (if q then 1 else 0) + (if r then 1 else 0)
     = (if p \<and> (\<not> q \<or> r) then 366 else 365) - (365::int)"
  by (cases p; cases q; cases r) auto

lemma day_from_year_Suc: "day_from_year (y + 1) = day_from_year y + days_in_year y"
proof -
  have m: "(y - 1969 + 1) mod 4 = y mod 4" "(y - 1901 + 1) mod 100 = y mod 100"
    "(y - 1601 + 1) mod 400 = y mod 400"
    using mod_mult_self1 [of y "- 492" 4] mod_mult_self1 [of y "- 19" 100]
      mod_mult_self1 [of y "- 4" 400] by simp_all
  have e: "y + 1 - 1969 = y - 1969 + 1" "y + 1 - 1901 = y - 1901 + 1" "y + 1 - 1601 = y - 1601 + 1"
    by simp_all
  have d: "y mod 400 = 0 \<Longrightarrow> y mod 100 = 0" "y mod 100 = 0 \<Longrightarrow> y mod 4 = 0"
    using dvd_trans [of 100 400 y] dvd_trans [of 4 100 y] by (simp_all add: mod_eq_0_iff_dvd)
  have a: "(y + 1 - 1969) div 4 = (y - 1969) div 4 + (if y mod 4 = 0 then 1 else 0)"
    using div_Suc_int [of 4 "y - 1969"] by (simp only: e m)
  have b: "(y + 1 - 1901) div 100 = (y - 1901) div 100 + (if y mod 100 = 0 then 1 else 0)"
    using div_Suc_int [of 100 "y - 1901"] by (simp only: e m)
  have c: "(y + 1 - 1601) div 400 = (y - 1601) div 400 + (if y mod 400 = 0 then 1 else 0)"
    using div_Suc_int [of 400 "y - 1601"] by (simp only: e m)
  obtain A B C where ABC: "A = (y - 1969) div 4" "B = (y - 1901) div 100" "C = (y - 1601) div 400"
    by blast
  have "day_from_year (y + 1) = 365 * (y + 1 - 1970) + (A + (if y mod 4 = 0 then 1 else 0))
      - (B + (if y mod 100 = 0 then 1 else 0)) + (C + (if y mod 400 = 0 then 1 else 0))"
    by (simp only: day_from_year_def a b c ABC)
  moreover have "day_from_year y = 365 * (y - 1970) + A - B + C"
    by (simp only: day_from_year_def ABC)
  moreover have "(if y mod 4 = 0 then 1 else 0) - (if y mod 100 = 0 then 1 else 0)
      + (if y mod 400 = 0 then 1 else 0) = days_in_year y - 365"
    unfolding days_in_year_def is_leap_def by (rule leap_indicator) (erule d)+
  ultimately show ?thesis by simp
qed

lemma day_from_year_add: "day_from_year y + 365 * int n \<le> day_from_year (y + int n)"
proof (induction n)
  case (Suc n)
  have "day_from_year (y + int (Suc n)) = day_from_year (y + int n) + days_in_year (y + int n)"
    using day_from_year_Suc [of "y + int n"] by (simp add: algebra_simps)
  then show ?case using Suc by (auto simp: days_in_year_def split: if_splits)
qed simp

lemma day_from_year_mono: "y \<le> z \<Longrightarrow> day_from_year y \<le> day_from_year z"
  using day_from_year_add [of y "nat (z - y)"] by simp

lemma div_bounds_int: "0 < k \<Longrightarrow> k * (x div k) \<le> x \<and> x < k * (x div k) + (k::int)"
  using mult_div_mod_eq [of k x] pos_mod_sign [of k x] pos_mod_bound [of k x] by linarith

lemma day_from_year_approx:
  "146097 * (y - 1970) - 506 \<le> 400 * day_from_year y"
  "400 * day_from_year y \<le> 146097 * (y - 1970) + 589"
proof -
  obtain z where z: "y = z + 1970" by (metis diff_add_cancel)
  obtain a b c where abc: "a = (z + 1) div 4" "b = (z + 69) div 100" "c = (z + 369) div 400"
    by blast
  have bounds: "4 * a \<le> z + 1" "z + 1 < 4 * a + 4" "100 * b \<le> z + 69" "z + 69 < 100 * b + 100"
    "400 * c \<le> z + 369" "z + 369 < 400 * c + 400"
    using div_bounds_int [of 4 "z + 1"] div_bounds_int [of 100 "z + 69"]
      div_bounds_int [of 400 "z + 369"] by (simp_all add: abc)
  have d: "day_from_year y = 365 * z + a - b + c"
    by (simp add: day_from_year_def abc z add.commute)
  have "146097 * z - 506 \<le> 400 * day_from_year y" "400 * day_from_year y \<le> 146097 * z + 589"
    using d bounds by linarith+
  then show "146097 * (y - 1970) - 506 \<le> 400 * day_from_year y"
    "400 * day_from_year y \<le> 146097 * (y - 1970) + 589"
    by (simp_all add: z)
qed

lemma year_from_day_bounds:
  "day_from_year (year_from_day d) \<le> d \<and> d < day_from_year (year_from_day d + 1)"
proof -
  obtain k where k_def: "k = d * 400 div 146097" by blast
  have k: "146097 * k \<le> 400 * d" "400 * d < 146097 * k + 146097"
    using div_bounds_int [of 146097 "d * 400"] by (simp_all add: k_def mult.commute)
  obtain y where y_def: "y = k + 1970" by blast
  have "400 * day_from_year (y - 1) \<le> 146097 * k - 145508"
    using day_from_year_approx(2) [of "y - 1"] by (simp add: y_def)
  with k have lo: "day_from_year (y - 1) \<le> d" by linarith
  have "146097 * k + 291688 \<le> 400 * day_from_year (y + 2)"
    using day_from_year_approx(1) [of "y + 2"] by (simp add: y_def)
  with k have hi: "d < day_from_year (y + 2)" by linarith
  have "year_from_day d = (if d < day_from_year y then y - 1
      else if day_from_year (y + 1) \<le> d then y + 1 else y)"
    by (simp add: year_from_day_def Let_def k_def y_def)
  then show ?thesis using lo hi by (auto simp: algebra_simps)
qed

lemma year_from_day_unique:
  assumes "day_from_year y \<le> d" "d < day_from_year (y + 1)"
  shows "year_from_day d = y"
proof (rule ccontr)
  assume ne: "year_from_day d \<noteq> y"
  note b = year_from_day_bounds [of d]
  show False
  proof (cases "year_from_day d < y")
    case True
    then have "day_from_year (year_from_day d + 1) \<le> day_from_year y"
      by (intro day_from_year_mono) simp
    with b assms show False by linarith
  next
    case False
    with ne have "day_from_year (y + 1) \<le> day_from_year (year_from_day d)"
      by (intro day_from_year_mono) simp
    with b assms show False by linarith
  qed
qed

lemma year_from_day_mono: "d \<le> e \<Longrightarrow> year_from_day d \<le> year_from_day e"
proof (rule ccontr)
  assume "d \<le> e" "\<not> year_from_day d \<le> year_from_day e"
  then have "day_from_year (year_from_day e + 1) \<le> day_from_year (year_from_day d)"
    by (intro day_from_year_mono) simp
  with \<open>d \<le> e\<close> year_from_day_bounds [of d] year_from_day_bounds [of e] show False by linarith
qed

definition month_lengths :: "int \<Rightarrow> int list" where
  "month_lengths y = [31, if is_leap y then 29 else 28, 31, 30, 31, 30, 31, 31, 30, 31, 30, 31]"

text \<open>The zero-based month and day of month of a zero-based day of the year.\<close>

fun month_day :: "int list \<Rightarrow> int \<Rightarrow> nat \<times> int" where
  "month_day [] d = (0, d)"
| "month_day (l # ls) d = (if d < l then (0, d)
     else (case month_day ls (d - l) of (m, r) \<Rightarrow> (Suc m, r)))"

lemma month_day_sound:
  "month_day ls d = (m, r) \<Longrightarrow> 0 \<le> d \<Longrightarrow> d < sum_list ls \<Longrightarrow>
   m < length ls \<and> 0 \<le> r \<and> r < ls ! m \<and> sum_list (take m ls) + r = d"
proof (induction ls d arbitrary: m r rule: month_day.induct)
  case (2 l ls d)
  show ?case
  proof (cases "d < l")
    case True
    then show ?thesis using 2 by auto
  next
    case False
    obtain m' r' where md: "month_day ls (d - l) = (m', r')" by fastforce
    with 2(1)[OF False md] 2 False show ?thesis by (auto simp: md)
  qed
qed simp

lemma month_day_strict_mono:
  "0 \<le> d \<Longrightarrow> d < e \<Longrightarrow> month_day ls d = (m, r) \<Longrightarrow> month_day ls e = (m', r') \<Longrightarrow>
   m < m' \<or> (m = m' \<and> r < r')"
proof (induction ls arbitrary: d e m r m' r')
  case (Cons l ls)
  show ?case
  proof (cases "e < l")
    case True
    then show ?thesis using Cons.prems by auto
  next
    case False
    obtain n s where e: "month_day ls (e - l) = (n, s)" by fastforce
    show ?thesis
    proof (cases "d < l")
      case True
      then show ?thesis using Cons.prems False e by auto
    next
      case d: False
      obtain n' s' where d': "month_day ls (d - l) = (n', s')" by fastforce
      show ?thesis using Cons.IH [OF _ _ d' e] Cons.prems d False d' e by auto
    qed
  qed
qed simp

lemma length_month_lengths [simp]: "length (month_lengths y) = 12"
  by (simp add: month_lengths_def)

lemma sum_month_lengths: "sum_list (month_lengths y) = days_in_year y"
  by (simp add: month_lengths_def days_in_year_def)

lemma month_lengths_le: "m < 12 \<Longrightarrow> month_lengths y ! m \<le> 31"
proof -
  assume "m < 12"
  then have "month_lengths y ! m \<in> set (month_lengths y)" by (intro nth_mem) simp
  then show ?thesis by (auto simp: month_lengths_def split: if_splits)
qed

section \<open>Printing\<close>

abbreviation ms_per_day :: int where "ms_per_day \<equiv> 86400000"

text \<open>The largest time value, in milliseconds, on either side of the epoch.\<close>

abbreviation max_time :: int where "max_time \<equiv> 8640000000000000"

definition year_string :: "int \<Rightarrow> string" where
  "year_string y = (if 0 \<le> y \<and> y \<le> 9999 then pad_digits 4 (nat y)
     else if y < 0 then CHR ''-'' # pad_digits 6 (nat (- y)) else CHR ''+'' # pad_digits 6 (nat y))"

definition date_string :: "int \<Rightarrow> string" where
  "date_string day = (let y = year_from_day day in
     case month_day (month_lengths y) (day - day_from_year y) of (m, r) \<Rightarrow>
       year_string y @ CHR ''-'' # pad_digits 2 (Suc m) @ CHR ''-'' # pad_digits 2 (nat (r + 1)))"

definition clock_string :: "nat \<Rightarrow> nat \<Rightarrow> nat \<Rightarrow> nat \<Rightarrow> string" where
  "clock_string h m s f = CHR ''T'' # pad_digits 2 h @ CHR '':'' # pad_digits 2 m @ CHR '':'' #
     pad_digits 2 s @ CHR ''.'' # pad_digits 3 f @ ''Z''"

definition time_string :: "int \<Rightarrow> string" where
  "time_string ms = clock_string (nat (ms div 3600000)) (nat (ms div 60000 mod 60))
     (nat (ms div 1000 mod 60)) (nat (ms mod 1000))"

definition iso_of_time :: "int \<Rightarrow> string" where
  "iso_of_time t = date_string (t div ms_per_day) @ time_string (t mod ms_per_day)"

definition to_iso_string :: "int option \<Rightarrow> string result" where
  "to_iso_string t = (case t of None \<Rightarrow> Inl (RangeError ''Invalid time value'') | Some t \<Rightarrow> Inr (iso_of_time t))"

text \<open>\<open>new Date(t)\<close> of a number: times out of range are \<open>NaN\<close>.\<close>

definition time_clip :: "int \<Rightarrow> int option" where
  "time_clip t = (if \<bar>t\<bar> \<le> max_time then Some t else None)"

section \<open>Reading\<close>

definition take_digits :: "nat \<Rightarrow> string \<Rightarrow> (nat \<times> string) option" where
  "take_digits w s = (if w \<le> length s \<and> list_all is_digit (take w s)
     then Some (digits_value (take w s), drop w s) else None)"

definition parse_year :: "string \<Rightarrow> (int \<times> string) option" where
  "parse_year s = (case s of
      [] \<Rightarrow> None
    | c # r \<Rightarrow>
      if c = CHR ''+'' then map_option (\<lambda>(y, r'). (int y, r')) (take_digits 6 r)
      else if c = CHR ''-'' then
        Option.bind (take_digits 6 r) (\<lambda>(y, r'). if y = 0 then None else Some (- int y, r'))
      else map_option (\<lambda>(y, r'). (int y, r')) (take_digits 4 s))"

text \<open>An optional \<open>-NN\<close> part with a value from 1 to \<open>hi\<close>; 1 when it is absent.\<close>

definition parse_dash2 :: "nat \<Rightarrow> string \<Rightarrow> (nat \<times> string) option" where
  "parse_dash2 hi s = (case s of
      [] \<Rightarrow> Some (1, [])
    | c # r \<Rightarrow> if c = CHR ''-'' then
        Option.bind (take_digits 2 r) (\<lambda>(n, r'). if 1 \<le> n \<and> n \<le> hi then Some (n, r') else None)
      else Some (1, s))"

definition parse_offset :: "string \<Rightarrow> int option" where
  "parse_offset s = (case s of
      [] \<Rightarrow> Some 0
    | c # r \<Rightarrow>
      if c = CHR ''Z'' then (if r = [] then Some 0 else None)
      else if c = CHR ''+'' \<or> c = CHR ''-'' then
        (case take_digits 2 r of
          Some (h, d # r') \<Rightarrow> (if d = CHR '':'' then
            (case take_digits 2 r' of
              Some (m, []) \<Rightarrow> if h \<le> 23 \<and> m \<le> 59
                then Some ((if c = CHR ''-'' then - 1 else 1) * (int h * 60 + int m) * 60000) else None
            | _ \<Rightarrow> None) else None)
        | _ \<Rightarrow> None)
      else None)"

text \<open>Fractional seconds: at least one digit, the first three count.\<close>

definition parse_fraction :: "string \<Rightarrow> (int \<times> string) option" where
  "parse_fraction s = (case s of
      [] \<Rightarrow> Some (0, [])
    | c # r \<Rightarrow> if c = CHR ''.'' then
        (let ds = takeWhile is_digit r in
         if ds = [] then None else Some (int (digits_value (take 3 (ds @ ''00''))), dropWhile is_digit r))
      else Some (0, s))"

definition parse_seconds :: "string \<Rightarrow> (int \<times> string) option" where
  "parse_seconds s = (case s of
      [] \<Rightarrow> Some (0, [])
    | c # r \<Rightarrow> if c = CHR '':'' then
        Option.bind (take_digits 2 r) (\<lambda>(sec, r').
          if sec \<le> 59 then map_option (\<lambda>(ms, r''). (int sec * 1000 + ms, r'')) (parse_fraction r') else None)
      else Some (0, s))"

text \<open>The time of day and the offset, in milliseconds.\<close>

definition parse_time :: "string \<Rightarrow> (int \<times> int) option" where
  "parse_time s = (case s of
      [] \<Rightarrow> Some (0, 0)
    | c # r \<Rightarrow> if c \<noteq> CHR ''T'' then None else
      (case take_digits 2 r of
        Some (h, d # r') \<Rightarrow> if d \<noteq> CHR '':'' then None else
          Option.bind (take_digits 2 r') (\<lambda>(m, r'').
          Option.bind (parse_seconds r'') (\<lambda>(ms, z).
          Option.bind (parse_offset z) (\<lambda>off.
            if (h \<le> 23 \<and> m \<le> 59) \<or> (h = 24 \<and> m = 0 \<and> ms = 0)
            then Some (int h * 3600000 + int m * 60000 + ms, off) else None)))
      | _ \<Rightarrow> None))"

definition date_parse :: "string \<Rightarrow> int option" where
  "date_parse s =
     Option.bind (parse_year s) (\<lambda>(y, r).
     Option.bind (parse_dash2 12 r) (\<lambda>(m, r').
     Option.bind (parse_dash2 31 r') (\<lambda>(d, r'').
     Option.bind (parse_time r'') (\<lambda>(ms, off).
       time_clip ((day_from_year y + sum_list (take (m - 1) (month_lengths y)) + int d - 1) * ms_per_day
                  + ms - off)))))"

section \<open>Reading what was printed\<close>

lemma foldl_digits: "foldl (\<lambda>n c. 10 * n + digit_value c) k s = k * 10 ^ length s + digits_value s"
  unfolding digits_value_def
proof (induction s rule: rev_induct)
  case (snoc c s)
  then show ?case by (simp add: algebra_simps)
qed simp

lemma digits_value_Cons: "digits_value (c # s) = digit_value c * 10 ^ length s + digits_value s"
  using foldl_digits [of "digit_value c" s] by (simp add: digits_value_def)

lemma digits_value_pad_digits: "n < 10 ^ w \<Longrightarrow> digits_value (pad_digits w n) = n"
proof (induction w arbitrary: n)
  case 0
  then show ?case by (simp add: digits_value_def)
next
  case (Suc w)
  have "n div 10 ^ w < 10" using Suc.prems by (simp add: less_mult_imp_div_less mult.commute)
  then have "digits_value (pad_digits (Suc w) n) = n div 10 ^ w * 10 ^ w + n mod 10 ^ w"
    using Suc.IH [of "n mod 10 ^ w"] by (simp add: digits_value_Cons)
  then show ?case by (simp only: div_mult_mod_eq)
qed

lemma take_digits_pad [simp]: "n < 10 ^ w \<Longrightarrow> take_digits w (pad_digits w n @ r) = Some (n, r)"
  by (simp add: take_digits_def digits_value_pad_digits)

lemma pad_digits_4_head: "\<exists>d r. d < 10 \<and> pad_digits 4 n = digit_char d # r"
proof -
  have "pad_digits 4 n = digit_char (n div 10 ^ 3 mod 10) # pad_digits 3 (n mod 10 ^ 3)"
    using pad_digits.simps(2) [of 3 n] by (simp del: pad_digits.simps)
  moreover have "n div 10 ^ 3 mod 10 < 10" by simp
  ultimately show ?thesis by blast
qed

lemma digit_char_neq: "d < 10 \<Longrightarrow> digit_char d \<noteq> CHR ''+''" "d < 10 \<Longrightarrow> digit_char d \<noteq> CHR ''-''"
  by (auto dest: arg_cong [of _ _ "of_char :: char \<Rightarrow> nat"] simp: of_char_digit_char)

lemma parse_year_string:
  assumes "- 999999 \<le> y" "y \<le> 999999"
  shows "parse_year (year_string y @ r) = Some (y, r)"
proof (cases "0 \<le> y \<and> y \<le> 9999")
  case True
  obtain d r' where d: "d < 10" "pad_digits 4 (nat y) = digit_char d # r'" using pad_digits_4_head by blast
  have "take_digits 4 (pad_digits 4 (nat y) @ r) = Some (nat y, r)"
    using True by (intro take_digits_pad) (simp add: nat_less_iff)
  then show ?thesis using True d digit_char_neq [OF d(1)]
    by (simp add: year_string_def parse_year_def)
next
  case False
  then show ?thesis using assms by (auto simp: year_string_def parse_year_def)
qed

lemma parse_dash2_pad:
  "n < 100 \<Longrightarrow> 1 \<le> n \<Longrightarrow> n \<le> hi \<Longrightarrow> parse_dash2 hi (CHR ''-'' # pad_digits 2 n @ r) = Some (n, r)"
  by (simp add: parse_dash2_def)

lemma nat_mod_less: "0 < k \<Longrightarrow> nat (x mod k) < nat (k::int)"
  by simp

lemma parse_fraction_pad:
  assumes "n < 1000"
  shows "parse_fraction (CHR ''.'' # pad_digits 3 n @ ''Z'') = Some (int n, ''Z'')"
proof -
  have z: "\<not> is_digit CHR ''Z''" by (simp add: is_digit_def)
  have "takeWhile is_digit (pad_digits 3 n @ ''Z'') = pad_digits 3 n"
    using z list_all_pad_digits [of 3 n] by (subst takeWhile_append2) (auto simp: list_all_iff)
  moreover have "dropWhile is_digit (pad_digits 3 n @ ''Z'') = ''Z''"
    using z list_all_pad_digits [of 3 n] by (subst dropWhile_append2) (auto simp: list_all_iff)
  moreover have "pad_digits 3 n \<noteq> []" by (metis length_pad_digits list.size(3) zero_neq_numeral)
  moreover have "take 3 (pad_digits 3 n @ ''00'') = pad_digits 3 n" by simp
  moreover have "digits_value (pad_digits 3 n) = n" using assms by (intro digits_value_pad_digits) simp
  ultimately show ?thesis by (simp add: parse_fraction_def Let_def)
qed

lemma parse_time_string:
  assumes "0 \<le> ms" "ms < ms_per_day"
  shows "parse_time (time_string ms) = Some (ms, 0)"
proof -
  define h m s f where "h = nat (ms div 3600000)" and "m = nat (ms div 60000 mod 60)"
    and "s = nat (ms div 1000 mod 60)" and "f = nat (ms mod 1000)"
  have hlt: "h \<le> 23" using assms unfolding h_def by linarith
  have lt: "m \<le> 59" "s \<le> 59" "f < 1000" unfolding m_def s_def f_def by linarith+
  have sum: "int h * 3600000 + int m * 60000 + (int s * 1000 + int f) = ms"
  proof -
    have "ms div 60000 = 60 * (ms div 3600000) + ms div 60000 mod 60"
      using mult_div_mod_eq [of 60 "ms div 60000"] by (simp add: zdiv_zmult2_eq [symmetric])
    moreover have "ms div 1000 = 60 * (ms div 60000) + ms div 1000 mod 60"
      using mult_div_mod_eq [of 60 "ms div 1000"] by (simp add: zdiv_zmult2_eq [symmetric])
    moreover have "ms = 1000 * (ms div 1000) + ms mod 1000" by simp
    moreover have "int h = ms div 3600000" "int m = ms div 60000 mod 60" "int s = ms div 1000 mod 60"
      "int f = ms mod 1000"
      using assms unfolding h_def m_def s_def f_def by (simp_all add: pos_imp_zdiv_nonneg_iff)
    ultimately show ?thesis by linarith
  qed
  have ts: "time_string ms = CHR ''T'' # pad_digits 2 h @ CHR '':'' # pad_digits 2 m @ CHR '':'' #
      pad_digits 2 s @ CHR ''.'' # pad_digits 3 f @ ''Z''"
    by (simp add: time_string_def clock_string_def h_def m_def s_def f_def)
  have sec: "parse_seconds (CHR '':'' # pad_digits 2 s @ CHR ''.'' # pad_digits 3 f @ ''Z'')
      = Some (int s * 1000 + int f, ''Z'')"
    using lt by (simp add: parse_seconds_def parse_fraction_pad)
  have off: "parse_offset ''Z'' = Some 0" by (simp add: parse_offset_def)
  show ?thesis unfolding ts parse_time_def using hlt lt sum by (simp add: sec off)
qed

lemma max_time_days: "\<bar>t\<bar> \<le> max_time \<Longrightarrow> - 100000000 \<le> t div ms_per_day \<and> t div ms_per_day \<le> 100000000"
  by linarith

lemma year_bounds:
  assumes "- 100000000 \<le> d" "d \<le> 100000000"
  shows "- 999999 \<le> year_from_day d \<and> year_from_day d \<le> 999999"
proof -
  obtain y where y: "y = year_from_day d" by blast
  have "146097 * y - 287811596 \<le> 400 * day_from_year y" "400 * day_from_year (y + 1) \<le> 146097 * y - 287664404"
    using day_from_year_approx(1) [of y] day_from_year_approx(2) [of "y + 1"] by simp_all
  moreover have "day_from_year y \<le> d" "d < day_from_year (y + 1)"
    using year_from_day_bounds [of d] by (simp_all add: y)
  ultimately show ?thesis using assms unfolding y [symmetric] by linarith
qed

lemma date_fields:
  assumes "month_day (month_lengths (year_from_day d)) (d - day_from_year (year_from_day d)) = (m, r)"
  shows "m < 12" "0 \<le> r" "r < 31"
    "day_from_year (year_from_day d) + sum_list (take m (month_lengths (year_from_day d))) + r = d"
proof -
  let ?y = "year_from_day d"
  have "d - day_from_year ?y < sum_list (month_lengths ?y)"
    using year_from_day_bounds [of d] by (simp add: sum_month_lengths day_from_year_Suc)
  moreover have "0 \<le> d - day_from_year ?y" using year_from_day_bounds [of d] by simp
  ultimately have s: "m < 12 \<and> 0 \<le> r \<and> r < month_lengths ?y ! m \<and>
      sum_list (take m (month_lengths ?y)) + r = d - day_from_year ?y"
    using month_day_sound [OF assms] by simp
  then show "m < 12" "0 \<le> r" "day_from_year ?y + sum_list (take m (month_lengths ?y)) + r = d" by simp_all
  show "r < 31" using s month_lengths_le [of m ?y] by linarith
qed

theorem date_parse_iso_of_time:
  assumes "\<bar>t\<bar> \<le> max_time"
  shows "date_parse (iso_of_time t) = Some t"
proof -
  define d where "d = t div ms_per_day"
  obtain m r where md: "month_day (month_lengths (year_from_day d)) (d - day_from_year (year_from_day d)) = (m, r)"
    by fastforce
  note f = date_fields [OF md]
  have y: "parse_year (year_string (year_from_day d) @ x) = Some (year_from_day d, x)" for x
    using year_bounds [of d] max_time_days [OF assms] by (intro parse_year_string) (simp_all add: d_def)
  have mo: "parse_dash2 12 (CHR ''-'' # pad_digits 2 (Suc m) @ x) = Some (Suc m, x)" for x
    using f by (intro parse_dash2_pad) simp_all
  have da: "parse_dash2 31 (CHR ''-'' # pad_digits 2 (nat (r + 1)) @ x) = Some (nat (r + 1), x)" for x
    using f by (intro parse_dash2_pad) simp_all
  have ti: "parse_time (time_string (t mod ms_per_day)) = Some (t mod ms_per_day, 0)"
    by (intro parse_time_string) simp_all
  have iso: "iso_of_time t = year_string (year_from_day d) @ CHR ''-'' # pad_digits 2 (Suc m) @
      CHR ''-'' # pad_digits 2 (nat (r + 1)) @ time_string (t mod ms_per_day)"
    by (simp add: iso_of_time_def date_string_def Let_def d_def [symmetric] md)
  have "(day_from_year (year_from_day d) + sum_list (take m (month_lengths (year_from_day d)))
      + int (nat (r + 1)) - 1) = d"
    using f by simp
  moreover have "d * ms_per_day + t mod ms_per_day - 0 = t" by (simp add: d_def)
  ultimately show ?thesis unfolding date_parse_def iso
    using assms by (simp only: y mo da ti time_clip_def bind.bind_lunit prod.case diff_Suc_1 if_True)
qed

section \<open>The order of printed times\<close>

lemma less_append_iff:
  "length a = length b \<Longrightarrow> a @ x < b @ y \<longleftrightarrow> a < b \<or> (a = b \<and> x < (y :: 'a :: linorder list))"
  by (induction a b rule: list_induct2) auto

lemma less_div_mod_iff:
  "m < n \<longleftrightarrow> m div k < n div k \<or> (m div k = n div k \<and> m mod k < n mod (k::nat))"
proof -
  have eq: "m = k * (m div k) + m mod k" "n = k * (n div k) + n mod k" by simp_all
  consider "m div k < n div k" | "m div k = n div k" | "n div k < m div k" by linarith
  then show ?thesis
  proof cases
    case 1
    then have "m < n" using div_le_mono [of n m k] by (metis leD le_less_linear)
    then show ?thesis using 1 by simp
  next
    case 2
    then show ?thesis using eq by (metis nat_add_left_cancel_less less_irrefl)
  next
    case 3
    then have "\<not> m < n" using div_le_mono [of m n k] by (metis leD less_imp_le)
    then show ?thesis using 3 by simp
  qed
qed

lemma pad_digits_less_iff:
  "m < 10 ^ w \<Longrightarrow> n < 10 ^ w \<Longrightarrow> pad_digits w m < pad_digits w n \<longleftrightarrow> m < n"
proof (induction w arbitrary: m n)
  case (Suc w)
  have d: "m div 10 ^ w < 10" "n div 10 ^ w < 10"
    using Suc.prems by (simp_all add: less_mult_imp_div_less mult.commute)
  have IH: "pad_digits w (m mod 10 ^ w) < pad_digits w (n mod 10 ^ w) \<longleftrightarrow> m mod 10 ^ w < n mod 10 ^ w"
    by (rule Suc.IH) simp_all
  have inj: "digit_char (m div 10 ^ w) = digit_char (n div 10 ^ w) \<longleftrightarrow> m div 10 ^ w = n div 10 ^ w"
    using d by (metis digit_value_digit_char)
  have "m < n \<longleftrightarrow> m div 10 ^ w < n div 10 ^ w \<or> (m div 10 ^ w = n div 10 ^ w \<and> m mod 10 ^ w < n mod 10 ^ w)"
    by (rule less_div_mod_iff)
  then show ?case using d by (simp add: digit_char_less_iff IH inj)
qed simp

lemma pad_digits_inject:
  "m < 10 ^ w \<Longrightarrow> n < 10 ^ w \<Longrightarrow> pad_digits w m = pad_digits w n \<longleftrightarrow> m = n"
  by (metis digits_value_pad_digits)

text \<open>The times from the year 0 to the year 9999, whose text has the short form.\<close>

definition plain_time :: "int \<Rightarrow> bool" where
  "plain_time t \<longleftrightarrow> - 62167219200000 \<le> t \<and> t \<le> 253402300799999"

lemma plain_time_year:
  assumes "plain_time t"
  shows "0 \<le> year_from_day (t div ms_per_day) \<and> year_from_day (t div ms_per_day) \<le> 9999"
proof -
  have "- 719528 \<le> t div ms_per_day" "t div ms_per_day \<le> 2932896"
    using assms unfolding plain_time_def by linarith+
  moreover have "year_from_day (- 719528) = 0" "year_from_day 2932896 = 9999" by code_simp+
  ultimately show ?thesis using year_from_day_mono by metis
qed

lemma field_less:
  "length a = length b \<Longrightarrow> a < b \<Longrightarrow> a @ x < b @ (y :: string)"
  by (simp add: less_append_iff)

lemma length_time_string: "length (time_string ms) = 14"
  by (simp add: time_string_def clock_string_def)

lemma clock_string_less:
  assumes "h < 10 ^ 2" "m < 10 ^ 2" "s < 10 ^ 2" "f < 10 ^ 3" "h' < 10 ^ 2" "m' < 10 ^ 2" "s' < 10 ^ 2" "f' < 10 ^ 3"
    and "h < h' \<or> h = h' \<and> (m < m' \<or> m = m' \<and> (s < s' \<or> s = s' \<and> f < f'))"
  shows "clock_string h m s f < clock_string h' m' s' f'"
  using assms by (auto simp: clock_string_def less_append_iff pad_digits_less_iff simp del: pad_digits.simps)

lemma div_mod_less:
  assumes "a < b" "0 < k"
  shows "a div k < b div k \<or> (a div k = b div k \<and> a mod k < b mod (k::int))"
proof (cases "a div k = b div k")
  case True
  then show ?thesis using assms(1) by (metis add_less_cancel_left mult_div_mod_eq)
next
  case False
  then show ?thesis using assms zdiv_mono1 [of a b k] by simp
qed

lemma time_string_less:
  assumes "0 \<le> a" "a < b" "b < ms_per_day"
  shows "time_string a < time_string b"
proof -
  have h: "nat (t div 3600000) < 10 ^ 2" if "t < ms_per_day" for t using that by simp
  have m: "nat (t div 60000 mod 60) < 10 ^ 2" "nat (t div 1000 mod 60) < 10 ^ 2" "nat (t mod 1000) < 10 ^ 3"
    for t :: int by (simp_all add: nat_less_iff order.strict_trans [OF pos_mod_bound])
  have pos: "0 \<le> a div 3600000" using assms by (simp add: pos_imp_zdiv_nonneg_iff)
  have nn: "0 \<le> a div 60000 mod 60" "0 \<le> a div 1000 mod 60" "0 \<le> a mod 1000" by simp_all
  have s: "a div 1000 < b div 1000 \<or> (a div 1000 = b div 1000 \<and> a mod 1000 < b mod 1000)"
    using assms by (intro div_mod_less) simp_all
  have mi: "a div 60000 < b div 60000 \<or> (a div 60000 = b div 60000 \<and> a div 1000 mod 60 < b div 1000 mod 60)"
    if "a div 1000 < b div 1000"
    using div_mod_less [OF that, of 60] by (simp add: zdiv_zmult2_eq [symmetric])
  have ho: "a div 3600000 < b div 3600000 \<or>
      (a div 3600000 = b div 3600000 \<and> a div 60000 mod 60 < b div 60000 mod 60)"
    if "a div 60000 < b div 60000"
    using div_mod_less [OF that, of 60] by (simp add: zdiv_zmult2_eq [symmetric])
  have q: "t div 60000 = t div 1000 div 60" "t div 3600000 = t div 60000 div 60" for t :: int
    by (simp_all add: zdiv_zmult2_eq [symmetric])
  consider (hour) "a div 3600000 < b div 3600000"
    | (minute) "a div 3600000 = b div 3600000" "a div 60000 mod 60 < b div 60000 mod 60"
    | (second) "a div 3600000 = b div 3600000" "a div 60000 mod 60 = b div 60000 mod 60"
        "a div 1000 mod 60 < b div 1000 mod 60"
    | (milli) "a div 3600000 = b div 3600000" "a div 60000 mod 60 = b div 60000 mod 60"
        "a div 1000 mod 60 = b div 1000 mod 60" "a mod 1000 < b mod 1000"
    using s mi ho q [of a] q [of b] by metis
  then have "nat (a div 3600000) < nat (b div 3600000) \<or> nat (a div 3600000) = nat (b div 3600000) \<and>
      (nat (a div 60000 mod 60) < nat (b div 60000 mod 60) \<or>
        nat (a div 60000 mod 60) = nat (b div 60000 mod 60) \<and>
      (nat (a div 1000 mod 60) < nat (b div 1000 mod 60) \<or>
        nat (a div 1000 mod 60) = nat (b div 1000 mod 60) \<and> nat (a mod 1000) < nat (b mod 1000)))"
    by cases (simp_all only: nat_less_eq_zless pos nn simp_thms)
  moreover have "a < ms_per_day" using assms by simp
  ultimately show ?thesis unfolding time_string_def using assms h m by (intro clock_string_less) blast+
qed

lemma date_string_less:
  assumes "d < e" "0 \<le> year_from_day d" "year_from_day e \<le> 9999"
  shows "date_string d < date_string e \<and> length (date_string d) = length (date_string e)"
proof -
  obtain m r where md: "month_day (month_lengths (year_from_day d)) (d - day_from_year (year_from_day d)) = (m, r)"
    by fastforce
  obtain n s where me: "month_day (month_lengths (year_from_day e)) (e - day_from_year (year_from_day e)) = (n, s)"
    by fastforce
  have le: "year_from_day d \<le> year_from_day e" using assms by (intro year_from_day_mono) simp
  have strict: "year_from_day d = year_from_day e \<Longrightarrow> m < n \<or> m = n \<and> r < s"
    using month_day_strict_mono [OF _ _ md, of "e - day_from_year (year_from_day e)" n s] me assms
      year_from_day_bounds [of d] by simp
  show ?thesis
    using assms le strict date_fields [OF md] date_fields [OF me]
    unfolding date_string_def Let_def md me
    by (auto simp: year_string_def less_append_iff pad_digits_less_iff pad_digits_inject)
qed

theorem iso_of_time_less_iff:
  assumes "plain_time t" "plain_time u"
  shows "iso_of_time t < iso_of_time u \<longleftrightarrow> t < u"
proof -
  have step: "iso_of_time a < iso_of_time b" if "a < b" "plain_time a" "plain_time b" for a b
  proof (cases "a div ms_per_day = b div ms_per_day")
    case True
    then have "a mod ms_per_day < b mod ms_per_day" using that
      by (metis add_less_cancel_left mult_div_mod_eq)
    then show ?thesis using True time_string_less [of "a mod ms_per_day" "b mod ms_per_day"]
      by (simp add: iso_of_time_def less_append_iff)
  next
    case False
    then have "a div ms_per_day < b div ms_per_day" using that zdiv_mono1 [of a b ms_per_day] by simp
    then show ?thesis using date_string_less plain_time_year [OF that(2)] plain_time_year [OF that(3)]
      by (simp add: iso_of_time_def less_append_iff)
  qed
  show ?thesis
  proof
    assume lt: "iso_of_time t < iso_of_time u"
    show "t < u"
    proof (rule ccontr)
      assume "\<not> t < u"
      then have "u = t \<or> iso_of_time u < iso_of_time t" using step [of u t] assms by linarith
      with lt show False by (auto dest: less_asym)
    qed
  qed (rule step [OF _ assms])
qed

corollary iso_of_time_le_iff:
  "plain_time t \<Longrightarrow> plain_time u \<Longrightarrow> iso_of_time t \<le> iso_of_time u \<longleftrightarrow> t \<le> u"
  by (metis iso_of_time_less_iff not_less)

lemma plain_time_in_range: "plain_time t \<Longrightarrow> \<bar>t\<bar> \<le> max_time"
  by (simp add: plain_time_def abs_le_iff)

section \<open>The shape of a printed instant\<close>

lemma date_parse_range: "date_parse s = Some t \<Longrightarrow> \<bar>t\<bar> \<le> max_time"
  by (auto simp: date_parse_def bind_eq_Some_conv time_clip_def split: prod.splits if_splits)

lemma pad_digits_head: "0 < w \<Longrightarrow> \<exists>d r. d < 10 \<and> pad_digits w n = digit_char d # r"
  by (cases w) (auto intro!: exI [of _ "n div 10 ^ _ mod 10"])

lemma digit_char_not_ws: "d < 10 \<Longrightarrow> \<not> is_ws (digit_char d)"
  by (auto simp: is_ws_def of_char_digit_char)

lemma iso_of_time_shape: "\<exists>c r. iso_of_time t = c # r @ ''Z'' \<and> \<not> is_ws c"
proof -
  have "\<exists>c r. year_string y = c # r \<and> \<not> is_ws c" for y
  proof -
    obtain d r where d: "d < 10" "pad_digits 4 (nat y) = digit_char d # r"
      using pad_digits_head [of 4 "nat y"] by auto
    have "\<not> is_ws CHR ''-''" "\<not> is_ws CHR ''+''" by (simp_all add: is_ws_def)
    then show ?thesis using d digit_char_not_ws [OF d(1)] by (auto simp: year_string_def)
  qed
  then obtain c r where "year_string (year_from_day (t div ms_per_day)) = c # r \<and> \<not> is_ws c" by blast
  then show ?thesis
    by (auto simp: iso_of_time_def date_string_def Let_def time_string_def clock_string_def split: prod.splits)
qed

lemma js_trim_iso [simp]: "js_trim (iso_of_time t) = iso_of_time t"
proof (rule js_trim_id)
  obtain c r where "iso_of_time t = c # r @ ''Z''" "\<not> is_ws c" using iso_of_time_shape by blast
  then show "\<not> is_ws (hd (iso_of_time t)) \<and> \<not> is_ws (last (iso_of_time t))"
    by (simp add: is_ws_def)
qed

lemma iso_of_time_not_Nil [simp]: "iso_of_time t \<noteq> []"
  using iso_of_time_shape [of t] by auto

end
