(* ===== verification/JS_Value.thy ===== *)
theory JS_Value
  imports JS_Date
begin

text \<open>
  Values of type \<open>unknown\<close>: what a JSON document or a plain object can hold.  Numbers are the
  finite integers; \<open>NaN\<close>, fractions, \<open>bigint\<close>, functions, symbols and \<open>Date\<close> objects are
  not values of the model, and objects are trees (no sharing, no cycles).  Property access on an
  object gives \<open>JUndef\<close> for a missing key.  \<open>json_stringify\<close> is \<open>JSON.stringify\<close> and
  \<open>json_text\<close> recognises the texts \<open>JSON.parse\<close> accepts.
\<close>

datatype json = JUndef | JNull | JBool bool | JNum int | JStr string
  | JArr "json list" | JObj "(string \<times> json) list"

definition is_record :: "json \<Rightarrow> bool" where
  "is_record v \<longleftrightarrow> (case v of JObj _ \<Rightarrow> True | _ \<Rightarrow> False)"

definition jget :: "json \<Rightarrow> string \<Rightarrow> json" where
  "jget v k = (case v of JObj kvs \<Rightarrow> (case map_of kvs k of None \<Rightarrow> JUndef | Some w \<Rightarrow> w) | _ \<Rightarrow> JUndef)"

definition is_nullish :: "json \<Rightarrow> bool" where
  "is_nullish v \<longleftrightarrow> v = JNull \<or> v = JUndef"

definition nullish_or :: "json \<Rightarrow> json \<Rightarrow> json" where
  "nullish_or v w = (if is_nullish v then w else v)"

lemma is_record_simps [simp]:
  "is_record (JObj kvs)" "\<not> is_record JNull" "\<not> is_record JUndef" "\<not> is_record (JStr s)"
  "\<not> is_record (JNum n)" "\<not> is_record (JBool b)" "\<not> is_record (JArr xs)"
  by (simp_all add: is_record_def)

lemma is_recordE: "is_record v \<Longrightarrow> (\<And>kvs. v = JObj kvs \<Longrightarrow> P) \<Longrightarrow> P"
  by (cases v) auto

lemma jget_JObj [simp]: "jget (JObj kvs) k = (case map_of kvs k of None \<Rightarrow> JUndef | Some w \<Rightarrow> w)"
  by (simp add: jget_def)

lemma is_nullish_simps [simp]:
  "is_nullish JNull" "is_nullish JUndef" "\<not> is_nullish (JStr s)" "\<not> is_nullish (JNum n)"
  "\<not> is_nullish (JBool b)" "\<not> is_nullish (JArr xs)" "\<not> is_nullish (JObj kvs)"
  by (simp_all add: is_nullish_def)

text \<open>A nullable text as a value: \<open>null\<close> or a string.\<close>

definition json_opt :: "string option \<Rightarrow> json" where
  "json_opt v = (case v of None \<Rightarrow> JNull | Some s \<Rightarrow> JStr s)"

lemma json_opt_simps [simp]: "json_opt None = JNull" "json_opt (Some s) = JStr s"
  by (simp_all add: json_opt_def)

text \<open>An optional field of a patch: absent, \<open>null\<close>, or a value.\<close>

datatype 'a change = Unset | Nulled | Assigned 'a

definition change_of :: "'a option \<Rightarrow> 'a change" where
  "change_of v = (case v of None \<Rightarrow> Nulled | Some x \<Rightarrow> Assigned x)"

section \<open>JSON.stringify\<close>

definition hex_digit :: "nat \<Rightarrow> char" where
  "hex_digit n = (if n < 10 then char_of (48 + n) else char_of (87 + n))"

definition escape_char :: "char \<Rightarrow> string" where
  "escape_char c = (let n = of_char c :: nat in
     if n = 34 then [char_of (92::nat), char_of (34::nat)]
     else if n = 92 then [char_of (92::nat), char_of (92::nat)]
     else if n = 8 then char_of (92::nat) # ''b''
     else if n = 9 then char_of (92::nat) # ''t''
     else if n = 10 then char_of (92::nat) # ''n''
     else if n = 12 then char_of (92::nat) # ''f''
     else if n = 13 then char_of (92::nat) # ''r''
     else if n < 32 then char_of (92::nat) # ''u00'' @ [hex_digit (n div 16), hex_digit (n mod 16)]
     else [c])"

definition quote_string :: "string \<Rightarrow> string" where
  "quote_string s = char_of (34::nat) # concat (map escape_char s) @ [char_of (34::nat)]"

fun json_stringify :: "json \<Rightarrow> string" where
  "json_stringify JUndef = ''undefined''"
| "json_stringify JNull = ''null''"
| "json_stringify (JBool b) = (if b then ''true'' else ''false'')"
| "json_stringify (JNum n) = int_to_string n"
| "json_stringify (JStr s) = quote_string s"
| "json_stringify (JArr xs) = ''['' @ js_join '','' (map (\<lambda>x. if x = JUndef then ''null'' else json_stringify x) xs) @ '']''"
| "json_stringify (JObj kvs) = CHR 0x7B # js_join '',''
     (map (\<lambda>(k, v). quote_string k @ '':'' @ json_stringify v) (filter (\<lambda>(k, v). v \<noteq> JUndef) kvs)) @ [CHR 0x7D]"

section \<open>Texts that JSON.parse accepts\<close>

definition json_ws :: "char \<Rightarrow> bool" where
  "json_ws c \<longleftrightarrow> (let n = of_char c :: nat in n = 9 \<or> n = 10 \<or> n = 13 \<or> n = 32)"

definition skip_ws :: "string \<Rightarrow> string" where
  "skip_ws s = dropWhile json_ws s"

definition is_hex :: "char \<Rightarrow> bool" where
  "is_hex c \<longleftrightarrow> (let n = of_char c :: nat in
     (48 \<le> n \<and> n \<le> 57) \<or> (65 \<le> n \<and> n \<le> 70) \<or> (97 \<le> n \<and> n \<le> 102))"

text \<open>The rest of a string literal after its opening quote; the rest of the text, if it closes.\<close>

fun scan_string :: "string \<Rightarrow> string option" where
  "scan_string [] = None"
| "scan_string (c # r) =
     (let n = of_char c :: nat in
      if n = 34 then Some r
      else if n < 32 then None
      else if n = 92 then
        (case r of
          [] \<Rightarrow> None
        | e # r' \<Rightarrow>
          if e = CHR ''u'' then
            (if 4 \<le> length r' \<and> list_all is_hex (take 4 r') then scan_string (drop 4 r') else None)
          else if (of_char e :: nat) = 34 \<or> (of_char e :: nat) = 92 \<or> e \<in> set ''/bfnrt'' then scan_string r'
          else None)
      else scan_string r)"

definition scan_int :: "string \<Rightarrow> string option" where
  "scan_int s = (case s of
      [] \<Rightarrow> None
    | c # r \<Rightarrow> if c = CHR ''0'' then Some r else if is_digit c then Some (dropWhile is_digit r) else None)"

definition scan_frac :: "string \<Rightarrow> string option" where
  "scan_frac s = (case s of
      [] \<Rightarrow> Some []
    | c # r \<Rightarrow> if c = CHR ''.'' then (if takeWhile is_digit r = [] then None else Some (dropWhile is_digit r)) else Some s)"

definition scan_exp :: "string \<Rightarrow> string option" where
  "scan_exp s = (case s of
      [] \<Rightarrow> Some []
    | c # r \<Rightarrow> if c = CHR ''e'' \<or> c = CHR ''E'' then
        (let r' = (case r of d # r'' \<Rightarrow> if d = CHR ''+'' \<or> d = CHR ''-'' then r'' else r | [] \<Rightarrow> [])
         in if takeWhile is_digit r' = [] then None else Some (dropWhile is_digit r'))
      else Some s)"

definition scan_number :: "string \<Rightarrow> string option" where
  "scan_number s = (let s' = (case s of c # r \<Rightarrow> if c = CHR ''-'' then r else s | [] \<Rightarrow> []) in
     Option.bind (scan_int s') (\<lambda>r. Option.bind (scan_frac r) scan_exp))"

definition strip_prefix :: "string \<Rightarrow> string \<Rightarrow> string option" where
  "strip_prefix p s = (if prefix p s then Some (drop (length p) s) else None)"

text \<open>
  One value, the elements of an array after the first, and the members of an object.  Every
  call spends one unit of fuel and some text, so the length of the text is fuel enough.
\<close>

fun scan_value :: "nat \<Rightarrow> string \<Rightarrow> string option"
  and scan_elements :: "nat \<Rightarrow> string \<Rightarrow> string option"
  and scan_members :: "nat \<Rightarrow> string \<Rightarrow> string option" where
  "scan_value 0 s = None"
| "scan_value (Suc k) s = (case skip_ws s of
      [] \<Rightarrow> None
    | c # r \<Rightarrow>
      if (of_char c :: nat) = 34 then scan_string r
      else if c = CHR ''['' then
        (case skip_ws r of [] \<Rightarrow> None
         | d # r' \<Rightarrow> if d = CHR '']'' then Some r' else scan_elements k r)
      else if c = CHR 0x7B then
        (case skip_ws r of [] \<Rightarrow> None
         | d # r' \<Rightarrow> if d = CHR 0x7D then Some r' else scan_members k r)
      else (case strip_prefix ''true'' (c # r) of Some r' \<Rightarrow> Some r' | None \<Rightarrow>
           (case strip_prefix ''false'' (c # r) of Some r' \<Rightarrow> Some r' | None \<Rightarrow>
           (case strip_prefix ''null'' (c # r) of Some r' \<Rightarrow> Some r' | None \<Rightarrow> scan_number (c # r)))))"
| "scan_elements 0 s = None"
| "scan_elements (Suc k) s = Option.bind (scan_value k s) (\<lambda>r.
      case skip_ws r of [] \<Rightarrow> None
      | c # r' \<Rightarrow> if c = CHR '','' then scan_elements k r' else if c = CHR '']'' then Some r' else None)"
| "scan_members 0 s = None"
| "scan_members (Suc k) s = (case skip_ws s of
      [] \<Rightarrow> None
    | q # r \<Rightarrow> if (of_char q :: nat) \<noteq> 34 then None else
      Option.bind (scan_string r) (\<lambda>r1. case skip_ws r1 of [] \<Rightarrow> None
      | c # r2 \<Rightarrow> if c \<noteq> CHR '':'' then None else
        Option.bind (scan_value k r2) (\<lambda>r3. case skip_ws r3 of [] \<Rightarrow> None
        | d # r4 \<Rightarrow> if d = CHR '','' then scan_members k r4 else if d = CHR 0x7D then Some r4 else None)))"

definition json_text :: "string \<Rightarrow> bool" where
  "json_text s \<longleftrightarrow> (case scan_value (2 * length s + 2) s of Some r \<Rightarrow> skip_ws r = [] | None \<Rightarrow> False)"

end
