(* ===== verification/ActionLifecycle.thy ===== *)
theory ActionLifecycle
  imports JS_Value
begin

text \<open>
  The commercial action lifecycle: \<open>lib/brain/commercial/action-lifecycle\<close> (\<open>types.ts\<close>,
  \<open>constants.ts\<close>, \<open>validateActionLifecycle.ts\<close>) and the sanitiser it calls,
  \<open>sanitizeCommercialObject\<close> of \<open>lib/brain/commercial/context/adapters.ts\<close>.
  A union of string literals is a datatype with a \<open>_name\<close> function into the literals; the
  \<open>normalize*\<close> functions read an \<open>unknown\<close> value back into it.
\<close>

section \<open>Types and constants\<close>

datatype commercial_action_type = Send_whatsapp_reply | Schedule_followup | Create_internal_task
  | Prepare_quote_draft | Take_over_case | Pause_ai | Request_more_context_action
  | Mark_lost_candidate | No_action

datatype commercial_action_status = Draft | Proposed | Requires_review | Approved | Rejected | Edited
  | Blocked | Planned | Scheduled | Executing | Executed | Failed | Cancelled | Expired

datatype operator_review_decision = Approve | Reject | Edit | Request_more_context | Take_over
  | Mark_not_useful

datatype approval_requirement = Approval_none | Operator_review | Manager_review | Approval_blocked

datatype risk_level = Risk_low | Risk_medium | Risk_high | Risk_critical | Risk_unknown

datatype action_channel = Whatsapp | Email | Internal | Unknown_channel

datatype validation_code = Valid | Invalid_root | Invalid_status | Invalid_action_type
  | Invalid_review_decision | Invalid_identifier | Invalid_channel | Missing_idempotency_key
  | Invalid_transition | Terminal_status_protected | Execution_not_enabled | Unknown_issue

primrec action_type_name :: "commercial_action_type \<Rightarrow> string" where
  "action_type_name Send_whatsapp_reply = ''send_whatsapp_reply''"
| "action_type_name Schedule_followup = ''schedule_followup''"
| "action_type_name Create_internal_task = ''create_internal_task''"
| "action_type_name Prepare_quote_draft = ''prepare_quote_draft''"
| "action_type_name Take_over_case = ''take_over_case''"
| "action_type_name Pause_ai = ''pause_ai''"
| "action_type_name Request_more_context_action = ''request_more_context''"
| "action_type_name Mark_lost_candidate = ''mark_lost_candidate''"
| "action_type_name No_action = ''no_action''"

primrec status_name :: "commercial_action_status \<Rightarrow> string" where
  "status_name Draft = ''draft''"
| "status_name Proposed = ''proposed''"
| "status_name Requires_review = ''requires_review''"
| "status_name Approved = ''approved''"
| "status_name Rejected = ''rejected''"
| "status_name Edited = ''edited''"
| "status_name Blocked = ''blocked''"
| "status_name Planned = ''planned''"
| "status_name Scheduled = ''scheduled''"
| "status_name Executing = ''executing''"
| "status_name Executed = ''executed''"
| "status_name Failed = ''failed''"
| "status_name Cancelled = ''cancelled''"
| "status_name Expired = ''expired''"

primrec review_decision_name :: "operator_review_decision \<Rightarrow> string" where
  "review_decision_name Approve = ''approve''"
| "review_decision_name Reject = ''reject''"
| "review_decision_name Edit = ''edit''"
| "review_decision_name Request_more_context = ''request_more_context''"
| "review_decision_name Take_over = ''take_over''"
| "review_decision_name Mark_not_useful = ''mark_not_useful''"

primrec approval_name :: "approval_requirement \<Rightarrow> string" where
  "approval_name Approval_none = ''none''"
| "approval_name Operator_review = ''operator_review''"
| "approval_name Manager_review = ''manager_review''"
| "approval_name Approval_blocked = ''blocked''"

primrec risk_name :: "risk_level \<Rightarrow> string" where
  "risk_name Risk_low = ''low''"
| "risk_name Risk_medium = ''medium''"
| "risk_name Risk_high = ''high''"
| "risk_name Risk_critical = ''critical''"
| "risk_name Risk_unknown = ''unknown''"

primrec channel_name :: "action_channel \<Rightarrow> string" where
  "channel_name Whatsapp = ''whatsapp''"
| "channel_name Email = ''email''"
| "channel_name Internal = ''internal''"
| "channel_name Unknown_channel = ''unknown''"

primrec code_name :: "validation_code \<Rightarrow> string" where
  "code_name Valid = ''valid''"
| "code_name Invalid_root = ''invalid_root''"
| "code_name Invalid_status = ''invalid_status''"
| "code_name Invalid_action_type = ''invalid_action_type''"
| "code_name Invalid_review_decision = ''invalid_review_decision''"
| "code_name Invalid_identifier = ''invalid_identifier''"
| "code_name Invalid_channel = ''invalid_channel''"
| "code_name Missing_idempotency_key = ''missing_idempotency_key''"
| "code_name Invalid_transition = ''invalid_transition''"
| "code_name Terminal_status_protected = ''terminal_status_protected''"
| "code_name Execution_not_enabled = ''execution_not_enabled_in_p1k_011a''"
| "code_name Unknown_issue = ''unknown_issue''"

definition COMMERCIAL_ACTION_TYPES :: "commercial_action_type list" where
  "COMMERCIAL_ACTION_TYPES = [Send_whatsapp_reply, Schedule_followup, Create_internal_task,
     Prepare_quote_draft, Take_over_case, Pause_ai, Request_more_context_action, Mark_lost_candidate, No_action]"

definition COMMERCIAL_ACTION_STATUSES :: "commercial_action_status list" where
  "COMMERCIAL_ACTION_STATUSES = [Draft, Proposed, Requires_review, Approved, Rejected, Edited, Blocked,
     Planned, Scheduled, Executing, Executed, Failed, Cancelled, Expired]"

definition OPERATOR_REVIEW_DECISIONS :: "operator_review_decision list" where
  "OPERATOR_REVIEW_DECISIONS = [Approve, Reject, Edit, Request_more_context, Take_over, Mark_not_useful]"

definition COMMERCIAL_ACTION_APPROVAL_REQUIREMENTS :: "approval_requirement list" where
  "COMMERCIAL_ACTION_APPROVAL_REQUIREMENTS = [Approval_none, Operator_review, Manager_review, Approval_blocked]"

definition COMMERCIAL_ACTION_RISK_LEVELS :: "risk_level list" where
  "COMMERCIAL_ACTION_RISK_LEVELS = [Risk_low, Risk_medium, Risk_high, Risk_critical, Risk_unknown]"

definition COMMERCIAL_ACTION_CHANNELS :: "action_channel list" where
  "COMMERCIAL_ACTION_CHANNELS = [Whatsapp, Email, Internal, Unknown_channel]"

definition COMMERCIAL_ACTION_EXECUTION_STATUSES :: "commercial_action_status list" where
  "COMMERCIAL_ACTION_EXECUTION_STATUSES = [Planned, Scheduled, Executing, Executed, Failed, Cancelled]"

definition COMMERCIAL_ACTION_TERMINAL_STATUSES :: "commercial_action_status list" where
  "COMMERCIAL_ACTION_TERMINAL_STATUSES = [Rejected, Blocked, Cancelled, Expired, Executed, Failed]"

definition COMMERCIAL_ACTION_LIFECYCLE_ALLOWED_TRANSITIONS :: "string list" where
  "COMMERCIAL_ACTION_LIFECYCLE_ALLOWED_TRANSITIONS = [
     ''draft->proposed'', ''proposed->requires_review'', ''requires_review->approved'',
     ''requires_review->rejected'', ''requires_review->edited'', ''edited->approved'',
     ''proposed->planned'', ''approved->planned'', ''planned->scheduled'', ''scheduled->scheduled'',
     ''proposed->blocked'', ''approved->blocked'', ''planned->blocked'', ''scheduled->blocked'',
     ''proposed->cancelled'', ''approved->cancelled'', ''planned->cancelled'', ''scheduled->cancelled'',
     ''proposed->expired'', ''approved->expired'', ''planned->expired'', ''scheduled->expired'']"

record proposed_action =
  pa_actionId :: string
  pa_decisionId :: "string option"
  pa_opportunityId :: "string option"
  pa_caseId :: "string option"
  pa_messageId :: "string option"
  pa_type :: commercial_action_type
  pa_status :: commercial_action_status
  pa_channel :: action_channel
  pa_riskLevel :: risk_level
  pa_approvalRequirement :: approval_requirement
  pa_draftPayload :: json
  pa_finalPayload :: json
  pa_reason :: string
  pa_blockedReasons :: "string list"
  pa_idempotencyKey :: string
  pa_executable :: bool
  pa_createdAt :: string
  pa_updatedAt :: "string option"

record action_decision =
  ad_decisionId :: string
  ad_opportunityId :: "string option"
  ad_caseId :: "string option"
  ad_messageId :: "string option"
  ad_nextAction :: proposed_action
  ad_rationale :: string
  ad_createdAt :: string

record review_draft =
  rd_reviewId :: string
  rd_actionId :: string
  rd_decision :: operator_review_decision
  rd_editedPayload :: json
  rd_comment :: "string option"
  rd_reviewerId :: "string option"
  rd_createdAt :: string
  rd_persisted :: bool

record command_preview =
  cp_commandId :: string
  cp_actionId :: string
  cp_commandType :: string
  cp_payloadPreview :: json
  cp_targetChannel :: string
  cp_targetRecipient :: "string option"
  cp_canExecute :: bool
  cp_blockedReasons :: "string list"

record 'a object_validation =
  ov_valid :: bool
  ov_code :: validation_code
  ov_reason :: string
  ov_value :: "'a option"
  ov_warnings :: "string list"

record transition_validation =
  tv_allowed :: bool
  tv_code :: validation_code
  tv_reason :: string
  tv_fromStatus :: "commercial_action_status option"
  tv_toStatus :: "commercial_action_status option"
  tv_actionType :: "commercial_action_type option"
  tv_reviewDecision :: "operator_review_decision option"
  tv_blockedReasons :: "string list"
  tv_warnings :: "string list"
  tv_executionNotEnabled :: bool
  tv_checkedAt :: string
  tv_metadata :: json

text \<open>\<open>string | Date\<close>: a text, or a \<open>Date\<close> with its time value.\<close>

datatype time_input = Time_text string | Time_date "int option"

record transition_input =
  ti_fromStatus :: json
  ti_toStatus :: json
  ti_actionType :: json
  ti_reviewDecision :: json
  ti_currentTime :: time_input
  ti_metadata :: json

section \<open>Reading unknown values\<close>

text \<open>The module's \<open>asText\<close>: trimmed non-blank text, or the numeral of a number.\<close>

definition value_text :: "json \<Rightarrow> string option" where
  "value_text v = (case v of JStr s \<Rightarrow> asText (Some s) | JNum n \<Rightarrow> Some (int_to_string n) | _ \<Rightarrow> None)"

definition asIsoString :: "json \<Rightarrow> string option" where
  "asIsoString v = (case value_text v of None \<Rightarrow> None | Some t \<Rightarrow> map_option iso_of_time (date_parse t))"

definition asStringArray :: "json \<Rightarrow> string list" where
  "asStringArray v = (case v of JArr xs \<Rightarrow> js_unique (List.map_filter value_text xs) | _ \<Rightarrow> [])"

definition isOneOf :: "('e \<Rightarrow> string) \<Rightarrow> 'e list \<Rightarrow> json \<Rightarrow> 'e option" where
  "isOneOf name values v = find (\<lambda>e. v = JStr (name e)) values"

definition normalizeChannel :: "json \<Rightarrow> action_channel option" where
  "normalizeChannel v = isOneOf channel_name COMMERCIAL_ACTION_CHANNELS v"

definition normalizeActionType :: "json \<Rightarrow> commercial_action_type option" where
  "normalizeActionType v = isOneOf action_type_name COMMERCIAL_ACTION_TYPES v"

definition normalizeStatus :: "json \<Rightarrow> commercial_action_status option" where
  "normalizeStatus v = isOneOf status_name COMMERCIAL_ACTION_STATUSES v"

definition normalizeRiskLevel :: "json \<Rightarrow> risk_level option" where
  "normalizeRiskLevel v = isOneOf risk_name COMMERCIAL_ACTION_RISK_LEVELS v"

definition normalizeApprovalRequirement :: "json \<Rightarrow> approval_requirement option" where
  "normalizeApprovalRequirement v = isOneOf approval_name COMMERCIAL_ACTION_APPROVAL_REQUIREMENTS v"

definition normalizeReviewDecision :: "json \<Rightarrow> operator_review_decision option" where
  "normalizeReviewDecision v = isOneOf review_decision_name OPERATOR_REVIEW_DECISIONS v"

text \<open>\<open>v === null || v === undefined ? null : f v\<close>\<close>

definition unless_nullish :: "(json \<Rightarrow> 'b option) \<Rightarrow> json \<Rightarrow> 'b option" where
  "unless_nullish f v = (if is_nullish v then None else f v)"

section \<open>Sanitising metadata\<close>

definition isSensitiveKey :: "string \<Rightarrow> bool" where
  "isSensitiveKey key = (let normalized = js_lower key in
     list_ex (js_includes normalized)
       [''authorization'', ''token'', ''secret'', ''password'', ''credential'', ''cookie'', ''header'',
        ''payload'', ''webhook'', ''session''])"

record sanitize_state =
  ss_applied :: bool
  ss_removedKeys :: "string list"

fun sanitizeValue :: "json \<Rightarrow> sanitize_state \<Rightarrow> json \<times> sanitize_state"
  and sanitizeItems :: "json list \<Rightarrow> sanitize_state \<Rightarrow> json list \<times> sanitize_state"
  and sanitizeEntries :: "(string \<times> json) list \<Rightarrow> sanitize_state \<Rightarrow> (string \<times> json) list \<times> sanitize_state" where
  "sanitizeValue JNull st = (JNull, st)"
| "sanitizeValue JUndef st = (JUndef, st)"
| "sanitizeValue (JStr s) st = (JStr s, st)"
| "sanitizeValue (JBool b) st = (JBool b, st)"
| "sanitizeValue (JNum n) st = (JNum n, st)"
| "sanitizeValue (JArr xs) st = (case sanitizeItems xs st of (ys, st') \<Rightarrow>
     (JArr (filter (\<lambda>y. y \<noteq> JUndef) ys), st'))"
| "sanitizeValue (JObj kvs) st = (case sanitizeEntries kvs st of (out, st') \<Rightarrow> (JObj out, st'))"
| "sanitizeItems [] st = ([], st)"
| "sanitizeItems (x # xs) st = (case sanitizeValue x st of (y, st') \<Rightarrow>
     (case sanitizeItems xs st' of (ys, st'') \<Rightarrow> (y # ys, st'')))"
| "sanitizeEntries [] st = ([], st)"
| "sanitizeEntries ((key, nested) # rest) st =
     (if isSensitiveKey key
      then sanitizeEntries rest (st\<lparr>ss_applied := True, ss_removedKeys := ss_removedKeys st @ [key]\<rparr>)
      else (case sanitizeValue nested st of (w, st') \<Rightarrow>
             (case sanitizeEntries rest st' of (out, st'') \<Rightarrow>
               (if w \<noteq> JUndef then (key, w) # out else out, st''))))"

record sanitized_object =
  so_value :: "json option"
  so_applied :: bool
  so_sanitizedFields :: "string list"

definition sanitizeCommercialObject :: "json \<Rightarrow> sanitized_object" where
  "sanitizeCommercialObject v =
     (case sanitizeValue v \<lparr>ss_applied = False, ss_removedKeys = []\<rparr> of (sanitized, st) \<Rightarrow>
       \<lparr>so_value = (if is_record sanitized then Some sanitized else None),
        so_applied = ss_applied st,
        so_sanitizedFields = js_unique (ss_removedKeys st)\<rparr>)"

definition normalizeMetadata :: "json \<Rightarrow> json" where
  "normalizeMetadata metadata =
     (case so_value (sanitizeCommercialObject (nullish_or metadata (JObj []))) of
        None \<Rightarrow> JObj [] | Some v \<Rightarrow> v)"

definition normalizeCurrentTime :: "time_input \<Rightarrow> string" where
  "normalizeCurrentTime value =
     (case (case value of Time_date t \<Rightarrow> t | Time_text s \<Rightarrow> date_parse s) of
        None \<Rightarrow> iso_of_time 0 | Some t \<Rightarrow> iso_of_time t)"

section \<open>Structural validation\<close>

definition invalid_object :: "validation_code \<Rightarrow> string \<Rightarrow> 'a object_validation" where
  "invalid_object code reason =
     \<lparr>ov_valid = False, ov_code = code, ov_reason = reason, ov_value = None, ov_warnings = []\<rparr>"

text \<open>\<open>if (!field) return { valid: false, ... }\<close>, then the rest with the field.\<close>

definition require :: "validation_code \<Rightarrow> string \<Rightarrow> 'f option \<Rightarrow> ('f \<Rightarrow> 'a object_validation) \<Rightarrow> 'a object_validation" where
  "require code reason field rest = (case field of None \<Rightarrow> invalid_object code reason | Some x \<Rightarrow> rest x)"

definition valid_object :: "string \<Rightarrow> 'a \<Rightarrow> 'a object_validation" where
  "valid_object reason v =
     \<lparr>ov_valid = True, ov_code = Valid, ov_reason = reason, ov_value = Some v, ov_warnings = []\<rparr>"

definition validateCommercialProposedAction :: "json \<Rightarrow> proposed_action object_validation" where
  "validateCommercialProposedAction value =
    (if \<not> is_record value then invalid_object Invalid_root ''Root value must be an object.'' else
     let decisionId = unless_nullish value_text (jget value ''decisionId'');
         opportunityId = unless_nullish value_text (jget value ''opportunityId'');
         caseId = unless_nullish value_text (jget value ''caseId'');
         messageId = unless_nullish value_text (jget value ''messageId'');
         updatedAt = unless_nullish asIsoString (jget value ''updatedAt'');
         blockedReasons = asStringArray (jget value ''blockedReasons'');
         draftPayload = jget value ''draftPayload'';
         finalPayload = nullish_or (jget value ''finalPayload'') JNull
     in require Invalid_identifier ''actionId is required.'' (value_text (jget value ''actionId'')) (\<lambda>actionId.
        require Invalid_action_type ''type is not supported.'' (normalizeActionType (jget value ''type'')) (\<lambda>type'.
        require Invalid_status ''status is not supported.'' (normalizeStatus (jget value ''status'')) (\<lambda>status.
        require Invalid_channel ''channel is not supported.'' (normalizeChannel (jget value ''channel'')) (\<lambda>channel.
        require Invalid_root ''riskLevel is not supported.'' (normalizeRiskLevel (jget value ''riskLevel'')) (\<lambda>riskLevel.
        require Invalid_root ''approvalRequirement is not supported.'' (normalizeApprovalRequirement (jget value ''approvalRequirement'')) (\<lambda>approvalRequirement.
        require Missing_idempotency_key ''idempotencyKey is required.'' (value_text (jget value ''idempotencyKey'')) (\<lambda>idempotencyKey.
        require Invalid_root ''reason is required.'' (value_text (jget value ''reason'')) (\<lambda>reason.
        require Invalid_root ''createdAt must be an ISO timestamp.'' (asIsoString (jget value ''createdAt'')) (\<lambda>createdAt.
        if jget value ''executable'' \<noteq> JBool False
          then invalid_object Invalid_root ''executable must remain false.''
        else valid_object ''Commercial proposed action is structurally valid.''
          \<lparr>pa_actionId = actionId, pa_decisionId = decisionId, pa_opportunityId = opportunityId,
           pa_caseId = caseId, pa_messageId = messageId, pa_type = type', pa_status = status,
           pa_channel = channel, pa_riskLevel = riskLevel, pa_approvalRequirement = approvalRequirement,
           pa_draftPayload = draftPayload, pa_finalPayload = finalPayload, pa_reason = reason,
           pa_blockedReasons = blockedReasons, pa_idempotencyKey = idempotencyKey,
           pa_executable = False, pa_createdAt = createdAt, pa_updatedAt = updatedAt\<rparr>))))))))))"

definition validateCommercialOperatorReviewDraft :: "json \<Rightarrow> review_draft object_validation" where
  "validateCommercialOperatorReviewDraft value =
    (if \<not> is_record value then invalid_object Invalid_root ''Root value must be an object.'' else
     let editedPayload = nullish_or (jget value ''editedPayload'') JNull;
         comment = unless_nullish value_text (jget value ''comment'');
         reviewerId = unless_nullish value_text (jget value ''reviewerId'')
     in require Invalid_identifier ''reviewId is required.'' (value_text (jget value ''reviewId'')) (\<lambda>reviewId.
        require Invalid_identifier ''actionId is required.'' (value_text (jget value ''actionId'')) (\<lambda>actionId.
        require Invalid_review_decision ''decision is not supported.'' (normalizeReviewDecision (jget value ''decision'')) (\<lambda>decision.
        require Invalid_root ''createdAt must be an ISO timestamp.'' (asIsoString (jget value ''createdAt'')) (\<lambda>createdAt.
        if jget value ''persisted'' \<noteq> JBool False
          then invalid_object Invalid_root ''persisted must remain false.''
        else valid_object ''Commercial operator review draft is structurally valid.''
          \<lparr>rd_reviewId = reviewId, rd_actionId = actionId, rd_decision = decision,
           rd_editedPayload = editedPayload, rd_comment = comment, rd_reviewerId = reviewerId,
           rd_createdAt = createdAt, rd_persisted = False\<rparr>)))))"

definition validateCommercialExecutableCommandPreview :: "json \<Rightarrow> command_preview object_validation" where
  "validateCommercialExecutableCommandPreview value =
    (if \<not> is_record value then invalid_object Invalid_root ''Root value must be an object.'' else
     let payloadPreview = jget value ''payloadPreview'';
         target = jget value ''target'';
         targetChannel = (if is_record target then value_text (jget target ''channel'') else None);
         recipient = (if is_record target then unless_nullish value_text (jget target ''recipient'') else None);
         blockedReasons = asStringArray (jget value ''blockedReasons'')
     in require Invalid_identifier ''commandId is required.'' (value_text (jget value ''commandId'')) (\<lambda>commandId.
        require Invalid_identifier ''actionId is required.'' (value_text (jget value ''actionId'')) (\<lambda>actionId.
        require Invalid_root ''commandType is required.'' (value_text (jget value ''commandType'')) (\<lambda>commandType.
        require Invalid_channel ''target.channel is required.'' (targetChannel) (\<lambda>channel.
        if jget value ''canExecute'' \<noteq> JBool False
          then invalid_object Invalid_root ''canExecute must remain false.''
        else valid_object ''Commercial executable command preview is structurally valid.''
          \<lparr>cp_commandId = commandId, cp_actionId = actionId, cp_commandType = commandType,
           cp_payloadPreview = payloadPreview, cp_targetChannel = channel, cp_targetRecipient = recipient,
           cp_canExecute = False, cp_blockedReasons = blockedReasons\<rparr>)))))"

definition validateCommercialActionDecision :: "json \<Rightarrow> action_decision object_validation" where
  "validateCommercialActionDecision value =
    (if \<not> is_record value then invalid_object Invalid_root ''Root value must be an object.'' else
     let opportunityId = unless_nullish value_text (jget value ''opportunityId'');
         caseId = unless_nullish value_text (jget value ''caseId'');
         messageId = unless_nullish value_text (jget value ''messageId'');
         nextActionResult = validateCommercialProposedAction (jget value ''nextAction'')
     in require Invalid_identifier ''decisionId is required.'' (value_text (jget value ''decisionId'')) (\<lambda>decisionId.
        require Invalid_root ''rationale is required.'' (value_text (jget value ''rationale'')) (\<lambda>rationale.
        require Invalid_root ''createdAt must be an ISO timestamp.'' (asIsoString (jget value ''createdAt'')) (\<lambda>createdAt.
        (case (if ov_valid nextActionResult then ov_value nextActionResult else None) of
          None \<Rightarrow> \<lparr>ov_valid = False, ov_code = ov_code nextActionResult,
                  ov_reason = ov_reason nextActionResult, ov_value = None,
                  ov_warnings = ov_warnings nextActionResult\<rparr>
        | Some nextAction \<Rightarrow> valid_object ''Commercial action decision is structurally valid.''
          \<lparr>ad_decisionId = decisionId, ad_opportunityId = opportunityId, ad_caseId = caseId,
           ad_messageId = messageId, ad_nextAction = nextAction\<lparr>pa_executable := False\<rparr>,
           ad_rationale = rationale, ad_createdAt = createdAt\<rparr>)))))"

section \<open>Transitions\<close>

definition isTerminalStatus :: "commercial_action_status \<Rightarrow> bool" where
  "isTerminalStatus s \<longleftrightarrow> s \<in> set COMMERCIAL_ACTION_TERMINAL_STATUSES"

definition isExecutionStatus :: "commercial_action_status \<Rightarrow> bool" where
  "isExecutionStatus s \<longleftrightarrow> s \<in> set COMMERCIAL_ACTION_EXECUTION_STATUSES"

definition normalizeTransitionKey :: "commercial_action_status \<Rightarrow> commercial_action_status \<Rightarrow> string" where
  "normalizeTransitionKey from to = status_name from @ ''->'' @ status_name to"

definition buildValidationResult :: "validation_code \<Rightarrow> bool \<Rightarrow> string \<Rightarrow> commercial_action_status option \<Rightarrow>
    commercial_action_status option \<Rightarrow> commercial_action_type option \<Rightarrow> operator_review_decision option \<Rightarrow>
    string list \<Rightarrow> bool \<Rightarrow> string \<Rightarrow> json \<Rightarrow> transition_validation" where
  "buildValidationResult code allowed reason fromStatus toStatus actionType reviewDecision
       blockedReasons executionNotEnabled checkedAt metadata =
     \<lparr>tv_allowed = allowed, tv_code = code, tv_reason = reason, tv_fromStatus = fromStatus,
      tv_toStatus = toStatus, tv_actionType = actionType, tv_reviewDecision = reviewDecision,
      tv_blockedReasons = js_unique blockedReasons, tv_warnings = js_unique [],
      tv_executionNotEnabled = executionNotEnabled, tv_checkedAt = checkedAt, tv_metadata = metadata\<rparr>"

definition validateActionLifecycleTransition :: "transition_input \<Rightarrow> transition_validation" where
  "validateActionLifecycleTransition input =
    (let checkedAt = normalizeCurrentTime (ti_currentTime input);
         metadata = normalizeMetadata (ti_metadata input);
         statusFrom = normalizeStatus (ti_fromStatus input);
         statusTo = normalizeStatus (ti_toStatus input);
         actionType = normalizeActionType (ti_actionType input);
         reviewDecision = normalizeReviewDecision (ti_reviewDecision input);
         result = (\<lambda>code allowed reason blocked notEnabled.
           buildValidationResult code allowed reason statusFrom statusTo actionType reviewDecision
             blocked notEnabled checkedAt metadata)
     in case (statusFrom, statusTo) of
       (Some from, Some to) \<Rightarrow>
         if actionType = None \<and> \<not> is_nullish (ti_actionType input) then
           result Invalid_action_type False ''actionType is not supported.'' [''invalid_action_type''] True
         else if \<not> is_nullish (ti_reviewDecision input) \<and> reviewDecision = None then
           result Invalid_review_decision False ''reviewDecision is not supported.'' [''invalid_review_decision''] True
         else if isTerminalStatus from \<and> from \<noteq> to then
           result Terminal_status_protected False ''Terminal statuses are protected and cannot transition.''
             [''terminal_status_protected''] True
         else if normalizeTransitionKey from to \<in> set COMMERCIAL_ACTION_LIFECYCLE_ALLOWED_TRANSITIONS then
           result Valid True ''Transition is allowed.'' [] False
         else if isExecutionStatus to then
           result Execution_not_enabled False ''execution_not_enabled_in_p1k_011a''
             [''execution_not_enabled_in_p1k_011a''] True
         else result Invalid_transition False ''Transition is not allowed.'' [''invalid_transition''] False
     | _ \<Rightarrow> result Invalid_status False ''fromStatus or toStatus is not supported.'' [''invalid_status''] True)"

section \<open>Facts about the readers\<close>

lemma normalizeStatus_name [simp]: "normalizeStatus (JStr (status_name s)) = Some s"
  by (cases s) (simp_all add: normalizeStatus_def isOneOf_def COMMERCIAL_ACTION_STATUSES_def)

lemma normalizeActionType_name [simp]: "normalizeActionType (JStr (action_type_name s)) = Some s"
  by (cases s) (simp_all add: normalizeActionType_def isOneOf_def COMMERCIAL_ACTION_TYPES_def)

lemma normalizeChannel_name [simp]: "normalizeChannel (JStr (channel_name s)) = Some s"
  by (cases s) (simp_all add: normalizeChannel_def isOneOf_def COMMERCIAL_ACTION_CHANNELS_def)

lemma normalizeRiskLevel_name [simp]: "normalizeRiskLevel (JStr (risk_name s)) = Some s"
  by (cases s) (simp_all add: normalizeRiskLevel_def isOneOf_def COMMERCIAL_ACTION_RISK_LEVELS_def)

lemma normalizeApproval_name [simp]: "normalizeApprovalRequirement (JStr (approval_name s)) = Some s"
  by (cases s) (simp_all add: normalizeApprovalRequirement_def isOneOf_def
      COMMERCIAL_ACTION_APPROVAL_REQUIREMENTS_def)

lemma normalizeStatus_Some: "normalizeStatus v = Some s \<longleftrightarrow> v = JStr (status_name s)"
proof
  assume "normalizeStatus v = Some s"
  then show "v = JStr (status_name s)"
    unfolding normalizeStatus_def isOneOf_def by (auto dest: find_Some_prop)
qed simp

lemma int_to_string_chars: "c \<in> set (int_to_string n) \<Longrightarrow> \<not> is_ws c"
proof -
  have d: "is_digit d \<Longrightarrow> \<not> is_ws d" for d by (auto simp: is_digit_def is_ws_def Let_def)
  have "\<not> is_ws CHR ''-''" by (simp add: is_ws_def)
  then show "c \<in> set (int_to_string n) \<Longrightarrow> \<not> is_ws c"
    using nat_to_string_digits d by (auto simp: int_to_string_def list_all_iff split: if_splits)
qed

lemma int_to_string_not_Nil [simp]: "int_to_string n \<noteq> []"
  by (simp add: int_to_string_def)

lemma js_trim_int_to_string [simp]: "js_trim (int_to_string n) = int_to_string n"
  by (rule js_trim_id) (metis int_to_string_chars hd_in_set last_in_set)

lemma value_text_stable: "value_text v = Some t \<Longrightarrow> value_text (JStr t) = Some t"
  by (auto simp: value_text_def asText_def Let_def split: json.splits if_splits)

lemma value_text_opt: "unless_nullish value_text v = t \<Longrightarrow> unless_nullish value_text (json_opt t) = t"
  by (cases t) (auto simp: unless_nullish_def dest: value_text_stable split: if_splits)

lemma asIsoString_stable: "asIsoString v = Some t \<Longrightarrow> asIsoString (JStr t) = Some t"
  by (auto simp: asIsoString_def value_text_def asText_def Let_def date_parse_iso_of_time
      dest!: date_parse_range split: option.splits json.splits if_splits)

lemma asIsoString_opt: "unless_nullish asIsoString v = t \<Longrightarrow> unless_nullish asIsoString (json_opt t) = t"
  by (cases t) (auto simp: unless_nullish_def dest: asIsoString_stable split: if_splits)

lemma map_filter_stable:
  "(\<And>x. x \<in> set xs \<Longrightarrow> f (g x) = Some x) \<Longrightarrow> List.map_filter f (map g xs) = xs"
  by (induction xs) (simp_all add: List.map_filter_simps)

lemma asStringArray_stable: "asStringArray (JArr (map JStr (asStringArray v))) = asStringArray v"
proof -
  have "value_text (JStr t) = Some t" if "t \<in> set (asStringArray v)" for t
    using that by (auto simp: asStringArray_def List.map_filter_def intro: value_text_stable split: json.splits)
  then have "List.map_filter value_text (map JStr (asStringArray v)) = asStringArray v"
    by (rule map_filter_stable)
  moreover have "distinct (asStringArray v)" by (simp add: asStringArray_def split: json.splits)
  ultimately show ?thesis by (subst asStringArray_def) (simp add: js_unique_id)
qed

lemma nullish_or_stable: "nullish_or (nullish_or v JNull) JNull = nullish_or v JNull"
  by (simp add: nullish_or_def)

lemma require_valid_iff:
  "ov_value (require code reason field rest) = Some v \<longleftrightarrow> (\<exists>x. field = Some x \<and> ov_value (rest x) = Some v)"
  by (cases field) (simp_all add: require_def invalid_object_def)

lemma require_Some [simp]: "require code reason (Some x) rest = rest x"
  by (simp add: require_def)

section \<open>Properties of the validators\<close>

text \<open>A proposed action written back as the object it was read from.\<close>

definition proposed_action_json :: "proposed_action \<Rightarrow> json" where
  "proposed_action_json a = JObj
     [(''actionId'', JStr (pa_actionId a)), (''decisionId'', json_opt (pa_decisionId a)),
      (''opportunityId'', json_opt (pa_opportunityId a)), (''caseId'', json_opt (pa_caseId a)),
      (''messageId'', json_opt (pa_messageId a)), (''type'', JStr (action_type_name (pa_type a))),
      (''status'', JStr (status_name (pa_status a))), (''channel'', JStr (channel_name (pa_channel a))),
      (''riskLevel'', JStr (risk_name (pa_riskLevel a))),
      (''approvalRequirement'', JStr (approval_name (pa_approvalRequirement a))),
      (''draftPayload'', pa_draftPayload a), (''finalPayload'', pa_finalPayload a),
      (''reason'', JStr (pa_reason a)), (''blockedReasons'', JArr (map JStr (pa_blockedReasons a))),
      (''idempotencyKey'', JStr (pa_idempotencyKey a)), (''executable'', JBool (pa_executable a)),
      (''createdAt'', JStr (pa_createdAt a)), (''updatedAt'', json_opt (pa_updatedAt a))]"

lemma valid_object_value [simp]: "ov_value (valid_object reason v) = Some v"
  by (simp add: valid_object_def)

lemma invalid_object_value [simp]: "ov_value (invalid_object code reason) = None"
  by (simp add: invalid_object_def)

lemma proposed_action_fields:
  assumes "ov_value (validateCommercialProposedAction v) = Some a"
  shows "value_text (jget v ''actionId'') = Some (pa_actionId a)"
    "normalizeActionType (jget v ''type'') = Some (pa_type a)"
    "normalizeStatus (jget v ''status'') = Some (pa_status a)"
    "normalizeChannel (jget v ''channel'') = Some (pa_channel a)"
    "normalizeRiskLevel (jget v ''riskLevel'') = Some (pa_riskLevel a)"
    "normalizeApprovalRequirement (jget v ''approvalRequirement'') = Some (pa_approvalRequirement a)"
    "value_text (jget v ''idempotencyKey'') = Some (pa_idempotencyKey a)"
    "value_text (jget v ''reason'') = Some (pa_reason a)"
    "asIsoString (jget v ''createdAt'') = Some (pa_createdAt a)"
    "pa_executable a = False"
    "unless_nullish value_text (jget v ''decisionId'') = pa_decisionId a"
    "unless_nullish value_text (jget v ''opportunityId'') = pa_opportunityId a"
    "unless_nullish value_text (jget v ''caseId'') = pa_caseId a"
    "unless_nullish value_text (jget v ''messageId'') = pa_messageId a"
    "unless_nullish asIsoString (jget v ''updatedAt'') = pa_updatedAt a"
    "asStringArray (jget v ''blockedReasons'') = pa_blockedReasons a"
    "nullish_or (jget v ''finalPayload'') JNull = pa_finalPayload a"
    "jget v ''executable'' = JBool False" "is_record v"
  using assms unfolding validateCommercialProposedAction_def Let_def
  by (auto simp: require_valid_iff simp del: jget_JObj split: if_split_asm)

text \<open>
  C32. A value that \<open>validateCommercialProposedAction\<close> accepts is in normal form: writing the
  accepted action back as an object and validating that object accepts it with the same action
  (identifiers trimmed, timestamps in the ISO form, reasons deduplicated, once and for all).
\<close>

theorem proposed_action_roundtrip:
  assumes "ov_value (validateCommercialProposedAction value) = Some a"
  shows "validateCommercialProposedAction (proposed_action_json a)
    = valid_object ''Commercial proposed action is structurally valid.'' a"
proof -
  note f = proposed_action_fields [OF assms]
  note stable = value_text_stable [OF f(1)] value_text_stable [OF f(7)] value_text_stable [OF f(8)]
    asIsoString_stable [OF f(9)] f(10) value_text_opt [OF f(11)] value_text_opt [OF f(12)]
    value_text_opt [OF f(13)] value_text_opt [OF f(14)] asIsoString_opt [OF f(15)]
  have r: "asStringArray (JArr (map JStr (pa_blockedReasons a))) = pa_blockedReasons a"
    using asStringArray_stable f(16) by metis
  have p: "nullish_or (pa_finalPayload a) JNull = pa_finalPayload a"
    using nullish_or_stable f(17) by metis
  have "a = \<lparr>pa_actionId = pa_actionId a, pa_decisionId = pa_decisionId a,
      pa_opportunityId = pa_opportunityId a, pa_caseId = pa_caseId a, pa_messageId = pa_messageId a,
      pa_type = pa_type a, pa_status = pa_status a, pa_channel = pa_channel a,
      pa_riskLevel = pa_riskLevel a, pa_approvalRequirement = pa_approvalRequirement a,
      pa_draftPayload = pa_draftPayload a, pa_finalPayload = pa_finalPayload a, pa_reason = pa_reason a,
      pa_blockedReasons = pa_blockedReasons a, pa_idempotencyKey = pa_idempotencyKey a,
      pa_executable = False, pa_createdAt = pa_createdAt a, pa_updatedAt = pa_updatedAt a\<rparr>"
    using f(10) by simp
  note eq = this [symmetric]
  show ?thesis
    unfolding validateCommercialProposedAction_def proposed_action_json_def
    by (simp add: stable r p eq)
qed

definition sample_proposed_action :: json where
  "sample_proposed_action = JObj
     [(''actionId'', JStr '' act-1 ''), (''type'', JStr ''send_whatsapp_reply''), (''status'', JStr ''proposed''),
      (''channel'', JStr ''whatsapp''), (''riskLevel'', JStr ''low''), (''approvalRequirement'', JStr ''none''),
      (''reason'', JStr ''follow up''), (''idempotencyKey'', JStr ''k-1''), (''executable'', JBool False),
      (''createdAt'', JStr ''2026-01-05''), (''updatedAt'', JStr ''yesterday'')]"

lemma proposed_action_roundtrip_witness:
  "\<exists>a. ov_value (validateCommercialProposedAction sample_proposed_action) = Some a \<and>
     validateCommercialProposedAction (proposed_action_json a)
       = valid_object ''Commercial proposed action is structurally valid.'' a"
proof -
  have "ov_value (validateCommercialProposedAction sample_proposed_action) \<noteq> None" by code_simp
  then obtain a where a: "ov_value (validateCommercialProposedAction sample_proposed_action) = Some a" by blast
  then show ?thesis using proposed_action_roundtrip [OF a] by blast
qed

text \<open>
  The check of \<open>updatedAt\<close> in \<open>validateCommercialProposedAction\<close> never fires: an
  object that is valid but for an \<open>updatedAt\<close> that is no timestamp is accepted, with the
  field silently dropped.
\<close>

theorem invalid_updatedAt_is_dropped:
  assumes "ov_value (validateCommercialProposedAction (JObj kvs)) = Some a"
    and "asIsoString u = None"
  shows "ov_value (validateCommercialProposedAction (JObj ((''updatedAt'', u) # kvs)))
    = Some (a\<lparr>pa_updatedAt := None\<rparr>)"
proof -
  note f = proposed_action_fields [OF assms(1)]
  have u: "unless_nullish asIsoString u = None" using assms(2) by (simp add: unless_nullish_def)
  obtain v where v: "v = JObj ((''updatedAt'', u) # kvs)" by blast
  have same: "jget v k = jget (JObj kvs) k" if "k \<noteq> ''updatedAt''" for k using that by (simp add: v)
  have "is_record v" "jget v ''updatedAt'' = u" by (simp_all add: v)
  note g = this same [of "''actionId''", simplified] same [of "''type''", simplified] same [of "''status''", simplified]
    same [of "''channel''", simplified] same [of "''riskLevel''", simplified]
    same [of "''approvalRequirement''", simplified] same [of "''idempotencyKey''", simplified]
    same [of "''reason''", simplified] same [of "''createdAt''", simplified]
    same [of "''decisionId''", simplified] same [of "''opportunityId''", simplified]
    same [of "''caseId''", simplified] same [of "''messageId''", simplified]
    same [of "''blockedReasons''", simplified] same [of "''draftPayload''", simplified]
    same [of "''finalPayload''", simplified] same [of "''executable''", simplified]
  have d: "pa_draftPayload a = jget (JObj kvs) ''draftPayload''"
    using assms(1) unfolding validateCommercialProposedAction_def Let_def
    by (auto simp: require_valid_iff simp del: jget_JObj split: if_split_asm)
  show ?thesis
    unfolding validateCommercialProposedAction_def Let_def v [symmetric]
    using f(10) d u by (cases a) (simp add: g f [simplified])
qed

lemma invalid_updatedAt_is_dropped_witness:
  "\<exists>kvs a u. ov_value (validateCommercialProposedAction (JObj kvs)) = Some a \<and> asIsoString u = None \<and>
     ov_value (validateCommercialProposedAction (JObj ((''updatedAt'', u) # kvs)))
       = Some (a\<lparr>pa_updatedAt := None\<rparr>)"
proof -
  obtain kvs where kvs: "sample_proposed_action = JObj kvs" by (simp add: sample_proposed_action_def)
  have "ov_value (validateCommercialProposedAction sample_proposed_action) \<noteq> None" by code_simp
  then obtain a where a: "ov_value (validateCommercialProposedAction (JObj kvs)) = Some a"
    unfolding kvs by blast
  have u: "asIsoString (JStr ''not a date'') = None" by code_simp
  show ?thesis using a u invalid_updatedAt_is_dropped [OF a u] by blast
qed

section \<open>The transition graph\<close>

definition lifecycle_edges :: "(commercial_action_status \<times> commercial_action_status) list" where
  "lifecycle_edges =
     [(Draft, Proposed), (Proposed, Requires_review), (Requires_review, Approved), (Requires_review, Rejected),
      (Requires_review, Edited), (Edited, Approved), (Proposed, Planned), (Approved, Planned),
      (Planned, Scheduled), (Scheduled, Scheduled), (Proposed, Blocked), (Approved, Blocked),
      (Planned, Blocked), (Scheduled, Blocked), (Proposed, Cancelled), (Approved, Cancelled),
      (Planned, Cancelled), (Scheduled, Cancelled), (Proposed, Expired), (Approved, Expired),
      (Planned, Expired), (Scheduled, Expired)]"

lemma all_statuses: "s \<in> set COMMERCIAL_ACTION_STATUSES"
  by (cases s) (simp_all add: COMMERCIAL_ACTION_STATUSES_def)

lemma transition_key_edges:
  "normalizeTransitionKey a b \<in> set COMMERCIAL_ACTION_LIFECYCLE_ALLOWED_TRANSITIONS \<longleftrightarrow> (a, b) \<in> set lifecycle_edges"
proof -
  have "list_all (\<lambda>a. list_all (\<lambda>b.
      List.member COMMERCIAL_ACTION_LIFECYCLE_ALLOWED_TRANSITIONS (normalizeTransitionKey a b)
        = List.member lifecycle_edges (a, b)) COMMERCIAL_ACTION_STATUSES) COMMERCIAL_ACTION_STATUSES"
    by code_simp
  then show ?thesis using all_statuses by (auto simp: list_all_iff)
qed

lemma edge_not_terminal: "(a, b) \<in> set lifecycle_edges \<Longrightarrow> \<not> isTerminalStatus a"
  by (auto simp: lifecycle_edges_def isTerminalStatus_def COMMERCIAL_ACTION_TERMINAL_STATUSES_def)

lemma isTerminalStatus_simps [simp]:
  "isTerminalStatus s \<longleftrightarrow> s = Rejected \<or> s = Blocked \<or> s = Cancelled \<or> s = Expired \<or> s = Executed \<or> s = Failed"
  by (simp add: isTerminalStatus_def COMMERCIAL_ACTION_TERMINAL_STATUSES_def)

lemma buildValidationResult_simps [simp]:
  "tv_allowed (buildValidationResult c al r f t a d b n k m) = al"
  "tv_code (buildValidationResult c al r f t a d b n k m) = c"
  "tv_fromStatus (buildValidationResult c al r f t a d b n k m) = f"
  "tv_toStatus (buildValidationResult c al r f t a d b n k m) = t"
  "tv_blockedReasons (buildValidationResult c al r f t a d b n k m) = js_unique b"
  by (simp_all add: buildValidationResult_def)

lemma transition_characterization:
  "tv_allowed (validateActionLifecycleTransition input) \<longleftrightarrow>
     (\<exists>a b. ti_fromStatus input = JStr (status_name a) \<and> ti_toStatus input = JStr (status_name b) \<and>
        (a, b) \<in> set lifecycle_edges \<and>
        (is_nullish (ti_actionType input) \<or> (\<exists>t. normalizeActionType (ti_actionType input) = Some t)) \<and>
        (is_nullish (ti_reviewDecision input) \<or> (\<exists>d. normalizeReviewDecision (ti_reviewDecision input) = Some d)))"
proof (cases "normalizeStatus (ti_fromStatus input)")
  case None
  then show ?thesis
    by (auto simp: validateActionLifecycleTransition_def Let_def split: option.splits)
next
  case fr: (Some a)
  show ?thesis
  proof (cases "normalizeStatus (ti_toStatus input)")
    case None
    then show ?thesis
      by (auto simp: validateActionLifecycleTransition_def Let_def split: option.splits)
  next
    case to: (Some b)
    have fs: "ti_fromStatus input = JStr (status_name a')
      \<longleftrightarrow> a' = a" "ti_toStatus input = JStr (status_name b') \<longleftrightarrow> b' = b" for a' b'
      using fr to by (metis normalizeStatus_Some normalizeStatus_name option.inject)+
    show ?thesis using edge_not_terminal [of a b]
      by (auto simp: validateActionLifecycleTransition_def Let_def fr to fs transition_key_edges
          simp del: isTerminalStatus_simps)
  qed
qed

text \<open>
  C29. \<open>validateActionLifecycleTransition\<close> allows exactly the transitions of the 22-edge graph,
  on known statuses, with an action type and a review decision that are absent or known.
\<close>

theorem transition_allowed_iff:
  "tv_allowed (validateActionLifecycleTransition input) \<longleftrightarrow>
     (\<exists>a b. ti_fromStatus input = JStr (status_name a) \<and> ti_toStatus input = JStr (status_name b) \<and>
        (a, b) \<in> set lifecycle_edges \<and>
        (is_nullish (ti_actionType input) \<or> (\<exists>t. normalizeActionType (ti_actionType input) = Some t)) \<and>
        (is_nullish (ti_reviewDecision input) \<or> (\<exists>d. normalizeReviewDecision (ti_reviewDecision input) = Some d)))"
  by (rule transition_characterization)


text \<open>One accepted transition, and the histories of statuses an action can have (latest first).\<close>

inductive lifecycle_step :: "commercial_action_status \<Rightarrow> commercial_action_status \<Rightarrow> bool" where
  accepted: "tv_allowed (validateActionLifecycleTransition input) \<Longrightarrow>
    tv_fromStatus (validateActionLifecycleTransition input) = Some a \<Longrightarrow>
    tv_toStatus (validateActionLifecycleTransition input) = Some b \<Longrightarrow> lifecycle_step a b"

inductive lifecycle_history :: "commercial_action_status list \<Rightarrow> bool" where
  created: "lifecycle_history [Draft]"
| moved: "lifecycle_history (a # h) \<Longrightarrow> lifecycle_step a b \<Longrightarrow> lifecycle_history (b # a # h)"

lemma tv_statuses:
  "tv_fromStatus (validateActionLifecycleTransition input) = normalizeStatus (ti_fromStatus input)"
  "tv_toStatus (validateActionLifecycleTransition input) = normalizeStatus (ti_toStatus input)"
  by (auto simp: validateActionLifecycleTransition_def Let_def split: option.splits)

lemma lifecycle_step_iff: "lifecycle_step a b \<longleftrightarrow> (a, b) \<in> set lifecycle_edges"
proof
  assume "lifecycle_step a b"
  then show "(a, b) \<in> set lifecycle_edges"
  proof cases
    case (accepted input)
    from accepted(2,3) have "normalizeStatus (ti_fromStatus input) = Some a"
      "normalizeStatus (ti_toStatus input) = Some b" by (simp_all only: tv_statuses)
    with accepted(1) show ?thesis unfolding transition_characterization by auto
  qed
next
  assume e: "(a, b) \<in> set lifecycle_edges"
  let ?i = "\<lparr>ti_fromStatus = JStr (status_name a), ti_toStatus = JStr (status_name b), ti_actionType = JUndef,
    ti_reviewDecision = JUndef, ti_currentTime = Time_date None, ti_metadata = JUndef\<rparr>"
  show "lifecycle_step a b"
    by (rule accepted [of ?i]) (use e in \<open>simp_all add: transition_characterization tv_statuses\<close>, blast)
qed

inductive_cases lifecycle_historyE: "lifecycle_history (b # a # h)"

lemma lifecycle_edge_cases:
  "lifecycle_step a b \<longleftrightarrow> (a = Draft \<and> b = Proposed) \<or> (a = Proposed \<and> b = Requires_review) \<or>
     (a = Requires_review \<and> b \<in> {Approved, Rejected, Edited}) \<or> (a = Edited \<and> b = Approved) \<or>
     (a \<in> {Proposed, Approved} \<and> b = Planned) \<or> (a \<in> {Planned, Scheduled} \<and> b = Scheduled) \<or>
     (a \<in> {Proposed, Approved, Planned, Scheduled} \<and> b \<in> {Blocked, Cancelled, Expired})"
  unfolding lifecycle_step_iff lifecycle_edges_def by (cases a; cases b; simp)

lemma history_statuses: "lifecycle_history h \<Longrightarrow> set h \<inter> {Executing, Executed, Failed} = {}"
  by (induction rule: lifecycle_history.induct) (auto simp: lifecycle_edge_cases)

lemma history_review:
  "lifecycle_history h \<Longrightarrow> Approved \<in> set h \<or> Edited \<in> set h \<or> Rejected \<in> set h \<Longrightarrow> Requires_review \<in> set h"
  by (induction rule: lifecycle_history.induct) (auto simp: lifecycle_edge_cases)

text \<open>
  C30. In every history the validator accepts, no action is ever executing, executed or failed
  (execution stays outside this release), and an action that was approved, edited or rejected
  has been in review.
\<close>

theorem lifecycle_history_safe:
  assumes "lifecycle_history h"
  shows "set h \<inter> {Executing, Executed, Failed} = {} \<and>
    (if set h \<inter> {Approved, Edited, Rejected} = {} then True else Requires_review \<in> set h)"
  using history_statuses [OF assms] history_review [OF assms] by auto

lemma lifecycle_history_safe_witness:
  "lifecycle_history [Approved, Requires_review, Proposed, Draft] \<and>
   Requires_review \<in> set [Approved, Requires_review, Proposed, Draft]"
proof -
  have h: "lifecycle_history [Approved, Requires_review, Proposed, Draft]"
    by (intro lifecycle_history.intros) (simp_all add: lifecycle_edge_cases)
  then show ?thesis using lifecycle_history_safe [OF h] by simp
qed

primrec lifecycle_rank :: "commercial_action_status \<Rightarrow> nat" where
  "lifecycle_rank Draft = 0"
| "lifecycle_rank Proposed = 1"
| "lifecycle_rank Requires_review = 2"
| "lifecycle_rank Edited = 3"
| "lifecycle_rank Approved = 4"
| "lifecycle_rank Planned = 5"
| "lifecycle_rank Scheduled = 6"
| "lifecycle_rank Rejected = 7"
| "lifecycle_rank Blocked = 7"
| "lifecycle_rank Executing = 7"
| "lifecycle_rank Executed = 7"
| "lifecycle_rank Failed = 7"
| "lifecycle_rank Cancelled = 7"
| "lifecycle_rank Expired = 7"

lemma history_rank:
  "lifecycle_history h \<Longrightarrow> length (remdups_adj h) \<le> Suc (lifecycle_rank (hd h))"
proof (induction rule: lifecycle_history.induct)
  case created
  then show ?case by simp
next
  case (moved a h b)
  show ?case
  proof (cases "a = b")
    case True
    then show ?thesis using moved.IH by simp
  next
    case False
    then have "lifecycle_rank a < lifecycle_rank b" using moved.hyps(2) by (auto simp: lifecycle_edge_cases)
    then show ?thesis using moved.IH False by simp
  qed
qed

text \<open>
  C31. Every accepted history comes to rest: apart from re-scheduling a scheduled action, an
  action changes its status at most seven times.
\<close>

theorem lifecycle_history_bounded:
  assumes "lifecycle_history h"
  shows "length (remdups_adj h) \<le> 8"
proof -
  have "lifecycle_rank (hd h) \<le> 7" by (cases "hd h") simp_all
  then show ?thesis using history_rank [OF assms] by simp
qed

lemma lifecycle_history_bounded_witness:
  "lifecycle_history [Expired, Scheduled, Scheduled, Planned, Proposed, Draft] \<and>
   length (remdups_adj [Expired, Scheduled, Scheduled, Planned, Proposed, Draft]) \<le> 8"
proof -
  have h: "lifecycle_history [Expired, Scheduled, Scheduled, Planned, Proposed, Draft]"
    by (intro lifecycle_history.intros) (simp_all add: lifecycle_edge_cases)
  then show ?thesis using lifecycle_history_bounded [OF h] by blast
qed

section \<open>The sanitiser\<close>

fun json_keys :: "json \<Rightarrow> string list" where
  "json_keys (JArr xs) = concat (map json_keys xs)"
| "json_keys (JObj kvs) = concat (map (\<lambda>(k, v). k # json_keys v) kvs)"
| "json_keys _ = []"

text \<open>A value that needs no sanitising: no sensitive key and no \<open>undefined\<close> inside.\<close>

fun clean :: "json \<Rightarrow> bool" where
  "clean (JArr xs) = list_all (\<lambda>x. x \<noteq> JUndef \<and> clean x) xs"
| "clean (JObj kvs) = list_all (\<lambda>(k, v). \<not> isSensitiveKey k \<and> v \<noteq> JUndef \<and> clean v) kvs"
| "clean _ = True"

lemma sanitize_clean:
  "clean (fst (sanitizeValue v st))"
  "list_all clean (fst (sanitizeItems xs st))"
  "clean (JObj (fst (sanitizeEntries kvs st)))"
  by (induction v st and xs st and kvs st rule: sanitizeValue_sanitizeItems_sanitizeEntries.induct)
    (auto simp: list_all_iff split: prod.splits if_splits)

lemma sanitize_of_clean:
  "clean v \<Longrightarrow> sanitizeValue v st = (v, st)"
  "list_all clean xs \<Longrightarrow> sanitizeItems xs st = (xs, st)"
  "clean (JObj kvs) \<Longrightarrow> sanitizeEntries kvs st = (kvs, st)"
proof (induction v st and xs st and kvs st rule: sanitizeValue_sanitizeItems_sanitizeEntries.induct)
  case (6 xs st)
  then show ?case by (auto simp: list_all_iff filter_id_conv)
qed (auto simp: list_all_iff)

lemma clean_keys: "clean v \<Longrightarrow> filter isSensitiveKey (json_keys v) = []"
proof (induction v rule: json_keys.induct)
  case (1 xs)
  then show ?case by (auto simp: filter_empty_conv list_all_iff)
next
  case (2 kvs)
  then show ?case by (fastforce simp: filter_empty_conv list_all_iff)
qed auto

text \<open>
  \<open>sanitizeCommercialObject\<close> leaves no sensitive key at any depth of the object, and
  sanitising its result again changes and reports nothing.
\<close>

theorem sanitizeCommercialObject_clean:
  assumes "so_value (sanitizeCommercialObject v) = Some w"
  shows "filter isSensitiveKey (json_keys w) = [] \<and>
    sanitizeCommercialObject w = \<lparr>so_value = Some w, so_applied = False, so_sanitizedFields = []\<rparr>"
proof -
  obtain st where st: "sanitizeValue v \<lparr>ss_applied = False, ss_removedKeys = []\<rparr> = (w, st)" "is_record w"
    using assms by (auto simp: sanitizeCommercialObject_def split: prod.splits if_splits)
  then have "clean w" using sanitize_clean(1) by (metis fst_conv)
  then show ?thesis using st(2)
    by (simp add: sanitizeCommercialObject_def clean_keys sanitize_of_clean)
qed

lemma sanitizeCommercialObject_clean_witness:
  "\<exists>w. so_value (sanitizeCommercialObject (JObj [(''user'', JObj [(''Auth_Token'', JStr ''x''), (''id'', JNum 3)])]))
      = Some w \<and> filter isSensitiveKey (json_keys w) = []"
proof -
  have "so_value (sanitizeCommercialObject (JObj [(''user'', JObj [(''Auth_Token'', JStr ''x''), (''id'', JNum 3)])]))
      = Some (JObj [(''user'', JObj [(''id'', JNum 3)])])" by code_simp
  then show ?thesis using sanitizeCommercialObject_clean by blast
qed

end
