(* ===== verification/JS_Regex.thy ===== *)
theory JS_Regex
  imports JS_Prelude
begin

text \<open>
  The regular expressions the modelled code uses: character classes, sequence, ordered
  alternative, greedy star and the word boundary \<open>\b\<close>.  \<open>rmatch r prev s\<close> lists, in the
  order a backtracking matcher tries them, the ways \<open>r\<close> matches a prefix of \<open>s\<close>; each is the
  character before the rest (\<open>None\<close> at the start of the text) and the rest.  The first one
  is the match that \<open>replace\<close> takes; \<open>test\<close> asks for any, at any position.
  \<open>rmatch_iff\<close> shows that the matcher finds exactly the matches of the usual relational
  semantics.
\<close>

datatype regex = RClass "char \<Rightarrow> bool" | REmpty | RSeq regex regex | RAlt regex regex
  | RStar regex | RWordBoundary

text \<open>The class \<open>\w\<close>.\<close>

definition is_word :: "char \<Rightarrow> bool" where
  "is_word c \<longleftrightarrow> (let n = of_char c :: nat in
     (48 \<le> n \<and> n \<le> 57) \<or> (65 \<le> n \<and> n \<le> 90) \<or> n = 95 \<or> (97 \<le> n \<and> n \<le> 122))"

definition word_at :: "char option \<Rightarrow> bool" where
  "word_at c = (case c of None \<Rightarrow> False | Some c \<Rightarrow> is_word c)"

definition first_char :: "string \<Rightarrow> char option" where
  "first_char s = (case s of [] \<Rightarrow> None | c # _ \<Rightarrow> Some c)"

function (sequential) rmatch :: "regex \<Rightarrow> char option \<Rightarrow> string \<Rightarrow> (char option \<times> string) list" where
  "rmatch (RClass P) prev s = (case s of [] \<Rightarrow> [] | c # r \<Rightarrow> if P c then [(Some c, r)] else [])"
| "rmatch REmpty prev s = [(prev, s)]"
| "rmatch (RSeq r1 r2) prev s = concat (map (\<lambda>(p, t). rmatch r2 p t) (rmatch r1 prev s))"
| "rmatch (RAlt r1 r2) prev s = rmatch r1 prev s @ rmatch r2 prev s"
| "rmatch (RStar r) prev s =
     concat (map (\<lambda>(p, t). if length t < length s then rmatch (RStar r) p t else []) (rmatch r prev s))
     @ [(prev, s)]"
| "rmatch RWordBoundary prev s = (if word_at prev \<noteq> word_at (first_char s) then [(prev, s)] else [])"
  by pat_completeness auto
termination
  by (relation "measures [\<lambda>(r, p, s). size r, \<lambda>(r, p, s). length s]") auto

declare rmatch.simps(5) [simp del]

inductive rsem :: "regex \<Rightarrow> char option \<Rightarrow> string \<Rightarrow> char option \<Rightarrow> string \<Rightarrow> bool" where
  rcls: "P c \<Longrightarrow> rsem (RClass P) prev (c # s) (Some c) s"
| reps: "rsem REmpty prev s prev s"
| seq: "rsem r1 prev s p t \<Longrightarrow> rsem r2 p t q u \<Longrightarrow> rsem (RSeq r1 r2) prev s q u"
| left: "rsem r1 prev s p t \<Longrightarrow> rsem (RAlt r1 r2) prev s p t"
| right: "rsem r2 prev s p t \<Longrightarrow> rsem (RAlt r1 r2) prev s p t"
| stop: "rsem (RStar r) prev s prev s"
| more: "rsem r prev s p t \<Longrightarrow> rsem (RStar r) p t q u \<Longrightarrow> rsem (RStar r) prev s q u"
| boundary: "word_at prev \<noteq> word_at (first_char s) \<Longrightarrow> rsem RWordBoundary prev s prev s"

lemma rsem_shorter: "rsem r prev s p t \<Longrightarrow> length t \<le> length s \<and> (length t = length s \<longrightarrow> p = prev \<and> t = s)"
  by (induction rule: rsem.induct) force+

lemma rmatch_star:
  "(q, u) \<in> set (rmatch (RStar r) prev s) \<longleftrightarrow> (q = prev \<and> u = s) \<or>
     (\<exists>p t. (p, t) \<in> set (rmatch r prev s) \<and> length t < length s \<and> (q, u) \<in> set (rmatch (RStar r) p t))"
  by (subst rmatch.simps(5)) (auto split: if_splits)

lemma rmatch_sound: "(p, t) \<in> set (rmatch r prev s) \<Longrightarrow> rsem r prev s p t"
proof (induction r prev s arbitrary: p t rule: rmatch.induct)
  case (1 P prev s)
  then show ?case by (auto split: list.splits if_splits intro: rsem.intros)
next
  case (3 r1 r2 prev s)
  from "3.prems" obtain q u where "(q, u) \<in> set (rmatch r1 prev s)" "(p, t) \<in> set (rmatch r2 q u)" by auto
  then show ?case using "3.IH" by (blast intro: rsem.seq)
next
  case (4 r1 r2 prev s)
  then show ?case by (auto intro: rsem.left rsem.right)
next
  case (5 r prev s)
  from "5.prems" [THEN iffD1 [OF rmatch_star]] show ?case
  proof (elim disjE exE conjE)
    fix q u
    assume qu: "(q, u) \<in> set (rmatch r prev s)" "length u < length s" "(p, t) \<in> set (rmatch (RStar r) q u)"
    then show ?case using "5.IH" by (blast intro: rsem.more)
  qed (simp add: rsem.stop)
qed (auto split: if_splits intro: rsem.intros)

lemma rmatch_complete: "rsem r prev s p t \<Longrightarrow> (p, t) \<in> set (rmatch r prev s)"
proof (induction rule: rsem.induct)
  case (stop r prev s)
  show ?case by (rule iffD2 [OF rmatch_star]) simp
next
  case (more r prev s p t q u)
  show ?case
  proof (cases "length t < length s")
    case True
    then show ?thesis using more.IH by (intro iffD2 [OF rmatch_star]) blast
  next
    case False
    then have "p = prev" "t = s" using rsem_shorter [OF more.hyps(1)] by auto
    then show ?thesis using more.IH(2) by simp
  qed
qed force+

theorem rmatch_iff: "(p, t) \<in> set (rmatch r prev s) \<longleftrightarrow> rsem r prev s p t"
  using rmatch_sound rmatch_complete by blast

lemma rmatch_suffix: "(p, t) \<in> set (rmatch r prev s) \<Longrightarrow> length t \<le> length s"
  using rmatch_sound rsem_shorter by blast

section \<open>Derived forms\<close>

definition rplus :: "regex \<Rightarrow> regex" where
  "rplus r = RSeq r (RStar r)"

definition ropt :: "regex \<Rightarrow> regex" where
  "ropt r = RAlt r REmpty"

fun rseqs :: "regex list \<Rightarrow> regex" where
  "rseqs [] = REmpty"
| "rseqs [r] = r"
| "rseqs (r # rs) = RSeq r (rseqs rs)"

fun ralts :: "regex list \<Rightarrow> regex" where
  "ralts [] = RClass (\<lambda>_. False)"
| "ralts [r] = r"
| "ralts (r # rs) = RAlt r (ralts rs)"

definition rlit :: "string \<Rightarrow> regex" where
  "rlit s = rseqs (map (\<lambda>c. RClass (\<lambda>x. x = c)) s)"

text \<open>A literal under the flag \<open>i\<close>.\<close>

definition rlit_i :: "string \<Rightarrow> regex" where
  "rlit_i s = rseqs (map (\<lambda>c. RClass (\<lambda>x. lower_char x = lower_char c)) s)"

section \<open>test and replace\<close>

fun regex_test_from :: "regex \<Rightarrow> char option \<Rightarrow> string \<Rightarrow> bool" where
  "regex_test_from r prev [] = (rmatch r prev [] \<noteq> [])"
| "regex_test_from r prev (c # s) = (rmatch r prev (c # s) \<noteq> [] \<or> regex_test_from r (Some c) s)"

definition regex_test :: "regex \<Rightarrow> string \<Rightarrow> bool" where
  "regex_test r s = regex_test_from r None s"

text \<open>\<open>s.replace(r, f)\<close> with the flag \<open>g\<close>, for an expression that matches no empty text.\<close>

function regex_replace_from :: "regex \<Rightarrow> (string \<Rightarrow> string) \<Rightarrow> char option \<Rightarrow> string \<Rightarrow> string" where
  "regex_replace_from r f prev s =
     (case s of [] \<Rightarrow> [] | c # s' \<Rightarrow>
       (case rmatch r prev s of
          [] \<Rightarrow> c # regex_replace_from r f (Some c) s'
        | (p, t) # _ \<Rightarrow> if length t < length s
            then f (take (length s - length t) s) @ regex_replace_from r f p t
            else c # regex_replace_from r f (Some c) s'))"
  by pat_completeness auto
termination
  by (relation "measure (\<lambda>(r, f, p, s). length s)") auto

declare regex_replace_from.simps [simp del]

definition regex_replace_all :: "regex \<Rightarrow> (string \<Rightarrow> string) \<Rightarrow> string \<Rightarrow> string" where
  "regex_replace_all r f s = regex_replace_from r f None s"

lemma regex_replace_none:
  "\<not> regex_test_from r prev s \<Longrightarrow> regex_replace_from r f prev s = s"
proof (induction s arbitrary: prev)
  case Nil
  then show ?case by (subst regex_replace_from.simps) simp
next
  case (Cons c s)
  then show ?case by (subst regex_replace_from.simps) simp
qed

section \<open>The characters of a replaced text\<close>

lemma regex_replace_Nil [simp]: "regex_replace_from r f prev [] = []"
  by (subst regex_replace_from.simps) simp

lemma regex_replace_Cons:
  "regex_replace_from r f prev (c # s) =
     (case rmatch r prev (c # s) of
        [] \<Rightarrow> c # regex_replace_from r f (Some c) s
      | (p, t) # _ \<Rightarrow> if length t \<le> length s
          then f (take (Suc (length s) - length t) (c # s)) @ regex_replace_from r f p t
          else c # regex_replace_from r f (Some c) s)"
  by (subst regex_replace_from.simps) (simp add: less_Suc_eq_le split: list.split)

lemma rsem_suffix: "rsem r prev s p t \<Longrightarrow> suffix t s"
  by (induction rule: rsem.induct) (auto intro: suffix_ConsI suffix_order.trans)

lemma rmatch_is_suffix: "(p, t) \<in> set (rmatch r prev s) \<Longrightarrow> suffix t s"
  using rmatch_sound rsem_suffix by blast

text \<open>Every character of the result is one of the text or of a replacement for a part of it.\<close>

lemma regex_replace_chars:
  assumes "set s \<subseteq> A" "\<And>m. set m \<subseteq> A \<Longrightarrow> set (f m) \<subseteq> A"
  shows "set (regex_replace_from r f prev s) \<subseteq> A"
  using assms(1)
proof (induction "length s" arbitrary: s prev rule: less_induct)
  case less
  show ?case
  proof (cases s)
    case (Cons c s')
    have tail: "set (c # regex_replace_from r f (Some c) s') \<subseteq> A"
      using less.hyps [of s' "Some c"] less.prems Cons by simp
    show ?thesis
    proof (cases "rmatch r prev (c # s')")
      case Nil
      then show ?thesis using tail by (simp add: Cons regex_replace_Cons)
    next
      case (Cons pt rest)
      obtain p t where pt: "pt = (p, t)" by (cases pt)
      have "suffix t (c # s')" using rmatch_is_suffix Cons pt by (metis list.set_intros(1))
      then have "set t \<subseteq> A" using less.prems \<open>s = c # s'\<close> set_mono_suffix by blast
      moreover have "set (take (Suc (length s') - length t) (c # s')) \<subseteq> A"
        using set_take_subset less.prems \<open>s = c # s'\<close> by fast
      ultimately show ?thesis
        using tail less.hyps [of t p] assms(2) \<open>s = c # s'\<close> by (simp add: regex_replace_Cons Cons pt)
    qed
  qed simp
qed

text \<open>Replacing the runs of a class removes its characters.\<close>

lemma rmatch_star_not_Nil: "rmatch (RStar r) prev s \<noteq> []"
  by (subst rmatch.simps(5)) simp

lemma regex_replace_class:
  assumes "\<forall>c \<in> set x. \<not> P c"
  shows "\<forall>c \<in> set (regex_replace_from (rplus (RClass P)) (\<lambda>_. x) prev s). \<not> P c"
proof (induction "length s" arbitrary: s prev rule: less_induct)
  case less
  show ?case
  proof (cases s)
    case (Cons d s')
    show ?thesis
    proof (cases "P d")
      case True
      obtain p t rest where star: "rmatch (RStar (RClass P)) (Some d) s' = (p, t) # rest"
        using rmatch_star_not_Nil by (metis list.exhaust surj_pair)
      then have m: "rmatch (rplus (RClass P)) prev (d # s') = (p, t) # rest" using True by (simp add: rplus_def)
      have "length t \<le> length s'" using rmatch_suffix star by (metis list.set_intros(1))
      then show ?thesis using less.hyps [of t p] assms Cons by (auto simp: regex_replace_Cons m)
    next
      case False
      then have m: "rmatch (rplus (RClass P)) prev (d # s') = []" by (simp add: rplus_def)
      then show ?thesis using less.hyps [of s' "Some d"] False Cons by (simp add: regex_replace_Cons)
    qed
  qed simp
qed

end
