(* ===== verification/AutonomySandbox.thy ===== *)
theory AutonomySandbox
  imports JS_Regex JS_Value
begin

text \<open>
  The sandbox that decides whether an agent action may be executed without an operator:
  \<open>lib/brain/commercial/autonomy-sandbox\<close> (\<open>types.ts\<close>, \<open>parseWhitelist.ts\<close>,
  \<open>validateAutonomousReplyCandidate.ts\<close>, \<open>buildSandboxExecutionPreview.ts\<close>,
  \<open>evaluateSandboxAutonomy.ts\<close>) and the action record it reads, \<open>CrmAgentAction\<close> of
  \<open>action-queue/types.ts\<close>.  The unions of string literals in that record are read from a
  database at run time and compared as text, so they are strings here.
\<close>

section \<open>Data\<close>

text \<open>\<open>number | string\<close>\<close>

datatype ref_id = Ref_num int | Ref_text string

definition ref_string :: "ref_id \<Rightarrow> string" where
  "ref_string r = (case r of Ref_num n \<Rightarrow> int_to_string n | Ref_text s \<Rightarrow> s)"

record crm_agent_action =
  a_id :: "int option"
  a_actionId :: string
  a_idempotencyKey :: string
  a_opportunityId :: "ref_id option"
  a_decisionId :: "string option"
  a_decisionRowId :: "int option"
  a_conversationCaseId :: "ref_id option"
  a_messageId :: "string option"
  a_waId :: "string option"
  a_channel :: string
  a_actionType :: string
  a_status :: string
  a_riskLevel :: string
  a_approvalRequirement :: string
  a_draftPayload :: json
  a_finalPayload :: json
  a_executionPayload :: json
  a_draftMessage :: "string option"
  a_finalMessage :: "string option"
  a_scheduledFor :: "string option"
  a_expiresAt :: "string option"
  a_attemptNumber :: int
  a_maxAttempts :: int
  a_blockReasons :: "string list"
  a_cancelReason :: "string option"
  a_failureReason :: "string option"
  a_policyStatus :: string
  a_policyNotes :: "string list"
  a_source :: string
  a_createdBy :: string
  a_approvedBy :: "string option"
  a_approvedAt :: "string option"
  a_executedAt :: "string option"
  a_cancelledAt :: "string option"
  a_outboxMessageId :: "int option"
  a_lifecycleVersion :: "string option"
  a_policyVersion :: "string option"
  a_runtimeVersion :: "string option"
  a_createdAt :: "string option"
  a_updatedAt :: "string option"

datatype eligibility_status = Eligible | Sb_blocked | Sb_disabled | Sb_invalid | Sb_expired | Sb_requires_review

datatype sandbox_block_reason = Sandbox_disabled | Autonomous_reply_disabled | Recipient_not_whitelisted
  | Sb_missing_recipient | Unsupported_channel | Sb_unsupported_action_type | Risk_too_high
  | Approval_required | Sb_human_owner_active | Sb_ai_blocked | Sb_case_closed | Sb_action_expired
  | Sb_missing_idempotency_key | Unsafe_payload | Sb_unsafe_message | Duplicate_or_conflicting_action
  | Sb_action_not_ready | Sb_policy_blocked

record sandbox_config =
  sandboxEnabled :: bool
  autonomousReplyEnabled :: bool
  whitelistedWaIds :: "string list"
  allowedActionTypes :: "string list"
  maxRiskLevel :: string

record sandbox_action =
  sa_actionId :: string
  sa_idempotencyKey :: "string option"
  sa_actionType :: string
  sa_status :: string
  sa_channel :: string
  sa_waId :: "string option"
  sa_riskLevel :: string
  sa_approvalRequirement :: string
  sa_draftMessage :: "string option"
  sa_finalMessage :: "string option"
  sa_scheduledFor :: "string option"
  sa_expiresAt :: "string option"
  sa_blockReasons :: "string list"
  sa_cancelReason :: "string option"

record case_context =
  cx_caseId :: "string option"
  cx_caseStatus :: "string option"
  cx_lifecycleStatus :: "string option"
  cx_humanOwnerActive :: bool
  cx_aiBlocked :: bool
  cx_requiresHuman :: bool
  cx_policyStatus :: "string option"
  cx_conflictingActionExists :: bool

record sandbox_input =
  si_now :: string
  si_config :: sandbox_config
  si_action :: sandbox_action
  si_context :: case_context

record execution_preview =
  ep_canExecute :: bool
  ep_channel :: string
  ep_recipientMasked :: "string option"
  ep_messagePreview :: "string option"
  ep_idempotencyKey :: "string option"

record sandbox_validation =
  sv_status :: eligibility_status
  sv_eligible :: bool
  sv_actionId :: string
  sv_recipientMasked :: "string option"
  sv_blockReasons :: "sandbox_block_reason list"
  sv_warnings :: "string list"
  sv_actionType :: string
  sv_riskLevel :: string
  sv_approvalRequirement :: string
  sv_messagePreview :: "string option"
  sv_evaluatedAt :: string

record sandbox_result =
  sr_status :: eligibility_status
  sr_eligible :: bool
  sr_actionId :: string
  sr_recipientMasked :: "string option"
  sr_blockReasons :: "sandbox_block_reason list"
  sr_warnings :: "string list"
  sr_actionType :: string
  sr_riskLevel :: string
  sr_approvalRequirement :: string
  sr_executionPreview :: execution_preview
  sr_evaluatedAt :: string

definition SANDBOX_ALLOWED_ACTION_TYPES :: "string list" where
  "SANDBOX_ALLOWED_ACTION_TYPES = [''send_whatsapp_reply'', ''request_more_context'']"

definition SANDBOX_ALLOWED_RISK_LEVEL :: string where
  "SANDBOX_ALLOWED_RISK_LEVEL = ''low''"

definition SANDBOX_ALLOWED_CHANNEL :: string where
  "SANDBOX_ALLOWED_CHANNEL = ''whatsapp''"

definition SANDBOX_DEFAULT_MESSAGE_LIMIT :: nat where
  "SANDBOX_DEFAULT_MESSAGE_LIMIT = 800"

section \<open>Recipients\<close>

definition mask_digits :: "string \<Rightarrow> string option" where
  "mask_digits digits =
     (let n = length digits in
      if n = 0 then None
      else if n \<le> 6 then
        (if n \<le> 2 then Some (replicate n CHR ''*'')
         else Some (take 1 digits @ replicate (n - 2) CHR ''*'' @ drop (n - 1) digits))
      else Some (take 3 digits @ replicate (n - 6) CHR ''*'' @ drop (n - 3) digits))"

definition maskWaId :: "string option \<Rightarrow> string option" where
  "maskWaId value = (case value of None \<Rightarrow> None | Some v \<Rightarrow> mask_digits (strip_non_digits (js_trim v)))"

definition normalizeWaIdDigits :: "string option \<Rightarrow> string option" where
  "normalizeWaIdDigits value = (case value of None \<Rightarrow> None | Some v \<Rightarrow>
     (let trimmed = js_trim v in
      if trimmed = [] then None
      else (let digits = strip_non_digits trimmed in if length digits > 0 then Some digits else None)))"

definition buildSandboxAutonomyConfig :: "bool option \<Rightarrow> bool option \<Rightarrow> string list option \<Rightarrow>
    string list option \<Rightarrow> string option \<Rightarrow> sandbox_config" where
  "buildSandboxAutonomyConfig enabled reply ids types risk =
     \<lparr>sandboxEnabled = case_option False id enabled,
      autonomousReplyEnabled = case_option False id reply,
      whitelistedWaIds = case_option [] id ids,
      allowedActionTypes = case_option SANDBOX_ALLOWED_ACTION_TYPES id types,
      maxRiskLevel = case_option SANDBOX_ALLOWED_RISK_LEVEL id risk\<rparr>"

definition isSandboxAutonomyAction :: "crm_agent_action \<Rightarrow> bool" where
  "isSandboxAutonomyAction action \<longleftrightarrow> a_actionType action \<in> set SANDBOX_ALLOWED_ACTION_TYPES"

text \<open>One token of the whitelist: the separators of written phone numbers are dropped.\<close>

definition whitelist_token :: "string \<Rightarrow> string option" where
  "whitelist_token token =
     (let trimmed = js_trim token;
          cleaned = filter (\<lambda>c. \<not> (is_ws c \<or> c = CHR ''('' \<or> c = CHR '')'' \<or> c = CHR ''+'' \<or> c = CHR ''-'')) trimmed
      in if trimmed \<noteq> [] \<and> cleaned \<noteq> [] \<and> list_all is_digit cleaned then Some cleaned else None)"

definition parseAutonomousTestWaIds :: "string option \<Rightarrow> string list" where
  "parseAutonomousTestWaIds raw = (case raw of None \<Rightarrow> []
     | Some r \<Rightarrow> js_unique (List.map_filter whitelist_token (js_split CHR '','' r)))"

section \<open>Message safety\<close>

text \<open>
  \<open>normalize("NFD")\<close> and the removal of combining marks: an accented Latin letter becomes
  its base letter, every other code unit below U+0100 stays.
\<close>

definition base_char :: "char \<Rightarrow> char" where
  "base_char c = (let n = of_char c :: nat in
     if 192 \<le> n \<and> n \<le> 197 then CHR ''A'' else if n = 199 then CHR ''C''
     else if 200 \<le> n \<and> n \<le> 203 then CHR ''E'' else if 204 \<le> n \<and> n \<le> 207 then CHR ''I''
     else if n = 209 then CHR ''N'' else if 210 \<le> n \<and> n \<le> 214 then CHR ''O''
     else if 217 \<le> n \<and> n \<le> 220 then CHR ''U'' else if n = 221 then CHR ''Y''
     else if 224 \<le> n \<and> n \<le> 229 then CHR ''a'' else if n = 231 then CHR ''c''
     else if 232 \<le> n \<and> n \<le> 235 then CHR ''e'' else if 236 \<le> n \<and> n \<le> 239 then CHR ''i''
     else if n = 241 then CHR ''n'' else if 242 \<le> n \<and> n \<le> 246 then CHR ''o''
     else if 249 \<le> n \<and> n \<le> 252 then CHR ''u'' else if n = 253 \<or> n = 255 then CHR ''y'' else c)"

definition normalizeText :: "string \<Rightarrow> string" where
  "normalizeText value = js_lower (js_trim (map base_char value))"

definition isJsonLike :: "string \<Rightarrow> bool" where
  "isJsonLike text =
     (let trimmed = js_trim text in
      if trimmed = [] then False
      else if \<not> ((js_starts_with trimmed [CHR 0x7B] \<and> js_ends_with trimmed [CHR 0x7D])
                \<or> (js_starts_with trimmed ''['' \<and> js_ends_with trimmed '']'')) then False
      else json_text trimmed)"

definition rnot_in :: "string \<Rightarrow> regex" where
  "rnot_in cs = RClass (\<lambda>c. c \<notin> set cs)"

definition placeholder_regex :: regex where
  "placeholder_regex = ralts
     [rseqs [rlit [CHR 0x7B, CHR 0x7B], rplus (rnot_in [CHR 0x7B, CHR 0x7D]), rlit [CHR 0x7D, CHR 0x7D]],
      rseqs [rlit ''[['', rplus (rnot_in ''[]''), rlit '']]''],
      rseqs [rlit [CHR ''$'', CHR 0x7B], rplus (rnot_in [CHR 0x7B, CHR 0x7D]), rlit [CHR 0x7D]],
      rseqs [rlit ''<%'', rplus (rnot_in ''%''), rlit ''%>'']]"

definition hasUnresolvedPlaceholder :: "string \<Rightarrow> bool" where
  "hasUnresolvedPlaceholder text = regex_test placeholder_regex text"

definition credential_regex :: regex where
  "credential_regex = ralts
     [rseqs [RWordBoundary, rlit_i ''Bearer'', RWordBoundary],
      rseqs [RWordBoundary, rlit_i ''sk-'', rplus (RClass (\<lambda>c. is_word c \<or> c = CHR ''-'')), RWordBoundary],
      rseqs [RWordBoundary,
        ralts [rseqs [rlit_i ''api'', ropt (RClass (\<lambda>c. c = CHR ''-'' \<or> c = CHR ''_'')), rlit_i ''key''],
          rlit_i ''token'', rlit_i ''secret'', rlit_i ''password'', rlit_i ''cookie'', rlit_i ''authorization''],
        RWordBoundary]]"

definition hasCredentialMarker :: "string \<Rightarrow> bool" where
  "hasCredentialMarker text = regex_test credential_regex text"

definition sensitiveTerms :: "string list" where
  "sensitiveTerms = [''precio'', ''stock'', ''descuento'', ''entrega'', ''despacho'', ''garantia'',
     ''reclamo'', ''queja'', ''reembolso'', ''devolucion'']"

definition promiseTerms :: "string list" where
  "promiseTerms = [''promet'', ''garantiz'', ''asegur'', ''confirm'', ''aseguro'', ''aseguramos'',
     ''te damos'', ''te garantizo'']"

definition hasPromiseOrSensitiveCommercialClaim :: "string \<Rightarrow> bool" where
  "hasPromiseOrSensitiveCommercialClaim text =
     (let normalized = normalizeText text in
      list_ex (js_includes normalized) sensitiveTerms \<or> list_ex (js_includes normalized) promiseTerms)"

text \<open>\<open>finalMessage ?? draftMessage\<close>, as trimmed text.\<close>

definition candidate_message :: "string option \<Rightarrow> string option \<Rightarrow> string option" where
  "candidate_message final draft = (case asText final of Some m \<Rightarrow> Some m | None \<Rightarrow> asText draft)"

definition buildMessageSafety :: "sandbox_input \<Rightarrow> sandbox_block_reason list \<times> string option" where
  "buildMessageSafety input =
     (case candidate_message (sa_finalMessage (si_action input)) (sa_draftMessage (si_action input)) of
        None \<Rightarrow> ([Sb_unsafe_message], None)
      | Some fallback \<Rightarrow>
          if length fallback > SANDBOX_DEFAULT_MESSAGE_LIMIT then ([Sb_unsafe_message], None)
          else if hasUnresolvedPlaceholder fallback then ([Unsafe_payload], None)
          else if hasCredentialMarker fallback then ([Unsafe_payload], None)
          else if isJsonLike fallback then ([Unsafe_payload], None)
          else if hasPromiseOrSensitiveCommercialClaim fallback then ([Sb_unsafe_message], None)
          else ([], Some (js_trim fallback)))"

section \<open>Validation\<close>

definition asIso :: "string option \<Rightarrow> string option" where
  "asIso value = (case value of None \<Rightarrow> None | Some v \<Rightarrow>
     (let trimmed = js_trim v in
      if trimmed = [] then None else map_option iso_of_time (date_parse trimmed)))"

definition CLOSED_CASE_STATUSES :: "string list" where
  "CLOSED_CASE_STATUSES = [''closed'', ''resolved'', ''done'', ''cancelled'', ''expired'', ''archived'', ''finalized'']"

definition BLOCKED_STATUSES :: "string list" where
  "BLOCKED_STATUSES = [''blocked'', ''cancelled'', ''failed'', ''executed'', ''rejected'', ''draft'', ''executing'']"

definition REVIEW_STATUSES :: "string list" where
  "REVIEW_STATUSES = [''requires_review'']"

definition ALLOWED_STATUSES :: "string list" where
  "ALLOWED_STATUSES = [''proposed'', ''approved'', ''edited'', ''requires_review'', ''planned'', ''scheduled'']"

definition buildStatus :: "sandbox_block_reason list \<Rightarrow> sandbox_block_reason list \<Rightarrow> sandbox_block_reason list \<Rightarrow>
    sandbox_block_reason list \<Rightarrow> sandbox_block_reason list \<Rightarrow> eligibility_status" where
  "buildStatus disabledReasons invalidReasons expiredReasons blockedReasons reviewReasons =
     (if length disabledReasons > 0 then Sb_disabled
      else if length invalidReasons > 0 then Sb_invalid
      else if length expiredReasons > 0 then Sb_expired
      else if length blockedReasons > 0 then Sb_blocked
      else if length reviewReasons > 0 then Sb_requires_review
      else Eligible)"

text \<open>\<open>if (c) reasons.push(r)\<close>\<close>

definition push_if :: "bool \<Rightarrow> 'r \<Rightarrow> 'r list" where
  "push_if c r = (if c then [r] else [])"

text \<open>\<open>new Date(a).getTime() > new Date(b).getTime()\<close> on two texts; false on \<open>NaN\<close>.\<close>

definition time_greater :: "string \<Rightarrow> string \<Rightarrow> bool" where
  "time_greater a b = (case (date_parse a, date_parse b) of (Some t, Some u) \<Rightarrow> u < t | _ \<Rightarrow> False)"

definition time_le :: "string \<Rightarrow> string \<Rightarrow> bool" where
  "time_le a b = (case (date_parse a, date_parse b) of (Some t, Some u) \<Rightarrow> t \<le> u | _ \<Rightarrow> False)"

definition lower_text :: "string option \<Rightarrow> string option" where
  "lower_text v = map_option js_lower (asText v)"

definition is_closed_case :: "string option \<Rightarrow> bool" where
  "is_closed_case v = (case v of None \<Rightarrow> False | Some s \<Rightarrow> s \<noteq> [] \<and> normalizeText s \<in> set CLOSED_CASE_STATUSES)"

text \<open>
  \<open>validateAutonomousReplyCandidate\<close> fills five lists of reasons in one pass.  Each list is a
  definition here; the elements appear in the order the code pushes them.
\<close>

definition whitelisted_ids :: "sandbox_config \<Rightarrow> string list" where
  "whitelisted_ids config = parseAutonomousTestWaIds (Some (js_join '','' (whitelistedWaIds config)))"

definition normalized_status :: "string \<Rightarrow> string" where
  "normalized_status status = (case lower_text (Some status) of None \<Rightarrow> [] | Some t \<Rightarrow> t)"

definition status_not_ready :: "string \<Rightarrow> bool" where
  "status_not_ready normalizedStatus \<longleftrightarrow>
     (if normalizedStatus = [] \<or> (normalizedStatus \<notin> set ALLOWED_STATUSES \<and>
          normalizedStatus \<notin> set BLOCKED_STATUSES \<and> normalizedStatus \<notin> set REVIEW_STATUSES) then True
      else normalizedStatus \<in> set BLOCKED_STATUSES \<or> normalizedStatus = ''scheduled'')"

definition max_risk_not_low :: "sandbox_config \<Rightarrow> bool" where
  "max_risk_not_low config \<longleftrightarrow> js_lower (js_trim (maxRiskLevel config)) \<noteq> SANDBOX_ALLOWED_RISK_LEVEL"

definition normalized_approval :: "string \<Rightarrow> string" where
  "normalized_approval approval = (case lower_text (Some approval) of None \<Rightarrow> ''blocked'' | Some t \<Rightarrow> t)"

definition normalized_action_type :: "string \<Rightarrow> string" where
  "normalized_action_type t = (case asText (Some t) of None \<Rightarrow> [] | Some t \<Rightarrow> t)"

definition allowed_action_types :: "sandbox_config \<Rightarrow> string list" where
  "allowed_action_types config =
     filter (\<lambda>v. v \<noteq> [] \<and> v \<in> set SANDBOX_ALLOWED_ACTION_TYPES) (map js_trim (allowedActionTypes config))"

definition still_scheduled :: "string \<Rightarrow> sandbox_action \<Rightarrow> bool" where
  "still_scheduled now action \<longleftrightarrow>
     (case (asIso (sa_scheduledFor action), asIso (Some now)) of (Some s, Some n) \<Rightarrow> time_greater s n | _ \<Rightarrow> False)"

definition already_expired :: "string \<Rightarrow> sandbox_action \<Rightarrow> bool" where
  "already_expired now action \<longleftrightarrow>
     (case (asIso (sa_expiresAt action), asIso (Some now)) of (Some e, Some n) \<Rightarrow> time_le e n | _ \<Rightarrow> False)"

definition policy_blocks :: "string option \<Rightarrow> bool" where
  "policy_blocks policyStatus \<longleftrightarrow> (case policyStatus of None \<Rightarrow> False | Some p \<Rightarrow>
     (if p = ''blocked'' \<or> p = ''failed_safe'' \<or> p = ''failed'' then True
      else if p = ''requires_review'' then False
      else p \<noteq> ''allowed'' \<and> p \<noteq> ''allowed_with_restrictions''))"

definition duplicate_source :: "string list \<Rightarrow> bool" where
  "duplicate_source reasons \<longleftrightarrow> (let source = map (\<lambda>r. js_lower (js_trim r)) reasons in
     ''duplicate'' \<in> set source \<or> ''conflict'' \<in> set source \<or> ''duplicate_or_conflicting_action'' \<in> set source)"

definition disabled_reasons :: "sandbox_config \<Rightarrow> sandbox_block_reason list" where
  "disabled_reasons config = push_if (\<not> sandboxEnabled config) Sandbox_disabled
     @ push_if (\<not> autonomousReplyEnabled config) Autonomous_reply_disabled"

definition invalid_reasons :: "sandbox_input \<Rightarrow> sandbox_block_reason list" where
  "invalid_reasons input =
     push_if (normalizeWaIdDigits (sa_waId (si_action input)) = None) Sb_missing_recipient
     @ push_if (max_risk_not_low (si_config input)) Sb_policy_blocked"

definition expired_reasons :: "sandbox_input \<Rightarrow> sandbox_block_reason list" where
  "expired_reasons input = push_if (normalized_status (sa_status (si_action input)) = ''expired''
     \<or> already_expired (si_now input) (si_action input)) Sb_action_expired"

definition blocked_reasons :: "sandbox_input \<Rightarrow> sandbox_block_reason list" where
  "blocked_reasons input =
    (let config = si_config input; action = si_action input; context = si_context input;
         approvalRequirement = normalized_approval (sa_approvalRequirement action)
     in push_if (case normalizeWaIdDigits (sa_waId action) of None \<Rightarrow> False | Some d \<Rightarrow> d \<notin> set (whitelisted_ids config))
          Recipient_not_whitelisted
        @ push_if (js_lower (js_trim (sa_channel action)) \<noteq> SANDBOX_ALLOWED_CHANNEL) Unsupported_channel
        @ push_if (normalized_action_type (sa_actionType action) \<notin> set (allowed_action_types config))
          Sb_unsupported_action_type
        @ push_if (status_not_ready (normalized_status (sa_status action))) Sb_action_not_ready
        @ push_if (still_scheduled (si_now input) action) Sb_action_not_ready
        @ push_if (\<not> max_risk_not_low config \<and> js_lower (js_trim (sa_riskLevel action)) \<noteq> SANDBOX_ALLOWED_RISK_LEVEL)
          Risk_too_high
        @ push_if (approvalRequirement = ''blocked'') Approval_required
        @ push_if (cx_humanOwnerActive context \<or> cx_requiresHuman context) Sb_human_owner_active
        @ push_if (cx_aiBlocked context) Sb_ai_blocked
        @ push_if (is_closed_case (cx_caseStatus context) \<or> is_closed_case (cx_lifecycleStatus context)) Sb_case_closed
        @ push_if (policy_blocks (lower_text (cx_policyStatus context))) Sb_policy_blocked
        @ push_if (asText (sa_idempotencyKey action) = None) Sb_missing_idempotency_key
        @ fst (buildMessageSafety input)
        @ push_if (duplicate_source (sa_blockReasons action)) Duplicate_or_conflicting_action
        @ push_if (cx_conflictingActionExists context) Duplicate_or_conflicting_action)"

definition review_reasons :: "sandbox_input \<Rightarrow> sandbox_block_reason list" where
  "review_reasons input =
    (let status = normalized_status (sa_status (si_action input));
         approvalRequirement = normalized_approval (sa_approvalRequirement (si_action input))
     in push_if (\<not> status_not_ready status \<and> status = ''requires_review'') Approval_required
        @ push_if (approvalRequirement \<noteq> ''blocked'' \<and> approvalRequirement \<noteq> ''none'') Approval_required
        @ push_if (lower_text (cx_policyStatus (si_context input)) = Some ''requires_review'') Approval_required)"

definition validateAutonomousReplyCandidate :: "sandbox_input \<Rightarrow> sandbox_validation" where
  "validateAutonomousReplyCandidate input =
    (let action = si_action input;
         evaluatedAt = asIso (Some (si_now input));
         disabledReasons = disabled_reasons (si_config input);
         invalidReasons = invalid_reasons input;
         expiredReasons = expired_reasons input;
         blockedReasons = blocked_reasons input;
         reviewReasons = review_reasons input;
         status = buildStatus disabledReasons invalidReasons expiredReasons blockedReasons reviewReasons
     in \<lparr>sv_status = status,
         sv_eligible = (status = Eligible),
         sv_actionId = sa_actionId action,
         sv_recipientMasked = maskWaId (normalizeWaIdDigits (sa_waId action)),
         sv_blockReasons = js_unique (disabledReasons @ invalidReasons @ expiredReasons @ blockedReasons @ reviewReasons),
         sv_warnings = js_unique (push_if (status = Eligible) ''sandbox_autonomy_preview_only''),
         sv_actionType = normalized_action_type (sa_actionType action),
         sv_riskLevel = sa_riskLevel action,
         sv_approvalRequirement = normalized_approval (sa_approvalRequirement action),
         sv_messagePreview = snd (buildMessageSafety input),
         sv_evaluatedAt = (case evaluatedAt of None \<Rightarrow> si_now input | Some t \<Rightarrow> t)\<rparr>)"

section \<open>Evaluation of an action\<close>

definition buildSandboxExecutionPreview :: "sandbox_input \<Rightarrow> sandbox_validation \<Rightarrow> execution_preview" where
  "buildSandboxExecutionPreview input validation =
     \<lparr>ep_canExecute = False,
      ep_channel = sa_channel (si_action input),
      ep_recipientMasked = sv_recipientMasked validation,
      ep_messagePreview = sv_messagePreview validation,
      ep_idempotencyKey = sa_idempotencyKey (si_action input)\<rparr>"

definition toEvaluationInput :: "crm_agent_action \<Rightarrow> string \<Rightarrow> case_context \<Rightarrow> sandbox_config \<Rightarrow> sandbox_input" where
  "toEvaluationInput action now context config =
     \<lparr>si_now = now,
      si_config = config,
      si_action =
        \<lparr>sa_actionId = a_actionId action,
         sa_idempotencyKey = asText (Some (a_idempotencyKey action)),
         sa_actionType = a_actionType action,
         sa_status = a_status action,
         sa_channel = a_channel action,
         sa_waId = asText (a_waId action),
         sa_riskLevel = a_riskLevel action,
         sa_approvalRequirement = a_approvalRequirement action,
         sa_draftMessage = asText (a_draftMessage action),
         sa_finalMessage = asText (a_finalMessage action),
         sa_scheduledFor = asText (a_scheduledFor action),
         sa_expiresAt = asText (a_expiresAt action),
         sa_blockReasons = a_blockReasons action,
         sa_cancelReason = asText (a_cancelReason action)\<rparr>,
      si_context = context\<rparr>"

definition evaluateSandboxAutonomy :: "sandbox_input \<Rightarrow> sandbox_result" where
  "evaluateSandboxAutonomy input =
     (let validation = validateAutonomousReplyCandidate input
      in \<lparr>sr_status = sv_status validation,
          sr_eligible = sv_eligible validation,
          sr_actionId = sv_actionId validation,
          sr_recipientMasked = sv_recipientMasked validation,
          sr_blockReasons = sv_blockReasons validation,
          sr_warnings = sv_warnings validation,
          sr_actionType = sv_actionType validation,
          sr_riskLevel = sv_riskLevel validation,
          sr_approvalRequirement = sv_approvalRequirement validation,
          sr_executionPreview = buildSandboxExecutionPreview input validation,
          sr_evaluatedAt = sv_evaluatedAt validation\<rparr>)"

definition evaluateAgentActionForSandbox :: "crm_agent_action \<Rightarrow> string \<Rightarrow> case_context \<Rightarrow> sandbox_config \<Rightarrow> sandbox_result" where
  "evaluateAgentActionForSandbox action now context config =
     evaluateSandboxAutonomy (toEvaluationInput action now context config)"

section \<open>Properties\<close>

lemma push_if_Nil [simp]: "push_if c r = [] \<longleftrightarrow> \<not> c"
  by (simp add: push_if_def)

lemma buildStatus_Eligible:
  "buildStatus d i e b r = Eligible \<longleftrightarrow> d = [] \<and> i = [] \<and> e = [] \<and> b = [] \<and> r = []"
  by (simp add: buildStatus_def)

lemma digit_not_ws: "is_digit c \<Longrightarrow> \<not> is_ws c"
  by (auto simp: is_digit_def is_ws_def Let_def)

lemma is_digit_lits [simp]: "\<not> is_digit CHR '',''" "\<not> is_digit CHR ''(''" "\<not> is_digit CHR '')''"
  "\<not> is_digit CHR ''+''" "\<not> is_digit CHR ''-''" "\<not> is_digit CHR ''*''"
  by (simp_all add: is_digit_def)

lemma js_trim_digits: "list_all is_digit s \<Longrightarrow> js_trim s = s"
  by (rule js_trim_id) (auto simp: list_all_iff digit_not_ws)

lemma whitelist_token_digits:
  assumes "list_all is_digit w" "w \<noteq> []"
  shows "whitelist_token w = Some w"
proof -
  have "c \<in> set w \<Longrightarrow> \<not> (is_ws c \<or> c = CHR ''('' \<or> c = CHR '')'' \<or> c = CHR ''+'' \<or> c = CHR ''-'')" for c
    using assms(1) digit_not_ws is_digit_lits by (metis list_all_iff)
  then have "filter (\<lambda>c. \<not> (is_ws c \<or> c = CHR ''('' \<or> c = CHR '')'' \<or> c = CHR ''+'' \<or> c = CHR ''-'')) w = w"
    by (simp add: filter_id_conv)
  then show ?thesis using assms by (simp add: whitelist_token_def Let_def js_trim_digits)
qed

lemma whitelist_token_Some: "whitelist_token t = Some w \<Longrightarrow> list_all is_digit w \<and> w \<noteq> []"
  by (auto simp: whitelist_token_def Let_def split: if_splits)

lemma parse_whitelist_set:
  "set (parseAutonomousTestWaIds (Some r)) = {w. \<exists>t \<in> set (js_split CHR '','' r). whitelist_token t = Some w}"
  by (force simp: parseAutonomousTestWaIds_def List.map_filter_def)

lemma map_filter_Some_id: "(\<And>w. w \<in> set ws \<Longrightarrow> f w = Some w) \<Longrightarrow> List.map_filter f ws = ws"
  by (induction ws) (simp_all add: List.map_filter_simps)

text \<open>
  Reading a whitelist: the numbers of \<open>parseAutonomousTestWaIds\<close> are distinct non-empty
  digit strings, and a list of such numbers written with commas is read back unchanged.
\<close>

theorem whitelist_roundtrip:
  assumes "distinct ws" "list_all (\<lambda>w. w \<noteq> [] \<and> list_all is_digit w) ws" "ws \<noteq> []"
  shows "parseAutonomousTestWaIds (Some (js_join '','' ws)) = ws"
proof -
  have w: "w \<in> set ws \<Longrightarrow> w \<noteq> [] \<and> list_all is_digit w" for w using assms(2) by (simp add: list_all_iff)
  have "w \<in> set ws \<Longrightarrow> CHR '','' \<notin> set w" for w using w [of w] is_digit_lits(1) by (metis list_all_iff)
  then have "js_split CHR '','' (js_join '','' ws) = ws" using assms(3) by (intro js_split_join)
  moreover have "List.map_filter whitelist_token ws = ws"
    using w whitelist_token_digits by (intro map_filter_Some_id) blast
  ultimately show ?thesis using assms(1) by (simp add: parseAutonomousTestWaIds_def js_unique_id)
qed

lemma whitelist_roundtrip_witness:
  "parseAutonomousTestWaIds (Some (js_join '','' [''56911111111'', ''56922222222''])) = [''56911111111'', ''56922222222'']"
proof -
  have "distinct [''56911111111'', ''56922222222'']" by simp
  moreover have "list_all (\<lambda>w. w \<noteq> [] \<and> list_all is_digit w) [''56911111111'', ''56922222222'']" by code_simp
  ultimately show ?thesis by (rule whitelist_roundtrip) simp
qed

lemma filter_stars [simp]: "filter is_digit (replicate n CHR ''*'') = []"
  by (induction n) simp_all

lemma mask_digits_visible:
  assumes "mask_digits d = Some m" "list_all is_digit d"
  shows "length m = length d \<and> length (filter is_digit m) \<le> 6 \<and> CHR ''*'' \<in> set m"
proof -
  have id: "filter is_digit (take k d) = take k d" "filter is_digit (drop k d) = drop k d" for k
    using assms(2) by (auto simp: list_all_iff filter_id_conv dest: in_set_takeD in_set_dropD)
  show ?thesis
    using assms(1) by (auto simp: mask_digits_def Let_def id split: if_splits)
qed

text \<open>
  \<open>maskWaId\<close> keeps the length of the number, shows at most six digits of it and always
  hides at least one.
\<close>

theorem maskWaId_hides:
  assumes "maskWaId (Some v) = Some m"
  shows "length m = length (strip_non_digits (js_trim v)) \<and> length (filter is_digit m) \<le> 6 \<and> CHR ''*'' \<in> set m"
  using assms mask_digits_visible strip_non_digits_all unfolding maskWaId_def by simp

lemma maskWaId_hides_witness:
  "maskWaId (Some ''+56 9 1234 5678'') = Some ''569*****678'' \<and> length (filter is_digit ''569*****678'') \<le> 6"
proof -
  have m: "maskWaId (Some ''+56 9 1234 5678'') = Some ''569*****678''" by code_simp
  then show ?thesis using maskWaId_hides [OF m] by blast
qed

text \<open>What it takes for a candidate reply to be sent without an operator.\<close>

definition safe_message :: "string \<Rightarrow> bool" where
  "safe_message m \<longleftrightarrow> m \<noteq> [] \<and> js_trim m = m \<and> length m \<le> 800 \<and> \<not> hasUnresolvedPlaceholder m \<and>
     \<not> hasCredentialMarker m \<and> \<not> isJsonLike m \<and> \<not> hasPromiseOrSensitiveCommercialClaim m"

definition switched_on :: "sandbox_config \<Rightarrow> bool" where
  "switched_on config \<longleftrightarrow> sandboxEnabled config \<and> autonomousReplyEnabled config \<and>
     js_lower (js_trim (maxRiskLevel config)) = ''low''"

definition action_cleared :: "sandbox_config \<Rightarrow> sandbox_action \<Rightarrow> bool" where
  "action_cleared config action \<longleftrightarrow>
     (case normalizeWaIdDigits (sa_waId action) of None \<Rightarrow> False
        | Some d \<Rightarrow> d \<in> set (parseAutonomousTestWaIds (Some (js_join '','' (whitelistedWaIds config))))) \<and>
     js_lower (js_trim (sa_channel action)) = ''whatsapp'' \<and>
     js_trim (sa_actionType action) \<in> {''send_whatsapp_reply'', ''request_more_context''} \<and>
     js_trim (sa_actionType action) \<in> js_trim ` set (allowedActionTypes config) \<and>
     js_lower (js_trim (sa_status action)) \<in> {''proposed'', ''approved'', ''edited'', ''planned''} \<and>
     js_lower (js_trim (sa_riskLevel action)) = ''low'' \<and>
     js_lower (js_trim (sa_approvalRequirement action)) = ''none'' \<and>
     asText (sa_idempotencyKey action) \<noteq> None \<and>
     (case candidate_message (sa_finalMessage action) (sa_draftMessage action) of None \<Rightarrow> False | Some m \<Rightarrow> safe_message m) \<and>
     (\<lambda>r. js_lower (js_trim r)) ` set (sa_blockReasons action) \<inter>
       {''duplicate'', ''conflict'', ''duplicate_or_conflicting_action''} = {}"

definition context_cleared :: "case_context \<Rightarrow> bool" where
  "context_cleared context \<longleftrightarrow> \<not> cx_humanOwnerActive context \<and> \<not> cx_requiresHuman context \<and>
     \<not> cx_aiBlocked context \<and> \<not> is_closed_case (cx_caseStatus context) \<and>
     \<not> is_closed_case (cx_lifecycleStatus context) \<and> \<not> cx_conflictingActionExists context \<and>
     lower_text (cx_policyStatus context) \<in> {None, Some ''allowed'', Some ''allowed_with_restrictions''}"

definition in_time :: "string \<Rightarrow> sandbox_action \<Rightarrow> bool" where
  "in_time now action \<longleftrightarrow> \<not> still_scheduled now action \<and> \<not> already_expired now action"

lemma candidate_message_text: "candidate_message f d = Some m \<Longrightarrow> m \<noteq> [] \<and> js_trim m = m"
  by (auto simp: candidate_message_def asText_Some_iff split: option.splits)

lemma message_safety_iff:
  "fst (buildMessageSafety input) = [] \<longleftrightarrow>
     (case candidate_message (sa_finalMessage (si_action input)) (sa_draftMessage (si_action input)) of
        None \<Rightarrow> False | Some m \<Rightarrow> safe_message m)"
  by (auto simp: buildMessageSafety_def safe_message_def SANDBOX_DEFAULT_MESSAGE_LIMIT_def
      dest: candidate_message_text split: option.splits)

lemma normalized_unfold:
  "normalized_status s = js_lower (js_trim s)"
  "normalized_approval s = (if js_trim s = [] then ''blocked'' else js_lower (js_trim s))"
  "normalized_action_type s = js_trim s"
  by (simp_all add: normalized_status_def normalized_approval_def normalized_action_type_def
      lower_text_def asText_def js_lower_def Let_def)

lemma status_ready_iff:
  "\<not> status_not_ready t \<and> t \<noteq> ''requires_review'' \<longleftrightarrow> t \<in> {''proposed'', ''approved'', ''edited'', ''planned''}"
  unfolding status_not_ready_def ALLOWED_STATUSES_def BLOCKED_STATUSES_def REVIEW_STATUSES_def by auto

lemma approval_none_iff:
  "normalized_approval s \<noteq> ''blocked'' \<and> \<not> (normalized_approval s \<noteq> ''blocked'' \<and> normalized_approval s \<noteq> ''none'')
    \<longleftrightarrow> js_lower (js_trim s) = ''none''"
  by (auto simp: normalized_unfold js_lower_def)

lemma action_type_iff:
  "normalized_action_type t \<in> set (allowed_action_types config) \<longleftrightarrow>
     js_trim t \<in> {''send_whatsapp_reply'', ''request_more_context''} \<and>
     js_trim t \<in> js_trim ` set (allowedActionTypes config)"
  by (auto simp: normalized_unfold allowed_action_types_def SANDBOX_ALLOWED_ACTION_TYPES_def)

lemma policy_iff:
  "\<not> policy_blocks p \<and> p \<noteq> Some ''requires_review'' \<longleftrightarrow>
     p \<in> {None, Some ''allowed'', Some ''allowed_with_restrictions''}"
  by (cases p) (auto simp: policy_blocks_def)

lemma duplicate_iff:
  "\<not> duplicate_source rs \<longleftrightarrow> (\<lambda>r. js_lower (js_trim r)) ` set rs \<inter>
     {''duplicate'', ''conflict'', ''duplicate_or_conflicting_action''} = {}"
  by (auto simp: duplicate_source_def Let_def)

lemma recipient_iff:
  "normalizeWaIdDigits w \<noteq> None \<and>
   \<not> (case normalizeWaIdDigits w of None \<Rightarrow> False | Some d \<Rightarrow> d \<notin> set (whitelisted_ids config)) \<longleftrightarrow>
   (case normalizeWaIdDigits w of None \<Rightarrow> False
      | Some d \<Rightarrow> d \<in> set (parseAutonomousTestWaIds (Some (js_join '','' (whitelistedWaIds config)))))"
  by (simp add: whitelisted_ids_def split: option.split)

lemma not_expired_status: "t \<in> {''proposed'', ''approved'', ''edited'', ''planned''} \<Longrightarrow> t \<noteq> ''expired''"
  by auto

lemma validation_status:
  "sv_status (validateAutonomousReplyCandidate input) = Eligible \<longleftrightarrow>
     switched_on (si_config input) \<and> action_cleared (si_config input) (si_action input) \<and>
     context_cleared (si_context input) \<and> in_time (si_now input) (si_action input)"
proof -
  let ?c = "si_config input" and ?a = "si_action input" and ?x = "si_context input" and ?n = "si_now input"
  let ?s = "normalized_status (sa_status ?a)" and ?p = "lower_text (cx_policyStatus ?x)"
  have "sv_status (validateAutonomousReplyCandidate input) = Eligible \<longleftrightarrow>
      sandboxEnabled ?c \<and> autonomousReplyEnabled ?c \<and> \<not> max_risk_not_low ?c \<and>
      (normalizeWaIdDigits (sa_waId ?a) \<noteq> None \<and>
       \<not> (case normalizeWaIdDigits (sa_waId ?a) of None \<Rightarrow> False | Some d \<Rightarrow> d \<notin> set (whitelisted_ids ?c))) \<and>
      ?s \<noteq> ''expired'' \<and> \<not> already_expired ?n ?a \<and>
      js_lower (js_trim (sa_channel ?a)) = ''whatsapp'' \<and>
      normalized_action_type (sa_actionType ?a) \<in> set (allowed_action_types ?c) \<and>
      (\<not> status_not_ready ?s \<and> ?s \<noteq> ''requires_review'') \<and> \<not> still_scheduled ?n ?a \<and>
      js_lower (js_trim (sa_riskLevel ?a)) = ''low'' \<and>
      (normalized_approval (sa_approvalRequirement ?a) \<noteq> ''blocked'' \<and>
        \<not> (normalized_approval (sa_approvalRequirement ?a) \<noteq> ''blocked'' \<and>
           normalized_approval (sa_approvalRequirement ?a) \<noteq> ''none'')) \<and>
      \<not> cx_humanOwnerActive ?x \<and> \<not> cx_requiresHuman ?x \<and> \<not> cx_aiBlocked ?x \<and>
      \<not> is_closed_case (cx_caseStatus ?x) \<and> \<not> is_closed_case (cx_lifecycleStatus ?x) \<and>
      (\<not> policy_blocks ?p \<and> ?p \<noteq> Some ''requires_review'') \<and>
      asText (sa_idempotencyKey ?a) \<noteq> None \<and> fst (buildMessageSafety input) = [] \<and>
      \<not> duplicate_source (sa_blockReasons ?a) \<and> \<not> cx_conflictingActionExists ?x"
    unfolding validateAutonomousReplyCandidate_def Let_def sandbox_validation.simps buildStatus_Eligible
      disabled_reasons_def invalid_reasons_def expired_reasons_def blocked_reasons_def review_reasons_def
      append_is_Nil_conv push_if_Nil de_Morgan_disj not_not SANDBOX_ALLOWED_CHANNEL_def SANDBOX_ALLOWED_RISK_LEVEL_def
    by blast
  also have "\<dots> \<longleftrightarrow> switched_on ?c \<and> action_cleared ?c ?a \<and> context_cleared ?x \<and> in_time ?n ?a"
    unfolding recipient_iff action_type_iff status_ready_iff approval_none_iff policy_iff duplicate_iff
      message_safety_iff switched_on_def action_cleared_def context_cleared_def in_time_def
      max_risk_not_low_def SANDBOX_ALLOWED_RISK_LEVEL_def not_not normalized_unfold(1)
    using not_expired_status [of "js_lower (js_trim (sa_status ?a))"]
    by blast
  finally show ?thesis .
qed

text \<open>
  \<open>evaluateSandboxAutonomy\<close> calls an action eligible exactly when the sandbox is switched
  on, the action is cleared (whitelisted recipient, supported type, ready status, low risk, no
  approval, a key, a safe message, no conflict), nobody owns or blocks the case, and the action
  is neither still scheduled nor expired; and then it reports no reason.
\<close>

theorem sandbox_eligible_iff:
  "sr_eligible (evaluateSandboxAutonomy input) \<longleftrightarrow>
     switched_on (si_config input) \<and> action_cleared (si_config input) (si_action input) \<and>
     context_cleared (si_context input) \<and> in_time (si_now input) (si_action input)"
  by (simp add: evaluateSandboxAutonomy_def Let_def validation_status [symmetric]
      validateAutonomousReplyCandidate_def)

lemma sandbox_status_eligible:
  "sr_status (evaluateSandboxAutonomy input) = Eligible \<longleftrightarrow> sr_eligible (evaluateSandboxAutonomy input)"
  by (simp add: evaluateSandboxAutonomy_def Let_def validateAutonomousReplyCandidate_def)

lemma eligible_iff_no_reasons:
  "sr_eligible (evaluateSandboxAutonomy input) \<longleftrightarrow> sr_blockReasons (evaluateSandboxAutonomy input) = []"
  by (simp add: evaluateSandboxAutonomy_def Let_def validateAutonomousReplyCandidate_def buildStatus_Eligible)

end
