(* ===== verification/ExecutionGate.thy ===== *)
theory ExecutionGate
  imports ActionLifecycle AutonomySandbox
begin

text \<open>
  The gate between an agent action and the outbox: \<open>lib/brain/commercial/execution-gate\<close>
  (\<open>types.ts\<close>, \<open>constants.ts\<close>, \<open>evaluateExecutionGate.ts\<close>, \<open>buildOutboxCommand.ts\<close>) and the
  command type of \<open>lib/brain/messaging/types.ts\<close>.  The gate reads the action record, the case
  context and the verdict of the sandbox; a command is built from an action or refused with an
  \<open>Error\<close>.
\<close>

section \<open>Data\<close>

datatype gate_status = Gate_allowed | Gate_blocked | Gate_disabled | Gate_duplicate | Gate_expired
  | Gate_invalid | Gate_failed

datatype gate_block_reason = Execution_gate_disabled | Sandbox_not_eligible | Action_not_found
  | Action_not_ready | Unsupported_action_type | Invalid_lifecycle_transition | Risk_not_allowed
  | Approval_not_satisfied | Human_owner_active | Ai_blocked | Case_closed | Missing_gate_key
  | Missing_recipient | Missing_message | Unsafe_message | Action_expired | Duplicate_execution
  | Conflicting_action | Policy_blocked | Outbox_command_invalid | Repository_failure | Transaction_failure

record gate_config =
  gc_executionGateEnabled :: bool
  gc_outboxBridgeEnabled :: bool
  gc_sandboxModeRequired :: bool

record gate_input =
  gi_now :: string
  gi_config :: gate_config
  gi_action :: crm_agent_action
  gi_context :: case_context
  gi_sandboxEvaluation :: sandbox_result

record gate_evaluation =
  ge_status :: gate_status
  ge_allowed :: bool
  ge_blockReasons :: "gate_block_reason list"
  ge_warnings :: "string list"

record command_metadata =
  md_source :: string
  md_sandbox :: bool
  md_riskLevel :: string
  md_approvalRequirement :: string
  md_lifecycleVersion :: "string option"
  md_policyVersion :: "string option"
  md_runtimeVersion :: "string option"

record outbox_command =
  oc_commandId :: string
  oc_idempotencyKey :: string
  oc_actionId :: string
  oc_opportunityId :: "ref_id option"
  oc_decisionId :: "string option"
  oc_conversationCaseId :: "ref_id option"
  oc_channel :: string
  oc_commandType :: string
  oc_recipient :: string
  oc_messageText :: string
  oc_metadata :: command_metadata
  oc_createdAt :: string

definition EXECUTION_GATE_SUPPORTED_ACTION_TYPES :: "string list" where
  "EXECUTION_GATE_SUPPORTED_ACTION_TYPES = [''send_whatsapp_reply'', ''request_more_context'']"

definition EXECUTION_GATE_ALLOWED_ACTION_STATUSES :: "string list" where
  "EXECUTION_GATE_ALLOWED_ACTION_STATUSES = [''approved'', ''planned'', ''proposed'']"

definition EXECUTION_GATE_SUPPORTED_CHANNEL :: string where
  "EXECUTION_GATE_SUPPORTED_CHANNEL = ''whatsapp''"

definition EXECUTION_GATE_SUPPORTED_COMMAND_TYPE :: string where
  "EXECUTION_GATE_SUPPORTED_COMMAND_TYPE = ''whatsapp_text''"

definition EXECUTION_GATE_ALLOWED_RISK_LEVEL :: string where
  "EXECUTION_GATE_ALLOWED_RISK_LEVEL = ''low''"

definition EXECUTION_GATE_ALLOWED_APPROVAL_REQUIREMENT :: string where
  "EXECUTION_GATE_ALLOWED_APPROVAL_REQUIREMENT = ''none''"

section \<open>Evaluation\<close>

text \<open>\<open>normalizeStatus\<close>, \<open>normalizeRisk\<close> and \<open>normalizeApproval\<close> have one body.\<close>

definition gate_normalize :: "string \<Rightarrow> string" where
  "gate_normalize value = (case asText (Some value) of None \<Rightarrow> [] | Some t \<Rightarrow> js_lower t)"

text \<open>This module's \<open>asIso\<close> does not trim.\<close>

definition gate_asIso :: "string \<Rightarrow> string option" where
  "gate_asIso value = map_option iso_of_time (date_parse value)"

definition isSafeMessageCandidate :: "string option \<Rightarrow> bool" where
  "isSafeMessageCandidate value \<longleftrightarrow> (case value of None \<Rightarrow> False | Some v \<Rightarrow> length (js_trim v) > 0)"

definition mapSandboxBlockReasons :: "gate_input \<Rightarrow> gate_block_reason list" where
  "mapSandboxBlockReasons input =
    (let reasons = set (sr_blockReasons (gi_sandboxEvaluation input))
     in js_unique
       (push_if (Sb_missing_recipient \<in> reasons) Missing_recipient
        @ push_if (Sb_missing_idempotency_key \<in> reasons) Missing_gate_key
        @ push_if (Sb_action_expired \<in> reasons) Action_expired
        @ push_if (Sb_unsafe_message \<in> reasons \<or> Unsafe_payload \<in> reasons) Unsafe_message
        @ push_if (Duplicate_or_conflicting_action \<in> reasons) Conflicting_action
        @ push_if (Approval_required \<in> reasons) Approval_not_satisfied
        @ push_if (Risk_too_high \<in> reasons) Risk_not_allowed
        @ push_if (Sb_unsupported_action_type \<in> reasons) Unsupported_action_type
        @ push_if (Sb_action_not_ready \<in> reasons) Action_not_ready
        @ push_if (Sb_policy_blocked \<in> reasons) Policy_blocked
        @ push_if (Sb_human_owner_active \<in> reasons) Human_owner_active
        @ push_if (Sb_ai_blocked \<in> reasons) Ai_blocked
        @ push_if (Sb_case_closed \<in> reasons) Case_closed
        @ push_if (Sandbox_disabled \<in> reasons \<or> Autonomous_reply_disabled \<in> reasons \<or>
            Recipient_not_whitelisted \<in> reasons) Sandbox_not_eligible))"

definition lifecycleTransitionIsAllowed :: "gate_input \<Rightarrow> bool" where
  "lifecycleTransitionIsAllowed input =
    (let status = gate_normalize (a_status (gi_action input))
     in if status = ''planned'' then True
        else if status \<noteq> ''proposed'' \<and> status \<noteq> ''approved'' then False
        else tv_allowed (validateActionLifecycleTransition
          \<lparr>ti_fromStatus = JStr status, ti_toStatus = JStr ''planned'',
           ti_actionType = JStr (a_actionType (gi_action input)), ti_reviewDecision = JStr ''approve'',
           ti_currentTime = Time_text (gi_now input),
           ti_metadata = JObj [(''actionId'', JStr (a_actionId (gi_action input))),
             (''sandboxModeRequired'', JBool (gc_sandboxModeRequired (gi_config input)))]\<rparr>))"

definition gate_stop :: "gate_status \<Rightarrow> gate_block_reason list \<Rightarrow> string list \<Rightarrow> gate_evaluation" where
  "gate_stop status reasons warnings =
     \<lparr>ge_status = status, ge_allowed = False, ge_blockReasons = reasons, ge_warnings = warnings\<rparr>"

text \<open>\<open>v?.trim().toLowerCase() === t\<close>\<close>

definition trimmed_lower_is :: "string option \<Rightarrow> string \<Rightarrow> bool" where
  "trimmed_lower_is v t \<longleftrightarrow> (case v of None \<Rightarrow> False | Some s \<Rightarrow> js_lower (js_trim s) = t)"

text \<open>\<open>expiresAt && asIso(expiresAt) && evaluatedAt >= asIso(expiresAt)\<close>, a comparison of texts.\<close>

definition gate_expired :: "string \<Rightarrow> string option \<Rightarrow> bool" where
  "gate_expired now expiresAt \<longleftrightarrow>
     (case expiresAt of None \<Rightarrow> False | Some e \<Rightarrow> e \<noteq> [] \<and>
       (case gate_asIso e of None \<Rightarrow> False | Some x \<Rightarrow>
          x \<le> (case gate_asIso now of None \<Rightarrow> now | Some n \<Rightarrow> n)))"

definition evaluateExecutionGate :: "gate_input \<Rightarrow> gate_evaluation" where
  "evaluateExecutionGate input =
    (let config = gi_config input; action = gi_action input; context = gi_context input;
         sandbox = gi_sandboxEvaluation input;
         status = gate_normalize (a_status action);
         actionType = asText (Some (a_actionType action))
     in if \<not> gc_executionGateEnabled config \<or> \<not> gc_outboxBridgeEnabled config
          then gate_stop Gate_disabled [Execution_gate_disabled] [''execution_gate_or_bridge_disabled'']
        else if asText (Some (a_actionId action)) = None then gate_stop Gate_invalid [Action_not_found] []
        else if asText (Some (a_idempotencyKey action)) = None then gate_stop Gate_invalid [Missing_gate_key] []
        else if (case actionType of None \<Rightarrow> True | Some t \<Rightarrow> t \<notin> set EXECUTION_GATE_SUPPORTED_ACTION_TYPES)
          then gate_stop Gate_blocked [Unsupported_action_type] []
        else if status = ''expired'' \<or> gate_expired (gi_now input) (a_expiresAt action)
          then gate_stop Gate_expired [Action_expired] []
        else if status = ''draft'' \<or> status = ''scheduled'' then gate_stop Gate_blocked [Action_not_ready] []
        else if status = ''requires_review'' then gate_stop Gate_blocked [Approval_not_satisfied] []
        else if status \<in> set [''rejected'', ''blocked'', ''cancelled'', ''executing'', ''executed'', ''failed'']
          then gate_stop Gate_blocked [Invalid_lifecycle_transition] []
        else if gc_sandboxModeRequired config \<and> sr_status sandbox \<noteq> Eligible
          then gate_stop (if sr_status sandbox = Sb_expired then Gate_expired else Gate_blocked)
            (mapSandboxBlockReasons input) (sr_warnings sandbox)
        else if trimmed_lower_is (cx_policyStatus context) ''blocked'' \<or>
            trimmed_lower_is (cx_policyStatus context) ''failed'' \<or>
            trimmed_lower_is (cx_policyStatus context) ''failed_safe''
          then gate_stop Gate_blocked [Policy_blocked] []
        else if status \<notin> set EXECUTION_GATE_ALLOWED_ACTION_STATUSES then gate_stop Gate_blocked [Action_not_ready] []
        else if gate_normalize (a_riskLevel action) \<noteq> EXECUTION_GATE_ALLOWED_RISK_LEVEL \<or>
            gate_normalize (sr_riskLevel sandbox) \<noteq> EXECUTION_GATE_ALLOWED_RISK_LEVEL
          then gate_stop Gate_blocked [Risk_not_allowed] []
        else if gate_normalize (a_approvalRequirement action) \<noteq> EXECUTION_GATE_ALLOWED_APPROVAL_REQUIREMENT \<or>
            gate_normalize (sr_approvalRequirement sandbox) \<noteq> EXECUTION_GATE_ALLOWED_APPROVAL_REQUIREMENT
          then gate_stop Gate_blocked [Approval_not_satisfied] []
        else if cx_humanOwnerActive context \<or> cx_requiresHuman context
          then gate_stop Gate_blocked [Human_owner_active] []
        else if cx_aiBlocked context then gate_stop Gate_blocked [Ai_blocked] []
        else if trimmed_lower_is (cx_caseStatus context) ''closed'' \<or>
            trimmed_lower_is (cx_lifecycleStatus context) ''closed'' then gate_stop Gate_blocked [Case_closed] []
        else if cx_conflictingActionExists context then gate_stop Gate_blocked [Conflicting_action] []
        else if (case sr_recipientMasked sandbox of None \<Rightarrow> True | Some m \<Rightarrow> m = [])
          then gate_stop Gate_blocked [Missing_recipient] []
        else if \<not> isSafeMessageCandidate (ep_messagePreview (sr_executionPreview sandbox))
          then gate_stop Gate_blocked [Unsafe_message] []
        else if \<not> lifecycleTransitionIsAllowed input then gate_stop Gate_blocked [Invalid_lifecycle_transition] []
        else if a_outboxMessageId action \<noteq> None then gate_stop Gate_duplicate [Duplicate_execution] []
        else \<lparr>ge_status = Gate_allowed, ge_allowed = True, ge_blockReasons = [],
              ge_warnings = push_if (status = ''proposed'') ''proposed_transition_to_planned''\<rparr>)"

section \<open>Commands\<close>

definition command_id :: "crm_agent_action \<Rightarrow> string \<Rightarrow> string" where
  "command_id action idempotencyKey = ''outbox:action:'' @ a_actionId action @ '':'' @ idempotencyKey"

definition buildOutboxCommand :: "crm_agent_action \<Rightarrow> string \<Rightarrow> outbox_command result" where
  "buildOutboxCommand action evaluatedAt =
    (case normalizeWaIdDigits (a_waId action) of
       None \<Rightarrow> Inl (Error ''missing recipient for outbox command'')
     | Some recipient \<Rightarrow> (case candidate_message (a_finalMessage action) (a_draftMessage action) of
       None \<Rightarrow> Inl (Error ''missing message for outbox command'')
     | Some messageText \<Rightarrow> (case asText (Some (a_idempotencyKey action)) of
       None \<Rightarrow> Inl (Error ''missing idempotency key for outbox command'')
     | Some idempotencyKey \<Rightarrow> Inr
         \<lparr>oc_commandId = command_id action idempotencyKey,
          oc_idempotencyKey = command_id action idempotencyKey,
          oc_actionId = a_actionId action,
          oc_opportunityId = a_opportunityId action,
          oc_decisionId = a_decisionId action,
          oc_conversationCaseId = a_conversationCaseId action,
          oc_channel = EXECUTION_GATE_SUPPORTED_CHANNEL,
          oc_commandType = EXECUTION_GATE_SUPPORTED_COMMAND_TYPE,
          oc_recipient = recipient,
          oc_messageText = messageText,
          oc_metadata = \<lparr>md_source = ''ai_sdr'', md_sandbox = True, md_riskLevel = a_riskLevel action,
            md_approvalRequirement = a_approvalRequirement action,
            md_lifecycleVersion = a_lifecycleVersion action, md_policyVersion = a_policyVersion action,
            md_runtimeVersion = a_runtimeVersion action\<rparr>,
          oc_createdAt = evaluatedAt\<rparr>)))"

section \<open>When the gate allows\<close>

lemma gate_normalize_eq: "gate_normalize v = js_lower (js_trim v)"
  by (simp add: gate_normalize_def asText_def js_lower_def Let_def)

lemma gate_stop_simps [simp]:
  "ge_status (gate_stop st rs ws) = st" "\<not> ge_allowed (gate_stop st rs ws)"
  "ge_blockReasons (gate_stop st rs ws) = rs" "ge_warnings (gate_stop st rs ws) = ws"
  by (simp_all add: gate_stop_def)

lemma normalizeActionType_known:
  assumes "js_trim t \<in> {''send_whatsapp_reply'', ''request_more_context''}"
  shows "normalizeActionType (JStr t) \<noteq> None \<longleftrightarrow> t \<in> {''send_whatsapp_reply'', ''request_more_context''}"
proof
  assume "normalizeActionType (JStr t) \<noteq> None"
  then obtain y where y: "t = action_type_name y"
    by (auto simp: normalizeActionType_def isOneOf_def dest: find_Some_prop)
  have "js_trim (action_type_name y) = action_type_name y" by (cases y) (simp_all add: js_trim_def is_ws_def)
  then show "t \<in> {''send_whatsapp_reply'', ''request_more_context''}" using assms y by simp
next
  assume "t \<in> {''send_whatsapp_reply'', ''request_more_context''}"
  then show "normalizeActionType (JStr t) \<noteq> None"
    using normalizeActionType_name [of Send_whatsapp_reply] normalizeActionType_name [of Request_more_context_action]
    by auto
qed

lemma approve_known: "normalizeReviewDecision (JStr ''approve'') = Some Approve"
  by code_simp

lemma status_name_inject: "status_name a = status_name b \<longleftrightarrow> a = b"
  using normalizeStatus_name by (metis option.inject)

lemma gate_stop_if: "ge_allowed (if c then gate_stop st rs ws else e) \<longleftrightarrow> \<not> c \<and> ge_allowed e"
  by simp

text \<open>The lifecycle check of the gate, on the supported action types.\<close>

lemma lifecycleTransitionIsAllowed_iff:
  assumes "js_trim (a_actionType (gi_action input)) \<in> {''send_whatsapp_reply'', ''request_more_context''}"
  shows "lifecycleTransitionIsAllowed input \<longleftrightarrow>
    gate_normalize (a_status (gi_action input)) = ''planned'' \<or>
    gate_normalize (a_status (gi_action input)) \<in> {''proposed'', ''approved''} \<and>
    a_actionType (gi_action input) \<in> {''send_whatsapp_reply'', ''request_more_context''}"
proof -
  let ?t = "a_actionType (gi_action input)"
  have allowed: "tv_allowed (validateActionLifecycleTransition
      \<lparr>ti_fromStatus = JStr (status_name a), ti_toStatus = JStr (status_name Planned), ti_actionType = JStr ?t,
       ti_reviewDecision = JStr ''approve'', ti_currentTime = now, ti_metadata = m\<rparr>)
    \<longleftrightarrow> (a, Planned) \<in> set lifecycle_edges \<and> normalizeActionType (JStr ?t) \<noteq> None" for a now m
    unfolding transition_characterization
    by (auto simp: approve_known status_name_inject simp del: status_name.simps)
  have e: "(Proposed, Planned) \<in> set lifecycle_edges" "(Approved, Planned) \<in> set lifecycle_edges"
    by (simp_all add: lifecycle_edges_def)
  have "tv_allowed (validateActionLifecycleTransition
      \<lparr>ti_fromStatus = JStr st, ti_toStatus = JStr ''planned'', ti_actionType = JStr ?t,
       ti_reviewDecision = JStr ''approve'', ti_currentTime = now, ti_metadata = m\<rparr>)
    \<longleftrightarrow> ?t \<in> {''send_whatsapp_reply'', ''request_more_context''}"
    if "st \<in> {''proposed'', ''approved''}" for st now m
    using that allowed [of Proposed now m] allowed [of Approved now m] e normalizeActionType_known [OF assms] by auto
  then show ?thesis by (simp add: lifecycleTransitionIsAllowed_def Let_def)
qed

definition gate_action_cleared :: "string \<Rightarrow> crm_agent_action \<Rightarrow> bool" where
  "gate_action_cleared now action \<longleftrightarrow>
     asText (Some (a_actionId action)) \<noteq> None \<and> asText (Some (a_idempotencyKey action)) \<noteq> None \<and>
     js_trim (a_actionType action) \<in> {''send_whatsapp_reply'', ''request_more_context''} \<and>
     (gate_normalize (a_status action) = ''planned'' \<or>
      gate_normalize (a_status action) \<in> {''proposed'', ''approved''} \<and>
      a_actionType action \<in> {''send_whatsapp_reply'', ''request_more_context''}) \<and>
     \<not> gate_expired now (a_expiresAt action) \<and> gate_normalize (a_riskLevel action) = ''low'' \<and>
     gate_normalize (a_approvalRequirement action) = ''none'' \<and> a_outboxMessageId action = None"

definition gate_context_cleared :: "case_context \<Rightarrow> bool" where
  "gate_context_cleared context \<longleftrightarrow>
     \<not> trimmed_lower_is (cx_policyStatus context) ''blocked'' \<and>
     \<not> trimmed_lower_is (cx_policyStatus context) ''failed'' \<and>
     \<not> trimmed_lower_is (cx_policyStatus context) ''failed_safe'' \<and>
     \<not> cx_humanOwnerActive context \<and> \<not> cx_requiresHuman context \<and> \<not> cx_aiBlocked context \<and>
     \<not> trimmed_lower_is (cx_caseStatus context) ''closed'' \<and>
     \<not> trimmed_lower_is (cx_lifecycleStatus context) ''closed'' \<and> \<not> cx_conflictingActionExists context"

definition gate_sandbox_cleared :: "bool \<Rightarrow> sandbox_result \<Rightarrow> bool" where
  "gate_sandbox_cleared required sandbox \<longleftrightarrow>
     (required \<longrightarrow> sr_status sandbox = Eligible) \<and> gate_normalize (sr_riskLevel sandbox) = ''low'' \<and>
     gate_normalize (sr_approvalRequirement sandbox) = ''none'' \<and>
     sr_recipientMasked sandbox \<notin> {None, Some []} \<and>
     isSafeMessageCandidate (ep_messagePreview (sr_executionPreview sandbox))"

lemma gate_allowed_characterization:
  "ge_allowed (evaluateExecutionGate input) \<longleftrightarrow>
     gc_executionGateEnabled (gi_config input) \<and> gc_outboxBridgeEnabled (gi_config input) \<and>
     gate_action_cleared (gi_now input) (gi_action input) \<and> gate_context_cleared (gi_context input) \<and>
     gate_sandbox_cleared (gc_sandboxModeRequired (gi_config input)) (gi_sandboxEvaluation input)"
proof (cases "js_trim (a_actionType (gi_action input)) \<in> {''send_whatsapp_reply'', ''request_more_context''}")
  case False
  then have "case asText (Some (a_actionType (gi_action input))) of None \<Rightarrow> True
      | Some t \<Rightarrow> t \<notin> set EXECUTION_GATE_SUPPORTED_ACTION_TYPES"
    by (auto simp: EXECUTION_GATE_SUPPORTED_ACTION_TYPES_def asText_Some_iff split: option.splits)
  then show ?thesis using False by (simp add: evaluateExecutionGate_def gate_action_cleared_def Let_def)
next
  case True
  have t: "(case asText (Some (a_actionType (gi_action input))) of None \<Rightarrow> True
      | Some t \<Rightarrow> t \<notin> set EXECUTION_GATE_SUPPORTED_ACTION_TYPES) = False"
    using True by (auto simp: EXECUTION_GATE_SUPPORTED_ACTION_TYPES_def asText_def Let_def)
  have r: "(case m of None \<Rightarrow> True | Some x \<Rightarrow> x = []) \<longleftrightarrow> m \<in> {None, Some []}" for m :: "string option"
    by (cases m) auto
  have st: "st \<noteq> ''expired'' \<and> \<not> (st = ''draft'' \<or> st = ''scheduled'') \<and> st \<noteq> ''requires_review'' \<and>
      st \<notin> set [''rejected'', ''blocked'', ''cancelled'', ''executing'', ''executed'', ''failed''] \<and>
      st \<in> set [''approved'', ''planned'', ''proposed''] \<longleftrightarrow> st = ''planned'' \<or> st \<in> {''proposed'', ''approved''}"
    for st by auto
  show ?thesis
    unfolding evaluateExecutionGate_def Let_def t gate_stop_if r gate_action_cleared_def gate_context_cleared_def
      gate_sandbox_cleared_def lifecycleTransitionIsAllowed_iff [OF True] EXECUTION_GATE_ALLOWED_RISK_LEVEL_def
      EXECUTION_GATE_ALLOWED_APPROVAL_REQUIREMENT_def EXECUTION_GATE_ALLOWED_ACTION_STATUSES_def
      gate_evaluation.simps de_Morgan_disj not_not
    using True st [of "gate_normalize (a_status (gi_action input))", unfolded de_Morgan_disj] by satx
qed

text \<open>
  C28. \<open>evaluateExecutionGate\<close> allows an action exactly when gate and bridge are on, the action
  is cleared (identified, of a supported type, planned or legally plannable, not expired, low
  risk, without approval, not yet linked to an outbox row), the case context is clear and the
  sandbox verdict has low risk, no approval, a recipient and a message, and is eligible when the
  sandbox is required.
\<close>

theorem gate_allowed_iff:
  "ge_allowed (evaluateExecutionGate input) \<longleftrightarrow>
     gc_executionGateEnabled (gi_config input) \<and> gc_outboxBridgeEnabled (gi_config input) \<and>
     gate_action_cleared (gi_now input) (gi_action input) \<and> gate_context_cleared (gi_context input) \<and>
     gate_sandbox_cleared (gc_sandboxModeRequired (gi_config input)) (gi_sandboxEvaluation input)"
  by (rule gate_allowed_characterization)

lemma gate_status_allowed:
  "ge_status (evaluateExecutionGate input) = Gate_allowed \<longleftrightarrow> ge_allowed (evaluateExecutionGate input)"
proof -
  have stop: "(ge_status (if c then gate_stop st rs ws else e) = Gate_allowed \<longleftrightarrow>
      ge_allowed (if c then gate_stop st rs ws else e)) \<longleftrightarrow>
      (if c then st \<noteq> Gate_allowed else (ge_status e = Gate_allowed \<longleftrightarrow> ge_allowed e))" for c st rs ws e
    by simp
  show ?thesis unfolding evaluateExecutionGate_def Let_def stop by simp
qed

section \<open>The sandbox and the gate together\<close>

lemma normalizeWaIdDigits_asText: "normalizeWaIdDigits (asText v) = normalizeWaIdDigits v"
  by (cases v) (simp_all add: normalizeWaIdDigits_def asText_def Let_def)

lemma candidate_message_asText: "candidate_message (asText f) (asText d) = candidate_message f d"
  by (simp add: candidate_message_def split: option.split)

lemma toEvaluationInput_simps [simp]:
  "si_now (toEvaluationInput a now cx cf) = now" "si_config (toEvaluationInput a now cx cf) = cf"
  "si_context (toEvaluationInput a now cx cf) = cx"
  "sa_waId (si_action (toEvaluationInput a now cx cf)) = asText (a_waId a)"
  "sa_idempotencyKey (si_action (toEvaluationInput a now cx cf)) = asText (Some (a_idempotencyKey a))"
  "sa_finalMessage (si_action (toEvaluationInput a now cx cf)) = asText (a_finalMessage a)"
  "sa_draftMessage (si_action (toEvaluationInput a now cx cf)) = asText (a_draftMessage a)"
  "sa_riskLevel (si_action (toEvaluationInput a now cx cf)) = a_riskLevel a"
  "sa_approvalRequirement (si_action (toEvaluationInput a now cx cf)) = a_approvalRequirement a"
  "sa_expiresAt (si_action (toEvaluationInput a now cx cf)) = asText (a_expiresAt a)"
  "sa_status (si_action (toEvaluationInput a now cx cf)) = a_status a"
  "sa_actionType (si_action (toEvaluationInput a now cx cf)) = a_actionType a"
  by (simp_all add: toEvaluationInput_def)

lemma evaluated_action_status:
  "sr_status (evaluateAgentActionForSandbox a now cx cf) = Eligible \<longleftrightarrow>
     switched_on cf \<and> action_cleared cf (si_action (toEvaluationInput a now cx cf)) \<and>
     context_cleared cx \<and> in_time now (si_action (toEvaluationInput a now cx cf))"
  by (simp add: evaluateAgentActionForSandbox_def evaluateSandboxAutonomy_def Let_def validation_status)

lemma action_cleared_command:
  assumes "action_cleared cf (si_action (toEvaluationInput a now cx cf'))"
  obtains r m k where "normalizeWaIdDigits (a_waId a) = Some r"
    "r \<in> set (parseAutonomousTestWaIds (Some (js_join '','' (whitelistedWaIds cf))))"
    "candidate_message (a_finalMessage a) (a_draftMessage a) = Some m" "safe_message m"
    "asText (Some (a_idempotencyKey a)) = Some k"
  using assms unfolding action_cleared_def
  by (auto simp: normalizeWaIdDigits_asText candidate_message_asText split: option.splits)


text \<open>An action, a case and a configuration that pass every check.\<close>

definition ready_action :: "string \<Rightarrow> string \<Rightarrow> string option \<Rightarrow> crm_agent_action" where
  "ready_action actionId key message =
     \<lparr>a_id = Some 7, a_actionId = actionId, a_idempotencyKey = key, a_opportunityId = Some (Ref_num 12),
      a_decisionId = Some ''dec-1'', a_decisionRowId = None, a_conversationCaseId = Some (Ref_num 5),
      a_messageId = None, a_waId = Some ''+56 9 1234 5678'', a_channel = ''whatsapp'',
      a_actionType = ''send_whatsapp_reply'', a_status = ''proposed'', a_riskLevel = ''low'',
      a_approvalRequirement = ''none'', a_draftPayload = JNull, a_finalPayload = JNull,
      a_executionPayload = JNull, a_draftMessage = Some ''hola'', a_finalMessage = message,
      a_scheduledFor = None, a_expiresAt = Some ''2026-01-06T00:00:00.000Z'', a_attemptNumber = 0,
      a_maxAttempts = 3, a_blockReasons = [], a_cancelReason = None, a_failureReason = None,
      a_policyStatus = ''allowed'', a_policyNotes = [], a_source = ''ai_sdr'', a_createdBy = ''ai_sdr'',
      a_approvedBy = None, a_approvedAt = None, a_executedAt = None, a_cancelledAt = None,
      a_outboxMessageId = None, a_lifecycleVersion = None, a_policyVersion = None, a_runtimeVersion = None,
      a_createdAt = Some ''2026-01-05T10:00:00.000Z'', a_updatedAt = None\<rparr>"

definition sample_action :: crm_agent_action where
  "sample_action = ready_action ''act-1'' ''key-1'' None"

definition sample_context :: case_context where
  "sample_context =
     \<lparr>cx_caseId = Some ''5'', cx_caseStatus = Some ''open'', cx_lifecycleStatus = None,
      cx_humanOwnerActive = False, cx_aiBlocked = False, cx_requiresHuman = False,
      cx_policyStatus = Some ''allowed'', cx_conflictingActionExists = False\<rparr>"

definition sample_sandbox_config :: sandbox_config where
  "sample_sandbox_config = buildSandboxAutonomyConfig (Some True) (Some True) (Some [''56912345678'']) None None"

definition sample_now :: string where
  "sample_now = ''2026-01-05T12:00:00.000Z''"

definition sample_gate_input :: "crm_agent_action \<Rightarrow> gate_input" where
  "sample_gate_input action =
     \<lparr>gi_now = sample_now,
      gi_config = \<lparr>gc_executionGateEnabled = True, gc_outboxBridgeEnabled = True, gc_sandboxModeRequired = True\<rparr>,
      gi_action = action, gi_context = sample_context,
      gi_sandboxEvaluation = evaluateAgentActionForSandbox action sample_now sample_context sample_sandbox_config\<rparr>"

lemma if_in: "a \<in> S \<Longrightarrow> b \<in> S \<Longrightarrow> (if c then a else b) \<in> S"
  by simp

lemma base_char_in: "base_char c \<in> insert c (set ''ACEINOUYaceinouy'')"
  unfolding base_char_def Let_def by (intro if_in) simp_all

lemma if_skip: "\<not> c \<Longrightarrow> b = x \<Longrightarrow> (if c then a else b) = x"
  by simp

lemma base_char_ascii: "(of_char c :: nat) < 192 \<Longrightarrow> base_char c = c"
  unfolding base_char_def Let_def by (intro if_skip) (simp_all only: refl, linarith+)

lemma base_char_cases: "base_char c = c \<or> (of_char c :: nat) \<ge> 192 \<and> \<not> is_ws (base_char c)"
proof (cases "base_char c = c")
  case False
  then have n: "(of_char c :: nat) \<ge> 192" using base_char_ascii [of c] by linarith
  have "\<not> is_ws d" if "d \<in> set ''ACEINOUYaceinouy''" for d using that by (auto simp: is_ws_def)
  then show ?thesis using False n base_char_in [of c] by blast
qed simp

lemma is_ws_base_char [simp]: "is_ws (base_char c) = is_ws c"
  using base_char_cases [of c] by (auto simp: is_ws_def Let_def)

lemma js_trim_base_char: "js_trim (map base_char v) = map base_char (js_trim v)"
proof -
  have c: "is_ws \<circ> base_char = is_ws" by (simp add: comp_def)
  show ?thesis by (simp add: js_trim_def dropWhile_map_eq rev_map c)
qed

lemma lower_base_char: "(of_char (lower_char c) :: nat) < 128 \<Longrightarrow> base_char c = c"
  using base_char_cases [of c] by (auto simp: lower_char_def Let_def split: if_splits)

lemma closed_text: "trimmed_lower_is v ''closed'' \<Longrightarrow> is_closed_case v"
proof -
  assume a: "trimmed_lower_is v ''closed''"
  then obtain s where s: "v = Some s" "js_lower (js_trim s) = ''closed''"
    by (auto simp: trimmed_lower_is_def split: option.splits)
  have "(of_char (lower_char c) :: nat) < 128" if "c \<in> set (js_trim s)" for c
  proof -
    have "lower_char c \<in> set ''closed''" using that s(2) unfolding js_lower_def by (metis imageI list.set_map)
    then show ?thesis by auto
  qed
  then have "map base_char (js_trim s) = js_trim s" by (auto intro!: map_idI lower_base_char)
  then have "normalizeText s = ''closed''"
    using s(2) js_trim_idem unfolding normalizeText_def js_trim_base_char by simp
  moreover have "s \<noteq> []" using s(2) by (auto simp: js_lower_def)
  ultimately show ?thesis using s(1) by (simp add: is_closed_case_def CLOSED_CASE_STATUSES_def)
qed

lemma cleared_context_gate: "context_cleared cx \<Longrightarrow> gate_context_cleared cx"
proof -
  assume c: "context_cleared cx"
  have "lower_text p = Some t" if "trimmed_lower_is p t" "t \<noteq> []" for p t
    using that by (auto simp: trimmed_lower_is_def lower_text_def asText_def js_lower_def split: option.splits)
  then show ?thesis using c closed_text unfolding context_cleared_def gate_context_cleared_def by fastforce
qed

lemma js_trim_normalized: "js_lower (js_trim a) = ''none'' \<Longrightarrow> gate_normalize (normalized_approval a) = ''none''"
proof -
  have "gate_normalize ''none'' = ''none''" "js_lower [] \<noteq> ''none''" by code_simp+
  then show "js_lower (js_trim a) = ''none'' \<Longrightarrow> gate_normalize (normalized_approval a) = ''none''"
    by (auto simp: normalized_unfold)
qed

lemma sandbox_verdict_cleared:
  assumes "sr_status (evaluateAgentActionForSandbox a now cx cf) = Eligible"
  shows "gate_sandbox_cleared required (evaluateAgentActionForSandbox a now cx cf)"
proof -
  let ?i = "toEvaluationInput a now cx cf"
  have c: "action_cleared cf (si_action ?i)" using assms unfolding evaluated_action_status by blast
  then obtain r m where r: "normalizeWaIdDigits (a_waId a) = Some r"
    and m: "candidate_message (a_finalMessage a) (a_draftMessage a) = Some m" "safe_message m"
    by (rule action_cleared_command)
  have d: "list_all is_digit r" "r \<noteq> []" using r strip_non_digits_all
    by (auto simp: normalizeWaIdDigits_def Let_def split: option.splits if_splits)
  then have "\<exists>x. mask_digits r = Some x" by (auto simp: mask_digits_def Let_def)
  then obtain x where x: "mask_digits r = Some x" by blast
  have "x \<noteq> []" using mask_digits_visible [OF x d(1)] by auto
  moreover have "maskWaId (Some r) = Some x" using x d by (simp add: maskWaId_def js_trim_digits strip_non_digits_id)
  moreover have "snd (buildMessageSafety ?i) = Some m"
    using m by (simp add: buildMessageSafety_def candidate_message_asText safe_message_def SANDBOX_DEFAULT_MESSAGE_LIMIT_def)
  moreover have "js_lower (js_trim (a_riskLevel a)) = ''low''" "js_lower (js_trim (a_approvalRequirement a)) = ''none''"
    using c by (simp_all add: action_cleared_def)
  ultimately show ?thesis using assms m(2)
    by (simp add: gate_sandbox_cleared_def evaluateAgentActionForSandbox_def evaluateSandboxAutonomy_def Let_def
        validateAutonomousReplyCandidate_def buildSandboxExecutionPreview_def normalizeWaIdDigits_asText r
        isSafeMessageCandidate_def safe_message_def js_trim_normalized gate_normalize_eq [of "a_riskLevel a"])
qed

text \<open>Timestamps in the form \<open>toISOString\<close> writes, with a four-digit year.\<close>

definition iso_text :: "string \<Rightarrow> bool" where
  "iso_text s \<longleftrightarrow> (case date_parse s of None \<Rightarrow> False | Some t \<Rightarrow> plain_time t \<and> iso_of_time t = s)"

lemma iso_textE:
  assumes "iso_text s"
  obtains t where "plain_time t" "s = iso_of_time t" "date_parse s = Some t"
  using assms by (auto simp: iso_text_def split: option.splits)

lemma gate_expired_iso:
  assumes "iso_text now" "pred_option iso_text expiresAt"
  shows "gate_expired now expiresAt \<longleftrightarrow>
    (case (asIso (asText expiresAt), asIso (Some now)) of (Some e, Some n) \<Rightarrow> time_le e n | _ \<Rightarrow> False)"
proof (cases expiresAt)
  case None
  then show ?thesis by (simp add: gate_expired_def asIso_def)
next
  case (Some e)
  obtain n where n: "plain_time n" "now = iso_of_time n" "date_parse now = Some n" using assms(1) by (rule iso_textE)
  have "iso_text e" using assms(2) Some by simp
  then obtain t where t: "plain_time t" "e = iso_of_time t" "date_parse e = Some t" by (rule iso_textE)
  have "iso_of_time t \<le> iso_of_time n \<longleftrightarrow> t \<le> n"
    using iso_of_time_less_iff [OF n(1) t(1)] by (simp add: not_less [symmetric])
  then show ?thesis using n(2,3) t(2,3)
    by (simp add: Some gate_expired_def gate_asIso_def asIso_def asText_def time_le_def)
qed

lemma eligible_passes:
  assumes "gi_sandboxEvaluation input = evaluateAgentActionForSandbox (gi_action input) (gi_now input) (gi_context input) cf"
    and "sr_status (gi_sandboxEvaluation input) = Eligible"
    and "gc_executionGateEnabled (gi_config input)" "gc_outboxBridgeEnabled (gi_config input)"
    and "asText (Some (a_actionId (gi_action input))) \<noteq> None"
    and "a_actionType (gi_action input) \<in> {''send_whatsapp_reply'', ''request_more_context''}"
    and "js_lower (js_trim (a_status (gi_action input))) \<noteq> ''edited''"
    and "a_outboxMessageId (gi_action input) = None"
    and "iso_text (gi_now input)" "pred_option iso_text (a_expiresAt (gi_action input))"
  shows "ge_status (evaluateExecutionGate input) = Gate_allowed"
proof -
  let ?i = "toEvaluationInput (gi_action input) (gi_now input) (gi_context input) cf"
  have e: "action_cleared cf (si_action ?i)" "context_cleared (gi_context input)" "in_time (gi_now input) (si_action ?i)"
    using assms(2) unfolding assms(1) evaluated_action_status by blast+
  have "\<not> gate_expired (gi_now input) (a_expiresAt (gi_action input))"
    using e(3) unfolding gate_expired_iso [OF assms(9,10)] in_time_def already_expired_def by simp
  then have "gate_action_cleared (gi_now input) (gi_action input)"
    using e(1) assms(5-8) by (auto simp: action_cleared_def gate_action_cleared_def gate_normalize_eq)
  moreover have "gate_context_cleared (gi_context input)" using e(2) by (rule cleared_context_gate)
  moreover have "gate_sandbox_cleared b (gi_sandboxEvaluation input)" for b
    using assms(2) unfolding assms(1) by (rule sandbox_verdict_cleared)
  ultimately show ?thesis using assms(3,4) by (simp add: gate_status_allowed gate_allowed_characterization)
qed

text \<open>
  No eligible action is lost: with gate and bridge on, an identified action of exactly a
  supported type, not in status \<open>edited\<close>, not linked to an outbox row, whose timestamps are ISO
  texts, is allowed as soon as the sandbox, evaluated on the same action, case and time, calls it
  eligible.
\<close>

theorem eligible_action_passes_gate:
  assumes "gi_sandboxEvaluation input = evaluateAgentActionForSandbox (gi_action input) (gi_now input) (gi_context input) cf"
    and "sr_status (gi_sandboxEvaluation input) = Eligible"
    and "gc_executionGateEnabled (gi_config input)" "gc_outboxBridgeEnabled (gi_config input)"
    and "asText (Some (a_actionId (gi_action input))) \<noteq> None"
    and "a_actionType (gi_action input) \<in> {''send_whatsapp_reply'', ''request_more_context''}"
    and "js_lower (js_trim (a_status (gi_action input))) \<noteq> ''edited''"
    and "a_outboxMessageId (gi_action input) = None"
    and "iso_text (gi_now input)" "pred_option iso_text (a_expiresAt (gi_action input))"
  shows "ge_status (evaluateExecutionGate input) = Gate_allowed"
  using assms by (rule eligible_passes)

text \<open>The ready action, under any identifier and key and with any safe message.\<close>

lemma ready_eligible:
  assumes "asText (Some key) \<noteq> None" "candidate_message message (Some ''hola'') = Some m" "safe_message m"
  shows "sr_status (evaluateAgentActionForSandbox (ready_action actionId key message) sample_now sample_context
    sample_sandbox_config) = Eligible"
proof -
  let ?a = "si_action (toEvaluationInput (ready_action actionId key message) sample_now sample_context sample_sandbox_config)"
  have f: "sa_channel ?a = ''whatsapp''" "sa_actionType ?a = ''send_whatsapp_reply''" "sa_status ?a = ''proposed''"
    "sa_riskLevel ?a = ''low''" "sa_approvalRequirement ?a = ''none''" "sa_blockReasons ?a = []"
    "sa_scheduledFor ?a = None" "sa_waId ?a = asText (Some ''+56 9 1234 5678'')"
    "sa_expiresAt ?a = asText (Some ''2026-01-06T00:00:00.000Z'')"
    "sa_idempotencyKey ?a = asText (Some key)" "sa_finalMessage ?a = asText message" "sa_draftMessage ?a = asText (Some ''hola'')"
    by (simp_all add: toEvaluationInput_def ready_action_def)
  have c: "js_lower (js_trim ''whatsapp'') = ''whatsapp''" "js_trim ''send_whatsapp_reply'' = ''send_whatsapp_reply''"
    "js_lower (js_trim ''proposed'') = ''proposed''" "js_lower (js_trim ''low'') = ''low''" "js_lower (js_trim ''none'') = ''none''"
    "normalizeWaIdDigits (asText (Some ''+56 9 1234 5678'')) = Some ''56912345678''"
    "List.member (parseAutonomousTestWaIds (Some (js_join '','' (whitelistedWaIds sample_sandbox_config)))) ''56912345678''"
    "List.member (map js_trim (allowedActionTypes sample_sandbox_config)) ''send_whatsapp_reply''"
    "switched_on sample_sandbox_config" "context_cleared sample_context"
    "(case (asIso (asText (Some ''2026-01-06T00:00:00.000Z'')), asIso (Some sample_now)) of
       (Some e, Some n) \<Rightarrow> time_le e n | _ \<Rightarrow> False) = False"
    by code_simp+
  have "action_cleared sample_sandbox_config ?a"
    using assms c(7,8) unfolding action_cleared_def f c(1-6) candidate_message_asText by simp
  moreover have "in_time sample_now ?a"
    unfolding in_time_def still_scheduled_def already_expired_def f c(11) by (simp add: asIso_def)
  ultimately show ?thesis using c(9,10) unfolding evaluated_action_status by blast
qed

lemma iso_samples: "iso_text ''2026-01-06T00:00:00.000Z''" "iso_text sample_now"
  by code_simp+

lemma ready_allowed:
  assumes "asText (Some actionId) \<noteq> None" "asText (Some key) \<noteq> None"
    and "candidate_message message (Some ''hola'') = Some m" "safe_message m"
  shows "ge_status (evaluateExecutionGate (sample_gate_input (ready_action actionId key message))) = Gate_allowed"
proof (rule eligible_passes)
  let ?i = "sample_gate_input (ready_action actionId key message)"
  show "gi_sandboxEvaluation ?i = evaluateAgentActionForSandbox (gi_action ?i) (gi_now ?i) (gi_context ?i) sample_sandbox_config"
    by (simp add: sample_gate_input_def)
  show "sr_status (gi_sandboxEvaluation ?i) = Eligible"
    using ready_eligible [OF assms(2-4)] by (simp add: sample_gate_input_def)
  have "js_lower (js_trim ''proposed'') \<noteq> ''edited''" by code_simp
  with iso_samples show "pred_option iso_text (a_expiresAt (gi_action ?i))" "iso_text (gi_now ?i)"
    "js_lower (js_trim (a_status (gi_action ?i))) \<noteq> ''edited''"
    by (simp_all add: sample_gate_input_def ready_action_def)
qed (use assms(1) in \<open>simp_all add: sample_gate_input_def ready_action_def\<close>)

lemma safe_samples: "safe_message ''hola''" "safe_message ''chao''"
  by code_simp+

lemma text_samples: "asText (Some ''hola'') = Some ''hola''" "asText (Some ''chao'') = Some ''chao''"
  "asText (Some ''act-1'') = Some ''act-1''" "asText (Some ''key-1'') = Some ''key-1''"
  by code_simp+

lemma sample_allowed: "ge_status (evaluateExecutionGate (sample_gate_input sample_action)) = Gate_allowed"
  unfolding sample_action_def
  by (rule ready_allowed [where m = "''hola''"]) (simp_all add: text_samples candidate_message_def safe_samples)

lemma eligible_action_passes_gate_witness:
  "ge_status (evaluateExecutionGate (sample_gate_input sample_action)) = Gate_allowed"
proof (rule eligible_action_passes_gate)
  let ?i = "sample_gate_input sample_action"
  show "gi_sandboxEvaluation ?i = evaluateAgentActionForSandbox (gi_action ?i) (gi_now ?i) (gi_context ?i) sample_sandbox_config"
    by (simp add: sample_gate_input_def)
  show "sr_status (gi_sandboxEvaluation ?i) = Eligible"
    using ready_eligible [of "''key-1''" None "''hola''" "''act-1''"]
    by (simp add: sample_gate_input_def sample_action_def text_samples candidate_message_def safe_samples)
  have "js_lower (js_trim ''proposed'') \<noteq> ''edited''" by code_simp
  with iso_samples show "pred_option iso_text (a_expiresAt (gi_action ?i))" "iso_text (gi_now ?i)"
    "js_lower (js_trim (a_status (gi_action ?i))) \<noteq> ''edited''"
    by (simp_all add: sample_gate_input_def sample_action_def ready_action_def)
qed (simp_all add: sample_gate_input_def sample_action_def ready_action_def text_samples)


text \<open>An evaluation that carries a reason unless it allows or \<open>Q\<close> holds.\<close>

definition speaks_unless :: "bool \<Rightarrow> gate_evaluation \<Rightarrow> bool" where
  "speaks_unless Q e \<longleftrightarrow> (ge_blockReasons e = [] \<longrightarrow> ge_allowed e \<or> Q)"

lemma speaks_reason: "speaks_unless Q e \<Longrightarrow> speaks_unless Q (if c then gate_stop st [r] ws else e)"
  by (simp add: speaks_unless_def)

lemma speaks_mapped: "(c \<Longrightarrow> rs = [] \<Longrightarrow> Q) \<Longrightarrow> speaks_unless Q e \<Longrightarrow> speaks_unless Q (if c then gate_stop st rs ws else e)"
  by (simp add: speaks_unless_def)

lemma gate_without_reasons:
  assumes "ge_blockReasons (evaluateExecutionGate input) = []"
  shows "ge_allowed (evaluateExecutionGate input) \<or>
    sr_status (gi_sandboxEvaluation input) \<noteq> Eligible \<and> mapSandboxBlockReasons input = []"
proof -
  have "speaks_unless (sr_status (gi_sandboxEvaluation input) \<noteq> Eligible \<and> mapSandboxBlockReasons input = [])
      (evaluateExecutionGate input)"
    unfolding evaluateExecutionGate_def Let_def
    by ((rule speaks_reason)+, rule speaks_mapped, blast, (rule speaks_reason)+, simp add: speaks_unless_def)
  then show ?thesis using assms by (simp add: speaks_unless_def)
qed

lemma mapped_reasons_Nil:
  "mapSandboxBlockReasons input = [] \<Longrightarrow> set (sr_blockReasons (gi_sandboxEvaluation input)) \<subseteq> {Unsupported_channel}"
proof
  fix r
  assume "mapSandboxBlockReasons input = []" "r \<in> set (sr_blockReasons (gi_sandboxEvaluation input))"
  then show "r \<in> {Unsupported_channel}" by (cases r) (simp_all add: mapSandboxBlockReasons_def Let_def)
qed

lemma distinct_subset_singleton: "distinct xs \<Longrightarrow> set xs \<subseteq> {a} \<Longrightarrow> xs \<noteq> [] \<Longrightarrow> xs = [a]"
  by (cases xs) (auto simp: subset_singleton_iff)

text \<open>
  A refusal always carries a reason, with one exception: when the sandbox objects to nothing
  but the channel of the action, the gate blocks it with an empty list of reasons, because
  \<open>unsupported_channel\<close> is mapped to none of the reasons of the gate.
\<close>

theorem gate_silent_refusal:
  assumes "gi_sandboxEvaluation input = evaluateAgentActionForSandbox a now cx cf"
    and "\<not> ge_allowed (evaluateExecutionGate input)"
    and "ge_blockReasons (evaluateExecutionGate input) = []"
  shows "sr_blockReasons (gi_sandboxEvaluation input) = [Unsupported_channel]"
proof -
  have m: "sr_status (gi_sandboxEvaluation input) \<noteq> Eligible" "mapSandboxBlockReasons input = []"
    using gate_without_reasons [OF assms(3)] assms(2) by blast+
  let ?v = "toEvaluationInput a now cx cf"
  have "sr_blockReasons (gi_sandboxEvaluation input) \<noteq> []"
    using m(1) eligible_iff_no_reasons [of ?v] sandbox_status_eligible [of ?v]
    unfolding assms(1) evaluateAgentActionForSandbox_def by blast
  moreover have "distinct (sr_blockReasons (gi_sandboxEvaluation input))"
    unfolding assms(1) evaluateAgentActionForSandbox_def
    by (simp add: evaluateSandboxAutonomy_def Let_def validateAutonomousReplyCandidate_def)
  ultimately show ?thesis using mapped_reasons_Nil [OF m(2)] by (intro distinct_subset_singleton)
qed

definition sample_email_action :: crm_agent_action where
  "sample_email_action = sample_action\<lparr>a_channel := ''email''\<rparr>"

lemma email_not_allowed: "\<not> ge_allowed (evaluateExecutionGate (sample_gate_input sample_email_action))"
proof -
  have "js_lower (js_trim ''email'') \<noteq> ''whatsapp''" by code_simp
  then have "sr_status (evaluateAgentActionForSandbox sample_email_action sample_now sample_context sample_sandbox_config) \<noteq> Eligible"
    unfolding evaluated_action_status by (simp add: action_cleared_def toEvaluationInput_def sample_email_action_def)
  then show ?thesis by (simp add: gate_allowed_characterization gate_sandbox_cleared_def sample_gate_input_def)
qed

lemma gate_silent_refusal_witness:
  "\<exists>a. \<not> ge_allowed (evaluateExecutionGate (sample_gate_input a)) \<and>
     ge_blockReasons (evaluateExecutionGate (sample_gate_input a)) = [] \<and>
     sr_blockReasons (gi_sandboxEvaluation (sample_gate_input a)) = [Unsupported_channel]"
proof (intro exI conjI)
  let ?i = "sample_gate_input sample_email_action"
  show n: "\<not> ge_allowed (evaluateExecutionGate ?i)" by (rule email_not_allowed)
  show r: "ge_blockReasons (evaluateExecutionGate ?i) = []" by code_simp
  show "sr_blockReasons (gi_sandboxEvaluation ?i) = [Unsupported_channel]"
    by (rule gate_silent_refusal [of _ sample_email_action sample_now sample_context sample_sandbox_config, OF _ n r])
      (simp only: sample_gate_input_def gate_input.simps)
qed

end
