(* ===== verification/JS_Effect.thy ===== *)
theory JS_Effect
  imports JS_Prelude
begin

text \<open>
  Operations with a state: an asynchronous function of the program is a function from the state
  to its outcome (a value, or the error it rejects with) and the state it leaves.  An operation
  that fails keeps the changes it made before failing, as in the source; only a unit of work
  undoes them.  \<open>await\<close> is sequencing: the model runs one request at a time.
\<close>

type_synonym ('s, 'a) action = "'s \<Rightarrow> 'a result \<times> 's"

definition done_with :: "'a \<Rightarrow> ('s, 'a) action" where
  "done_with a s = (Inr a, s)"

definition raise_error :: "js_error \<Rightarrow> ('s, 'a) action" where
  "raise_error e s = (Inl e, s)"

definition await :: "('s, 'a) action \<Rightarrow> ('a \<Rightarrow> ('s, 'b) action) \<Rightarrow> ('s, 'b) action" where
  "await m f s = (case m s of (Inl e, s') \<Rightarrow> (Inl e, s') | (Inr a, s') \<Rightarrow> f a s')"

text \<open>A synchronous computation that may throw.\<close>

definition compute :: "'a result \<Rightarrow> ('s, 'a) action" where
  "compute r s = (r, s)"

text \<open>
  \<open>Promise.all([m, n])\<close>: both operations are started, and both take their effect, before the
  first rejection is reported.
\<close>

definition await_both :: "('s, 'a) action \<Rightarrow> ('s, 'b) action \<Rightarrow> ('s, 'a \<times> 'b) action" where
  "await_both m n s = (case m s of (r1, s1) \<Rightarrow> (case n s1 of (r2, s2) \<Rightarrow>
     (bind_result r1 (\<lambda>a. bind_result r2 (\<lambda>b. Inr (a, b))), s2)))"

lemma await_simps [simp]:
  "await (done_with a) f = f a" "await (raise_error e) f = raise_error e"
  "await (compute (Inr a)) f = f a" "await (compute (Inl e)) f = raise_error e"
  by (simp_all add: await_def done_with_def raise_error_def compute_def fun_eq_iff)

lemma await_assoc: "await (await m f) g = await m (\<lambda>a. await (f a) g)"
  by (simp add: await_def fun_eq_iff split: prod.split sum.split)

lemma await_Inr: "m s = (Inr a, s') \<Longrightarrow> await m f s = f a s'"
  by (simp add: await_def)

lemma await_Inl: "m s = (Inl e, s') \<Longrightarrow> await m f s = (Inl e, s')"
  by (simp add: await_def)

lemma await_InrE:
  assumes "await m f s = (Inr b, t)"
  obtains a s' where "m s = (Inr a, s')" "f a s' = (Inr b, t)"
  using assms by (auto simp: await_def split: prod.splits sum.splits)

text \<open>
  An action keeps a relation between states when every run, failed or not, takes a state to a
  related one.  Relations that are reflexive and transitive are respected by sequences.
\<close>

definition keeps :: "('s \<Rightarrow> 's \<Rightarrow> bool) \<Rightarrow> ('s, 'a) action \<Rightarrow> bool" where
  "keeps R m \<longleftrightarrow> (\<forall>s. R s (snd (m s)))"

named_theorems keeps_intros

lemma keepsI: "(\<And>s. R s (snd (m s))) \<Longrightarrow> keeps R m"
  by (simp add: keeps_def)

lemma keepsD: "keeps R m \<Longrightarrow> m s = (r, s') \<Longrightarrow> R s s'"
  by (metis keeps_def snd_conv)

lemma keeps_pure [keeps_intros]:
  "reflp R \<Longrightarrow> keeps R (done_with a)" "reflp R \<Longrightarrow> keeps R (raise_error e)"
  "reflp R \<Longrightarrow> keeps R (compute r)"
  by (simp_all add: keeps_def done_with_def raise_error_def compute_def reflpD)

lemma keeps_await [keeps_intros]:
  assumes "transp R" "keeps R m" "\<And>a. keeps R (f a)"
  shows "keeps R (await m f)"
proof (rule keepsI)
  fix s
  obtain r s' where m: "m s = (r, s')" by (cases "m s")
  have "R s s'" using assms(2) m by (rule keepsD)
  moreover have "R s' (snd (f a s'))" for a using assms(3) by (simp add: keeps_def)
  ultimately show "R s (snd (await m f s))"
    using assms(1) by (cases r) (auto simp: await_def m dest: transpD)
qed

lemma keeps_both [keeps_intros]:
  assumes "transp R" "keeps R m" "keeps R n"
  shows "keeps R (await_both m n)"
proof (rule keepsI)
  fix s
  obtain r1 s1 r2 s2 where e: "m s = (r1, s1)" "n s1 = (r2, s2)" by (metis surj_pair)
  have "R s s1" "R s1 s2" using assms(2,3) e by (auto dest: keepsD)
  then show "R s (snd (await_both m n s))" using assms(1) by (simp add: await_both_def e) (rule transpD)
qed

lemma keeps_if [keeps_intros]:
  "(c \<Longrightarrow> keeps R m) \<Longrightarrow> (\<not> c \<Longrightarrow> keeps R n) \<Longrightarrow> keeps R (if c then m else n)"
  by simp

lemma keeps_option [keeps_intros]:
  "(v = None \<Longrightarrow> keeps R m) \<Longrightarrow> (\<And>x. v = Some x \<Longrightarrow> keeps R (f x)) \<Longrightarrow>
   keeps R (case v of None \<Rightarrow> m | Some x \<Rightarrow> f x)"
  by (cases v) simp_all

lemma keeps_prod [keeps_intros]:
  "(\<And>a b. p = (a, b) \<Longrightarrow> keeps R (f a b)) \<Longrightarrow> keeps R (case p of (a, b) \<Rightarrow> f a b)"
  by (cases p) simp

end
