(* ===== verification/ExecutionStore.thy ===== *)
theory ExecutionStore
  imports ExecutionGate JS_Effect
begin

text \<open>
  The storage behind the execution gate: the repository interfaces of
  \<open>execution-gate/repositories.ts\<close> and their in-memory implementation
  \<open>execution-gate/inMemoryRepositories.ts\<close> with its failure flags and its unit of work.  A class
  instance is a record of its private fields; \<open>structuredClone\<close> is the identity, since records
  of the model are values.
\<close>

section \<open>Interfaces\<close>

record mark_planned_input =
  mp_actionId :: string
  mp_expectedCurrentStatuses :: "string list"
  mp_outboxMessageId :: "int option"
  mp_updatedAt :: string

record mark_planned_result =
  mr_updated :: bool
  mr_rowId :: "int option"
  mr_conflict :: bool

record outbox_ref =
  of_id :: int
  of_status :: string

record insert_result =
  ir_inserted :: bool
  ir_duplicate :: bool
  ir_rowId :: "int option"

text \<open>The two interfaces \<open>AgentActionRepository\<close> and \<open>OutboxRepository\<close> over a state.\<close>

record 's execution_repositories =
  rp_findByActionId :: "string \<Rightarrow> ('s, crm_agent_action option) action"
  rp_findByIdempotencyKey :: "string \<Rightarrow> ('s, crm_agent_action option) action"
  rp_markPlanned :: "mark_planned_input \<Rightarrow> ('s, mark_planned_result) action"
  rp_findCommand :: "string \<Rightarrow> ('s, outbox_ref option) action"
  rp_insertCommand :: "outbox_command \<Rightarrow> ('s, insert_result) action"

section \<open>In-memory repositories\<close>

record outbox_record =
  ob_id :: int
  ob_status :: string
  ob_command :: outbox_command

record execution_store =
  es_actions :: "crm_agent_action list"
  es_outbox :: "outbox_record list"
  es_nextActionRowId :: int
  es_nextOutboxRowId :: int

record failure_flags =
  failNextFindByActionId :: bool
  failNextFindByIdempotencyKey :: bool
  failNextMarkPlanned :: bool
  failNextInsert :: bool
  failNextCommit :: bool

definition no_failures :: failure_flags where
  "no_failures = \<lparr>failNextFindByActionId = False, failNextFindByIdempotencyKey = False,
     failNextMarkPlanned = False, failNextInsert = False, failNextCommit = False\<rparr>"

record repository =
  rs_store :: execution_store
  rs_flags :: failure_flags

definition normalizeAction :: "crm_agent_action \<Rightarrow> int \<Rightarrow> crm_agent_action" where
  "normalizeAction action rowId =
     action\<lparr>a_id := Some (case a_id action of Some n \<Rightarrow> n | None \<Rightarrow> rowId)\<rparr>"

definition new_action_repository :: "crm_agent_action list \<Rightarrow> failure_flags \<Rightarrow> int option \<Rightarrow> repository" where
  "new_action_repository initialActions flags nextRowId =
    (let normalized = map (\<lambda>(index, action). normalizeAction action (int index + 1)) (List.enumerate 0 initialActions);
         n = int (length normalized) + 1
     in \<lparr>rs_store = \<lparr>es_actions = normalized, es_outbox = [],
           es_nextActionRowId = max (case nextRowId of None \<Rightarrow> n | Some k \<Rightarrow> k) n, es_nextOutboxRowId = 1\<rparr>,
         rs_flags = flags\<rparr>)"

definition action_repository_from_store :: "execution_store \<Rightarrow> failure_flags \<Rightarrow> repository" where
  "action_repository_from_store store flags =
    (let repo = new_action_repository [] flags (Some (es_nextActionRowId store))
     in repo\<lparr>rs_store := (rs_store repo)\<lparr>es_actions := es_actions store, es_outbox := es_outbox store,
          es_nextOutboxRowId := es_nextOutboxRowId store\<rparr>\<rparr>)"

definition replace_actions_with :: "repository \<Rightarrow> repository \<Rightarrow> repository" where
  "replace_actions_with repo other =
     repo\<lparr>rs_store := (rs_store repo)\<lparr>es_actions := es_actions (rs_store other),
       es_nextActionRowId := es_nextActionRowId (rs_store other)\<rparr>\<rparr>"

definition seed_action :: "crm_agent_action \<Rightarrow> repository \<Rightarrow> repository" where
  "seed_action action repo =
    (let store = rs_store repo;
         rowId = (case a_id action of Some n \<Rightarrow> n | None \<Rightarrow> es_nextActionRowId store);
         next = (case a_id action of Some _ \<Rightarrow> es_nextActionRowId store | None \<Rightarrow> es_nextActionRowId store + 1)
     in repo\<lparr>rs_store := store\<lparr>es_actions := es_actions store @ [normalizeAction action rowId],
          es_nextActionRowId := next\<rparr>\<rparr>)"

text \<open>\<open>flags.f ?? this.failureFlags.f\<close>, with \<open>undefined\<close> as \<open>None\<close>.\<close>

definition set_action_flags :: "bool option \<Rightarrow> bool option \<Rightarrow> bool option \<Rightarrow> repository \<Rightarrow> repository" where
  "set_action_flags findById findByKey markPlanned repo =
    (let flags = rs_flags repo in repo\<lparr>rs_flags := flags\<lparr>
       failNextFindByActionId := case_option (failNextFindByActionId flags) id findById,
       failNextFindByIdempotencyKey := case_option (failNextFindByIdempotencyKey flags) id findByKey,
       failNextMarkPlanned := case_option (failNextMarkPlanned flags) id markPlanned\<rparr>\<rparr>)"

definition findByActionId :: "string \<Rightarrow> (repository, crm_agent_action option) action" where
  "findByActionId actionId repo =
    (if failNextFindByActionId (rs_flags repo)
     then (Inl (Error ''in-memory agent action lookup failed''),
           repo\<lparr>rs_flags := (rs_flags repo)\<lparr>failNextFindByActionId := False\<rparr>\<rparr>)
     else (Inr (find (\<lambda>action. a_actionId action = actionId) (es_actions (rs_store repo))), repo))"

definition findActionByIdempotencyKey :: "string \<Rightarrow> (repository, crm_agent_action option) action" where
  "findActionByIdempotencyKey key repo =
    (if failNextFindByIdempotencyKey (rs_flags repo)
     then (Inl (Error ''in-memory agent action idempotency lookup failed''),
           repo\<lparr>rs_flags := (rs_flags repo)\<lparr>failNextFindByIdempotencyKey := False\<rparr>\<rparr>)
     else (Inr (find (\<lambda>action. a_idempotencyKey action = key) (es_actions (rs_store repo))), repo))"

definition markPlanned :: "mark_planned_input \<Rightarrow> (repository, mark_planned_result) action" where
  "markPlanned input repo =
    (if failNextMarkPlanned (rs_flags repo)
     then (Inl (Error ''in-memory agent action update failed''),
           repo\<lparr>rs_flags := (rs_flags repo)\<lparr>failNextMarkPlanned := False\<rparr>\<rparr>)
     else
       (let actions = es_actions (rs_store repo)
        in case find_index (\<lambda>action. a_actionId action = mp_actionId input) actions of
          None \<Rightarrow> (Inr \<lparr>mr_updated = False, mr_rowId = None, mr_conflict = False\<rparr>, repo)
        | Some index \<Rightarrow>
            (let current = actions ! index
             in if gate_normalize (a_status current) \<notin> set (mp_expectedCurrentStatuses input)
                then (Inr \<lparr>mr_updated = False, mr_rowId = a_id current, mr_conflict = True\<rparr>, repo)
                else if a_status current = ''planned'' \<and> a_outboxMessageId current = mp_outboxMessageId input
                then (Inr \<lparr>mr_updated = False, mr_rowId = a_id current, mr_conflict = False\<rparr>, repo)
                else (Inr \<lparr>mr_updated = True, mr_rowId = a_id current, mr_conflict = False\<rparr>,
                  repo\<lparr>rs_store := (rs_store repo)\<lparr>es_actions := actions[index :=
                    current\<lparr>a_status := ''planned'', a_outboxMessageId := mp_outboxMessageId input,
                      a_updatedAt := Some (mp_updatedAt input)\<rparr>]\<rparr>\<rparr>))))"

definition new_outbox_repository :: "outbox_record list \<Rightarrow> failure_flags \<Rightarrow> int option \<Rightarrow> repository" where
  "new_outbox_repository initialOutbox flags nextRowId =
    (let n = int (length initialOutbox) + 1
     in \<lparr>rs_store = \<lparr>es_actions = [], es_outbox = initialOutbox, es_nextActionRowId = 1,
           es_nextOutboxRowId = max (case nextRowId of None \<Rightarrow> n | Some k \<Rightarrow> k) n\<rparr>,
         rs_flags = flags\<rparr>)"

definition outbox_repository_from_store :: "execution_store \<Rightarrow> failure_flags \<Rightarrow> repository" where
  "outbox_repository_from_store store flags =
    (let repo = new_outbox_repository [] flags (Some (es_nextOutboxRowId store))
     in repo\<lparr>rs_store := (rs_store repo)\<lparr>es_actions := es_actions store, es_outbox := es_outbox store,
          es_nextActionRowId := es_nextActionRowId store\<rparr>\<rparr>)"

definition replace_outbox_with :: "repository \<Rightarrow> repository \<Rightarrow> repository" where
  "replace_outbox_with repo other =
     repo\<lparr>rs_store := (rs_store repo)\<lparr>es_outbox := es_outbox (rs_store other),
       es_nextOutboxRowId := es_nextOutboxRowId (rs_store other)\<rparr>\<rparr>"

definition seed_outbox :: "int option \<Rightarrow> string \<Rightarrow> outbox_command \<Rightarrow> repository \<Rightarrow> repository" where
  "seed_outbox record_id status command repo =
    (let store = rs_store repo;
         rowId = (case record_id of Some n \<Rightarrow> n | None \<Rightarrow> es_nextOutboxRowId store);
         next = (case record_id of Some _ \<Rightarrow> es_nextOutboxRowId store | None \<Rightarrow> es_nextOutboxRowId store + 1)
     in repo\<lparr>rs_store := store\<lparr>es_outbox := es_outbox store @
            [\<lparr>ob_id = rowId, ob_status = status, ob_command = command\<rparr>],
          es_nextOutboxRowId := next\<rparr>\<rparr>)"

definition set_outbox_flags :: "bool option \<Rightarrow> repository \<Rightarrow> repository" where
  "set_outbox_flags insert_flag repo =
     repo\<lparr>rs_flags := (rs_flags repo)\<lparr>failNextInsert := case_option (failNextInsert (rs_flags repo)) id insert_flag\<rparr>\<rparr>"

definition findOutboxByIdempotencyKey :: "string \<Rightarrow> (repository, outbox_ref option) action" where
  "findOutboxByIdempotencyKey key repo =
     (Inr (map_option (\<lambda>row. \<lparr>of_id = ob_id row, of_status = ob_status row\<rparr>)
        (find (\<lambda>row. oc_idempotencyKey (ob_command row) = key) (es_outbox (rs_store repo)))), repo)"

definition insertCommand :: "outbox_command \<Rightarrow> (repository, insert_result) action" where
  "insertCommand command repo =
    (if failNextInsert (rs_flags repo)
     then (Inl (Error ''in-memory outbox insert failed''),
           repo\<lparr>rs_flags := (rs_flags repo)\<lparr>failNextInsert := False\<rparr>\<rparr>)
     else
       (let store = rs_store repo
        in case find (\<lambda>row. oc_idempotencyKey (ob_command row) = oc_idempotencyKey command) (es_outbox store) of
          Some existing \<Rightarrow> (Inr \<lparr>ir_inserted = False, ir_duplicate = True, ir_rowId = Some (ob_id existing)\<rparr>, repo)
        | None \<Rightarrow>
            (Inr \<lparr>ir_inserted = True, ir_duplicate = False, ir_rowId = Some (es_nextOutboxRowId store)\<rparr>,
             repo\<lparr>rs_store := store\<lparr>es_nextOutboxRowId := es_nextOutboxRowId store + 1,
               es_outbox := es_outbox store @
                 [\<lparr>ob_id = es_nextOutboxRowId store, ob_status = ''planned'', ob_command = command\<rparr>]\<rparr>\<rparr>)))"

section \<open>The unit of work\<close>

record unit_of_work =
  uw_agentActions :: repository
  uw_outbox :: repository
  uw_failNextCommit :: bool

text \<open>The staged pair of repositories an operation works on, and the interface on it.\<close>

type_synonym staged = "repository \<times> repository"

definition on_actions :: "(repository, 'a) action \<Rightarrow> (staged, 'a) action" where
  "on_actions m s = (case m (fst s) of (r, a) \<Rightarrow> (r, (a, snd s)))"

definition on_outbox :: "(repository, 'a) action \<Rightarrow> (staged, 'a) action" where
  "on_outbox m s = (case m (snd s) of (r, b) \<Rightarrow> (r, (fst s, b)))"

definition in_memory_repositories :: "staged execution_repositories" where
  "in_memory_repositories =
     \<lparr>rp_findByActionId = (\<lambda>actionId. on_actions (findByActionId actionId)),
      rp_findByIdempotencyKey = (\<lambda>key. on_actions (findActionByIdempotencyKey key)),
      rp_markPlanned = (\<lambda>input. on_actions (markPlanned input)),
      rp_findCommand = (\<lambda>key. on_outbox (findOutboxByIdempotencyKey key)),
      rp_insertCommand = (\<lambda>command. on_outbox (insertCommand command))\<rparr>"

definition stage :: "unit_of_work \<Rightarrow> staged" where
  "stage uw = (action_repository_from_store (rs_store (uw_agentActions uw)) (rs_flags (uw_agentActions uw)),
     outbox_repository_from_store (rs_store (uw_outbox uw)) (rs_flags (uw_outbox uw)))"

definition run_unit_of_work :: "(staged, 'a) action \<Rightarrow> (unit_of_work, 'a) action" where
  "run_unit_of_work operation uw =
    (case operation (stage uw) of
       (Inl e, _) \<Rightarrow> (Inl e, uw)
     | (Inr result, (actions, outbox)) \<Rightarrow>
         if uw_failNextCommit uw
         then (Inl (Error ''in-memory transaction commit failed''), uw\<lparr>uw_failNextCommit := False\<rparr>)
         else (Inr result, uw\<lparr>uw_agentActions := replace_actions_with (uw_agentActions uw) actions,
           uw_outbox := replace_outbox_with (uw_outbox uw) outbox\<rparr>))"

end
