(* ===== verification/ExecuteAction.thy ===== *)
theory ExecuteAction
  imports ExecutionStore
begin

text \<open>
  \<open>execution-gate/executeActionThroughGate.ts\<close>: one request to execute an action.  The gate is
  evaluated on the action of the request; inside a unit of work the persisted action is looked up,
  its command is inserted into the outbox and the action is linked to the outbox row.  The
  repositories and the unit of work are parameters, as in the source.
\<close>

section \<open>Results\<close>

record repository_result =
  rr_actionUpdated :: bool
  rr_outboxInserted :: bool
  rr_duplicateDetected :: bool
  rr_actionRowId :: "int option"
  rr_outboxRowId :: "int option"

record gate_side_effects =
  se_messageSent :: bool
  se_metaCalled :: bool
  se_workerTriggered :: bool

record gate_result =
  gr_status :: gate_status
  gr_allowed :: bool
  gr_actionId :: string
  gr_outboxCommand :: "outbox_command option"
  gr_blockReasons :: "gate_block_reason list"
  gr_warnings :: "string list"
  gr_repositoryResult :: repository_result
  gr_sideEffects :: gate_side_effects
  gr_evaluatedAt :: string

definition zeroRepositoryResult :: repository_result where
  "zeroRepositoryResult = \<lparr>rr_actionUpdated = False, rr_outboxInserted = False,
     rr_duplicateDetected = False, rr_actionRowId = None, rr_outboxRowId = None\<rparr>"

definition buildResult :: "string \<Rightarrow> string \<Rightarrow> outbox_command option \<Rightarrow> repository_result \<Rightarrow>
    gate_status \<Rightarrow> gate_block_reason list \<Rightarrow> string list \<Rightarrow> gate_result" where
  "buildResult evaluatedAt actionId outboxCommand repositoryResult status blockReasons warnings =
     \<lparr>gr_status = status, gr_allowed = (status = Gate_allowed), gr_actionId = actionId,
      gr_outboxCommand = outboxCommand, gr_blockReasons = blockReasons, gr_warnings = warnings,
      gr_repositoryResult = repositoryResult,
      gr_sideEffects = \<lparr>se_messageSent = False, se_metaCalled = False, se_workerTriggered = False\<rparr>,
      gr_evaluatedAt = evaluatedAt\<rparr>"

definition isReadyToPlan :: "string \<Rightarrow> bool" where
  "isReadyToPlan status \<longleftrightarrow> status = ''approved'' \<or> status = ''planned'' \<or> status = ''proposed''"

definition transaction_failure_regex :: regex where
  "transaction_failure_regex = ralts [rlit_i ''commit'', rlit_i ''rollback'', rlit_i ''transaction'']"

definition mapRepositoryFailure :: "string \<Rightarrow> string \<Rightarrow> gate_evaluation \<Rightarrow> js_error \<Rightarrow> gate_result" where
  "mapRepositoryFailure evaluatedAt actionId evaluation error =
    (let message = error_message error
     in buildResult evaluatedAt actionId None zeroRepositoryResult Gate_failed
       [if regex_test transaction_failure_regex message then Transaction_failure else Repository_failure]
       (ge_warnings evaluation @ [message]))"

section \<open>The transaction\<close>

text \<open>The arguments every \<open>buildResult\<close> of one request shares.\<close>

definition request_action_id :: "gate_input \<Rightarrow> string" where
  "request_action_id input =
     (case asText (Some (a_actionId (gi_action input))) of None \<Rightarrow> a_actionId (gi_action input) | Some t \<Rightarrow> t)"

definition request_result :: "gate_input \<Rightarrow> gate_evaluation \<Rightarrow> outbox_command option \<Rightarrow> repository_result \<Rightarrow>
    gate_status \<Rightarrow> gate_block_reason list \<Rightarrow> gate_result" where
  "request_result input evaluation outboxCommand repositoryResult status blockReasons =
     buildResult (gi_now input) (request_action_id input) outboxCommand repositoryResult status blockReasons
       (ge_warnings evaluation)"

definition mark_input :: "gate_input \<Rightarrow> crm_agent_action \<Rightarrow> int option \<Rightarrow> mark_planned_input" where
  "mark_input input persistedAction rowId =
     \<lparr>mp_actionId = a_actionId persistedAction,
      mp_expectedCurrentStatuses = EXECUTION_GATE_ALLOWED_ACTION_STATUSES,
      mp_outboxMessageId = rowId, mp_updatedAt = gi_now input\<rparr>"

text \<open>\<open>if (existingOutbox) { ... }\<close>\<close>

definition link_existing :: "'s execution_repositories \<Rightarrow> gate_input \<Rightarrow> gate_evaluation \<Rightarrow> crm_agent_action \<Rightarrow>
    outbox_command \<Rightarrow> repository_result \<Rightarrow> outbox_ref \<Rightarrow> ('s, gate_result) action" where
  "link_existing R input evaluation persistedAction outboxCommand repositoryResult existingOutbox =
     await (rp_markPlanned R (mark_input input persistedAction (Some (of_id existingOutbox)))) (\<lambda>update.
       if mr_conflict update then
         done_with (request_result input evaluation (Some outboxCommand) repositoryResult Gate_blocked [Conflicting_action])
       else
         done_with (request_result input evaluation (Some outboxCommand)
           (repositoryResult\<lparr>rr_actionUpdated := mr_updated update,
             rr_actionRowId := (case mr_rowId update of None \<Rightarrow> rr_actionRowId repositoryResult | Some n \<Rightarrow> Some n),
             rr_outboxRowId := Some (of_id existingOutbox)\<rparr>)
           Gate_duplicate [Duplicate_execution]))"

text \<open>The insertion of a new command and the update of the action.\<close>

definition insert_and_link :: "'s execution_repositories \<Rightarrow> gate_input \<Rightarrow> gate_evaluation \<Rightarrow> crm_agent_action \<Rightarrow>
    outbox_command \<Rightarrow> repository_result \<Rightarrow> ('s, gate_result) action" where
  "insert_and_link R input evaluation persistedAction outboxCommand repositoryResult =
     await (rp_insertCommand R outboxCommand) (\<lambda>insert.
       let inserted = repositoryResult\<lparr>rr_outboxInserted := ir_inserted insert,
             rr_duplicateDetected := ir_duplicate insert,
             rr_outboxRowId := (case ir_rowId insert of None \<Rightarrow> rr_outboxRowId repositoryResult | Some n \<Rightarrow> Some n)\<rparr>
       in await (rp_markPlanned R (mark_input input persistedAction (ir_rowId insert))) (\<lambda>update.
         if mr_conflict update then
           done_with (request_result input evaluation (Some outboxCommand) inserted Gate_blocked [Conflicting_action])
         else
           done_with (request_result input evaluation (Some outboxCommand)
             (inserted\<lparr>rr_actionUpdated := mr_updated update,
               rr_actionRowId := (case mr_rowId update of None \<Rightarrow> rr_actionRowId inserted | Some n \<Rightarrow> Some n)\<rparr>)
             (if ir_duplicate insert then Gate_duplicate else Gate_allowed)
             (if ir_duplicate insert then [Duplicate_execution] else []))))"

text \<open>From the lookup of the command's key on.\<close>

definition plan_command :: "'s execution_repositories \<Rightarrow> gate_input \<Rightarrow> gate_evaluation \<Rightarrow> crm_agent_action \<Rightarrow>
    outbox_command \<Rightarrow> ('s, gate_result) action" where
  "plan_command R input evaluation persistedAction outboxCommand =
     await (rp_findCommand R (oc_idempotencyKey outboxCommand)) (\<lambda>existingOutbox.
       let repositoryResult = zeroRepositoryResult\<lparr>
             rr_duplicateDetected := (existingOutbox \<noteq> None \<or> a_outboxMessageId persistedAction \<noteq> None),
             rr_actionRowId := a_id persistedAction,
             rr_outboxRowId := (case existingOutbox of Some e \<Rightarrow> Some (of_id e)
               | None \<Rightarrow> a_outboxMessageId persistedAction)\<rparr>
       in if a_outboxMessageId persistedAction \<noteq> None
          then done_with (request_result input evaluation (Some outboxCommand) repositoryResult
            Gate_duplicate [Duplicate_execution])
          else (case existingOutbox of
              Some e \<Rightarrow> link_existing R input evaluation persistedAction outboxCommand repositoryResult e
            | None \<Rightarrow> insert_and_link R input evaluation persistedAction outboxCommand repositoryResult))"

definition gate_transaction :: "'s execution_repositories \<Rightarrow> gate_input \<Rightarrow> gate_evaluation \<Rightarrow> ('s, gate_result) action" where
  "gate_transaction R input evaluation =
     await (await_both (rp_findByActionId R (a_actionId (gi_action input)))
                       (rp_findByIdempotencyKey R (a_idempotencyKey (gi_action input))))
       (\<lambda>(byActionId, byIdempotencyKey).
         case (case byActionId of None \<Rightarrow> byIdempotencyKey | Some a \<Rightarrow> Some a) of
           None \<Rightarrow> done_with (request_result input evaluation None zeroRepositoryResult Gate_invalid [Action_not_found])
         | Some persistedAction \<Rightarrow>
             if (case byIdempotencyKey of None \<Rightarrow> False | Some k \<Rightarrow>
                  (case byActionId of None \<Rightarrow> a_actionId k \<noteq> a_actionId (gi_action input)
                   | Some a \<Rightarrow> a_actionId k \<noteq> a_actionId a))
             then done_with (request_result input evaluation None
               (zeroRepositoryResult\<lparr>rr_duplicateDetected := True, rr_actionRowId := a_id persistedAction\<rparr>)
               Gate_duplicate [Duplicate_execution])
             else if \<not> isReadyToPlan (a_status persistedAction)
             then done_with (request_result input evaluation None zeroRepositoryResult Gate_blocked
               [Invalid_lifecycle_transition])
             else await (compute (buildOutboxCommand persistedAction (gi_now input)))
               (\<lambda>outboxCommand. plan_command R input evaluation persistedAction outboxCommand))"

text \<open>
  The whole request.  A command for a duplicate is built outside the \<open>try\<close>, so that branch can
  reject; everything inside the unit of work ends in a result.
\<close>

definition executeActionThroughGate ::
    "(('s, gate_result) action \<Rightarrow> ('u, gate_result) action) \<Rightarrow> 's execution_repositories \<Rightarrow>
     gate_input \<Rightarrow> ('u, gate_result) action" where
  "executeActionThroughGate run R input =
    (let evaluation = evaluateExecutionGate input
     in if ge_status evaluation \<noteq> Gate_allowed then
          await (compute (if ge_status evaluation = Gate_duplicate
                   then map_sum id Some (buildOutboxCommand (gi_action input) (gi_now input)) else Inr None))
            (\<lambda>outboxCommand. done_with (request_result input evaluation outboxCommand zeroRepositoryResult
               (ge_status evaluation) (ge_blockReasons evaluation)))
        else (\<lambda>u. case run (gate_transaction R input evaluation) u of
            (Inl error, u') \<Rightarrow> (Inr (mapRepositoryFailure (gi_now input) (request_action_id input) evaluation error), u')
          | (Inr result, u') \<Rightarrow> (Inr result, u')))"

abbreviation execute_in_memory :: "gate_input \<Rightarrow> (unit_of_work, gate_result) action" where
  "execute_in_memory \<equiv> executeActionThroughGate run_unit_of_work in_memory_repositories"

end
