(* ===== verification/Ledger.thy ===== *)
theory Ledger
  imports ExecuteAction
begin

text \<open>
  What a request promises, without repositories, flags and transactions: the ledger holds the
  actions, the outbox rows and the next row id, and \<open>plan_spec\<close> is the request on it.  The
  in-memory execution refines it, and the properties of the chain are proved on the ledger.
\<close>

section \<open>Specification\<close>

record ledger =
  lg_actions :: "crm_agent_action list"
  lg_rows :: "outbox_record list"
  lg_next :: int

definition linked :: "string \<Rightarrow> int \<Rightarrow> crm_agent_action \<Rightarrow> crm_agent_action" where
  "linked now rowId a = a\<lparr>a_status := ''planned'', a_outboxMessageId := Some rowId, a_updatedAt := Some now\<rparr>"

definition row_of :: "string \<Rightarrow> outbox_record list \<Rightarrow> outbox_record option" where
  "row_of key rows = find (\<lambda>row. oc_idempotencyKey (ob_command row) = key) rows"

definition plan_persisted :: "string \<Rightarrow> nat \<Rightarrow> ledger \<Rightarrow> gate_status \<times> ledger" where
  "plan_persisted now i L =
    (let p = lg_actions L ! i
     in if \<not> isReadyToPlan (a_status p) then (Gate_blocked, L)
        else case buildOutboxCommand p now of
          Inl _ \<Rightarrow> (Gate_failed, L)
        | Inr c \<Rightarrow>
            if a_outboxMessageId p \<noteq> None then (Gate_duplicate, L)
            else (case row_of (oc_idempotencyKey c) (lg_rows L) of
              Some row \<Rightarrow> (Gate_duplicate, L\<lparr>lg_actions := (lg_actions L)[i := linked now (ob_id row) p]\<rparr>)
            | None \<Rightarrow> (Gate_allowed,
                \<lparr>lg_actions = (lg_actions L)[i := linked now (lg_next L) p],
                 lg_rows = lg_rows L @ [\<lparr>ob_id = lg_next L, ob_status = ''planned'', ob_command = c\<rparr>],
                 lg_next = lg_next L + 1\<rparr>)))"

definition plan_spec :: "gate_input \<Rightarrow> ledger \<Rightarrow> gate_status \<times> ledger" where
  "plan_spec input L =
    (let byKey = find (\<lambda>a. a_idempotencyKey a = a_idempotencyKey (gi_action input)) (lg_actions L)
     in case find_index (\<lambda>a. a_actionId a = a_actionId (gi_action input)) (lg_actions L) of
          None \<Rightarrow> (if byKey = None then Gate_invalid else Gate_duplicate, L)
        | Some i \<Rightarrow>
            if (case byKey of None \<Rightarrow> False | Some k \<Rightarrow> a_actionId k \<noteq> a_actionId (gi_action input))
            then (Gate_duplicate, L) else plan_persisted (gi_now input) i L)"

definition ledger_of :: "staged \<Rightarrow> ledger" where
  "ledger_of s = \<lparr>lg_actions = es_actions (rs_store (fst s)), lg_rows = es_outbox (rs_store (snd s)),
     lg_next = es_nextOutboxRowId (rs_store (snd s))\<rparr>"

definition uow_ledger :: "unit_of_work \<Rightarrow> ledger" where
  "uow_ledger uw = ledger_of (uw_agentActions uw, uw_outbox uw)"

section \<open>The in-memory repositories as operations of the ledger\<close>

lemma repository_ops [simp]:
  "rp_findByActionId in_memory_repositories = (\<lambda>i. on_actions (findByActionId i))"
  "rp_findByIdempotencyKey in_memory_repositories = (\<lambda>k. on_actions (findActionByIdempotencyKey k))"
  "rp_markPlanned in_memory_repositories = (\<lambda>m. on_actions (markPlanned m))"
  "rp_findCommand in_memory_repositories = (\<lambda>k. on_outbox (findOutboxByIdempotencyKey k))"
  "rp_insertCommand in_memory_repositories = (\<lambda>c. on_outbox (insertCommand c))"
  by (simp_all add: in_memory_repositories_def)

lemma lookup_ledger:
  assumes "await_both (on_actions (findByActionId i)) (on_actions (findActionByIdempotencyKey k)) s = (Inr (p, q), s')"
  shows "s' = s \<and> p = find (\<lambda>a. a_actionId a = i) (lg_actions (ledger_of s)) \<and>
    q = find (\<lambda>a. a_idempotencyKey a = k) (lg_actions (ledger_of s))"
  using assms
  by (auto simp: await_both_def on_actions_def findByActionId_def findActionByIdempotencyKey_def ledger_of_def
      bind_result_Inr_iff split: prod.splits if_splits)

lemma find_command_ledger:
  "on_outbox (findOutboxByIdempotencyKey k) s =
     (Inr (map_option (\<lambda>row. \<lparr>of_id = ob_id row, of_status = ob_status row\<rparr>) (row_of k (lg_rows (ledger_of s)))), s)"
  by (simp add: on_outbox_def findOutboxByIdempotencyKey_def row_of_def ledger_of_def)

lemma mark_ledger:
  assumes "on_actions (markPlanned (mark_input input p (Some r))) s = (Inr m, s')"
    and "find_index (\<lambda>a. a_actionId a = a_actionId p) (lg_actions (ledger_of s)) = Some i"
    and "lg_actions (ledger_of s) ! i = p" "isReadyToPlan (a_status p)" "a_outboxMessageId p = None"
  shows "\<not> mr_conflict m \<and>
    ledger_of s' = (ledger_of s)\<lparr>lg_actions := (lg_actions (ledger_of s))[i := linked (gi_now input) r p]\<rparr>"
proof -
  have "gate_normalize (a_status p) \<in> set EXECUTION_GATE_ALLOWED_ACTION_STATUSES"
  proof -
    have "gate_normalize ''approved'' = ''approved''" "gate_normalize ''planned'' = ''planned''"
      "gate_normalize ''proposed'' = ''proposed''" by code_simp+
    then show ?thesis using assms(4) by (auto simp: isReadyToPlan_def EXECUTION_GATE_ALLOWED_ACTION_STATUSES_def)
  qed
  then show ?thesis using assms
    by (auto simp: on_actions_def markPlanned_def Let_def mark_input_def ledger_of_def linked_def
        split: if_splits prod.splits)
qed

lemma insert_ledger:
  assumes "on_outbox (insertCommand c) s = (Inr n, s')"
    and "row_of (oc_idempotencyKey c) (lg_rows (ledger_of s)) = None"
  shows "\<not> ir_duplicate n \<and> ir_rowId n = Some (lg_next (ledger_of s)) \<and> ledger_of s' = (ledger_of s)\<lparr>
    lg_rows := lg_rows (ledger_of s) @ [\<lparr>ob_id = lg_next (ledger_of s), ob_status = ''planned'', ob_command = c\<rparr>],
    lg_next := lg_next (ledger_of s) + 1\<rparr>"
  using assms
  by (auto simp: on_outbox_def insertCommand_def Let_def row_of_def ledger_of_def split: if_splits prod.splits)

lemma request_result_status [simp]: "gr_status (request_result input ev c rr st rs) = st"
  by (simp add: request_result_def buildResult_def)

lemma await_find_command:
  "await (on_outbox (findOutboxByIdempotencyKey k)) f s =
     f (map_option (\<lambda>row. \<lparr>of_id = ob_id row, of_status = ob_status row\<rparr>) (row_of k (lg_rows (ledger_of s)))) s"
  by (simp add: await_def find_command_ledger)

lemma plan_persisted_refines:
  assumes "await (compute (buildOutboxCommand p (gi_now input))) (plan_command in_memory_repositories input ev p) s
      = (Inr r, s')"
    and "find_index (\<lambda>a. a_actionId a = a_actionId p) (lg_actions (ledger_of s)) = Some i"
    and "lg_actions (ledger_of s) ! i = p" "isReadyToPlan (a_status p)"
  shows "plan_persisted (gi_now input) i (ledger_of s) = (gr_status r, ledger_of s')"
proof -
  obtain c where c: "buildOutboxCommand p (gi_now input) = Inr c"
    using assms(1) by (cases "buildOutboxCommand p (gi_now input)") (simp_all add: raise_error_def)
  let ?row = "row_of (oc_idempotencyKey c) (lg_rows (ledger_of s))"
  note run = assms(1)[unfolded c await_simps plan_command_def repository_ops await_find_command Let_def]
  show ?thesis
  proof (cases "a_outboxMessageId p")
    case (Some x)
    then show ?thesis using run assms(3,4) c by (auto simp: plan_persisted_def Let_def done_with_def)
  next
    case unlinked: None
    show ?thesis
    proof (cases ?row)
      case (Some row)
      from run unlinked Some obtain m where m: "on_actions (markPlanned (mark_input input p (Some (ob_id row)))) s = (Inr m, s')"
        "gr_status r = (if mr_conflict m then Gate_blocked else Gate_duplicate)"
        by (auto simp: link_existing_def done_with_def elim!: await_InrE split: if_splits)
      show ?thesis using mark_ledger [OF m(1) assms(2-4) unlinked] m(2) unlinked Some assms(3,4) c
        by (simp add: plan_persisted_def Let_def)
    next
      case fresh: None
      from run unlinked fresh obtain n s1 m where n: "on_outbox (insertCommand c) s = (Inr n, s1)"
        and m: "on_actions (markPlanned (mark_input input p (ir_rowId n))) s1 = (Inr m, s')"
        and st: "gr_status r = (if mr_conflict m then Gate_blocked else if ir_duplicate n then Gate_duplicate else Gate_allowed)"
        by (auto simp: insert_and_link_def done_with_def Let_def elim!: await_InrE split: if_splits)
      note ins = insert_ledger [OF n fresh]
      then have a: "lg_actions (ledger_of s1) = lg_actions (ledger_of s)" by simp
      have m': "on_actions (markPlanned (mark_input input p (Some (lg_next (ledger_of s))))) s1 = (Inr m, s')"
        using m ins by simp
      note mk = mark_ledger [OF m', unfolded a, OF assms(2-4) unlinked]
      show ?thesis using ins mk st unlinked fresh assms(3,4) c
        by (simp add: plan_persisted_def Let_def)
    qed
  qed
qed

lemma transaction_refines:
  assumes "gate_transaction in_memory_repositories input ev s = (Inr r, s')"
  shows "plan_spec input (ledger_of s) = (gr_status r, ledger_of s')"
proof -
  let ?id = "a_actionId (gi_action input)" and ?key = "a_idempotencyKey (gi_action input)"
  let ?as = "lg_actions (ledger_of s)"
  from assms obtain pq s1 where l: "await_both (on_actions (findByActionId ?id)) (on_actions (findActionByIdempotencyKey ?key)) s
      = (Inr pq, s1)" and rest: "(case pq of (p, q) \<Rightarrow> case (case p of None \<Rightarrow> q | Some a \<Rightarrow> Some a) of
           None \<Rightarrow> done_with (request_result input ev None zeroRepositoryResult Gate_invalid [Action_not_found])
         | Some persistedAction \<Rightarrow>
             if (case q of None \<Rightarrow> False | Some k \<Rightarrow>
                  (case p of None \<Rightarrow> a_actionId k \<noteq> ?id | Some a \<Rightarrow> a_actionId k \<noteq> a_actionId a))
             then done_with (request_result input ev None
               (zeroRepositoryResult\<lparr>rr_duplicateDetected := True, rr_actionRowId := a_id persistedAction\<rparr>)
               Gate_duplicate [Duplicate_execution])
             else if \<not> isReadyToPlan (a_status persistedAction)
             then done_with (request_result input ev None zeroRepositoryResult Gate_blocked [Invalid_lifecycle_transition])
             else await (compute (buildOutboxCommand persistedAction (gi_now input)))
               (\<lambda>outboxCommand. plan_command in_memory_repositories input ev persistedAction outboxCommand)) s1 = (Inr r, s')"
    unfolding gate_transaction_def repository_ops by (rule await_InrE)
  obtain p q where pq: "pq = (p, q)" by (cases pq)
  have s1: "s1 = s" and p: "p = find (\<lambda>a. a_actionId a = ?id) ?as" and q: "q = find (\<lambda>a. a_idempotencyKey a = ?key) ?as"
    using lookup_ledger [OF l[unfolded pq]] by blast+
  note run = rest[unfolded pq s1 prod.case]
  show ?thesis
  proof (cases "find_index (\<lambda>a. a_actionId a = ?id) ?as")
    case None
    then have pn: "p = None" using p by (simp add: find_conv_index)
    have "a_actionId k \<noteq> ?id" if "q = Some k" for k
      using that None unfolding q find_index_None by (blast dest: find_Some_prop)
    then show ?thesis using run pn None unfolding plan_spec_def q [symmetric]
      by (auto simp: Let_def done_with_def split: option.splits)
  next
    case (Some i)
    then have ps: "p = Some (?as ! i)" "a_actionId (?as ! i) = ?id"
      using p find_index_Some [OF Some] by (simp_all add: find_conv_index)
    show ?thesis
    proof (cases "(case q of None \<Rightarrow> False | Some k \<Rightarrow> a_actionId k \<noteq> ?id) \<or> \<not> isReadyToPlan (a_status (?as ! i))")
      case True
      then show ?thesis using run ps Some unfolding plan_spec_def q [symmetric]
        by (auto simp: plan_persisted_def Let_def done_with_def split: option.splits)
    next
      case False
      then have ready: "isReadyToPlan (a_status (?as ! i))" and nd: "\<not> (case q of None \<Rightarrow> False | Some k \<Rightarrow> a_actionId k \<noteq> ?id)" by blast+
      have "plan_persisted (gi_now input) i (ledger_of s) = (gr_status r, ledger_of s')"
        by (rule plan_persisted_refines [where p = "?as ! i" and ev = ev])
          (use run ready nd Some in \<open>cases q; simp add: ps\<close>)+
      then show ?thesis using nd Some unfolding plan_spec_def q [symmetric] by (simp add: Let_def)
    qed
  qed
qed

end
