(* ===== verification/LedgerSafety.thy ===== *)
theory LedgerSafety
  imports Ledger
begin

text \<open>
  What holds of every request executed through the gate with the in-memory unit of work: it
  refines \<open>plan_spec\<close>, it is atomic, and the ledger stays consistent over any history of
  requests, including requests that fail.
\<close>

section \<open>A unit of work with one persisted action\<close>

definition sample_uow_with :: "crm_agent_action list \<Rightarrow> unit_of_work" where
  "sample_uow_with actions = \<lparr>uw_agentActions = new_action_repository actions no_failures None,
     uw_outbox = new_outbox_repository [] no_failures None, uw_failNextCommit = False\<rparr>"

definition sample_uow :: unit_of_work where
  "sample_uow = sample_uow_with [sample_action]"

section \<open>Refinement\<close>

lemma ledger_of_stage: "1 \<le> lg_next (uow_ledger uw) \<Longrightarrow> ledger_of (stage uw) = uow_ledger uw"
  by (simp add: ledger_of_def stage_def uow_ledger_def action_repository_from_store_def new_action_repository_def
      outbox_repository_from_store_def new_outbox_repository_def Let_def)

lemma ledger_of_commit:
  "uow_ledger (uw\<lparr>uw_agentActions := replace_actions_with (uw_agentActions uw) a,
     uw_outbox := replace_outbox_with (uw_outbox uw) b\<rparr>) = ledger_of (a, b)"
  by (simp add: uow_ledger_def ledger_of_def replace_actions_with_def replace_outbox_with_def)

lemma uow_ledger_commit_flag [simp]: "uow_ledger (uw\<lparr>uw_failNextCommit := b\<rparr>) = uow_ledger uw"
  by (simp add: uow_ledger_def)

lemma run_cases:
  obtains (failed) e where "fst (run_unit_of_work operation uw) = Inl e"
      "uow_ledger (snd (run_unit_of_work operation uw)) = uow_ledger uw"
  | (committed) r s' where "operation (stage uw) = (Inr r, s')" "fst (run_unit_of_work operation uw) = Inr r"
      "uow_ledger (snd (run_unit_of_work operation uw)) = ledger_of s'" "\<not> uw_failNextCommit uw"
proof -
  obtain r a b where op: "operation (stage uw) = (r, (a, b))" by (metis surj_pair)
  show thesis
  proof (cases r)
    case (Inl e)
    then show thesis by (intro failed) (simp_all add: run_unit_of_work_def op)
  next
    case (Inr x)
    show thesis
    proof (cases "uw_failNextCommit uw")
      case True
      then show thesis by (intro failed) (simp_all add: run_unit_of_work_def op Inr)
    next
      case False
      then show thesis using op Inr
        by (intro committed) (simp_all add: run_unit_of_work_def ledger_of_commit)
    qed
  qed
qed

lemma mapRepositoryFailure_status [simp]: "gr_status (mapRepositoryFailure t i ev e) = Gate_failed"
  by (simp add: mapRepositoryFailure_def buildResult_def Let_def)

lemma not_allowed_unchanged:
  "ge_status (evaluateExecutionGate input) \<noteq> Gate_allowed \<Longrightarrow> snd (execute_in_memory input uw) = uw"
  by (simp add: executeActionThroughGate_def Let_def await_def compute_def done_with_def split: sum.split)

lemma plan_spec_failed: "plan_spec input L = (Gate_failed, L') \<Longrightarrow> L' = L"
  by (auto simp: plan_spec_def plan_persisted_def Let_def split: option.splits if_splits sum.splits)

lemma execute_refines:
  assumes "execute_in_memory input uw = (Inr r, uw')" "1 \<le> lg_next (uow_ledger uw)"
  shows "if ge_status (evaluateExecutionGate input) = Gate_allowed \<and> gr_status r \<noteq> Gate_failed
    then plan_spec input (uow_ledger uw) = (gr_status r, uow_ledger uw') else uow_ledger uw' = uow_ledger uw"
proof (cases "ge_status (evaluateExecutionGate input) = Gate_allowed")
  case False
  then show ?thesis using not_allowed_unchanged [OF False, of uw] assms(1) by simp
next
  case True
  let ?op = "gate_transaction in_memory_repositories input (evaluateExecutionGate input)"
  show ?thesis
  proof (cases rule: run_cases [of ?op uw])
    case (failed e)
    then show ?thesis using assms(1) True
      by (auto simp: executeActionThroughGate_def Let_def split: prod.splits)
  next
    case (committed x s')
    then have "r = x" "uow_ledger uw' = ledger_of s'" using assms(1) True
      by (auto simp: executeActionThroughGate_def Let_def split: prod.splits)
    then have "plan_spec input (uow_ledger uw) = (gr_status r, uow_ledger uw')"
      using transaction_refines [OF committed(1)] ledger_of_stage [OF assms(2)] by simp
    then show ?thesis using plan_spec_failed [of input "uow_ledger uw" "uow_ledger uw'"] True by simp
  qed
qed

text \<open>
  C2. Atomicity and refinement: whatever failures are injected, a request that returns either
  leaves actions and outbox as they were, or it did exactly what \<open>plan_spec\<close> says, with the
  status \<open>plan_spec\<close> gives; a request the gate refused or that failed changes nothing.
\<close>

theorem execute_atomic:
  assumes "execute_in_memory input uw = (Inr r, uw')" "1 \<le> lg_next (uow_ledger uw)"
  shows "if ge_status (evaluateExecutionGate input) = Gate_allowed \<and> gr_status r \<noteq> Gate_failed
    then plan_spec input (uow_ledger uw) = (gr_status r, uow_ledger uw') else uow_ledger uw' = uow_ledger uw"
  using assms by (rule execute_refines)

section \<open>Without injected failures\<close>

definition reliable :: "repository \<Rightarrow> bool" where
  "reliable repo \<longleftrightarrow> \<not> failNextFindByActionId (rs_flags repo) \<and> \<not> failNextFindByIdempotencyKey (rs_flags repo) \<and>
     \<not> failNextMarkPlanned (rs_flags repo) \<and> \<not> failNextInsert (rs_flags repo)"

definition reliable_uow :: "unit_of_work \<Rightarrow> bool" where
  "reliable_uow uw \<longleftrightarrow> reliable (uw_agentActions uw) \<and> reliable (uw_outbox uw) \<and> \<not> uw_failNextCommit uw"

text \<open>An action that succeeds from every reliable state, in a reliable state.\<close>

definition sure :: "(staged, 'a) action \<Rightarrow> bool" where
  "sure m \<longleftrightarrow> (\<forall>s. reliable (fst s) \<and> reliable (snd s) \<longrightarrow>
     is_ok (fst (m s)) \<and> reliable (fst (snd (m s))) \<and> reliable (snd (snd (m s))))"

lemma sureD: "sure m \<Longrightarrow> reliable (fst s) \<Longrightarrow> reliable (snd s) \<Longrightarrow>
   \<exists>a s'. m s = (Inr a, s') \<and> reliable (fst s') \<and> reliable (snd s')"
  unfolding sure_def by (metis is_okE prod.collapse)

lemma sureI:
  "(\<And>s. reliable (fst s) \<Longrightarrow> reliable (snd s) \<Longrightarrow>
     \<exists>a s'. m s = (Inr a, s') \<and> reliable (fst s') \<and> reliable (snd s')) \<Longrightarrow> sure m"
  unfolding sure_def by fastforce

lemma sure_await: "sure m \<Longrightarrow> (\<And>a. sure (f a)) \<Longrightarrow> sure (await m f)"
proof (rule sureI)
  fix s :: staged
  assume h: "sure m" "\<And>a. sure (f a)" "reliable (fst s)" "reliable (snd s)"
  then obtain a s1 where m: "m s = (Inr a, s1)" and s1: "reliable (fst s1)" "reliable (snd s1)" by (blast dest: sureD)
  show "\<exists>b s'. await m f s = (Inr b, s') \<and> reliable (fst s') \<and> reliable (snd s')"
    using sureD [OF h(2) s1] by (simp add: await_def m)
qed

lemma sure_both: "sure m \<Longrightarrow> sure n \<Longrightarrow> sure (await_both m n)"
proof (rule sureI)
  fix s :: staged
  assume h: "sure m" "sure n" "reliable (fst s)" "reliable (snd s)"
  then obtain a s1 where 1: "m s = (Inr a, s1)" "reliable (fst s1)" "reliable (snd s1)" by (blast dest: sureD)
  with h(2) obtain b s2 where "n s1 = (Inr b, s2)" "reliable (fst s2)" "reliable (snd s2)" by (blast dest: sureD)
  with 1 show "\<exists>a s'. await_both m n s = (Inr a, s') \<and> reliable (fst s') \<and> reliable (snd s')"
    by (simp add: await_both_def)
qed

lemma sure_done: "sure (done_with a)"
  by (simp add: sure_def done_with_def)

lemma sure_ops:
  "sure (on_actions (findByActionId i))" "sure (on_actions (findActionByIdempotencyKey k))"
  "sure (on_actions (markPlanned m))" "sure (on_outbox (findOutboxByIdempotencyKey k))" "sure (on_outbox (insertCommand c))"
  by (auto simp: sure_def reliable_def on_actions_def on_outbox_def findByActionId_def findActionByIdempotencyKey_def
      markPlanned_def findOutboxByIdempotencyKey_def insertCommand_def Let_def split: option.split)

lemma sure_if: "sure m \<Longrightarrow> sure n \<Longrightarrow> sure (if c then m else n)"
  by simp

lemma sure_option: "sure m \<Longrightarrow> (\<And>x. sure (f x)) \<Longrightarrow> sure (case v of None \<Rightarrow> m | Some x \<Rightarrow> f x)"
  by (cases v) simp_all

lemma sure_plan_command: "sure (plan_command in_memory_repositories input ev p c)"
  unfolding plan_command_def link_existing_def insert_and_link_def Let_def repository_ops
  by (intro sure_await sure_ops sure_if sure_option sure_done)

text \<open>The only error of a reliable transaction is a command that cannot be built.\<close>

lemma reliable_transaction_error:
  assumes "gate_transaction in_memory_repositories input ev s = (Inl e, s')"
    and "reliable (fst s)" "reliable (snd s)"
  shows "plan_spec input (ledger_of s) = (Gate_failed, ledger_of s)"
proof -
  let ?id = "a_actionId (gi_action input)" and ?key = "a_idempotencyKey (gi_action input)"
  let ?as = "lg_actions (ledger_of s)"
  have "sure (await_both (on_actions (findByActionId ?id)) (on_actions (findActionByIdempotencyKey ?key)))"
    by (intro sure_both sure_ops)
  then obtain p q s1 where l: "await_both (on_actions (findByActionId ?id)) (on_actions (findActionByIdempotencyKey ?key)) s
      = (Inr (p, q), s1)" using sureD [OF _ assms(2,3)] by (metis surj_pair)
  have s1: "s1 = s" and p: "p = find (\<lambda>a. a_actionId a = ?id) ?as" and q: "q = find (\<lambda>a. a_idempotencyKey a = ?key) ?as"
    using lookup_ledger [OF l] by blast+
  have built: "\<exists>x. buildOutboxCommand a (gi_now input) = Inl x"
    if "await (compute (buildOutboxCommand a (gi_now input)))
      (\<lambda>c. plan_command in_memory_repositories input ev a c) s = (Inl e, s')" for a
  proof (cases "buildOutboxCommand a (gi_now input)")
    case (Inr c)
    then show ?thesis using that sureD [OF sure_plan_command assms(2,3), of input ev a c] by auto
  qed blast
  have "(case p of None \<Rightarrow> q | Some a \<Rightarrow> Some a) \<noteq> None"
    using assms(1) by (auto simp: gate_transaction_def await_def l done_with_def split: prod.splits option.splits)
  have e: "\<exists>a x. (case p of None \<Rightarrow> q | Some a \<Rightarrow> Some a) = Some a \<and> isReadyToPlan (a_status a) \<and>
      \<not> (case q of None \<Rightarrow> False | Some k \<Rightarrow>
          (case p of None \<Rightarrow> a_actionId k \<noteq> ?id | Some b \<Rightarrow> a_actionId k \<noteq> a_actionId b)) \<and>
      buildOutboxCommand a (gi_now input) = Inl x"
  proof (cases "case p of None \<Rightarrow> q | Some a \<Rightarrow> Some a")
    case None
    then show ?thesis using assms(1) unfolding gate_transaction_def repository_ops
      by (simp add: await_def [of "await_both m n" for m n] l s1 done_with_def)
  next
    case (Some a)
    then show ?thesis using assms(1) built [of a] unfolding gate_transaction_def repository_ops
      by (simp add: await_def [of "await_both m n" for m n] l s1 done_with_def split: if_splits)
  qed
  then obtain a x where a: "(case p of None \<Rightarrow> q | Some a \<Rightarrow> Some a) = Some a" "isReadyToPlan (a_status a)"
      "buildOutboxCommand a (gi_now input) = Inl x"
      "\<not> (case q of None \<Rightarrow> False | Some k \<Rightarrow>
          (case p of None \<Rightarrow> a_actionId k \<noteq> ?id | Some b \<Rightarrow> a_actionId k \<noteq> a_actionId b))" by blast
  show ?thesis
  proof (cases p)
    case None
    then have "find_index (\<lambda>a. a_actionId a = ?id) ?as = None" using p by (simp add: find_conv_index)
    moreover have "q = Some a" "a_actionId a = ?id" using a(1,4) None by simp_all
    ultimately show ?thesis using q unfolding find_index_None by (metis (mono_tags) find_Some_prop)
  next
    case (Some b)
    then obtain i where i: "find_index (\<lambda>a. a_actionId a = ?id) ?as = Some i" "?as ! i = b"
      using p by (auto simp: find_conv_index)
    then have "a_actionId b = ?id" using find_index_Some [OF i(1)] by simp
    moreover have "b = a" using a(1) Some by simp
    moreover have "\<not> (case q of None \<Rightarrow> False | Some k \<Rightarrow> a_actionId k \<noteq> ?id)"
      using a(4) Some \<open>a_actionId b = ?id\<close> by (cases q) simp_all
    ultimately show ?thesis using a(2,3) i unfolding plan_spec_def q [symmetric]
      by (simp add: plan_persisted_def Let_def)
  qed
qed

lemma reliable_request:
  assumes "reliable_uow uw" "1 \<le> lg_next (uow_ledger uw)"
    and "ge_status (evaluateExecutionGate input) = Gate_allowed"
  shows "\<exists>r uw'. execute_in_memory input uw = (Inr r, uw') \<and>
    plan_spec input (uow_ledger uw) = (gr_status r, uow_ledger uw')"
proof -
  let ?op = "gate_transaction in_memory_repositories input (evaluateExecutionGate input)"
  have st: "reliable (fst (stage uw))" "reliable (snd (stage uw))"
    using assms(1) by (simp_all add: reliable_uow_def reliable_def stage_def action_repository_from_store_def
        outbox_repository_from_store_def new_action_repository_def new_outbox_repository_def Let_def)
  obtain r uw' where e: "execute_in_memory input uw = (Inr r, uw')"
    using assms(3) by (cases "run_unit_of_work ?op uw"; cases "fst (run_unit_of_work ?op uw)")
      (auto simp: executeActionThroughGate_def Let_def)
  have failed: "plan_spec input (uow_ledger uw) = (Gate_failed, uow_ledger uw)" if f: "gr_status r = Gate_failed"
  proof (cases "?op (stage uw)")
    case (fields x s')
    show ?thesis
    proof (cases x)
      case (Inl y)
      then show ?thesis
        using reliable_transaction_error [OF fields[unfolded Inl] st] ledger_of_stage [OF assms(2)] by simp
    next
      case (Inr y)
      then have "gr_status y = Gate_failed" using e f assms(1,3) fields
        by (simp add: executeActionThroughGate_def Let_def run_unit_of_work_def reliable_uow_def split: prod.splits)
      then show ?thesis using transaction_refines [OF fields[unfolded Inr]] ledger_of_stage [OF assms(2)] plan_spec_failed
        by metis
    qed
  qed
  show ?thesis using execute_refines [OF e assms(2)] e assms(3) failed by (cases "gr_status r = Gate_failed") auto
qed

text \<open>
  C27. Without injected failures a request the gate allows always returns, and what it did is
  exactly \<open>plan_spec\<close>: status and ledger.
\<close>

theorem execute_reliable:
  assumes "reliable_uow uw" "1 \<le> lg_next (uow_ledger uw)"
    and "ge_status (evaluateExecutionGate input) = Gate_allowed"
  shows "\<exists>r uw'. execute_in_memory input uw = (Inr r, uw') \<and>
    plan_spec input (uow_ledger uw) = (gr_status r, uow_ledger uw')"
  using assms by (rule reliable_request)

text \<open>One persisted ready action: the request for it queues its command.\<close>

lemma sample_uow_with_ok: "reliable_uow (sample_uow_with actions)" "1 \<le> lg_next (uow_ledger (sample_uow_with actions))"
  by (simp_all add: reliable_uow_def reliable_def sample_uow_with_def new_action_repository_def uow_ledger_def
      ledger_of_def new_outbox_repository_def no_failures_def Let_def)

lemma sample_uow_ok: "reliable_uow sample_uow" "1 \<le> lg_next (uow_ledger sample_uow)"
  unfolding sample_uow_def by (rule sample_uow_with_ok)+

lemma normalizeAction_ready [simp]: "normalizeAction (ready_action i k m) n = ready_action i k m"
  by (simp add: normalizeAction_def ready_action_def)

lemma ready_action_simps [simp]:
  "a_actionId (ready_action i k m) = i" "a_idempotencyKey (ready_action i k m) = k"
  "a_status (ready_action i k m) = ''proposed''" "a_outboxMessageId (ready_action i k m) = None"
  "a_id (ready_action i k m) = Some 7" "a_waId (ready_action i k m) = Some ''+56 9 1234 5678''"
  "a_finalMessage (ready_action i k m) = m" "a_draftMessage (ready_action i k m) = Some ''hola''"
  by (simp_all add: ready_action_def)

lemma single_ledger:
  "a_id p \<noteq> None \<Longrightarrow> uow_ledger (sample_uow_with [p]) = \<lparr>lg_actions = [p], lg_rows = [], lg_next = 1\<rparr>"
  by (auto simp: uow_ledger_def ledger_of_def sample_uow_with_def new_action_repository_def
      new_outbox_repository_def Let_def normalizeAction_def)

lemma single_executes:
  assumes "ge_status (evaluateExecutionGate (sample_gate_input a)) = Gate_allowed"
    and "buildOutboxCommand p sample_now = Inr c" "a_actionId p = a_actionId a" "a_idempotencyKey p = a_idempotencyKey a"
    and "isReadyToPlan (a_status p)" "a_outboxMessageId p = None" "a_id p \<noteq> None"
  shows "\<exists>r uw'. execute_in_memory (sample_gate_input a) (sample_uow_with [p]) = (Inr r, uw') \<and> gr_status r = Gate_allowed \<and>
    uow_ledger uw' = \<lparr>lg_actions = [linked sample_now 1 p],
      lg_rows = [\<lparr>ob_id = 1, ob_status = ''planned'', ob_command = c\<rparr>], lg_next = 2\<rparr>"
proof -
  have "plan_spec (sample_gate_input a) (uow_ledger (sample_uow_with [p])) = (Gate_allowed,
      \<lparr>lg_actions = [linked sample_now 1 p], lg_rows = [\<lparr>ob_id = 1, ob_status = ''planned'', ob_command = c\<rparr>], lg_next = 2\<rparr>)"
    using assms(2-6) by (simp add: single_ledger [OF assms(7)] plan_spec_def sample_gate_input_def plan_persisted_def
        Let_def row_of_def)
  then show ?thesis using reliable_request [OF sample_uow_with_ok [of "[p]"] assms(1)] by auto
qed

lemma ready_command:
  assumes "asText (Some k) = Some k'" "candidate_message m (Some ''hola'') = Some t"
  obtains c where "buildOutboxCommand (ready_action i k m) now = Inr c" "oc_recipient c = ''56912345678''"
    "oc_messageText c = t" "oc_idempotencyKey c = ''outbox:action:'' @ i @ '':'' @ k'"
proof -
  have "normalizeWaIdDigits (Some ''+56 9 1234 5678'') = Some ''56912345678''" by code_simp
  then show thesis using that assms by (simp add: buildOutboxCommand_def command_id_def)
qed

lemma sample_executes:
  "\<exists>r uw'. execute_in_memory (sample_gate_input sample_action) sample_uow = (Inr r, uw') \<and> gr_status r = Gate_allowed \<and>
     length (lg_rows (uow_ledger uw')) = 1"
proof -
  obtain c where "buildOutboxCommand sample_action sample_now = Inr c"
    unfolding sample_action_def by (rule ready_command [of "''key-1''" "''key-1''" None "''hola''"])
      (simp_all add: text_samples candidate_message_def)
  from single_executes [OF sample_allowed this] show ?thesis
    unfolding sample_uow_def by (auto simp: sample_action_def isReadyToPlan_def)
qed

lemma execute_atomic_witness:
  "\<exists>r uw'. execute_in_memory (sample_gate_input sample_action) sample_uow = (Inr r, uw') \<and>
     plan_spec (sample_gate_input sample_action) (uow_ledger sample_uow) = (Gate_allowed, uow_ledger uw')"
proof -
  obtain r uw' where e: "execute_in_memory (sample_gate_input sample_action) sample_uow = (Inr r, uw')"
    "gr_status r = Gate_allowed" using sample_executes by blast
  moreover have "1 \<le> lg_next (uow_ledger sample_uow)" using sample_uow_ok by blast
  ultimately show ?thesis using execute_atomic [OF e(1)] e sample_allowed by auto
qed

lemma execute_reliable_witness:
  "\<exists>r uw'. execute_in_memory (sample_gate_input sample_action) sample_uow = (Inr r, uw') \<and>
     plan_spec (sample_gate_input sample_action) (uow_ledger sample_uow) = (gr_status r, uow_ledger uw')"
  by (rule execute_reliable [OF sample_uow_ok sample_allowed])

end
