(* ===== verification/LedgerHistory.thy ===== *)
theory LedgerHistory
  imports LedgerSafety
begin

text \<open>
  Histories of requests: the consistency of the ledger (unique command keys, unique row ids,
  every link to the row of the same action) over any sequence of requests and injected failures,
  the second execution of a request, and two requests the identifiers of the code do not keep
  apart.
\<close>

section \<open>A consistent ledger\<close>

definition row_key :: "outbox_record \<Rightarrow> string" where
  "row_key row = oc_idempotencyKey (ob_command row)"

definition own_key :: "outbox_record \<Rightarrow> bool" where
  "own_key row \<longleftrightarrow> js_starts_with (row_key row) (''outbox:action:'' @ oc_actionId (ob_command row) @ '':'')"

definition linked_ok :: "outbox_record list \<Rightarrow> crm_agent_action \<Rightarrow> bool" where
  "linked_ok rows a \<longleftrightarrow> (case a_outboxMessageId a of None \<Rightarrow> True
     | Some i \<Rightarrow> list_ex (\<lambda>row. ob_id row = i \<and> oc_actionId (ob_command row) = a_actionId a) rows)"

definition ledger_ok :: "ledger \<Rightarrow> bool" where
  "ledger_ok L \<longleftrightarrow> distinct (map row_key (lg_rows L)) \<and> distinct (map ob_id (lg_rows L)) \<and>
     list_all (\<lambda>row. ob_id row < lg_next L \<and> own_key row) (lg_rows L) \<and>
     list_all (linked_ok (lg_rows L)) (lg_actions L) \<and> 1 \<le> lg_next L"

text \<open>
  A command id joins action id and idempotency key with a colon, so identifiers with colons can make
  two actions share one (theorem \<open>command_id_collision\<close>).  A ledger keeps them apart when actions and
  rows with one command id are of one action.  It does, for instance, when no action id followed by a
  colon begins another one: for identifiers without colons, and also for those of follow-ups and
  their replacements, \<open>followup-replacement:<id>:g<n>:<digest>\<close>, which have colons.
\<close>

definition command_of :: "crm_agent_action \<Rightarrow> string option" where
  "command_of a = map_option (command_id a) (asText (Some (a_idempotencyKey a)))"

definition commands_separate :: "ledger \<Rightarrow> bool" where
  "commands_separate L \<longleftrightarrow>
     list_all (\<lambda>a. list_all (\<lambda>b. command_of a = command_of b \<longrightarrow> command_of a = None \<or> a_actionId a = a_actionId b)
       (lg_actions L)) (lg_actions L) \<and>
     list_all (\<lambda>row. list_all (\<lambda>a. command_of a = Some (row_key row) \<longrightarrow> oc_actionId (ob_command row) = a_actionId a)
       (lg_actions L)) (lg_rows L)"

lemma buildOutboxCommand_fields:
  assumes "buildOutboxCommand a now = Inr c"
  shows "oc_actionId c = a_actionId a"
    "\<exists>k. asText (Some (a_idempotencyKey a)) = Some k \<and> oc_idempotencyKey c = command_id a k"
  using assms by (auto simp: buildOutboxCommand_def split: option.splits)

lemma buildOutboxCommand_linked: "buildOutboxCommand (linked now r a) t = buildOutboxCommand a t"
  by (simp add: buildOutboxCommand_def linked_def command_id_def split: option.split)

lemma command_of_id: "command_of a = Some k \<Longrightarrow> js_starts_with k (''outbox:action:'' @ a_actionId a @ '':'')"
  by (auto simp: command_of_def command_id_def js_starts_with_def)

lemma starts_both:
  assumes "js_starts_with k (p @ a @ [c])" "js_starts_with k (p @ b @ [c])"
  shows "prefix (a @ [c]) (b @ [c]) \<or> prefix (b @ [c]) (a @ [c])"
proof -
  have "prefix (p @ a @ [c]) (p @ b @ [c]) \<or> prefix (p @ b @ [c]) (p @ a @ [c])"
    using assms prefix_same_cases unfolding js_starts_with_def by blast
  then show ?thesis by simp
qed

text \<open>Action ids of which none, with a colon, begins another one keep the command ids apart.\<close>

lemma prefix_free_separate:
  assumes "list_all own_key (lg_rows L)"
    and "\<And>m n. m \<in> ids \<Longrightarrow> n \<in> ids \<Longrightarrow> prefix (m @ '':'') (n @ '':'') \<Longrightarrow> m = n"
    and "a_actionId ` set (lg_actions L) \<union> (oc_actionId \<circ> ob_command) ` set (lg_rows L) \<subseteq> ids"
  shows "commands_separate L"
proof -
  have same: "m = n" if "m \<in> ids" "n \<in> ids" "js_starts_with k (''outbox:action:'' @ m @ '':'')"
    "js_starts_with k (''outbox:action:'' @ n @ '':'')" for m n k
    using starts_both [OF that(3,4)] assms(2) that(1,2) by blast
  have ids: "a \<in> set (lg_actions L) \<Longrightarrow> a_actionId a \<in> ids" "row \<in> set (lg_rows L) \<Longrightarrow> oc_actionId (ob_command row) \<in> ids" for a row
    using assms(3) by auto
  have "a_actionId a = a_actionId b" if "a \<in> set (lg_actions L)" "b \<in> set (lg_actions L)" "command_of a = Some k" "command_of b = Some k" for a b k
    by (rule same [OF ids(1) [OF that(1)] ids(1) [OF that(2)] command_of_id [OF that(3)] command_of_id [OF that(4)]])
  moreover have "oc_actionId (ob_command row) = a_actionId a"
    if "row \<in> set (lg_rows L)" "a \<in> set (lg_actions L)" "command_of a = Some (row_key row)" for row a
  proof (rule same [OF ids(2) [OF that(1)] ids(1) [OF that(2)] _ command_of_id [OF that(3)]])
    show "js_starts_with (row_key row) (''outbox:action:'' @ oc_actionId (ob_command row) @ '':'')"
      using assms(1) that(1) by (simp add: own_key_def list_all_iff)
  qed
  moreover have "command_of a = None \<or> a_actionId a = a_actionId b"
    if "a \<in> set (lg_actions L)" "b \<in> set (lg_actions L)" "command_of a = command_of b" for a b
    using calculation(1) [OF that(1,2)] that(3) by (cases "command_of b") simp_all
  ultimately show ?thesis unfolding commands_separate_def list_all_iff by blast
qed

lemma row_of_Some: "row_of key rows = Some row \<Longrightarrow> row \<in> set rows \<and> row_key row = key"
  unfolding row_of_def row_key_def by (auto dest: find_Some_prop)

lemma row_of_None: "row_of key rows = None \<longleftrightarrow> key \<notin> row_key ` set rows"
  by (auto simp: row_of_def row_key_def find_None_iff)

lemma linked_ok_append: "linked_ok rows a \<Longrightarrow> linked_ok (rows @ added) a"
  by (auto simp: linked_ok_def split: option.splits)

lemma linked_simps [simp]:
  "a_actionId (linked now r a) = a_actionId a" "a_outboxMessageId (linked now r a) = Some r"
  "a_status (linked now r a) = ''planned''" "a_idempotencyKey (linked now r a) = a_idempotencyKey a"
  by (simp_all add: linked_def)

lemma command_of_linked [simp]: "command_of (linked now r a) = command_of a"
  by (cases "asText (Some (a_idempotencyKey a))") (simp_all add: command_of_def command_id_def linked_def)

lemma ledger_ok_relink:
  assumes "ledger_ok L" "linked_ok (lg_rows L) a"
  shows "ledger_ok (L\<lparr>lg_actions := (lg_actions L)[i := a]\<rparr>)"
  using assms by (auto simp: ledger_ok_def list_all_iff dest!: set_update_subset_insert [THEN subsetD])

lemma ledger_ok_insert:
  assumes "ledger_ok L" "row_key row \<notin> row_key ` set (lg_rows L)" "ob_id row = lg_next L" "own_key row"
  shows "ledger_ok (L\<lparr>lg_rows := lg_rows L @ [row], lg_next := lg_next L + 1\<rparr>)"
  using assms by (fastforce simp: ledger_ok_def list_all_iff intro: linked_ok_append)

lemma separate_relink:
  assumes "commands_separate L" "i < length (lg_actions L)"
  shows "commands_separate (L\<lparr>lg_actions := (lg_actions L)[i := linked now r (lg_actions L ! i)]\<rparr>)"
proof -
  have "\<exists>b \<in> set (lg_actions L). a_actionId b = a_actionId a \<and> command_of b = command_of a"
    if "a \<in> set ((lg_actions L)[i := linked now r (lg_actions L ! i)])" for a
    using set_update_subset_insert [THEN subsetD, OF that] nth_mem [OF assms(2)] by auto
  then show ?thesis using assms(1) unfolding commands_separate_def list_all_iff by simp metis
qed

lemma separate_insert:
  assumes "commands_separate L" "p \<in> set (lg_actions L)" "command_of p = Some (row_key row)" "oc_actionId (ob_command row) = a_actionId p"
  shows "commands_separate (L\<lparr>lg_rows := lg_rows L @ [row], lg_next := n\<rparr>)"
proof -
  have "a_actionId p = a_actionId a" if "a \<in> set (lg_actions L)" "command_of a = Some (row_key row)" for a
    using that assms(1-3) unfolding commands_separate_def list_all_iff by (metis option.distinct(1))
  then show ?thesis using assms(1,4) by (simp add: commands_separate_def list_all_iff)
qed

lemma plan_persisted_ok:
  assumes "ledger_ok L" "commands_separate L" "i < length (lg_actions L)"
  shows "ledger_ok (snd (plan_persisted now i L)) \<and> commands_separate (snd (plan_persisted now i L))"
proof -
  let ?p = "lg_actions L ! i"
  note p = nth_mem [OF assms(3)]
  show ?thesis
  proof (cases "isReadyToPlan (a_status ?p) \<and> a_outboxMessageId ?p = None")
    case False
    then show ?thesis using assms(1,2) by (auto simp: plan_persisted_def Let_def split: sum.split)
  next
    case ready: True
    show ?thesis
    proof (cases "buildOutboxCommand ?p now")
      case (Inl e)
      then show ?thesis using assms(1,2) ready by (simp add: plan_persisted_def Let_def)
    next
      case (Inr c)
      note f = buildOutboxCommand_fields [OF Inr]
      then have k: "command_of ?p = Some (oc_idempotencyKey c)" by (auto simp: command_of_def)
      show ?thesis
      proof (cases "row_of (oc_idempotencyKey c) (lg_rows L)")
        case (Some row)
        then have row: "row \<in> set (lg_rows L)" "command_of ?p = Some (row_key row)" using row_of_Some k by auto
        then have "oc_actionId (ob_command row) = a_actionId ?p"
          using assms(2) p by (auto simp: commands_separate_def list_all_iff)
        then have "linked_ok (lg_rows L) (linked now (ob_id row) ?p)"
          using row(1) by (auto simp: linked_ok_def list_ex_iff)
        then show ?thesis using Some Inr ready assms ledger_ok_relink separate_relink
          by (simp add: plan_persisted_def Let_def)
      next
        case None
        let ?row = "\<lparr>ob_id = lg_next L, ob_status = ''planned'', ob_command = c\<rparr>"
        let ?L = "L\<lparr>lg_rows := lg_rows L @ [?row], lg_next := lg_next L + 1\<rparr>"
        have "own_key ?row" using command_of_id [OF k] f(1) by (simp add: own_key_def row_key_def)
        moreover have "row_key ?row \<notin> row_key ` set (lg_rows L)" using None by (simp add: row_of_None row_key_def)
        ultimately have ok: "ledger_ok ?L" using assms(1) by (intro ledger_ok_insert) simp_all
        have sep: "commands_separate ?L" using separate_insert [OF assms(2) p] k f(1) by (simp add: row_key_def)
        have "linked_ok (lg_rows ?L) (linked now (lg_next L) ?p)"
          using f(1) by (simp add: linked_ok_def)
        with ok have "ledger_ok (?L\<lparr>lg_actions := (lg_actions ?L)[i := linked now (lg_next L) ?p]\<rparr>)"
          by (rule ledger_ok_relink)
        moreover have "commands_separate (?L\<lparr>lg_actions := (lg_actions ?L)[i := linked now (lg_next L) (lg_actions ?L ! i)]\<rparr>)"
          using sep by (rule separate_relink) (use assms(3) in simp)
        moreover have "?L\<lparr>lg_actions := (lg_actions ?L)[i := linked now (lg_next L) ?p]\<rparr> = snd (plan_persisted now i L)"
          using None Inr ready by (cases L) (simp add: plan_persisted_def Let_def)
        ultimately show ?thesis by simp
      qed
    qed
  qed
qed

lemma plan_spec_ok:
  "ledger_ok L \<Longrightarrow> commands_separate L \<Longrightarrow> ledger_ok (snd (plan_spec input L)) \<and> commands_separate (snd (plan_spec input L))"
  unfolding plan_spec_def Let_def
  by (auto split: option.split dest!: find_index_Some dest: plan_persisted_ok)

lemma plan_spec_rows: "\<exists>added. lg_rows (snd (plan_spec input L)) = lg_rows L @ added \<and> length added \<le> 1"
  by (auto simp: plan_spec_def plan_persisted_def Let_def split: option.split sum.split)

section \<open>Histories\<close>

definition with_failures :: "failure_flags \<Rightarrow> failure_flags \<Rightarrow> bool \<Rightarrow> unit_of_work \<Rightarrow> unit_of_work" where
  "with_failures f g c uw = uw\<lparr>uw_agentActions := (uw_agentActions uw)\<lparr>rs_flags := f\<rparr>,
     uw_outbox := (uw_outbox uw)\<lparr>rs_flags := g\<rparr>, uw_failNextCommit := c\<rparr>"

text \<open>Requests of any kind, in any order, with failures injected between them.\<close>

inductive gate_history :: "unit_of_work \<Rightarrow> unit_of_work \<Rightarrow> bool" where
  opened: "gate_history uw uw"
| requested: "gate_history uw uw' \<Longrightarrow> gate_history uw (snd (execute_in_memory input uw'))"
| injected: "gate_history uw uw' \<Longrightarrow> gate_history uw (with_failures f g c uw')"

lemma uow_ledger_with_failures [simp]: "uow_ledger (with_failures f g c uw) = uow_ledger uw"
  by (simp add: with_failures_def uow_ledger_def ledger_of_def)

lemma request_ledger:
  assumes "ledger_ok (uow_ledger uw)"
  shows "uow_ledger (snd (execute_in_memory input uw)) \<in> {uow_ledger uw, snd (plan_spec input (uow_ledger uw))}"
proof (cases "execute_in_memory input uw")
  case (Pair r uw')
  show ?thesis
  proof (cases r)
    case (Inl e)
    then have "ge_status (evaluateExecutionGate input) \<noteq> Gate_allowed"
      using Pair by (auto simp: executeActionThroughGate_def Let_def split: prod.splits sum.splits)
    then show ?thesis using not_allowed_unchanged [of input uw] by simp
  next
    case (Inr x)
    have "1 \<le> lg_next (uow_ledger uw)" using assms by (simp add: ledger_ok_def)
    from execute_refines [OF Pair[unfolded Inr] this] show ?thesis
      using Pair by (auto split: if_splits)
  qed
qed

text \<open>
  C17. The ledger stays consistent whatever the history, as long as no two actions of it share a command id:
  command keys and row ids stay unique, every row has a key of its own action, every linked action points
  at a row that holds a command of that same action, rows are only ever appended, and the command ids
  stay apart.
\<close>

theorem gate_history_consistent:
  assumes "gate_history uw uw'" "ledger_ok (uow_ledger uw)" "commands_separate (uow_ledger uw)"
  shows "ledger_ok (uow_ledger uw') \<and> prefix (lg_rows (uow_ledger uw)) (lg_rows (uow_ledger uw')) \<and>
    commands_separate (uow_ledger uw')"
  using assms
proof (induction rule: gate_history.induct)
  case (requested uw uw' input)
  then have ok: "ledger_ok (uow_ledger uw')" "commands_separate (uow_ledger uw')" by blast+
  note planned = plan_spec_ok [OF ok, of input]
  have "prefix (lg_rows (uow_ledger uw')) (lg_rows (snd (plan_spec input (uow_ledger uw'))))"
    using plan_spec_rows [of input "uow_ledger uw'"] by (auto simp: prefix_def)
  moreover have "prefix (lg_rows (uow_ledger uw)) (lg_rows (uow_ledger uw'))" using requested by blast
  ultimately have "prefix (lg_rows (uow_ledger uw)) (lg_rows (snd (plan_spec input (uow_ledger uw'))))"
    "prefix (lg_rows (uow_ledger uw)) (lg_rows (uow_ledger uw'))" by (blast intro: prefix_order.trans)+
  moreover have "uow_ledger (snd (execute_in_memory input uw')) = uow_ledger uw' \<or>
      uow_ledger (snd (execute_in_memory input uw')) = snd (plan_spec input (uow_ledger uw'))"
    using request_ledger [OF ok(1), of input] by simp
  ultimately show ?case using ok planned by (elim disjE) simp_all
qed simp_all

text \<open>An action and a replacement of it, whose identifier has colons.\<close>

definition replaced_actions :: "crm_agent_action list" where
  "replaced_actions = [sample_action, ready_action ''followup-replacement:act-1:g1:0123456789abcdef0123'' ''key-2'' None]"

lemma replaced_ledger:
  "uow_ledger (sample_uow_with replaced_actions) = \<lparr>lg_actions = replaced_actions, lg_rows = [], lg_next = 1\<rparr>"
  by (simp add: uow_ledger_def ledger_of_def sample_uow_with_def new_action_repository_def new_outbox_repository_def Let_def
      replaced_actions_def sample_action_def)

lemma replaced_executes:
  "\<exists>r uw'. execute_in_memory (sample_gate_input sample_action) (sample_uow_with replaced_actions) = (Inr r, uw') \<and>
     length (lg_rows (uow_ledger uw')) = 1"
proof -
  obtain c where "buildOutboxCommand sample_action sample_now = Inr c"
    unfolding sample_action_def by (rule ready_command [of "''key-1''" "''key-1''" None "''hola''"])
      (simp_all add: text_samples candidate_message_def)
  then have "fst (plan_spec (sample_gate_input sample_action) (uow_ledger (sample_uow_with replaced_actions))) = Gate_allowed"
    "length (lg_rows (snd (plan_spec (sample_gate_input sample_action) (uow_ledger (sample_uow_with replaced_actions))))) = 1"
    unfolding replaced_ledger by (simp_all add: plan_spec_def sample_gate_input_def plan_persisted_def Let_def row_of_def
      replaced_actions_def sample_action_def isReadyToPlan_def)
  then show ?thesis using reliable_request [OF sample_uow_with_ok sample_allowed, of replaced_actions] by force
qed

lemma gate_history_consistent_witness:
  "\<exists>uw'. gate_history (sample_uow_with replaced_actions) uw' \<and> length (lg_rows (uow_ledger uw')) = 1 \<and> ledger_ok (uow_ledger uw')"
proof -
  obtain r uw' where e: "execute_in_memory (sample_gate_input sample_action) (sample_uow_with replaced_actions) = (Inr r, uw')"
    "length (lg_rows (uow_ledger uw')) = 1" using replaced_executes by blast
  have "gate_history (sample_uow_with replaced_actions) (snd (execute_in_memory (sample_gate_input sample_action) (sample_uow_with replaced_actions)))"
    by (intro gate_history.intros)
  then have h: "gate_history (sample_uow_with replaced_actions) uw'" using e(1) by simp
  have "ledger_ok (uow_ledger (sample_uow_with replaced_actions))"
    unfolding replaced_ledger by (simp add: replaced_actions_def sample_action_def ledger_ok_def linked_ok_def)
  moreover have "commands_separate (uow_ledger (sample_uow_with replaced_actions))"
    by (rule prefix_free_separate [where ids = "{''act-1'', ''followup-replacement:act-1:g1:0123456789abcdef0123''}"])
      (unfold replaced_ledger, auto simp: replaced_actions_def sample_action_def)
  ultimately show ?thesis using gate_history_consistent [OF h] e(2) h by blast
qed

section \<open>The same request again\<close>

lemma find_index_update:
  "find_index P xs = Some i \<Longrightarrow> P y \<Longrightarrow> find_index P (xs[i := y]) = Some i"
  by (induction xs arbitrary: i) (auto split: if_splits)

lemma find_update:
  "i < length xs \<Longrightarrow> P y = P (xs ! i) \<Longrightarrow> g y = g (xs ! i) \<Longrightarrow>
   map_option g (find P (xs[i := y])) = map_option g (find P xs)"
  by (induction xs arbitrary: i) (auto simp: nth_Cons split: nat.splits)

lemma other_action_iff:
  "(case q of None \<Rightarrow> False | Some k \<Rightarrow> a_actionId k \<noteq> n) \<longleftrightarrow>
   map_option a_actionId q \<noteq> None \<and> map_option a_actionId q \<noteq> Some n"
  by (cases q) auto

lemma plan_spec_allowed:
  assumes "plan_spec input L = (Gate_allowed, L')"
  obtains i c where "find_index (\<lambda>a. a_actionId a = a_actionId (gi_action input)) (lg_actions L) = Some i"
    "\<not> (case find (\<lambda>a. a_idempotencyKey a = a_idempotencyKey (gi_action input)) (lg_actions L) of
        None \<Rightarrow> False | Some k \<Rightarrow> a_actionId k \<noteq> a_actionId (gi_action input))"
    "buildOutboxCommand (lg_actions L ! i) (gi_now input) = Inr c"
    "lg_actions L' = (lg_actions L)[i := linked (gi_now input) (lg_next L) (lg_actions L ! i)]"
    "lg_rows L' = lg_rows L @ [\<lparr>ob_id = lg_next L, ob_status = ''planned'', ob_command = c\<rparr>]"
    "oc_idempotencyKey c \<notin> row_key ` set (lg_rows L)" "lg_next L' = lg_next L + 1"
  using assms by (fastforce simp: plan_spec_def plan_persisted_def Let_def row_of_None
      split: option.splits if_splits sum.splits)

lemma plan_spec_twice:
  assumes "plan_spec input L = (Gate_allowed, L')"
  shows "plan_spec input L' = (Gate_duplicate, L')"
  using assms
proof (rule plan_spec_allowed)
  fix i c
  let ?P = "\<lambda>a. a_actionId a = a_actionId (gi_action input)"
  let ?K = "\<lambda>a. a_idempotencyKey a = a_idempotencyKey (gi_action input)"
  let ?p = "lg_actions L ! i" and ?q = "linked (gi_now input) (lg_next L) (lg_actions L ! i)"
  assume i: "find_index ?P (lg_actions L) = Some i"
    and nd: "\<not> (case find ?K (lg_actions L) of None \<Rightarrow> False | Some k \<Rightarrow> a_actionId k \<noteq> a_actionId (gi_action input))"
    and c: "buildOutboxCommand ?p (gi_now input) = Inr c"
    and a: "lg_actions L' = (lg_actions L)[i := ?q]"
  have b: "i < length (lg_actions L)" "?P ?p" using find_index_Some [OF i] by blast+
  have "find_index ?P (lg_actions L') = Some i" unfolding a by (rule find_index_update [OF i]) (simp add: b(2))
  moreover have "map_option a_actionId (find ?K (lg_actions L')) = map_option a_actionId (find ?K (lg_actions L))"
    unfolding a by (rule find_update [OF b(1)]) simp_all
  moreover have "lg_actions L' ! i = ?q" using a b(1) by simp
  moreover have "isReadyToPlan (a_status ?q)" by (simp add: isReadyToPlan_def)
  ultimately show ?thesis using nd c unfolding other_action_iff
    by (simp add: plan_spec_def Let_def other_action_iff plan_persisted_def buildOutboxCommand_linked)
qed

lemma reliable_uow_after:
  "reliable_uow uw \<Longrightarrow> reliable_uow (snd (execute_in_memory input uw))"
proof -
  assume u: "reliable_uow uw"
  have "reliable_uow (snd (run_unit_of_work op uw))" for op :: "(staged, gate_result) action"
    using u by (auto simp: run_unit_of_work_def reliable_uow_def reliable_def replace_actions_with_def
        replace_outbox_with_def split: prod.split sum.split)
  moreover have "snd (execute_in_memory input uw) =
      snd (run_unit_of_work (gate_transaction in_memory_repositories input (evaluateExecutionGate input)) uw)"
    if "ge_status (evaluateExecutionGate input) = Gate_allowed"
    using that by (simp add: executeActionThroughGate_def Let_def split: prod.split sum.split)
  ultimately show ?thesis using u not_allowed_unchanged [of input uw]
    by (cases "ge_status (evaluateExecutionGate input) = Gate_allowed") simp_all
qed

text \<open>
  C33. Exactly once: after a request that queued its command, the same request finds a duplicate and
  changes nothing.
\<close>

theorem second_request_is_duplicate:
  assumes "reliable_uow uw" "1 \<le> lg_next (uow_ledger uw)"
    and "execute_in_memory input uw = (Inr r, uw')" "gr_status r = Gate_allowed"
  shows "\<exists>r' uw''. execute_in_memory input uw' = (Inr r', uw'') \<and> gr_status r' = Gate_duplicate \<and>
    uow_ledger uw'' = uow_ledger uw' \<and> length (lg_rows (uow_ledger uw')) = Suc (length (lg_rows (uow_ledger uw)))"
proof -
  have al: "ge_status (evaluateExecutionGate input) = Gate_allowed"
  proof (rule ccontr)
    assume n: "ge_status (evaluateExecutionGate input) \<noteq> Gate_allowed"
    then show False using assms(3,4)
      by (auto simp: executeActionThroughGate_def Let_def await_def compute_def done_with_def
          split: prod.splits sum.splits)
  qed
  then have p: "plan_spec input (uow_ledger uw) = (Gate_allowed, uow_ledger uw')"
    using execute_refines [OF assms(3,2)] assms(4) by simp
  have "1 \<le> lg_next (uow_ledger uw')" using p by (rule plan_spec_allowed) (use assms(2) in simp)
  moreover have "reliable_uow uw'" using reliable_uow_after [OF assms(1), of input] assms(3) by simp
  ultimately obtain r' uw'' where e: "execute_in_memory input uw' = (Inr r', uw'')"
      "plan_spec input (uow_ledger uw') = (gr_status r', uow_ledger uw'')"
    using reliable_request al by blast
  moreover have "length (lg_rows (uow_ledger uw')) = Suc (length (lg_rows (uow_ledger uw)))"
    using p by (rule plan_spec_allowed) simp
  ultimately show ?thesis using plan_spec_twice [OF p] by auto
qed

lemma second_request_is_duplicate_witness:
  "\<exists>r uw' r' uw''. execute_in_memory (sample_gate_input sample_action) sample_uow = (Inr r, uw') \<and>
     execute_in_memory (sample_gate_input sample_action) uw' = (Inr r', uw'') \<and> gr_status r' = Gate_duplicate"
proof -
  obtain r uw' where e: "execute_in_memory (sample_gate_input sample_action) sample_uow = (Inr r, uw')"
    "gr_status r = Gate_allowed" using sample_executes by blast
  from second_request_is_duplicate [OF sample_uow_ok e] show ?thesis using e(1) by blast
qed

section \<open>What the identifiers and the gate do not separate\<close>

text \<open>Two ready actions whose identifiers and keys give one command id.\<close>

definition first_action :: crm_agent_action where
  "first_action = ready_action ''a:b'' ''c'' None"

definition second_action :: crm_agent_action where
  "second_action = ready_action ''a'' ''b:c'' (Some ''chao'')"

lemma colliding_allowed:
  "ge_status (evaluateExecutionGate (sample_gate_input first_action)) = Gate_allowed"
  "ge_status (evaluateExecutionGate (sample_gate_input second_action)) = Gate_allowed"
proof -
  have t: "asText (Some ''a:b'') \<noteq> None" "asText (Some ''c'') \<noteq> None" "asText (Some ''a'') \<noteq> None"
    "asText (Some ''b:c'') \<noteq> None" by code_simp+
  show "ge_status (evaluateExecutionGate (sample_gate_input first_action)) = Gate_allowed"
    unfolding first_action_def by (rule ready_allowed [where m = "''hola''"])
      (simp_all add: t [simplified] text_samples candidate_message_def safe_samples)
  show "ge_status (evaluateExecutionGate (sample_gate_input second_action)) = Gate_allowed"
    unfolding second_action_def by (rule ready_allowed [where m = "''chao''"])
      (simp_all add: t [simplified] text_samples candidate_message_def safe_samples)
qed

lemma colliding_plans:
  obtains L1 L2 where
    "plan_spec (sample_gate_input first_action) (uow_ledger (sample_uow_with [first_action, second_action])) = (Gate_allowed, L1)"
    "plan_spec (sample_gate_input second_action) L1 = (Gate_duplicate, L2)"
    "map a_outboxMessageId (lg_actions L2) = [Some 1, Some 1]"
    "map (\<lambda>row. oc_messageText (ob_command row)) (lg_rows L2) = [''hola'']"
proof -
  have k: "asText (Some ''c'') = Some ''c''" "asText (Some ''b:c'') = Some ''b:c''" by code_simp+
  obtain c1 where c1: "buildOutboxCommand first_action sample_now = Inr c1" "oc_idempotencyKey c1 = ''outbox:action:a:b:c''"
    "oc_messageText c1 = ''hola''" unfolding first_action_def
    by (rule ready_command [OF k(1), of None "''hola''" "''a:b''"]) (simp_all add: candidate_message_def text_samples)
  obtain c2 where c2: "buildOutboxCommand second_action sample_now = Inr c2" "oc_idempotencyKey c2 = ''outbox:action:a:b:c''"
    unfolding second_action_def
    by (rule ready_command [OF k(2), of "Some ''chao''" "''chao''" "''a''"]) (simp_all add: candidate_message_def text_samples)
  have f: "a_actionId first_action = ''a:b''" "a_idempotencyKey first_action = ''c''" "a_status first_action = ''proposed''"
    "a_outboxMessageId first_action = None" "a_actionId second_action = ''a''" "a_idempotencyKey second_action = ''b:c''"
    "a_status second_action = ''proposed''" "a_outboxMessageId second_action = None"
    by (simp_all add: first_action_def second_action_def)
  have n: "normalizeAction first_action k = first_action" "normalizeAction second_action k = second_action" for k
    by (simp_all add: first_action_def second_action_def)
  let ?L0 = "\<lparr>lg_actions = [first_action, second_action], lg_rows = [], lg_next = 1\<rparr>"
  let ?r = "\<lparr>ob_id = 1, ob_status = ''planned'', ob_command = c1\<rparr>"
  let ?L1 = "\<lparr>lg_actions = [linked sample_now 1 first_action, second_action], lg_rows = [?r], lg_next = 2\<rparr>"
  let ?L2 = "\<lparr>lg_actions = [linked sample_now 1 first_action, linked sample_now 1 second_action], lg_rows = [?r], lg_next = 2\<rparr>"
  have l: "uow_ledger (sample_uow_with [first_action, second_action]) = ?L0"
    by (simp add: uow_ledger_def ledger_of_def sample_uow_with_def new_action_repository_def
        new_outbox_repository_def Let_def n)
  have 1: "plan_spec (sample_gate_input first_action) ?L0 = (Gate_allowed, ?L1)"
    by (simp add: plan_spec_def sample_gate_input_def plan_persisted_def Let_def f c1 isReadyToPlan_def row_of_def)
  have 2: "plan_spec (sample_gate_input second_action) ?L1 = (Gate_duplicate, ?L2)"
    by (simp add: plan_spec_def sample_gate_input_def plan_persisted_def Let_def f c1 c2 isReadyToPlan_def row_of_def)
  show thesis by (rule that [OF _ 2]) (simp_all add: l 1 c1)
qed

text \<open>
  The command id of an action joins action id and key with a colon, so two different actions can
  share it: both pass the gate, the second is reported as a duplicate and linked to the row of
  the first, and its own message is never queued.
\<close>

theorem command_id_collision:
  "\<exists>r1 uw1 r2 uw2.
     execute_in_memory (sample_gate_input first_action) (sample_uow_with [first_action, second_action]) = (Inr r1, uw1) \<and>
     execute_in_memory (sample_gate_input second_action) uw1 = (Inr r2, uw2) \<and>
     gr_status r1 = Gate_allowed \<and> gr_status r2 = Gate_duplicate \<and>
     map a_outboxMessageId (lg_actions (uow_ledger uw2)) = [Some 1, Some 1] \<and>
     map (\<lambda>row. oc_messageText (ob_command row)) (lg_rows (uow_ledger uw2)) = [''hola'']"
proof (rule colliding_plans)
  let ?uw = "sample_uow_with [first_action, second_action]"
  fix L1 L2
  assume p: "plan_spec (sample_gate_input first_action) (uow_ledger ?uw) = (Gate_allowed, L1)"
      "plan_spec (sample_gate_input second_action) L1 = (Gate_duplicate, L2)"
    and m: "map a_outboxMessageId (lg_actions L2) = [Some 1, Some 1]"
      "map (\<lambda>row. oc_messageText (ob_command row)) (lg_rows L2) = [''hola'']"
  note ok = sample_uow_with_ok [of "[first_action, second_action]"]
  from reliable_request [OF ok colliding_allowed(1)] p(1) obtain r1 uw1 where e1:
    "execute_in_memory (sample_gate_input first_action) ?uw = (Inr r1, uw1)" "gr_status r1 = Gate_allowed" "uow_ledger uw1 = L1"
    by auto
  have "1 \<le> lg_next L1" using p(1) by (rule plan_spec_allowed) (use ok(2) in simp)
  moreover have "reliable_uow uw1" using reliable_uow_after [OF ok(1)] e1(1) by (metis snd_conv)
  ultimately obtain r2 uw2 where "execute_in_memory (sample_gate_input second_action) uw1 = (Inr r2, uw2)"
      "gr_status r2 = Gate_duplicate" "uow_ledger uw2 = L2"
    using reliable_request [OF _ _ colliding_allowed(2), of uw1] p(2) e1(3) by auto
  then show ?thesis using e1(1,2) m by (intro exI conjI) (assumption | simp)+
qed

text \<open>
  The persisted version of an action the request still shows in its old form.
\<close>

definition edited_action :: crm_agent_action where
  "edited_action = sample_action\<lparr>a_waId := Some ''56999999999'', a_finalMessage := Some ''tu token es 123456''\<rparr>"

text \<open>
  The gate and the sandbox judge the action of the request, but the command is built from the
  persisted action and is not judged again: a request that passes every check queues a message
  with a credential marker for a number that is not whitelisted.
\<close>

theorem persisted_action_not_rechecked:
  "\<exists>r uw' row. execute_in_memory (sample_gate_input sample_action) (sample_uow_with [edited_action]) = (Inr r, uw') \<and>
     gr_status r = Gate_allowed \<and> lg_rows (uow_ledger uw') = [row] \<and>
     oc_recipient (ob_command row) \<notin> set (parseAutonomousTestWaIds
       (Some (js_join '','' (whitelistedWaIds sample_sandbox_config)))) \<and>
     hasCredentialMarker (oc_messageText (ob_command row))"
proof -
  have e: "normalizeWaIdDigits (Some ''56999999999'') = Some ''56999999999''" "asText (Some ''key-1'') = Some ''key-1''"
    "asText (Some ''tu token es 123456'') = Some ''tu token es 123456''" by code_simp+
  have f: "a_waId edited_action = Some ''56999999999''" "a_finalMessage edited_action = Some ''tu token es 123456''"
    "a_idempotencyKey edited_action = ''key-1''" "a_actionId edited_action = ''act-1''" "a_status edited_action = ''proposed''"
    "a_outboxMessageId edited_action = None" "a_id edited_action = Some 7"
    by (simp_all add: edited_action_def sample_action_def)
  obtain c where c: "buildOutboxCommand edited_action sample_now = Inr c" "oc_recipient c = ''56999999999''"
    "oc_messageText c = ''tu token es 123456''"
    by (simp add: buildOutboxCommand_def candidate_message_def f e)
  have w: "\<not> List.member (parseAutonomousTestWaIds (Some (js_join '','' (whitelistedWaIds sample_sandbox_config)))) ''56999999999''"
    and m: "hasCredentialMarker ''tu token es 123456''" by code_simp+
  from single_executes [OF sample_allowed c(1)] show ?thesis using w m c(2,3)
    by (force simp: f isReadyToPlan_def sample_action_def)
qed

text \<open>
  A link that reports a conflict after the insertion does not undo it: the transaction returns
  normally, so the unit of work commits the outbox row of an action that stays unplanned, while
  the result says \<open>blocked\<close>.  (The statement is about any repositories.)
\<close>

theorem conflict_keeps_inserted_row:
  assumes "rp_insertCommand R c s = (Inr n, s1)" "ir_inserted n"
    and "rp_markPlanned R (mark_input input p (ir_rowId n)) s1 = (Inr m, s2)" "mr_conflict m"
  shows "\<exists>r. insert_and_link R input ev p c rr s = (Inr r, s2) \<and> gr_status r = Gate_blocked \<and>
    rr_outboxInserted (gr_repositoryResult r)"
  using assms
  by (simp add: insert_and_link_def await_def Let_def done_with_def request_result_def buildResult_def)

definition raced_stage :: staged where
  "raced_stage = stage (sample_uow_with [sample_action\<lparr>a_status := ''cancelled''\<rparr>])"

definition sample_command :: outbox_command where
  "sample_command = projr (buildOutboxCommand sample_action sample_now)"

lemma is_ok_pair: "is_ok (fst x) \<Longrightarrow> x = (Inr (projr (fst x)), snd x)"
  by (cases x) (auto elim: is_okE)

lemma conflict_keeps_inserted_row_witness:
  "\<exists>r s2. insert_and_link in_memory_repositories (sample_gate_input sample_action) ev sample_action sample_command
      zeroRepositoryResult raced_stage = (Inr r, s2) \<and> gr_status r = Gate_blocked \<and> length (lg_rows (ledger_of s2)) = 1"
proof -
  let ?R = in_memory_repositories and ?i = "sample_gate_input sample_action"
  let ?I = "rp_insertCommand ?R sample_command raced_stage"
  let ?M = "rp_markPlanned ?R (mark_input ?i sample_action (ir_rowId (projr (fst ?I)))) (snd ?I)"
  have g: "gate_normalize ''cancelled'' = ''cancelled''" by code_simp
  note defs = on_outbox_def on_actions_def insertCommand_def markPlanned_def raced_stage_def stage_def sample_uow_with_def
    new_action_repository_def new_outbox_repository_def action_repository_from_store_def
    outbox_repository_from_store_def no_failures_def normalizeAction_def mark_input_def ledger_of_def
    EXECUTION_GATE_ALLOWED_ACTION_STATUSES_def
  have "is_ok (fst ?I)" "ir_inserted (projr (fst ?I))" "is_ok (fst ?M)" "mr_conflict (projr (fst ?M))"
    and l: "length (lg_rows (ledger_of (snd ?M))) = 1" by (simp_all add: defs g Let_def)
  from conflict_keeps_inserted_row [OF is_ok_pair [OF this(1)] this(2) is_ok_pair [OF this(3)] this(4)] l
  show ?thesis by blast
qed

end
