(* ===== verification/RepositoryContract.thy ===== *)
theory RepositoryContract
  imports LedgerHistory
begin

text \<open>
  The contract \<open>executeActionThroughGate\<close> relies on, as locales over any repositories: what a
  lookup, an insertion and an update may do to the stored rows and actions.  The laws of a request
  are proved from the contract alone, and hold of every storage that meets it; the in-memory
  repositories are shown to meet it.
\<close>

section \<open>The outbox\<close>

text \<open>The rows only grow, and keys stay unique.\<close>

definition rows_grow :: "outbox_record list \<Rightarrow> outbox_record list \<Rightarrow> bool" where
  "rows_grow rows rows' \<longleftrightarrow> prefix rows rows' \<and> (distinct (map row_key rows) \<longrightarrow> distinct (map row_key rows'))"

locale outbox_contract =
  fixes R :: "'s execution_repositories" and rows :: "'s \<Rightarrow> outbox_record list"
  assumes find_id_rows: "rows (snd (rp_findByActionId R i s)) = rows s"
    and find_key_rows: "rows (snd (rp_findByIdempotencyKey R k s)) = rows s"
    and mark_rows: "rows (snd (rp_markPlanned R m s)) = rows s"
    and find_command_rows: "rows (snd (rp_findCommand R k s)) = rows s"
    and insert_rows: "rows (snd (rp_insertCommand R c s)) = rows s \<or>
      (oc_idempotencyKey c \<notin> row_key ` set (rows s) \<and>
       (\<exists>row. row_key row = oc_idempotencyKey c \<and> rows (snd (rp_insertCommand R c s)) = rows s @ [row]))"
begin

definition grows :: "'s \<Rightarrow> 's \<Rightarrow> bool" where
  "grows s t \<longleftrightarrow> rows_grow (rows s) (rows t)"

lemma grows_refl [intro]: "reflp grows"
  by (auto simp: reflp_def grows_def rows_grow_def)

lemma grows_trans [intro]: "transp grows"
  by (auto simp: transp_def grows_def rows_grow_def intro: prefix_order.trans)

lemma grows_same: "(\<And>s. rows (snd (m s)) = rows s) \<Longrightarrow> keeps grows m"
  by (rule keepsI) (simp add: grows_def rows_grow_def)

lemma grows_ops [keeps_intros]:
  "keeps grows (rp_findByActionId R i)" "keeps grows (rp_findByIdempotencyKey R k)"
  "keeps grows (rp_markPlanned R m)" "keeps grows (rp_findCommand R k)"
  by (rule grows_same, simp add: find_id_rows find_key_rows mark_rows find_command_rows)+

lemma grows_insert [keeps_intros]: "keeps grows (rp_insertCommand R c)"
proof (rule keepsI)
  show "grows s (snd (rp_insertCommand R c s))" for s
    using insert_rows [of c s] by (auto simp: grows_def rows_grow_def)
qed

lemma transaction_grows: "keeps grows (gate_transaction R input ev)"
  unfolding gate_transaction_def plan_command_def link_existing_def insert_and_link_def Let_def
  by (intro keeps_intros grows_refl grows_trans)

end

section \<open>The actions\<close>

text \<open>An action that is as it was, or planned with a link and nothing else changed.\<close>

definition planned_from :: "crm_agent_action \<Rightarrow> crm_agent_action \<Rightarrow> bool" where
  "planned_from a b \<longleftrightarrow> b = a \<or>
     b = a\<lparr>a_status := ''planned'', a_outboxMessageId := a_outboxMessageId b, a_updatedAt := a_updatedAt b\<rparr>"

lemma planned_from_refl: "planned_from a a"
  by (simp add: planned_from_def)

lemma planned_from_trans: "planned_from a b \<Longrightarrow> planned_from b c \<Longrightarrow> planned_from a c"
  by (cases a; cases b; cases c) (auto simp: planned_from_def)

locale action_contract = outbox_contract R rows
  for R :: "'s execution_repositories" and rows :: "'s \<Rightarrow> outbox_record list" +
  fixes acts :: "'s \<Rightarrow> crm_agent_action list"
  assumes find_id_acts: "acts (snd (rp_findByActionId R i s)) = acts s"
    and find_key_acts: "acts (snd (rp_findByIdempotencyKey R k s)) = acts s"
    and find_command_acts: "acts (snd (rp_findCommand R k s)) = acts s"
    and insert_acts: "acts (snd (rp_insertCommand R c s)) = acts s"
    and mark_acts: "list_all2 planned_from (acts s) (acts (snd (rp_markPlanned R m s)))"
begin

definition plans :: "'s \<Rightarrow> 's \<Rightarrow> bool" where
  "plans s t \<longleftrightarrow> list_all2 planned_from (acts s) (acts t)"

lemma plans_refl: "reflp plans"
  by (auto simp: reflp_def plans_def intro: list.rel_refl planned_from_refl)

lemma plans_trans: "transp plans"
  unfolding transp_def plans_def by (blast intro: list_all2_trans planned_from_trans)

lemma plans_same: "(\<And>s. acts (snd (m s)) = acts s) \<Longrightarrow> keeps plans m"
  by (rule keepsI) (simp add: plans_def list.rel_refl planned_from_refl)

lemma plans_ops [keeps_intros]:
  "keeps plans (rp_findByActionId R i)" "keeps plans (rp_findByIdempotencyKey R k)"
  "keeps plans (rp_insertCommand R c)" "keeps plans (rp_findCommand R k)"
  by (rule plans_same, simp add: find_id_acts find_key_acts find_command_acts insert_acts)+

lemma plans_mark [keeps_intros]: "keeps plans (rp_markPlanned R m)"
  by (rule keepsI) (simp add: plans_def mark_acts)

lemma transaction_plans: "keeps plans (gate_transaction R input ev)"
  unfolding gate_transaction_def plan_command_def link_existing_def insert_and_link_def Let_def
  by (intro keeps_intros plans_refl plans_trans)

end

section \<open>The in-memory repositories\<close>

definition staged_rows :: "staged \<Rightarrow> outbox_record list" where
  "staged_rows s = es_outbox (rs_store (snd s))"

definition staged_actions :: "staged \<Rightarrow> crm_agent_action list" where
  "staged_actions s = es_actions (rs_store (fst s))"

lemma planned_from_update:
  "i < length xs \<Longrightarrow> planned_from (xs ! i) y \<Longrightarrow> list_all2 planned_from xs (xs[i := y])"
  by (auto simp: list_all2_conv_all_nth nth_list_update planned_from_refl)

lemma mark_staged: "list_all2 planned_from (staged_actions s) (staged_actions (snd (on_actions (markPlanned m) s)))"
proof -
  have "planned_from a (a\<lparr>a_status := ''planned'', a_outboxMessageId := r, a_updatedAt := t\<rparr>)" for a r t
    by (simp add: planned_from_def)
  then show ?thesis
    by (auto simp: staged_actions_def on_actions_def markPlanned_def Let_def list.rel_refl planned_from_refl
        split: option.split prod.split dest!: find_index_Some intro: planned_from_update)
qed

interpretation mem: action_contract in_memory_repositories staged_rows staged_actions
proof unfold_locales
  fix s :: staged and i k :: string and m c
  show "staged_rows (snd (rp_findByActionId in_memory_repositories i s)) = staged_rows s"
    "staged_actions (snd (rp_findByActionId in_memory_repositories i s)) = staged_actions s"
    by (simp_all add: on_actions_def findByActionId_def staged_rows_def staged_actions_def)
  show "staged_rows (snd (rp_findByIdempotencyKey in_memory_repositories k s)) = staged_rows s"
    "staged_actions (snd (rp_findByIdempotencyKey in_memory_repositories k s)) = staged_actions s"
    by (simp_all add: on_actions_def findActionByIdempotencyKey_def staged_rows_def staged_actions_def)
  show "staged_rows (snd (rp_findCommand in_memory_repositories k s)) = staged_rows s"
    "staged_actions (snd (rp_findCommand in_memory_repositories k s)) = staged_actions s"
    by (simp_all add: on_outbox_def findOutboxByIdempotencyKey_def staged_rows_def staged_actions_def)
  show "staged_rows (snd (rp_markPlanned in_memory_repositories m s)) = staged_rows s"
    by (simp add: on_actions_def staged_rows_def split: prod.split)
  show "list_all2 planned_from (staged_actions s) (staged_actions (snd (rp_markPlanned in_memory_repositories m s)))"
    by (simp add: mark_staged)
  show "staged_actions (snd (rp_insertCommand in_memory_repositories c s)) = staged_actions s"
    by (simp add: on_outbox_def staged_actions_def split: prod.split)
  show "staged_rows (snd (rp_insertCommand in_memory_repositories c s)) = staged_rows s \<or>
      (oc_idempotencyKey c \<notin> row_key ` set (staged_rows s) \<and> (\<exists>row. row_key row = oc_idempotencyKey c \<and>
        staged_rows (snd (rp_insertCommand in_memory_repositories c s)) = staged_rows s @ [row]))"
    by (auto simp: on_outbox_def insertCommand_def staged_rows_def Let_def find_None_iff row_key_def
        split: option.split prod.split)
qed

lemma stage_contents:
  "staged_rows (stage uw) = es_outbox (rs_store (uw_outbox uw))"
  "staged_actions (stage uw) = es_actions (rs_store (uw_agentActions uw))"
  by (simp_all add: stage_def staged_rows_def staged_actions_def action_repository_from_store_def
      outbox_repository_from_store_def new_action_repository_def new_outbox_repository_def Let_def)

lemma run_keeps:
  assumes "\<And>s t. Q s t \<longleftrightarrow> P (staged_rows s) (staged_actions s) (staged_rows t) (staged_actions t)"
    and "keeps Q operation" "reflp Q"
  shows "P (lg_rows (uow_ledger uw)) (lg_actions (uow_ledger uw))
    (lg_rows (uow_ledger (snd (run_unit_of_work operation uw)))) (lg_actions (uow_ledger (snd (run_unit_of_work operation uw))))"
proof -
  have l: "lg_rows (uow_ledger uw) = staged_rows (stage uw)" "lg_actions (uow_ledger uw) = staged_actions (stage uw)"
    by (simp_all add: uow_ledger_def ledger_of_def stage_contents)
  have r: "P (staged_rows s) (staged_actions s) (staged_rows s) (staged_actions s)" for s
    using assms(1,3) by (metis reflpD)
  show ?thesis
  proof (cases rule: run_cases [of operation uw])
    case (failed e)
    then show ?thesis using r by (simp add: l)
  next
    case (committed x s')
    have "Q (stage uw) s'" using assms(2) committed(1) by (rule keepsD)
    then show ?thesis using committed(3) assms(1) by (simp add: l) (simp add: ledger_of_def staged_rows_def staged_actions_def)
  qed
qed

text \<open>
  Whatever the request, the failures and the contents of the store: the outbox only grows, keys
  that were unique stay unique, and no action changes except that it may become planned with a
  link (its recipient, messages, risk and keys stay as they were).
\<close>

theorem request_respects_contents:
  "rows_grow (lg_rows (uow_ledger uw)) (lg_rows (uow_ledger (snd (execute_in_memory input uw)))) \<and>
   list_all2 planned_from (lg_actions (uow_ledger uw)) (lg_actions (uow_ledger (snd (execute_in_memory input uw))))"
proof (cases "ge_status (evaluateExecutionGate input) = Gate_allowed")
  case False
  then show ?thesis by (simp add: not_allowed_unchanged rows_grow_def list.rel_refl planned_from_refl)
next
  case True
  let ?op = "gate_transaction in_memory_repositories input (evaluateExecutionGate input)"
  have e: "snd (execute_in_memory input uw) = snd (run_unit_of_work ?op uw)"
    using True by (simp add: executeActionThroughGate_def Let_def split: prod.split sum.split)
  show ?thesis unfolding e
    using run_keeps [OF _ mem.transaction_grows mem.grows_refl, where P = "\<lambda>r a r' a'. rows_grow r r'"]
      run_keeps [OF _ mem.transaction_plans mem.plans_refl, where P = "\<lambda>r a r' a'. list_all2 planned_from a a'"]
    by (simp add: mem.grows_def mem.plans_def)
qed

end
