(* ===== verification/OutboxWorker.thy ===== *)
theory OutboxWorker
  imports AutonomySandbox JS_Effect
begin

text \<open>
  The outbox worker, first part: the data of \<open>lib/brain/messaging/outbox-worker/types.ts\<close>, the
  helpers of \<open>constants.ts\<close>, the retry schedule (\<open>calculateRetrySchedule.ts\<close>) and the decision
  whether a row may be processed (\<open>evaluateOutboxCandidate.ts\<close>).  Timestamps are texts, compared
  as texts, as in the source.  Counters and seconds are integers (the source guards against
  non-finite numbers and fractions, which the model does not have).
\<close>

section \<open>Data\<close>

datatype outbox_status = Om_pending | Om_claimed | Om_processing | Om_retry_scheduled | Om_delivered
  | Om_failed | Om_dead_letter | Om_cancelled

primrec outbox_status_name :: "outbox_status \<Rightarrow> string" where
  "outbox_status_name Om_pending = ''pending''"
| "outbox_status_name Om_claimed = ''claimed''"
| "outbox_status_name Om_processing = ''processing''"
| "outbox_status_name Om_retry_scheduled = ''retry_scheduled''"
| "outbox_status_name Om_delivered = ''delivered''"
| "outbox_status_name Om_failed = ''failed''"
| "outbox_status_name Om_dead_letter = ''dead_letter''"
| "outbox_status_name Om_cancelled = ''cancelled''"

datatype plan_type = No_change | Mark_processing | Mark_delivered | Schedule_retry | Mark_failed
  | Move_to_dead_letter | Expire_message | Release_claim

primrec plan_type_name :: "plan_type \<Rightarrow> string" where
  "plan_type_name No_change = ''no_change''"
| "plan_type_name Mark_processing = ''mark_processing''"
| "plan_type_name Mark_delivered = ''mark_delivered''"
| "plan_type_name Schedule_retry = ''schedule_retry''"
| "plan_type_name Mark_failed = ''mark_failed''"
| "plan_type_name Move_to_dead_letter = ''move_to_dead_letter''"
| "plan_type_name Expire_message = ''expire_message''"
| "plan_type_name Release_claim = ''release_claim''"

datatype plan_reason = Worker_disabled | Transport_disabled | Sandbox_required | Missing_command_id
  | Missing_idempotency | Missing_action_id | Unsupported_channel_reason | Unsupported_command_type
  | Status_not_reclaimable | Terminal_status | Not_yet_available | Message_expired | Attempts_exhausted
  | Missing_recipient_reason | Missing_message_reason | Wrong_worker_claim | Lease_not_recoverable
  | Active_lease | Processing_plan_failure | Final_plan_failure | Transport_accepted
  | Transport_duplicate_accepted | Transport_temporary_failure | Transport_rate_limited
  | Transport_timeout | Transport_permanent_failure | Retry_exhausted | Duplicate_plan_key
  | Duplicate_idempotency_key | Repository_failure_reason | Expired_reason | Idempotent_plan_reused

datatype audit_event_type = Outbox_processing_started | Outbox_delivered | Outbox_retry_scheduled
  | Outbox_failed | Outbox_dead_lettered | Outbox_expired | Outbox_claim_released

primrec event_type_name :: "audit_event_type \<Rightarrow> string" where
  "event_type_name Outbox_processing_started = ''outbox_processing_started''"
| "event_type_name Outbox_delivered = ''outbox_delivered''"
| "event_type_name Outbox_retry_scheduled = ''outbox_retry_scheduled''"
| "event_type_name Outbox_failed = ''outbox_failed''"
| "event_type_name Outbox_dead_lettered = ''outbox_dead_lettered''"
| "event_type_name Outbox_expired = ''outbox_expired''"
| "event_type_name Outbox_claim_released = ''outbox_claim_released''"

record outbox_metadata =
  omd_source :: string
  omd_sandbox :: bool
  omd_riskLevel :: string
  omd_approvalRequirement :: string

record outbox_message =
  om_rowId :: ref_id
  om_commandId :: string
  om_idempotencyKey :: string
  om_actionId :: string
  om_channel :: string
  om_commandType :: string
  om_recipient :: string
  om_messageText :: string
  om_status :: outbox_status
  om_attemptCount :: int
  om_maxAttempts :: int
  om_availableAt :: string
  om_expiresAt :: "string option"
  om_claimedBy :: "string option"
  om_claimedAt :: "string option"
  om_leaseExpiresAt :: "string option"
  om_lastAttemptAt :: "string option"
  om_deliveredAt :: "string option"
  om_providerMessageId :: "string option"
  om_lastErrorCode :: "string option"
  om_lastErrorMessageSafe :: "string option"
  om_metadata :: outbox_metadata
  om_createdAt :: string
  om_updatedAt :: string

record worker_config =
  wc_workerEnabled :: bool
  wc_transportEnabled :: bool
  wc_workerId :: string
  wc_batchSize :: int
  wc_leaseSeconds :: int
  wc_defaultMaxAttempts :: int
  wc_baseRetrySeconds :: int
  wc_maxRetrySeconds :: int
  wc_retryJitterEnabled :: bool
  wc_recoverExpiredLeases :: bool
  wc_sandboxRequired :: bool

datatype transport_status = Tr_accepted | Tr_temporary_failure | Tr_permanent_failure | Tr_rate_limited
  | Tr_timeout | Tr_duplicate_accepted

datatype transport_error = Te_none | Te_network_error | Te_timeout | Te_rate_limited
  | Te_provider_unavailable | Te_invalid_recipient | Te_invalid_payload | Te_authentication_error
  | Te_permission_error | Te_policy_rejected | Te_provider_duplicate | Te_unknown

primrec transport_error_name :: "transport_error \<Rightarrow> string" where
  "transport_error_name Te_none = ''none''"
| "transport_error_name Te_network_error = ''network_error''"
| "transport_error_name Te_timeout = ''timeout''"
| "transport_error_name Te_rate_limited = ''rate_limited''"
| "transport_error_name Te_provider_unavailable = ''provider_unavailable''"
| "transport_error_name Te_invalid_recipient = ''invalid_recipient''"
| "transport_error_name Te_invalid_payload = ''invalid_payload''"
| "transport_error_name Te_authentication_error = ''authentication_error''"
| "transport_error_name Te_permission_error = ''permission_error''"
| "transport_error_name Te_policy_rejected = ''policy_rejected''"
| "transport_error_name Te_provider_duplicate = ''provider_duplicate''"
| "transport_error_name Te_unknown = ''unknown''"

record transport_metadata =
  tm_provider :: string
  tm_sandbox :: bool
  tm_simulated :: bool

record transport_result =
  tr_status :: transport_status
  tr_providerMessageId :: "string option"
  tr_providerRequestId :: "string option"
  tr_errorCode :: transport_error
  tr_errorMessageSafe :: "string option"
  tr_retryAfterSeconds :: "int option"
  tr_acceptedAt :: "string option"
  tr_completedAt :: string
  tr_metadata :: transport_metadata

datatype candidate_decision = Process | Skip | Expire | Dead_letter | Invalid

record candidate_evaluation =
  ev_decision :: candidate_decision
  ev_actionable :: bool
  ev_reasons :: "plan_reason list"
  ev_warnings :: "string list"
  ev_recordId :: ref_id
  ev_commandId :: string
  ev_idempotencyKey :: string
  ev_actionId :: string
  ev_status :: outbox_status
  ev_channel :: string
  ev_commandType :: string
  ev_recipientMasked :: "string option"
  ev_availableAt :: string
  ev_expiresAt :: "string option"
  ev_leaseExpiresAt :: "string option"
  ev_claimedBy :: "string option"
  ev_claimOwnedByWorker :: bool
  ev_leaseExpired :: bool
  ev_claimRecoverable :: bool
  ev_attemptCount :: int
  ev_maxAttempts :: int
  ev_attemptsRemaining :: int
  ev_sandbox :: bool
  ev_transportEnabled :: bool
  ev_workerEnabled :: bool
  ev_workerId :: string
  ev_now :: string

record worker_input =
  wi_now :: string
  wi_record :: outbox_message
  wi_config :: worker_config

section \<open>Helpers\<close>

definition isTerminalOutboxStatus :: "outbox_status \<Rightarrow> bool" where
  "isTerminalOutboxStatus status \<longleftrightarrow> status \<in> set [Om_delivered, Om_dead_letter, Om_cancelled]"

definition isRecoverableLeaseStatus :: "outbox_status \<Rightarrow> bool" where
  "isRecoverableLeaseStatus status \<longleftrightarrow> status \<in> set [Om_claimed, Om_processing]"

definition isReclaimableOutboxStatus :: "outbox_status \<Rightarrow> bool" where
  "isReclaimableOutboxStatus status \<longleftrightarrow> status \<in> set [Om_pending, Om_retry_scheduled]"

definition isRetryableTransportErrorCode :: "transport_error \<Rightarrow> bool" where
  "isRetryableTransportErrorCode code \<longleftrightarrow> code \<in> set [Te_network_error, Te_timeout, Te_rate_limited,
     Te_provider_unavailable, Te_unknown, Te_none]"

definition isPermanentTransportErrorCode :: "transport_error \<Rightarrow> bool" where
  "isPermanentTransportErrorCode code \<longleftrightarrow> code \<in> set [Te_invalid_recipient, Te_invalid_payload,
     Te_authentication_error, Te_permission_error, Te_policy_rejected, Te_provider_duplicate]"

definition maskRecipientForAudit :: "string option \<Rightarrow> string option" where
  "maskRecipientForAudit value = maskWaId (normalizeWaIdDigits value)"

definition normalizeCommandText :: "string option \<Rightarrow> string option" where
  "normalizeCommandText value = asText value"

definition normalizeIsoTimestamp :: "string option \<Rightarrow> string option" where
  "normalizeIsoTimestamp value = (case value of None \<Rightarrow> None | Some v \<Rightarrow> map_option iso_of_time (date_parse v))"

definition addSecondsToIso :: "string \<Rightarrow> int \<Rightarrow> string result" where
  "addSecondsToIso value seconds =
     to_iso_string (Option.bind (date_parse value) (\<lambda>t. time_clip (t + seconds * 1000)))"

definition empty_or_none :: "string option \<Rightarrow> bool" where
  "empty_or_none v \<longleftrightarrow> v = None \<or> v = Some []"

definition minIso :: "string option \<Rightarrow> string option \<Rightarrow> string option" where
  "minIso a b = (if empty_or_none a then b else if empty_or_none b then a else if the a \<le> the b then a else b)"

definition maxIso :: "string option \<Rightarrow> string option \<Rightarrow> string option" where
  "maxIso a b = (if empty_or_none a then b else if empty_or_none b then a else if the b \<le> the a then a else b)"

text \<open>The four replacements of \<open>sanitizeOutboxWorkerErrorMessage\<close>.\<close>

definition line_break_regex :: regex where
  "line_break_regex = rplus (RClass (\<lambda>c. let n = of_char c :: nat in n = 9 \<or> n = 10 \<or> n = 13))"

definition bearer_regex :: regex where
  "bearer_regex = rseqs [RWordBoundary, rlit_i ''Bearer'', rplus (RClass is_ws),
     rplus (RClass (\<lambda>c. is_word c \<or> c = CHR ''.'' \<or> c = CHR ''-'')), RWordBoundary]"

definition secret_regex :: regex where
  "secret_regex = rseqs [RWordBoundary,
     ralts [rlit_i ''token'', rlit_i ''secret'', rlit_i ''password'', rlit_i ''authorization''],
     RWordBoundary, RClass (\<lambda>c. c = CHR '':'' \<or> c = CHR ''=''), RStar (RClass is_ws),
     rplus (RClass (\<lambda>c. \<not> is_ws c))]"

definition long_number_regex :: regex where
  "long_number_regex = rseqs (RWordBoundary # replicate 6 (RClass is_digit) @ [RStar (RClass is_digit), RWordBoundary])"

definition redact :: "string \<Rightarrow> string" where
  "redact value =
     js_trim
      (regex_replace_all long_number_regex (\<lambda>_. ''[redacted]'')
       (regex_replace_all secret_regex (\<lambda>m. takeWhile (\<lambda>c. c \<noteq> CHR '':'' \<and> c \<noteq> CHR ''='') m @ ''=[redacted]'')
        (regex_replace_all bearer_regex (\<lambda>_. ''Bearer [redacted]'')
         (regex_replace_all line_break_regex (\<lambda>_. '' '') value))))"

definition sanitizeOutboxWorkerErrorMessage :: "string option \<Rightarrow> nat \<Rightarrow> string option" where
  "sanitizeOutboxWorkerErrorMessage value limit =
     (case value of None \<Rightarrow> None | Some v \<Rightarrow>
       (let compact = redact v
        in if compact = [] then None
           else Some (if length compact > limit
             then take (if 3 \<le> limit then limit - 3 else length compact - (3 - limit)) compact @ ''...''
             else compact)))"

section \<open>The retry schedule\<close>

record retry_schedule_input =
  ri_now :: string
  ri_attemptCount :: int
  ri_maxAttempts :: int
  ri_expiresAt :: "string option"
  ri_retryAfterSeconds :: "int option"
  ri_baseRetrySeconds :: int
  ri_maxRetrySeconds :: int

record retry_schedule =
  rs_retryAt :: "string option"
  rs_delaySeconds :: "int option"
  rs_exhausted :: bool

definition normalizePositiveInteger :: "int \<Rightarrow> int \<Rightarrow> int" where
  "normalizePositiveInteger value fallback = (if value > 0 then value else fallback)"

definition no_retry :: retry_schedule where
  "no_retry = \<lparr>rs_retryAt = None, rs_delaySeconds = None, rs_exhausted = True\<rparr>"

definition retry_delay :: "retry_schedule_input \<Rightarrow> int" where
  "retry_delay input =
    (let attemptCount = normalizePositiveInteger (ri_attemptCount input) 0;
         baseRetrySeconds = normalizePositiveInteger (ri_baseRetrySeconds input) 0;
         maxRetrySeconds = normalizePositiveInteger (ri_maxRetrySeconds input) 0;
         retryAfterSeconds = normalizePositiveInteger (case ri_retryAfterSeconds input of None \<Rightarrow> 0 | Some n \<Rightarrow> n) 0;
         exponentialDelay = baseRetrySeconds * (if attemptCount > 0 then 2 ^ nat (max 0 (attemptCount - 1)) else 0);
         candidateDelay = max exponentialDelay retryAfterSeconds
     in min (if candidateDelay > 0 then candidateDelay else baseRetrySeconds)
            (if maxRetrySeconds > 0 then maxRetrySeconds else candidateDelay))"

definition calculateOutboxRetrySchedule :: "retry_schedule_input \<Rightarrow> retry_schedule result" where
  "calculateOutboxRetrySchedule input =
    (case normalizeIsoTimestamp (Some (ri_now input)) of
       None \<Rightarrow> Inr no_retry
     | Some now \<Rightarrow>
        (let expiresAt = normalizeIsoTimestamp (ri_expiresAt input);
             attemptCount = normalizePositiveInteger (ri_attemptCount input) 0;
             maxAttempts = normalizePositiveInteger (ri_maxAttempts input) 0;
             delaySeconds = retry_delay input
         in if maxAttempts > 0 \<and> attemptCount \<ge> maxAttempts then Inr no_retry
            else if \<not> delaySeconds > 0 then Inr no_retry
            else bind_result (addSecondsToIso now delaySeconds) (\<lambda>retryAt.
              if (case expiresAt of None \<Rightarrow> False | Some e \<Rightarrow> e < retryAt) then Inr no_retry
              else Inr \<lparr>rs_retryAt = Some retryAt, rs_delaySeconds = Some delaySeconds, rs_exhausted = False\<rparr>)))"

section \<open>Candidates\<close>

definition buildBaseEvaluation :: "worker_input \<Rightarrow> candidate_evaluation" where
  "buildBaseEvaluation input =
    (let record = wi_record input; config = wi_config input; now = wi_now input;
         leaseExpiresAt = normalizeIsoTimestamp (om_leaseExpiresAt record);
         attemptCount = max 0 (om_attemptCount record);
         maxAttempts = max 0 (om_maxAttempts record)
     in \<lparr>ev_decision = Skip, ev_actionable = False, ev_reasons = [], ev_warnings = [],
         ev_recordId = om_rowId record, ev_commandId = om_commandId record,
         ev_idempotencyKey = om_idempotencyKey record, ev_actionId = om_actionId record,
         ev_status = om_status record, ev_channel = om_channel record, ev_commandType = om_commandType record,
         ev_recipientMasked = maskRecipientForAudit (Some (om_recipient record)),
         ev_availableAt = (case normalizeIsoTimestamp (Some (om_availableAt record)) of None \<Rightarrow> now | Some t \<Rightarrow> t),
         ev_expiresAt = normalizeIsoTimestamp (om_expiresAt record),
         ev_leaseExpiresAt = leaseExpiresAt, ev_claimedBy = om_claimedBy record,
         ev_claimOwnedByWorker = False,
         ev_leaseExpired = (case leaseExpiresAt of None \<Rightarrow> False | Some t \<Rightarrow> t \<le> now),
         ev_claimRecoverable = False, ev_attemptCount = attemptCount, ev_maxAttempts = maxAttempts,
         ev_attemptsRemaining = max 0 (maxAttempts - attemptCount),
         ev_sandbox = omd_sandbox (om_metadata record),
         ev_transportEnabled = wc_transportEnabled config, ev_workerEnabled = wc_workerEnabled config,
         ev_workerId = wc_workerId config, ev_now = now\<rparr>)"

text \<open>\<open>pushReason(reasons, r); return { ...evaluation, decision: d, actionable: false, warnings }\<close>\<close>

definition candidate_stop :: "candidate_evaluation \<Rightarrow> candidate_decision \<Rightarrow> plan_reason list \<Rightarrow> candidate_evaluation" where
  "candidate_stop evaluation decision reasons =
     evaluation\<lparr>ev_decision := decision, ev_actionable := False, ev_reasons := reasons\<rparr>"

text \<open>The lease facts the last checks use.\<close>

definition lease_expired :: "candidate_evaluation \<Rightarrow> string \<Rightarrow> bool" where
  "lease_expired evaluation now \<longleftrightarrow> (case ev_leaseExpiresAt evaluation of None \<Rightarrow> False | Some t \<Rightarrow> t \<le> now)"

definition claimed_by_other :: "outbox_message \<Rightarrow> worker_config \<Rightarrow> bool" where
  "claimed_by_other record config \<longleftrightarrow>
     (case om_claimedBy record of None \<Rightarrow> False | Some w \<Rightarrow> w \<noteq> [] \<and> w \<noteq> wc_workerId config)"

definition evaluateOutboxCandidate :: "worker_input \<Rightarrow> candidate_evaluation" where
  "evaluateOutboxCandidate input =
    (let evaluation = buildBaseEvaluation input; record = wi_record input; config = wi_config input;
         status = om_status record
     in case normalizeIsoTimestamp (Some (wi_now input)) of
       None \<Rightarrow> (candidate_stop evaluation Invalid [Worker_disabled])
         \<lparr>ev_warnings := ev_warnings evaluation @ [''Invalid evaluation timestamp.'']\<rparr>
     | Some now \<Rightarrow>
       (let leasedStatuses = isRecoverableLeaseStatus status;
            ownedByCurrentWorker = (om_claimedBy record = None \<or> om_claimedBy record = Some (wc_workerId config));
            leaseExpired = lease_expired evaluation now;
            recoverableLease = (leasedStatuses \<and> leaseExpired \<and> wc_recoverExpiredLeases config)
        in if \<not> wc_workerEnabled config then candidate_stop evaluation Skip [Worker_disabled]
        else if \<not> wc_transportEnabled config then candidate_stop evaluation Skip [Transport_disabled]
        else if normalizeCommandText (Some (om_commandId record)) = None
          then candidate_stop evaluation Invalid [Missing_command_id]
        else if normalizeCommandText (Some (om_idempotencyKey record)) = None
          then candidate_stop evaluation Invalid [Missing_idempotency]
        else if normalizeCommandText (Some (om_actionId record)) = None
          then candidate_stop evaluation Invalid [Missing_action_id]
        else if om_channel record \<noteq> ''whatsapp'' then candidate_stop evaluation Invalid [Unsupported_channel_reason]
        else if om_commandType record \<noteq> ''whatsapp_text''
          then candidate_stop evaluation Invalid [Unsupported_command_type]
        else if wc_sandboxRequired config \<and> \<not> omd_sandbox (om_metadata record)
          then candidate_stop evaluation Invalid [Sandbox_required]
        else if \<not> isReclaimableOutboxStatus status \<and> \<not> isRecoverableLeaseStatus status \<and> \<not> isTerminalOutboxStatus status
          then candidate_stop evaluation Invalid [Status_not_reclaimable]
        else if isTerminalOutboxStatus status
          then candidate_stop evaluation Skip [Status_not_reclaimable, Terminal_status]
        else if now < ev_availableAt evaluation then candidate_stop evaluation Skip [Not_yet_available]
        else if (case ev_expiresAt evaluation of None \<Rightarrow> False | Some e \<Rightarrow> e \<le> now)
          then candidate_stop evaluation Expire [Message_expired]
        else if ev_maxAttempts evaluation > 0 \<and> ev_attemptCount evaluation \<ge> ev_maxAttempts evaluation
          then candidate_stop evaluation Dead_letter [Attempts_exhausted]
        else if normalizeCommandText (Some (om_recipient record)) = None
          then candidate_stop evaluation Invalid [Missing_recipient_reason]
        else if normalizeCommandText (Some (om_messageText record)) = None
          then candidate_stop evaluation Invalid [Missing_message_reason]
        else if leasedStatuses \<and> \<not> ownedByCurrentWorker \<and> \<not> recoverableLease
          then candidate_stop evaluation Skip [Wrong_worker_claim]
        else if leasedStatuses \<and> \<not> recoverableLease \<and>
            (case ev_leaseExpiresAt evaluation of None \<Rightarrow> False | Some t \<Rightarrow> now < t) \<and> claimed_by_other record config
          then candidate_stop evaluation Skip [Active_lease]
        else if leasedStatuses \<and> leaseExpired \<and> \<not> wc_recoverExpiredLeases config \<and> claimed_by_other record config
          then candidate_stop evaluation Skip [Lease_not_recoverable]
        else evaluation\<lparr>ev_decision := Process, ev_actionable := True,
          ev_commandId := the (normalizeCommandText (Some (om_commandId record))),
          ev_claimOwnedByWorker := (ownedByCurrentWorker \<or> recoverableLease),
          ev_claimRecoverable := recoverableLease\<rparr>))"

section \<open>Properties of the retry schedule\<close>

lemma normalizeIsoTimestamp_Some:
  "normalizeIsoTimestamp v = Some t \<longleftrightarrow> (\<exists>s n. v = Some s \<and> date_parse s = Some n \<and> t = iso_of_time n)"
  by (auto simp: normalizeIsoTimestamp_def split: option.splits)

lemma date_parse_bound: "date_parse s = Some t \<Longrightarrow> \<bar>t\<bar> \<le> max_time"
  by (auto simp: date_parse_def bind_eq_Some_conv time_clip_def split: prod.splits if_splits)

lemma date_parse_normalized: "date_parse s = Some n \<Longrightarrow> date_parse (iso_of_time n) = Some n"
  by (rule date_parse_iso_of_time) (rule date_parse_bound)

lemma normalizeIsoTimestamp_idem: "normalizeIsoTimestamp v = Some t \<Longrightarrow> normalizeIsoTimestamp (Some t) = Some t"
  by (auto simp: normalizeIsoTimestamp_Some dest: date_parse_normalized)

lemma addSecondsToIso_eq:
  "date_parse v = Some t \<Longrightarrow> addSecondsToIso v d =
    (if \<bar>t + d * 1000\<bar> \<le> max_time then Inr (iso_of_time (t + d * 1000)) else Inl (RangeError ''Invalid time value''))"
  by (simp add: addSecondsToIso_def time_clip_def to_iso_string_def)

lemma retry_schedule_unfold:
  assumes "date_parse (ri_now input) = Some n"
  shows "calculateOutboxRetrySchedule input =
    (if (ri_maxAttempts input > 0 \<and> ri_attemptCount input \<ge> ri_maxAttempts input) \<or> retry_delay input \<le> 0 then Inr no_retry
     else if \<bar>n + retry_delay input * 1000\<bar> > max_time then Inl (RangeError ''Invalid time value'')
     else if (case normalizeIsoTimestamp (ri_expiresAt input) of None \<Rightarrow> False
        | Some e \<Rightarrow> e < iso_of_time (n + retry_delay input * 1000)) then Inr no_retry
     else Inr \<lparr>rs_retryAt = Some (iso_of_time (n + retry_delay input * 1000)),
       rs_delaySeconds = Some (retry_delay input), rs_exhausted = False\<rparr>)"
proof -
  have n: "normalizeIsoTimestamp (Some (ri_now input)) = Some (iso_of_time n)"
    using assms by (simp add: normalizeIsoTimestamp_def)
  have m: "normalizePositiveInteger (ri_maxAttempts input) 0 > 0 \<and>
      normalizePositiveInteger (ri_attemptCount input) 0 \<ge> normalizePositiveInteger (ri_maxAttempts input) 0
    \<longleftrightarrow> ri_maxAttempts input > 0 \<and> ri_attemptCount input \<ge> ri_maxAttempts input"
    by (auto simp: normalizePositiveInteger_def)
  show ?thesis
    unfolding calculateOutboxRetrySchedule_def n option.case Let_def m
      addSecondsToIso_eq [OF date_parse_normalized [OF assms]] by auto
qed

lemma retry_delay_le: "0 < ri_maxRetrySeconds input \<Longrightarrow> retry_delay input \<le> ri_maxRetrySeconds input"
  by (simp add: retry_delay_def Let_def normalizePositiveInteger_def)

lemma retry_at_now:
  assumes "calculateOutboxRetrySchedule input = Inr r" "rs_retryAt r = Some t"
  obtains n where "date_parse (ri_now input) = Some n"
  using assms by (cases "date_parse (ri_now input)")
    (auto simp: calculateOutboxRetrySchedule_def normalizeIsoTimestamp_def no_retry_def)

lemma retry_schedule_facts:
  assumes "calculateOutboxRetrySchedule input = Inr r" "rs_retryAt r = Some t"
  shows "\<exists>n d. date_parse (ri_now input) = Some n \<and> rs_delaySeconds r = Some d \<and> \<not> rs_exhausted r \<and>
    0 < d \<and> (if 0 < ri_maxRetrySeconds input then d \<le> ri_maxRetrySeconds input else True) \<and>
    t = iso_of_time (n + d * 1000) \<and> \<bar>n + d * 1000\<bar> \<le> max_time \<and>
    (case normalizeIsoTimestamp (ri_expiresAt input) of None \<Rightarrow> True | Some e \<Rightarrow> t \<le> e) \<and>
    \<not> (0 < ri_maxAttempts input \<and> ri_maxAttempts input \<le> ri_attemptCount input)"
proof -
  obtain n where n: "date_parse (ri_now input) = Some n" using assms by (rule retry_at_now)
  show ?thesis using assms(1)[unfolded retry_schedule_unfold [OF n]] assms(2) n retry_delay_le [of input]
    by (auto simp: no_retry_def not_less split: if_splits option.splits)
qed

text \<open>
  C36. A scheduled retry lies strictly after now, by a whole number of seconds that respects the
  configured maximum, never past the expiry of the message, and only while attempts remain.
\<close>

theorem retry_schedule_bounds:
  assumes "calculateOutboxRetrySchedule input = Inr r" "rs_retryAt r = Some t"
  shows "\<exists>n d. date_parse (ri_now input) = Some n \<and> rs_delaySeconds r = Some d \<and> \<not> rs_exhausted r \<and>
    0 < d \<and> (if 0 < ri_maxRetrySeconds input then d \<le> ri_maxRetrySeconds input else True) \<and>
    t = iso_of_time (n + d * 1000) \<and> \<bar>n + d * 1000\<bar> \<le> max_time \<and>
    (case normalizeIsoTimestamp (ri_expiresAt input) of None \<Rightarrow> True | Some e \<Rightarrow> t \<le> e) \<and>
    \<not> (0 < ri_maxAttempts input \<and> ri_maxAttempts input \<le> ri_attemptCount input)"
  using assms by (rule retry_schedule_facts)

definition sample_retry :: retry_schedule_input where
  "sample_retry = \<lparr>ri_now = ''2026-01-05T12:00:00.000Z'', ri_attemptCount = 3, ri_maxAttempts = 5,
     ri_expiresAt = Some ''2026-01-06T00:00:00Z'', ri_retryAfterSeconds = Some 45, ri_baseRetrySeconds = 30,
     ri_maxRetrySeconds = 3600\<rparr>"

lemma retry_schedule_bounds_witness:
  "\<exists>r t. calculateOutboxRetrySchedule sample_retry = Inr r \<and> rs_retryAt r = Some t \<and> rs_delaySeconds r = Some 120 \<and>
     (case normalizeIsoTimestamp (ri_expiresAt sample_retry) of None \<Rightarrow> True | Some e \<Rightarrow> t \<le> e)"
proof -
  have "(case calculateOutboxRetrySchedule sample_retry of Inl _ \<Rightarrow> False
      | Inr r \<Rightarrow> rs_retryAt r \<noteq> None \<and> rs_delaySeconds r = Some 120)" by code_simp
  then obtain r t where r: "calculateOutboxRetrySchedule sample_retry = Inr r" "rs_retryAt r = Some t"
    "rs_delaySeconds r = Some 120" by (auto split: sum.splits)
  then show ?thesis using retry_schedule_bounds [OF r(1,2)] by blast
qed

lemma pow2_pos: "0 < (2::int) ^ k" by simp

text \<open>
  Backoff: without a hint of the provider the delay of attempt k is
  \<open>min (base * 2^(k-1)) max\<close>, so it never decreases from one attempt to the next.
\<close>

theorem retry_backoff:
  assumes "0 < ri_baseRetrySeconds input" "0 < ri_maxRetrySeconds input"
    and "ri_retryAfterSeconds input = None" "0 < ri_attemptCount input"
  shows "retry_delay input = min (ri_baseRetrySeconds input * 2 ^ nat (ri_attemptCount input - 1)) (ri_maxRetrySeconds input) \<and>
    retry_delay input \<le> retry_delay (input\<lparr>ri_attemptCount := ri_attemptCount input + 1\<rparr>)"
proof -
  let ?b = "ri_baseRetrySeconds input" and ?m = "ri_maxRetrySeconds input" and ?k = "ri_attemptCount input"
  have d: "retry_delay (input\<lparr>ri_attemptCount := k\<rparr>) = min (?b * 2 ^ nat (k - 1)) ?m" if "0 < k" for k
    using assms that by (simp add: retry_delay_def Let_def normalizePositiveInteger_def max_def mult_le_0_iff)
  have 1: "retry_delay input = min (?b * 2 ^ nat (?k - 1)) ?m" using d [OF assms(4)] by simp
  have "(2::int) ^ nat (?k - 1) \<le> 2 ^ nat (?k + 1 - 1)" using assms(4) by (intro power_increasing) auto
  then have "?b * 2 ^ nat (?k - 1) \<le> ?b * 2 ^ nat (?k + 1 - 1)" using assms(1) by (intro mult_left_mono) simp_all
  then show ?thesis using 1 d [of "?k + 1"] assms(4) by simp
qed

lemma retry_backoff_witness:
  "retry_delay (sample_retry\<lparr>ri_retryAfterSeconds := None\<rparr>) = 120"
  using retry_backoff [of "sample_retry\<lparr>ri_retryAfterSeconds := None\<rparr>"] by (simp add: sample_retry_def)

text \<open>
  The wait a provider asks for is cut by \<open>maxRetrySeconds\<close>: with a maximum of 3600 seconds a
  rate limit of 7200 seconds is retried after 3600.
\<close>

theorem provider_wait_is_cut:
  "retry_delay (sample_retry\<lparr>ri_retryAfterSeconds := Some 7200\<rparr>) = 3600"
  by (simp add: sample_retry_def retry_delay_def normalizePositiveInteger_def)

text \<open>
  The schedule throws (a \<open>RangeError\<close> of \<open>toISOString\<close>) exactly when now is a time, attempts
  remain, the delay is positive and the retry would lie outside the range of \<open>Date\<close>.
\<close>

theorem retry_schedule_error:
  "\<not> is_ok (calculateOutboxRetrySchedule input) \<longleftrightarrow>
     (\<exists>n. date_parse (ri_now input) = Some n \<and> max_time < \<bar>n + retry_delay input * 1000\<bar> \<and> 0 < retry_delay input \<and>
       \<not> (0 < ri_maxAttempts input \<and> ri_maxAttempts input \<le> ri_attemptCount input))"
proof (cases "date_parse (ri_now input)")
  case None
  then show ?thesis by (simp add: calculateOutboxRetrySchedule_def normalizeIsoTimestamp_def)
next
  case (Some n)
  then show ?thesis unfolding retry_schedule_unfold [OF Some] by (simp split: option.split)
qed

section \<open>Properties of the decision\<close>

text \<open>The row is addressed, typed and complete.\<close>

definition well_addressed :: "worker_config \<Rightarrow> outbox_message \<Rightarrow> bool" where
  "well_addressed config record \<longleftrightarrow> asText (Some (om_commandId record)) \<noteq> None \<and>
     asText (Some (om_idempotencyKey record)) \<noteq> None \<and> asText (Some (om_actionId record)) \<noteq> None \<and>
     om_channel record = ''whatsapp'' \<and> om_commandType record = ''whatsapp_text'' \<and>
     (wc_sandboxRequired config \<longrightarrow> omd_sandbox (om_metadata record)) \<and>
     asText (Some (om_recipient record)) \<noteq> None \<and> asText (Some (om_messageText record)) \<noteq> None"

text \<open>The row is due: available, not expired, attempts left.  A row whose \<open>availableAt\<close> is no
  timestamp is compared with the text of now as it was given.\<close>

definition due :: "string \<Rightarrow> string \<Rightarrow> outbox_message \<Rightarrow> bool" where
  "due raw_now now record \<longleftrightarrow>
     (case normalizeIsoTimestamp (Some (om_availableAt record)) of None \<Rightarrow> raw_now | Some t \<Rightarrow> t) \<le> now \<and>
     (case normalizeIsoTimestamp (om_expiresAt record) of None \<Rightarrow> True | Some e \<Rightarrow> now < e) \<and>
     (0 < om_maxAttempts record \<longrightarrow> om_attemptCount record < om_maxAttempts record)"

text \<open>The row is free: unclaimed, or claimed by nobody, by this worker, or under a lapsed lease.\<close>

definition free_for :: "worker_config \<Rightarrow> string \<Rightarrow> outbox_message \<Rightarrow> bool" where
  "free_for config now record \<longleftrightarrow> om_status record \<in> {Om_pending, Om_retry_scheduled} \<or>
     (om_status record \<in> {Om_claimed, Om_processing} \<and>
      (om_claimedBy record \<in> {None, Some (wc_workerId config)} \<or>
       (wc_recoverExpiredLeases config \<and>
        (case normalizeIsoTimestamp (om_leaseExpiresAt record) of None \<Rightarrow> False | Some t \<Rightarrow> t \<le> now))))"

lemma base_simps [simp]:
  "ev_leaseExpiresAt (buildBaseEvaluation input) = normalizeIsoTimestamp (om_leaseExpiresAt (wi_record input))"
  "ev_expiresAt (buildBaseEvaluation input) = normalizeIsoTimestamp (om_expiresAt (wi_record input))"
  "ev_availableAt (buildBaseEvaluation input) = (case normalizeIsoTimestamp (Some (om_availableAt (wi_record input))) of
     None \<Rightarrow> wi_now input | Some t \<Rightarrow> t)"
  "ev_attemptCount (buildBaseEvaluation input) = max 0 (om_attemptCount (wi_record input))"
  "ev_maxAttempts (buildBaseEvaluation input) = max 0 (om_maxAttempts (wi_record input))"
  "ev_reasons (buildBaseEvaluation input) = []" "ev_warnings (buildBaseEvaluation input) = []"
  by (simp_all add: buildBaseEvaluation_def Let_def)

lemma candidate_stop_simps [simp]:
  "ev_decision (candidate_stop e d rs) = d" "ev_reasons (candidate_stop e d rs) = rs"
  "ev_actionable (candidate_stop e d rs) = False"
  by (simp_all add: candidate_stop_def)

lemma candidate_stop_if:
  "d \<noteq> Process \<Longrightarrow> ev_decision (if c then candidate_stop e d rs else f) = Process \<longleftrightarrow> \<not> c \<and> ev_decision f = Process"
  by simp

lemma claimed_by_other_not_owned:
  "claimed_by_other record config \<Longrightarrow> \<not> (om_claimedBy record = None \<or> om_claimedBy record = Some (wc_workerId config))"
  by (auto simp: claimed_by_other_def split: option.splits)

lemma max_attempts_left:
  "\<not> (max 0 m > 0 \<and> max 0 a \<ge> max 0 (m::int)) \<longleftrightarrow> (0 < m \<longrightarrow> a < m)"
  by auto

lemma not_expired_at:
  "\<not> (case x of None \<Rightarrow> False | Some e \<Rightarrow> e \<le> n) \<longleftrightarrow> (case x of None \<Rightarrow> True | Some (e::string) \<Rightarrow> n < e)"
  by (simp add: not_le split: option.split)

text \<open>The checks before the lease, as one condition on the row.\<close>

lemma candidate_unfold:
  assumes "normalizeIsoTimestamp (Some (wi_now input)) = Some n"
  shows "ev_decision (evaluateOutboxCandidate input) = Process \<longleftrightarrow>
    (let record = wi_record input; config = wi_config input; status = om_status record;
         leased = isRecoverableLeaseStatus status;
         owned = (om_claimedBy record = None \<or> om_claimedBy record = Some (wc_workerId config));
         expired = lease_expired (buildBaseEvaluation input) n;
         recoverable = (leased \<and> expired \<and> wc_recoverExpiredLeases config)
     in wc_workerEnabled config \<and> wc_transportEnabled config \<and> well_addressed config record \<and>
        \<not> (\<not> isReclaimableOutboxStatus status \<and> \<not> isRecoverableLeaseStatus status \<and> \<not> isTerminalOutboxStatus status) \<and>
        \<not> isTerminalOutboxStatus status \<and> \<not> n < ev_availableAt (buildBaseEvaluation input) \<and>
        (case normalizeIsoTimestamp (om_expiresAt record) of None \<Rightarrow> True | Some e \<Rightarrow> n < e) \<and>
        (0 < om_maxAttempts record \<longrightarrow> om_attemptCount record < om_maxAttempts record) \<and>
        \<not> (leased \<and> \<not> owned \<and> \<not> recoverable))"
proof -
  define leased where "leased = isRecoverableLeaseStatus (om_status (wi_record input))"
  define owned where "owned = (om_claimedBy (wi_record input) = None \<or> om_claimedBy (wi_record input) = Some (wc_workerId (wi_config input)))"
  define expired where "expired = lease_expired (buildBaseEvaluation input) n"
  have other: "claimed_by_other (wi_record input) (wi_config input) \<Longrightarrow> \<not> owned"
    unfolding owned_def by (rule claimed_by_other_not_owned)
  show ?thesis
    unfolding evaluateOutboxCandidate_def Let_def assms option.case leased_def [symmetric] owned_def [symmetric]
      expired_def [symmetric] well_addressed_def normalizeCommandText_def
    apply (simp only: candidate_stop_if candidate_decision.distinct simp_thms base_simps max_attempts_left
      candidate_decision.simps not_True_eq_False not_False_eq_True candidate_evaluation.simps)
    using other by (simp add: not_expired_at) satx
qed

lemma lease_expired_base [simp]:
  "lease_expired (buildBaseEvaluation input) n \<longleftrightarrow>
    (case normalizeIsoTimestamp (om_leaseExpiresAt (wi_record input)) of None \<Rightarrow> False | Some t \<Rightarrow> t \<le> n)"
  by (simp add: lease_expired_def)

lemma available_base:
  assumes "normalizeIsoTimestamp (Some (wi_now input)) = Some n"
  shows "\<not> n < ev_availableAt (buildBaseEvaluation input) \<longleftrightarrow>
    (case normalizeIsoTimestamp (Some (om_availableAt (wi_record input))) of None \<Rightarrow> wi_now input | Some t \<Rightarrow> t) \<le> n"
  by (simp add: not_less)

lemma candidate_process_characterization:
  "ev_decision (evaluateOutboxCandidate input) = Process \<longleftrightarrow>
    (\<exists>n. normalizeIsoTimestamp (Some (wi_now input)) = Some n \<and>
      wc_workerEnabled (wi_config input) \<and> wc_transportEnabled (wi_config input) \<and>
      well_addressed (wi_config input) (wi_record input) \<and> due (wi_now input) n (wi_record input) \<and>
      free_for (wi_config input) n (wi_record input))"
proof (cases "normalizeIsoTimestamp (Some (wi_now input))")
  case None
  then show ?thesis by (simp add: evaluateOutboxCandidate_def)
next
  case (Some n)
  show ?thesis unfolding candidate_unfold [OF Some] Let_def available_base [OF Some] lease_expired_base
    by (simp add: Some due_def free_for_def)
      (cases "om_status (wi_record input)"; simp add: isReclaimableOutboxStatus_def isRecoverableLeaseStatus_def
        isTerminalOutboxStatus_def; satx)
qed

text \<open>
  C35. The exact conditions under which the worker processes a row: now is a time, worker and
  transport are on, the row is addressed and complete, due at that time, and unclaimed or claimed
  by this worker or under a lapsed lease the worker may recover.
\<close>

theorem candidate_process_iff:
  "ev_decision (evaluateOutboxCandidate input) = Process \<longleftrightarrow>
    (\<exists>n. normalizeIsoTimestamp (Some (wi_now input)) = Some n \<and>
      wc_workerEnabled (wi_config input) \<and> wc_transportEnabled (wi_config input) \<and>
      well_addressed (wi_config input) (wi_record input) \<and> due (wi_now input) n (wi_record input) \<and>
      free_for (wi_config input) n (wi_record input))"
  by (rule candidate_process_characterization)

lemma dead_reasons:
  assumes "claimed \<Longrightarrow> \<not> owned" "r \<notin> set (ev_reasons f)"
  shows "(l \<and> \<not> owned \<and> \<not> (l \<and> x \<and> b)) \<or>
     r \<notin> set (ev_reasons (if l \<and> \<not> (l \<and> x \<and> b) \<and> act \<and> claimed then candidate_stop e d2 rs2
     else if l \<and> x \<and> \<not> b \<and> claimed then candidate_stop e d3 rs3 else f))"
  using assms by auto

lemma reasons_stop_if:
  "r \<notin> set rs \<Longrightarrow> r \<notin> set (ev_reasons (if c then candidate_stop e d rs else f)) \<longleftrightarrow> c \<or> r \<notin> set (ev_reasons f)"
  by simp

lemma candidate_dead_reasons:
  assumes "r \<in> {Active_lease, Lease_not_recoverable}"
  shows "r \<notin> set (ev_reasons (evaluateOutboxCandidate input))"
proof (cases "normalizeIsoTimestamp (Some (wi_now input))")
  case None
  then show ?thesis using assms by (auto simp: evaluateOutboxCandidate_def)
next
  case (Some n)
  have r: "r \<notin> set [Worker_disabled]" "r \<notin> set [Transport_disabled]" "r \<notin> set [Missing_command_id]"
    "r \<notin> set [Missing_idempotency]" "r \<notin> set [Missing_action_id]" "r \<notin> set [Unsupported_channel_reason]"
    "r \<notin> set [Unsupported_command_type]" "r \<notin> set [Sandbox_required]" "r \<notin> set [Status_not_reclaimable]"
    "r \<notin> set [Status_not_reclaimable, Terminal_status]" "r \<notin> set [Not_yet_available]" "r \<notin> set [Message_expired]"
    "r \<notin> set [Attempts_exhausted]" "r \<notin> set [Missing_recipient_reason]" "r \<notin> set [Missing_message_reason]"
    "r \<notin> set [Wrong_worker_claim]" using assms by auto
  show ?thesis unfolding evaluateOutboxCandidate_def Let_def Some option.case
    apply (simp only: reasons_stop_if r simp_thms)
    apply (rule dead_reasons [OF claimed_by_other_not_owned] | rule disjI2)+
     apply simp_all
    done
qed

text \<open>
  Two of the declared reasons are never given: every row that would reach the checks for an
  active or an unrecoverable lease has been refused as another worker's claim before.
\<close>

theorem lease_checks_are_dead:
  "Active_lease \<notin> set (ev_reasons (evaluateOutboxCandidate input)) \<and>
   Lease_not_recoverable \<notin> set (ev_reasons (evaluateOutboxCandidate input))"
  by (simp add: candidate_dead_reasons)

text \<open>
  A message of an error, once sanitised, is never empty and never longer than the limit.
\<close>

theorem sanitized_message_bounds:
  assumes "sanitizeOutboxWorkerErrorMessage value limit = Some s" "3 \<le> limit"
  shows "0 < length s \<and> length s \<le> limit"
  using assms by (auto simp: sanitizeOutboxWorkerErrorMessage_def Let_def split: option.splits if_splits)

lemma sanitized_message_bounds_witness:
  "\<exists>s. sanitizeOutboxWorkerErrorMessage (Some ''token: abc failed'') 9 = Some s \<and> length s \<le> 9"
proof -
  have "sanitizeOutboxWorkerErrorMessage (Some ''token: abc failed'') 9 \<noteq> None" by code_simp
  then obtain s where "sanitizeOutboxWorkerErrorMessage (Some ''token: abc failed'') 9 = Some s" by blast
  then show ?thesis using sanitized_message_bounds [of "Some ''token: abc failed''" 9 s] by simp
qed

end
