(* ===== verification/JS_Json.thy ===== *)
theory JS_Json
  imports JS_Value
begin

text \<open>
  \<open>JSON.stringify\<close> as an encoding: the escapes of a string, and the texts of strings and numbers
  in an object, can be read back, so two objects with the same keys have the same text only if
  they have the same values.  The identifiers of the worker's plans rest on it.
\<close>

text \<open>The inverse of one escape.\<close>

definition unescape :: "string \<Rightarrow> char \<times> string" where
  "unescape s = (case s of
     [] \<Rightarrow> (CHR ''?'', [])
   | c # r \<Rightarrow> if (of_char c :: nat) \<noteq> 92 then (c, r)
     else (case r of [] \<Rightarrow> (c, r) | d # r' \<Rightarrow>
       if d = CHR ''b'' then (char_of (8::nat), r') else if d = CHR ''t'' then (char_of (9::nat), r')
       else if d = CHR ''n'' then (char_of (10::nat), r') else if d = CHR ''f'' then (char_of (12::nat), r')
       else if d = CHR ''r'' then (char_of (13::nat), r')
       else if d = CHR ''u'' then
         (char_of (16 * (let n = of_char (r' ! 2) :: nat in if n < 58 then n - 48 else n - 87) +
                   (let n = of_char (r' ! 3) :: nat in if n < 58 then n - 48 else n - 87)), drop 4 r')
       else (d, r')))"

lemma hex_digit_value: "k < 16 \<Longrightarrow>
  (let n = of_char (hex_digit k) :: nat in if n < 58 then n - 48 else n - 87) = k"
  by (auto simp: hex_digit_def of_char_of Let_def)

lemma unescape_escape: "unescape (escape_char c @ u) = (c, u)"
proof -
  define n where "n = (of_char c :: nat)"
  have c: "c = char_of n" by (simp add: n_def)
  have small: "n < 32 \<Longrightarrow> n div 16 < 16 \<and> n mod 16 < 16" by auto
  have e: "escape_char c = (if n = 34 then [char_of (92::nat), char_of (34::nat)]
     else if n = 92 then [char_of (92::nat), char_of (92::nat)]
     else if n = 8 then char_of (92::nat) # ''b''
     else if n = 9 then char_of (92::nat) # ''t''
     else if n = 10 then char_of (92::nat) # ''n''
     else if n = 12 then char_of (92::nat) # ''f''
     else if n = 13 then char_of (92::nat) # ''r''
     else if n < 32 then char_of (92::nat) # ''u00'' @ [hex_digit (n div 16), hex_digit (n mod 16)]
     else [c])" by (simp add: escape_char_def n_def Let_def)
  have u: "(of_char (char_of (92::nat)) :: nat) = 92" by (simp add: of_char_of)
  show ?thesis
  proof (cases "n < 32")
    case True
    then show ?thesis using hex_digit_value small[OF True]
      by (simp add: e unescape_def u) (simp add: c numeral_2_eq_2 numeral_3_eq_3 char_of_def)
  next
    case False
    then show ?thesis by (simp add: e unescape_def u n_def[symmetric]) (simp add: c char_of_def)
  qed
qed

lemma escape_char_prefix_free: "escape_char c @ u = escape_char d @ v \<longleftrightarrow> c = d \<and> u = v"
  by (metis Pair_inject unescape_escape)

lemma quote_char: "(of_char (char_of (34::nat) :: char) :: nat) = 34"
  by simp

lemma escape_not_quote: "escape_char c @ u \<noteq> char_of (34::nat) # v"
proof
  assume "escape_char c @ u = char_of (34::nat) # v"
  then have "hd (escape_char c @ u) = char_of (34::nat)" by simp
  then have "(of_char (hd (escape_char c @ u)) :: nat) = 34" by (simp only: quote_char)
  then show False by (auto simp: escape_char_def Let_def split: if_splits)
qed

lemma escaped_inject:
  "concat (map escape_char s) @ char_of (34::nat) # x = concat (map escape_char t) @ char_of (34::nat) # y \<longleftrightarrow>
   s = t \<and> x = y"
proof (induction s arbitrary: t)
  case Nil
  show ?case
  proof (cases t)
    case (Cons d t')
    show ?thesis
      using escape_not_quote [of d "concat (map escape_char t') @ char_of (34::nat) # y" x, THEN not_sym]
      by (simp add: Cons)
  qed simp
next
  case (Cons c s)
  show ?case
  proof (cases t)
    case Nil
    then show ?thesis using escape_not_quote by fastforce
  next
    case (Cons d t')
    then show ?thesis using Cons.IH [of t'] by (simp add: escape_char_prefix_free)
  qed
qed

lemma quote_inject: "quote_string s @ x = quote_string t @ y \<longleftrightarrow> s = t \<and> x = y"
  using escaped_inject [of s x t y] by (simp add: quote_string_def)

definition num_char :: "char \<Rightarrow> bool" where
  "num_char c \<longleftrightarrow> is_digit c \<or> c = CHR ''-''"

lemma int_to_string_num_chars: "list_all num_char (int_to_string i)"
  using nat_to_string_digits by (auto simp: int_to_string_def num_char_def list_all_iff)

lemma nat_to_string_no_minus: "nat_to_string n \<noteq> CHR ''-'' # s"
proof
  assume "nat_to_string n = CHR ''-'' # s"
  then show False using nat_to_string_digits [of n] by (simp add: is_digit_def)
qed

lemma int_to_string_inject [simp]: "int_to_string i = int_to_string j \<longleftrightarrow> i = j"
  using nat_to_string_no_minus [of "nat i"] nat_to_string_no_minus [of "nat j"]
  by (auto simp: int_to_string_def eq_nat_nat_iff) (metis nat_to_string_no_minus)+

lemma takeWhile_delimited: "list_all P s \<Longrightarrow> \<not> P c \<Longrightarrow> takeWhile P (s @ c # x) = s"
  by (simp add: list_all_iff takeWhile_append2)

lemma delimited_inject:
  assumes "list_all P s" "list_all P t" "\<not> P c"
  shows "s @ c # x = t @ c # y \<longleftrightarrow> s = t \<and> x = y"
  using takeWhile_delimited [OF assms(1,3)] takeWhile_delimited [OF assms(2,3)] by (metis append_same_eq list.inject same_append_eq)

lemma int_field_inject: "int_to_string i @ CHR '','' # x = int_to_string j @ CHR '','' # y \<longleftrightarrow> i = j \<and> x = y"
proof -
  have "\<not> num_char (CHR '','')" by (simp add: num_char_def is_digit_def)
  then show ?thesis
    using delimited_inject [OF int_to_string_num_chars int_to_string_num_chars] by simp
qed

lemma int_not_quoted: "int_to_string i @ x \<noteq> quote_string s @ y"
proof
  assume a: "int_to_string i @ x = quote_string s @ y"
  have "int_to_string i \<noteq> []" by (simp add: int_to_string_def)
  then obtain c r where c: "int_to_string i = c # r" by (cases "int_to_string i") auto
  then have "c = char_of (34::nat)" using a by (simp add: quote_string_def)
  moreover have "num_char c" using int_to_string_num_chars [of i] c by simp
  ultimately show False using quote_char by (auto simp: num_char_def is_digit_def)
qed

end
