(* ===== verification/OutboxPlan.thy ===== *)
theory OutboxPlan
  imports OutboxWorker JS_Json "HOL-Library.AList"
begin

text \<open>
  The outbox worker, second part: the mutation plans of
  \<open>lib/brain/messaging/outbox-worker/buildOutboxWorkerPlan.ts\<close> and the identifiers of
  \<open>constants.ts\<close>.  The digest (\<open>createHash("sha256")\<close> of \<open>node:crypto\<close>) is the parameter
  \<open>digest\<close>.  A plan is a value: building one touches no state.
\<close>

section \<open>Data\<close>

record outbox_patch =
  pt_nextStatus :: outbox_status
  pt_attemptCount :: "int change"
  pt_availableAt :: "string change"
  pt_claimedBy :: "string change"
  pt_claimedAt :: "string change"
  pt_leaseExpiresAt :: "string change"
  pt_lastAttemptAt :: "string change"
  pt_deliveredAt :: "string change"
  pt_providerMessageId :: "string change"
  pt_lastErrorCode :: "string change"
  pt_lastErrorMessageSafe :: "string change"
  pt_updatedAt :: string

record audit_event =
  au_eventId :: string
  au_eventType :: audit_event_type
  au_reason :: plan_reason
  au_metadata :: json
  au_createdAt :: string

record transport_summary =
  ts_status :: "transport_status option"
  ts_providerMessageId :: "string option"
  ts_errorCode :: "transport_error option"

record worker_side_effects =
  wse_databaseWritten :: bool
  wse_messageTransportCalled :: bool
  wse_externalMessageSent :: bool
  wse_metaCalled :: bool

record mutation_plan =
  pl_planId :: string
  pl_planKey :: string
  pl_planType :: plan_type
  pl_rowId :: ref_id
  pl_commandId :: string
  pl_idempotencyKey :: string
  pl_expectedStatuses :: "outbox_status list"
  pl_patch :: outbox_patch
  pl_auditEvent :: "audit_event option"
  pl_transportResultSummary :: transport_summary
  pl_sideEffects :: worker_side_effects
  pl_createdAt :: string

datatype plan_phase = Processing_phase | Final_phase | Skip_phase

record plan_input =
  pi_now :: string
  pi_record :: outbox_message
  pi_config :: worker_config
  pi_evaluation :: candidate_evaluation
  pi_transportResult :: "transport_result option"
  pi_phase :: plan_phase

section \<open>Identifiers\<close>

definition json_ref :: "ref_id \<Rightarrow> json" where
  "json_ref r = (case r of Ref_num n \<Rightarrow> JNum n | Ref_text s \<Rightarrow> JStr s)"

definition buildStableDigest :: "(string \<Rightarrow> string) \<Rightarrow> json \<Rightarrow> string" where
  "buildStableDigest digest payload = digest (json_stringify payload)"

definition plan_payload :: "outbox_message \<Rightarrow> plan_type \<Rightarrow> string \<Rightarrow> json" where
  "plan_payload record planType createdAt = JObj
     [(''rowId'', json_ref (om_rowId record)), (''commandId'', JStr (om_commandId record)),
      (''attemptCount'', JNum (om_attemptCount record)), (''planType'', JStr (plan_type_name planType)),
      (''createdAt'', JStr createdAt)]"

definition buildOutboxWorkerPlanId :: "(string \<Rightarrow> string) \<Rightarrow> outbox_message \<Rightarrow> plan_type \<Rightarrow> string \<Rightarrow> string" where
  "buildOutboxWorkerPlanId digest record planType createdAt =
     ''outbox-worker-plan:'' @ take 24 (buildStableDigest digest (plan_payload record planType createdAt))"

definition buildOutboxWorkerPlanKey :: "(string \<Rightarrow> string) \<Rightarrow> outbox_message \<Rightarrow> plan_type \<Rightarrow> string \<Rightarrow> string" where
  "buildOutboxWorkerPlanKey digest record planType createdAt =
     ''outbox-worker:'' @ om_commandId record @ '':'' @ plan_type_name planType @ '':'' @
     take 24 (buildStableDigest digest (plan_payload record planType createdAt))"

definition buildOutboxAuditEventId ::
  "(string \<Rightarrow> string) \<Rightarrow> outbox_message \<Rightarrow> plan_type \<Rightarrow> audit_event_type \<Rightarrow> string \<Rightarrow> string" where
  "buildOutboxAuditEventId digest record planType eventType createdAt =
     ''outbox-audit:'' @ om_commandId record @ '':'' @ event_type_name eventType @ '':'' @
     take 24 (buildStableDigest digest (JObj
       [(''rowId'', json_ref (om_rowId record)), (''commandId'', JStr (om_commandId record)),
        (''attemptCount'', JNum (om_attemptCount record)), (''planType'', JStr (plan_type_name planType)),
        (''eventType'', JStr (event_type_name eventType)), (''createdAt'', JStr createdAt)]))"

section \<open>Audit events and base plans\<close>

text \<open>\<open>{ ...entries, k: v, ... }\<close>: a key that is present keeps its place and takes the new value.\<close>

definition spread :: "(string \<times> json) list \<Rightarrow> (string \<times> json) list \<Rightarrow> (string \<times> json) list" where
  "spread entries overrides = fold (\<lambda>(k, v) m. AList.update k v m) overrides entries"

definition buildAuditEvent ::
  "(string \<Rightarrow> string) \<Rightarrow> string \<Rightarrow> outbox_message \<Rightarrow> plan_type \<Rightarrow> plan_reason \<Rightarrow> audit_event_type \<Rightarrow>
   (string \<times> json) list \<Rightarrow> transport_result option \<Rightarrow> audit_event" where
  "buildAuditEvent digest now record planType reason eventType metadata replacement =
     \<lparr>au_eventId = buildOutboxAuditEventId digest record planType eventType now,
      au_eventType = eventType, au_reason = reason,
      au_metadata = JObj (spread metadata
        [(''attemptCount'', JNum (om_attemptCount record)), (''maxAttempts'', JNum (om_maxAttempts record)),
         (''workerId'', nullish_or (jget (JObj metadata) ''workerId'') JNull),
         (''providerMessageId'', json_opt (Option.bind replacement tr_providerMessageId))]),
      au_createdAt = now\<rparr>"

definition base_patch :: "outbox_status \<Rightarrow> string \<Rightarrow> outbox_patch" where
  "base_patch nextStatus now =
     \<lparr>pt_nextStatus = nextStatus, pt_attemptCount = Unset, pt_availableAt = Unset, pt_claimedBy = Unset,
      pt_claimedAt = Unset, pt_leaseExpiresAt = Unset, pt_lastAttemptAt = Unset, pt_deliveredAt = Unset,
      pt_providerMessageId = Unset, pt_lastErrorCode = Unset, pt_lastErrorMessageSafe = Unset, pt_updatedAt = now\<rparr>"

definition buildBasePlan ::
  "(string \<Rightarrow> string) \<Rightarrow> string \<Rightarrow> outbox_message \<Rightarrow> plan_type \<Rightarrow> outbox_status list \<Rightarrow> outbox_status \<Rightarrow>
   transport_result option \<Rightarrow> (outbox_patch \<Rightarrow> outbox_patch) \<Rightarrow> audit_event option \<Rightarrow> mutation_plan" where
  "buildBasePlan digest now record planType expectedStatuses nextStatus transportResult patch auditEvent =
     \<lparr>pl_planId = buildOutboxWorkerPlanId digest record planType now,
      pl_planKey = buildOutboxWorkerPlanKey digest record planType now,
      pl_planType = planType, pl_rowId = om_rowId record, pl_commandId = om_commandId record,
      pl_idempotencyKey = om_idempotencyKey record, pl_expectedStatuses = js_unique expectedStatuses,
      pl_patch = patch (base_patch nextStatus now), pl_auditEvent = auditEvent,
      pl_transportResultSummary =
        \<lparr>ts_status = map_option tr_status transportResult,
         ts_providerMessageId = Option.bind transportResult tr_providerMessageId,
         ts_errorCode = map_option tr_errorCode transportResult\<rparr>,
      pl_sideEffects = \<lparr>wse_databaseWritten = False, wse_messageTransportCalled = (transportResult \<noteq> None),
         wse_externalMessageSent = False, wse_metaCalled = False\<rparr>,
      pl_createdAt = now\<rparr>"

section \<open>The plans\<close>

definition old_new :: "plan_input \<Rightarrow> outbox_status \<Rightarrow> (string \<times> json) list" where
  "old_new input newStatus =
     [(''oldStatus'', JStr (outbox_status_name (om_status (pi_record input)))),
      (''newStatus'', JStr (outbox_status_name newStatus)), (''workerId'', JStr (wc_workerId (pi_config input)))]"

definition attempts_of :: "plan_input \<Rightarrow> (string \<times> json) list" where
  "attempts_of input = [(''attemptCount'', JNum (om_attemptCount (pi_record input))),
     (''maxAttempts'', JNum (om_maxAttempts (pi_record input)))]"

definition buildProcessingPlan :: "(string \<Rightarrow> string) \<Rightarrow> plan_input \<Rightarrow> mutation_plan" where
  "buildProcessingPlan digest input =
    (let record = pi_record input; now = pi_now input;
         auditEvent = buildAuditEvent digest now record Mark_processing Transport_accepted Outbox_processing_started
           (old_new input Om_processing @ [(''leaseExpiresAt'', json_opt (om_leaseExpiresAt record))])
           (pi_transportResult input)
     in buildBasePlan digest now record Mark_processing [om_status record] Om_processing None
          (\<lambda>patch. patch\<lparr>pt_attemptCount := Assigned (om_attemptCount record + 1), pt_lastAttemptAt := Assigned now\<rparr>)
          (Some auditEvent))"

definition buildReleasedClaimPlan :: "(string \<Rightarrow> string) \<Rightarrow> plan_input \<Rightarrow> plan_reason \<Rightarrow> mutation_plan" where
  "buildReleasedClaimPlan digest input reason =
    (let record = pi_record input; now = pi_now input;
         auditEvent = buildAuditEvent digest now record Release_claim reason Outbox_claim_released
           (old_new input Om_pending @ [(''leaseExpiresAt'', json_opt (om_leaseExpiresAt record))]) None
     in buildBasePlan digest now record Release_claim [om_status record] Om_pending None
          (\<lambda>patch. patch\<lparr>pt_claimedBy := Nulled, pt_claimedAt := Nulled, pt_leaseExpiresAt := Nulled\<rparr>)
          (Some auditEvent))"

definition buildDeliveredPlan ::
  "(string \<Rightarrow> string) \<Rightarrow> plan_input \<Rightarrow> transport_result \<Rightarrow> plan_reason \<Rightarrow> mutation_plan" where
  "buildDeliveredPlan digest input transportResult reason =
    (let record = pi_record input; now = pi_now input;
         deliveredAt = (case tr_acceptedAt transportResult of Some t \<Rightarrow> t | None \<Rightarrow> tr_completedAt transportResult);
         auditEvent = buildAuditEvent digest now record Mark_delivered reason Outbox_delivered
           (old_new input Om_delivered @ [(''providerMessageId'', json_opt (tr_providerMessageId transportResult))] @
            attempts_of input) None
     in buildBasePlan digest now record Mark_delivered [Om_processing] Om_delivered (Some transportResult)
          (\<lambda>patch. patch\<lparr>pt_deliveredAt := Assigned deliveredAt,
             pt_providerMessageId := change_of (tr_providerMessageId transportResult),
             pt_lastErrorCode := Nulled, pt_lastErrorMessageSafe := Nulled\<rparr>)
          (Some auditEvent))"

definition buildRetryPlan ::
  "(string \<Rightarrow> string) \<Rightarrow> plan_input \<Rightarrow> transport_result \<Rightarrow> string \<Rightarrow> plan_reason \<Rightarrow> mutation_plan" where
  "buildRetryPlan digest input transportResult retryAt reason =
    (let record = pi_record input; now = pi_now input;
         auditEvent = buildAuditEvent digest now record Schedule_retry reason Outbox_retry_scheduled
           (old_new input Om_retry_scheduled @
            [(''retryAt'', JStr retryAt),
             (''delaySeconds'', case tr_retryAfterSeconds transportResult of None \<Rightarrow> JNull | Some n \<Rightarrow> JNum n),
             (''errorCode'', JStr (transport_error_name (tr_errorCode transportResult))),
             (''leaseExpiresAt'', json_opt (om_leaseExpiresAt record))]) None
     in buildBasePlan digest now record Schedule_retry [Om_processing] Om_retry_scheduled (Some transportResult)
          (\<lambda>patch. patch\<lparr>pt_attemptCount := Assigned (om_attemptCount record), pt_availableAt := Assigned retryAt,
             pt_lastErrorCode := Assigned (transport_error_name (tr_errorCode transportResult)),
             pt_lastErrorMessageSafe := change_of (sanitizeOutboxWorkerErrorMessage (tr_errorMessageSafe transportResult) 180),
             pt_providerMessageId := change_of (tr_providerMessageId transportResult)\<rparr>)
          (Some auditEvent))"

definition buildDeadLetterPlan ::
  "(string \<Rightarrow> string) \<Rightarrow> plan_input \<Rightarrow> transport_result option \<Rightarrow> plan_reason \<Rightarrow> mutation_plan" where
  "buildDeadLetterPlan digest input transportResult reason =
    (let record = pi_record input; now = pi_now input;
         errorCode = map_option (transport_error_name \<circ> tr_errorCode) transportResult;
         auditEvent = buildAuditEvent digest now record Move_to_dead_letter reason Outbox_dead_lettered
           (old_new input Om_dead_letter @ [(''errorCode'', json_opt errorCode)] @ attempts_of input) None
     in buildBasePlan digest now record Move_to_dead_letter [Om_processing, Om_pending, Om_retry_scheduled, Om_claimed]
          Om_dead_letter transportResult
          (\<lambda>patch. patch\<lparr>pt_lastErrorCode := Assigned (case errorCode of None \<Rightarrow> ''unknown'' | Some c \<Rightarrow> c),
             pt_lastErrorMessageSafe := change_of (sanitizeOutboxWorkerErrorMessage
               (Some (case Option.bind transportResult tr_errorMessageSafe of
                  None \<Rightarrow> ''Moved to dead letter.'' | Some m \<Rightarrow> m)) 180),
             pt_providerMessageId := change_of (case Option.bind transportResult tr_providerMessageId of
               Some m \<Rightarrow> Some m | None \<Rightarrow> om_providerMessageId record)\<rparr>)
          (Some auditEvent))"

definition buildExpiredPlan :: "(string \<Rightarrow> string) \<Rightarrow> plan_input \<Rightarrow> mutation_plan" where
  "buildExpiredPlan digest input =
    (let record = pi_record input; now = pi_now input;
         auditEvent = buildAuditEvent digest now record Expire_message Expired_reason Outbox_expired
           (old_new input Om_dead_letter @ attempts_of input) None
     in buildBasePlan digest now record Expire_message [Om_pending, Om_retry_scheduled, Om_claimed, Om_processing]
          Om_dead_letter None
          (\<lambda>patch. patch\<lparr>pt_lastErrorCode := Assigned ''expired'', pt_lastErrorMessageSafe := Assigned ''expired''\<rparr>)
          (Some auditEvent))"

definition buildFailedPlan :: "(string \<Rightarrow> string) \<Rightarrow> plan_input \<Rightarrow> plan_reason \<Rightarrow> mutation_plan" where
  "buildFailedPlan digest input reason =
    (let record = pi_record input; now = pi_now input;
         auditEvent = buildAuditEvent digest now record Mark_failed reason Outbox_failed
           (old_new input Om_failed @ attempts_of input) None
     in buildBasePlan digest now record Mark_failed [Om_processing, Om_claimed] Om_failed None
          (\<lambda>patch. patch\<lparr>pt_lastErrorCode := Assigned ''unknown'', pt_lastErrorMessageSafe := Assigned ''failed''\<rparr>)
          (Some auditEvent))"

definition buildNoChangePlan :: "(string \<Rightarrow> string) \<Rightarrow> plan_input \<Rightarrow> mutation_plan" where
  "buildNoChangePlan digest input =
     buildBasePlan digest (pi_now input) (pi_record input) No_change [om_status (pi_record input)]
       (om_status (pi_record input)) None id None"

definition first_reason :: "plan_input \<Rightarrow> plan_reason \<Rightarrow> plan_reason" where
  "first_reason input fallback = (case ev_reasons (pi_evaluation input) of [] \<Rightarrow> fallback | r # _ \<Rightarrow> r)"

text \<open>The schedule of a retry, as the plan asks for it.\<close>

definition plan_retry_schedule :: "plan_input \<Rightarrow> transport_result \<Rightarrow> retry_schedule result" where
  "plan_retry_schedule input transportResult = calculateOutboxRetrySchedule
     \<lparr>ri_now = pi_now input, ri_attemptCount = om_attemptCount (pi_record input),
      ri_maxAttempts = om_maxAttempts (pi_record input), ri_expiresAt = om_expiresAt (pi_record input),
      ri_retryAfterSeconds = tr_retryAfterSeconds transportResult,
      ri_baseRetrySeconds = wc_baseRetrySeconds (pi_config input),
      ri_maxRetrySeconds = wc_maxRetrySeconds (pi_config input)\<rparr>"

definition retryPlan :: "(string \<Rightarrow> string) \<Rightarrow> plan_input \<Rightarrow> transport_result \<Rightarrow> plan_reason \<Rightarrow> mutation_plan result" where
  "retryPlan digest input transportResult reason =
     bind_result (plan_retry_schedule input transportResult) (\<lambda>schedule. Inr
       (if rs_exhausted schedule \<or> empty_or_none (rs_retryAt schedule)
        then buildDeadLetterPlan digest input (Some transportResult) Retry_exhausted
        else buildRetryPlan digest input transportResult (the (rs_retryAt schedule)) reason))"

definition buildOutboxWorkerPlan :: "(string \<Rightarrow> string) \<Rightarrow> plan_input \<Rightarrow> mutation_plan result" where
  "buildOutboxWorkerPlan digest input =
    (case pi_phase input of
       Processing_phase \<Rightarrow> Inr (buildProcessingPlan digest input)
     | Skip_phase \<Rightarrow>
         (if ev_decision (pi_evaluation input) = Skip \<and> om_status (pi_record input) \<in> set [Om_claimed, Om_processing]
          then Inr (buildReleasedClaimPlan digest input (first_reason input Status_not_reclaimable))
          else Inr (buildNoChangePlan digest input))
     | Final_phase \<Rightarrow>
         (case pi_transportResult input of
            None \<Rightarrow>
              (case ev_decision (pi_evaluation input) of
                 Expire \<Rightarrow> Inr (buildExpiredPlan digest input)
               | Dead_letter \<Rightarrow> Inr (buildDeadLetterPlan digest input None (first_reason input Retry_exhausted))
               | _ \<Rightarrow> Inr (buildNoChangePlan digest input))
          | Some transportResult \<Rightarrow>
              (case tr_status transportResult of
                 Tr_accepted \<Rightarrow> Inr (buildDeliveredPlan digest input transportResult Transport_accepted)
               | Tr_duplicate_accepted \<Rightarrow> Inr (buildDeliveredPlan digest input transportResult Transport_duplicate_accepted)
               | Tr_temporary_failure \<Rightarrow> retryPlan digest input transportResult Transport_temporary_failure
               | Tr_rate_limited \<Rightarrow> retryPlan digest input transportResult Transport_rate_limited
               | Tr_timeout \<Rightarrow> retryPlan digest input transportResult Transport_timeout
               | Tr_permanent_failure \<Rightarrow>
                   Inr (buildDeadLetterPlan digest input (Some transportResult) Transport_permanent_failure))))"

definition plan_input_of ::
  "worker_input \<Rightarrow> candidate_evaluation \<Rightarrow> transport_result option \<Rightarrow> plan_phase \<Rightarrow> plan_input" where
  "plan_input_of input evaluation transportResult phase =
     \<lparr>pi_now = wi_now input, pi_record = wi_record input, pi_config = wi_config input,
      pi_evaluation = evaluation, pi_transportResult = transportResult, pi_phase = phase\<rparr>"

definition buildFinalOutboxWorkerPlan ::
  "(string \<Rightarrow> string) \<Rightarrow> worker_input \<Rightarrow> candidate_evaluation \<Rightarrow> transport_result option \<Rightarrow> mutation_plan result" where
  "buildFinalOutboxWorkerPlan digest input evaluation transportResult =
     buildOutboxWorkerPlan digest (plan_input_of input evaluation transportResult Final_phase)"

definition buildProcessingOutboxWorkerPlan ::
  "(string \<Rightarrow> string) \<Rightarrow> worker_input \<Rightarrow> candidate_evaluation \<Rightarrow> mutation_plan result" where
  "buildProcessingOutboxWorkerPlan digest input evaluation =
     buildOutboxWorkerPlan digest (plan_input_of input evaluation None Processing_phase)"

definition buildSkippedOutboxWorkerPlan ::
  "(string \<Rightarrow> string) \<Rightarrow> worker_input \<Rightarrow> candidate_evaluation \<Rightarrow> mutation_plan result" where
  "buildSkippedOutboxWorkerPlan digest input evaluation =
     buildOutboxWorkerPlan digest (plan_input_of input evaluation None Skip_phase)"

definition isRetryableTransportResult :: "transport_result \<Rightarrow> bool" where
  "isRetryableTransportResult r \<longleftrightarrow> tr_status r = Tr_temporary_failure \<or> tr_status r = Tr_rate_limited \<or>
     tr_status r = Tr_timeout \<or> isRetryableTransportErrorCode (tr_errorCode r)"

definition isPermanentTransportResult :: "transport_result \<Rightarrow> bool" where
  "isPermanentTransportResult r \<longleftrightarrow> tr_status r = Tr_permanent_failure \<or> isPermanentTransportErrorCode (tr_errorCode r)"

section \<open>Properties\<close>

lemma iso_text_not_Nil [simp]: "iso_of_time n \<noteq> []"
  by (simp add: iso_of_time_def time_string_def clock_string_def)

lemma base_plan_simps [simp]:
  "pl_planType (buildBasePlan digest now r t es n tr p a) = t"
  "pl_rowId (buildBasePlan digest now r t es n tr p a) = om_rowId r"
  "pl_commandId (buildBasePlan digest now r t es n tr p a) = om_commandId r"
  "pl_idempotencyKey (buildBasePlan digest now r t es n tr p a) = om_idempotencyKey r"
  "pl_expectedStatuses (buildBasePlan digest now r t es n tr p a) = js_unique es"
  "pl_patch (buildBasePlan digest now r t es n tr p a) = p (base_patch n now)"
  "pl_auditEvent (buildBasePlan digest now r t es n tr p a) = a"
  "pl_planKey (buildBasePlan digest now r t es n tr p a) = buildOutboxWorkerPlanKey digest r t now"
  "pl_planId (buildBasePlan digest now r t es n tr p a) = buildOutboxWorkerPlanId digest r t now"
  "pl_createdAt (buildBasePlan digest now r t es n tr p a) = now"
  "pl_sideEffects (buildBasePlan digest now r t es n tr p a) =
     \<lparr>wse_databaseWritten = False, wse_messageTransportCalled = (tr \<noteq> None),
      wse_externalMessageSent = False, wse_metaCalled = False\<rparr>"
  by (simp_all add: buildBasePlan_def)

lemma base_patch_simps [simp]:
  "pt_nextStatus (base_patch n now) = n" "pt_updatedAt (base_patch n now) = now"
  "pt_attemptCount (base_patch n now) = Unset" "pt_claimedBy (base_patch n now) = Unset"
  "pt_availableAt (base_patch n now) = Unset" "pt_claimedAt (base_patch n now) = Unset"
  "pt_leaseExpiresAt (base_patch n now) = Unset" "pt_lastAttemptAt (base_patch n now) = Unset"
  "pt_deliveredAt (base_patch n now) = Unset" "pt_providerMessageId (base_patch n now) = Unset"
  "pt_lastErrorCode (base_patch n now) = Unset" "pt_lastErrorMessageSafe (base_patch n now) = Unset"
  by (simp_all add: base_patch_def)

lemmas plan_defs = buildProcessingPlan_def buildReleasedClaimPlan_def buildDeliveredPlan_def buildRetryPlan_def
  buildDeadLetterPlan_def buildExpiredPlan_def buildNoChangePlan_def Let_def

text \<open>What a plan does to the status of a row, and from which statuses it may start.\<close>

definition status_after :: "plan_type \<Rightarrow> outbox_status \<Rightarrow> outbox_status" where
  "status_after t s = (case t of No_change \<Rightarrow> s | Mark_processing \<Rightarrow> Om_processing | Mark_delivered \<Rightarrow> Om_delivered
     | Schedule_retry \<Rightarrow> Om_retry_scheduled | Mark_failed \<Rightarrow> Om_failed | Move_to_dead_letter \<Rightarrow> Om_dead_letter
     | Expire_message \<Rightarrow> Om_dead_letter | Release_claim \<Rightarrow> Om_pending)"

definition live_statuses :: "outbox_status list" where
  "live_statuses = [Om_pending, Om_claimed, Om_processing, Om_retry_scheduled]"

definition plan_sources :: "plan_type \<Rightarrow> outbox_status \<Rightarrow> outbox_status set" where
  "plan_sources t s = (case t of No_change \<Rightarrow> {s} | Mark_processing \<Rightarrow> {s} | Mark_delivered \<Rightarrow> {Om_processing}
     | Schedule_retry \<Rightarrow> {Om_processing} | Mark_failed \<Rightarrow> {Om_processing, Om_claimed}
     | Move_to_dead_letter \<Rightarrow> set live_statuses | Expire_message \<Rightarrow> set live_statuses
     | Release_claim \<Rightarrow> {s} \<inter> {Om_claimed, Om_processing})"

lemma retryPlan_shape:
  assumes "retryPlan digest input r reason = Inr plan"
  shows "(\<exists>reason'. plan = buildDeadLetterPlan digest input (Some r) reason') \<or>
    (\<exists>t. plan = buildRetryPlan digest input r t reason)"
  using assms by (fastforce simp: retryPlan_def bind_result_Inr_iff split: if_splits)

lemma plan_cases:
  assumes "buildOutboxWorkerPlan digest input = Inr plan"
  shows "(pi_phase input = Processing_phase \<and> plan = buildProcessingPlan digest input) \<or>
    (\<exists>reason. pi_phase input = Skip_phase \<and> om_status (pi_record input) \<in> {Om_claimed, Om_processing} \<and>
       plan = buildReleasedClaimPlan digest input reason) \<or>
    (pi_phase input \<noteq> Processing_phase \<and> (pi_phase input = Final_phase \<longrightarrow> pi_transportResult input = None) \<and>
       plan = buildNoChangePlan digest input) \<or>
    (pi_phase input = Final_phase \<and> pi_transportResult input = None \<and> plan = buildExpiredPlan digest input) \<or>
    (\<exists>reason. pi_phase input = Final_phase \<and> plan = buildDeadLetterPlan digest input (pi_transportResult input) reason) \<or>
    (\<exists>r reason. pi_phase input = Final_phase \<and> pi_transportResult input = Some r \<and> plan = buildDeliveredPlan digest input r reason) \<or>
    (\<exists>r t reason. pi_phase input = Final_phase \<and> pi_transportResult input = Some r \<and> plan = buildRetryPlan digest input r t reason)"
proof (cases "pi_phase input")
  case Processing_phase
  then show ?thesis using assms by (simp add: buildOutboxWorkerPlan_def)
next
  case Skip_phase
  then show ?thesis using assms by (auto simp: buildOutboxWorkerPlan_def split: if_splits)
next
  case Final_phase
  show ?thesis
  proof (cases "pi_transportResult input")
    case None
    then show ?thesis using assms Final_phase
      by (auto simp: buildOutboxWorkerPlan_def split: candidate_decision.splits)
  next
    case (Some r)
    have "(\<exists>reason. plan = buildDeadLetterPlan digest input (Some r) reason) \<or>
      (\<exists>reason. plan = buildDeliveredPlan digest input r reason) \<or>
      (\<exists>t reason. plan = buildRetryPlan digest input r t reason)"
      using assms Final_phase Some
      by (cases "tr_status r"; simp add: buildOutboxWorkerPlan_def; (blast dest: retryPlan_shape)?; blast?)
    then show ?thesis using Final_phase Some by auto
  qed
qed

lemma plan_fields:
  assumes "buildOutboxWorkerPlan digest input = Inr plan"
  shows "pl_rowId plan = om_rowId (pi_record input) \<and> pl_commandId plan = om_commandId (pi_record input) \<and>
    pl_idempotencyKey plan = om_idempotencyKey (pi_record input) \<and>
    pl_planKey plan = buildOutboxWorkerPlanKey digest (pi_record input) (pl_planType plan) (pi_now input) \<and>
    pt_nextStatus (pl_patch plan) = status_after (pl_planType plan) (om_status (pi_record input)) \<and>
    set (pl_expectedStatuses plan) = plan_sources (pl_planType plan) (om_status (pi_record input)) \<and>
    pt_updatedAt (pl_patch plan) = pi_now input"
  using plan_cases [OF assms]
  by (elim disjE exE conjE)
    (auto simp: plan_defs status_after_def plan_sources_def live_statuses_def)

text \<open>
  The contract of a plan: it addresses its row, its key names the command and the type of the
  plan, its new status is the one of its type, and it may start exactly from the statuses of its
  type.
\<close>

theorem plan_contract:
  assumes "buildOutboxWorkerPlan digest input = Inr plan"
  shows "pl_rowId plan = om_rowId (pi_record input) \<and> pl_commandId plan = om_commandId (pi_record input) \<and>
    pl_idempotencyKey plan = om_idempotencyKey (pi_record input) \<and>
    pl_planKey plan = buildOutboxWorkerPlanKey digest (pi_record input) (pl_planType plan) (pi_now input) \<and>
    pt_nextStatus (pl_patch plan) = status_after (pl_planType plan) (om_status (pi_record input)) \<and>
    set (pl_expectedStatuses plan) = plan_sources (pl_planType plan) (om_status (pi_record input)) \<and>
    pt_updatedAt (pl_patch plan) = pi_now input"
  using assms by (rule plan_fields)

definition sample_message :: outbox_message where
  "sample_message = \<lparr>om_rowId = Ref_num 7, om_commandId = ''outbox-command:k'', om_idempotencyKey = ''k'',
     om_actionId = ''a'', om_channel = ''whatsapp'', om_commandType = ''whatsapp_text'', om_recipient = ''56911112222'',
     om_messageText = ''Hola'', om_status = Om_claimed, om_attemptCount = 0, om_maxAttempts = 3,
     om_availableAt = ''2026-01-05T12:00:00.000Z'', om_expiresAt = None, om_claimedBy = Some ''w'',
     om_claimedAt = Some ''2026-01-05T12:00:00.000Z'', om_leaseExpiresAt = Some ''2026-01-05T12:05:00.000Z'',
     om_lastAttemptAt = None, om_deliveredAt = None, om_providerMessageId = None, om_lastErrorCode = None,
     om_lastErrorMessageSafe = None,
     om_metadata = \<lparr>omd_source = ''execution_gate'', omd_sandbox = True, omd_riskLevel = ''low'',
       omd_approvalRequirement = ''none''\<rparr>,
     om_createdAt = ''2026-01-05T11:00:00.000Z'', om_updatedAt = ''2026-01-05T12:00:00.000Z''\<rparr>"

definition sample_config :: worker_config where
  "sample_config = \<lparr>wc_workerEnabled = True, wc_transportEnabled = True, wc_workerId = ''w'', wc_batchSize = 10,
     wc_leaseSeconds = 300, wc_defaultMaxAttempts = 3, wc_baseRetrySeconds = 30, wc_maxRetrySeconds = 3600,
     wc_retryJitterEnabled = False, wc_recoverExpiredLeases = True, wc_sandboxRequired = True\<rparr>"

definition sample_worker_input :: worker_input where
  "sample_worker_input = \<lparr>wi_now = ''2026-01-05T12:00:00.000Z'', wi_record = sample_message, wi_config = sample_config\<rparr>"

definition sample_plan_input :: plan_input where
  "sample_plan_input = plan_input_of sample_worker_input (buildBaseEvaluation sample_worker_input) None Processing_phase"

lemma plan_contract_witness:
  "\<exists>plan. buildOutboxWorkerPlan id sample_plan_input = Inr plan \<and> set (pl_expectedStatuses plan) = {Om_claimed} \<and>
     pt_nextStatus (pl_patch plan) = Om_processing"
proof -
  let ?p = "buildProcessingPlan id sample_plan_input"
  have e: "buildOutboxWorkerPlan id sample_plan_input = Inr ?p"
    by (simp add: buildOutboxWorkerPlan_def sample_plan_input_def plan_input_of_def)
  have "pl_planType ?p = Mark_processing" by (simp add: plan_defs)
  then show ?thesis using plan_contract [OF e] e
    by (auto simp: plan_sources_def status_after_def sample_plan_input_def plan_input_of_def
      sample_worker_input_def sample_message_def)
qed

text \<open>
  No plan takes a row out of a terminal status (delivered, dead letter or cancelled), except a
  processing plan that was built for a row already terminal; and a failed row is never revived by
  a final plan.
\<close>

theorem plan_respects_terminal:
  assumes "buildOutboxWorkerPlan digest input = Inr plan" "s \<in> set (pl_expectedStatuses plan)"
    "isTerminalOutboxStatus s \<or> s = Om_failed"
  shows "(pl_planType plan = No_change \<and> pt_nextStatus (pl_patch plan) = s) \<or>
    (pi_phase input = Processing_phase \<and> s = om_status (pi_record input))"
  using plan_cases [OF assms(1)] assms(2,3)
  by (elim disjE exE conjE) (auto simp: plan_defs isTerminalOutboxStatus_def)

lemma plan_respects_terminal_witness:
  "let input = sample_plan_input\<lparr>pi_record := sample_message\<lparr>om_status := Om_delivered\<rparr>, pi_phase := Skip_phase\<rparr>
   in pl_planType (buildNoChangePlan id input) = No_change \<and> pt_nextStatus (pl_patch (buildNoChangePlan id input)) = Om_delivered"
proof -
  define input where "input = sample_plan_input\<lparr>pi_record := sample_message\<lparr>om_status := Om_delivered\<rparr>, pi_phase := Skip_phase\<rparr>"
  have 1: "buildOutboxWorkerPlan id input = Inr (buildNoChangePlan id input)"
    by (simp add: buildOutboxWorkerPlan_def input_def)
  have 2: "Om_delivered \<in> set (pl_expectedStatuses (buildNoChangePlan id input))"
    by (simp add: plan_defs input_def)
  have 3: "pi_phase input \<noteq> Processing_phase" by (simp add: input_def)
  show ?thesis unfolding Let_def input_def [symmetric]
    using plan_respects_terminal [OF 1 2] 3 by (simp add: isTerminalOutboxStatus_def)
qed

text \<open>The type of the final plan of a sent message.\<close>

definition final_plan_type :: "transport_result \<Rightarrow> retry_schedule result \<Rightarrow> plan_type" where
  "final_plan_type r schedule =
     (if tr_status r \<in> {Tr_accepted, Tr_duplicate_accepted} then Mark_delivered
      else if tr_status r = Tr_permanent_failure then Move_to_dead_letter
      else case schedule of Inr sch \<Rightarrow> if rs_retryAt sch = None then Move_to_dead_letter else Schedule_retry
        | Inl _ \<Rightarrow> Schedule_retry)"

lemma schedule_retryAt:
  assumes "calculateOutboxRetrySchedule ri = Inr sch"
  shows "rs_exhausted sch \<or> empty_or_none (rs_retryAt sch) \<longleftrightarrow> rs_retryAt sch = None"
proof (cases "rs_retryAt sch")
  case None
  then show ?thesis by (simp add: empty_or_none_def)
next
  case (Some t)
  then have "\<not> rs_exhausted sch" "\<exists>n. t = iso_of_time n" using retry_schedule_facts [OF assms Some] by auto
  then show ?thesis using Some by (auto simp: empty_or_none_def)
qed

lemma retryPlan_type:
  assumes "retryPlan digest input r reason = Inr plan"
  shows "\<exists>sch. plan_retry_schedule input r = Inr sch \<and>
    plan = (if rs_retryAt sch = None then buildDeadLetterPlan digest input (Some r) Retry_exhausted
       else buildRetryPlan digest input r (the (rs_retryAt sch)) reason)"
proof -
  obtain sch where s: "plan_retry_schedule input r = Inr sch"
    and p: "plan = (if rs_exhausted sch \<or> empty_or_none (rs_retryAt sch)
       then buildDeadLetterPlan digest input (Some r) Retry_exhausted
       else buildRetryPlan digest input r (the (rs_retryAt sch)) reason)"
    using assms by (auto simp: retryPlan_def bind_result_Inr_iff)
  show ?thesis using s p unfolding schedule_retryAt [OF s [unfolded plan_retry_schedule_def]] by blast
qed

lemma final_plan_characterization:
  assumes "buildOutboxWorkerPlan digest input = Inr plan" "pi_phase input = Final_phase" "pi_transportResult input = Some r"
  shows "pl_planType plan = final_plan_type r (plan_retry_schedule input r) \<and> Om_processing \<in> set (pl_expectedStatuses plan) \<and>
    wse_messageTransportCalled (pl_sideEffects plan) \<and>
    (pl_planType plan = Schedule_retry \<longrightarrow>
       (\<exists>sch t. plan_retry_schedule input r = Inr sch \<and> rs_retryAt sch = Some t \<and> pt_availableAt (pl_patch plan) = Assigned t))"
  using assms(1)
  by (cases "tr_status r"; simp add: buildOutboxWorkerPlan_def assms(2,3) final_plan_type_def)
    (auto dest!: retryPlan_type simp: plan_defs split: if_splits)

text \<open>
  The final plan of a message that was sent: delivered when the provider accepted it, the dead
  letter when it failed for good or no retry is left, a retry otherwise; it starts from the
  processing status, records that the transport was called, and makes the row available at the
  time of the schedule.
\<close>

theorem final_plan_of_outcome:
  assumes "buildOutboxWorkerPlan digest input = Inr plan" "pi_phase input = Final_phase" "pi_transportResult input = Some r"
  shows "pl_planType plan = final_plan_type r (plan_retry_schedule input r) \<and> Om_processing \<in> set (pl_expectedStatuses plan) \<and>
    wse_messageTransportCalled (pl_sideEffects plan) \<and>
    (pl_planType plan = Schedule_retry \<longrightarrow>
       (\<exists>sch t. plan_retry_schedule input r = Inr sch \<and> rs_retryAt sch = Some t \<and> pt_availableAt (pl_patch plan) = Assigned t))"
  using assms by (rule final_plan_characterization)

definition sample_result :: "transport_status \<Rightarrow> transport_result" where
  "sample_result status = \<lparr>tr_status = status, tr_providerMessageId = Some ''wamid.1'', tr_providerRequestId = None,
     tr_errorCode = Te_none, tr_errorMessageSafe = None, tr_retryAfterSeconds = None,
     tr_acceptedAt = Some ''2026-01-05T12:00:01.000Z'', tr_completedAt = ''2026-01-05T12:00:01.000Z'',
     tr_metadata = \<lparr>tm_provider = ''fake'', tm_sandbox = True, tm_simulated = True\<rparr>\<rparr>"

definition sample_final :: "transport_status \<Rightarrow> plan_input" where
  "sample_final status = plan_input_of sample_worker_input (buildBaseEvaluation sample_worker_input)
     (Some (sample_result status)) Final_phase"

lemma sample_delivered:
  "buildOutboxWorkerPlan digest (sample_final Tr_accepted) =
     Inr (buildDeliveredPlan digest (sample_final Tr_accepted) (sample_result Tr_accepted) Transport_accepted)"
  "pi_phase (sample_final Tr_accepted) = Final_phase"
  "pi_transportResult (sample_final Tr_accepted) = Some (sample_result Tr_accepted)"
  by (simp_all add: buildOutboxWorkerPlan_def sample_final_def plan_input_of_def sample_result_def)

lemma final_plan_of_outcome_witness:
  "pl_planType (buildDeliveredPlan id (sample_final Tr_accepted) (sample_result Tr_accepted) Transport_accepted) = Mark_delivered"
  using final_plan_of_outcome [OF sample_delivered] by (simp add: final_plan_type_def sample_result_def)

lemma spread_get:
  "distinct (map fst overrides) \<Longrightarrow>
    map_of (spread entries overrides) k = (case map_of overrides k of Some v \<Rightarrow> Some v | None \<Rightarrow> map_of entries k)"
proof (induction overrides arbitrary: entries)
  case (Cons kv overrides)
  then show ?case
    by (cases kv) (auto simp: spread_def update_conv' split: option.split dest!: map_of_SomeD intro: rev_image_eqI)
qed (simp add: spread_def)

lemma audit_provider_id:
  "jget (au_metadata (buildAuditEvent digest now r t reason ev m tr)) ''providerMessageId'' =
     json_opt (Option.bind tr tr_providerMessageId)"
  by (simp add: buildAuditEvent_def spread_get)

text \<open>
  The audit event of a delivery never carries the identifier of the provider: it is written
  into the metadata and then overwritten by \<open>null\<close>, because the builder of the event is not given
  the result of the transport.
\<close>

theorem delivered_audit_loses_provider_id:
  assumes "buildOutboxWorkerPlan digest input = Inr plan" "pl_planType plan = Mark_delivered"
  shows "\<exists>ev. pl_auditEvent plan = Some ev \<and> au_eventType ev = Outbox_delivered \<and>
    jget (au_metadata ev) ''providerMessageId'' = JNull"
  using plan_cases [OF assms(1)] assms(2)
  by (elim disjE exE conjE) (simp_all add: plan_defs audit_provider_id, simp add: buildAuditEvent_def)

lemma delivered_audit_loses_provider_id_witness:
  "tr_providerMessageId (sample_result Tr_accepted) = Some ''wamid.1'' \<and>
   (\<exists>ev. pl_auditEvent (buildDeliveredPlan id (sample_final Tr_accepted) (sample_result Tr_accepted) Transport_accepted) = Some ev \<and>
      jget (au_metadata ev) ''providerMessageId'' = JNull)"
proof -
  have "pl_planType (buildDeliveredPlan id (sample_final Tr_accepted) (sample_result Tr_accepted) Transport_accepted) = Mark_delivered"
    by (simp add: plan_defs)
  then show ?thesis using delivered_audit_loses_provider_id [OF sample_delivered(1)] by (auto simp: sample_result_def)
qed

lemma plan_type_name_plain: "list_all (\<lambda>c. c \<noteq> CHR '':'') (plan_type_name t)"
  by (cases t) simp_all

lemma plan_type_name_inject [simp]: "plan_type_name t = plan_type_name t' \<longleftrightarrow> t = t'"
  by (cases t; cases t') simp_all

lemma json_ref_inject:
  "json_stringify (json_ref a) @ CHR '','' # x = json_stringify (json_ref b) @ CHR '','' # y \<longleftrightarrow> a = b \<and> x = y"
  by (cases a; cases b)
    (auto simp: json_ref_def int_field_inject quote_inject int_not_quoted int_not_quoted [symmetric])

lemma plan_payload_text:
  "json_stringify (plan_payload r t now) =
     CHR 0x7B # quote_string ''rowId'' @ '':'' @ json_stringify (json_ref (om_rowId r)) @ CHR '','' #
     quote_string ''commandId'' @ '':'' @ quote_string (om_commandId r) @ CHR '','' #
     quote_string ''attemptCount'' @ '':'' @ int_to_string (om_attemptCount r) @ CHR '','' #
     quote_string ''planType'' @ '':'' @ quote_string (plan_type_name t) @ CHR '','' #
     quote_string ''createdAt'' @ '':'' @ quote_string now @ [CHR 0x7D]"
proof -
  have "json_ref (om_rowId r) \<noteq> JUndef" by (simp add: json_ref_def split: ref_id.split)
  then show ?thesis by (simp add: plan_payload_def)
qed

text \<open>
  The text a plan id is the digest of determines the row, the command, the attempt, the type of
  the plan and its time: two different plans share an id only if the digest collides.
\<close>

theorem plan_payload_injective:
  "json_stringify (plan_payload r t now) = json_stringify (plan_payload r' t' now') \<longleftrightarrow>
     om_rowId r = om_rowId r' \<and> om_commandId r = om_commandId r' \<and> om_attemptCount r = om_attemptCount r' \<and>
     t = t' \<and> now = now'"
  unfolding plan_payload_text by (simp add: json_ref_inject quote_inject int_field_inject quote_inject [of _ "[]" _ "[]", simplified])

text \<open>
  Plans of different types for one command never share a key, whatever the digest: a row that
  was marked for processing is not mistaken for one that was delivered.
\<close>

theorem plan_keys_differ_by_type:
  assumes "om_commandId r = om_commandId r'" "t \<noteq> t'"
  shows "buildOutboxWorkerPlanKey digest r t now \<noteq> buildOutboxWorkerPlanKey digest r' t' now'"
  using assms delimited_inject [OF plan_type_name_plain plan_type_name_plain, of "CHR '':''" t _ t' _]
  by (simp add: buildOutboxWorkerPlanKey_def)

lemma plan_keys_differ_by_type_witness:
  "buildOutboxWorkerPlanKey (\<lambda>_. ''0'') sample_message Mark_processing ''n'' \<noteq>
   buildOutboxWorkerPlanKey (\<lambda>_. ''0'') sample_message Mark_delivered ''n''"
  by (rule plan_keys_differ_by_type) simp_all

end
