(* ===== verification/OutboxRuntime.thy ===== *)
theory OutboxRuntime
  imports OutboxPlan
begin

text \<open>
  The outbox worker, third part: the repository interface
  (\<open>lib/brain/messaging/outbox-worker/repositories.ts\<close>) and its in-memory implementation with
  failure flags and unit of work (\<open>inMemoryOutboxRuntime.ts\<close>).  \<open>String.prototype.localeCompare\<close>
  depends on the locale: it is the parameter \<open>collate\<close>, negative, zero or positive.
  \<open>structuredClone\<close> is the identity on the values of the model.
\<close>

section \<open>State\<close>

record outbox_runtime =
  rt_records :: "outbox_message list"
  rt_auditEvents :: "audit_event list"
  rt_appliedPlanKeys :: "string list"
  rt_nextRowId :: int

record runtime_flags =
  ff_findByIdempotencyKey :: bool
  ff_claimAvailable :: bool
  ff_applyWorkerPlan :: bool
  ff_planTypes :: "string list"
  ff_eventTypes :: "string list"

definition no_runtime_failures :: runtime_flags where
  "no_runtime_failures = \<lparr>ff_findByIdempotencyKey = False, ff_claimAvailable = False,
     ff_applyWorkerPlan = False, ff_planTypes = [], ff_eventTypes = []\<rparr>"

record outbox_repository =
  or_state :: outbox_runtime
  or_flags :: runtime_flags

record apply_result =
  ar_applied :: bool
  ar_duplicate :: bool
  ar_conflict :: bool
  ar_rowId :: "ref_id option"

record claim_input =
  ci_now :: string
  ci_workerId :: string
  ci_batchSize :: int
  ci_leaseExpiresAt :: string
  ci_recoverExpiredLeases :: bool

text \<open>The interface \<open>OutboxWorkerRepository\<close> over a state.\<close>

record 's outbox_worker_repository =
  owr_findByIdempotencyKey :: "string \<Rightarrow> ('s, outbox_message option) action"
  owr_claimAvailable :: "claim_input \<Rightarrow> ('s, outbox_message list) action"
  owr_applyWorkerPlan :: "mutation_plan \<Rightarrow> ('s, apply_result) action"

section \<open>Helpers\<close>

definition buildInitialState :: "outbox_message list \<Rightarrow> int option \<Rightarrow> outbox_runtime" where
  "buildInitialState initialRecords nextRowId =
     \<lparr>rt_records = initialRecords, rt_auditEvents = [], rt_appliedPlanKeys = [],
      rt_nextRowId = (case nextRowId of Some n \<Rightarrow> n | None \<Rightarrow> int (length initialRecords) + 1)\<rparr>"

definition normalizeRowId :: "ref_id option \<Rightarrow> ref_id option" where
  "normalizeRowId rowId = (case rowId of
      Some (Ref_num n) \<Rightarrow> Some (Ref_num n)
    | Some (Ref_text s) \<Rightarrow> if js_trim s \<noteq> [] then Some (Ref_text s) else None
    | None \<Rightarrow> None)"

definition sameRowId :: "ref_id option \<Rightarrow> ref_id option \<Rightarrow> bool" where
  "sameRowId a b \<longleftrightarrow> (case (a, b) of (Some x, Some y) \<Rightarrow> ref_string x = ref_string y | _ \<Rightarrow> False)"

abbreviation same_row :: "ref_id \<Rightarrow> outbox_message \<Rightarrow> bool" where
  "same_row rowId record \<equiv> sameRowId (Some (om_rowId record)) (Some rowId)"

definition hasOtherRecordWithSameIdempotencyKey :: "outbox_message list \<Rightarrow> outbox_message \<Rightarrow> bool" where
  "hasOtherRecordWithSameIdempotencyKey records candidate \<longleftrightarrow>
     list_ex (\<lambda>record. \<not> same_row (om_rowId candidate) record \<and> om_idempotencyKey record = om_idempotencyKey candidate) records"

definition listIncludes :: "string list \<Rightarrow> string \<Rightarrow> bool" where
  "listIncludes entries candidate \<longleftrightarrow> candidate \<in> set entries"

section \<open>The in-memory repository\<close>

definition new_outbox_worker_repository :: "outbox_message list \<Rightarrow> runtime_flags \<Rightarrow> int option \<Rightarrow> outbox_repository" where
  "new_outbox_worker_repository initialRecords flags nextRowId =
     \<lparr>or_state = buildInitialState initialRecords nextRowId, or_flags = flags\<rparr>"

definition outbox_repository_from_state :: "outbox_runtime \<Rightarrow> runtime_flags \<Rightarrow> outbox_repository" where
  "outbox_repository_from_state state flags =
    (let repo = new_outbox_worker_repository [] flags (Some (rt_nextRowId state)) in repo\<lparr>or_state := state\<rparr>)"

definition replace_outbox_state_with :: "outbox_repository \<Rightarrow> outbox_repository \<Rightarrow> outbox_repository" where
  "replace_outbox_state_with repo other = repo\<lparr>or_state := or_state other\<rparr>"

text \<open>The row of \<open>seed\<close> is the argument with its id replaced.\<close>

definition seed_message :: "outbox_message \<Rightarrow> outbox_repository \<Rightarrow> outbox_repository" where
  "seed_message record repo =
    (let state = or_state repo;
         (rowId, next) = (case normalizeRowId (Some (om_rowId record)) of
             Some r \<Rightarrow> (r, rt_nextRowId state)
           | None \<Rightarrow> (Ref_num (rt_nextRowId state), rt_nextRowId state + 1))
     in repo\<lparr>or_state := state\<lparr>rt_records := rt_records state @ [record\<lparr>om_rowId := rowId\<rparr>], rt_nextRowId := next\<rparr>\<rparr>)"

record runtime_flag_changes =
  fc_findByIdempotencyKey :: "bool option"
  fc_claimAvailable :: "bool option"
  fc_applyWorkerPlan :: "bool option"
  fc_planTypes :: "string list option"
  fc_eventTypes :: "string list option"

definition set_runtime_flags :: "runtime_flag_changes \<Rightarrow> outbox_repository \<Rightarrow> outbox_repository" where
  "set_runtime_flags changes repo =
    (let flags = or_flags repo in repo\<lparr>or_flags :=
      \<lparr>ff_findByIdempotencyKey = case_option (ff_findByIdempotencyKey flags) id (fc_findByIdempotencyKey changes),
       ff_claimAvailable = case_option (ff_claimAvailable flags) id (fc_claimAvailable changes),
       ff_applyWorkerPlan = case_option (ff_applyWorkerPlan flags) id (fc_applyWorkerPlan changes),
       ff_planTypes = case_option (ff_planTypes flags) id (fc_planTypes changes),
       ff_eventTypes = case_option (ff_eventTypes flags) id (fc_eventTypes changes)\<rparr>\<rparr>)"

definition findMessageByIdempotencyKey :: "string \<Rightarrow> (outbox_repository, outbox_message option) action" where
  "findMessageByIdempotencyKey key repo =
    (if ff_findByIdempotencyKey (or_flags repo)
     then (Inl (Error ''in-memory outbox idempotency lookup failed''),
           repo\<lparr>or_flags := (or_flags repo)\<lparr>ff_findByIdempotencyKey := False\<rparr>\<rparr>)
     else (Inr (find (\<lambda>record. om_idempotencyKey record = key) (rt_records (or_state repo))), repo))"

subsection \<open>Claiming\<close>

definition claim_order :: "(string \<Rightarrow> string \<Rightarrow> int) \<Rightarrow> outbox_message \<Rightarrow> outbox_message \<Rightarrow> int" where
  "claim_order collate a b =
    (let byAvailable = collate (om_availableAt a) (om_availableAt b);
         byCreated = collate (om_createdAt a) (om_createdAt b)
     in if byAvailable \<noteq> 0 then byAvailable
        else if byCreated \<noteq> 0 then byCreated
        else collate (ref_string (om_rowId a)) (ref_string (om_rowId b)))"

text \<open>\<open>Math.max(1, Math.ceil((lease - now) / 1000))\<close>\<close>

definition lease_seconds :: "string \<Rightarrow> string \<Rightarrow> int" where
  "lease_seconds leaseExpiresAt now =
     max 1 (- ((- (the (date_parse leaseExpiresAt) + the (date_parse now)) div 1000)))"

definition claim_config :: "claim_input \<Rightarrow> string \<Rightarrow> string \<Rightarrow> outbox_message \<Rightarrow> worker_config" where
  "claim_config input now leaseExpiresAt candidate =
     \<lparr>wc_workerEnabled = True, wc_transportEnabled = True, wc_workerId = ci_workerId input,
      wc_batchSize = ci_batchSize input, wc_leaseSeconds = lease_seconds leaseExpiresAt now,
      wc_defaultMaxAttempts = om_maxAttempts candidate, wc_baseRetrySeconds = 30, wc_maxRetrySeconds = 3600,
      wc_retryJitterEnabled = False, wc_recoverExpiredLeases = ci_recoverExpiredLeases input,
      wc_sandboxRequired = False\<rparr>"

definition claim_evaluation :: "claim_input \<Rightarrow> string \<Rightarrow> string \<Rightarrow> outbox_message \<Rightarrow> candidate_evaluation" where
  "claim_evaluation input now leaseExpiresAt candidate = evaluateOutboxCandidate
     \<lparr>wi_now = now, wi_record = candidate, wi_config = claim_config input now leaseExpiresAt candidate\<rparr>"

definition claimed_record :: "claim_input \<Rightarrow> string \<Rightarrow> string \<Rightarrow> outbox_message \<Rightarrow> outbox_message" where
  "claimed_record input now leaseExpiresAt record =
     record\<lparr>om_status := Om_claimed, om_claimedBy := Some (ci_workerId input), om_claimedAt := Some now,
       om_leaseExpiresAt := Some leaseExpiresAt, om_updatedAt := now\<rparr>"

text \<open>The loop over the sorted candidates: the rows of the state, the claimed rows, the keys seen.\<close>

fun claim_loop ::
  "claim_input \<Rightarrow> string \<Rightarrow> string \<Rightarrow> outbox_message list \<Rightarrow> outbox_message list \<Rightarrow> outbox_message list \<Rightarrow> string list \<Rightarrow>
   outbox_message list \<times> outbox_message list" where
  "claim_loop input now lease [] records claimed seen = (records, claimed)"
| "claim_loop input now lease (candidate # rows) records claimed seen =
    (if int (length claimed) \<ge> ci_batchSize input then (records, claimed)
     else if om_idempotencyKey candidate \<in> set seen then claim_loop input now lease rows records claimed seen
     else
       (let seen' = om_idempotencyKey candidate # seen
        in if hasOtherRecordWithSameIdempotencyKey records candidate \<or>
              ev_decision (claim_evaluation input now lease candidate) \<noteq> Process
           then claim_loop input now lease rows records claimed seen'
           else case find_index (same_row (om_rowId candidate)) records of
               None \<Rightarrow> claim_loop input now lease rows records claimed seen'
             | Some index \<Rightarrow>
                 (let claimedRecord = claimed_record input now lease (records ! index)
                  in claim_loop input now lease rows (records[index := claimedRecord]) (claimed @ [claimedRecord]) seen')))"

definition claimAvailable ::
  "(string \<Rightarrow> string \<Rightarrow> int) \<Rightarrow> claim_input \<Rightarrow> (outbox_repository, outbox_message list) action" where
  "claimAvailable collate input repo =
    (if ff_claimAvailable (or_flags repo)
     then (Inl (Error ''in-memory outbox claim failed''), repo\<lparr>or_flags := (or_flags repo)\<lparr>ff_claimAvailable := False\<rparr>\<rparr>)
     else case (normalizeIsoTimestamp (Some (ci_now input)), normalizeIsoTimestamp (Some (ci_leaseExpiresAt input))) of
       (Some now, Some leaseExpiresAt) \<Rightarrow>
         (let (records, claimed) = claim_loop input now leaseExpiresAt
                (js_sort (claim_order collate) (rt_records (or_state repo))) (rt_records (or_state repo)) [] []
          in (Inr claimed, repo\<lparr>or_state := (or_state repo)\<lparr>rt_records := records\<rparr>\<rparr>))
     | _ \<Rightarrow> (Inr [], repo))"

subsection \<open>Applying a plan\<close>

text \<open>\<open>plan.patch.f ?? current.f\<close>: an absent field and \<open>null\<close> both keep the current value.\<close>

definition keep_or :: "'a change \<Rightarrow> 'a option \<Rightarrow> 'a option" where
  "keep_or change current = (case change of Assigned v \<Rightarrow> Some v | _ \<Rightarrow> current)"

definition value_or :: "'a change \<Rightarrow> 'a \<Rightarrow> 'a" where
  "value_or change current = (case change of Assigned v \<Rightarrow> v | _ \<Rightarrow> current)"

definition patched :: "outbox_patch \<Rightarrow> outbox_message \<Rightarrow> outbox_message" where
  "patched patch current = current
     \<lparr>om_status := pt_nextStatus patch,
      om_attemptCount := value_or (pt_attemptCount patch) (om_attemptCount current),
      om_availableAt := value_or (pt_availableAt patch) (om_availableAt current),
      om_claimedBy := keep_or (pt_claimedBy patch) (om_claimedBy current),
      om_claimedAt := keep_or (pt_claimedAt patch) (om_claimedAt current),
      om_leaseExpiresAt := keep_or (pt_leaseExpiresAt patch) (om_leaseExpiresAt current),
      om_lastAttemptAt := keep_or (pt_lastAttemptAt patch) (om_lastAttemptAt current),
      om_deliveredAt := keep_or (pt_deliveredAt patch) (om_deliveredAt current),
      om_providerMessageId := keep_or (pt_providerMessageId patch) (om_providerMessageId current),
      om_lastErrorCode := keep_or (pt_lastErrorCode patch) (om_lastErrorCode current),
      om_lastErrorMessageSafe := keep_or (pt_lastErrorMessageSafe patch) (om_lastErrorMessageSafe current),
      om_updatedAt := pt_updatedAt patch\<rparr>"

definition refused :: "bool \<Rightarrow> bool \<Rightarrow> ref_id option \<Rightarrow> apply_result" where
  "refused duplicate conflict rowId =
     \<lparr>ar_applied = False, ar_duplicate = duplicate, ar_conflict = conflict, ar_rowId = rowId\<rparr>"

text \<open>The plan against a state, once no failure is injected.\<close>

definition apply_plan :: "mutation_plan \<Rightarrow> outbox_runtime \<Rightarrow> apply_result \<times> outbox_runtime" where
  "apply_plan plan state =
    (case find_index (same_row (pl_rowId plan)) (rt_records state) of
       None \<Rightarrow> (refused False False None, state)
     | Some index \<Rightarrow>
         (let current = rt_records state ! index
          in if pl_planKey plan \<in> set (rt_appliedPlanKeys state) then (refused True False (Some (om_rowId current)), state)
             else if hasOtherRecordWithSameIdempotencyKey (rt_records state) current
               then (refused True False (Some (om_rowId current)), state)
             else if om_status current \<notin> set (pl_expectedStatuses plan)
               then (refused False True (Some (om_rowId current)), state)
             else (\<lparr>ar_applied = True, ar_duplicate = False, ar_conflict = False, ar_rowId = Some (om_rowId current)\<rparr>,
               state\<lparr>rt_records := (rt_records state)[index := patched (pl_patch plan) current],
                 rt_appliedPlanKeys := rt_appliedPlanKeys state @ [pl_planKey plan],
                 rt_auditEvents := rt_auditEvents state @ (case pl_auditEvent plan of None \<Rightarrow> [] | Some ev \<Rightarrow> [ev])\<rparr>)))"

definition applyWorkerPlan :: "mutation_plan \<Rightarrow> (outbox_repository, apply_result) action" where
  "applyWorkerPlan plan repo =
    (if ff_applyWorkerPlan (or_flags repo)
     then (Inl (Error ''in-memory outbox plan application failed''),
           repo\<lparr>or_flags := (or_flags repo)\<lparr>ff_applyWorkerPlan := False\<rparr>\<rparr>)
     else if listIncludes (ff_planTypes (or_flags repo)) (plan_type_name (pl_planType plan))
     then (Inl (Error (''in-memory outbox plan application failed for '' @ plan_type_name (pl_planType plan))), repo)
     else if (case pl_auditEvent plan of None \<Rightarrow> False
         | Some ev \<Rightarrow> listIncludes (ff_eventTypes (or_flags repo)) (event_type_name (au_eventType ev)))
     then (Inl (Error (''in-memory outbox audit append failed for '' @ event_type_name (au_eventType (the (pl_auditEvent plan))))), repo)
     else case apply_plan plan (or_state repo) of (res, state) \<Rightarrow> (Inr res, repo\<lparr>or_state := state\<rparr>))"

definition in_memory_outbox :: "(string \<Rightarrow> string \<Rightarrow> int) \<Rightarrow> outbox_repository outbox_worker_repository" where
  "in_memory_outbox collate =
     \<lparr>owr_findByIdempotencyKey = findMessageByIdempotencyKey, owr_claimAvailable = claimAvailable collate,
      owr_applyWorkerPlan = applyWorkerPlan\<rparr>"

section \<open>The unit of work\<close>

record outbox_unit_of_work =
  ou_repository :: outbox_repository
  ou_failNextCommit :: bool

text \<open>
  \<open>run\<close>: the operation works on a staged copy of the repository; whatever else it touches (the
  state \<open>'t\<close> of the transport) is outside the unit of work and is not undone.
\<close>

definition run_outbox :: "(outbox_repository \<times> 't, 'a) action \<Rightarrow> (outbox_unit_of_work \<times> 't, 'a) action" where
  "run_outbox operation s =
    (case s of (uow, t) \<Rightarrow>
      (case operation (outbox_repository_from_state (or_state (ou_repository uow)) (or_flags (ou_repository uow)), t) of
         (Inl e, (_, t')) \<Rightarrow> (Inl e, (uow, t'))
       | (Inr a, (staged, t')) \<Rightarrow>
           if ou_failNextCommit uow
           then (Inl (Error ''in-memory outbox commit failed''), (uow\<lparr>ou_failNextCommit := False\<rparr>, t'))
           else (Inr a, (uow\<lparr>ou_repository := replace_outbox_state_with (ou_repository uow) staged\<rparr>, t'))))"

text \<open>An operation of the repository alone, in a state with a transport.\<close>

definition on_repository :: "('s, 'a) action \<Rightarrow> ('s \<times> 't, 'a) action" where
  "on_repository m s = (case s of (repo, t) \<Rightarrow> (case m repo of (r, repo') \<Rightarrow> (r, (repo', t))))"

section \<open>The claim against its specification\<close>

definition row_text :: "outbox_message \<Rightarrow> string" where
  "row_text record = ref_string (om_rowId record)"

lemma same_row_iff [simp]: "sameRowId (Some a) (Some b) \<longleftrightarrow> ref_string a = ref_string b"
  by (simp add: sameRowId_def)

text \<open>A row the loop may claim: no other row has its key, and the worker would process it.\<close>

definition claimable :: "claim_input \<Rightarrow> string \<Rightarrow> string \<Rightarrow> outbox_message list \<Rightarrow> outbox_message \<Rightarrow> bool" where
  "claimable input now lease records r \<longleftrightarrow> \<not> hasOtherRecordWithSameIdempotencyKey records r \<and>
     ev_decision (claim_evaluation input now lease r) = Process"

definition claim_selected :: "claim_input \<Rightarrow> string \<Rightarrow> string \<Rightarrow> outbox_message list \<Rightarrow> outbox_message \<Rightarrow> outbox_message" where
  "claim_selected input now lease selection r = (if r \<in> set selection then claimed_record input now lease r else r)"

lemma claimed_record_simps [simp]:
  "om_rowId (claimed_record input now lease r) = om_rowId r"
  "om_idempotencyKey (claimed_record input now lease r) = om_idempotencyKey r"
  "om_status (claimed_record input now lease r) = Om_claimed"
  "om_claimedBy (claimed_record input now lease r) = Some (ci_workerId input)"
  "om_leaseExpiresAt (claimed_record input now lease r) = Some lease"
  "om_attemptCount (claimed_record input now lease r) = om_attemptCount r"
  by (simp_all add: claimed_record_def)

lemma claim_selected_simps [simp]:
  "om_rowId (claim_selected input now lease sel r) = om_rowId r"
  "om_idempotencyKey (claim_selected input now lease sel r) = om_idempotencyKey r"
  "row_text (claim_selected input now lease sel r) = row_text r"
  by (simp_all add: claim_selected_def row_text_def)

lemma hasOther_claim_selected [simp]:
  "hasOtherRecordWithSameIdempotencyKey (map (claim_selected input now lease sel) records) r =
   hasOtherRecordWithSameIdempotencyKey records r"
  by (simp add: hasOtherRecordWithSameIdempotencyKey_def list_ex_iff)

lemma find_row:
  assumes "distinct (map row_text records)" "r \<in> set records" "\<And>x. row_text (f x) = row_text x"
  obtains i where "i < length records" "records ! i = r"
    "find_index (same_row (om_rowId r)) (map f records) = Some i"
proof -
  obtain i where i: "find_index (same_row (om_rowId r)) (map f records) = Some i"
    using assms(2,3) by (cases "find_index (same_row (om_rowId r)) (map f records)")
      (auto simp: find_index_None row_text_def)
  then have "i < length records" "row_text (records ! i) = row_text r"
    using find_index_Some [OF i] assms(3) by (auto simp: row_text_def)
  moreover obtain j where "j < length records" "records ! j = r" using assms(2) by (auto simp: in_set_conv_nth)
  ultimately show ?thesis using assms(1) i that by (simp add: distinct_conv_nth) metis
qed

lemma update_selected:
  assumes "distinct (map row_text records)" "i < length records" "records ! i = r" "r \<notin> set sel"
  shows "(map (claim_selected input now lease sel) records)[i := claimed_record input now lease r] =
    map (claim_selected input now lease (sel @ [r])) records"
proof (rule nth_equalityI)
  fix j assume "j < length ((map (claim_selected input now lease sel) records)[i := claimed_record input now lease r])"
  then have "j < length records" by simp
  moreover have "j \<noteq> i \<Longrightarrow> records ! j \<noteq> r"
    using assms(1-3) \<open>j < length records\<close> by (metis distinct_conv_nth length_map nth_map)
  ultimately show "(map (claim_selected input now lease sel) records)[i := claimed_record input now lease r] ! j =
    map (claim_selected input now lease (sel @ [r])) records ! j"
    using assms(2,3) by (cases "j = i") (auto simp: claim_selected_def nth_list_update)
qed simp

lemma seen_key_not_claimable:
  assumes "distinct (map row_text records)" "d \<in> set records" "c \<in> set records" "c \<noteq> d"
    "om_idempotencyKey d = om_idempotencyKey c"
  shows "\<not> claimable input now lease records c"
proof -
  have "row_text d \<noteq> row_text c" using assms(1-4) by (auto simp: distinct_map inj_on_def)
  then have "hasOtherRecordWithSameIdempotencyKey records c"
    using assms(2,5) by (auto simp: hasOtherRecordWithSameIdempotencyKey_def list_ex_iff row_text_def)
  then show ?thesis by (simp add: claimable_def)
qed

lemma claim_loop_spec:
  assumes "distinct (map row_text records)" "distinct rows" "set rows \<subseteq> set records"
    "set sel \<subseteq> set records" "set sel \<inter> set rows = {}"
    "\<forall>k \<in> set seen. \<exists>d \<in> set records. d \<notin> set rows \<and> om_idempotencyKey d = k"
  shows "claim_loop input now lease rows (map (claim_selected input now lease sel) records)
      (map (claimed_record input now lease) sel) seen =
    (let all = sel @ take (nat (ci_batchSize input - int (length sel))) (filter (claimable input now lease records) rows)
     in (map (claim_selected input now lease all) records, map (claimed_record input now lease) all))"
  using assms(2-6)
proof (induction rows arbitrary: sel seen)
  case Nil
  then show ?case by simp
next
  case (Cons c rows)
  note dist = assms(1)
  show ?case
  proof (cases "ci_batchSize input \<le> int (length sel)")
    case True
    then show ?thesis by simp
  next
    case more_room: False
    have seen': "\<forall>k \<in> set (om_idempotencyKey c # seen). \<exists>d \<in> set records. d \<notin> set rows \<and> om_idempotencyKey d = k"
      using Cons.prems(1,2,5) by auto
    then have seen: "\<forall>k \<in> set seen. \<exists>d \<in> set records. d \<notin> set rows \<and> om_idempotencyKey d = k" by simp
    show ?thesis
    proof (cases "claimable input now lease records c")
      case False
      have "claim_loop input now lease (c # rows) (map (claim_selected input now lease sel) records)
          (map (claimed_record input now lease) sel) seen =
        claim_loop input now lease rows (map (claim_selected input now lease sel) records)
          (map (claimed_record input now lease) sel)
          (if om_idempotencyKey c \<in> set seen then seen else om_idempotencyKey c # seen)"
        using more_room False by (simp add: Let_def claimable_def)
      then show ?thesis
        using Cons.IH [of sel "if om_idempotencyKey c \<in> set seen then seen else om_idempotencyKey c # seen"]
          Cons.prems(1-4) seen seen' False by simp
    next
      case True
      have "c \<in> set records" using Cons.prems(2) by simp
      have unseen: "om_idempotencyKey c \<notin> set seen"
      proof
        assume "om_idempotencyKey c \<in> set seen"
        then obtain d where "d \<in> set records" "d \<noteq> c" "om_idempotencyKey d = om_idempotencyKey c"
          using Cons.prems(5) by auto
        then show False using seen_key_not_claimable [OF dist] \<open>c \<in> set records\<close> True by metis
      qed
      have c: "c \<notin> set sel" "c \<notin> set rows" using Cons.prems(1,4) by auto
      obtain i where i: "i < length records" "records ! i = c"
        "find_index (same_row (om_rowId c)) (map (claim_selected input now lease sel) records) = Some i"
        using find_row [OF dist \<open>c \<in> set records\<close>, of "claim_selected input now lease sel"] by auto
      have step: "claim_loop input now lease (c # rows) (map (claim_selected input now lease sel) records)
          (map (claimed_record input now lease) sel) seen =
        claim_loop input now lease rows (map (claim_selected input now lease (sel @ [c])) records)
          (map (claimed_record input now lease) (sel @ [c])) (om_idempotencyKey c # seen)"
        using more_room True unseen i c update_selected [OF dist i(1,2) c(1), of input now lease]
        by (simp add: Let_def claimable_def claim_selected_def)
      have n: "nat (ci_batchSize input - int (length sel)) = Suc (nat (ci_batchSize input - int (length (sel @ [c]))))"
        using more_room by simp
      show ?thesis unfolding step
        using Cons.IH [of "sel @ [c]" "om_idempotencyKey c # seen"] Cons.prems(1-4) seen' c True \<open>c \<in> set records\<close>
        by (simp add: n)
    qed
  qed
qed

text \<open>The rows a claim takes: the first ones of the claimable rows, in the order of the sort.\<close>

definition claim_choice ::
  "(string \<Rightarrow> string \<Rightarrow> int) \<Rightarrow> claim_input \<Rightarrow> string \<Rightarrow> string \<Rightarrow> outbox_message list \<Rightarrow> outbox_message list" where
  "claim_choice collate input now lease records =
     take (nat (ci_batchSize input)) (filter (claimable input now lease records) (js_sort (claim_order collate) records))"

lemma claim_selected_Nil: "map (claim_selected input now lease []) records = records"
  by (induction records) (simp_all add: claim_selected_def)

lemma claim_characterization:
  assumes "distinct (map row_text (rt_records (or_state repo)))" "\<not> ff_claimAvailable (or_flags repo)"
    "normalizeIsoTimestamp (Some (ci_now input)) = Some now"
    "normalizeIsoTimestamp (Some (ci_leaseExpiresAt input)) = Some lease"
  shows "claimAvailable collate input repo =
    (let records = rt_records (or_state repo); chosen = claim_choice collate input now lease records
     in (Inr (map (claimed_record input now lease) chosen),
         repo\<lparr>or_state := (or_state repo)\<lparr>rt_records := map (claim_selected input now lease chosen) records\<rparr>\<rparr>))"
proof -
  let ?R = "rt_records (or_state repo)"
  have d: "distinct ?R" using assms(1) by (simp add: distinct_map)
  have "claim_loop input now lease (js_sort (claim_order collate) ?R) (map (claim_selected input now lease []) ?R)
      (map (claimed_record input now lease) []) [] =
    (map (claim_selected input now lease (claim_choice collate input now lease ?R)) ?R,
     map (claimed_record input now lease) (claim_choice collate input now lease ?R))"
    using claim_loop_spec [OF assms(1), of "js_sort (claim_order collate) ?R" "[]" "[]" input now lease] d
    by (simp add: claim_choice_def Let_def)
  then show ?thesis using assms(2-4) by (simp add: claimAvailable_def claim_selected_Nil Let_def)
qed

lemma claim_choice_subset: "set (claim_choice collate input now lease records) \<subseteq> set records"
  by (auto simp: claim_choice_def dest: in_set_takeD)

lemma claim_choice_claimable:
  "r \<in> set (claim_choice collate input now lease records) \<Longrightarrow> claimable input now lease records r"
  by (auto simp: claim_choice_def dest: in_set_takeD)

lemma claim_choice_distinct: "distinct records \<Longrightarrow> distinct (claim_choice collate input now lease records)"
  by (simp add: claim_choice_def)

text \<open>
  C18. The claim is its specification: with distinct row ids the loop claims exactly the first
  \<open>batchSize\<close> rows, in the order of the sort, whose key no other row has and which the worker would
  process, and changes no other row.
\<close>

theorem claim_refines:
  assumes "distinct (map row_text (rt_records (or_state repo)))" "\<not> ff_claimAvailable (or_flags repo)"
    "normalizeIsoTimestamp (Some (ci_now input)) = Some now"
    "normalizeIsoTimestamp (Some (ci_leaseExpiresAt input)) = Some lease"
  shows "claimAvailable collate input repo =
    (let records = rt_records (or_state repo); chosen = claim_choice collate input now lease records
     in (Inr (map (claimed_record input now lease) chosen),
         repo\<lparr>or_state := (or_state repo)\<lparr>rt_records := map (claim_selected input now lease chosen) records\<rparr>\<rparr>))"
  using assms by (rule claim_characterization)

definition text_order :: "string \<Rightarrow> string \<Rightarrow> int" where
  "text_order a b = (if a < b then - 1 else if b < a then 1 else 0)"

definition sample_runtime :: "outbox_message list \<Rightarrow> outbox_repository" where
  "sample_runtime records = new_outbox_worker_repository records no_runtime_failures None"

definition sample_claim :: "string \<Rightarrow> string \<Rightarrow> string \<Rightarrow> claim_input" where
  "sample_claim worker now lease = \<lparr>ci_now = now, ci_workerId = worker, ci_batchSize = 10, ci_leaseExpiresAt = lease,
     ci_recoverExpiredLeases = True\<rparr>"

definition sample_pending :: outbox_message where
  "sample_pending = sample_message\<lparr>om_status := Om_pending, om_claimedBy := None, om_claimedAt := None, om_leaseExpiresAt := None\<rparr>"

lemma sample_instants [simp]:
  "normalizeIsoTimestamp (Some ''2026-01-05T12:00:00.000Z'') = Some ''2026-01-05T12:00:00.000Z''"
  "normalizeIsoTimestamp (Some ''2026-01-05T12:05:00.000Z'') = Some ''2026-01-05T12:05:00.000Z''"
  by code_simp+

lemma sample_pending_claimable:
  "claimable (sample_claim ''w'' ''2026-01-05T12:00:00.000Z'' ''2026-01-05T12:05:00.000Z'') ''2026-01-05T12:00:00.000Z''
     ''2026-01-05T12:05:00.000Z'' [sample_pending] sample_pending"
proof -
  have "asText (Some ''whatsapp_text'') \<noteq> None" by code_simp
  have t: "asText (Some ''outbox-command:k'') \<noteq> None" "asText (Some ''k'') \<noteq> None" "asText (Some ''a'') \<noteq> None"
    "asText (Some ''56911112222'') \<noteq> None" "asText (Some ''Hola'') \<noteq> None" by code_simp+
  have o: "hasOtherRecordWithSameIdempotencyKey [sample_pending] sample_pending = False"
    by (simp add: hasOtherRecordWithSameIdempotencyKey_def)
  have n: "normalizeIsoTimestamp None = None" by (simp add: normalizeIsoTimestamp_def)
  show ?thesis unfolding claimable_def claim_evaluation_def candidate_process_characterization o
    using t by (simp add: claim_config_def well_addressed_def due_def free_for_def sample_pending_def sample_message_def n)
qed

lemma claim_refines_witness:
  "claimAvailable text_order (sample_claim ''w'' ''2026-01-05T12:00:00.000Z'' ''2026-01-05T12:05:00.000Z'')
     (sample_runtime [sample_pending]) =
    (let c = claimed_record (sample_claim ''w'' ''2026-01-05T12:00:00.000Z'' ''2026-01-05T12:05:00.000Z'')
       ''2026-01-05T12:00:00.000Z'' ''2026-01-05T12:05:00.000Z'' sample_pending
     in (Inr [c], sample_runtime [c]))"
proof -
  let ?i = "sample_claim ''w'' ''2026-01-05T12:00:00.000Z'' ''2026-01-05T12:05:00.000Z''"
  have "claim_choice text_order ?i ''2026-01-05T12:00:00.000Z'' ''2026-01-05T12:05:00.000Z'' [sample_pending] = [sample_pending]"
    using sample_pending_claimable by (simp add: claim_choice_def js_sort_def) (simp add: sample_claim_def)
  then show ?thesis
    using claim_refines [of "sample_runtime [sample_pending]" ?i "''2026-01-05T12:00:00.000Z''" "''2026-01-05T12:05:00.000Z''" text_order]
    by (simp add: sample_runtime_def new_outbox_worker_repository_def buildInitialState_def no_runtime_failures_def
      claim_selected_def Let_def) (simp add: sample_claim_def)
qed

lemma claim_rows:
  assumes "distinct (map row_text (rt_records (or_state repo)))" "claimAvailable collate input repo = (Inr claimed, repo')"
  obtains "claimed = []" "repo' = repo"
  | now lease where "normalizeIsoTimestamp (Some (ci_now input)) = Some now"
      "normalizeIsoTimestamp (Some (ci_leaseExpiresAt input)) = Some lease"
      "claimed = map (claimed_record input now lease) (claim_choice collate input now lease (rt_records (or_state repo)))"
      "repo' = repo\<lparr>or_state := (or_state repo)\<lparr>rt_records := map (claim_selected input now lease
          (claim_choice collate input now lease (rt_records (or_state repo)))) (rt_records (or_state repo))\<rparr>\<rparr>"
proof -
  have f: "\<not> ff_claimAvailable (or_flags repo)" using assms(2) by (auto simp: claimAvailable_def)
  show ?thesis
  proof (cases "normalizeIsoTimestamp (Some (ci_now input))")
    case None
    then show ?thesis using assms(2) f that(1) by (simp add: claimAvailable_def)
  next
    case now: (Some now)
    show ?thesis
    proof (cases "normalizeIsoTimestamp (Some (ci_leaseExpiresAt input))")
      case None
      then show ?thesis using assms(2) f now that(1) by (simp add: claimAvailable_def)
    next
      case (Some lease)
      then show ?thesis using claim_characterization [OF assms(1) f now Some, of collate] assms(2) that(2) [OF now Some]
        by (simp add: Let_def)
    qed
  qed
qed

lemma claim_keys_distinct:
  assumes "distinct (map row_text records)"
  shows "distinct (map om_idempotencyKey (claim_choice collate input now lease records))"
proof -
  have "om_idempotencyKey a \<noteq> om_idempotencyKey b"
    if "a \<in> set (claim_choice collate input now lease records)" "b \<in> set (claim_choice collate input now lease records)" "a \<noteq> b" for a b
    using that seen_key_not_claimable [OF assms] claim_choice_subset claim_choice_claimable by (metis subset_iff)
  then have "inj_on om_idempotencyKey (set (claim_choice collate input now lease records))" by (metis inj_onI)
  moreover have "distinct records" using assms by (simp add: distinct_map)
  ultimately show ?thesis by (simp add: distinct_map claim_choice_distinct)
qed

text \<open>
  A claim is bounded and clean: at most \<open>batchSize\<close> rows, no two with one idempotency key, each
  in the state afterwards, claimed by this worker; the ids and keys of the rows, the audit trail
  and the applied plans stay as they were.
\<close>

theorem claim_bounded:
  assumes "distinct (map row_text (rt_records (or_state repo)))" "claimAvailable collate input repo = (Inr claimed, repo')"
  shows "length claimed \<le> nat (ci_batchSize input) \<and> distinct (map om_idempotencyKey claimed) \<and>
    set claimed \<subseteq> set (rt_records (or_state repo')) \<and>
    list_all (\<lambda>r. om_status r = Om_claimed \<and> om_claimedBy r = Some (ci_workerId input)) claimed \<and>
    map row_text (rt_records (or_state repo')) = map row_text (rt_records (or_state repo)) \<and>
    map om_idempotencyKey (rt_records (or_state repo')) = map om_idempotencyKey (rt_records (or_state repo)) \<and>
    rt_auditEvents (or_state repo') = rt_auditEvents (or_state repo) \<and>
    rt_appliedPlanKeys (or_state repo') = rt_appliedPlanKeys (or_state repo)"
  using assms
proof (rule claim_rows)
  fix now lease
  assume c: "claimed = map (claimed_record input now lease) (claim_choice collate input now lease (rt_records (or_state repo)))"
    "repo' = repo\<lparr>or_state := (or_state repo)\<lparr>rt_records := map (claim_selected input now lease
        (claim_choice collate input now lease (rt_records (or_state repo)))) (rt_records (or_state repo))\<rparr>\<rparr>"
  have "map om_idempotencyKey claimed = map om_idempotencyKey (claim_choice collate input now lease (rt_records (or_state repo)))"
    by (simp add: c)
  then have "distinct (map om_idempotencyKey claimed)" using claim_keys_distinct [OF assms(1)] by simp
  moreover have "length claimed \<le> nat (ci_batchSize input)" by (simp add: c claim_choice_def)
  moreover have "set claimed \<subseteq> set (rt_records (or_state repo'))"
    using claim_choice_subset [of collate input now lease "rt_records (or_state repo)"] by (auto simp: c claim_selected_def)
  ultimately show ?thesis by (simp add: c list_all_iff comp_def)
qed simp

lemma claim_bounded_witness:
  "\<exists>claimed repo'. claimAvailable text_order (sample_claim ''w'' ''2026-01-05T12:00:00.000Z'' ''2026-01-05T12:05:00.000Z'')
     (sample_runtime [sample_pending]) = (Inr claimed, repo') \<and> length claimed \<le> 10"
proof -
  let ?i = "sample_claim ''w'' ''2026-01-05T12:00:00.000Z'' ''2026-01-05T12:05:00.000Z''"
  have d: "distinct (map row_text (rt_records (or_state (sample_runtime [sample_pending]))))"
    by (simp add: sample_runtime_def new_outbox_worker_repository_def buildInitialState_def)
  have "\<not> ff_claimAvailable (or_flags (sample_runtime [sample_pending]))"
    by (simp add: sample_runtime_def new_outbox_worker_repository_def no_runtime_failures_def)
  then obtain claimed repo' where e: "claimAvailable text_order ?i (sample_runtime [sample_pending]) = (Inr claimed, repo')"
    using claim_characterization [OF d, of ?i "''2026-01-05T12:00:00.000Z''" "''2026-01-05T12:05:00.000Z''" text_order]
    by (simp add: Let_def) (simp add: sample_claim_def)
  then show ?thesis using claim_bounded [OF d e] by (auto simp: sample_claim_def)
qed

section \<open>Who may claim a row\<close>

lemma claimable_free:
  assumes "claimable input now lease records r"
  shows "\<exists>n. normalizeIsoTimestamp (Some now) = Some n \<and> due now n r \<and>
    (om_status r \<in> {Om_pending, Om_retry_scheduled} \<or>
     (om_status r \<in> {Om_claimed, Om_processing} \<and>
      (om_claimedBy r \<in> {None, Some (ci_workerId input)} \<or>
       (ci_recoverExpiredLeases input \<and>
        (case normalizeIsoTimestamp (om_leaseExpiresAt r) of None \<Rightarrow> False | Some t \<Rightarrow> t \<le> n)))))"
  using assms unfolding claimable_def claim_evaluation_def candidate_process_characterization
  by (auto simp: claim_config_def free_for_def)

section \<open>Applying plans\<close>

lemma apply_plan_cases:
  assumes "apply_plan plan state = (res, state')"
  obtains "\<not> ar_applied res" "state' = state"
  | index where "ar_applied res" "\<not> ar_duplicate res" "\<not> ar_conflict res" "index < length (rt_records state)"
      "find_index (same_row (pl_rowId plan)) (rt_records state) = Some index"
      "ref_string (om_rowId (rt_records state ! index)) = ref_string (pl_rowId plan)"
      "pl_planKey plan \<notin> set (rt_appliedPlanKeys state)"
      "om_status (rt_records state ! index) \<in> set (pl_expectedStatuses plan)"
      "state' = state\<lparr>rt_records := (rt_records state)[index := patched (pl_patch plan) (rt_records state ! index)],
         rt_appliedPlanKeys := rt_appliedPlanKeys state @ [pl_planKey plan],
         rt_auditEvents := rt_auditEvents state @ (case pl_auditEvent plan of None \<Rightarrow> [] | Some ev \<Rightarrow> [ev])\<rparr>"
proof (cases "find_index (same_row (pl_rowId plan)) (rt_records state)")
  case None
  then have "\<not> ar_applied res" "state' = state" using assms by (auto simp: apply_plan_def refused_def)
  then show ?thesis by (rule that(1))
next
  case (Some index)
  note i = find_index_Some [OF Some]
  show ?thesis
  proof (cases "pl_planKey plan \<in> set (rt_appliedPlanKeys state) \<or>
      hasOtherRecordWithSameIdempotencyKey (rt_records state) (rt_records state ! index) \<or>
      om_status (rt_records state ! index) \<notin> set (pl_expectedStatuses plan)")
    case True
    then have "\<not> ar_applied res" "state' = state"
      using assms unfolding apply_plan_def Some option.case Let_def by (auto simp: refused_def split: if_splits)
    then show ?thesis by (rule that(1))
  next
    case False
    then have "apply_plan plan state =
       (\<lparr>ar_applied = True, ar_duplicate = False, ar_conflict = False, ar_rowId = Some (om_rowId (rt_records state ! index))\<rparr>,
        state\<lparr>rt_records := (rt_records state)[index := patched (pl_patch plan) (rt_records state ! index)],
         rt_appliedPlanKeys := rt_appliedPlanKeys state @ [pl_planKey plan],
         rt_auditEvents := rt_auditEvents state @ (case pl_auditEvent plan of None \<Rightarrow> [] | Some ev \<Rightarrow> [ev])\<rparr>)"
      unfolding apply_plan_def Some option.case Let_def by simp
    then show ?thesis using assms i False by (intro that(2) [OF _ _ _ _ Some]) auto
  qed
qed

lemma patched_simps [simp]:
  "om_rowId (patched p r) = om_rowId r" "om_idempotencyKey (patched p r) = om_idempotencyKey r"
  "om_commandId (patched p r) = om_commandId r" "om_status (patched p r) = pt_nextStatus p"
  "om_recipient (patched p r) = om_recipient r" "om_messageText (patched p r) = om_messageText r"
  "om_maxAttempts (patched p r) = om_maxAttempts r" "row_text (patched p r) = row_text r"
  by (simp_all add: patched_def row_text_def)

lemma map_update_same: "i < length xs \<Longrightarrow> f x = f (xs ! i) \<Longrightarrow> map f (xs[i := x]) = map f xs"
  by (simp add: map_update list_update_same_conv)

text \<open>What every applied plan respects.\<close>

definition runtime_ok :: "outbox_runtime \<Rightarrow> bool" where
  "runtime_ok state \<longleftrightarrow> distinct (map row_text (rt_records state)) \<and> distinct (rt_appliedPlanKeys state)"

lemma apply_plan_ok:
  assumes "apply_plan plan state = (res, state')" "runtime_ok state"
  shows "runtime_ok state' \<and> map row_text (rt_records state') = map row_text (rt_records state) \<and>
    map om_idempotencyKey (rt_records state') = map om_idempotencyKey (rt_records state) \<and>
    (if ar_applied res then rt_appliedPlanKeys state' = rt_appliedPlanKeys state @ [pl_planKey plan] else state' = state)"
  using assms(1)
proof (rule apply_plan_cases)
  fix index
  assume a: "ar_applied res" "index < length (rt_records state)" "pl_planKey plan \<notin> set (rt_appliedPlanKeys state)"
    "state' = state\<lparr>rt_records := (rt_records state)[index := patched (pl_patch plan) (rt_records state ! index)],
         rt_appliedPlanKeys := rt_appliedPlanKeys state @ [pl_planKey plan],
         rt_auditEvents := rt_auditEvents state @ (case pl_auditEvent plan of None \<Rightarrow> [] | Some ev \<Rightarrow> [ev])\<rparr>"
  then show ?thesis using assms(2) by (simp add: runtime_ok_def map_update_same)
qed (use assms(2) in simp)

text \<open>
  C37. The state of the repository keeps its invariant under every plan: row ids and plan keys stay
  distinct, no row changes its id or its key, a plan that is not applied changes nothing, and one
  that is applied is remembered, so that it is refused the second time.
\<close>

theorem apply_plan_invariant:
  assumes "apply_plan plan state = (res, state')" "runtime_ok state"
  shows "runtime_ok state' \<and> map row_text (rt_records state') = map row_text (rt_records state) \<and>
    map om_idempotencyKey (rt_records state') = map om_idempotencyKey (rt_records state) \<and>
    (if ar_applied res then rt_appliedPlanKeys state' = rt_appliedPlanKeys state @ [pl_planKey plan] else state' = state) \<and>
    (if ar_applied res then \<not> ar_applied (fst (apply_plan plan state')) \<and> snd (apply_plan plan state') = state' else True)"
proof -
  have "\<not> ar_applied (fst (apply_plan plan state')) \<and> snd (apply_plan plan state') = state'"
    if "ar_applied res"
  proof (cases "apply_plan plan state'")
    case (Pair res' state'')
    have "pl_planKey plan \<in> set (rt_appliedPlanKeys state')" using apply_plan_ok [OF assms] that by simp
    then show ?thesis using Pair by (auto elim!: apply_plan_cases)
  qed
  then show ?thesis using apply_plan_ok [OF assms] by simp
qed

lemma apply_plan_invariant_witness:
  "runtime_ok (snd (apply_plan (buildNoChangePlan id sample_plan_input) (or_state (sample_runtime [sample_message])))) \<and>
   ar_applied (fst (apply_plan (buildNoChangePlan id sample_plan_input) (or_state (sample_runtime [sample_message]))))"
proof -
  have ok: "runtime_ok (or_state (sample_runtime [sample_message]))"
    by (simp add: runtime_ok_def sample_runtime_def new_outbox_worker_repository_def buildInitialState_def)
  have "ar_applied (fst (apply_plan (buildNoChangePlan id sample_plan_input) (or_state (sample_runtime [sample_message]))))"
    by (simp add: apply_plan_def sample_runtime_def new_outbox_worker_repository_def buildInitialState_def plan_defs
      sample_plan_input_def plan_input_of_def sample_worker_input_def hasOtherRecordWithSameIdempotencyKey_def)
  then show ?thesis using apply_plan_invariant [OF _ ok] by (metis prod.collapse)
qed

lemma status_after_closed:
  assumes "s \<in> plan_sources t s0" "s \<notin> set live_statuses" "t = Mark_processing \<Longrightarrow> s0 \<in> set live_statuses"
  shows "status_after t s0 = s"
  using assms by (cases t) (simp_all add: plan_sources_def status_after_def, auto simp: live_statuses_def)

lemma apply_plan_status:
  assumes "buildOutboxWorkerPlan digest input = Inr plan"
    "pi_phase input \<noteq> Processing_phase \<or> om_status (pi_record input) \<in> set live_statuses"
    "apply_plan plan state = (res, state')" "i < length (rt_records state)"
    "om_status (rt_records state ! i) \<notin> set live_statuses"
  shows "om_status (rt_records state' ! i) = om_status (rt_records state ! i)"
  using assms(3)
proof (rule apply_plan_cases)
  fix index
  assume a: "index < length (rt_records state)" "om_status (rt_records state ! index) \<in> set (pl_expectedStatuses plan)"
    and s': "state' = state\<lparr>rt_records := (rt_records state)[index := patched (pl_patch plan) (rt_records state ! index)],
         rt_appliedPlanKeys := rt_appliedPlanKeys state @ [pl_planKey plan],
         rt_auditEvents := rt_auditEvents state @ (case pl_auditEvent plan of None \<Rightarrow> [] | Some ev \<Rightarrow> [ev])\<rparr>"
  show ?thesis
  proof (cases "i = index")
    case True
    have "pl_planType plan = Mark_processing \<Longrightarrow> pi_phase input = Processing_phase"
      using plan_cases [OF assms(1)] by (elim disjE exE conjE) (simp_all add: plan_defs)
    then have "status_after (pl_planType plan) (om_status (pi_record input)) = om_status (rt_records state ! i)"
      using a(2) assms(2,5) plan_fields [OF assms(1)] True by (intro status_after_closed) auto
    then show ?thesis using a(1) True plan_fields [OF assms(1)] by (simp add: s')
  next
    case False
    then show ?thesis by (simp add: s')
  qed
qed simp

text \<open>
  A row that is delivered, dead, cancelled or failed keeps its status under every plan the
  worker builds, except a processing plan built for such a row.
\<close>

theorem closed_rows_stay_closed:
  assumes "buildOutboxWorkerPlan digest input = Inr plan"
    "pi_phase input \<noteq> Processing_phase \<or> om_status (pi_record input) \<in> set live_statuses"
    "apply_plan plan state = (res, state')" "i < length (rt_records state)"
    "om_status (rt_records state ! i) \<notin> set live_statuses"
  shows "om_status (rt_records state' ! i) = om_status (rt_records state ! i)"
  using assms by (rule apply_plan_status)

lemma closed_rows_stay_closed_witness:
  "let state = or_state (sample_runtime [sample_message\<lparr>om_status := Om_delivered\<rparr>])
   in om_status (rt_records (snd (apply_plan (buildProcessingPlan id sample_plan_input) state)) ! 0) = Om_delivered"
proof -
  let ?s = "or_state (sample_runtime [sample_message\<lparr>om_status := Om_delivered\<rparr>])"
  have 1: "buildOutboxWorkerPlan id sample_plan_input = Inr (buildProcessingPlan id sample_plan_input)"
    by (simp add: buildOutboxWorkerPlan_def sample_plan_input_def plan_input_of_def)
  have 2: "om_status (pi_record sample_plan_input) \<in> set live_statuses"
    by (simp add: sample_plan_input_def plan_input_of_def sample_worker_input_def sample_message_def live_statuses_def)
  have 3: "rt_records ?s = [sample_message\<lparr>om_status := Om_delivered\<rparr>]"
    by (simp add: sample_runtime_def new_outbox_worker_repository_def buildInitialState_def)
  obtain res s' where 4: "apply_plan (buildProcessingPlan id sample_plan_input) ?s = (res, s')" by fastforce
  show ?thesis using closed_rows_stay_closed [OF 1 _ 4, of 0] 2 by (simp add: 3 4 live_statuses_def)
qed

text \<open>
  A release does not release: the patch sets the claim and the lease to \<open>null\<close>, the repository
  reads \<open>null\<close> as "keep the current value", and the row is pending with the old owner and lease.
\<close>

theorem release_keeps_claim:
  "om_status (patched (pl_patch (buildReleasedClaimPlan digest input reason)) r) = Om_pending \<and>
   om_claimedBy (patched (pl_patch (buildReleasedClaimPlan digest input reason)) r) = om_claimedBy r \<and>
   om_claimedAt (patched (pl_patch (buildReleasedClaimPlan digest input reason)) r) = om_claimedAt r \<and>
   om_leaseExpiresAt (patched (pl_patch (buildReleasedClaimPlan digest input reason)) r) = om_leaseExpiresAt r"
  by (simp add: plan_defs) (simp add: patched_def keep_or_def)

text \<open>
  For the same reason a delivered row keeps the error of its last failed attempt: the plan sets
  both error fields to \<open>null\<close>, the repository leaves them as they are.
\<close>

theorem delivery_keeps_last_error:
  "om_status (patched (pl_patch (buildDeliveredPlan digest input result reason)) r) = Om_delivered \<and>
   om_lastErrorCode (patched (pl_patch (buildDeliveredPlan digest input result reason)) r) = om_lastErrorCode r \<and>
   om_lastErrorMessageSafe (patched (pl_patch (buildDeliveredPlan digest input result reason)) r) = om_lastErrorMessageSafe r"
  by (simp add: plan_defs) (simp add: patched_def keep_or_def)

end
