(* ===== verification/OutboxLeases.thy ===== *)
theory OutboxLeases
  imports OutboxRuntime
begin

text \<open>
  The leases of the outbox rows over whole histories of the repository of \<open>inMemoryOutboxRuntime.ts\<close>: the
  claims of any workers and the plans they build and apply, in any order.
\<close>

section \<open>Histories\<close>

datatype outbox_event =
    Claim_event claim_input "outbox_message list result"
  | Plan_event mutation_plan "apply_result result"

text \<open>
  A history from one state of the repository to another: a claim with any input, with its outcome (the rows or
  an injected failure), or a plan that \<open>buildOutboxWorkerPlan\<close> made of any row, with its outcome.
\<close>

inductive outbox_history :: "outbox_repository \<Rightarrow> outbox_event list \<Rightarrow> outbox_repository \<Rightarrow> bool" where
  history_start: "outbox_history repo [] repo"
| history_claim: "outbox_history repo events repo' \<Longrightarrow> claimAvailable collate input repo' = (res, repo'') \<Longrightarrow>
    outbox_history repo (events @ [Claim_event input res]) repo''"
| history_plan: "outbox_history repo events repo' \<Longrightarrow> buildOutboxWorkerPlan digest input = Inr plan \<Longrightarrow>
    applyWorkerPlan plan repo' = (res, repo'') \<Longrightarrow> outbox_history repo (events @ [Plan_event plan res]) repo''"

text \<open>
  What may happen to a row while \<open>worker\<close> holds it until \<open>lease\<close>: the others claim before that instant, the
  worker itself claims with a lease that is no shorter, and no plan that gives the row back (a retry or a
  release) is applied to it.  A row whose retry is scheduled keeps the name of the worker and the lease, but
  \<open>evaluateOutboxCandidate\<close> looks at neither in that status.
\<close>

definition within_lease :: "string \<Rightarrow> string \<Rightarrow> string \<Rightarrow> outbox_event \<Rightarrow> bool" where
  "within_lease worker lease row event = (case event of
      Claim_event input res \<Rightarrow>
        (if ci_workerId input = worker
         then (case normalizeIsoTimestamp (Some (ci_leaseExpiresAt input)) of None \<Rightarrow> True | Some l \<Rightarrow> lease \<le> l)
         else (case normalizeIsoTimestamp (Some (ci_now input)) of None \<Rightarrow> True | Some now \<Rightarrow> now < lease))
    | Plan_event plan res \<Rightarrow> ref_string (pl_rowId plan) = row \<and> (case res of Inl _ \<Rightarrow> False | Inr r \<Rightarrow> ar_applied r) \<longrightarrow>
        pl_planType plan \<notin> {Schedule_retry, Release_claim})"

text \<open>A row in the hands of a worker.\<close>

definition holds_row :: "string \<Rightarrow> string \<Rightarrow> outbox_message \<Rightarrow> bool" where
  "holds_row worker lease r \<longleftrightarrow> om_claimedBy r = Some worker \<and> om_status r \<notin> {Om_pending, Om_retry_scheduled} \<and>
     (\<exists>l. om_leaseExpiresAt r = Some l \<and> normalizeIsoTimestamp (Some l) = Some l \<and> lease \<le> l)"

definition held :: "string \<Rightarrow> string \<Rightarrow> string \<Rightarrow> outbox_message list \<Rightarrow> bool" where
  "held worker lease row records \<longleftrightarrow> (\<exists>r \<in> set records. row_text r = row \<and> holds_row worker lease r)"

section \<open>A held row stays held\<close>

lemma holds_row_not_claimable:
  assumes "holds_row worker lease r" "ci_workerId input \<noteq> worker" "normalizeIsoTimestamp (Some now) = Some now" "now < lease"
  shows "\<not> claimable input now l records r"
proof
  assume "claimable input now l records r"
  then obtain n where "normalizeIsoTimestamp (Some now) = Some n"
    "om_status r \<in> {Om_claimed, Om_processing} \<Longrightarrow> om_claimedBy r \<in> {None, Some (ci_workerId input)} \<or>
       (case normalizeIsoTimestamp (om_leaseExpiresAt r) of None \<Rightarrow> False | Some t \<Rightarrow> t \<le> n)"
    "om_status r \<in> {Om_pending, Om_retry_scheduled, Om_claimed, Om_processing}"
    using claimable_free [of input now l records r] by auto
  then show False using assms by (auto simp: holds_row_def)
qed

lemma built_plan_patch:
  assumes "buildOutboxWorkerPlan digest input = Inr plan"
  shows "keep_or (pt_claimedBy (pl_patch plan)) x = x" "keep_or (pt_leaseExpiresAt (pl_patch plan)) x = x"
  using plan_cases [OF assms] by (elim disjE exE conjE; simp add: plan_defs; simp add: keep_or_def)+

lemma patched_holds_row:
  assumes "buildOutboxWorkerPlan digest input = Inr plan" "holds_row worker lease r" "om_status r \<in> set (pl_expectedStatuses plan)"
    "pl_planType plan \<notin> {Schedule_retry, Release_claim}"
  shows "holds_row worker lease (patched (pl_patch plan) r)"
proof -
  have "om_claimedBy (patched (pl_patch plan) r) = om_claimedBy r" "om_leaseExpiresAt (patched (pl_patch plan) r) = om_leaseExpiresAt r"
    by (simp_all add: patched_def built_plan_patch [OF assms(1)])
  moreover have "pt_nextStatus (pl_patch plan) \<notin> {Om_pending, Om_retry_scheduled}"
    using plan_fields [OF assms(1)] assms(2-4)
    by (cases "pl_planType plan") (auto simp: status_after_def plan_sources_def holds_row_def)
  ultimately show ?thesis using assms(2) by (simp add: holds_row_def)
qed

lemma held_after_plan:
  assumes "buildOutboxWorkerPlan digest input = Inr plan" "apply_plan plan state = (res, state')"
    "held worker lease row (rt_records state)" "distinct (map row_text (rt_records state))"
    "ref_string (pl_rowId plan) = row \<and> ar_applied res \<longrightarrow> pl_planType plan \<notin> {Schedule_retry, Release_claim}"
  shows "held worker lease row (rt_records state')"
  using assms(2)
proof (rule apply_plan_cases)
  fix index
  assume i: "ar_applied res" "index < length (rt_records state)" "ref_string (om_rowId (rt_records state ! index)) = ref_string (pl_rowId plan)"
    "om_status (rt_records state ! index) \<in> set (pl_expectedStatuses plan)"
    and s': "state' = state\<lparr>rt_records := (rt_records state)[index := patched (pl_patch plan) (rt_records state ! index)],
         rt_appliedPlanKeys := rt_appliedPlanKeys state @ [pl_planKey plan],
         rt_auditEvents := rt_auditEvents state @ (case pl_auditEvent plan of None \<Rightarrow> [] | Some ev \<Rightarrow> [ev])\<rparr>"
  obtain j where j: "j < length (rt_records state)" "row_text (rt_records state ! j) = row" "holds_row worker lease (rt_records state ! j)"
    using assms(3) by (auto simp: held_def in_set_conv_nth)
  show ?thesis
  proof (cases "j = index")
    case True
    then have "holds_row worker lease (patched (pl_patch plan) (rt_records state ! index))"
      using patched_holds_row [OF assms(1)] i j assms(5) by (simp add: row_text_def)
    then show ?thesis using i(2) j(2) True by (auto simp: held_def s' set_update_memI intro!: bexI [OF _ set_update_memI])
  next
    case False
    then have "rt_records state' ! j = rt_records state ! j" "j < length (rt_records state')" using j(1) by (simp_all add: s')
    then have "rt_records state ! j \<in> set (rt_records state')" by (metis nth_mem)
    then show ?thesis using j(2,3) unfolding held_def by blast
  qed
qed (use assms(3) in simp)

lemma held_after_claim:
  assumes "claimAvailable collate input repo = (Inr claimed, repo')" "distinct (map row_text (rt_records (or_state repo)))"
    "held worker lease row (rt_records (or_state repo))" "within_lease worker lease row (Claim_event input (Inr claimed))"
  shows "held worker lease row (rt_records (or_state repo')) \<and>
    (ci_workerId input \<noteq> worker \<longrightarrow> row \<notin> row_text ` set claimed)"
  using assms(2,1)
proof (rule claim_rows)
  fix now l
  let ?R = "rt_records (or_state repo)"
  let ?chosen = "claim_choice collate input now l ?R"
  assume c: "normalizeIsoTimestamp (Some (ci_now input)) = Some now" "normalizeIsoTimestamp (Some (ci_leaseExpiresAt input)) = Some l"
    "claimed = map (claimed_record input now l) ?chosen"
    and repo': "repo' = repo\<lparr>or_state := (or_state repo)\<lparr>rt_records := map (claim_selected input now l ?chosen) ?R\<rparr>\<rparr>"
  obtain r where r: "r \<in> set ?R" "row_text r = row" "holds_row worker lease r" using assms(3) by (auto simp: held_def)
  have same: "x = r" if "x \<in> set ?chosen" "row_text x = row" for x
    using that r(1,2) assms(2) claim_choice_subset [of collate input now l ?R] by (auto simp: distinct_map inj_on_def)
  have free: "r \<notin> set ?chosen" if "ci_workerId input \<noteq> worker"
    using that assms(4) c(1) holds_row_not_claimable [OF r(3) that normalizeIsoTimestamp_idem [OF c(1)]]
      claim_choice_claimable [of r collate input now l ?R] by (auto simp: within_lease_def)
  have "holds_row worker lease (claim_selected input now l ?chosen r)"
  proof (cases "r \<in> set ?chosen")
    case True
    then have "ci_workerId input = worker" using free by auto
    then show ?thesis using True assms(4) c(2) normalizeIsoTimestamp_idem [OF c(2)]
      by (simp add: claim_selected_def holds_row_def within_lease_def)
  qed (use r(3) in \<open>simp add: claim_selected_def\<close>)
  then have "held worker lease row (rt_records (or_state repo'))"
    using r(1,2) by (auto simp: held_def repo' intro!: bexI [of _ r])
  moreover have "row \<notin> row_text ` set claimed" if "ci_workerId input \<noteq> worker"
    using free [OF that] same by (auto simp: c(3) row_text_def)
  ultimately show ?thesis by simp
qed (use assms(3) in simp)

lemma claim_failed: "claimAvailable collate input repo = (Inl e, repo') \<Longrightarrow> or_state repo' = or_state repo"
  by (auto simp: claimAvailable_def split: if_splits option.splits prod.splits)

lemma applyWorkerPlan_state:
  assumes "applyWorkerPlan plan repo = (res, repo')"
  shows "or_state repo' = or_state repo \<or> (\<exists>r. res = Inr r \<and> apply_plan plan (or_state repo) = (r, or_state repo'))"
  using assms by (auto simp: applyWorkerPlan_def split: if_splits prod.splits)

lemma claim_rows_texts:
  assumes "claimAvailable collate input repo = (res, repo')" "distinct (map row_text (rt_records (or_state repo)))"
  shows "map row_text (rt_records (or_state repo')) = map row_text (rt_records (or_state repo))"
proof (cases res)
  case (Inl e)
  then show ?thesis using claim_failed assms(1) by simp
next
  case (Inr claimed)
  have "claimAvailable collate input repo = (Inr claimed, repo')" using assms(1) Inr by simp
  with assms(2) show ?thesis by (rule claim_rows) (simp_all add: comp_def)
qed

lemma plan_rows_texts:
  assumes "applyWorkerPlan plan repo = (res, repo')"
  shows "map row_text (rt_records (or_state repo')) = map row_text (rt_records (or_state repo))"
  using applyWorkerPlan_state [OF assms]
proof (elim disjE exE conjE)
  fix r assume "apply_plan plan (or_state repo) = (r, or_state repo')"
  then show ?thesis by (rule apply_plan_cases) (simp_all add: map_update_same)
qed simp

lemma history_texts:
  "outbox_history repo events repo' \<Longrightarrow> distinct (map row_text (rt_records (or_state repo))) \<Longrightarrow>
     map row_text (rt_records (or_state repo')) = map row_text (rt_records (or_state repo))"
  by (induction rule: outbox_history.induct) (simp_all add: claim_rows_texts plan_rows_texts)

lemma history_held:
  assumes "outbox_history repo events repo'" "distinct (map row_text (rt_records (or_state repo)))"
    "held worker lease row (rt_records (or_state repo))" "list_all (within_lease worker lease row) events"
  shows "held worker lease row (rt_records (or_state repo')) \<and>
    (\<forall>input claimed. Claim_event input (Inr claimed) \<in> set events \<and> ci_workerId input \<noteq> worker \<longrightarrow> row \<notin> row_text ` set claimed)"
  using assms
proof (induction rule: outbox_history.induct)
  case (history_start repo)
  then show ?case by simp
next
  case (history_claim repo events repo' collate input res repo'')
  have d: "distinct (map row_text (rt_records (or_state repo')))" using history_texts [OF history_claim.hyps(1)] history_claim.prems(1) by simp
  have held: "held worker lease row (rt_records (or_state repo'))"
    and past: "\<forall>input claimed. Claim_event input (Inr claimed) \<in> set events \<and> ci_workerId input \<noteq> worker \<longrightarrow> row \<notin> row_text ` set claimed"
    using history_claim.IH history_claim.prems by simp_all
  show ?case
  proof (cases res)
    case (Inl e)
    then show ?thesis using held past claim_failed history_claim.hyps(2) by auto
  next
    case (Inr claimed)
    then show ?thesis using held_after_claim [OF history_claim.hyps(2) [unfolded Inr] d held] history_claim.prems(3) past by auto
  qed
next
  case (history_plan repo events repo' digest input plan res repo'')
  have d: "distinct (map row_text (rt_records (or_state repo')))" using history_texts [OF history_plan.hyps(1)] history_plan.prems(1) by simp
  have held: "held worker lease row (rt_records (or_state repo'))"
    and past: "\<forall>input claimed. Claim_event input (Inr claimed) \<in> set events \<and> ci_workerId input \<noteq> worker \<longrightarrow> row \<notin> row_text ` set claimed"
    using history_plan.IH history_plan.prems by simp_all
  have "held worker lease row (rt_records (or_state repo''))"
    using applyWorkerPlan_state [OF history_plan.hyps(3)]
  proof (elim disjE exE conjE)
    fix r assume r: "res = Inr r" "apply_plan plan (or_state repo') = (r, or_state repo'')"
    then show ?thesis using held_after_plan [OF history_plan.hyps(2) r(2) held d] history_plan.prems(3)
      by (simp add: within_lease_def)
  qed (use held in simp)
  then show ?case using past by auto
qed

text \<open>
  C34. Exclusive leases: a row that a worker has claimed stays with that worker while its lease lasts.  In every
  history of later claims and plans, the claims of the other workers made before the lease ends and the
  worker's own claims with a lease no shorter, no plan applied to the row scheduling a retry or releasing it,
  the row is in no claim of another worker, whether it is claimed, in processing or closed by then, and
  at the end it still carries the name of the worker and a lease no shorter.\<close>

theorem claims_exclusive:
  assumes "distinct (map row_text (rt_records (or_state repo)))"
    and "claimAvailable collate first repo = (Inr claimed, repo')" "a \<in> set claimed"
    and "normalizeIsoTimestamp (Some (ci_leaseExpiresAt first)) = Some lease"
    and "outbox_history repo' events repo''" "list_all (within_lease (ci_workerId first) lease (row_text a)) events"
  shows "(\<forall>input claimed'. Claim_event input (Inr claimed') \<in> set events \<and> ci_workerId input \<noteq> ci_workerId first \<longrightarrow>
      row_text a \<notin> row_text ` set claimed') \<and>
    held (ci_workerId first) lease (row_text a) (rt_records (or_state repo''))"
proof -
  have "held (ci_workerId first) lease (row_text a) (rt_records (or_state repo'))"
    using assms(1,2)
  proof (rule claim_rows)
    fix now l
    let ?chosen = "claim_choice collate first now l (rt_records (or_state repo))"
    assume c: "normalizeIsoTimestamp (Some (ci_leaseExpiresAt first)) = Some l" "claimed = map (claimed_record first now l) ?chosen"
      "repo' = repo\<lparr>or_state := (or_state repo)\<lparr>rt_records := map (claim_selected first now l ?chosen) (rt_records (or_state repo))\<rparr>\<rparr>"
    obtain r where r: "r \<in> set ?chosen" "a = claimed_record first now l r" using assms(3) c(2) by auto
    then have "r \<in> set (rt_records (or_state repo))" using claim_choice_subset by blast
    then have "a \<in> set (rt_records (or_state repo'))" using r by (auto simp: c(3) claim_selected_def)
    moreover have "holds_row (ci_workerId first) lease a"
      using r(2) c(1) assms(4) normalizeIsoTimestamp_idem [OF assms(4)] by (simp add: holds_row_def)
    ultimately show ?thesis by (auto simp: held_def)
  qed (use assms(3) in simp)
  moreover have "distinct (map row_text (rt_records (or_state repo')))" using claim_rows_texts [OF assms(2,1)] assms(1) by simp
  ultimately show ?thesis using history_held [OF assms(5)] assms(6) by blast
qed

lemma claims_exclusive_witness:
  "\<exists>c plan res repo' repo'' repo3 claimed.
     claimAvailable text_order (sample_claim ''w'' ''2026-01-05T12:00:00.000Z'' ''2026-01-05T12:05:00.000Z'')
       (sample_runtime [sample_pending]) = (Inr [c], repo') \<and>
     applyWorkerPlan plan repo' = (Inr res, repo'') \<and> ar_applied res \<and> pl_planType plan = Mark_processing \<and>
     claimAvailable text_order (sample_claim ''v'' ''2026-01-05T12:00:00.000Z'' ''2026-01-05T12:05:00.000Z'') repo'' = (Inr claimed, repo3) \<and>
     row_text c \<notin> row_text ` set claimed \<and> held ''w'' ''2026-01-05T12:05:00.000Z'' (row_text c) (rt_records (or_state repo3))"
proof -
  let ?i = "sample_claim ''w'' ''2026-01-05T12:00:00.000Z'' ''2026-01-05T12:05:00.000Z''"
  let ?j = "sample_claim ''v'' ''2026-01-05T12:00:00.000Z'' ''2026-01-05T12:05:00.000Z''"
  define c where "c = claimed_record ?i ''2026-01-05T12:00:00.000Z'' ''2026-01-05T12:05:00.000Z'' sample_pending"
  define input where "input = sample_plan_input\<lparr>pi_record := c\<rparr>"
  let ?plan = "buildProcessingPlan id input" and ?repo = "sample_runtime [c]"
  note runtime = sample_runtime_def new_outbox_worker_repository_def buildInitialState_def no_runtime_failures_def
  have claim: "claimAvailable text_order ?i (sample_runtime [sample_pending]) = (Inr [c], ?repo)"
  proof -
    have "claim_choice text_order ?i ''2026-01-05T12:00:00.000Z'' ''2026-01-05T12:05:00.000Z'' [sample_pending] = [sample_pending]"
      using sample_pending_claimable by (simp add: claim_choice_def js_sort_def) (simp add: sample_claim_def)
    then show ?thesis
      using claim_characterization [of "sample_runtime [sample_pending]" ?i "''2026-01-05T12:00:00.000Z''" "''2026-01-05T12:05:00.000Z''" text_order]
      by (simp add: runtime claim_selected_def c_def Let_def) (simp add: sample_claim_def)
  qed
  have built: "buildOutboxWorkerPlan id input = Inr ?plan"
    by (simp add: buildOutboxWorkerPlan_def input_def sample_plan_input_def plan_input_of_def)
  have type: "pl_planType ?plan = Mark_processing" by (simp add: plan_defs)
  define res where "res = fst (apply_plan ?plan (or_state ?repo))"
  have applied: "ar_applied res" "applyWorkerPlan ?plan ?repo = (Inr res, ?repo\<lparr>or_state := snd (apply_plan ?plan (or_state ?repo))\<rparr>)"
    by (simp_all add: res_def applyWorkerPlan_def apply_plan_def runtime plan_defs input_def listIncludes_def hasOtherRecordWithSameIdempotencyKey_def)
  define repo'' where "repo'' = ?repo\<lparr>or_state := snd (apply_plan ?plan (or_state ?repo))\<rparr>"
  have "distinct (map row_text (rt_records (or_state repo'')))"
    using plan_rows_texts [OF applied(2)] by (simp add: repo''_def) (simp add: runtime)
  moreover have "\<not> ff_claimAvailable (or_flags repo'')" by (simp add: repo''_def runtime)
  ultimately obtain claimed repo3 where second: "claimAvailable text_order ?j repo'' = (Inr claimed, repo3)"
    using claim_characterization [of repo'' ?j "''2026-01-05T12:00:00.000Z''" "''2026-01-05T12:05:00.000Z''" text_order]
    by (simp add: sample_claim_def Let_def)
  have "outbox_history ?repo ([] @ [Plan_event ?plan (Inr res)]) repo''"
    using applied(2) by (intro history_plan [OF history_start built]) (simp add: repo''_def)
  then have history: "outbox_history ?repo (([] @ [Plan_event ?plan (Inr res)]) @ [Claim_event ?j (Inr claimed)]) repo3"
    by (rule history_claim [OF _ second])
  have "''2026-01-05T12:00:00.000Z'' < (''2026-01-05T12:05:00.000Z'' :: string)" by code_simp
  then have within: "list_all (within_lease ''w'' ''2026-01-05T12:05:00.000Z'' (row_text c))
      (([] @ [Plan_event ?plan (Inr res)]) @ [Claim_event ?j (Inr claimed)])"
    by (simp add: within_lease_def type sample_claim_def)
  have "row_text c \<notin> row_text ` set claimed \<and> held ''w'' ''2026-01-05T12:05:00.000Z'' (row_text c) (rt_records (or_state repo3))"
    using claims_exclusive [OF _ claim _ _ history, of c "''2026-01-05T12:05:00.000Z''"] within
    by (auto simp: runtime sample_claim_def)
  then show ?thesis using claim applied second type unfolding repo''_def by blast
qed

end
