(* ===== verification/OutboxProcess.thy ===== *)
theory OutboxProcess
  imports OutboxRuntime
begin

text \<open>
  The outbox worker, last part: the transport interface and its fake implementation
  (\<open>lib/brain/messaging/outbox-worker/transport.ts\<close>) and the processing of one row and of a batch
  (\<open>processOutboxMessage.ts\<close>).  A transport is an action on its own state, which no unit of work
  rolls back.  A transport rejects with an \<open>Error\<close> (other values are not modelled).
\<close>

section \<open>Transports\<close>

record transport_request =
  tq_commandId :: string
  tq_idempotencyKey :: string
  tq_channel :: string
  tq_commandType :: string
  tq_recipient :: string
  tq_messageText :: string
  tq_sandbox :: bool
  tq_attemptedAt :: string

type_synonym 't message_transport = "transport_request \<Rightarrow> ('t, transport_result) action"

subsection \<open>The fake transport\<close>

datatype fake_scenario = Sc_accepted | Sc_temporary_failure | Sc_permanent_failure | Sc_rate_limited | Sc_timeout
  | Sc_duplicate_accepted | Sc_invalid_recipient | Sc_invalid_payload | Sc_authentication_error
  | Sc_permission_error | Sc_policy_rejected | Sc_provider_duplicate

record fake_call =
  fk_commandId :: string
  fk_idempotencyKey :: string
  fk_channel :: string
  fk_commandType :: string
  fk_recipientMasked :: "string option"
  fk_messageLength :: nat
  fk_sandbox :: bool
  fk_attemptedAt :: string
  fk_scenario :: fake_scenario

record fake_transport =
  fk_scenarioByIdempotencyKey :: "(string \<times> fake_scenario) list"
  fk_defaultScenario :: fake_scenario
  fk_calls :: "fake_call list"

definition maskDigits :: "string \<Rightarrow> string option" where
  "maskDigits value =
    (let digits = strip_non_digits value; n = length digits
     in if digits = [] then None
        else if n \<le> 6 then
          (if n \<le> 2 then Some (replicate n CHR ''*'')
           else Some (take 1 digits @ replicate (n - 2) CHR ''*'' @ drop (n - 1) digits))
        else Some (take 3 digits @ replicate (n - 6) CHR ''*'' @ drop (n - 3) digits))"

fun resultStatusForScenario :: "fake_scenario \<Rightarrow> transport_status" where
  "resultStatusForScenario Sc_accepted = Tr_accepted"
| "resultStatusForScenario Sc_duplicate_accepted = Tr_duplicate_accepted"
| "resultStatusForScenario Sc_temporary_failure = Tr_temporary_failure"
| "resultStatusForScenario Sc_rate_limited = Tr_rate_limited"
| "resultStatusForScenario Sc_timeout = Tr_timeout"
| "resultStatusForScenario _ = Tr_permanent_failure"

fun errorCodeForScenario :: "fake_scenario \<Rightarrow> transport_error" where
  "errorCodeForScenario Sc_accepted = Te_none"
| "errorCodeForScenario Sc_duplicate_accepted = Te_provider_duplicate"
| "errorCodeForScenario Sc_temporary_failure = Te_network_error"
| "errorCodeForScenario Sc_permanent_failure = Te_provider_unavailable"
| "errorCodeForScenario Sc_invalid_recipient = Te_invalid_recipient"
| "errorCodeForScenario Sc_invalid_payload = Te_invalid_payload"
| "errorCodeForScenario Sc_authentication_error = Te_authentication_error"
| "errorCodeForScenario Sc_permission_error = Te_permission_error"
| "errorCodeForScenario Sc_policy_rejected = Te_policy_rejected"
| "errorCodeForScenario Sc_provider_duplicate = Te_provider_duplicate"
| "errorCodeForScenario Sc_rate_limited = Te_rate_limited"
| "errorCodeForScenario Sc_timeout = Te_timeout"

fun retryAfterSecondsForScenario :: "fake_scenario \<Rightarrow> int option" where
  "retryAfterSecondsForScenario Sc_temporary_failure = Some 30"
| "retryAfterSecondsForScenario Sc_rate_limited = Some 120"
| "retryAfterSecondsForScenario Sc_timeout = Some 60"
| "retryAfterSecondsForScenario _ = None"

fun errorMessageForScenario :: "fake_scenario \<Rightarrow> string option" where
  "errorMessageForScenario Sc_accepted = None"
| "errorMessageForScenario Sc_duplicate_accepted = Some ''Duplicate delivery acknowledged.''"
| "errorMessageForScenario Sc_temporary_failure = Some ''Temporary transport failure.''"
| "errorMessageForScenario Sc_permanent_failure = Some ''Permanent transport failure.''"
| "errorMessageForScenario Sc_invalid_recipient = Some ''Invalid recipient.''"
| "errorMessageForScenario Sc_invalid_payload = Some ''Invalid payload.''"
| "errorMessageForScenario Sc_authentication_error = Some ''Authentication error.''"
| "errorMessageForScenario Sc_permission_error = Some ''Permission error.''"
| "errorMessageForScenario Sc_policy_rejected = Some ''Policy rejected.''"
| "errorMessageForScenario Sc_provider_duplicate = Some ''Provider duplicate.''"
| "errorMessageForScenario Sc_rate_limited = Some ''Transport rate limit reached.''"
| "errorMessageForScenario Sc_timeout = Some ''Transport timed out.''"

definition new_fake_transport :: "(string \<times> fake_scenario) list \<Rightarrow> fake_scenario option \<Rightarrow> fake_transport" where
  "new_fake_transport scenarios defaultScenario =
     \<lparr>fk_scenarioByIdempotencyKey = scenarios,
      fk_defaultScenario = (case defaultScenario of None \<Rightarrow> Sc_accepted | Some s \<Rightarrow> s), fk_calls = []\<rparr>"

definition buildFakeProviderMessageId :: "string \<Rightarrow> string" where
  "buildFakeProviderMessageId commandId = ''fake-provider:'' @ commandId"

definition fake_send :: "fake_transport message_transport" where
  "fake_send input transport =
    (let scenario = (case map_of (fk_scenarioByIdempotencyKey transport) (tq_idempotencyKey input) of
           Some s \<Rightarrow> s | None \<Rightarrow> fk_defaultScenario transport);
         call = \<lparr>fk_commandId = tq_commandId input, fk_idempotencyKey = tq_idempotencyKey input,
           fk_channel = tq_channel input, fk_commandType = tq_commandType input,
           fk_recipientMasked = maskDigits (tq_recipient input), fk_messageLength = length (tq_messageText input),
           fk_sandbox = tq_sandbox input, fk_attemptedAt = tq_attemptedAt input, fk_scenario = scenario\<rparr>;
         status = resultStatusForScenario scenario;
         accepted = (status = Tr_accepted \<or> status = Tr_duplicate_accepted)
     in (Inr \<lparr>tr_status = status,
           tr_providerMessageId = (if accepted then Some (buildFakeProviderMessageId (tq_commandId input)) else None),
           tr_providerRequestId = Some (''fake-request:'' @ tq_commandId input),
           tr_errorCode = errorCodeForScenario scenario,
           tr_errorMessageSafe = sanitizeOutboxWorkerErrorMessage (errorMessageForScenario scenario) 180,
           tr_retryAfterSeconds = retryAfterSecondsForScenario scenario,
           tr_acceptedAt = (if accepted then Some (tq_attemptedAt input) else None),
           tr_completedAt = tq_attemptedAt input,
           tr_metadata = \<lparr>tm_provider = ''fake'', tm_sandbox = tq_sandbox input, tm_simulated = True\<rparr>\<rparr>,
         transport\<lparr>fk_calls := fk_calls transport @ [call]\<rparr>))"

section \<open>One row\<close>

datatype process_status = Ps_processed | Ps_skipped | Ps_retry_scheduled | Ps_delivered | Ps_dead_letter
  | Ps_expired | Ps_invalid | Ps_failed

record process_result =
  pr_status :: process_status
  pr_recordId :: ref_id
  pr_commandId :: string
  pr_candidateEvaluation :: candidate_evaluation
  pr_processingPlan :: "mutation_plan option"
  pr_finalPlan :: "mutation_plan option"
  pr_transportResult :: "transport_result option"
  pr_warnings :: "string list"
  pr_sideEffects :: worker_side_effects
  pr_processedAt :: string

definition worker_effects :: "bool \<Rightarrow> worker_side_effects" where
  "worker_effects called = \<lparr>wse_databaseWritten = False, wse_messageTransportCalled = called,
     wse_externalMessageSent = False, wse_metaCalled = False\<rparr>"

definition buildSyntheticTransportFailure :: "string \<Rightarrow> string \<Rightarrow> transport_result" where
  "buildSyntheticTransportFailure attemptedAt errorMessage =
     \<lparr>tr_status = Tr_temporary_failure, tr_providerMessageId = None, tr_providerRequestId = None,
      tr_errorCode = Te_network_error,
      tr_errorMessageSafe = Some (case sanitizeOutboxWorkerErrorMessage (Some errorMessage) 180 of
        Some m \<Rightarrow> m | None \<Rightarrow> ''Temporary transport failure.''),
      tr_retryAfterSeconds = Some 30, tr_acceptedAt = None, tr_completedAt = attemptedAt,
      tr_metadata = \<lparr>tm_provider = ''fake'', tm_sandbox = True, tm_simulated = True\<rparr>\<rparr>"

text \<open>A result without a transport: \<open>buildSkippedResult\<close> and the early returns have this shape.\<close>

definition unsent_result ::
  "worker_input \<Rightarrow> process_status \<Rightarrow> candidate_evaluation \<Rightarrow> mutation_plan \<Rightarrow> string list \<Rightarrow> process_result" where
  "unsent_result input status evaluation plan warnings =
     \<lparr>pr_status = status, pr_recordId = om_rowId (wi_record input), pr_commandId = om_commandId (wi_record input),
      pr_candidateEvaluation = evaluation, pr_processingPlan = None, pr_finalPlan = Some plan,
      pr_transportResult = None, pr_warnings = warnings, pr_sideEffects = worker_effects False,
      pr_processedAt = wi_now input\<rparr>"

definition buildSkippedResult :: "(string \<Rightarrow> string) \<Rightarrow> worker_input \<Rightarrow> process_status \<Rightarrow> process_result result" where
  "buildSkippedResult digest input decision =
    bind_result (buildSkippedOutboxWorkerPlan digest input (evaluateOutboxCandidate input)) (\<lambda>plan.
      let evaluation = evaluateOutboxCandidate input
      in Inr (unsent_result input decision evaluation plan (ev_warnings evaluation)))"

datatype transport_outcome = Out_delivered | Out_retry | Out_dead_letter | Out_failed

definition classifyTransportOutcome :: "transport_result \<Rightarrow> transport_outcome" where
  "classifyTransportOutcome r =
    (if tr_status r = Tr_accepted \<or> tr_status r = Tr_duplicate_accepted then Out_delivered
     else if tr_status r = Tr_temporary_failure \<or> tr_status r = Tr_rate_limited \<or> tr_status r = Tr_timeout then Out_retry
     else if tr_status r = Tr_permanent_failure then Out_dead_letter
     else Out_failed)"

definition transport_request_of :: "worker_input \<Rightarrow> transport_request" where
  "transport_request_of input =
    (let record = wi_record input in
     \<lparr>tq_commandId = om_commandId record, tq_idempotencyKey = om_idempotencyKey record,
      tq_channel = om_channel record, tq_commandType = om_commandType record, tq_recipient = om_recipient record,
      tq_messageText = om_messageText record, tq_sandbox = omd_sandbox (om_metadata record),
      tq_attemptedAt = wi_now input\<rparr>)"

text \<open>\<open>try { await transport.send(...) } catch\<close>\<close>

definition try_send :: "'t message_transport \<Rightarrow> worker_input \<Rightarrow> ('t, transport_result) action" where
  "try_send send input t = (case send (transport_request_of input) t of
      (Inr r, t') \<Rightarrow> (Inr r, t')
    | (Inl e, t') \<Rightarrow> (Inr (buildSyntheticTransportFailure (wi_now input) (error_message e)), t'))"

text \<open>The row with the attempt that has just been made.\<close>

definition attempted :: "worker_input \<Rightarrow> worker_input" where
  "attempted input = input\<lparr>wi_record := (wi_record input)\<lparr>om_attemptCount := om_attemptCount (wi_record input) + 1\<rparr>\<rparr>"

definition attempt_schedule :: "worker_input \<Rightarrow> transport_result \<Rightarrow> retry_schedule result" where
  "attempt_schedule input transportResult = calculateOutboxRetrySchedule
     \<lparr>ri_now = wi_now input, ri_attemptCount = om_attemptCount (wi_record input) + 1,
      ri_maxAttempts = om_maxAttempts (wi_record input), ri_expiresAt = om_expiresAt (wi_record input),
      ri_retryAfterSeconds = tr_retryAfterSeconds transportResult,
      ri_baseRetrySeconds = wc_baseRetrySeconds (wi_config input),
      ri_maxRetrySeconds = wc_maxRetrySeconds (wi_config input)\<rparr>"

text \<open>The final plan and the status after the transport has answered.\<close>

definition settle_outcome ::
  "(string \<Rightarrow> string) \<Rightarrow> worker_input \<Rightarrow> candidate_evaluation \<Rightarrow> transport_result \<Rightarrow> (process_status \<times> mutation_plan) result" where
  "settle_outcome digest input evaluation transportResult =
    (let final = buildFinalOutboxWorkerPlan digest (attempted input) evaluation (Some transportResult)
     in case classifyTransportOutcome transportResult of
       Out_delivered \<Rightarrow> bind_result final (\<lambda>plan. Inr (Ps_delivered, plan))
     | Out_retry \<Rightarrow>
         bind_result (attempt_schedule input transportResult) (\<lambda>schedule.
           bind_result final (\<lambda>plan.
             if rs_exhausted schedule \<or> empty_or_none (rs_retryAt schedule) then Inr (Ps_dead_letter, plan)
             else Inr (Ps_retry_scheduled, plan)))
     | Out_dead_letter \<Rightarrow> bind_result final (\<lambda>plan. Inr (Ps_dead_letter, plan))
     | Out_failed \<Rightarrow> bind_result final (\<lambda>plan. Inr (Ps_failed, plan)))"

definition sent_result ::
  "worker_input \<Rightarrow> candidate_evaluation \<Rightarrow> mutation_plan \<Rightarrow> transport_result \<Rightarrow> process_status \<times> mutation_plan \<Rightarrow> process_result" where
  "sent_result input evaluation processingPlan transportResult settled =
     \<lparr>pr_status = fst settled, pr_recordId = om_rowId (wi_record input), pr_commandId = om_commandId (wi_record input),
      pr_candidateEvaluation = evaluation, pr_processingPlan = Some processingPlan, pr_finalPlan = Some (snd settled),
      pr_transportResult = Some transportResult, pr_warnings = ev_warnings evaluation,
      pr_sideEffects = worker_effects True, pr_processedAt = wi_now input\<rparr>"

definition on_transport :: "('t, 'a) action \<Rightarrow> ('s \<times> 't, 'a) action" where
  "on_transport m s = (case s of (repo, t) \<Rightarrow> (case m t of (r, t') \<Rightarrow> (r, (repo, t'))))"

definition apply_or_throw :: "'s outbox_worker_repository \<Rightarrow> string \<Rightarrow> mutation_plan \<Rightarrow> ('s \<times> 't, unit) action" where
  "apply_or_throw outbox label plan =
     await (on_repository (owr_applyWorkerPlan outbox plan)) (\<lambda>res.
       if ar_applied res then done_with ()
       else raise_error (Error (label @ (if ar_conflict res then ''_conflict'' else ''_duplicate''))))"

definition processClaimedOutboxRecord ::
  "(string \<Rightarrow> string) \<Rightarrow> 's outbox_worker_repository \<Rightarrow> 't message_transport \<Rightarrow> worker_input \<Rightarrow> ('s \<times> 't, process_result) action" where
  "processClaimedOutboxRecord digest outbox send input =
    (let evaluation = evaluateOutboxCandidate input
     in if ev_decision evaluation \<noteq> Process
        then compute (buildSkippedResult digest input
          (if ev_decision evaluation = Expire then Ps_expired
           else if ev_decision evaluation = Dead_letter then Ps_dead_letter else Ps_skipped))
        else
          await (compute (buildProcessingOutboxWorkerPlan digest input evaluation)) (\<lambda>processingPlan.
          await (apply_or_throw outbox ''processing_plan'' processingPlan) (\<lambda>_.
          await (on_transport (try_send send input)) (\<lambda>transportResult.
          await (compute (settle_outcome digest input evaluation transportResult)) (\<lambda>settled.
          await (apply_or_throw outbox ''final_plan'' (snd settled)) (\<lambda>_.
          done_with (sent_result input evaluation processingPlan transportResult settled)))))))"

definition processOutboxMessage ::
  "(string \<Rightarrow> string) \<Rightarrow> 't message_transport \<Rightarrow> worker_input \<Rightarrow> ('t, process_result) action" where
  "processOutboxMessage digest send input =
    (let evaluation = evaluateOutboxCandidate input;
         skip = buildSkippedOutboxWorkerPlan digest input evaluation;
         final = buildOutboxWorkerPlan digest (plan_input_of input evaluation None Final_phase)
     in if empty_or_none (normalizeIsoTimestamp (Some (wi_now input)))
        then compute (bind_result skip (\<lambda>plan. Inr (unsent_result input Ps_invalid evaluation plan
          (ev_warnings evaluation @ [''Invalid process timestamp.'']))))
        else (case ev_decision evaluation of
            Skip \<Rightarrow> compute (buildSkippedResult digest input Ps_skipped)
          | Invalid \<Rightarrow> compute (bind_result skip (\<lambda>plan. Inr (unsent_result input Ps_invalid evaluation plan (ev_warnings evaluation))))
          | Expire \<Rightarrow> compute (bind_result final (\<lambda>plan. Inr (unsent_result input Ps_expired evaluation plan (ev_warnings evaluation))))
          | Dead_letter \<Rightarrow> compute (bind_result final (\<lambda>plan. Inr (unsent_result input Ps_dead_letter evaluation plan (ev_warnings evaluation))))
          | Process \<Rightarrow>
              await (compute (buildProcessingOutboxWorkerPlan digest input evaluation)) (\<lambda>processingPlan.
              await (try_send send input) (\<lambda>transportResult.
              await (compute (settle_outcome digest input evaluation transportResult)) (\<lambda>settled.
              done_with (sent_result input evaluation processingPlan transportResult settled))))))"

section \<open>A batch\<close>

record batch_input =
  bi_now :: string
  bi_config :: worker_config

record batch_result =
  br_claimed :: nat
  br_processed :: nat
  br_delivered :: nat
  br_retryScheduled :: nat
  br_deadLettered :: nat
  br_expired :: nat
  br_skipped :: nat
  br_failed :: nat
  br_results :: "process_result list"
  br_processedAt :: string
  br_sideEffects :: worker_side_effects

definition empty_batch :: "string \<Rightarrow> batch_result" where
  "empty_batch processedAt = \<lparr>br_claimed = 0, br_processed = 0, br_delivered = 0, br_retryScheduled = 0,
     br_deadLettered = 0, br_expired = 0, br_skipped = 0, br_failed = 0, br_results = [],
     br_processedAt = processedAt, br_sideEffects = worker_effects False\<rparr>"

definition count_status :: "process_status \<Rightarrow> batch_result \<Rightarrow> batch_result" where
  "count_status status summary = (case status of
      Ps_delivered \<Rightarrow> summary\<lparr>br_delivered := br_delivered summary + 1\<rparr>
    | Ps_retry_scheduled \<Rightarrow> summary\<lparr>br_retryScheduled := br_retryScheduled summary + 1\<rparr>
    | Ps_dead_letter \<Rightarrow> summary\<lparr>br_deadLettered := br_deadLettered summary + 1\<rparr>
    | Ps_expired \<Rightarrow> summary\<lparr>br_expired := br_expired summary + 1\<rparr>
    | Ps_skipped \<Rightarrow> summary\<lparr>br_skipped := br_skipped summary + 1\<rparr>
    | Ps_failed \<Rightarrow> summary\<lparr>br_failed := br_failed summary + 1\<rparr>
    | Ps_invalid \<Rightarrow> summary\<lparr>br_failed := br_failed summary + 1\<rparr>
    | Ps_processed \<Rightarrow> summary)"

definition add_result :: "process_result \<Rightarrow> batch_result \<Rightarrow> batch_result" where
  "add_result res summary = count_status (pr_status res)
     (summary\<lparr>br_results := br_results summary @ [res], br_processed := br_processed summary + 1,
        br_sideEffects := (br_sideEffects summary)\<lparr>wse_messageTransportCalled :=
          (wse_messageTransportCalled (br_sideEffects summary) \<or> wse_messageTransportCalled (pr_sideEffects res))\<rparr>\<rparr>)"

definition failed_item :: "worker_input \<Rightarrow> string \<Rightarrow> js_error \<Rightarrow> process_result" where
  "failed_item input processedAt e =
     \<lparr>pr_status = Ps_failed, pr_recordId = om_rowId (wi_record input), pr_commandId = om_commandId (wi_record input),
      pr_candidateEvaluation = evaluateOutboxCandidate input, pr_processingPlan = None, pr_finalPlan = None,
      pr_transportResult = None, pr_warnings = [error_message e], pr_sideEffects = worker_effects False,
      pr_processedAt = processedAt\<rparr>"

definition add_failure :: "worker_input \<Rightarrow> string \<Rightarrow> js_error \<Rightarrow> batch_result \<Rightarrow> batch_result" where
  "add_failure input processedAt e summary =
    (let counted = summary\<lparr>br_processed := br_processed summary + 1, br_failed := br_failed summary + 1\<rparr>;
         flagged = (if \<not> js_starts_with (error_message e) ''processing_plan_''
           then counted\<lparr>br_sideEffects := (br_sideEffects counted)\<lparr>wse_messageTransportCalled := True\<rparr>\<rparr> else counted)
     in flagged\<lparr>br_results := br_results flagged @ [failed_item input processedAt e]\<rparr>)"

text \<open>
  The loop over the claimed rows.  \<open>run_item\<close> is \<open>unitOfWork.run\<close> at the type of a result; an
  item that fails is caught and counted.
\<close>

fun process_items ::
  "(worker_input \<Rightarrow> ('u, process_result) action) \<Rightarrow> batch_input \<Rightarrow> string \<Rightarrow> outbox_message list \<Rightarrow> batch_result \<Rightarrow>
   'u \<Rightarrow> batch_result \<times> 'u" where
  "process_items item input processedAt [] summary u = (summary, u)"
| "process_items item input processedAt (claimedRecord # rows) summary u =
    (let w = \<lparr>wi_now = bi_now input, wi_record = claimedRecord, wi_config = bi_config input\<rparr>
     in case item w u of
       (Inr res, u') \<Rightarrow> process_items item input processedAt rows (add_result res summary) u'
     | (Inl e, u') \<Rightarrow> process_items item input processedAt rows (add_failure w processedAt e summary) u')"

definition batch_claim :: "'s outbox_worker_repository \<Rightarrow> batch_input \<Rightarrow> ('s \<times> 't, outbox_message list) action" where
  "batch_claim outbox input =
     await (compute (addSecondsToIso (bi_now input) (wc_leaseSeconds (bi_config input)))) (\<lambda>leaseExpiresAt.
       on_repository (owr_claimAvailable outbox
         \<lparr>ci_now = bi_now input, ci_workerId = wc_workerId (bi_config input), ci_batchSize = wc_batchSize (bi_config input),
          ci_leaseExpiresAt = leaseExpiresAt, ci_recoverExpiredLeases = wc_recoverExpiredLeases (bi_config input)\<rparr>))"

definition processOutboxBatch ::
  "(string \<Rightarrow> string) \<Rightarrow> 's outbox_worker_repository \<Rightarrow> 't message_transport \<Rightarrow>
   (('s \<times> 't, outbox_message list) action \<Rightarrow> ('u, outbox_message list) action) \<Rightarrow>
   (('s \<times> 't, process_result) action \<Rightarrow> ('u, process_result) action) \<Rightarrow>
   batch_input \<Rightarrow> ('u, batch_result) action" where
  "processOutboxBatch digest outbox send run_claim run_item input =
    (let processedAt = (case normalizeIsoTimestamp (Some (bi_now input)) of Some t \<Rightarrow> t | None \<Rightarrow> bi_now input);
         summary = empty_batch processedAt
     in if \<not> wc_workerEnabled (bi_config input) \<or> \<not> wc_transportEnabled (bi_config input) then done_with summary
        else await (run_claim (batch_claim outbox input)) (\<lambda>claimResult u.
          case process_items (\<lambda>w. run_item (processClaimedOutboxRecord digest outbox send w)) input processedAt claimResult
              (summary\<lparr>br_claimed := length claimResult\<rparr>) u of
            (summed, u') \<Rightarrow> (Inr summed, u')))"

text \<open>The worker over the in-memory repository and unit of work.\<close>

abbreviation process_batch_in_memory ::
  "(string \<Rightarrow> string) \<Rightarrow> (string \<Rightarrow> string \<Rightarrow> int) \<Rightarrow> 't message_transport \<Rightarrow> batch_input \<Rightarrow>
   (outbox_unit_of_work \<times> 't, batch_result) action" where
  "process_batch_in_memory digest collate send \<equiv>
     processOutboxBatch digest (in_memory_outbox collate) send run_outbox run_outbox"

section \<open>Properties of one row\<close>

lemma empty_or_none_iso [simp]: "empty_or_none (normalizeIsoTimestamp v) \<longleftrightarrow> normalizeIsoTimestamp v = None"
  by (cases "normalizeIsoTimestamp v") (auto simp: empty_or_none_def normalizeIsoTimestamp_Some iso_text_not_Nil [symmetric]
    simp del: iso_text_not_Nil)

lemma skipped_plan:
  "buildSkippedOutboxWorkerPlan digest input ev = Inr
     (if ev_decision ev = Skip \<and> om_status (wi_record input) \<in> {Om_claimed, Om_processing}
      then buildReleasedClaimPlan digest (plan_input_of input ev None Skip_phase)
        (first_reason (plan_input_of input ev None Skip_phase) Status_not_reclaimable)
      else buildNoChangePlan digest (plan_input_of input ev None Skip_phase))"
  by (auto simp: buildSkippedOutboxWorkerPlan_def buildOutboxWorkerPlan_def plan_input_of_def)

lemma processing_plan:
  "buildProcessingOutboxWorkerPlan digest input ev = Inr (buildProcessingPlan digest (plan_input_of input ev None Processing_phase))"
  by (simp add: buildProcessingOutboxWorkerPlan_def buildOutboxWorkerPlan_def plan_input_of_def)

text \<open>The status a result reports, by the type of its final plan.\<close>

definition status_of_plan :: "plan_type \<Rightarrow> process_status set" where
  "status_of_plan t = (case t of Mark_delivered \<Rightarrow> {Ps_delivered} | Schedule_retry \<Rightarrow> {Ps_retry_scheduled}
     | Move_to_dead_letter \<Rightarrow> {Ps_dead_letter} | Expire_message \<Rightarrow> {Ps_expired}
     | Release_claim \<Rightarrow> {Ps_skipped} | No_change \<Rightarrow> {Ps_skipped, Ps_invalid} | Mark_processing \<Rightarrow> {} | Mark_failed \<Rightarrow> {})"

lemma classify_outcome:
  "classifyTransportOutcome r = (case tr_status r of Tr_accepted \<Rightarrow> Out_delivered | Tr_duplicate_accepted \<Rightarrow> Out_delivered
     | Tr_permanent_failure \<Rightarrow> Out_dead_letter | _ \<Rightarrow> Out_retry)"
  by (cases "tr_status r") (simp_all add: classifyTransportOutcome_def)

lemma attempt_schedule_plan:
  "plan_retry_schedule (plan_input_of (attempted input) ev r Final_phase) tr = attempt_schedule input tr"
  by (simp add: plan_retry_schedule_def attempt_schedule_def plan_input_of_def attempted_def)

lemma settle_agrees:
  assumes "settle_outcome digest input ev tr = Inr (status, plan)"
  shows "buildFinalOutboxWorkerPlan digest (attempted input) ev (Some tr) = Inr plan \<and>
    pl_planType plan = final_plan_type tr (attempt_schedule input tr) \<and> status_of_plan (pl_planType plan) = {status}"
proof -
  let ?in = "plan_input_of (attempted input) ev (Some tr) Final_phase"
  have final: "buildOutboxWorkerPlan digest ?in = Inr plan"
    using assms by (auto simp: settle_outcome_def classify_outcome buildFinalOutboxWorkerPlan_def bind_result_Inr_iff Let_def
        split: transport_status.splits if_splits)
  have t: "pl_planType plan = final_plan_type tr (attempt_schedule input tr)"
    using final_plan_characterization [OF final] by (simp add: attempt_schedule_plan) (simp add: plan_input_of_def)
  have "status_of_plan (pl_planType plan) = {status}"
  proof (cases "classifyTransportOutcome tr = Out_retry")
    case True
    then obtain sch where s: "attempt_schedule input tr = Inr sch"
      and st: "status = (if rs_exhausted sch \<or> empty_or_none (rs_retryAt sch) then Ps_dead_letter else Ps_retry_scheduled)"
      using assms by (auto simp: settle_outcome_def bind_result_Inr_iff Let_def split: if_splits)
    have "status = (if rs_retryAt sch = None then Ps_dead_letter else Ps_retry_scheduled)"
      using st unfolding schedule_retryAt [OF s [unfolded attempt_schedule_def]] .
    then show ?thesis unfolding t s final_plan_type_def using True
      by (cases "tr_status tr") (auto simp: classify_outcome status_of_plan_def)
  next
    case False
    then show ?thesis using assms unfolding t final_plan_type_def
      by (cases "tr_status tr") (auto simp: settle_outcome_def classify_outcome bind_result_Inr_iff Let_def status_of_plan_def)
  qed
  then show ?thesis using final t by (simp add: buildFinalOutboxWorkerPlan_def)
qed

lemma processMessage_Process:
  assumes "ev_decision (evaluateOutboxCandidate input) = Process"
  shows "processOutboxMessage digest send input =
    await (try_send send input) (\<lambda>tr.
    await (compute (settle_outcome digest input (evaluateOutboxCandidate input) tr)) (\<lambda>settled.
      done_with (sent_result input (evaluateOutboxCandidate input)
        (buildProcessingPlan digest (plan_input_of input (evaluateOutboxCandidate input) None Processing_phase)) tr settled)))"
proof -
  obtain n where n: "normalizeIsoTimestamp (Some (wi_now input)) = Some n"
    using assms unfolding candidate_process_characterization by auto
  then have "\<not> empty_or_none (normalizeIsoTimestamp (Some (wi_now input)))" unfolding empty_or_none_iso by simp
  then show ?thesis unfolding processOutboxMessage_def Let_def assms processing_plan by (simp del: empty_or_none_iso)
qed

lemma try_send_Inr: "\<exists>tr t'. try_send send input t = (Inr tr, t')"
  by (auto simp: try_send_def split: prod.splits sum.splits)

lemma processMessage_unsent:
  assumes "ev_decision (evaluateOutboxCandidate input) \<noteq> Process"
  shows "\<exists>r. processOutboxMessage digest send input t = (Inr r, t) \<and> pr_processingPlan r = None \<and> pr_transportResult r = None \<and>
    (\<exists>plan. pr_finalPlan r = Some plan \<and> pr_status r \<in> status_of_plan (pl_planType plan)) \<and>
    \<not> wse_messageTransportCalled (pr_sideEffects r)"
proof (cases "empty_or_none (normalizeIsoTimestamp (Some (wi_now input)))")
  case True
  then have "normalizeIsoTimestamp (Some (wi_now input)) = None" by simp
  then have "ev_decision (evaluateOutboxCandidate input) = Invalid" by (simp add: evaluateOutboxCandidate_def)
  then show ?thesis using True
    by (simp add: processOutboxMessage_def skipped_plan compute_def unsent_result_def plan_defs status_of_plan_def worker_effects_def)
next
  case False
  then obtain n where n: "normalizeIsoTimestamp (Some (wi_now input)) = Some n" "\<not> empty_or_none (Some n)"
    by (metis empty_or_none_iso not_None_eq)
  show ?thesis
  proof (cases "ev_decision (evaluateOutboxCandidate input)")
    case Skip
    then show ?thesis using n
      by (cases "om_status (wi_record input) \<in> {Om_claimed, Om_processing}")
        (simp_all add: processOutboxMessage_def buildSkippedResult_def skipped_plan compute_def unsent_result_def plan_defs
          status_of_plan_def worker_effects_def)
  next
    case Expire
    then show ?thesis using n
      by (simp add: processOutboxMessage_def buildOutboxWorkerPlan_def plan_input_of_def compute_def unsent_result_def plan_defs
          status_of_plan_def worker_effects_def)
  next
    case Dead_letter
    then show ?thesis using n
      by (simp add: processOutboxMessage_def buildOutboxWorkerPlan_def plan_input_of_def compute_def unsent_result_def plan_defs
          status_of_plan_def worker_effects_def)
  next
    case Invalid
    then show ?thesis using n
      by (simp add: processOutboxMessage_def skipped_plan compute_def unsent_result_def plan_defs status_of_plan_def worker_effects_def)
  qed (use assms in simp)
qed

text \<open>
  The status a message reports agrees with the plan it returns: delivered with a delivery,
  retry with a retry, dead letter with a dead letter, expired with an expiry, skipped or invalid
  with a release or no change; and a message that is not to be processed is never sent.
\<close>

theorem message_result_agrees:
  assumes "processOutboxMessage digest send input t = (Inr r, t')"
  shows "(\<exists>plan. pr_finalPlan r = Some plan \<and> pr_status r \<in> status_of_plan (pl_planType plan)) \<and>
    (pr_processingPlan r = None \<longleftrightarrow> ev_decision (evaluateOutboxCandidate input) \<noteq> Process) \<and>
    (wse_messageTransportCalled (pr_sideEffects r) \<longleftrightarrow> ev_decision (evaluateOutboxCandidate input) = Process) \<and>
    (ev_decision (evaluateOutboxCandidate input) = Process \<or> t' = t)"
proof (cases "ev_decision (evaluateOutboxCandidate input) = Process")
  case True
  obtain tr settled where s: "settle_outcome digest input (evaluateOutboxCandidate input) tr = Inr settled"
    "r = sent_result input (evaluateOutboxCandidate input)
       (buildProcessingPlan digest (plan_input_of input (evaluateOutboxCandidate input) None Processing_phase)) tr settled"
    using assms unfolding processMessage_Process [OF True]
    by (auto elim!: await_InrE simp: compute_def done_with_def)
  then show ?thesis using settle_agrees [of digest input "evaluateOutboxCandidate input" tr "fst settled" "snd settled"] True
    by (auto simp: sent_result_def worker_effects_def)
next
  case False
  then show ?thesis using processMessage_unsent [OF False, of digest send t] assms by auto
qed

text \<open>
  Processing a message fails only when the time of a retry cannot be written: the row is to be
  processed, the transport failed for the moment, and the schedule throws.
\<close>

theorem message_error_iff:
  "\<not> is_ok (fst (processOutboxMessage digest send input t)) \<longleftrightarrow>
    (\<exists>tr t'. ev_decision (evaluateOutboxCandidate input) = Process \<and> try_send send input t = (Inr tr, t') \<and>
       classifyTransportOutcome tr = Out_retry \<and> \<not> is_ok (attempt_schedule input tr))"
proof (cases "ev_decision (evaluateOutboxCandidate input) = Process")
  case True
  obtain tr t' where s: "try_send send input t = (Inr tr, t')" using try_send_Inr by metis
  have e: "fst (processOutboxMessage digest send input t) =
     bind_result (settle_outcome digest input (evaluateOutboxCandidate input) tr) (\<lambda>settled. Inr
       (sent_result input (evaluateOutboxCandidate input)
         (buildProcessingPlan digest (plan_input_of input (evaluateOutboxCandidate input) None Processing_phase)) tr settled))"
    unfolding processMessage_Process [OF True]
    by (simp add: await_Inr [of "try_send send input" t tr t', OF s]) (simp add: await_def compute_def done_with_def bind_result_def split: sum.split)
  let ?in = "plan_input_of (attempted input) (evaluateOutboxCandidate input) (Some tr) Final_phase"
  have p: "pi_phase ?in = Final_phase" "pi_transportResult ?in = Some tr" by (simp_all add: plan_input_of_def)
  have "is_ok (settle_outcome digest input (evaluateOutboxCandidate input) tr) \<longleftrightarrow>
     \<not> (classifyTransportOutcome tr = Out_retry \<and> \<not> is_ok (attempt_schedule input tr))"
  proof (cases "attempt_schedule input tr")
    case (Inl err)
    then show ?thesis
      by (cases "tr_status tr")
        (simp_all add: settle_outcome_def classify_outcome buildFinalOutboxWorkerPlan_def buildOutboxWorkerPlan_def p)
  next
    case (Inr sch)
    then show ?thesis
      by (cases "tr_status tr")
        (simp_all add: settle_outcome_def classify_outcome buildFinalOutboxWorkerPlan_def buildOutboxWorkerPlan_def p
          retryPlan_def attempt_schedule_plan)
  qed
  moreover have "is_ok (fst (processOutboxMessage digest send input t)) \<longleftrightarrow>
     is_ok (settle_outcome digest input (evaluateOutboxCandidate input) tr)"
    unfolding e by (cases "settle_outcome digest input (evaluateOutboxCandidate input) tr") simp_all
  ultimately show ?thesis using True s by auto
next
  case False
  then show ?thesis using processMessage_unsent [OF False, of digest send t] by auto
qed

section \<open>Sample runs\<close>

lemma sample_processable: "ev_decision (evaluateOutboxCandidate sample_worker_input) = Process"
proof -
  have t: "asText (Some ''outbox-command:k'') \<noteq> None" "asText (Some ''k'') \<noteq> None" "asText (Some ''a'') \<noteq> None"
    "asText (Some ''56911112222'') \<noteq> None" "asText (Some ''Hola'') \<noteq> None" by code_simp+
  have n: "normalizeIsoTimestamp None = None" by (simp add: normalizeIsoTimestamp_def)
  show ?thesis unfolding candidate_process_characterization using t
    by (simp add: sample_worker_input_def sample_config_def sample_message_def well_addressed_def due_def free_for_def n)
qed

lemma accepted_settles:
  assumes "tr_status tr = Tr_accepted"
  shows "settle_outcome digest input ev tr = Inr (Ps_delivered,
    buildDeliveredPlan digest (plan_input_of (attempted input) ev (Some tr) Final_phase) tr Transport_accepted)"
  using assms by (simp add: settle_outcome_def classify_outcome buildFinalOutboxWorkerPlan_def buildOutboxWorkerPlan_def
      plan_input_of_def)

definition accepting :: "fake_call list \<Rightarrow> fake_transport" where
  "accepting calls = \<lparr>fk_scenarioByIdempotencyKey = [], fk_defaultScenario = Sc_accepted, fk_calls = calls\<rparr>"

lemma accepting_send:
  obtains tr call where "try_send fake_send input (accepting calls) = (Inr tr, accepting (calls @ [call]))"
    "tr_status tr = Tr_accepted" "fk_idempotencyKey call = om_idempotencyKey (wi_record input)"
  by (simp add: try_send_def fake_send_def accepting_def transport_request_of_def Let_def)

lemma message_result_agrees_witness:
  "\<exists>r t'. processOutboxMessage id fake_send sample_worker_input (accepting []) = (Inr r, t') \<and>
     wse_messageTransportCalled (pr_sideEffects r) \<and> pr_processingPlan r \<noteq> None"
proof -
  obtain tr call where s: "try_send fake_send sample_worker_input (accepting []) = (Inr tr, accepting ([] @ [call]))"
    "tr_status tr = Tr_accepted" by (rule accepting_send)
  have "\<exists>r t'. processOutboxMessage id fake_send sample_worker_input (accepting []) = (Inr r, t')"
    unfolding processMessage_Process [OF sample_processable] await_def s(1)
    by (simp add: compute_def done_with_def accepted_settles [OF s(2)])
  then obtain r t' where e: "processOutboxMessage id fake_send sample_worker_input (accepting []) = (Inr r, t')" by blast
  then show ?thesis using message_result_agrees [OF e] by (simp add: sample_processable)
qed

end
