(* ===== verification/JS_Text.thy ===== *)
theory JS_Text
  imports JS_Value
begin

text \<open>
  Conversions between texts and other values: \<open>Number(text)\<close> with the rounding of the language,
  \<open>Math.floor\<close>, \<open>String(value)\<close>, \<open>encodeURIComponent\<close> and \<open>new Date(text)\<close>.
\<close>

section \<open>Numbers\<close>

text \<open>A number: \<open>Double m k\<close> is the value \<open>m * 2 ^ k\<close>; the sign of zero is not kept.\<close>

datatype js_double = NaN | Infinite bool | Double int int

definition is_finite :: "js_double \<Rightarrow> bool" where
  "is_finite x \<longleftrightarrow> (case x of Double _ _ \<Rightarrow> True | _ \<Rightarrow> False)"

definition double_of_int :: "int \<Rightarrow> js_double" where
  "double_of_int n = Double n 0"

text \<open>\<open>x > 0\<close>, \<open>x >= 0\<close>, \<open>n > x\<close> for an integer \<open>n\<close>, and \<open>Math.floor\<close> of a finite number.\<close>

definition double_pos :: "js_double \<Rightarrow> bool" where
  "double_pos x \<longleftrightarrow> (case x of NaN \<Rightarrow> False | Infinite neg \<Rightarrow> \<not> neg | Double m _ \<Rightarrow> m > 0)"

definition double_nonneg :: "js_double \<Rightarrow> bool" where
  "double_nonneg x \<longleftrightarrow> (case x of NaN \<Rightarrow> False | Infinite neg \<Rightarrow> \<not> neg | Double m _ \<Rightarrow> m \<ge> 0)"

definition int_exceeds :: "int \<Rightarrow> js_double \<Rightarrow> bool" where
  "int_exceeds n x \<longleftrightarrow> (case x of NaN \<Rightarrow> False | Infinite neg \<Rightarrow> neg
     | Double m k \<Rightarrow> if k \<ge> 0 then n > m * 2 ^ nat k else n * 2 ^ nat (- k) > m)"

definition double_floor :: "js_double \<Rightarrow> int" where
  "double_floor x = (case x of Double m k \<Rightarrow> if k \<ge> 0 then m * 2 ^ nat k else m div 2 ^ nat (- k) | _ \<Rightarrow> 0)"

lemma double_simps [simp]:
  "is_finite (Double m k)" "\<not> is_finite NaN" "\<not> is_finite (Infinite b)"
  "double_pos (Double m k) \<longleftrightarrow> m > 0" "double_nonneg (Double m k) \<longleftrightarrow> m \<ge> 0"
  "\<not> double_pos NaN" "\<not> double_nonneg NaN" "\<not> int_exceeds n NaN"
  "double_floor (Double m 0) = m"
  by (simp_all add: is_finite_def double_pos_def double_nonneg_def int_exceeds_def double_floor_def)

lemma double_floor_nonneg: "double_nonneg x \<Longrightarrow> 0 \<le> double_floor x"
  by (cases x) (simp_all add: double_floor_def pos_imp_zdiv_nonneg_iff)

subsection \<open>Rounding\<close>

fun ilog2 :: "nat \<Rightarrow> nat" where
  "ilog2 n = (if n < 2 then 0 else Suc (ilog2 (n div 2)))"

declare ilog2.simps [simp del]

lemma ilog2_bounds: "0 < n \<Longrightarrow> 2 ^ ilog2 n \<le> n \<and> n < 2 ^ Suc (ilog2 n)"
proof (induction n rule: ilog2.induct)
  case (1 n)
  show ?case
  proof (cases "n < 2")
    case True
    then show ?thesis using 1 by (subst (1 2) ilog2.simps) simp
  next
    case False
    then have "2 ^ ilog2 (n div 2) \<le> n div 2 \<and> n div 2 < 2 ^ Suc (ilog2 (n div 2))" using 1 by simp
    then have "2 * 2 ^ ilog2 (n div 2) \<le> n \<and> n < 2 * 2 ^ Suc (ilog2 (n div 2))" by linarith
    then show ?thesis using False by (subst (1 2) ilog2.simps) simp
  qed
qed

text \<open>The exponent of the leading bit of \<open>p / q\<close>, for positive \<open>p\<close> and \<open>q\<close>.\<close>

definition leading_bit :: "nat \<Rightarrow> nat \<Rightarrow> int" where
  "leading_bit p q = (let e = int (ilog2 p) - int (ilog2 q) in
     if (if e \<ge> 0 then q * 2 ^ nat e \<le> p else q \<le> p * 2 ^ nat (- e)) then e else e - 1)"

text \<open>The nearest integer of \<open>p / q\<close>, the even one of two.\<close>

definition round_half_even :: "nat \<Rightarrow> nat \<Rightarrow> nat" where
  "round_half_even p q = (let n = p div q; r = p mod q in
     if 2 * r < q \<or> (2 * r = q \<and> even n) then n else n + 1)"

text \<open>The double nearest to \<open>p / q\<close>: 53 bits, exponents down to \<open>-1074\<close>, overflow to infinity.\<close>

definition round_double :: "bool \<Rightarrow> nat \<Rightarrow> nat \<Rightarrow> js_double" where
  "round_double neg p q = (if p = 0 then Double 0 0 else
     (let k = max (- 1074) (leading_bit p q - 52);
          n = (if k \<ge> 0 then round_half_even p (q * 2 ^ nat k) else round_half_even (p * 2 ^ nat (- k)) q)
      in if k > 971 \<or> (k = 971 \<and> n = 2 ^ 53) then Infinite neg
         else Double (if neg then - int n else int n) k))"

subsection \<open>Number(text)\<close>

definition digit_in :: "nat \<Rightarrow> char \<Rightarrow> nat option" where
  "digit_in radix c = (let n = of_char c :: nat;
      d = (if 48 \<le> n \<and> n \<le> 57 then n - 48 else if 97 \<le> n \<and> n \<le> 102 then n - 87
           else if 65 \<le> n \<and> n \<le> 70 then n - 55 else radix)
    in if d < radix then Some d else None)"

definition radix_number :: "nat \<Rightarrow> string \<Rightarrow> js_double" where
  "radix_number radix s = (if s \<noteq> [] \<and> list_all (\<lambda>c. digit_in radix c \<noteq> None) s
     then round_double False (foldl (\<lambda>n c. radix * n + the (digit_in radix c)) 0 s) 1 else NaN)"

text \<open>The exponent part: its value and no rest.\<close>

definition exponent_part :: "string \<Rightarrow> int option" where
  "exponent_part s = (case s of [] \<Rightarrow> Some 0
    | c # r \<Rightarrow> if c = CHR ''e'' \<or> c = CHR ''E'' then
        (let neg = (r \<noteq> [] \<and> hd r = CHR ''-'');
             ds = (if r \<noteq> [] \<and> (hd r = CHR ''-'' \<or> hd r = CHR ''+'') then tl r else r)
         in if ds \<noteq> [] \<and> list_all is_digit ds
            then Some (if neg then - int (digits_value ds) else int (digits_value ds)) else None)
      else None)"

definition decimal_number :: "bool \<Rightarrow> string \<Rightarrow> js_double" where
  "decimal_number neg s =
    (let whole = takeWhile is_digit s; r = dropWhile is_digit s;
         point = (r \<noteq> [] \<and> hd r = CHR ''.'');
         fraction = (if point then takeWhile is_digit (tl r) else []);
         rest = (if point then dropWhile is_digit (tl r) else r)
     in if whole @ fraction = [] then NaN
        else case exponent_part rest of
          None \<Rightarrow> NaN
        | Some x \<Rightarrow>
            (let e = x - int (length fraction); m = digits_value (whole @ fraction)
             in if e \<ge> 0 then round_double neg (m * 10 ^ nat e) 1 else round_double neg m (10 ^ nat (- e))))"

definition js_number :: "string \<Rightarrow> js_double" where
  "js_number value =
    (let s = js_trim value
     in if s = [] then Double 0 0
        else if prefix ''0x'' s \<or> prefix ''0X'' s then radix_number 16 (drop 2 s)
        else if prefix ''0o'' s \<or> prefix ''0O'' s then radix_number 8 (drop 2 s)
        else if prefix ''0b'' s \<or> prefix ''0B'' s then radix_number 2 (drop 2 s)
        else
          (let neg = (hd s = CHR ''-''); u = (if hd s = CHR ''-'' \<or> hd s = CHR ''+'' then tl s else s)
           in if u = ''Infinity'' then Infinite neg else decimal_number neg u))"

lemma round_double_nat:
  assumes "n < 2 ^ 53"
  shows "\<exists>m k. round_double False n 1 = Double m k \<and> m \<ge> 0 \<and> double_floor (Double m k) = int n"
proof (cases "n = 0")
  case False
  then have b: "2 ^ ilog2 n \<le> n" using ilog2_bounds by simp
  have l: "leading_bit n 1 = int (ilog2 n)"
    using b by (simp add: leading_bit_def ilog2.simps [of "Suc 0"] Let_def)
  have "(2::nat) ^ ilog2 n < 2 ^ 53" using b assms by linarith
  then have e: "ilog2 n \<le> 52" by (metis less_Suc_eq_le eval_nat_numeral(3) numeral_less_iff power_less_imp_less_exp
        rel_simps(49) semiring_norm(76) numeral_eq_Suc Suc_numeral semiring_norm(5) one_less_numeral_iff)
  define d where "d = 52 - ilog2 n"
  have k: "max (- 1074) (leading_bit n 1 - 52) = - int d" using e l by (simp add: d_def)
  have r: "round_half_even (n * 2 ^ d) 1 = n * 2 ^ d" by (simp add: round_half_even_def)
  have "round_double False n 1 = Double (int n * 2 ^ d) (- int d)"
  proof (cases "d = 0")
    case True
    then show ?thesis using False assms
      unfolding round_double_def k Let_def by (simp add: round_half_even_def)
  next
    case d: False
    then show ?thesis using False r unfolding round_double_def k Let_def by simp
  qed
  then show ?thesis by (simp add: double_floor_def)
qed (simp add: round_double_def)

lemma js_number_nat:
  assumes "n < 2 ^ 53"
  shows "\<exists>m k. js_number (nat_to_string n) = Double m k \<and> m \<ge> 0 \<and> double_floor (Double m k) = int n"
proof -
  let ?s = "nat_to_string n"
  have digits: "list_all is_digit ?s" by (rule nat_to_string_digits)
  then have nws: "\<not> is_ws c" if "c \<in> set ?s" for c
    using that by (auto simp: list_all_iff is_digit_def is_ws_def Let_def)
  have trim: "js_trim ?s = ?s" by (rule js_trim_id) (simp add: nws)
  have second: "\<not> prefix [CHR ''0'', c] ?s" if "\<not> is_digit c" for c
    using digits that by (auto simp: prefix_def)
  have h: "is_digit (hd ?s)" using digits by (cases ?s) simp_all
  have d: "takeWhile is_digit ?s = ?s" "dropWhile is_digit ?s = []"
    using digits by (simp_all add: list_all_iff takeWhile_eq_all_conv)
  have "hd ?s \<noteq> CHR ''-''" "hd ?s \<noteq> CHR ''+''" using h by (auto simp: is_digit_def)
  moreover have "?s \<noteq> ''Infinity''" using h by (auto simp: is_digit_def)
  ultimately have "js_number ?s = decimal_number False ?s"
    using second by (simp add: js_number_def trim is_digit_def)
  also have "\<dots> = round_double False n 1"
    by (simp add: decimal_number_def d exponent_part_def Let_def)
  finally show ?thesis using round_double_nat [OF assms] by simp
qed

section \<open>String(value)\<close>

text \<open>Arrays join their elements with commas, \<open>null\<close> and \<open>undefined\<close> elements are empty.\<close>

fun js_string :: "json \<Rightarrow> string" where
  "js_string JUndef = ''undefined''"
| "js_string JNull = ''null''"
| "js_string (JBool b) = (if b then ''true'' else ''false'')"
| "js_string (JNum n) = int_to_string n"
| "js_string (JStr s) = s"
| "js_string (JArr xs) = js_join '','' (map (\<lambda>x. if x = JUndef \<or> x = JNull then [] else js_string x) xs)"
| "js_string (JObj kvs) = ''[object Object]''"

section \<open>encodeURIComponent\<close>

definition upper_hex :: "nat \<Rightarrow> char" where
  "upper_hex n = (if n < 10 then char_of (48 + n) else char_of (55 + n))"

definition percent_byte :: "nat \<Rightarrow> string" where
  "percent_byte n = [CHR ''%'', upper_hex (n div 16), upper_hex (n mod 16)]"

definition uri_unreserved :: "char \<Rightarrow> bool" where
  "uri_unreserved c \<longleftrightarrow> (let n = of_char c :: nat in
     (48 \<le> n \<and> n \<le> 57) \<or> (65 \<le> n \<and> n \<le> 90) \<or> (97 \<le> n \<and> n \<le> 122)) \<or> c \<in> set ''-_.!~*'' \<or>
     (of_char c :: nat) \<in> {39, 40, 41}"

text \<open>UTF-8 of a code unit below U+0100, percent-encoded.\<close>

definition encode_char :: "char \<Rightarrow> string" where
  "encode_char c = (let n = of_char c :: nat in
     if uri_unreserved c then [c] else if n < 128 then percent_byte n
     else percent_byte (192 + n div 64) @ percent_byte (128 + n mod 64))"

definition encodeURIComponent :: "string \<Rightarrow> string" where
  "encodeURIComponent s = concat (map encode_char s)"

lemma encode_char_no_slash: "CHR ''/'' \<notin> set (encode_char c)"
proof -
  have hex: "upper_hex n \<noteq> CHR ''/''" if "n < 16" for n
  proof
    assume a: "upper_hex n = CHR ''/''"
    have "(of_char (upper_hex n) :: nat) = (if n < 10 then 48 + n else 55 + n)"
      using that by (simp add: upper_hex_def)
    then show False using that by (simp add: a split: if_splits)
  qed
  have u: "\<not> uri_unreserved (CHR ''/'')" by (simp add: uri_unreserved_def)
  have n: "(of_char c :: nat) < 256" by simp
  have "CHR ''/'' \<notin> set (percent_byte k)" if "k < 256" for k
  proof -
    have "k div 16 < 16" "k mod 16 < 16" using that by auto
    then show ?thesis by (simp add: percent_byte_def hex not_sym [OF hex])
  qed
  moreover have "192 + of_char c div 64 < (256::nat)" "128 + of_char c mod 64 < (256::nat)"
    using n less_mult_imp_div_less [of "of_char c" 4 64] mod_less_divisor [of 64 "of_char c"] by linarith+
  ultimately show ?thesis using n u by (auto simp: encode_char_def Let_def)
qed

lemma encodeURIComponent_no_slash: "CHR ''/'' \<notin> set (encodeURIComponent s)"
  by (auto simp: encodeURIComponent_def encode_char_no_slash)

section \<open>new Date(text)\<close>

text \<open>
  A text that is not in the format of the language is read by the heuristics of the engine, which
  the parameter \<open>legacy\<close> stands for.
\<close>

definition date_value :: "(string \<Rightarrow> int option) \<Rightarrow> string \<Rightarrow> int option" where
  "date_value legacy s = (case date_parse s of Some t \<Rightarrow> Some t | None \<Rightarrow> legacy s)"

lemma date_value_iso [simp]: "date_parse s = Some t \<Longrightarrow> date_value legacy s = Some t"
  by (simp add: date_value_def)

end
