(* ===== verification/WhatsAppTransport.thy ===== *)
theory WhatsAppTransport
  imports OutboxProcess JS_Text
begin

text \<open>
  The WhatsApp transport of the outbox worker (\<open>lib/brain/messaging/whatsapp-transport\<close>): the
  validation of a message, the request to the Graph API, the reading of its answer, and the class
  \<open>WhatsAppMessageTransport\<close> over an HTTP client.  The SHA-256 digest is the parameter \<open>digest\<close>,
  the engine's reading of dates that are not in the ISO format the parameter \<open>legacy\<close>.
  A value \<open>undefined\<close> of an optional field is \<open>None\<close>; the numbers of the configuration are
  doubles, for the code asks whether they are finite.
\<close>

section \<open>Types\<close>

record whatsapp_config =
  wa_enabled :: bool
  wa_sandbox :: bool
  wa_graphBaseUrl :: string
  wa_graphApiVersion :: string
  wa_phoneNumberId :: string
  wa_accessToken :: string
  wa_timeoutMs :: js_double
  wa_allowedRecipients :: "string list"
  wa_requireExactWhitelistMatch :: bool
  wa_maxTextLength :: js_double

text \<open>The argument of \<open>postJson\<close> and its answer; headers in the order of \<open>Object.entries\<close>.\<close>

record http_post =
  hp_url :: string
  hp_headers :: "(string \<times> string) list"
  hp_body :: json
  hp_timeoutMs :: int
  hp_requestId :: string

record http_response =
  hr_statusCode :: int
  hr_headers :: "(string \<times> string) list"
  hr_body :: json
  hr_completedAt :: string

text \<open>
  What the client rejects with: an \<open>Error\<close> with the fields \<open>kind\<close> and \<open>providerMessageId\<close> it
  may have, or any other value.
\<close>

datatype client_exception = Client_error string "string option" "string option" | Thrown_value json

type_synonym 'h http_client = "http_post \<Rightarrow> 'h \<Rightarrow> (client_exception + http_response) \<times> 'h"

record request_audit =
  ra_recipientMasked :: string
  ra_commandId :: string
  ra_idempotencyKey :: string
  ra_sandbox :: bool

record provider_request =
  wr_requestId :: string
  wr_url :: string
  wr_method :: string
  wr_headers :: "(string \<times> string) list"
  wr_body :: json
  wr_timeoutMs :: int
  wr_audit :: request_audit

record transport_validation =
  wv_ok :: bool
  wv_requestId :: "string option"
  wv_normalizedRecipient :: "string option"
  wv_recipientMasked :: "string option"
  wv_errorCode :: "transport_error option"
  wv_errorMessageSafe :: "string option"
  wv_warnings :: "string list"

record classification_context =
  wc_requestId :: string
  wc_commandId :: string
  wc_idempotencyKey :: string
  wc_attemptedAt :: string
  wc_recipientMasked :: string
  wc_sandbox :: bool
  wc_simulated :: bool

record transport_trace =
  wt_requestId :: string
  wt_commandId :: string
  wt_recipientMasked :: string
  wt_attemptedAt :: string
  wt_completedAt :: string
  wt_httpStatus :: "int option"
  wt_resultStatus :: transport_status
  wt_errorCode :: transport_error
  wt_providerMessageId :: "string option"
  wt_sandbox :: bool
  wt_simulated :: bool

record request_summary =
  rq_requestId :: string
  rq_commandId :: string
  rq_idempotencyKey :: string
  rq_url :: string
  rq_method :: string
  rq_recipientMasked :: string
  rq_sandbox :: bool
  rq_timeoutMs :: int
  rq_bodyLength :: nat

record provider_error_details =
  ed_providerCode :: "string option"
  ed_providerSubcode :: "string option"
  ed_safeMessage :: "string option"
  ed_traceIdMasked :: "string option"

section \<open>Constants and helpers\<close>

definition WHATSAPP_TRANSPORT_PROVIDER_NAME :: string where
  "WHATSAPP_TRANSPORT_PROVIDER_NAME = ''whatsapp_cloud_api''"

definition buildStableWhatsAppDigest :: "(string \<Rightarrow> string) \<Rightarrow> json \<Rightarrow> string" where
  "buildStableWhatsAppDigest digest payload = digest (json_stringify payload)"

definition buildWhatsAppRequestId :: "(string \<Rightarrow> string) \<Rightarrow> string \<Rightarrow> string \<Rightarrow> string" where
  "buildWhatsAppRequestId digest commandId idempotencyKey = ''whatsapp-request:'' @ take 24
     (buildStableWhatsAppDigest digest
       (JObj [(''commandId'', JStr commandId), (''idempotencyKey'', JStr idempotencyKey)]))"

definition buildFakeWhatsAppProviderMessageId :: "(string \<Rightarrow> string) \<Rightarrow> string \<Rightarrow> string \<Rightarrow> string \<Rightarrow> string" where
  "buildFakeWhatsAppProviderMessageId digest requestId commandId idempotencyKey = ''wamid.fake:'' @ take 24
     (buildStableWhatsAppDigest digest (JObj [(''requestId'', JStr requestId), (''commandId'', JStr commandId),
       (''idempotencyKey'', JStr idempotencyKey)]))"

text \<open>\<open>value.trim()\<close>, the class \<open>[\d\s()+-]\<close>, the separators removed, the leading plus signs removed.\<close>

definition phone_char :: "char \<Rightarrow> bool" where
  "phone_char c \<longleftrightarrow> is_digit c \<or> is_ws c \<or> c = CHR ''('' \<or> c = CHR '')'' \<or> c = CHR ''+'' \<or> c = CHR ''-''"

definition phone_separator :: "char \<Rightarrow> bool" where
  "phone_separator c \<longleftrightarrow> is_ws c \<or> c = CHR ''('' \<or> c = CHR '')'' \<or> c = CHR ''-''"

definition normalizeWhatsAppRecipientDigits :: "string option \<Rightarrow> string option" where
  "normalizeWhatsAppRecipientDigits value = (case value of None \<Rightarrow> None | Some v \<Rightarrow>
    (let trimmed = js_trim v
     in if trimmed = [] then None
        else if \<not> list_all phone_char trimmed then None
        else
          (let stripped = dropWhile (\<lambda>c. c = CHR ''+'') (filter (\<lambda>c. \<not> phone_separator c) trimmed)
           in if stripped \<noteq> [] \<and> list_all is_digit stripped then Some stripped else None)))"

definition maskWhatsAppRecipient :: "string option \<Rightarrow> string option" where
  "maskWhatsAppRecipient value = maskWaId (normalizeWhatsAppRecipientDigits value)"

definition normalizeWhatsAppUrlSegment :: "string option \<Rightarrow> string" where
  "normalizeWhatsAppUrlSegment value =
    (let slash = (\<lambda>c. c = CHR ''/'') in
     rev (dropWhile slash (rev (dropWhile slash (js_trim (case value of None \<Rightarrow> [] | Some v \<Rightarrow> v))))))"

definition long_token_regex :: regex where
  "long_token_regex = (let token = RClass (\<lambda>c. is_word c \<or> c = CHR ''='' \<or> c = CHR ''-'')
     in rseqs (RWordBoundary # replicate 24 token @ [RStar token, RWordBoundary]))"

definition sanitizeWhatsAppTokenLikeValue :: "string \<Rightarrow> string" where
  "sanitizeWhatsAppTokenLikeValue value =
     regex_replace_all long_token_regex (\<lambda>_. ''[redacted]'')
      (regex_replace_all bearer_regex (\<lambda>_. ''Bearer [redacted]'')
       (regex_replace_all line_break_regex (\<lambda>_. '' '') value))"

section \<open>Validation\<close>

definition isValidTimestamp :: "(string \<Rightarrow> int option) \<Rightarrow> string option \<Rightarrow> bool" where
  "isValidTimestamp legacy value = (case value of None \<Rightarrow> False | Some v \<Rightarrow> date_value legacy v \<noteq> None)"

text \<open>\<open>JSON.parse\<close> accepts the text and gives an object or an array.\<close>

definition parses_to_object :: "string \<Rightarrow> bool" where
  "parses_to_object s \<longleftrightarrow> json_text s \<and>
     (case skip_ws s of [] \<Rightarrow> False | c # _ \<Rightarrow> c = CHR 0x7B \<or> c = CHR ''['')"

definition json_marks :: "string list" where
  "json_marks = map (\<lambda>k. [CHR 0x22] @ k @ [CHR 0x22]) [''messaging_product'', ''recipient_type'', ''preview_url'']"

definition isRawJsonLikeMessage :: "string \<Rightarrow> bool" where
  "isRawJsonLikeMessage message =
    (let trimmed = js_trim message
     in if trimmed = [] then False
        else if js_starts_with trimmed [CHR 0x7B] \<or> js_starts_with trimmed ''['' then True
        else if list_ex (js_includes trimmed) json_marks then True
        else parses_to_object trimmed)"

definition wa_placeholder_regex :: regex where
  "wa_placeholder_regex = ralts
     [rseqs [rlit [CHR 0x7B, CHR 0x7B], rplus (rnot_in [CHR 0x7D]), rlit [CHR 0x7D, CHR 0x7D]],
      rseqs [rlit [CHR ''$'', CHR 0x7B], rplus (rnot_in [CHR 0x7D]), rlit [CHR 0x7D]],
      rseqs [rlit ''<<'', rplus (rnot_in ''>''), rlit ''>>'']]"

definition wa_hasUnresolvedPlaceholder :: "string \<Rightarrow> bool" where
  "wa_hasUnresolvedPlaceholder message = regex_test wa_placeholder_regex message"

definition credential_word_regex :: regex where
  "credential_word_regex = rseqs [RWordBoundary,
     ralts [rseqs [rlit_i ''access'', ropt (RClass (\<lambda>c. c = CHR ''_'' \<or> c = CHR ''-'')), rlit_i ''token''],
       rlit_i ''authorization'', rlit_i ''password'', rlit_i ''secret''],
     RWordBoundary]"

definition hasCredentialLikeContent :: "string \<Rightarrow> bool" where
  "hasCredentialLikeContent message = (regex_test bearer_regex message \<or> regex_test credential_word_regex message)"

definition buildFailureResult ::
  "string option \<Rightarrow> string option \<Rightarrow> transport_error \<Rightarrow> string \<Rightarrow> transport_validation" where
  "buildFailureResult requestId recipientMasked errorCode errorMessageSafe =
     \<lparr>wv_ok = False, wv_requestId = requestId, wv_normalizedRecipient = None, wv_recipientMasked = recipientMasked,
      wv_errorCode = Some errorCode, wv_errorMessageSafe = Some errorMessageSafe,
      wv_warnings = filter (\<lambda>w. w \<noteq> []) [errorMessageSafe]\<rparr>"

definition normalized_allowed :: "string list \<Rightarrow> string list" where
  "normalized_allowed allowedRecipients = filter (\<lambda>v. v \<noteq> [])
     (List.map_filter (\<lambda>v. normalizeWhatsAppRecipientDigits (Some v)) allowedRecipients)"

definition isExactWhitelistMatch :: "string \<Rightarrow> string list \<Rightarrow> bool" where
  "isExactWhitelistMatch recipient allowedRecipients \<longleftrightarrow> recipient \<in> set (normalized_allowed allowedRecipients)"

definition normalizeWhatsAppRecipient :: "string \<Rightarrow> string option" where
  "normalizeWhatsAppRecipient value =
    (let trimmed = js_trim value
     in if trimmed = [] then None
        else if \<not> list_all phone_char trimmed then None
        else
          (let stripped = dropWhile (\<lambda>c. c = CHR ''+'') (filter (\<lambda>c. \<not> phone_separator c) trimmed)
           in if stripped \<noteq> [] \<and> list_all is_digit stripped then Some stripped else None))"

text \<open>
  The checks of \<open>validateWhatsAppTransportInput\<close> after the whitelist, in the order of the code: the
  text of the message, the configuration and the time.  The second test of the recipient in
  between can no longer fail.
\<close>

definition check_text :: "whatsapp_config \<Rightarrow> string option \<Rightarrow> (transport_error \<times> string) option" where
  "check_text config messageText = (case messageText of
      None \<Rightarrow> Some (Te_invalid_payload, ''messageText is required.'')
    | Some text \<Rightarrow>
        if int_exceeds (int (length text)) (wa_maxTextLength config)
        then Some (Te_invalid_payload, ''messageText exceeds the configured maximum length.'')
        else if wa_hasUnresolvedPlaceholder text
        then Some (Te_invalid_payload, ''messageText contains unresolved placeholders.'')
        else if isRawJsonLikeMessage text
        then Some (Te_invalid_payload, ''messageText must not contain a raw JSON payload.'')
        else if hasCredentialLikeContent text
        then Some (Te_invalid_payload, ''messageText contains blocked credential-like content.'')
        else None)"

definition check_config :: "(string \<Rightarrow> int option) \<Rightarrow> whatsapp_config \<Rightarrow> string option \<Rightarrow> (transport_error \<times> string) option" where
  "check_config legacy config attemptedAt =
    (if js_trim (wa_graphBaseUrl config) = [] \<or> js_trim (wa_graphApiVersion config) = [] \<or> js_trim (wa_phoneNumberId config) = []
     then Some (Te_invalid_payload, ''WhatsApp Graph configuration is incomplete.'')
     else if js_trim (wa_accessToken config) = []
     then Some (Te_authentication_error, ''WhatsApp access token is required.'')
     else if \<not> is_finite (wa_timeoutMs config) \<or> \<not> double_pos (wa_timeoutMs config)
     then Some (Te_invalid_payload, ''timeoutMs must be a positive finite number.'')
     else if \<not> isValidTimestamp legacy attemptedAt
     then Some (Te_invalid_payload, ''attemptedAt must be a valid ISO timestamp.'')
     else None)"

definition validateWhatsAppTransportInput ::
  "(string \<Rightarrow> string) \<Rightarrow> (string \<Rightarrow> int option) \<Rightarrow> transport_request \<Rightarrow> whatsapp_config \<Rightarrow> transport_validation" where
  "validateWhatsAppTransportInput digest legacy input config =
    (let commandId = asText (Some (tq_commandId input));
         idempotencyKey = asText (Some (tq_idempotencyKey input));
         recipientMasked = maskWaId (Some (tq_recipient input));
         requestedRecipient = asText (Some (tq_recipient input));
         messageText = asText (Some (tq_messageText input));
         attemptedAt = asText (Some (tq_attemptedAt input));
         requestId = (case (commandId, idempotencyKey) of
             (Some c, Some k) \<Rightarrow> Some (buildWhatsAppRequestId digest c k) | _ \<Rightarrow> None);
         failure = buildFailureResult requestId recipientMasked
     in if \<not> wa_enabled config then failure Te_policy_rejected ''WhatsApp transport is disabled.''
        else if \<not> wa_sandbox config \<or> \<not> tq_sandbox input
        then failure Te_policy_rejected ''Sandbox mode is required for WhatsApp transport.''
        else if \<not> wa_requireExactWhitelistMatch config
        then failure Te_policy_rejected ''Exact recipient whitelist matching is required.''
        else if commandId = None then failure Te_invalid_payload ''commandId is required.''
        else if idempotencyKey = None then failure Te_invalid_payload ''idempotencyKey is required.''
        else if tq_channel input \<noteq> ''whatsapp'' then failure Te_invalid_payload ''Only the whatsapp channel is supported.''
        else if tq_commandType input \<noteq> ''whatsapp_text''
        then failure Te_invalid_payload ''Only whatsapp_text commands are supported.''
        else (case requestedRecipient of
            None \<Rightarrow> buildFailureResult requestId None Te_invalid_recipient ''Recipient is required.''
          | Some requested \<Rightarrow> (case normalizeWhatsAppRecipient requested of
              None \<Rightarrow> failure Te_invalid_recipient ''Recipient format is invalid.''
            | Some recipient \<Rightarrow>
                (let late = buildFailureResult requestId (maskWaId (Some recipient))
                 in if normalized_allowed (wa_allowedRecipients config) = [] \<or>
                       \<not> isExactWhitelistMatch recipient (wa_allowedRecipients config)
                    then late Te_invalid_recipient ''Recipient is not whitelisted.''
                    else (case check_text config messageText of
                        Some (code, message) \<Rightarrow> late code message
                      | None \<Rightarrow> (case check_config legacy config attemptedAt of
                          Some (code, message) \<Rightarrow> late code message
                        | None \<Rightarrow> \<lparr>wv_ok = True, wv_requestId = requestId, wv_normalizedRecipient = Some recipient,
                            wv_recipientMasked = maskWaId (Some recipient), wv_errorCode = None,
                            wv_errorMessageSafe = None, wv_warnings = []\<rparr>))))))"

section \<open>The request\<close>

definition buildAuthorizationHeader :: "string \<Rightarrow> string" where
  "buildAuthorizationHeader accessToken = ''Bearer '' @ js_trim accessToken"

definition message_body :: "string \<Rightarrow> string \<Rightarrow> json" where
  "message_body recipient body = JObj
     [(''messaging_product'', JStr ''whatsapp''), (''recipient_type'', JStr ''individual''), (''to'', JStr recipient),
      (''type'', JStr ''text''), (''text'', JObj [(''preview_url'', JBool False), (''body'', JStr body)])]"

definition buildWhatsAppTextRequest ::
  "(string \<Rightarrow> string) \<Rightarrow> transport_request \<Rightarrow> whatsapp_config \<Rightarrow> provider_request result" where
  "buildWhatsAppTextRequest digest input config = (case normalizeWhatsAppRecipient (tq_recipient input) of
      None \<Rightarrow> Inl (Error ''invalid_recipient'')
    | Some recipient \<Rightarrow>
        (let commandId = js_trim (tq_commandId input); idempotencyKey = js_trim (tq_idempotencyKey input);
             baseUrl = normalizeWhatsAppUrlSegment (Some (wa_graphBaseUrl config));
             apiVersion = normalizeWhatsAppUrlSegment (Some (wa_graphApiVersion config));
             phoneNumberId = normalizeWhatsAppUrlSegment (Some (wa_phoneNumberId config))
         in Inr \<lparr>wr_requestId = buildWhatsAppRequestId digest commandId idempotencyKey,
              wr_url = baseUrl @ ''/'' @ apiVersion @ ''/'' @ encodeURIComponent phoneNumberId @ ''/messages'',
              wr_method = ''POST'',
              wr_headers = [(''Authorization'', buildAuthorizationHeader (wa_accessToken config)),
                (''Content-Type'', ''application/json''), (''X-Idempotency-Key'', idempotencyKey)],
              wr_body = message_body recipient (js_trim (tq_messageText input)),
              wr_timeoutMs = double_floor (wa_timeoutMs config),
              wr_audit = \<lparr>ra_recipientMasked = (case maskWhatsAppRecipient (Some recipient) of None \<Rightarrow> [] | Some m \<Rightarrow> m),
                ra_commandId = commandId, ra_idempotencyKey = idempotencyKey, ra_sandbox = True\<rparr>\<rparr>))"

definition buildSafeWhatsAppRequestSummary :: "provider_request \<Rightarrow> request_summary" where
  "buildSafeWhatsAppRequestSummary request =
     \<lparr>rq_requestId = wr_requestId request, rq_commandId = ra_commandId (wr_audit request),
      rq_idempotencyKey = ra_idempotencyKey (wr_audit request), rq_url = wr_url request, rq_method = wr_method request,
      rq_recipientMasked = ra_recipientMasked (wr_audit request), rq_sandbox = True, rq_timeoutMs = wr_timeoutMs request,
      rq_bodyLength = length (json_stringify (wr_body request))\<rparr>"

section \<open>Provider errors\<close>

text \<open>\<open>asTrimmedString\<close> on a value of type \<open>unknown\<close>.\<close>

definition json_text_value :: "json \<Rightarrow> string option" where
  "json_text_value value = (case value of JStr s \<Rightarrow> asText (Some s) | _ \<Rightarrow> None)"

definition maskTraceId :: "string option \<Rightarrow> string option" where
  "maskTraceId value = (case value of None \<Rightarrow> None | Some v \<Rightarrow>
    (let n = length v
     in if v = [] then None
        else if n \<le> 6 then Some (take 1 v @ replicate (n - 2) CHR ''*'' @ drop (n - 1) v)
        else Some (take 3 v @ replicate (n - 6) CHR ''*'' @ drop (n - 3) v)))"

definition keyed_secret_regex :: regex where
  "keyed_secret_regex = (let quote = ropt (RClass (\<lambda>c. c = CHR 0x22));
       token = RClass (\<lambda>c. is_word c \<or> c = CHR ''.'' \<or> c = CHR ''-'')
     in rseqs ([quote, ralts [rlit_i ''authorization'', rlit_i ''token'', rlit_i ''secret'', rlit_i ''password''], quote,
          RStar (RClass is_ws), RClass (\<lambda>c. c = CHR '':'' \<or> c = CHR ''=''), RStar (RClass is_ws), quote] @
          replicate 8 token @ [RStar token, quote]))"

text \<open>The group \<open>$1\<close>: the key word, which ends before a quote, a blank, a colon or an equals sign.\<close>

definition secret_key_group :: "string \<Rightarrow> string" where
  "secret_key_group m = takeWhile is_word (if m \<noteq> [] \<and> hd m = CHR 0x22 then tl m else m)"

definition stack_trace_regex :: regex where
  "stack_trace_regex = rseqs [RWordBoundary, rlit_i ''stack'', rplus (RClass is_ws), rlit_i ''trace'', RWordBoundary]"

definition blanks_regex :: regex where
  "blanks_regex = rseqs [RClass is_ws, RClass is_ws, RStar (RClass is_ws)]"

definition redact_provider :: "string \<Rightarrow> string" where
  "redact_provider raw =
     js_trim
      (regex_replace_all blanks_regex (\<lambda>_. '' '')
       (regex_replace_all stack_trace_regex (\<lambda>_. ''[redacted]'')
        (regex_replace_all keyed_secret_regex (\<lambda>m. secret_key_group m @ ''=[redacted]'')
         (regex_replace_all long_number_regex (\<lambda>_. ''[redacted]'')
          (regex_replace_all bearer_regex (\<lambda>_. ''Bearer [redacted]'')
           (regex_replace_all line_break_regex (\<lambda>_. '' '') raw))))))"

text \<open>The limit is the default of the parameter; no caller gives another.\<close>

definition sanitizeWhatsAppProviderError :: "json \<Rightarrow> string option" where
  "sanitizeWhatsAppProviderError input =
    (if is_nullish input then None
     else
       (let raw = (case input of JStr s \<Rightarrow> s | _ \<Rightarrow> if is_record input then json_stringify input else js_string input);
            sanitized = redact_provider raw
        in if sanitized = [] then None
           else Some (if length sanitized > 240 then take 237 sanitized @ ''...'' else sanitized)))"

definition extractSafeWhatsAppProviderError :: "json \<Rightarrow> provider_error_details" where
  "extractSafeWhatsAppProviderError body =
    (if \<not> is_record body
     then \<lparr>ed_providerCode = None, ed_providerSubcode = None, ed_safeMessage = sanitizeWhatsAppProviderError body,
       ed_traceIdMasked = None\<rparr>
     else
       (let error = (if is_record (jget body ''error'') then jget body ''error'' else JNull)
        in \<lparr>ed_providerCode = json_text_value (jget error ''code''),
            ed_providerSubcode = json_text_value (jget error ''error_subcode''),
            ed_safeMessage = sanitizeWhatsAppProviderError
              (nullish_or (jget error ''message'') (nullish_or (jget error ''error_data'') body)),
            ed_traceIdMasked = maskTraceId (json_text_value (jget error ''fbtrace_id''))\<rparr>))"

section \<open>Reading the answer\<close>

fun getHeader :: "(string \<times> string) list \<Rightarrow> string \<Rightarrow> string option" where
  "getHeader [] name = None"
| "getHeader ((key, value) # headers) name =
    (if js_lower key = js_lower name \<and> asText (Some value) \<noteq> None then asText (Some value) else getHeader headers name)"

definition parseRetryAfterSeconds :: "(string \<Rightarrow> int option) \<Rightarrow> string option \<Rightarrow> string \<Rightarrow> int option" where
  "parseRetryAfterSeconds legacy value referenceTime = (case value of None \<Rightarrow> None | Some v \<Rightarrow>
    (if v = [] then None
     else if is_finite (js_number v) \<and> double_nonneg (js_number v) then Some (double_floor (js_number v))
     else (case (date_value legacy v, date_value legacy referenceTime) of
         (Some parsed, Some reference) \<Rightarrow> Some (max 0 ((parsed - reference) div 1000))
       | _ \<Rightarrow> None)))"

definition first_message :: "json \<Rightarrow> json" where
  "first_message body = (case jget body ''messages'' of JArr (first # _) \<Rightarrow> first | _ \<Rightarrow> JUndef)"

definition extractProviderMessageId :: "json \<Rightarrow> string option" where
  "extractProviderMessageId body = (if is_record body \<and> is_record (first_message body)
     then json_text_value (jget (first_message body) ''id'') else None)"

definition hasExplicitDuplicateSignal :: "json \<Rightarrow> bool" where
  "hasExplicitDuplicateSignal body \<longleftrightarrow> is_record body \<and>
     (jget body ''duplicate_accepted'' = JBool True \<or> jget body ''status'' = JStr ''duplicate_accepted'' \<or>
      (is_record (first_message body) \<and> jget (first_message body) ''duplicate_accepted'' = JBool True))"

text \<open>\<open>buildResult\<close>: the positions are the fields in the order of the code.\<close>

definition build_result ::
  "transport_status \<Rightarrow> string option \<Rightarrow> string option \<Rightarrow> transport_error \<Rightarrow> string option \<Rightarrow> int option \<Rightarrow>
   string option \<Rightarrow> string \<Rightarrow> bool \<Rightarrow> transport_result" where
  "build_result status providerMessageId providerRequestId errorCode errorMessageSafe retryAfterSeconds acceptedAt
     completedAt simulated =
     \<lparr>tr_status = status, tr_providerMessageId = providerMessageId, tr_providerRequestId = providerRequestId,
      tr_errorCode = errorCode, tr_errorMessageSafe = errorMessageSafe, tr_retryAfterSeconds = retryAfterSeconds,
      tr_acceptedAt = acceptedAt, tr_completedAt = completedAt,
      tr_metadata = \<lparr>tm_provider = ''whatsapp_cloud_api'', tm_sandbox = True, tm_simulated = simulated\<rparr>\<rparr>"

definition or_text :: "string option \<Rightarrow> string \<Rightarrow> string option" where
  "or_text v d = (case v of None \<Rightarrow> Some d | Some s \<Rightarrow> Some s)"

definition bad_request_code :: "string option \<Rightarrow> transport_error" where
  "bad_request_code code = (if code = Some ''invalid_recipient'' then Te_invalid_recipient
     else if code = Some ''invalid_payload'' then Te_invalid_payload
     else if code = Some ''policy_rejected'' then Te_policy_rejected else Te_unknown)"

definition classifyHttpStatus ::
  "(string \<Rightarrow> int option) \<Rightarrow> http_response \<Rightarrow> classification_context \<Rightarrow> transport_result" where
  "classifyHttpStatus legacy response context =
    (let status = hr_statusCode response; completedAt = hr_completedAt response;
         providerRequestId = (case getHeader (hr_headers response) ''x-request-id'' of Some r \<Rightarrow> Some r
           | None \<Rightarrow> (case getHeader (hr_headers response) ''x-fb-request-id'' of Some r \<Rightarrow> Some r
             | None \<Rightarrow> Some (wc_requestId context)));
         safeError = extractSafeWhatsAppProviderError (hr_body response);
         message = ed_safeMessage safeError;
         providerMessageId = extractProviderMessageId (hr_body response);
         duplicateSignal = hasExplicitDuplicateSignal (hr_body response);
         duplicate = build_result Tr_duplicate_accepted providerMessageId providerRequestId Te_provider_duplicate message None
           (if providerMessageId \<noteq> None then Some completedAt else None) completedAt (wc_simulated context);
         failed = (\<lambda>outcome code fallback retryAfter. build_result outcome None providerRequestId code
           (or_text message fallback) retryAfter None completedAt (wc_simulated context))
     in if 200 \<le> status \<and> status < 300 then
          (if duplicateSignal then duplicate
           else if providerMessageId = None
           then failed Tr_temporary_failure Te_unknown ''Accepted response missing provider message id.'' None
           else build_result Tr_accepted providerMessageId providerRequestId Te_none None None (Some completedAt)
             completedAt (wc_simulated context))
        else if status = 400 then
          failed Tr_permanent_failure
            (bad_request_code (case ed_providerCode safeError of Some c \<Rightarrow> Some c | None \<Rightarrow> ed_providerSubcode safeError))
            ''Bad request.'' None
        else if status = 401 then failed Tr_permanent_failure Te_authentication_error ''Authentication error.'' None
        else if status = 403 then failed Tr_permanent_failure Te_permission_error ''Permission error.'' None
        else if status = 404 then failed Tr_permanent_failure Te_invalid_payload ''Not found.'' None
        else if status = 408 then failed Tr_timeout Te_timeout ''Request timed out.'' None
        else if status = 409 then
          (if duplicateSignal \<or> ed_providerCode safeError = Some ''provider_duplicate'' \<or>
              ed_providerSubcode safeError = Some ''provider_duplicate''
           then duplicate else failed Tr_temporary_failure Te_unknown ''Conflict.'' None)
        else if status = 429 then
          failed Tr_rate_limited Te_rate_limited ''Rate limited.''
            (parseRetryAfterSeconds legacy (getHeader (hr_headers response) ''retry-after'') completedAt)
        else if 500 \<le> status \<and> status \<le> 599 then
          failed Tr_temporary_failure Te_provider_unavailable (''Provider HTTP '' @ int_to_string status @ ''.'') None
        else failed Tr_temporary_failure Te_unknown (''Provider HTTP '' @ int_to_string status @ ''.'') None)"

definition exception_message :: "client_exception \<Rightarrow> string" where
  "exception_message e = (case e of Client_error m _ _ \<Rightarrow> m
     | Thrown_value v \<Rightarrow> (case jget v ''message'' of JStr m \<Rightarrow> m | _ \<Rightarrow> js_string v))"

text \<open>The type of the cast promises a text or nothing in \<open>providerMessageId\<close>.\<close>

definition exception_provider_id :: "client_exception \<Rightarrow> string option" where
  "exception_provider_id e = (case e of Client_error _ _ p \<Rightarrow> p
     | Thrown_value v \<Rightarrow> (case jget v ''providerMessageId'' of JStr s \<Rightarrow> Some s | _ \<Rightarrow> None))"

definition kind_of_message :: "string \<Rightarrow> string" where
  "kind_of_message message = (let lower = js_lower message in
     if js_includes lower ''timeout'' \<or> js_includes lower ''aborted'' then ''timeout''
     else if js_includes lower ''network'' then ''network'' else ''unknown'')"

definition exception_kind :: "client_exception \<Rightarrow> json" where
  "exception_kind e = (let guess = JStr (kind_of_message (exception_message e)) in
     case e of Client_error _ k _ \<Rightarrow> (case k of Some k \<Rightarrow> JStr k | None \<Rightarrow> guess)
     | Thrown_value v \<Rightarrow> nullish_or (jget v ''kind'') guess)"

definition classifyClientException :: "client_exception \<Rightarrow> classification_context \<Rightarrow> transport_result" where
  "classifyClientException error context =
    (let kind = exception_kind error;
         failed = (\<lambda>status code. build_result status (exception_provider_id error) (Some (wc_requestId context)) code
           (Some (exception_message error)) None None (wc_attemptedAt context) (wc_simulated context))
     in if kind = JStr ''timeout'' then failed Tr_timeout Te_timeout
        else if kind = JStr ''network'' then failed Tr_temporary_failure Te_network_error
        else failed Tr_temporary_failure Te_unknown)"

section \<open>The transport\<close>

definition buildFailedResult :: "string \<Rightarrow> transport_error \<Rightarrow> string option \<Rightarrow> string option \<Rightarrow> transport_result" where
  "buildFailedResult attemptedAt errorCode errorMessageSafe providerRequestId =
     \<lparr>tr_status = Tr_permanent_failure, tr_providerMessageId = None, tr_providerRequestId = providerRequestId,
      tr_errorCode = errorCode, tr_errorMessageSafe = errorMessageSafe, tr_retryAfterSeconds = None,
      tr_acceptedAt = None, tr_completedAt = attemptedAt,
      tr_metadata = \<lparr>tm_provider = WHATSAPP_TRANSPORT_PROVIDER_NAME, tm_sandbox = True, tm_simulated = True\<rparr>\<rparr>"

definition send_context :: "transport_request \<Rightarrow> provider_request \<Rightarrow> classification_context" where
  "send_context input request =
     \<lparr>wc_requestId = wr_requestId request, wc_commandId = tq_commandId input, wc_idempotencyKey = tq_idempotencyKey input,
      wc_attemptedAt = tq_attemptedAt input, wc_recipientMasked = ra_recipientMasked (wr_audit request),
      wc_sandbox = True, wc_simulated = True\<rparr>"

definition post_of :: "provider_request \<Rightarrow> http_post" where
  "post_of request = \<lparr>hp_url = wr_url request, hp_headers = wr_headers request, hp_body = wr_body request,
     hp_timeoutMs = wr_timeoutMs request, hp_requestId = wr_requestId request\<rparr>"

definition whatsapp_send ::
  "(string \<Rightarrow> string) \<Rightarrow> (string \<Rightarrow> int option) \<Rightarrow> whatsapp_config \<Rightarrow> 'h http_client \<Rightarrow> 'h message_transport" where
  "whatsapp_send digest legacy config postJson sendInput h =
    (let validation = validateWhatsAppTransportInput digest legacy sendInput config
     in if \<not> wv_ok validation
        then (Inr (buildFailedResult (tq_attemptedAt sendInput)
            (case wv_errorCode validation of None \<Rightarrow> Te_unknown | Some c \<Rightarrow> c)
            (sanitizeWhatsAppProviderError (JStr (case wv_errorMessageSafe validation of
               None \<Rightarrow> ''Invalid WhatsApp transport input.'' | Some m \<Rightarrow> m)))
            (wv_requestId validation)), h)
        else case buildWhatsAppTextRequest digest sendInput config of
          Inl e \<Rightarrow> (Inl e, h)
        | Inr request \<Rightarrow> (case postJson (post_of request) h of
            (Inr response, h') \<Rightarrow> (Inr (classifyHttpStatus legacy response (send_context sendInput request)), h')
          | (Inl error, h') \<Rightarrow> (Inr (classifyClientException error (send_context sendInput request)), h')))"

definition buildTrace ::
  "(string \<Rightarrow> string) \<Rightarrow> (string \<Rightarrow> int option) \<Rightarrow> whatsapp_config \<Rightarrow> transport_result \<Rightarrow> transport_request \<Rightarrow> string \<Rightarrow> transport_trace" where
  "buildTrace digest legacy config res input completedAt =
    (let validation = validateWhatsAppTransportInput digest legacy input config
     in \<lparr>wt_requestId = (case wv_requestId validation of None \<Rightarrow> ''whatsapp-request:invalid'' | Some r \<Rightarrow> r),
         wt_commandId = tq_commandId input,
         wt_recipientMasked = (case wv_recipientMasked validation of None \<Rightarrow> [] | Some m \<Rightarrow> m),
         wt_attemptedAt = tq_attemptedAt input, wt_completedAt = completedAt, wt_httpStatus = None,
         wt_resultStatus = tr_status res, wt_errorCode = tr_errorCode res,
         wt_providerMessageId = tr_providerMessageId res, wt_sandbox = True, wt_simulated = True\<rparr>)"

definition buildRequestSummary :: "(string \<Rightarrow> string) \<Rightarrow> whatsapp_config \<Rightarrow> transport_request \<Rightarrow> request_summary result" where
  "buildRequestSummary digest config sendInput =
     bind_result (buildWhatsAppTextRequest digest sendInput config) (\<lambda>request. Inr (buildSafeWhatsAppRequestSummary request))"

end
