(* ===== verification/WhatsAppClient.thy ===== *)
theory WhatsAppClient
  imports WhatsAppTransport
begin

text \<open>
  The fake HTTP client of the WhatsApp transport (\<open>fakeWhatsAppHttpClient.ts\<close>): scenarios by
  request id, idempotency key or command id, a log of what was posted, and an answer per scenario.
\<close>

datatype http_scenario = Hs_accepted | Hs_malformed_success | Hs_invalid_recipient | Hs_invalid_payload
  | Hs_authentication_error | Hs_permission_error | Hs_policy_rejected | Hs_rate_limited | Hs_provider_unavailable
  | Hs_timeout | Hs_network_error | Hs_duplicate_accepted | Hs_unknown_error

record safe_log_entry =
  sl_requestId :: string
  sl_commandId :: string
  sl_idempotencyKey :: string
  sl_recipientMasked :: "string option"
  sl_messageLength :: nat
  sl_scenario :: http_scenario
  sl_statusCode :: int
  sl_completedAt :: string

record http_client_config =
  hc_scenarioByRequestId :: "(string \<times> http_scenario) list"
  hc_scenarioByCommandId :: "(string \<times> http_scenario) list"
  hc_scenarioByIdempotencyKey :: "(string \<times> http_scenario) list"
  hc_defaultScenario :: "http_scenario option"
  hc_explicitRetryAfterSeconds :: "int option"

record fake_http_client =
  fh_rawRequestsForTests :: "http_post list"
  fh_safeRequestLog :: "safe_log_entry list"
  fh_config :: http_client_config

definition new_fake_http_client :: "http_client_config \<Rightarrow> fake_http_client" where
  "new_fake_http_client config = \<lparr>fh_rawRequestsForTests = [], fh_safeRequestLog = [], fh_config = config\<rparr>"

fun scenarioStatusCode :: "http_scenario \<Rightarrow> int" where
  "scenarioStatusCode Hs_accepted = 200"
| "scenarioStatusCode Hs_duplicate_accepted = 200"
| "scenarioStatusCode Hs_malformed_success = 200"
| "scenarioStatusCode Hs_invalid_recipient = 400"
| "scenarioStatusCode Hs_invalid_payload = 400"
| "scenarioStatusCode Hs_policy_rejected = 400"
| "scenarioStatusCode Hs_authentication_error = 401"
| "scenarioStatusCode Hs_permission_error = 403"
| "scenarioStatusCode Hs_rate_limited = 429"
| "scenarioStatusCode Hs_provider_unavailable = 503"
| "scenarioStatusCode _ = 0"

text \<open>The body of an error: the message, the name as type and code, and the end of the message id as trace.\<close>

definition error_body :: "string \<Rightarrow> string \<Rightarrow> string \<Rightarrow> json" where
  "error_body providerMessageId message name = JObj [(''error'', JObj
     [(''message'', JStr message), (''type'', JStr name), (''code'', JStr name),
      (''fbtrace_id'', JStr (''fbtrace-'' @ drop (length providerMessageId - 12) providerMessageId))])]"

definition scenarioBody ::
  "(string \<Rightarrow> string) \<Rightarrow> http_scenario \<Rightarrow> string \<Rightarrow> string \<Rightarrow> string \<Rightarrow> string option \<Rightarrow> json" where
  "scenarioBody digest scenario requestId commandId idempotencyKey recipient =
    (let messageId = buildFakeWhatsAppProviderMessageId digest requestId commandId idempotencyKey;
         contacts = (''contacts'', JArr [JObj [(''input'', json_opt recipient), (''wa_id'', json_opt recipient)]]);
         product = (''messaging_product'', JStr ''whatsapp'')
     in case scenario of
       Hs_accepted \<Rightarrow> JObj [product, contacts, (''messages'', JArr [JObj [(''id'', JStr messageId)]])]
     | Hs_duplicate_accepted \<Rightarrow> JObj [product, (''duplicate_accepted'', JBool True), contacts,
         (''messages'', JArr [JObj [(''id'', JStr messageId), (''duplicate_accepted'', JBool True)]])]
     | Hs_malformed_success \<Rightarrow> JObj [product, contacts]
     | Hs_invalid_recipient \<Rightarrow> error_body messageId ''Invalid recipient.'' ''invalid_recipient''
     | Hs_invalid_payload \<Rightarrow> error_body messageId ''Invalid payload.'' ''invalid_payload''
     | Hs_authentication_error \<Rightarrow> error_body messageId ''Authentication error.'' ''authentication_error''
     | Hs_permission_error \<Rightarrow> error_body messageId ''Permission error.'' ''permission_error''
     | Hs_policy_rejected \<Rightarrow> error_body messageId ''Policy rejected.'' ''policy_rejected''
     | Hs_rate_limited \<Rightarrow> error_body messageId ''Rate limited.'' ''rate_limited''
     | Hs_provider_unavailable \<Rightarrow> error_body messageId ''Provider unavailable.'' ''provider_unavailable''
     | Hs_unknown_error \<Rightarrow> error_body messageId ''Unknown provider error.'' ''unknown_error''
     | Hs_timeout \<Rightarrow> JNull
     | Hs_network_error \<Rightarrow> JNull)"

definition buildHeaders :: "http_scenario \<Rightarrow> string \<Rightarrow> int option \<Rightarrow> (string \<times> string) list" where
  "buildHeaders scenario requestId explicitRetryAfterSeconds = (''x-request-id'', requestId) #
     (if scenario = Hs_rate_limited
      then [(''retry-after'', int_to_string (case explicitRetryAfterSeconds of None \<Rightarrow> 120 | Some n \<Rightarrow> n))] else [])"

text \<open>The first of several optional values.\<close>

fun first_some :: "'a option list \<Rightarrow> 'a option" where
  "first_some [] = None"
| "first_some (v # vs) = (case v of None \<Rightarrow> first_some vs | Some x \<Rightarrow> Some x)"

definition or_else :: "'a option list \<Rightarrow> 'a \<Rightarrow> 'a" where
  "or_else vs d = (case first_some vs of None \<Rightarrow> d | Some x \<Rightarrow> x)"

definition record_or_null :: "json \<Rightarrow> json" where
  "record_or_null v = (if is_record v then v else JNull)"

text \<open>The command id of a request: of the body, of its metadata, or the id of the request.\<close>

definition posted_commandId :: "http_post \<Rightarrow> string" where
  "posted_commandId input =
    (let body = record_or_null (hp_body input); metadata = record_or_null (jget body ''metadata'')
     in or_else [json_text_value (jget body ''commandId''), json_text_value (jget metadata ''commandId'')]
          (hp_requestId input))"

definition header_text :: "http_post \<Rightarrow> string \<Rightarrow> string option" where
  "header_text input name = asText (map_of (hp_headers input) name)"

definition resolveScenario :: "http_post \<Rightarrow> http_client_config \<Rightarrow> http_scenario" where
  "resolveScenario input config =
    (let body = record_or_null (hp_body input); commandId = posted_commandId input;
         idempotencyKey = or_else [header_text input ''X-Idempotency-Key'', header_text input ''x-idempotency-key'',
           json_text_value (jget body ''idempotencyKey'')] (hp_requestId input)
     in or_else [map_of (hc_scenarioByRequestId config) (hp_requestId input),
          map_of (hc_scenarioByIdempotencyKey config) idempotencyKey,
          map_of (hc_scenarioByCommandId config) commandId, hc_defaultScenario config] Hs_accepted)"

definition snapshotSafeLog :: "fake_http_client \<Rightarrow> safe_log_entry list" where
  "snapshotSafeLog client = fh_safeRequestLog client"

definition snapshotRawRequestsForTests :: "fake_http_client \<Rightarrow> http_post list" where
  "snapshotRawRequestsForTests client = fh_rawRequestsForTests client"

definition fake_postJson :: "(string \<Rightarrow> string) \<Rightarrow> fake_http_client http_client" where
  "fake_postJson digest input client =
    (let config = fh_config client;
         scenario = resolveScenario input config;
         body = record_or_null (hp_body input);
         commandId = posted_commandId input;
         idempotencyKey = or_else [header_text input ''X-Idempotency-Key'', header_text input ''x-idempotency-key''] (hp_requestId input);
         recipient = json_text_value (jget body ''to'');
         messageText = json_text_value (jget (record_or_null (jget body ''text'')) ''body'');
         completedAt = or_else [json_text_value (jget body ''completedAt'')] ''2026-06-17T12:00:00.000Z'';
         entry = \<lparr>sl_requestId = hp_requestId input, sl_commandId = commandId, sl_idempotencyKey = idempotencyKey,
           sl_recipientMasked = maskWhatsAppRecipient recipient,
           sl_messageLength = (case messageText of None \<Rightarrow> 0 | Some t \<Rightarrow> length t),
           sl_scenario = scenario, sl_statusCode = scenarioStatusCode scenario, sl_completedAt = completedAt\<rparr>;
         client' = client\<lparr>fh_rawRequestsForTests := fh_rawRequestsForTests client @ [input],
           fh_safeRequestLog := fh_safeRequestLog client @ [entry]\<rparr>
     in (case scenario of
         Hs_timeout \<Rightarrow> Inl (Client_error ''Fake WhatsApp request timed out.'' (Some ''timeout'') None)
       | Hs_network_error \<Rightarrow> Inl (Client_error ''Fake WhatsApp network error.'' (Some ''network'') None)
       | Hs_unknown_error \<Rightarrow> Inl (Client_error ''Fake WhatsApp unknown error.'' (Some ''unknown'') None)
       | _ \<Rightarrow> Inr \<lparr>hr_statusCode = scenarioStatusCode scenario,
           hr_headers = buildHeaders scenario (hp_requestId input) (hc_explicitRetryAfterSeconds config),
           hr_body = scenarioBody digest scenario (hp_requestId input) commandId idempotencyKey recipient,
           hr_completedAt = completedAt\<rparr>, client'))"

end
