(* ===== verification/OutboxBatch.thy ===== *)
theory OutboxBatch
  imports OutboxProcess
begin

text \<open>
  What the outbox worker guarantees, over the interfaces it uses: the calls of a transport
  (locales \<open>logged_transport\<close> and \<open>counted_transport\<close>), the rows of a repository (locale \<open>plan_repository\<close>), and their
  composition in a batch over the in-memory repository and its unit of work.
\<close>

section \<open>Sending\<close>

text \<open>
  A transport whose state has a journal: a call adds at most one entry, which the relation \<open>logs\<close>
  ties to its request.
\<close>

locale logged_transport =
  fixes send :: "'t message_transport" and journal :: "'t \<Rightarrow> 'e list" and logs :: "transport_request \<Rightarrow> 'e \<Rightarrow> bool"
  assumes journal_send: "journal (snd (send request t)) = journal t \<or>
    (\<exists>e. logs request e \<and> journal (snd (send request t)) = journal t @ [e])"
begin

lemma journal_try:
  assumes "try_send send input t = (r, t')"
  shows "journal t' = journal t \<or> (\<exists>e. logs (transport_request_of input) e \<and> journal t' = journal t @ [e])"
proof -
  have "t' = snd (send (transport_request_of input) t)"
    using assms by (auto simp: try_send_def split: prod.splits sum.splits)
  then show ?thesis using journal_send [of "transport_request_of input" t] by simp
qed

end

text \<open>A transport that keeps a log of the keys it was asked to send, whether it accepts or fails.\<close>

locale counted_transport =
  fixes send :: "'t message_transport" and sent :: "'t \<Rightarrow> string list"
  assumes sent_send: "sent (snd (send request t)) = sent t @ [tq_idempotencyKey request]"

sublocale counted_transport \<subseteq> logged_transport send sent "\<lambda>request k. k = tq_idempotencyKey request"
  by unfold_locales (simp add: sent_send)

context counted_transport
begin

lemma sent_try:
  "try_send send input t = (r, t') \<Longrightarrow> sent t' = sent t @ [om_idempotencyKey (wi_record input)]"
  using sent_send [of "transport_request_of input" t]
  by (auto simp: try_send_def transport_request_of_def Let_def split: prod.splits sum.splits)

lemma sent_message:
  "processOutboxMessage digest send input t = (r, t') \<Longrightarrow>
    sent t' = sent t @ (if ev_decision (evaluateOutboxCandidate input) = Process then [om_idempotencyKey (wi_record input)] else [])"
proof (cases "ev_decision (evaluateOutboxCandidate input) = Process")
  case True
  obtain tr t1 where s: "try_send send input t = (Inr tr, t1)" using try_send_Inr by metis
  assume "processOutboxMessage digest send input t = (r, t')"
  then have "t' = t1" unfolding processMessage_Process [OF True] await_def s
    by (auto simp: compute_def done_with_def split: sum.splits)
  then show ?thesis using sent_try [OF s] True by simp
next
  case False
  assume "processOutboxMessage digest send input t = (r, t')"
  then show ?thesis using processMessage_unsent [OF False, of digest send t] False by auto
qed

end

definition fake_sent :: "fake_transport \<Rightarrow> string list" where
  "fake_sent t = map fk_idempotencyKey (fk_calls t)"

interpretation fake: counted_transport fake_send fake_sent
  by unfold_locales (simp add: fake_send_def fake_sent_def Let_def)

section \<open>The run of a claimed row\<close>

definition plan_refusal :: "string \<Rightarrow> apply_result \<Rightarrow> js_error" where
  "plan_refusal label res = Error (label @ (if ar_conflict res then ''_conflict'' else ''_duplicate''))"

abbreviation processing_of :: "(string \<Rightarrow> string) \<Rightarrow> worker_input \<Rightarrow> mutation_plan" where
  "processing_of digest input \<equiv>
     buildProcessingPlan digest (plan_input_of input (evaluateOutboxCandidate input) None Processing_phase)"

lemma claimed_unfold:
  assumes "ev_decision (evaluateOutboxCandidate input) = Process"
  shows "processClaimedOutboxRecord digest outbox send input (s, t) =
    (case owr_applyWorkerPlan outbox (processing_of digest input) s of
       (Inl e, s1) \<Rightarrow> (Inl e, (s1, t))
     | (Inr res, s1) \<Rightarrow>
         if \<not> ar_applied res then (Inl (plan_refusal ''processing_plan'' res), (s1, t))
         else (case try_send send input t of
             (Inl e, t1) \<Rightarrow> (Inl e, (s1, t1))
           | (Inr tr, t1) \<Rightarrow>
               (case settle_outcome digest input (evaluateOutboxCandidate input) tr of
                  Inl e \<Rightarrow> (Inl e, (s1, t1))
                | Inr settled \<Rightarrow>
                    (case owr_applyWorkerPlan outbox (snd settled) s1 of
                       (Inl e, s2) \<Rightarrow> (Inl e, (s2, t1))
                     | (Inr res2, s2) \<Rightarrow>
                         if \<not> ar_applied res2 then (Inl (plan_refusal ''final_plan'' res2), (s2, t1))
                         else (Inr (sent_result input (evaluateOutboxCandidate input) (processing_of digest input) tr settled), (s2, t1))))))"
  unfolding processClaimedOutboxRecord_def Let_def processing_plan
  by (simp add: assms)
    (simp add: await_def apply_or_throw_def on_repository_def on_transport_def done_with_def raise_error_def compute_def
      plan_refusal_def split: prod.split sum.split)

lemma claimed_skip:
  assumes "ev_decision (evaluateOutboxCandidate input) \<noteq> Process"
  shows "\<exists>r. processClaimedOutboxRecord digest outbox send input st = (Inr r, st) \<and>
    pr_status r \<in> {Ps_expired, Ps_dead_letter, Ps_skipped} \<and> pr_transportResult r = None \<and>
    (\<exists>plan. pr_finalPlan r = Some plan \<and> pl_planType plan \<in> {Release_claim, No_change})"
  using assms
  by (cases "om_status (wi_record input) \<in> {Om_claimed, Om_processing}")
    (simp_all add: processClaimedOutboxRecord_def buildSkippedResult_def skipped_plan compute_def unsent_result_def plan_defs)

text \<open>
  A row that a batch has claimed but may not process (expired, out of attempts, not of the
  sandbox) is reported as expired, dead or skipped, but the repository is left as it is: the plan
  of the result is a release or no change, and it is never applied.
\<close>

theorem unprocessable_claim_is_kept:
  assumes "ev_decision (evaluateOutboxCandidate input) \<noteq> Process"
  shows "\<exists>r. processClaimedOutboxRecord digest outbox send input st = (Inr r, st) \<and>
    pr_status r \<in> {Ps_expired, Ps_dead_letter, Ps_skipped} \<and> pr_transportResult r = None \<and>
    (\<exists>plan. pr_finalPlan r = Some plan \<and> pl_planType plan \<in> {Release_claim, No_change})"
  using assms by (rule claimed_skip)

lemma unprocessable_claim_is_kept_witness:
  "\<exists>r. processClaimedOutboxRecord id (in_memory_outbox text_order) fake_send
      (sample_worker_input\<lparr>wi_config := sample_config\<lparr>wc_workerEnabled := False\<rparr>\<rparr>) (sample_runtime [sample_message], accepting []) =
     (Inr r, (sample_runtime [sample_message], accepting []))"
  using unprocessable_claim_is_kept [of "sample_worker_input\<lparr>wi_config := sample_config\<lparr>wc_workerEnabled := False\<rparr>\<rparr>"
      id "in_memory_outbox text_order" fake_send "(sample_runtime [sample_message], accepting [])"]
  by (auto simp: candidate_process_characterization)

text \<open>
  The two ways to process a row agree: when the run of a claimed row succeeds on a row to be
  processed, processing the same row without a repository gives the same result and leaves the
  transport in the same state.
\<close>

theorem claimed_agrees_with_message:
  assumes "ev_decision (evaluateOutboxCandidate input) = Process"
    and "processClaimedOutboxRecord digest outbox send input (s, t) = (Inr r, (s', t'))"
  shows "processOutboxMessage digest send input t = (Inr r, t')"
proof -
  obtain tr t1 where s: "try_send send input t = (Inr tr, t1)" using try_send_Inr by metis
  have "\<exists>settled. settle_outcome digest input (evaluateOutboxCandidate input) tr = Inr settled \<and> t' = t1 \<and>
      r = sent_result input (evaluateOutboxCandidate input) (processing_of digest input) tr settled"
    using assms(2) unfolding claimed_unfold [OF assms(1)] s by (auto split: prod.splits sum.splits if_splits)
  then show ?thesis unfolding processMessage_Process [OF assms(1)] await_def s
    by (auto simp: compute_def done_with_def)
qed

section \<open>A row without failures\<close>

lemma apply_plan_applied:
  assumes "distinct (map row_text (rt_records state))" "i < length (rt_records state)"
    "ref_string (om_rowId (rt_records state ! i)) = ref_string (pl_rowId plan)"
    "pl_planKey plan \<notin> set (rt_appliedPlanKeys state)"
    "\<not> hasOtherRecordWithSameIdempotencyKey (rt_records state) (rt_records state ! i)"
    "om_status (rt_records state ! i) \<in> set (pl_expectedStatuses plan)"
  shows "apply_plan plan state =
    (\<lparr>ar_applied = True, ar_duplicate = False, ar_conflict = False, ar_rowId = Some (om_rowId (rt_records state ! i))\<rparr>,
     state\<lparr>rt_records := (rt_records state)[i := patched (pl_patch plan) (rt_records state ! i)],
       rt_appliedPlanKeys := rt_appliedPlanKeys state @ [pl_planKey plan],
       rt_auditEvents := rt_auditEvents state @ (case pl_auditEvent plan of None \<Rightarrow> [] | Some ev \<Rightarrow> [ev])\<rparr>)"
proof -
  have m: "rt_records state ! i \<in> set (rt_records state)" using assms(2) by simp
  obtain j where j: "j < length (rt_records state)" "rt_records state ! j = rt_records state ! i"
    "find_index (same_row (om_rowId (rt_records state ! i))) (map id (rt_records state)) = Some j"
    using find_row [OF assms(1) m, of id] by auto
  have "distinct (rt_records state)" using assms(1) by (simp add: distinct_map)
  then have "j = i" using j(1,2) assms(2) by (simp add: nth_eq_iff_index_eq)
  then have f: "find_index (same_row (pl_rowId plan)) (rt_records state) = Some i" using j(3) assms(3) by simp
  show ?thesis unfolding apply_plan_def f option.case Let_def using assms(4-6) by simp
qed

lemma hasOther_keys:
  "hasOtherRecordWithSameIdempotencyKey rs r \<longleftrightarrow>
    list_ex (\<lambda>(a, k). a \<noteq> row_text r \<and> k = om_idempotencyKey r) (map (\<lambda>x. (row_text x, om_idempotencyKey x)) rs)"
  by (simp add: hasOtherRecordWithSameIdempotencyKey_def list_ex_iff row_text_def)

lemma hasOther_patched:
  "i < length rs \<Longrightarrow> hasOtherRecordWithSameIdempotencyKey (rs[i := patched p (rs ! i)]) (patched p (rs ! i)) =
    hasOtherRecordWithSameIdempotencyKey rs (rs ! i)"
  unfolding hasOther_keys by (simp add: map_update_same)

lemma applyWorkerPlan_reliable:
  "or_flags repo = no_runtime_failures \<Longrightarrow> applyWorkerPlan plan repo =
    (case apply_plan plan (or_state repo) of (res, state) \<Rightarrow> (Inr res, repo\<lparr>or_state := state\<rparr>))"
  by (simp add: applyWorkerPlan_def no_runtime_failures_def listIncludes_def split: option.split)

lemma processing_of_simps [simp]:
  "pl_planType (processing_of digest input) = Mark_processing"
  "pl_rowId (processing_of digest input) = om_rowId (wi_record input)"
  "pl_planKey (processing_of digest input) = buildOutboxWorkerPlanKey digest (wi_record input) Mark_processing (wi_now input)"
  "pl_expectedStatuses (processing_of digest input) = [om_status (wi_record input)]"
  "pt_nextStatus (pl_patch (processing_of digest input)) = Om_processing"
  "pl_auditEvent (processing_of digest input) \<noteq> None"
  by (simp_all add: plan_defs plan_input_of_def js_unique_def)

text \<open>The row after both plans.\<close>

definition worked_row :: "(string \<Rightarrow> string) \<Rightarrow> worker_input \<Rightarrow> mutation_plan \<Rightarrow> outbox_message \<Rightarrow> outbox_message" where
  "worked_row digest input final r = patched (pl_patch final) (patched (pl_patch (processing_of digest input)) r)"

lemma settled_plan_facts:
  assumes "settle_outcome digest input ev tr = Inr (status, plan)"
  shows "pl_planKey plan = buildOutboxWorkerPlanKey digest (wi_record (attempted input)) (pl_planType plan) (wi_now input) \<and>
    pl_rowId plan = om_rowId (wi_record input) \<and> Om_processing \<in> set (pl_expectedStatuses plan) \<and>
    set (pl_expectedStatuses plan) \<subseteq> set live_statuses \<and>
    pl_planType plan \<in> {Mark_delivered, Schedule_retry, Move_to_dead_letter} \<and>
    pt_nextStatus (pl_patch plan) = status_after (pl_planType plan) Om_processing \<and>
    pt_attemptCount (pl_patch plan) \<in> {Unset, Assigned (om_attemptCount (wi_record input) + 1)} \<and> pl_auditEvent plan \<noteq> None"
proof -
  let ?in = "plan_input_of (attempted input) ev (Some tr) Final_phase"
  have final: "buildOutboxWorkerPlan digest ?in = Inr plan" using settle_agrees [OF assms]
    by (simp add: buildFinalOutboxWorkerPlan_def)
  have p: "pi_phase ?in = Final_phase" "pi_transportResult ?in = Some tr" by (simp_all add: plan_input_of_def)
  note f = plan_fields [OF final] final_plan_characterization [OF final p]
  have "pl_planType plan \<in> {Mark_delivered, Schedule_retry, Move_to_dead_letter}"
    using f(2) by (auto simp: final_plan_type_def split: sum.splits)
  moreover have "pt_attemptCount (pl_patch plan) \<in> {Unset, Assigned (om_attemptCount (wi_record input) + 1)} \<and> pl_auditEvent plan \<noteq> None"
    using plan_cases [OF final] p
    by (elim disjE exE conjE) (simp_all add: plan_defs, simp_all add: plan_input_of_def attempted_def)
  ultimately show ?thesis using f
    by (auto simp: plan_input_of_def attempted_def status_after_def plan_sources_def live_statuses_def)
qed

lemma claimed_row_run:
  assumes "ev_decision (evaluateOutboxCandidate input) = Process" "or_flags repo = no_runtime_failures"
    and "distinct (map row_text (rt_records (or_state repo)))" "i < length (rt_records (or_state repo))"
    and "rt_records (or_state repo) ! i = wi_record input"
    and "\<not> hasOtherRecordWithSameIdempotencyKey (rt_records (or_state repo)) (wi_record input)"
    and "\<forall>r ty. om_commandId r = om_commandId (wi_record input) \<longrightarrow>
      buildOutboxWorkerPlanKey digest r ty (wi_now input) \<notin> set (rt_appliedPlanKeys (or_state repo))"
    and "try_send send input t = (Inr tr, t')" "settle_outcome digest input (evaluateOutboxCandidate input) tr = Inr (status, plan)"
  shows "\<exists>res repo'. processClaimedOutboxRecord digest (in_memory_outbox collate) send input (repo, t) = (Inr res, (repo', t')) \<and>
    pr_status res = status \<and> or_flags repo' = or_flags repo \<and>
    rt_records (or_state repo') = (rt_records (or_state repo))[i := worked_row digest input plan (wi_record input)] \<and>
    length (rt_auditEvents (or_state repo')) = length (rt_auditEvents (or_state repo)) + 2"
proof -
  let ?P = "processing_of digest input" and ?s = "or_state repo"
  let ?s1 = "?s\<lparr>rt_records := (rt_records ?s)[i := patched (pl_patch ?P) (wi_record input)],
       rt_appliedPlanKeys := rt_appliedPlanKeys ?s @ [pl_planKey ?P],
       rt_auditEvents := rt_auditEvents ?s @ (case pl_auditEvent ?P of None \<Rightarrow> [] | Some ev \<Rightarrow> [ev])\<rparr>"
  have k: "pl_planKey ?P \<notin> set (rt_appliedPlanKeys ?s)" using assms(7) by simp
  have a1: "apply_plan ?P ?s = (\<lparr>ar_applied = True, ar_duplicate = False, ar_conflict = False,
      ar_rowId = Some (om_rowId (wi_record input))\<rparr>, ?s1)"
    using apply_plan_applied [OF assms(3,4), of ?P] assms(5,6) k by simp
  note f = settled_plan_facts [OF assms(9)]
  have d1: "distinct (map row_text (rt_records ?s1))" using assms(3-5) by (simp add: map_update_same)
  have k2: "pl_planKey plan \<notin> set (rt_appliedPlanKeys ?s1)"
  proof -
    have c: "om_commandId (wi_record (attempted input)) = om_commandId (wi_record input)" by (simp add: attempted_def)
    have "pl_planKey plan \<notin> set (rt_appliedPlanKeys ?s)" using f assms(7) c by simp
    moreover have "pl_planKey plan \<noteq> pl_planKey ?P"
      using f c delimited_inject [OF plan_type_name_plain plan_type_name_plain, of "CHR '':''" "pl_planType plan" _ Mark_processing _]
      by (auto simp: buildOutboxWorkerPlanKey_def)
    ultimately show ?thesis by simp
  qed
  have h: "\<not> hasOtherRecordWithSameIdempotencyKey (rt_records ?s1) (rt_records ?s1 ! i)"
    using hasOther_patched [OF assms(4), of "pl_patch ?P"] assms(4-6) by simp
  have a2: "\<exists>res2. ar_applied res2 \<and> apply_plan plan ?s1 = (res2, ?s1\<lparr>
       rt_records := (rt_records ?s1)[i := patched (pl_patch plan) (rt_records ?s1 ! i)],
       rt_appliedPlanKeys := rt_appliedPlanKeys ?s1 @ [pl_planKey plan],
       rt_auditEvents := rt_auditEvents ?s1 @ (case pl_auditEvent plan of None \<Rightarrow> [] | Some ev \<Rightarrow> [ev])\<rparr>)"
    using apply_plan_applied [OF d1, of i plan] assms(4) f k2 h by simp
  then obtain res2 where r2: "ar_applied res2" "apply_plan plan ?s1 = (res2, ?s1\<lparr>
       rt_records := (rt_records ?s1)[i := patched (pl_patch plan) (rt_records ?s1 ! i)],
       rt_appliedPlanKeys := rt_appliedPlanKeys ?s1 @ [pl_planKey plan],
       rt_auditEvents := rt_auditEvents ?s1 @ (case pl_auditEvent plan of None \<Rightarrow> [] | Some ev \<Rightarrow> [ev])\<rparr>)" by blast
  have o: "owr_applyWorkerPlan (in_memory_outbox collate) = applyWorkerPlan" by (simp add: in_memory_outbox_def)
  obtain ev1 ev2 where ev: "pl_auditEvent ?P = Some ev1" "pl_auditEvent plan = Some ev2"
    using f processing_of_simps(6) [of digest input] by blast
  show ?thesis unfolding claimed_unfold [OF assms(1)] o applyWorkerPlan_reliable [OF assms(2)] a1
    using assms(2,4,8,9) r2 ev by (simp add: applyWorkerPlan_reliable sent_result_def worked_row_def)
qed

lemma worked_row_facts:
  assumes "settle_outcome digest input ev tr = Inr (status, plan)"
  shows "om_status (worked_row digest input plan (wi_record input)) = status_after (pl_planType plan) Om_processing"
    "om_attemptCount (worked_row digest input plan (wi_record input)) = om_attemptCount (wi_record input) + 1"
  using settled_plan_facts [OF assms]
  by (auto simp: worked_row_def patched_def value_or_def plan_defs plan_input_of_def)

text \<open>
  C19. Without failures a claimed row that is to be processed is processed: both plans are applied,
  the row ends in the status of the final plan with one more attempt, two audit events are
  appended, no other row changes, and the result carries the status of the outcome.
\<close>

theorem claimed_row_processed:
  assumes "ev_decision (evaluateOutboxCandidate input) = Process" "or_flags repo = no_runtime_failures"
    and "distinct (map row_text (rt_records (or_state repo)))" "i < length (rt_records (or_state repo))"
    and "rt_records (or_state repo) ! i = wi_record input"
    and "\<not> hasOtherRecordWithSameIdempotencyKey (rt_records (or_state repo)) (wi_record input)"
    and "\<forall>r ty. om_commandId r = om_commandId (wi_record input) \<longrightarrow>
      buildOutboxWorkerPlanKey digest r ty (wi_now input) \<notin> set (rt_appliedPlanKeys (or_state repo))"
    and "try_send send input t = (Inr tr, t')" "settle_outcome digest input (evaluateOutboxCandidate input) tr = Inr (status, plan)"
  shows "\<exists>res repo'. processClaimedOutboxRecord digest (in_memory_outbox collate) send input (repo, t) = (Inr res, (repo', t')) \<and>
    pr_status res = status \<and>
    rt_records (or_state repo') = (rt_records (or_state repo))[i := worked_row digest input plan (wi_record input)] \<and>
    om_status (worked_row digest input plan (wi_record input)) = status_after (pl_planType plan) Om_processing \<and>
    om_attemptCount (worked_row digest input plan (wi_record input)) = om_attemptCount (wi_record input) + 1 \<and>
    length (rt_auditEvents (or_state repo')) = length (rt_auditEvents (or_state repo)) + 2"
  using claimed_row_run [OF assms] worked_row_facts [OF assms(9)] by blast

lemma sample_runtime_simps [simp]:
  "rt_records (or_state (sample_runtime rs)) = rs" "or_flags (sample_runtime rs) = no_runtime_failures"
  "rt_appliedPlanKeys (or_state (sample_runtime rs)) = []" "rt_auditEvents (or_state (sample_runtime rs)) = []"
  by (simp_all add: sample_runtime_def new_outbox_worker_repository_def buildInitialState_def)

lemma hasOther_single [simp]: "\<not> hasOtherRecordWithSameIdempotencyKey [r] r"
  by (simp add: hasOtherRecordWithSameIdempotencyKey_def)

lemma sample_worker_simps [simp]:
  "wi_record sample_worker_input = sample_message" "wi_config sample_worker_input = sample_config"
  "wi_now sample_worker_input = ''2026-01-05T12:00:00.000Z''"
  by (simp_all add: sample_worker_input_def)

lemma claimed_row_processed_witness:
  "\<exists>res repo' t'. processClaimedOutboxRecord id (in_memory_outbox text_order) fake_send sample_worker_input
      (sample_runtime [sample_message], accepting []) = (Inr res, (repo', t')) \<and> pr_status res = Ps_delivered \<and>
    map om_status (rt_records (or_state repo')) = [Om_delivered] \<and> map om_attemptCount (rt_records (or_state repo')) = [1]"
proof -
  obtain tr call where s: "try_send fake_send sample_worker_input (accepting []) = (Inr tr, accepting ([] @ [call]))"
    "tr_status tr = Tr_accepted" by (rule accepting_send)
  let ?p = "buildDeliveredPlan id (plan_input_of (attempted sample_worker_input) (evaluateOutboxCandidate sample_worker_input)
      (Some tr) Final_phase) tr Transport_accepted"
  have ty: "pl_planType ?p = Mark_delivered" by (simp add: plan_defs)
  have "om_attemptCount sample_message = 0" by (simp add: sample_message_def)
  then show ?thesis
    using claimed_row_processed [OF sample_processable, of "sample_runtime [sample_message]" 0 id fake_send "accepting []" tr
        "accepting ([] @ [call])" Ps_delivered ?p text_order] s accepted_settles [OF s(2)] ty
    by (auto simp: status_after_def)
qed

lemma claimed_agrees_with_message_witness:
  "\<exists>res t'. processOutboxMessage id fake_send sample_worker_input (accepting []) = (Inr res, t') \<and> pr_status res = Ps_delivered"
proof -
  obtain tr call where s: "try_send fake_send sample_worker_input (accepting []) = (Inr tr, accepting ([] @ [call]))"
    "tr_status tr = Tr_accepted" by (rule accepting_send)
  let ?p = "buildDeliveredPlan id (plan_input_of (attempted sample_worker_input) (evaluateOutboxCandidate sample_worker_input)
      (Some tr) Final_phase) tr Transport_accepted"
  obtain res repo' where r: "processClaimedOutboxRecord id (in_memory_outbox text_order) fake_send sample_worker_input
      (sample_runtime [sample_message], accepting []) = (Inr res, (repo', accepting ([] @ [call])))" "pr_status res = Ps_delivered"
    using claimed_row_run [OF sample_processable, of "sample_runtime [sample_message]" 0 id fake_send "accepting []" tr
        "accepting ([] @ [call])" Ps_delivered ?p text_order] s accepted_settles [OF s(2)] by auto
  then show ?thesis using claimed_agrees_with_message [OF sample_processable r(1)] by blast
qed

section \<open>Repositories\<close>

text \<open>What a plan may do to a row: nothing, or its patch, on its row and from its statuses.\<close>

definition plan_step :: "mutation_plan \<Rightarrow> outbox_message \<Rightarrow> outbox_message \<Rightarrow> bool" where
  "plan_step plan r r' \<longleftrightarrow> r' = r \<or>
     (ref_string (om_rowId r) = ref_string (pl_rowId plan) \<and> om_status r \<in> set (pl_expectedStatuses plan) \<and>
      r' = patched (pl_patch plan) r)"

text \<open>
  What the processing of one row may do to any row: nothing, or change the mutable fields of the
  addressed row while it is live.
\<close>

definition same_message :: "outbox_message \<Rightarrow> outbox_message \<Rightarrow> bool" where
  "same_message r r' \<longleftrightarrow> om_rowId r' = om_rowId r \<and> om_commandId r' = om_commandId r \<and>
     om_idempotencyKey r' = om_idempotencyKey r \<and> om_actionId r' = om_actionId r \<and> om_channel r' = om_channel r \<and>
     om_commandType r' = om_commandType r \<and> om_recipient r' = om_recipient r \<and> om_messageText r' = om_messageText r \<and>
     om_maxAttempts r' = om_maxAttempts r \<and> om_expiresAt r' = om_expiresAt r \<and> om_metadata r' = om_metadata r \<and>
     om_createdAt r' = om_createdAt r"

definition touched :: "ref_id \<Rightarrow> outbox_message \<Rightarrow> outbox_message \<Rightarrow> bool" where
  "touched rowId r r' \<longleftrightarrow> same_message r r' \<and>
     (r' = r \<or> (ref_string (om_rowId r) = ref_string rowId \<and> om_status r \<in> set live_statuses))"

lemma touched_refl: "touched rowId r r"
  by (simp add: touched_def same_message_def)

lemma touched_trans: "touched rowId r r' \<Longrightarrow> touched rowId r' r'' \<Longrightarrow> touched rowId r r''"
  by (auto simp: touched_def same_message_def)

lemma plan_step_touched:
  assumes "plan_step plan r r'" "ref_string (pl_rowId plan) = ref_string rowId" "set (pl_expectedStatuses plan) \<subseteq> set live_statuses"
  shows "touched rowId r r'"
  using assms by (auto simp: plan_step_def touched_def same_message_def patched_def)

locale plan_repository =
  fixes outbox :: "'s outbox_worker_repository" and rows :: "'s \<Rightarrow> outbox_message list"
  assumes apply_rows: "list_all2 (plan_step plan) (rows s) (rows (snd (owr_applyWorkerPlan outbox plan s)))"
    and refused_rows: "owr_applyWorkerPlan outbox plan s = (Inr res, s') \<Longrightarrow> \<not> ar_applied res \<Longrightarrow> rows s' = rows s"
begin

definition touches :: "ref_id \<Rightarrow> 's \<times> 't \<Rightarrow> 's \<times> 't \<Rightarrow> bool" where
  "touches rowId a b \<longleftrightarrow> list_all2 (touched rowId) (rows (fst a)) (rows (fst b))"

lemma touches_refl: "reflp (touches rowId)"
  by (auto simp: reflp_def touches_def intro: list.rel_refl touched_refl)

lemma touches_trans: "transp (touches rowId)"
  unfolding transp_def touches_def by (blast intro: list_all2_trans touched_trans)

lemma touches_apply:
  assumes "ref_string (pl_rowId plan) = ref_string rowId" "set (pl_expectedStatuses plan) \<subseteq> set live_statuses"
  shows "keeps (touches rowId) (apply_or_throw outbox label plan)"
proof -
  have "keeps (touches rowId) (on_repository (owr_applyWorkerPlan outbox plan))"
  proof (rule keepsI)
    fix st :: "'s \<times> 't"
    obtain s t where st: "st = (s, t)" by (cases st)
    have a: "list_all2 (touched rowId) (rows s) (rows (snd (owr_applyWorkerPlan outbox plan s)))"
      by (rule list_all2_mono [OF apply_rows]) (rule plan_step_touched [OF _ assms])
    show "touches rowId st (snd (on_repository (owr_applyWorkerPlan outbox plan) st))"
      by (cases "owr_applyWorkerPlan outbox plan s") (use a in \<open>simp add: st on_repository_def touches_def\<close>)
  qed
  then show ?thesis unfolding apply_or_throw_def
    by (intro keeps_intros touches_refl touches_trans)
qed

lemma touches_transport: "keeps (touches rowId) (on_transport m)"
  by (rule keepsI) (auto simp: on_transport_def touches_def split: prod.split intro: list.rel_refl touched_refl)

lemma keeps_compute:
  assumes "\<And>a. r = Inr a \<Longrightarrow> keeps (touches rowId) (f a)"
  shows "keeps (touches rowId) (await (compute r) f)"
  using assms by (cases r) (auto intro: keeps_intros touches_refl)

lemma claimed_touches:
  "keeps (touches (om_rowId (wi_record input))) (processClaimedOutboxRecord digest outbox send input)"
proof (cases "ev_decision (evaluateOutboxCandidate input) = Process")
  case True
  have live: "om_status (wi_record input) \<in> set live_statuses"
    using True unfolding candidate_process_characterization by (auto simp: free_for_def live_statuses_def)
  have p: "keeps (touches (om_rowId (wi_record input))) (apply_or_throw outbox ''processing_plan'' (processing_of digest input))"
    by (rule touches_apply) (use live in simp_all)
  have f: "keeps (touches (om_rowId (wi_record input))) (apply_or_throw outbox ''final_plan'' (snd settled))"
    if "settle_outcome digest input (evaluateOutboxCandidate input) tr = Inr settled" for tr settled
    using settled_plan_facts [of digest input _ tr "fst settled" "snd settled"] that
    by (intro touches_apply) auto
  show ?thesis unfolding processClaimedOutboxRecord_def Let_def processing_plan
    by (simp add: True) (intro keeps_await [OF touches_trans p] keeps_await [OF touches_trans touches_transport] keeps_compute
      keeps_await [OF touches_trans f] keeps_pure touches_refl; assumption)
next
  case False
  then show ?thesis by (simp add: processClaimedOutboxRecord_def Let_def keeps_pure touches_refl)
qed

end

definition memory_rows :: "outbox_repository \<Rightarrow> outbox_message list" where
  "memory_rows repo = rt_records (or_state repo)"

lemma apply_plan_rows:
  assumes "apply_plan plan state = (res, state')"
  shows "list_all2 (plan_step plan) (rt_records state) (rt_records state')"
  using assms
proof (rule apply_plan_cases)
  assume "state' = state"
  then show ?thesis by (simp add: list.rel_refl plan_step_def)
next
  fix index
  assume "index < length (rt_records state)"
    "ref_string (om_rowId (rt_records state ! index)) = ref_string (pl_rowId plan)"
    "om_status (rt_records state ! index) \<in> set (pl_expectedStatuses plan)"
    "state' = state\<lparr>rt_records := (rt_records state)[index := patched (pl_patch plan) (rt_records state ! index)],
         rt_appliedPlanKeys := rt_appliedPlanKeys state @ [pl_planKey plan],
         rt_auditEvents := rt_auditEvents state @ (case pl_auditEvent plan of None \<Rightarrow> [] | Some ev \<Rightarrow> [ev])\<rparr>"
  then show ?thesis by (auto simp: list_all2_conv_all_nth nth_list_update plan_step_def)
qed

lemma memory_apply_rows: "list_all2 (plan_step plan) (memory_rows s) (memory_rows (snd (applyWorkerPlan plan s)))"
proof -
  have r: "list_all2 (plan_step plan) (memory_rows s) (memory_rows s)" by (simp add: list.rel_refl plan_step_def)
  obtain res state where a: "apply_plan plan (or_state s) = (res, state)" by fastforce
  have "list_all2 (plan_step plan) (memory_rows s) (rt_records state)"
    using apply_plan_rows [OF a] by (simp add: memory_rows_def)
  then show ?thesis using r by (simp add: applyWorkerPlan_def a) (simp add: memory_rows_def)
qed

lemma memory_refused_rows:
  assumes "applyWorkerPlan plan s = (Inr res, s')" "\<not> ar_applied res"
  shows "memory_rows s' = memory_rows s"
proof -
  obtain r st where a: "apply_plan plan (or_state s) = (r, st)" by fastforce
  have "r = res \<and> s' = s\<lparr>or_state := st\<rparr>" using assms(1) by (auto simp: applyWorkerPlan_def a split: if_splits)
  moreover have "\<not> ar_applied r \<Longrightarrow> st = or_state s" using a by (auto elim: apply_plan_cases)
  ultimately show ?thesis using assms(2) by (simp add: memory_rows_def)
qed

interpretation memory: plan_repository "in_memory_outbox collate" memory_rows
  by unfold_locales (auto simp: in_memory_outbox_def memory_apply_rows memory_refused_rows)

section \<open>The unit of work\<close>

definition uow_rows :: "outbox_unit_of_work \<Rightarrow> outbox_message list" where
  "uow_rows uow = memory_rows (ou_repository uow)"

definition staged_repository :: "outbox_unit_of_work \<Rightarrow> outbox_repository" where
  "staged_repository uow = outbox_repository_from_state (or_state (ou_repository uow)) (or_flags (ou_repository uow))"

lemma staged_repository_simps [simp]:
  "or_state (staged_repository uow) = or_state (ou_repository uow)" "or_flags (staged_repository uow) = or_flags (ou_repository uow)"
  "memory_rows (staged_repository uow) = uow_rows uow"
  by (simp_all add: staged_repository_def outbox_repository_from_state_def new_outbox_worker_repository_def Let_def
      memory_rows_def uow_rows_def)

lemma run_outbox_cases:
  assumes "run_outbox operation (uow, t) = (res, (uow', t'))"
  obtains r staged where "operation (staged_repository uow, t) = (r, (staged, t'))"
    "(\<exists>e. res = Inl e \<and> ou_repository uow' = ou_repository uow) \<or>
     (\<exists>a. r = Inr a \<and> res = Inr a \<and> or_state (ou_repository uow') = or_state staged \<and>
        or_flags (ou_repository uow') = or_flags (ou_repository uow))"
proof -
  obtain r staged t1 where o: "operation (staged_repository uow, t) = (r, (staged, t1))"
    by (cases "operation (staged_repository uow, t)") auto
  then show ?thesis using assms that [of r staged]
    by (cases r) (auto simp: run_outbox_def staged_repository_def replace_outbox_state_with_def split: if_splits)
qed

lemma run_outbox_failed:
  "run_outbox operation (uow, t) = (Inl e, (uow', t')) \<Longrightarrow> ou_repository uow' = ou_repository uow"
  by (auto elim!: run_outbox_cases)

abbreviation work_on :: "batch_input \<Rightarrow> outbox_message \<Rightarrow> worker_input" where
  "work_on input r \<equiv> \<lparr>wi_now = bi_now input, wi_record = r, wi_config = bi_config input\<rparr>"

context logged_transport
begin

lemma journal_claimed:
  assumes "processClaimedOutboxRecord digest outbox send input (s, t) = (r, (s', t'))"
  shows "journal t' = journal t \<or> (\<exists>e. logs (transport_request_of input) e \<and> journal t' = journal t @ [e])"
proof (cases "ev_decision (evaluateOutboxCandidate input) = Process")
  case True
  obtain tr t1 where s: "try_send send input t = (Inr tr, t1)" using try_send_Inr by metis
  have "t' = t \<or> t' = t1" using assms unfolding claimed_unfold [OF True] s
    by (auto split: prod.splits sum.splits if_splits)
  then show ?thesis using journal_try [OF s] by auto
next
  case False
  then show ?thesis using claimed_skip [OF False, of digest outbox send "(s, t)"] assms by auto
qed

lemma journal_item:
  assumes "run_outbox (processClaimedOutboxRecord digest outbox send input) (uow, t) = (r, (uow', t'))"
  shows "journal t' = journal t \<or> (\<exists>e. logs (transport_request_of input) e \<and> journal t' = journal t @ [e])"
  using assms by (rule run_outbox_cases) (rule journal_claimed)

lemma journal_items:
  "process_items (\<lambda>w. run_outbox (processClaimedOutboxRecord digest outbox send w)) input processedAt rows summary (uow, t) =
     (summed, (uow', t')) \<Longrightarrow>
   \<exists>rs es. journal t' = journal t @ es \<and> subseq rs rows \<and> list_all2 (\<lambda>r e. logs (transport_request_of (work_on input r)) e) rs es"
proof (induction rows arbitrary: summary uow t)
  case (Cons r rows)
  obtain res u1 t1 where i: "run_outbox (processClaimedOutboxRecord digest outbox send (work_on input r)) (uow, t) = (res, (u1, t1))"
    by (cases "run_outbox (processClaimedOutboxRecord digest outbox send (work_on input r)) (uow, t)") auto
  obtain summary' where "process_items (\<lambda>w. run_outbox (processClaimedOutboxRecord digest outbox send w)) input processedAt
      rows summary' (u1, t1) = (summed, (uow', t'))"
    using Cons.prems i by (cases res) (auto simp: Let_def)
  then obtain rs es where es: "journal t' = journal t1 @ es" "subseq rs rows"
    "list_all2 (\<lambda>r e. logs (transport_request_of (work_on input r)) e) rs es" using Cons.IH by blast
  from journal_item [OF i] show ?case
  proof (elim disjE exE conjE)
    assume "journal t1 = journal t"
    then show ?thesis using es by (intro exI [of _ rs] exI [of _ es]) auto
  next
    fix e assume "logs (transport_request_of (work_on input r)) e" "journal t1 = journal t @ [e]"
    then show ?thesis using es by (intro exI [of _ "r # rs"] exI [of _ "e # es"]) auto
  qed
qed simp

end

text \<open>
  A unit of work that fails undoes the repository but not the message: whatever the failure, the
  row keeps its status and its count of attempts, although the transport may have been called
  once.  A failure after the send is therefore not an attempt.
\<close>

theorem failed_item_forgets_send:
  assumes "run_outbox (processClaimedOutboxRecord digest (in_memory_outbox collate) fake_send input) (uow, t) = (Inl e, (uow', t'))"
  shows "ou_repository uow' = ou_repository uow \<and>
    (fake_sent t' = fake_sent t \<or> fake_sent t' = fake_sent t @ [om_idempotencyKey (wi_record input)])"
  using run_outbox_failed [OF assms] fake.journal_item [OF assms] by (auto simp: transport_request_of_def Let_def)

text \<open>A repository whose audit trail refuses the event of a delivery.\<close>

definition audit_outage :: runtime_flags where
  "audit_outage = no_runtime_failures\<lparr>ff_eventTypes := [''outbox_delivered'']\<rparr>"

definition stuck_uow :: outbox_unit_of_work where
  "stuck_uow = \<lparr>ou_repository = new_outbox_worker_repository [sample_message] audit_outage None, ou_failNextCommit = False\<rparr>"

definition outage_error :: js_error where
  "outage_error = Error ''in-memory outbox audit append failed for outbox_delivered''"

lemma stuck_simps [simp]:
  "rt_records (or_state (ou_repository stuck_uow)) = [sample_message]" "or_flags (ou_repository stuck_uow) = audit_outage"
  "rt_appliedPlanKeys (or_state (ou_repository stuck_uow)) = []" "ou_failNextCommit stuck_uow = False"
  by (simp_all add: stuck_uow_def new_outbox_worker_repository_def buildInitialState_def)

lemma processing_event: "pl_auditEvent (processing_of digest input) = Some ev \<Longrightarrow> au_eventType ev = Outbox_processing_started"
  by (auto simp: plan_defs plan_input_of_def buildAuditEvent_def)

lemma outage_processing:
  assumes "or_flags repo = audit_outage" "apply_plan (processing_of digest input) (or_state repo) = (res, state)"
  shows "applyWorkerPlan (processing_of digest input) repo = (Inr res, repo\<lparr>or_state := state\<rparr>)"
  using assms processing_event [of digest input]
  by (auto simp: applyWorkerPlan_def audit_outage_def no_runtime_failures_def listIncludes_def split: option.split)

lemma outage_delivery:
  assumes "or_flags repo = audit_outage"
  shows "applyWorkerPlan (buildDeliveredPlan digest pin tr reason) repo = (Inl outage_error, repo)"
  using assms by (simp add: applyWorkerPlan_def audit_outage_def no_runtime_failures_def listIncludes_def plan_defs
      buildAuditEvent_def outage_error_def)

lemma stuck_step:
  obtains call where "fk_idempotencyKey call = ''k''"
    "run_outbox (processClaimedOutboxRecord id (in_memory_outbox collate) fake_send sample_worker_input) (stuck_uow, accepting calls) =
       (Inl outage_error, (stuck_uow, accepting (calls @ [call])))"
proof -
  let ?s = "staged_repository stuck_uow"
  obtain tr call where s: "try_send fake_send sample_worker_input (accepting calls) = (Inr tr, accepting (calls @ [call]))"
    "tr_status tr = Tr_accepted" "fk_idempotencyKey call = om_idempotencyKey (wi_record sample_worker_input)" by (rule accepting_send)
  obtain res state where a: "apply_plan (processing_of id sample_worker_input) (or_state ?s) = (res, state)" "ar_applied res"
    using apply_plan_applied [of "or_state ?s" 0 "processing_of id sample_worker_input"] by simp
  have o: "owr_applyWorkerPlan (in_memory_outbox collate) = applyWorkerPlan" by (simp add: in_memory_outbox_def)
  have p: "applyWorkerPlan (processing_of id sample_worker_input) ?s = (Inr res, ?s\<lparr>or_state := state\<rparr>)"
    by (rule outage_processing) (use a in simp_all)
  have "processClaimedOutboxRecord id (in_memory_outbox collate) fake_send sample_worker_input (?s, accepting calls) =
      (Inl outage_error, (?s\<lparr>or_state := state\<rparr>, accepting (calls @ [call])))"
    unfolding claimed_unfold [OF sample_processable] o p
    using a(2) by (simp add: s(1) accepted_settles [OF s(2)] outage_delivery)
  then have "run_outbox (processClaimedOutboxRecord id (in_memory_outbox collate) fake_send sample_worker_input) (stuck_uow, accepting calls) =
      (Inl outage_error, (stuck_uow, accepting (calls @ [call])))"
    by (simp add: run_outbox_def staged_repository_def)
  then show ?thesis using s(3) that by (simp add: sample_message_def)
qed

lemma failed_item_forgets_send_witness:
  "\<exists>t'. run_outbox (processClaimedOutboxRecord id (in_memory_outbox text_order) fake_send sample_worker_input) (stuck_uow, accepting []) =
     (Inl outage_error, (stuck_uow, t')) \<and> fake_sent t' = [''k'']"
proof -
  obtain call where c: "fk_idempotencyKey call = ''k''"
    "run_outbox (processClaimedOutboxRecord id (in_memory_outbox text_order) fake_send sample_worker_input) (stuck_uow, accepting []) =
       (Inl outage_error, (stuck_uow, accepting ([] @ [call])))" by (rule stuck_step)
  have "fake_sent (accepting ([] @ [call])) = fake_sent (accepting []) \<or>
      fake_sent (accepting ([] @ [call])) = fake_sent (accepting []) @ [''k'']"
    using failed_item_forgets_send [OF c(2)] by (simp add: sample_message_def)
  then show ?thesis using c by (auto simp: fake_sent_def accepting_def)
qed

section \<open>A batch\<close>

lemma item_rows:
  assumes "run_outbox (processClaimedOutboxRecord digest (in_memory_outbox collate) send w) (uow, t) = (r, (uow', t'))"
  shows "list_all2 (touched (om_rowId (wi_record w))) (uow_rows uow) (uow_rows uow')"
  using assms
proof (rule run_outbox_cases)
  fix x staged
  assume x: "processClaimedOutboxRecord digest (in_memory_outbox collate) send w (staged_repository uow, t) = (x, (staged, t'))"
    and c: "(\<exists>e. r = Inl e \<and> ou_repository uow' = ou_repository uow) \<or>
     (\<exists>a. x = Inr a \<and> r = Inr a \<and> or_state (ou_repository uow') = or_state staged \<and>
        or_flags (ou_repository uow') = or_flags (ou_repository uow))"
  have "list_all2 (touched (om_rowId (wi_record w))) (uow_rows uow) (memory_rows staged)"
    using keepsD [OF memory.claimed_touches x] by (simp add: memory.touches_def)
  then show ?thesis using c
    by (auto simp: uow_rows_def memory_rows_def list.rel_refl touched_refl)
qed

definition batch_touched :: "string set \<Rightarrow> outbox_message \<Rightarrow> outbox_message \<Rightarrow> bool" where
  "batch_touched ids r r' \<longleftrightarrow> same_message r r' \<and> (r' = r \<or> (row_text r \<in> ids \<and> om_status r \<in> set live_statuses))"

lemma batch_touched_refl: "batch_touched ids r r"
  by (simp add: batch_touched_def same_message_def)

lemma batch_touched_trans: "batch_touched ids r r' \<Longrightarrow> batch_touched ids r' r'' \<Longrightarrow> batch_touched ids r r''"
  by (auto simp: batch_touched_def same_message_def row_text_def)

lemma items_rows:
  "process_items (\<lambda>w. run_outbox (processClaimedOutboxRecord digest (in_memory_outbox collate) send w)) input processedAt rows
     summary (uow, t) = (summed, (uow', t')) \<Longrightarrow> list_all2 (batch_touched (row_text ` set rows)) (uow_rows uow) (uow_rows uow')"
proof (induction rows arbitrary: summary uow t)
  case Nil
  then show ?case by (simp add: list.rel_refl batch_touched_refl)
next
  case (Cons r rows)
  let ?w = "\<lparr>wi_now = bi_now input, wi_record = r, wi_config = bi_config input\<rparr>"
  obtain res u1 t1 where i: "run_outbox (processClaimedOutboxRecord digest (in_memory_outbox collate) send ?w) (uow, t) = (res, (u1, t1))"
    by (cases "run_outbox (processClaimedOutboxRecord digest (in_memory_outbox collate) send ?w) (uow, t)") auto
  obtain summary' where "process_items (\<lambda>w. run_outbox (processClaimedOutboxRecord digest (in_memory_outbox collate) send w))
      input processedAt rows summary' (u1, t1) = (summed, (uow', t'))"
    using Cons.prems i by (cases res) (auto simp: Let_def)
  then have 2: "list_all2 (batch_touched (row_text ` set rows)) (uow_rows u1) (uow_rows uow')" by (rule Cons.IH)
  have 1: "list_all2 (batch_touched (row_text ` set (r # rows))) (uow_rows uow) (uow_rows u1)"
    by (rule list_all2_mono [OF item_rows [OF i]]) (auto simp: touched_def batch_touched_def row_text_def)
  have "list_all2 (batch_touched (row_text ` set (r # rows))) (uow_rows u1) (uow_rows uow')"
    by (rule list_all2_mono [OF 2]) (auto simp: batch_touched_def)
  then show ?case by (rule list_all2_trans [rotated 1, OF 1]) (rule batch_touched_trans)
qed

lemma claimable_due:
  assumes "claimable input now lease records r" "normalizeIsoTimestamp v = Some now"
  shows "due now now r \<and> om_status r \<in> set live_statuses"
  using claimable_free [OF assms(1)] normalizeIsoTimestamp_idem [OF assms(2)] by (auto simp: live_statuses_def)

lemma same_message_claimed: "same_message r (claimed_record input now lease r)"
  by (simp add: same_message_def claimed_record_def)

text \<open>What the claim of a batch does.\<close>

lemma batch_claim_run:
  assumes "distinct (map row_text (uow_rows uow))" "normalizeIsoTimestamp (Some (bi_now input)) = Some n"
    and "run_outbox (batch_claim (in_memory_outbox collate) input) (uow, t) = (Inr claimed, (uow', t'))"
  obtains chosen where "t' = t" "set chosen \<subseteq> set (uow_rows uow)" "distinct (map om_idempotencyKey chosen)"
    "length chosen \<le> nat (wc_batchSize (bi_config input))"
    "\<forall>r \<in> set chosen. due n n r \<and> om_status r \<in> set live_statuses"
    "map row_text claimed = map row_text chosen" "map om_idempotencyKey claimed = map om_idempotencyKey chosen"
    "list_all2 (\<lambda>r r'. same_message r r' \<and> (r' = r \<or> r \<in> set chosen)) (uow_rows uow) (uow_rows uow')"
    "list_all2 same_message chosen claimed"
proof -
  obtain x staged where o: "batch_claim (in_memory_outbox collate) input (staged_repository uow, t) = (Inr claimed, (staged, t'))"
    and s: "or_state (ou_repository uow') = or_state staged"
    using assms(3) by (auto elim!: run_outbox_cases)
  obtain lease where c: "claimAvailable collate \<lparr>ci_now = bi_now input, ci_workerId = wc_workerId (bi_config input),
        ci_batchSize = wc_batchSize (bi_config input), ci_leaseExpiresAt = lease,
        ci_recoverExpiredLeases = wc_recoverExpiredLeases (bi_config input)\<rparr> (staged_repository uow) = (Inr claimed, staged)"
      (is "claimAvailable collate (?ci lease) _ = _")
    and t: "t' = t"
    using o by (cases "addSecondsToIso (bi_now input) (wc_leaseSeconds (bi_config input))")
      (auto simp: batch_claim_def raise_error_def on_repository_def in_memory_outbox_def split: prod.splits)
  have d: "distinct (map row_text (rt_records (or_state (staged_repository uow))))"
    using assms(1) by (simp add: uow_rows_def memory_rows_def)
  have rows: "rt_records (or_state (ou_repository uow)) = uow_rows uow" by (simp add: uow_rows_def memory_rows_def)
  from d c show ?thesis
  proof (rule claim_rows)
    assume "claimed = []" "staged = staged_repository uow"
    then show ?thesis using t s that [of "[]"]
      by (simp add: uow_rows_def memory_rows_def list.rel_refl same_message_def)
  next
    fix now l
    assume now: "normalizeIsoTimestamp (Some (ci_now (?ci lease))) = Some now"
      and cl: "claimed = map (claimed_record (?ci lease) now l) (claim_choice collate (?ci lease) now l (rt_records (or_state (staged_repository uow))))"
      and st: "staged = staged_repository uow\<lparr>or_state := (or_state (staged_repository uow))\<lparr>rt_records :=
          map (claim_selected (?ci lease) now l (claim_choice collate (?ci lease) now l (rt_records (or_state (staged_repository uow)))))
            (rt_records (or_state (staged_repository uow)))\<rparr>\<rparr>"
    let ?chosen = "claim_choice collate (?ci lease) now l (uow_rows uow)"
    have n: "now = n" using now assms(2) by simp
    have 1: "set ?chosen \<subseteq> set (uow_rows uow)" by (rule claim_choice_subset)
    have 2: "distinct (map om_idempotencyKey ?chosen)" using assms(1) by (rule claim_keys_distinct)
    have 3: "length ?chosen \<le> nat (wc_batchSize (bi_config input))" by (simp add: claim_choice_def)
    have 4: "\<forall>r \<in> set ?chosen. due n n r \<and> om_status r \<in> set live_statuses"
      using claim_choice_claimable claimable_due [OF _ now] n by blast
    have 5: "map row_text claimed = map row_text ?chosen" "map om_idempotencyKey claimed = map om_idempotencyKey ?chosen"
      by (simp_all add: cl rows row_text_def)
    have "uow_rows uow' = map (claim_selected (?ci lease) now l ?chosen) (uow_rows uow)"
      using s by (simp add: uow_rows_def memory_rows_def st)
    then have 6: "list_all2 (\<lambda>r r'. same_message r r' \<and> (r' = r \<or> r \<in> set ?chosen)) (uow_rows uow) (uow_rows uow')"
      by (simp add: list_all2_conv_all_nth claim_selected_def same_message_claimed) (simp add: same_message_def)
    have 7: "list_all2 same_message ?chosen claimed"
      by (simp add: cl rows list_all2_conv_all_nth same_message_claimed)
    show ?thesis by (rule that [OF t 1 2 3 4 5 6 7])
  qed
qed

lemma batch_run:
  assumes "process_batch_in_memory digest collate send input (uow, t) = (res, (uow', t'))"
  obtains (unclaimed) "ou_repository uow' = ou_repository uow" "t' = t" "(\<exists>e. res = Inl e) \<or> (\<exists>p. res = Inr (empty_batch p))"
  | (failed) e where "run_outbox (batch_claim (in_memory_outbox collate) input) (uow, t) = (Inl e, (uow', t'))" "res = Inl e"
  | (claimed) rows uow1 t1 p summed where
      "run_outbox (batch_claim (in_memory_outbox collate) input) (uow, t) = (Inr rows, (uow1, t1))"
      "process_items (\<lambda>w. run_outbox (processClaimedOutboxRecord digest (in_memory_outbox collate) send w)) input p rows
         ((empty_batch p)\<lparr>br_claimed := length rows\<rparr>) (uow1, t1) = (summed, (uow', t'))" "res = Inr summed"
proof (cases "\<not> wc_workerEnabled (bi_config input) \<or> \<not> wc_transportEnabled (bi_config input)")
  case True
  then show ?thesis using assms unclaimed by (auto simp: processOutboxBatch_def Let_def done_with_def)
next
  case False
  obtain r uow1 t1 where r: "run_outbox (batch_claim (in_memory_outbox collate) input) (uow, t) = (r, (uow1, t1))"
    by (cases "run_outbox (batch_claim (in_memory_outbox collate) input) (uow, t)") auto
  show ?thesis
  proof (cases r)
    case (Inl e)
    then show ?thesis using assms False r failed [of e] by (simp add: processOutboxBatch_def Let_def await_def)
  next
    case (Inr rows)
    then show ?thesis using assms False r claimed [of rows uow1 t1]
      by (auto simp: processOutboxBatch_def Let_def await_def split: prod.splits)
  qed
qed

lemma batch_claim_transport:
  "run_outbox (batch_claim (in_memory_outbox collate) input) (uow, t) = (r, (uow', t')) \<Longrightarrow> t' = t"
  by (cases "addSecondsToIso (bi_now input) (wc_leaseSeconds (bi_config input))")
    (auto elim!: run_outbox_cases simp: batch_claim_def raise_error_def on_repository_def in_memory_outbox_def split: prod.splits)

lemma batch_rows:
  assumes "distinct (map row_text (uow_rows uow))" "normalizeIsoTimestamp (Some (bi_now input)) = Some n"
    and "process_batch_in_memory digest collate send input (uow, t) = (res, (uow', t'))"
  shows "list_all2 (\<lambda>r r'. same_message r r' \<and> (r' = r \<or> (due n n r \<and> om_status r \<in> set live_statuses))) (uow_rows uow) (uow_rows uow')"
  using assms(3)
proof (cases rule: batch_run)
  case unclaimed
  then show ?thesis by (simp add: uow_rows_def list.rel_refl same_message_def)
next
  case (failed e)
  then have "ou_repository uow' = ou_repository uow" by (intro run_outbox_failed)
  then show ?thesis by (simp add: uow_rows_def list.rel_refl same_message_def)
next
  case (claimed rows uow1 t1 p summed)
  obtain chosen where c0: "t1 = t" and c1: "set chosen \<subseteq> set (uow_rows uow)" "distinct (map om_idempotencyKey chosen)"
    "length chosen \<le> nat (wc_batchSize (bi_config input))"
    and c2: "\<forall>r \<in> set chosen. due n n r \<and> om_status r \<in> set live_statuses" "map row_text rows = map row_text chosen"
    "map om_idempotencyKey rows = map om_idempotencyKey chosen"
    "list_all2 (\<lambda>r r'. same_message r r' \<and> (r' = r \<or> r \<in> set chosen)) (uow_rows uow) (uow_rows uow1)"
    "list_all2 same_message chosen rows"
    by (rule batch_claim_run [OF assms(1,2) claimed(1)])
  note c = c1(1) c2(1,2,4)
  have ids: "row_text ` set rows = row_text ` set chosen" using c(3) by (metis list.set_map)
  have i: "list_all2 (batch_touched (row_text ` set rows)) (uow_rows uow1) (uow_rows uow')"
    using claimed(2) by (rule items_rows)
  show ?thesis unfolding list_all2_conv_all_nth
  proof (intro conjI allI impI)
    show "length (uow_rows uow) = length (uow_rows uow')" using c(4) i by (auto simp: list_all2_lengthD)
    fix k assume k: "k < length (uow_rows uow)"
    let ?r = "uow_rows uow ! k" and ?r1 = "uow_rows uow1 ! k" and ?r' = "uow_rows uow' ! k"
    have 1: "same_message ?r ?r1" "?r1 = ?r \<or> ?r \<in> set chosen" using c(4) k by (auto simp: list_all2_conv_all_nth)
    have 2: "batch_touched (row_text ` set rows) ?r1 ?r'" using i c(4) k by (auto simp: list_all2_conv_all_nth)
    show "same_message ?r ?r'" using 1 2 by (auto simp: batch_touched_def same_message_def)
    have "?r \<in> set chosen" if "row_text ?r \<in> row_text ` set chosen"
      using that c(1) k assms(1) by (auto simp: distinct_map inj_on_def) (metis nth_mem subsetD)
    then show "?r' = ?r \<or> due n n ?r \<and> om_status ?r \<in> set live_statuses"
      using 1 2 c(2) ids by (auto simp: batch_touched_def)
  qed
qed

text \<open>
  A batch changes only rows that are due and live: whatever fails in it, every other row
  (expired, out of attempts, not yet available, delivered, dead, cancelled or failed) is exactly as
  before, and no row changes its identity, recipient or text.  In particular an expired or
  exhausted row is never moved to the dead letter by the batch.
\<close>

theorem batch_touches_only_due:
  assumes "distinct (map row_text (uow_rows uow))" "normalizeIsoTimestamp (Some (bi_now input)) = Some n"
    and "process_batch_in_memory digest collate send input (uow, t) = (res, (uow', t'))"
  shows "list_all2 (\<lambda>r r'. same_message r r' \<and> (r' = r \<or> (due n n r \<and> om_status r \<in> set live_statuses))) (uow_rows uow) (uow_rows uow')"
  using assms by (rule batch_rows)

definition sample_batch :: batch_input where
  "sample_batch = \<lparr>bi_now = ''2026-01-05T12:00:00.000Z'', bi_config = sample_config\<rparr>"

definition expired_uow :: outbox_unit_of_work where
  "expired_uow = \<lparr>ou_repository = sample_runtime [sample_pending\<lparr>om_expiresAt := Some ''2026-01-05T12:00:00.000Z''\<rparr>],
     ou_failNextCommit = False\<rparr>"

lemma batch_touches_only_due_witness:
  "\<exists>res uow' t'. process_batch_in_memory id text_order fake_send sample_batch (expired_uow, accepting []) = (res, (uow', t')) \<and>
     map om_status (uow_rows uow') = [Om_pending]"
proof -
  obtain res uow' t' where b: "process_batch_in_memory id text_order fake_send sample_batch (expired_uow, accepting []) = (res, (uow', t'))"
    by (cases "process_batch_in_memory id text_order fake_send sample_batch (expired_uow, accepting [])") auto
  have r: "uow_rows expired_uow = [sample_pending\<lparr>om_expiresAt := Some ''2026-01-05T12:00:00.000Z''\<rparr>]"
    by (simp add: expired_uow_def uow_rows_def memory_rows_def)
  have n: "normalizeIsoTimestamp (Some (bi_now sample_batch)) = Some ''2026-01-05T12:00:00.000Z''" by (simp add: sample_batch_def)
  have "\<not> due ''2026-01-05T12:00:00.000Z'' ''2026-01-05T12:00:00.000Z'' (sample_pending\<lparr>om_expiresAt := Some ''2026-01-05T12:00:00.000Z''\<rparr>)"
    by (simp add: due_def)
  then have "uow_rows uow' = [sample_pending\<lparr>om_expiresAt := Some ''2026-01-05T12:00:00.000Z''\<rparr>]"
    using batch_touches_only_due [OF _ n b] by (auto simp: r list_all2_Cons1)
  then show ?thesis using b by (auto simp: sample_pending_def)
qed

lemma same_message_request: "same_message r r' \<Longrightarrow> transport_request_of (work_on input r') = transport_request_of (work_on input r)"
  by (simp add: transport_request_of_def same_message_def)

lemma same_messages_chosen:
  assumes "list_all2 same_message chosen rows" "subseq rs rows"
  obtains rs0 where "subseq rs0 chosen" "list_all2 same_message rs0 rs"
proof -
  obtain N where rs: "rs = nths rows N" using assms(2) by (auto simp: subseq_conv_nths)
  have "list_all2 same_message (nths chosen N) (nths rows N)" using assms(1)
  proof (induction chosen rows arbitrary: N rule: list_all2_induct)
    case (Cons x xs y ys)
    then show ?case using Cons.IH [of "{j. Suc j \<in> N}"] by (simp add: nths_Cons)
  qed simp
  then show ?thesis using that [of "nths chosen N"] rs by (auto simp: subseq_conv_nths)
qed

context logged_transport
begin

text \<open>The entries of a batch belong to different, due rows, and there are at most \<open>batchSize\<close>.\<close>

lemma journal_batch:
  assumes "distinct (map row_text (uow_rows uow))" "normalizeIsoTimestamp (Some (bi_now input)) = Some n"
    and "process_batch_in_memory digest collate send input (uow, t) = (res, (uow', t'))"
  obtains rs es where "journal t' = journal t @ es" "length es \<le> nat (wc_batchSize (bi_config input))"
    "distinct (map om_idempotencyKey rs)" "set rs \<subseteq> set (uow_rows uow)"
    "\<forall>r \<in> set rs. due n n r \<and> om_status r \<in> set live_statuses"
    "list_all2 (\<lambda>r e. logs (transport_request_of (work_on input r)) e) rs es"
  using assms(3)
proof (cases rule: batch_run)
  case (failed e)
  have "t' = t" using failed(1) by (rule batch_claim_transport)
  then show ?thesis by (intro that [of "[]" "[]"]) simp_all
next
  case (claimed rows uow1 t1 p summed)
  obtain chosen where t1: "t1 = t" and c: "set chosen \<subseteq> set (uow_rows uow)" "distinct (map om_idempotencyKey chosen)"
    "length chosen \<le> nat (wc_batchSize (bi_config input))"
    "\<forall>r \<in> set chosen. due n n r \<and> om_status r \<in> set live_statuses" and m: "list_all2 same_message chosen rows"
    by (rule batch_claim_run [OF assms(1,2) claimed(1)])
  obtain rs es where j: "journal t' = journal t1 @ es" "subseq rs rows"
    "list_all2 (\<lambda>r e. logs (transport_request_of (work_on input r)) e) rs es"
    using journal_items [OF claimed(2)] by blast
  obtain rs0 where r0: "subseq rs0 chosen" "list_all2 same_message rs0 rs" using m j(2) by (rule same_messages_chosen)
  have l: "list_all2 (\<lambda>r e. logs (transport_request_of (work_on input r)) e) rs0 es"
    using r0(2) j(3) by (auto simp: list_all2_conv_all_nth) (metis same_message_request)
  have s: "set rs0 \<subseteq> set chosen" using r0(1) by (metis notin_set_nthsI subseq_conv_nths subsetI)
  have d: "distinct (map om_idempotencyKey rs0)"
    using r0(1) c(2) by (auto simp: subseq_conv_nths distinct_map intro: inj_on_subset dest: in_set_nthsD)
  have "length es \<le> length chosen" using list_emb_length [OF r0(1)] l by (simp add: list_all2_lengthD)
  then show ?thesis using c(1,3,4) s t1 by (intro that [OF _ _ d _ _ l]) (auto simp: j(1))
qed (use that [of "[]" "[]"] in simp)

end

text \<open>
  A batch sends at most \<open>batchSize\<close> messages and never two with one idempotency key, even when
  items fail.
\<close>

theorem batch_sends_bounded:
  assumes "distinct (map row_text (uow_rows uow))" "normalizeIsoTimestamp (Some (bi_now input)) = Some n"
    and "process_batch_in_memory digest collate fake_send input (uow, t) = (res, (uow', t'))"
  shows "\<exists>ks. fake_sent t' = fake_sent t @ ks \<and> distinct ks \<and> length ks \<le> nat (wc_batchSize (bi_config input))"
proof -
  obtain rs es where j: "fake_sent t' = fake_sent t @ es" "length es \<le> nat (wc_batchSize (bi_config input))"
    "distinct (map om_idempotencyKey rs)"
    "list_all2 (\<lambda>r k. k = tq_idempotencyKey (transport_request_of (work_on input r))) rs es"
    using fake.journal_batch [OF assms] by metis
  have "es = map om_idempotencyKey rs"
    using j(4) by (simp add: list_all2_conv_all_nth list_eq_iff_nth_eq transport_request_of_def Let_def)
  then show ?thesis using j by auto
qed

definition delivering_uow :: outbox_unit_of_work where
  "delivering_uow = \<lparr>ou_repository = sample_runtime [sample_pending], ou_failNextCommit = False\<rparr>"

lemma batch_sends_bounded_witness:
  "\<exists>res uow' t'. process_batch_in_memory id text_order fake_send sample_batch (delivering_uow, accepting []) = (res, (uow', t')) \<and>
     length (fake_sent t') \<le> 10"
proof -
  obtain res uow' t' where b: "process_batch_in_memory id text_order fake_send sample_batch (delivering_uow, accepting []) = (res, (uow', t'))"
    by (cases "process_batch_in_memory id text_order fake_send sample_batch (delivering_uow, accepting [])") auto
  have d: "distinct (map row_text (uow_rows delivering_uow))" by (simp add: delivering_uow_def uow_rows_def memory_rows_def)
  have n: "normalizeIsoTimestamp (Some (bi_now sample_batch)) = Some ''2026-01-05T12:00:00.000Z''" by (simp add: sample_batch_def)
  have "fake_sent (accepting []) = []" by (simp add: fake_sent_def accepting_def)
  then show ?thesis using batch_sends_bounded [OF d n b] b by (auto simp: sample_batch_def sample_config_def)
qed

section \<open>Counts\<close>

definition counted :: "batch_result \<Rightarrow> nat" where
  "counted b = br_delivered b + br_retryScheduled b + br_deadLettered b + br_expired b + br_skipped b + br_failed b"

lemma count_status_counted:
  "status \<noteq> Ps_processed \<Longrightarrow> counted (count_status status b) = counted b + 1"
  "br_processed (count_status status b) = br_processed b" "br_results (count_status status b) = br_results b"
  "br_claimed (count_status status b) = br_claimed b"
  by (cases status; simp add: count_status_def counted_def)+

lemma add_result_counted:
  assumes "pr_status r \<noteq> Ps_processed"
  shows "counted (add_result r b) = counted b + 1" "br_processed (add_result r b) = br_processed b + 1"
    "length (br_results (add_result r b)) = length (br_results b) + 1" "br_claimed (add_result r b) = br_claimed b"
  using assms by (simp_all add: add_result_def count_status_counted) (simp add: counted_def)

lemma add_failure_counted:
  "counted (add_failure w p e b) = counted b + 1" "br_processed (add_failure w p e b) = br_processed b + 1"
  "length (br_results (add_failure w p e b)) = length (br_results b) + 1" "br_claimed (add_failure w p e b) = br_claimed b"
  by (simp_all add: add_failure_def Let_def counted_def)

lemma items_counted:
  assumes "\<And>w u r u'. item w u = (Inr r, u') \<Longrightarrow> pr_status r \<noteq> Ps_processed"
  shows "process_items item input p rows b u = (summed, u') \<Longrightarrow>
    counted summed = counted b + length rows \<and> br_processed summed = br_processed b + length rows \<and>
    length (br_results summed) = length (br_results b) + length rows \<and> br_claimed summed = br_claimed b"
proof (induction rows arbitrary: b u)
  case (Cons c rows)
  obtain res u1 where i: "item \<lparr>wi_now = bi_now input, wi_record = c, wi_config = bi_config input\<rparr> u = (res, u1)"
    by (cases "item \<lparr>wi_now = bi_now input, wi_record = c, wi_config = bi_config input\<rparr> u")
  show ?case
  proof (cases res)
    case (Inl e)
    then show ?thesis using Cons i by (auto simp: Let_def add_failure_counted)
  next
    case (Inr r)
    then have "pr_status r \<noteq> Ps_processed" using i assms by blast
    then show ?thesis using Cons i Inr by (auto simp: Let_def add_result_counted)
  qed
qed simp

lemma claimed_status:
  assumes "processClaimedOutboxRecord digest outbox send input st = (Inr r, st')"
  shows "pr_status r \<noteq> Ps_processed"
proof (cases "ev_decision (evaluateOutboxCandidate input) = Process")
  case True
  obtain s t where st: "st = (s, t)" by (cases st)
  obtain tr settled where "settle_outcome digest input (evaluateOutboxCandidate input) tr = Inr settled" "pr_status r = fst settled"
    using assms unfolding st claimed_unfold [OF True] by (auto simp: sent_result_def split: prod.splits sum.splits if_splits)
  then show ?thesis using settle_agrees [of digest input _ tr "fst settled" "snd settled"]
    by (cases "pl_planType (snd settled)") (auto simp: status_of_plan_def)
next
  case False
  then show ?thesis using claimed_skip [OF False, of digest outbox send st] assms by auto
qed

lemma claim_loop_length:
  "claim_loop input now lease rows records claimed seen = (records', claimed') \<Longrightarrow>
     length claimed' \<le> max (length claimed) (nat (ci_batchSize input))"
proof (induction input now lease rows records claimed seen rule: claim_loop.induct)
  case (2 input now lease candidate rows records claimed seen)
  then show ?case
    by (simp add: Let_def split: if_splits option.splits)
qed simp

lemma batch_claim_length:
  assumes "run_outbox (batch_claim (in_memory_outbox collate) input) (uow, t) = (Inr claimed, (uow', t'))"
  shows "length claimed \<le> nat (wc_batchSize (bi_config input))"
proof -
  obtain staged where o: "batch_claim (in_memory_outbox collate) input (staged_repository uow, t) = (Inr claimed, (staged, t'))"
    using assms by (auto elim!: run_outbox_cases)
  obtain lease where "claimAvailable collate \<lparr>ci_now = bi_now input, ci_workerId = wc_workerId (bi_config input),
        ci_batchSize = wc_batchSize (bi_config input), ci_leaseExpiresAt = lease,
        ci_recoverExpiredLeases = wc_recoverExpiredLeases (bi_config input)\<rparr> (staged_repository uow) = (Inr claimed, staged)"
    using o by (cases "addSecondsToIso (bi_now input) (wc_leaseSeconds (bi_config input))")
      (auto simp: batch_claim_def raise_error_def on_repository_def in_memory_outbox_def split: prod.splits)
  then show ?thesis using claim_loop_length [where claimed = "[]" and claimed' = claimed]
    by (auto simp: claimAvailable_def Let_def split: if_splits option.splits prod.splits) fastforce
qed

text \<open>
  The counts of a batch add up: every claimed row is processed and reported once, each result is
  counted in exactly one of the six classes, and no more rows are claimed than the batch size.
\<close>

theorem batch_counts:
  assumes "process_batch_in_memory digest collate send input (uow, t) = (Inr summed, st')"
  shows "br_processed summed = br_claimed summed \<and> length (br_results summed) = br_claimed summed \<and>
    br_delivered summed + br_retryScheduled summed + br_deadLettered summed + br_expired summed + br_skipped summed +
      br_failed summed = br_claimed summed \<and>
    br_claimed summed \<le> nat (wc_batchSize (bi_config input))"
proof -
  obtain uow' t' where st: "st' = (uow', t')" by (cases st')
  show ?thesis using assms[unfolded st]
  proof (cases rule: batch_run)
    case unclaimed
    then show ?thesis by (auto simp: empty_batch_def)
  next
    case (claimed rows uow1 t1 p s)
    have "pr_status r \<noteq> Ps_processed"
      if run: "run_outbox (processClaimedOutboxRecord digest (in_memory_outbox collate) send w) u = (Inr r, u')" for w u r u'
    proof -
      obtain a b a' b' where u: "u = (a, b)" "u' = (a', b')" by (metis surj_pair)
      obtain staged where "processClaimedOutboxRecord digest (in_memory_outbox collate) send w (staged_repository a, b) = (Inr r, (staged, b'))"
        using run unfolding u by (auto elim!: run_outbox_cases)
      then show ?thesis by (rule claimed_status)
    qed
    note c = items_counted [OF this claimed(2)]
    then show ?thesis using claimed(3) batch_claim_length [OF claimed(1)] by (simp add: empty_batch_def counted_def)
  qed simp
qed

lemma sample_lease: "addSecondsToIso ''2026-01-05T12:00:00.000Z'' 300 = Inr ''2026-01-05T12:05:00.000Z''"
  by code_simp

lemma sample_batch_returns:
  assumes "ff_claimAvailable (or_flags (ou_repository uow)) = False" "ou_failNextCommit uow = False"
    "distinct (map row_text (uow_rows uow))"
  shows "\<exists>rows uow1. run_outbox (batch_claim (in_memory_outbox collate) sample_batch) (uow, t) = (Inr rows, (uow1, t))"
proof -
  let ?ci = "\<lparr>ci_now = ''2026-01-05T12:00:00.000Z'', ci_workerId = ''w'', ci_batchSize = 10,
     ci_leaseExpiresAt = ''2026-01-05T12:05:00.000Z'', ci_recoverExpiredLeases = True\<rparr>"
  obtain rows staged where c: "claimAvailable collate ?ci (staged_repository uow) = (Inr rows, staged)"
    using claim_characterization [of "staged_repository uow" ?ci _ _ collate] assms(1,3)
    by (simp add: uow_rows_def memory_rows_def Let_def)
  have "batch_claim (in_memory_outbox collate) sample_batch (staged_repository uow, t) = (Inr rows, (staged, t))"
    using c by (simp add: batch_claim_def sample_batch_def sample_config_def sample_lease on_repository_def in_memory_outbox_def)
  then show ?thesis using assms(2) by (simp add: run_outbox_def staged_repository_def)
qed

lemma batch_counts_witness:
  "\<exists>summed st'. process_batch_in_memory id text_order fake_send sample_batch (delivering_uow, accepting []) = (Inr summed, st') \<and>
     length (br_results summed) = br_claimed summed"
proof -
  have "\<exists>rows uow1. run_outbox (batch_claim (in_memory_outbox text_order) sample_batch) (delivering_uow, accepting []) = (Inr rows, (uow1, accepting []))"
    by (rule sample_batch_returns) (simp_all add: delivering_uow_def no_runtime_failures_def uow_rows_def memory_rows_def)
  then obtain rows uow1 where r: "run_outbox (batch_claim (in_memory_outbox text_order) sample_batch) (delivering_uow, accepting []) =
      (Inr rows, (uow1, accepting []))" by blast
  have e: "wc_workerEnabled (bi_config sample_batch)" "wc_transportEnabled (bi_config sample_batch)"
    by (simp_all add: sample_batch_def sample_config_def)
  have "is_ok (fst (process_batch_in_memory id text_order fake_send sample_batch (delivering_uow, accepting [])))"
    by (simp add: processOutboxBatch_def Let_def e await_def r split: prod.split)
  then obtain summed st' where b: "process_batch_in_memory id text_order fake_send sample_batch (delivering_uow, accepting []) = (Inr summed, st')"
    by (metis is_okE prod.collapse)
  then show ?thesis using batch_counts [OF b] by blast
qed

section \<open>A persistent outage\<close>

fun run_batches :: "nat \<Rightarrow> outbox_unit_of_work \<times> fake_transport \<Rightarrow> outbox_unit_of_work \<times> fake_transport" where
  "run_batches 0 st = st"
| "run_batches (Suc n) st = run_batches n (snd (process_batch_in_memory id text_order fake_send sample_batch st))"

lemma stuck_claimable:
  "claimable \<lparr>ci_now = ''2026-01-05T12:00:00.000Z'', ci_workerId = ''w'', ci_batchSize = 10,
     ci_leaseExpiresAt = ''2026-01-05T12:05:00.000Z'', ci_recoverExpiredLeases = True\<rparr> ''2026-01-05T12:00:00.000Z''
     ''2026-01-05T12:05:00.000Z'' [sample_message] sample_message"
proof -
  have t: "asText (Some ''outbox-command:k'') \<noteq> None" "asText (Some ''k'') \<noteq> None" "asText (Some ''a'') \<noteq> None"
    "asText (Some ''56911112222'') \<noteq> None" "asText (Some ''Hola'') \<noteq> None" by code_simp+
  have n: "normalizeIsoTimestamp None = None" by (simp add: normalizeIsoTimestamp_def)
  show ?thesis unfolding claimable_def claim_evaluation_def candidate_process_characterization
    using t by (simp add: claim_config_def well_addressed_def due_def free_for_def sample_message_def n)
qed

lemma stuck_claim:
  "run_outbox (batch_claim (in_memory_outbox text_order) sample_batch) (stuck_uow, t) = (Inr [sample_message], (stuck_uow, t))"
proof -
  let ?ci = "\<lparr>ci_now = ''2026-01-05T12:00:00.000Z'', ci_workerId = ''w'', ci_batchSize = 10,
     ci_leaseExpiresAt = ''2026-01-05T12:05:00.000Z'', ci_recoverExpiredLeases = True\<rparr>"
  have s: "staged_repository stuck_uow = ou_repository stuck_uow"
    by (simp add: staged_repository_def outbox_repository_from_state_def new_outbox_worker_repository_def stuck_uow_def Let_def)
  have ch: "claim_choice text_order ?ci ''2026-01-05T12:00:00.000Z'' ''2026-01-05T12:05:00.000Z'' [sample_message] = [sample_message]"
    using stuck_claimable by (simp add: claim_choice_def js_sort_def)
  have r: "claimed_record ?ci ''2026-01-05T12:00:00.000Z'' ''2026-01-05T12:05:00.000Z'' sample_message = sample_message"
    by (simp add: claimed_record_def sample_message_def)
  have u: "ou_repository stuck_uow\<lparr>or_state := (or_state (ou_repository stuck_uow))\<lparr>rt_records := [sample_message]\<rparr>\<rparr> = ou_repository stuck_uow"
    by (simp add: stuck_uow_def new_outbox_worker_repository_def buildInitialState_def)
  have "claimAvailable text_order ?ci (ou_repository stuck_uow) = (Inr [sample_message], ou_repository stuck_uow)"
    using claim_characterization [of "ou_repository stuck_uow" ?ci "''2026-01-05T12:00:00.000Z''" "''2026-01-05T12:05:00.000Z''" text_order]
    by (simp add: ch r u claim_selected_def Let_def) (simp add: audit_outage_def no_runtime_failures_def)
  then have "batch_claim (in_memory_outbox text_order) sample_batch (staged_repository stuck_uow, t) =
      (Inr [sample_message], (ou_repository stuck_uow, t))"
    unfolding s by (simp add: batch_claim_def sample_batch_def sample_config_def sample_lease on_repository_def in_memory_outbox_def)
  then show ?thesis by (simp add: run_outbox_def staged_repository_def replace_outbox_state_with_def)
qed

lemma stuck_batch:
  obtains call where "fk_idempotencyKey call = ''k''"
    "snd (process_batch_in_memory id text_order fake_send sample_batch (stuck_uow, accepting calls)) = (stuck_uow, accepting (calls @ [call]))"
proof -
  obtain call where c: "fk_idempotencyKey call = ''k''"
    "run_outbox (processClaimedOutboxRecord id (in_memory_outbox text_order) fake_send sample_worker_input) (stuck_uow, accepting calls) =
       (Inl outage_error, (stuck_uow, accepting (calls @ [call])))" by (rule stuck_step)
  have w: "\<lparr>wi_now = bi_now sample_batch, wi_record = sample_message, wi_config = bi_config sample_batch\<rparr> = sample_worker_input"
    by (simp add: sample_batch_def sample_worker_input_def)
  have e: "wc_workerEnabled (bi_config sample_batch)" "wc_transportEnabled (bi_config sample_batch)"
    by (simp_all add: sample_batch_def sample_config_def)
  show ?thesis
    by (rule that [OF c(1)]) (simp add: processOutboxBatch_def Let_def e await_def stuck_claim w c(2) split: prod.split)
qed

lemma stuck_batches:
  "\<exists>calls'. run_batches n (stuck_uow, accepting calls) = (stuck_uow, accepting (calls @ calls')) \<and>
     map fk_idempotencyKey calls' = replicate n ''k''"
proof (induction n arbitrary: calls)
  case (Suc n)
  obtain call where c: "fk_idempotencyKey call = ''k''"
    "snd (process_batch_in_memory id text_order fake_send sample_batch (stuck_uow, accepting calls)) = (stuck_uow, accepting (calls @ [call]))"
    by (rule stuck_batch)
  obtain calls' where "run_batches n (stuck_uow, accepting (calls @ [call])) = (stuck_uow, accepting ((calls @ [call]) @ calls'))"
    "map fk_idempotencyKey calls' = replicate n ''k''" using Suc.IH by blast
  then show ?case using c by (intro exI [of _ "call # calls'"]) simp
qed simp

text \<open>
  Attempts are not bounded by \<open>maxAttempts\<close>: with an audit trail that refuses the event of a
  delivery, every batch sends the one message again, and after any number of batches the row still
  counts no attempt of its three.
\<close>

theorem resends_without_bound:
  "fake_sent (snd (run_batches n (stuck_uow, accepting []))) = replicate n ''k'' \<and>
   map om_attemptCount (uow_rows (fst (run_batches n (stuck_uow, accepting [])))) = [0] \<and>
   map om_maxAttempts (uow_rows (fst (run_batches n (stuck_uow, accepting [])))) = [3]"
  using stuck_batches [of n "[]"]
  by (auto simp: fake_sent_def accepting_def uow_rows_def memory_rows_def sample_message_def)

end
