(* ===== verification/WhatsAppSafety.thy ===== *)
theory WhatsAppSafety
  imports WhatsAppClient OutboxBatch
begin

text \<open>
  What the WhatsApp transport guarantees: which messages it posts, how it reads the answers, what
  its error messages contain, and how it behaves under the outbox worker.
\<close>

section \<open>Recipients\<close>

lemma normalize_recipient_same: "normalizeWhatsAppRecipientDigits (Some v) = normalizeWhatsAppRecipient v"
  by (simp add: normalizeWhatsAppRecipientDigits_def normalizeWhatsAppRecipient_def)

lemma normalize_recipient_trim [simp]: "normalizeWhatsAppRecipient (js_trim v) = normalizeWhatsAppRecipient v"
  by (simp add: normalizeWhatsAppRecipient_def)

lemma normalize_recipient_blank: "js_trim v = [] \<Longrightarrow> normalizeWhatsAppRecipient v = None"
  by (simp add: normalizeWhatsAppRecipient_def)

lemma normalize_recipient_digits: "normalizeWhatsAppRecipient v = Some r \<Longrightarrow> r \<noteq> [] \<and> list_all is_digit r"
  by (auto simp: normalizeWhatsAppRecipient_def Let_def split: if_splits)

lemma digit_phone: "is_digit c \<Longrightarrow> phone_char c \<and> \<not> phone_separator c \<and> c \<noteq> CHR ''+''"
  by (auto simp: phone_char_def phone_separator_def is_digit_def is_ws_def Let_def)

lemma normalize_recipient_id:
  assumes "r \<noteq> []" "list_all is_digit r"
  shows "normalizeWhatsAppRecipient r = Some r"
proof -
  have c: "phone_char c \<and> \<not> phone_separator c \<and> c \<noteq> CHR ''+''" if "c \<in> set r" for c
    using that assms(2) digit_phone by (auto simp: list_all_iff)
  have "\<not> is_ws (hd r)" "\<not> is_ws (last r)"
    using c [of "hd r"] c [of "last r"] assms(1) by (auto simp: phone_separator_def)
  then have t: "js_trim r = r" by (intro js_trim_id) simp
  have f: "filter (\<lambda>c. \<not> phone_separator c) r = r" using c by (simp add: filter_id_conv)
  have "hd r \<noteq> CHR ''+''" using c assms(1) by simp
  then have d: "dropWhile (\<lambda>c. c = CHR ''+'') r = r" by (intro dropWhile_hd_id) simp
  have p: "list_all phone_char r" using c by (simp add: list_all_iff)
  show ?thesis using assms p by (simp add: normalizeWhatsAppRecipient_def t f d)
qed

lemma in_normalized_allowed:
  "r \<in> set (normalized_allowed allowed) \<longleftrightarrow> (\<exists>v \<in> set allowed. normalizeWhatsAppRecipient v = Some r)"
proof -
  have "(\<exists>v \<in> set allowed. normalizeWhatsAppRecipient v = Some r) \<longleftrightarrow>
      r \<in> set (List.map_filter normalizeWhatsAppRecipient allowed)"
    by (force simp: map_filter_def)
  then show ?thesis
    using normalize_recipient_digits by (auto simp: normalized_allowed_def normalize_recipient_same)
qed

section \<open>Validation\<close>

lemma failure_simps [simp]:
  "\<not> wv_ok (buildFailureResult q m c t)" "wv_requestId (buildFailureResult q m c t) = q"
  "wv_errorCode (buildFailureResult q m c t) = Some c" "wv_errorMessageSafe (buildFailureResult q m c t) = Some t"
  by (simp_all add: buildFailureResult_def)

lemma ok_guard: "wv_ok (if c then buildFailureResult q m e t else v) \<longleftrightarrow> \<not> c \<and> wv_ok v"
  by simp

lemma ok_check:
  "wv_ok (case k of None \<Rightarrow> v | Some (e, t) \<Rightarrow> buildFailureResult q m e t) \<longleftrightarrow> k = None \<and> wv_ok v"
  by (simp split: option.split)

text \<open>The text of a message that may be sent.\<close>

definition sendable_text :: "whatsapp_config \<Rightarrow> string \<Rightarrow> bool" where
  "sendable_text config text \<longleftrightarrow> text \<noteq> [] \<and> \<not> int_exceeds (int (length text)) (wa_maxTextLength config) \<and>
     \<not> wa_hasUnresolvedPlaceholder text \<and> \<not> isRawJsonLikeMessage text \<and> \<not> hasCredentialLikeContent text"

lemma asText_cases: "asText (Some s) = (if js_trim s = [] then None else Some (js_trim s))"
  by (simp add: asText_def Let_def)

lemma check_text_None: "check_text config (asText (Some s)) = None \<longleftrightarrow> sendable_text config (js_trim s)"
  by (simp add: check_text_def asText_cases sendable_text_def)

lemma check_config_None:
  "check_config legacy config (asText (Some s)) = None \<longleftrightarrow>
     js_trim (wa_graphBaseUrl config) \<noteq> [] \<and> js_trim (wa_graphApiVersion config) \<noteq> [] \<and>
     js_trim (wa_phoneNumberId config) \<noteq> [] \<and> js_trim (wa_accessToken config) \<noteq> [] \<and>
     is_finite (wa_timeoutMs config) \<and> double_pos (wa_timeoutMs config) \<and>
     js_trim s \<noteq> [] \<and> date_value legacy (js_trim s) \<noteq> None"
  by (auto simp: check_config_def asText_cases isValidTimestamp_def)

text \<open>
  The validation accepts a message exactly when the transport is an enabled sandbox with exact
  matching, the command is an identified WhatsApp text, its recipient is a number of the whitelist
  (compared as digits), the text is not blank, short enough and free of placeholders, JSON and
  credentials, and the configuration and the time can be used.
\<close>

theorem whatsapp_validation_iff:
  "wv_ok (validateWhatsAppTransportInput digest legacy input config) \<longleftrightarrow>
     wa_enabled config \<and> wa_sandbox config \<and> tq_sandbox input \<and> wa_requireExactWhitelistMatch config \<and>
     js_trim (tq_commandId input) \<noteq> [] \<and> js_trim (tq_idempotencyKey input) \<noteq> [] \<and>
     tq_channel input = ''whatsapp'' \<and> tq_commandType input = ''whatsapp_text'' \<and>
     (\<exists>r v. normalizeWhatsAppRecipient (tq_recipient input) = Some r \<and>
        v \<in> set (wa_allowedRecipients config) \<and> normalizeWhatsAppRecipient v = Some r) \<and>
     sendable_text config (js_trim (tq_messageText input)) \<and>
     js_trim (wa_graphBaseUrl config) \<noteq> [] \<and> js_trim (wa_graphApiVersion config) \<noteq> [] \<and>
     js_trim (wa_phoneNumberId config) \<noteq> [] \<and> js_trim (wa_accessToken config) \<noteq> [] \<and>
     is_finite (wa_timeoutMs config) \<and> double_pos (wa_timeoutMs config) \<and>
     js_trim (tq_attemptedAt input) \<noteq> [] \<and> date_value legacy (js_trim (tq_attemptedAt input)) \<noteq> None"
proof (cases "normalizeWhatsAppRecipient (tq_recipient input)")
  case None
  then show ?thesis
    by (simp add: validateWhatsAppTransportInput_def Let_def asText_cases)
next
  case (Some r)
  then have ne: "js_trim (tq_recipient input) \<noteq> []" using normalize_recipient_blank by force
  have w: "isExactWhitelistMatch r (wa_allowedRecipients config) \<longleftrightarrow>
      (\<exists>v. v \<in> set (wa_allowedRecipients config) \<and> normalizeWhatsAppRecipient v = Some r)"
    by (auto simp: isExactWhitelistMatch_def in_normalized_allowed)
  have n: "normalized_allowed (wa_allowedRecipients config) \<noteq> []"
    if "v \<in> set (wa_allowedRecipients config)" "normalizeWhatsAppRecipient v = Some r" for v
    using that in_normalized_allowed [of r "wa_allowedRecipients config"] by force
  show ?thesis
    unfolding validateWhatsAppTransportInput_def Let_def ok_guard asText_cases [of "tq_recipient input"] if_not_P [OF ne]
      option.case normalize_recipient_trim Some ok_check check_text_None check_config_None w
    using n by (auto simp: asText_cases)
qed

section \<open>Posting\<close>

lemma whatsapp_send_cases:
  assumes "whatsapp_send digest legacy config postJson input h = (res, h')"
  obtains (refused) tr where "\<not> wv_ok (validateWhatsAppTransportInput digest legacy input config)" "h' = h" "res = Inr tr"
      "tr_status tr = Tr_permanent_failure"
  | (posted) r request tr where "wv_ok (validateWhatsAppTransportInput digest legacy input config)"
      "normalizeWhatsAppRecipient (tq_recipient input) = Some r"
      "buildWhatsAppTextRequest digest input config = Inr request"
      "h' = snd (postJson (post_of request) h)" "res = Inr tr"
      "tr = (case fst (postJson (post_of request) h) of
         Inr response \<Rightarrow> classifyHttpStatus legacy response (send_context input request)
       | Inl error \<Rightarrow> classifyClientException error (send_context input request))"
proof (cases "wv_ok (validateWhatsAppTransportInput digest legacy input config)")
  case True
  then obtain r where r: "normalizeWhatsAppRecipient (tq_recipient input) = Some r"
    unfolding whatsapp_validation_iff by blast
  then obtain request where q: "buildWhatsAppTextRequest digest input config = Inr request"
    by (simp add: buildWhatsAppTextRequest_def Let_def)
  show ?thesis using assms True r q posted [OF True r q]
    by (auto simp: whatsapp_send_def split: prod.splits sum.splits)
next
  case False
  then show ?thesis using assms refused by (auto simp: whatsapp_send_def buildFailedResult_def Let_def)
qed

lemma built_request:
  assumes "normalizeWhatsAppRecipient (tq_recipient input) = Some r" "buildWhatsAppTextRequest digest input config = Inr request"
  shows "hp_body (post_of request) = message_body r (js_trim (tq_messageText input))"
    "map_of (hp_headers (post_of request)) ''X-Idempotency-Key'' = Some (js_trim (tq_idempotencyKey input))"
    "hp_requestId (post_of request) = buildWhatsAppRequestId digest (js_trim (tq_commandId input)) (js_trim (tq_idempotencyKey input))"
    "ra_recipientMasked (wr_audit request) = (case maskWaId (Some r) of None \<Rightarrow> [] | Some m \<Rightarrow> m)"
  using assms normalize_recipient_digits [OF assms(1)]
  by (auto simp: buildWhatsAppTextRequest_def Let_def post_of_def maskWhatsAppRecipient_def normalize_recipient_same normalize_recipient_id)

text \<open>
  Whatever the HTTP client does, a message is either refused for good without a call, or posted
  once, in a sandbox, to a number of the whitelist and with a text that may be sent, under the
  trimmed idempotency key of its row; the transport never throws.
\<close>

theorem whatsapp_posts_only_admitted:
  assumes "whatsapp_send digest legacy config postJson input h = (res, h')"
  shows "is_ok res \<and>
    ((h' = h \<and> (\<exists>tr. res = Inr tr \<and> tr_status tr = Tr_permanent_failure)) \<or>
     (wa_enabled config \<and> wa_sandbox config \<and> tq_sandbox input \<and>
      (\<exists>r v p. v \<in> set (wa_allowedRecipients config) \<and> normalizeWhatsAppRecipient v = Some r \<and>
        normalizeWhatsAppRecipient (tq_recipient input) = Some r \<and> sendable_text config (js_trim (tq_messageText input)) \<and>
        hp_body p = message_body r (js_trim (tq_messageText input)) \<and>
        map_of (hp_headers p) ''X-Idempotency-Key'' = Some (js_trim (tq_idempotencyKey input)) \<and>
        h' = snd (postJson p h))))"
  using assms
proof (cases rule: whatsapp_send_cases)
  case (refused tr)
  then show ?thesis by auto
next
  case (posted r request tr)
  then obtain v where v: "v \<in> set (wa_allowedRecipients config)" "normalizeWhatsAppRecipient v = Some r"
    and "wa_enabled config" "wa_sandbox config" "tq_sandbox input" "sendable_text config (js_trim (tq_messageText input))"
    unfolding whatsapp_validation_iff by auto
  then show ?thesis using posted(2,4,5) built_request [OF posted(2,3)] is_ok_simps
    by (intro conjI disjI2 exI [of _ r] exI [of _ v] exI [of _ "post_of request"]) simp_all
qed

text \<open>
  C38. A message is posted exactly when the transport is an enabled sandbox with exact matching, the
  command is an identified WhatsApp text, its recipient is a number of the whitelist (compared as
  digits), the text is not blank, short enough and free of placeholders, JSON and credentials, and
  the configuration and the time can be used; then it is posted once.
\<close>

theorem whatsapp_posts_iff:
  "length (fh_rawRequestsForTests (snd (whatsapp_send digest legacy config (fake_postJson digest) input h))) =
     length (fh_rawRequestsForTests h) +
     of_bool (wa_enabled config \<and> wa_sandbox config \<and> tq_sandbox input \<and> wa_requireExactWhitelistMatch config \<and>
     js_trim (tq_commandId input) \<noteq> [] \<and> js_trim (tq_idempotencyKey input) \<noteq> [] \<and>
     tq_channel input = ''whatsapp'' \<and> tq_commandType input = ''whatsapp_text'' \<and>
     (\<exists>r v. normalizeWhatsAppRecipient (tq_recipient input) = Some r \<and>
        v \<in> set (wa_allowedRecipients config) \<and> normalizeWhatsAppRecipient v = Some r) \<and>
     sendable_text config (js_trim (tq_messageText input)) \<and>
     js_trim (wa_graphBaseUrl config) \<noteq> [] \<and> js_trim (wa_graphApiVersion config) \<noteq> [] \<and>
     js_trim (wa_phoneNumberId config) \<noteq> [] \<and> js_trim (wa_accessToken config) \<noteq> [] \<and>
     is_finite (wa_timeoutMs config) \<and> double_pos (wa_timeoutMs config) \<and>
     js_trim (tq_attemptedAt input) \<noteq> [] \<and> date_value legacy (js_trim (tq_attemptedAt input)) \<noteq> None)"
  unfolding whatsapp_validation_iff [of digest legacy input config, symmetric]
proof -
  obtain res h' where s: "whatsapp_send digest legacy config (fake_postJson digest) input h = (res, h')" by fastforce
  then show "length (fh_rawRequestsForTests (snd (whatsapp_send digest legacy config (fake_postJson digest) input h))) =
      length (fh_rawRequestsForTests h) + of_bool (wv_ok (validateWhatsAppTransportInput digest legacy input config))"
    by (cases rule: whatsapp_send_cases) (simp_all add: s fake_postJson_def Let_def)
qed

text \<open>A message, a configuration and a client for the witnesses.\<close>

definition sample_transport_config :: whatsapp_config where
  "sample_transport_config = \<lparr>wa_enabled = True, wa_sandbox = True, wa_graphBaseUrl = ''https://graph.example'',
     wa_graphApiVersion = ''v20.0'', wa_phoneNumberId = ''1055'', wa_accessToken = ''t'', wa_timeoutMs = Double 5000 0,
     wa_allowedRecipients = [''+56 9 1111 2222''], wa_requireExactWhitelistMatch = True, wa_maxTextLength = Double 800 0\<rparr>"

definition sample_request :: transport_request where
  "sample_request = \<lparr>tq_commandId = ''outbox-command:k'', tq_idempotencyKey = ''k'', tq_channel = ''whatsapp'',
     tq_commandType = ''whatsapp_text'', tq_recipient = ''56911112222'', tq_messageText = ''Hola'', tq_sandbox = True,
     tq_attemptedAt = ''2026-01-05T12:00:00.000Z''\<rparr>"

definition http_client_with :: "http_scenario \<Rightarrow> fake_http_client" where
  "http_client_with scenario = new_fake_http_client \<lparr>hc_scenarioByRequestId = [], hc_scenarioByCommandId = [],
     hc_scenarioByIdempotencyKey = [], hc_defaultScenario = Some scenario, hc_explicitRetryAfterSeconds = None\<rparr>"

lemma sample_recipient: "normalizeWhatsAppRecipient ''56911112222'' = Some ''56911112222''"
  "normalizeWhatsAppRecipient ''+56 9 1111 2222'' = Some ''56911112222''"
  by code_simp+

lemma sample_text: "sendable_text sample_transport_config ''Hola''"
  by code_simp

lemma sample_valid: "wv_ok (validateWhatsAppTransportInput digest legacy sample_request sample_transport_config)"
proof -
  have t: "js_trim ''outbox-command:k'' = ''outbox-command:k''" "js_trim ''k'' = ''k''" "js_trim ''Hola'' = ''Hola''"
    "js_trim ''https://graph.example'' \<noteq> []" "js_trim ''v20.0'' \<noteq> []" "js_trim ''1055'' \<noteq> []" "js_trim ''t'' \<noteq> []"
    "js_trim ''2026-01-05T12:00:00.000Z'' = ''2026-01-05T12:00:00.000Z''" by code_simp+
  have d: "date_parse ''2026-01-05T12:00:00.000Z'' \<noteq> None" by code_simp
  then have d': "date_value legacy ''2026-01-05T12:00:00.000Z'' \<noteq> None" by (auto simp: date_value_def split: option.split)
  show ?thesis unfolding whatsapp_validation_iff
    using sample_text d' by (simp add: sample_request_def sample_transport_config_def t sample_recipient)
qed

lemma whatsapp_posts_only_admitted_witness:
  "\<exists>res h'. whatsapp_send id (\<lambda>_. None) sample_transport_config (fake_postJson id) sample_request (http_client_with Hs_timeout) = (res, h') \<and>
     is_ok res \<and> length (fh_rawRequestsForTests h') \<le> 1"
proof -
  obtain res h' where s: "whatsapp_send id (\<lambda>_. None) sample_transport_config (fake_postJson id) sample_request (http_client_with Hs_timeout) = (res, h')"
    by fastforce
  have "length (fh_rawRequestsForTests (snd (fake_postJson id p (http_client_with Hs_timeout)))) = 1"
    "fh_rawRequestsForTests (http_client_with Hs_timeout) = []" for p
    by (simp_all add: fake_postJson_def Let_def http_client_with_def new_fake_http_client_def)
  then show ?thesis using whatsapp_posts_only_admitted [OF s] s by fastforce
qed

text \<open>
  C39. Every attempt for a message makes the same request: the rest of a batch changes neither the
  command, the key, the recipient nor the text of a row, and the time of the attempt is not part of
  the request, so the provider can recognise a repetition by its key and its request id.
\<close>

theorem attempts_make_one_request:
  assumes "distinct (map row_text (uow_rows uow))" "normalizeIsoTimestamp (Some (bi_now input)) = Some n"
    and "process_batch_in_memory digest collate send input (uow, t) = (res, (uow', t'))"
  shows "list_all2 (\<lambda>r r'. buildWhatsAppTextRequest digest (transport_request_of (work_on later r')) config =
     buildWhatsAppTextRequest digest (transport_request_of (work_on input r)) config) (uow_rows uow) (uow_rows uow')"
proof (rule list_all2_mono [OF batch_rows [OF assms]])
  fix r r'
  assume "same_message r r' \<and> (r' = r \<or> (due n n r \<and> om_status r \<in> set live_statuses))"
  then have "same_message r r'" by simp
  then show "buildWhatsAppTextRequest digest (transport_request_of (work_on later r')) config =
      buildWhatsAppTextRequest digest (transport_request_of (work_on input r)) config"
    by (simp add: same_message_def buildWhatsAppTextRequest_def transport_request_of_def Let_def split: option.split)
qed

lemma attempts_make_one_request_witness:
  "\<exists>res uow' t'. process_batch_in_memory id text_order fake_send sample_batch (delivering_uow, accepting []) = (res, (uow', t')) \<and>
     length (uow_rows uow') = 1"
proof -
  obtain res uow' t' where b: "process_batch_in_memory id text_order fake_send sample_batch (delivering_uow, accepting []) = (res, (uow', t'))"
    by (cases "process_batch_in_memory id text_order fake_send sample_batch (delivering_uow, accepting [])") auto
  have r: "uow_rows delivering_uow = [sample_pending]" by (simp add: delivering_uow_def uow_rows_def memory_rows_def)
  have d: "distinct (map row_text (uow_rows delivering_uow))" by (simp add: r)
  have n: "normalizeIsoTimestamp (Some (bi_now sample_batch)) = Some ''2026-01-05T12:00:00.000Z''" by (simp add: sample_batch_def)
  show ?thesis
    using list_all2_lengthD [OF attempts_make_one_request [OF d n b, of sample_batch sample_transport_config]] b by (auto simp: r)
qed

section \<open>Answers\<close>

lemma build_result_simps [simp]:
  "tr_status (build_result s p q e m a c d b) = s" "tr_errorMessageSafe (build_result s p q e m a c d b) = m"
  "tr_retryAfterSeconds (build_result s p q e m a c d b) = a" "tr_errorCode (build_result s p q e m a c d b) = e"
  "tr_providerMessageId (build_result s p q e m a c d b) = p"
  by (simp_all add: build_result_def)

text \<open>The provider reports that it had the message before.\<close>

definition reports_duplicate :: "json \<Rightarrow> bool" where
  "reports_duplicate body \<longleftrightarrow> hasExplicitDuplicateSignal body \<or>
     ed_providerCode (extractSafeWhatsAppProviderError body) = Some ''provider_duplicate'' \<or>
     ed_providerSubcode (extractSafeWhatsAppProviderError body) = Some ''provider_duplicate''"

lemmas classify_unfold = classifyHttpStatus_def Let_def classifyTransportOutcome_def

text \<open>
  What the worker makes of an answer: a message counts as delivered when the provider answers in
  the 200 range with a message id or a sign of a duplicate, or refuses it as a duplicate; 400, 401,
  403 and 404 are final; everything else, and every exception of the client, is tried again.  In
  particular an acceptance without a message id is tried again, and no answer leads to the
  \<open>failed\<close> status.
\<close>

theorem whatsapp_outcome:
  "classifyTransportOutcome (classifyHttpStatus legacy response context) =
     (let status = hr_statusCode response; body = hr_body response
      in if 200 \<le> status \<and> status < 300 then
           (if \<not> hasExplicitDuplicateSignal body \<and> extractProviderMessageId body = None then Out_retry else Out_delivered)
         else if status \<in> {400, 401, 403, 404} then Out_dead_letter
         else if status = 409 \<and> reports_duplicate body then Out_delivered
         else Out_retry) \<and>
   classifyTransportOutcome (classifyClientException error context) = Out_retry"
proof
  show "classifyTransportOutcome (classifyClientException error context) = Out_retry"
    by (simp add: classifyClientException_def Let_def classifyTransportOutcome_def)
next
  show "classifyTransportOutcome (classifyHttpStatus legacy response context) =
     (let status = hr_statusCode response; body = hr_body response
      in if 200 \<le> status \<and> status < 300 then
           (if \<not> hasExplicitDuplicateSignal body \<and> extractProviderMessageId body = None then Out_retry else Out_delivered)
         else if status \<in> {400, 401, 403, 404} then Out_dead_letter
         else if status = 409 \<and> reports_duplicate body then Out_delivered
         else Out_retry)"
    unfolding classify_unfold reports_duplicate_def by (simp split: if_split)
qed

text \<open>
  A delay is taken only from an answer 429, and is never negative; a whole number of seconds
  below 2 to the 53 in the header \<open>Retry-After\<close>, under any spelling of its name, is read exactly.
\<close>

lemma retry_after_nonneg: "parseRetryAfterSeconds legacy v t = Some n \<Longrightarrow> 0 \<le> n"
  by (auto simp: parseRetryAfterSeconds_def double_floor_nonneg split: option.splits if_splits)

lemma retry_after_number:
  assumes "n < 2 ^ 53"
  shows "parseRetryAfterSeconds legacy (Some (nat_to_string n)) t = Some (int n)"
  using js_number_nat [OF assms] by (auto simp: parseRetryAfterSeconds_def)

theorem retry_after_read:
  "(case tr_retryAfterSeconds (classifyHttpStatus legacy response context) of
      None \<Rightarrow> True | Some n \<Rightarrow> hr_statusCode response = 429 \<and> 0 \<le> n)"
proof (cases "hr_statusCode response = 429")
  case True
  then show ?thesis using retry_after_nonneg by (simp add: classify_unfold split: option.split)
next
  case False
  then have "tr_retryAfterSeconds (classifyHttpStatus legacy response context) = None"
    unfolding classify_unfold by (simp split: if_split)
  then show ?thesis by simp
qed

text \<open>A client that is limited and names a delay.\<close>

definition limiting_client :: "nat \<Rightarrow> fake_http_client" where
  "limiting_client n = new_fake_http_client \<lparr>hc_scenarioByRequestId = [], hc_scenarioByCommandId = [],
     hc_scenarioByIdempotencyKey = [], hc_defaultScenario = Some Hs_rate_limited, hc_explicitRetryAfterSeconds = Some (int n)\<rparr>"

text \<open>
  The delay a provider asks for arrives in the result: the number the client puts in the header
  is the number the worker reads.
\<close>

theorem retry_after_roundtrip:
  assumes "wv_ok (validateWhatsAppTransportInput digest legacy input config)" "n < 2 ^ 53"
  shows "\<exists>tr h'. whatsapp_send digest legacy config (fake_postJson digest) input (limiting_client n) = (Inr tr, h') \<and>
     tr_status tr = Tr_rate_limited \<and> tr_retryAfterSeconds tr = Some (int n)"
proof -
  obtain res h' where s: "whatsapp_send digest legacy config (fake_postJson digest) input (limiting_client n) = (res, h')"
    by fastforce
  have digits: "asText (Some (nat_to_string n)) = Some (nat_to_string n)"
    by (simp add: asText_cases js_trim_digits nat_to_string_digits)
  show ?thesis using s
  proof (cases rule: whatsapp_send_cases)
    case (posted r request tr)
    let ?p = "post_of request"
    have c: "hc_explicitRetryAfterSeconds (fh_config (limiting_client n)) = Some (int n)"
      by (simp add: limiting_client_def new_fake_http_client_def)
    have sc: "resolveScenario ?p (fh_config (limiting_client n)) = Hs_rate_limited"
      by (simp add: resolveScenario_def Let_def or_else_def limiting_client_def new_fake_http_client_def)
    obtain response where a: "fst (fake_postJson digest ?p (limiting_client n)) = Inr response"
      and st: "hr_statusCode response = 429"
      and hd: "hr_headers response = [(''x-request-id'', hp_requestId ?p), (''retry-after'', nat_to_string n)]"
      by (simp add: fake_postJson_def Let_def sc buildHeaders_def c int_to_string_def)
    have "getHeader (hr_headers response) ''retry-after'' = Some (nat_to_string n)"
      by (simp add: hd digits js_lower_def lower_char_def)
    then have "tr_status tr = Tr_rate_limited \<and> tr_retryAfterSeconds tr = Some (int n)"
      unfolding posted(6) a by (simp add: classify_unfold st retry_after_number [OF assms(2)])
    then show ?thesis using s posted(5) by blast
  qed (use assms(1) in simp)
qed

lemma retry_after_roundtrip_witness:
  "\<exists>tr h'. whatsapp_send id (\<lambda>_. None) sample_transport_config (fake_postJson id) sample_request (limiting_client 120) = (Inr tr, h') \<and>
     tr_retryAfterSeconds tr = Some 120"
  using retry_after_roundtrip [OF sample_valid [of id "\<lambda>_. None"], of 120] by auto

section \<open>Messages of errors\<close>

definition line_char :: "char \<Rightarrow> bool" where
  "line_char c \<longleftrightarrow> (let n = of_char c :: nat in n = 9 \<or> n = 10 \<or> n = 13)"

definition one_line :: "string \<Rightarrow> bool" where
  "one_line s \<longleftrightarrow> list_all (\<lambda>c. \<not> line_char c) s"

lemma one_line_iff: "one_line s \<longleftrightarrow> set s \<subseteq> {c. \<not> line_char c}"
  by (auto simp: one_line_def list_all_iff)

lemma one_line_breaks: "one_line (regex_replace_all line_break_regex (\<lambda>_. '' '') s)"
proof -
  have e: "line_break_regex = rplus (RClass line_char)"
    unfolding line_break_regex_def line_char_def [abs_def] by (rule refl)
  show ?thesis unfolding one_line_def list_all_iff regex_replace_all_def e
    by (rule regex_replace_class) (simp add: line_char_def)
qed

lemma one_line_replace:
  assumes "one_line s" "\<And>m. one_line m \<Longrightarrow> one_line (f m)"
  shows "one_line (regex_replace_all r f s)"
  using assms regex_replace_chars [of s "{c. \<not> line_char c}" f] by (simp add: one_line_iff regex_replace_all_def)

lemma set_js_trim: "set (js_trim s) \<subseteq> set s"
  by (auto simp: js_trim_def dest!: set_dropWhileD)

lemma one_line_trim: "one_line s \<Longrightarrow> one_line (js_trim s)"
  using set_js_trim [of s] by (auto simp: one_line_iff)

lemma one_line_append [simp]: "one_line (s @ t) \<longleftrightarrow> one_line s \<and> one_line t"
  by (simp add: one_line_def)

lemma one_line_simps: "one_line []" "one_line (c # s) \<longleftrightarrow> \<not> line_char c \<and> one_line s"
  by (simp_all add: one_line_def)

lemma one_line_take: "one_line s \<Longrightarrow> one_line (take n s)"
  by (auto simp: one_line_iff dest: in_set_takeD)

lemma one_line_key: "one_line m \<Longrightarrow> one_line (secret_key_group m)"
  by (auto simp: one_line_iff secret_key_group_def dest!: set_takeWhileD split: if_splits dest: list.set_sel(2))

lemma one_line_words: "one_line '' ''" "one_line ''[redacted]''" "one_line ''=[redacted]''" "one_line ''Bearer [redacted]''"
  "one_line ''...''"
  by code_simp+

lemma one_line_redacted: "one_line (redact_provider s)"
  unfolding redact_provider_def
  by (intro one_line_trim one_line_replace one_line_breaks) (simp_all add: one_line_words one_line_key)

lemma provider_error_safe:
  assumes "sanitizeWhatsAppProviderError v = Some m"
  shows "m \<noteq> [] \<and> length m \<le> 240 \<and> one_line m"
  using assms one_line_redacted
  by (auto simp: sanitizeWhatsAppProviderError_def Let_def one_line_take one_line_words split: if_splits)

lemma length_nat_to_string: "n < 1000 \<Longrightarrow> length (nat_to_string n) \<le> 3"
  by (subst nat_to_string.simps, simp, subst nat_to_string.simps, simp, subst nat_to_string.simps) simp

lemma one_line_number: "one_line (nat_to_string n)"
  using nat_to_string_digits [of n] by (auto simp: one_line_def list_all_iff is_digit_def line_char_def Let_def)

lemma status_text_safe:
  assumes "0 \<le> status" "status < 1000"
  shows "length (''Provider HTTP '' @ int_to_string status @ ''.'') \<le> 240 \<and> one_line (''Provider HTTP '' @ int_to_string status @ ''.'')"
proof -
  have "length (nat_to_string (nat status)) \<le> 3" using length_nat_to_string [of "nat status"] assms by simp
  then show ?thesis using assms one_line_number by (simp add: int_to_string_def line_char_def one_line_simps)
qed

text \<open>
  The message of an error that an answer leads to is never empty, at most 240 characters long and
  a single line, whatever the provider wrote.
\<close>

theorem answer_message_safe:
  assumes "0 \<le> hr_statusCode response" "hr_statusCode response < 1000"
    and "tr_errorMessageSafe (classifyHttpStatus legacy response context) = Some m"
  shows "m \<noteq> [] \<and> length m \<le> 240 \<and> one_line m"
proof -
  let ?v = "ed_safeMessage (extractSafeWhatsAppProviderError (hr_body response))"
  let ?fallbacks = "[''Accepted response missing provider message id.'', ''Bad request.'', ''Authentication error.'',
     ''Permission error.'', ''Not found.'', ''Request timed out.'', ''Conflict.'', ''Rate limited.'',
     ''Provider HTTP '' @ int_to_string (hr_statusCode response) @ ''.'']"
  have "?v = Some m \<or> (\<exists>f \<in> set ?fallbacks. or_text ?v f = Some m)"
    using assms(3) unfolding classify_unfold by (auto split: if_splits)
  then have "?v = Some m \<or> m \<in> set ?fallbacks" by (auto simp: or_text_def split: option.splits)
  then show ?thesis
  proof
    assume "?v = Some m"
    then obtain w where "sanitizeWhatsAppProviderError w = Some m"
      by (auto simp: extractSafeWhatsAppProviderError_def Let_def split: if_splits)
    then show ?thesis by (rule provider_error_safe)
  next
    have "list_all (\<lambda>f. f \<noteq> [] \<and> length f \<le> 240 \<and> one_line f) (butlast ?fallbacks)" by (simp add: one_line_def line_char_def)
    then have "\<forall>f \<in> set ?fallbacks. f \<noteq> [] \<and> length f \<le> 240 \<and> one_line f"
      using status_text_safe [OF assms(1,2)] by (simp add: list_all_iff)
    moreover assume "m \<in> set ?fallbacks"
    ultimately show ?thesis by blast
  qed
qed

definition sample_context :: classification_context where
  "sample_context = \<lparr>wc_requestId = ''r'', wc_commandId = ''c'', wc_idempotencyKey = ''k'',
     wc_attemptedAt = ''2026-01-05T12:00:00.000Z'', wc_recipientMasked = ''5*'', wc_sandbox = True, wc_simulated = True\<rparr>"

definition sample_answer :: "int \<Rightarrow> http_response" where
  "sample_answer status = \<lparr>hr_statusCode = status, hr_headers = [], hr_body = JNull, hr_completedAt = ''2026-01-05T12:00:01.000Z''\<rparr>"

lemma answer_message_safe_witness:
  "\<exists>m. tr_errorMessageSafe (classifyHttpStatus (\<lambda>_. None) (sample_answer 503) sample_context) = Some m \<and> one_line m"
proof -
  have "tr_errorMessageSafe (classifyHttpStatus (\<lambda>_. None) (sample_answer 503) sample_context) = Some (''Provider HTTP '' @ int_to_string 503 @ ''.'')"
    by (simp add: classify_unfold sample_answer_def extractSafeWhatsAppProviderError_def sanitizeWhatsAppProviderError_def or_text_def)
  then show ?thesis using answer_message_safe [of "sample_answer 503" "\<lambda>_. None" sample_context] by (simp add: sample_answer_def)
qed

section \<open>Under the outbox worker\<close>

text \<open>An HTTP client whose state keeps what was posted, whether it answers or fails.\<close>

locale journaled_client =
  fixes postJson :: "'h http_client" and posts :: "'h \<Rightarrow> http_post list"
  assumes posts_post: "posts (snd (postJson p h)) = posts h @ [p]"

text \<open>What a post has to do with the request of the worker.\<close>

definition admitted_post ::
  "(string \<Rightarrow> string) \<Rightarrow> (string \<Rightarrow> int option) \<Rightarrow> whatsapp_config \<Rightarrow> transport_request \<Rightarrow> http_post \<Rightarrow> bool" where
  "admitted_post digest legacy config input p \<longleftrightarrow>
     wv_ok (validateWhatsAppTransportInput digest legacy input config) \<and>
     (\<exists>request. buildWhatsAppTextRequest digest input config = Inr request \<and> p = post_of request)"

sublocale journaled_client \<subseteq> whatsapp: logged_transport "whatsapp_send digest legacy config postJson" posts
    "admitted_post digest legacy config"
  for digest legacy config
proof unfold_locales
  fix request h
  obtain res h' where s: "whatsapp_send digest legacy config postJson request h = (res, h')" by fastforce
  then show "posts (snd (whatsapp_send digest legacy config postJson request h)) = posts h \<or>
      (\<exists>p. admitted_post digest legacy config request p \<and>
        posts (snd (whatsapp_send digest legacy config postJson request h)) = posts h @ [p])"
    by (cases rule: whatsapp_send_cases) (auto simp: s posts_post admitted_post_def)
qed

interpretation fake_http: journaled_client "fake_postJson digest" fh_rawRequestsForTests for digest
  by unfold_locales (simp add: fake_postJson_def Let_def)

lemma admitted_post_fields:
  assumes "admitted_post digest legacy config (transport_request_of (work_on input r)) p"
  shows "omd_sandbox (om_metadata r) \<and> (\<exists>number v. v \<in> set (wa_allowedRecipients config) \<and>
     normalizeWhatsAppRecipient v = Some number \<and> normalizeWhatsAppRecipient (om_recipient r) = Some number \<and>
     hp_body p = message_body number (js_trim (om_messageText r))) \<and> sendable_text config (js_trim (om_messageText r)) \<and>
     map_of (hp_headers p) ''X-Idempotency-Key'' = Some (js_trim (om_idempotencyKey r))"
proof -
  let ?q = "transport_request_of (work_on input r)"
  obtain request where q: "buildWhatsAppTextRequest digest ?q config = Inr request" "p = post_of request"
    using assms by (auto simp: admitted_post_def)
  have ok: "wv_ok (validateWhatsAppTransportInput digest legacy ?q config)" using assms by (simp add: admitted_post_def)
  then obtain number where n: "normalizeWhatsAppRecipient (tq_recipient ?q) = Some number"
    unfolding whatsapp_validation_iff by auto
  show ?thesis using ok built_request [OF n q(1)] n unfolding whatsapp_validation_iff q(2)
    by (auto simp: transport_request_of_def Let_def)
qed

text \<open>
  C4. A whole batch of the worker over the WhatsApp transport posts at most \<open>batchSize\<close> messages, each
  for another row that is due and live, to a number of the whitelist, in the sandbox, with the
  text of the row, whatever fails on the way; so two rows never share a post.
\<close>

theorem whatsapp_batch_posts:
  assumes "distinct (map row_text (uow_rows uow))" "normalizeIsoTimestamp (Some (bi_now input)) = Some n"
    and "process_batch_in_memory digest collate (whatsapp_send digest legacy config (fake_postJson digest)) input (uow, h) =
      (res, (uow', h'))"
  shows "\<exists>rs ps. fh_rawRequestsForTests h' = fh_rawRequestsForTests h @ ps \<and>
    length ps \<le> nat (wc_batchSize (bi_config input)) \<and> distinct (map om_idempotencyKey rs) \<and> set rs \<subseteq> set (uow_rows uow) \<and>
    list_all2 (\<lambda>r p. due n n r \<and> om_status r \<in> set live_statuses \<and> omd_sandbox (om_metadata r) \<and>
      sendable_text config (js_trim (om_messageText r)) \<and>
      map_of (hp_headers p) ''X-Idempotency-Key'' = Some (js_trim (om_idempotencyKey r)) \<and>
      (\<exists>number v. v \<in> set (wa_allowedRecipients config) \<and> normalizeWhatsAppRecipient v = Some number \<and>
        normalizeWhatsAppRecipient (om_recipient r) = Some number \<and>
        hp_body p = message_body number (js_trim (om_messageText r)))) rs ps"
proof -
  obtain rs ps where j: "fh_rawRequestsForTests h' = fh_rawRequestsForTests h @ ps"
    "length ps \<le> nat (wc_batchSize (bi_config input))" "distinct (map om_idempotencyKey rs)" "set rs \<subseteq> set (uow_rows uow)"
    and d: "\<forall>r \<in> set rs. due n n r \<and> om_status r \<in> set live_statuses"
    and l: "list_all2 (\<lambda>r. admitted_post digest legacy config (transport_request_of (work_on input r))) rs ps"
    by (rule fake_http.whatsapp.journal_batch [OF assms])
  have "list_all2 (\<lambda>r p. due n n r \<and> om_status r \<in> set live_statuses \<and> omd_sandbox (om_metadata r) \<and>
      sendable_text config (js_trim (om_messageText r)) \<and>
      map_of (hp_headers p) ''X-Idempotency-Key'' = Some (js_trim (om_idempotencyKey r)) \<and>
      (\<exists>number v. v \<in> set (wa_allowedRecipients config) \<and> normalizeWhatsAppRecipient v = Some number \<and>
        normalizeWhatsAppRecipient (om_recipient r) = Some number \<and>
        hp_body p = message_body number (js_trim (om_messageText r)))) rs ps"
    using l d by (auto simp: list_all2_conv_all_nth dest!: admitted_post_fields)
  then show ?thesis using j by blast
qed

lemma whatsapp_batch_posts_witness:
  "\<exists>res uow' h'. process_batch_in_memory id text_order (whatsapp_send id (\<lambda>_. None) sample_transport_config (fake_postJson id))
       sample_batch (delivering_uow, http_client_with Hs_accepted) = (res, (uow', h')) \<and>
     length (fh_rawRequestsForTests h') \<le> 10"
proof -
  let ?run = "process_batch_in_memory id text_order (whatsapp_send id (\<lambda>_. None) sample_transport_config (fake_postJson id))
     sample_batch (delivering_uow, http_client_with Hs_accepted)"
  obtain res uow' h' where b: "?run = (res, (uow', h'))" by (cases ?run) auto
  have d: "distinct (map row_text (uow_rows delivering_uow))" by (simp add: delivering_uow_def uow_rows_def memory_rows_def)
  have n: "normalizeIsoTimestamp (Some (bi_now sample_batch)) = Some ''2026-01-05T12:00:00.000Z''" by (simp add: sample_batch_def)
  have "fh_rawRequestsForTests (http_client_with Hs_accepted) = []" by (simp add: http_client_with_def new_fake_http_client_def)
  then show ?thesis using whatsapp_batch_posts [OF d n b] b by (auto simp: sample_batch_def sample_config_def)
qed

section \<open>The whitelists of the sandbox and of the transport\<close>

lemma js_split_append: "js_split c (w @ c # s) = js_split c w @ js_split c s"
  by (induction w) (auto split: list.split)

lemma js_split_join_concat: "xs \<noteq> [] \<Longrightarrow> js_split c (js_join [c] xs) = concat (map (js_split c) xs)"
  by (induction "[c]" xs rule: js_join.induct) (auto simp: js_split_append)

lemma set_dropWhile_neg: "c \<in> set xs \<Longrightarrow> \<not> P c \<Longrightarrow> c \<in> set (dropWhile P xs)"
  by (induction xs) auto

lemma set_js_trim_neg: "c \<in> set s \<Longrightarrow> \<not> is_ws c \<Longrightarrow> c \<in> set (js_trim s)"
  unfolding js_trim_def by (simp add: set_dropWhile_neg)

lemma phone_char_no_comma: "\<not> phone_char (CHR '','')"
  by (simp add: phone_char_def is_digit_def is_ws_def)

lemma filter_dropWhile_plus: "filter (\<lambda>c. c \<noteq> CHR ''+'') (dropWhile (\<lambda>c. c = CHR ''+'') s) = filter (\<lambda>c. c \<noteq> CHR ''+'') s"
  by (induction s) auto

lemma transport_number_is_token:
  assumes "normalizeWhatsAppRecipient v = Some r"
  shows "whitelist_token v = Some r" "CHR '','' \<notin> set (js_trim v)"
proof -
  let ?t = "js_trim v"
  have t: "?t \<noteq> []" "list_all phone_char ?t" "list_all is_digit r" "r \<noteq> []"
    and r: "r = dropWhile (\<lambda>c. c = CHR ''+'') (filter (\<lambda>c. \<not> phone_separator c) ?t)"
    using assms by (auto simp: normalizeWhatsAppRecipient_def Let_def split: if_splits)
  have "filter (\<lambda>c. c \<noteq> CHR ''+'') r = r" using t(3) digit_phone by (auto simp: filter_id_conv list_all_iff)
  then have "filter (\<lambda>c. c \<noteq> CHR ''+'') (filter (\<lambda>c. \<not> phone_separator c) ?t) = r"
    using r filter_dropWhile_plus by metis
  moreover have "filter (\<lambda>c. c \<noteq> CHR ''+'') (filter (\<lambda>c. \<not> phone_separator c) ?t) =
      filter (\<lambda>c. \<not> (is_ws c \<or> c = CHR ''('' \<or> c = CHR '')'' \<or> c = CHR ''+'' \<or> c = CHR ''-'')) ?t"
    by (auto simp: phone_separator_def intro!: filter_cong)
  ultimately show "whitelist_token v = Some r" using t by (simp add: whitelist_token_def)
  show "CHR '','' \<notin> set ?t" using t(2) phone_char_no_comma by (auto simp: list_all_iff)
qed

text \<open>
  The whitelist of the transport is never wider than the one of the sandbox: of one list of
  numbers, every number the transport would accept as a recipient is on the list the sandbox
  reads from the same numbers written with commas.
\<close>

theorem transport_whitelist_within_sandbox:
  "set (normalized_allowed numbers) \<subseteq> set (parseAutonomousTestWaIds (Some (js_join '','' numbers)))"
proof
  fix r assume "r \<in> set (normalized_allowed numbers)"
  then obtain v where v: "v \<in> set numbers" "normalizeWhatsAppRecipient v = Some r" by (auto simp: in_normalized_allowed)
  note token = transport_number_is_token [OF v(2)]
  have "CHR '','' \<notin> set v"
    using token(2) set_js_trim_neg [of "CHR '',''" v] by (auto simp: is_ws_def)
  then have "js_split (CHR '','') v = [v]" by (rule js_split_no_sep)
  moreover have "numbers \<noteq> []" using v(1) by auto
  ultimately have "v \<in> set (js_split (CHR '','') (js_join '','' numbers))"
    using v(1) js_split_join_concat [of numbers "CHR '',''"] by force
  then have "r \<in> set (List.map_filter whitelist_token (js_split (CHR '','') (js_join '','' numbers)))"
    using token(1) by (force simp: map_filter_def)
  then show "r \<in> set (parseAutonomousTestWaIds (Some (js_join '','' numbers)))"
    by (simp add: parseAutonomousTestWaIds_def)
qed

section \<open>Small print\<close>

text \<open>
  A timeout below one millisecond passes the validation as positive and is rounded down to zero
  in the request.
\<close>

theorem positive_timeout_may_be_zero:
  "(let config = sample_transport_config\<lparr>wa_timeoutMs := Double 1 (- 1)\<rparr>
    in wv_ok (validateWhatsAppTransportInput digest legacy sample_request config) \<and>
      map_sum id wr_timeoutMs (buildWhatsAppTextRequest digest sample_request config) = Inr 0)"
proof -
  have "wv_ok (validateWhatsAppTransportInput digest legacy sample_request (sample_transport_config\<lparr>wa_timeoutMs := Double 1 (- 1)\<rparr>))"
    using sample_valid [of digest legacy] unfolding whatsapp_validation_iff
    by (simp add: sample_transport_config_def sendable_text_def)
  then show ?thesis
    by (simp add: buildWhatsAppTextRequest_def Let_def sample_request_def sample_recipient sample_transport_config_def double_floor_def)
qed

text \<open>
  The message of an exception of the client is passed on as it is, with line breaks and
  credentials, in the field whose name promises a safe text.
\<close>

theorem exception_message_is_raw:
  "tr_errorMessageSafe (classifyClientException error context) = Some (exception_message error)"
  by (simp add: classifyClientException_def Let_def)

end
