(* ===== verification/DispatchChain.thy ===== *)
theory DispatchChain
  imports WhatsAppSafety ExecutionGate
begin

text \<open>
  The path of a message from the decision to the provider, as the autonomous loop drives it for an
  immediate action: the sandbox, the execution gate, the command, the row of the outbox
  (\<open>executeAutonomousLoop.ts\<close>, with the configuration of \<open>buildAutonomousLoopContext.ts\<close>), the worker
  and the post of the WhatsApp transport to the fake HTTP client.
\<close>

section \<open>The delivery of an immediate action\<close>

datatype transport_scenario = Ts_accepted | Ts_temporary_failure | Ts_permanent_failure | Ts_rate_limited | Ts_timeout
  | Ts_duplicate_accepted

text \<open>The fields of the input of the loop that the delivery reads.\<close>

record autonomous_input =
  al_now :: string
  al_tenantId :: string
  al_caseId :: "ref_id option"
  al_caseStatus :: "string option"
  al_lifecycleStatus :: "string option"
  al_humanOwnerActive :: bool
  al_aiBlocked :: bool
  al_requiresHuman :: bool
  al_sandboxAutonomyEnabled :: bool
  al_autonomousReplyEnabled :: bool
  al_whitelistedWaIds :: "string list"
  al_executionGateEnabled :: bool
  al_outboxBridgeEnabled :: bool
  al_outboxWorkerEnabled :: bool
  al_messageTransportEnabled :: bool
  al_sandboxRequired :: bool
  al_transportScenario :: transport_scenario
  al_forceRiskLevel :: "string option"

definition case_context_of :: "autonomous_input \<Rightarrow> string option \<Rightarrow> case_context" where
  "case_context_of input policyStatus =
     \<lparr>cx_caseId = map_option ref_string (al_caseId input), cx_caseStatus = al_caseStatus input,
      cx_lifecycleStatus = al_lifecycleStatus input, cx_humanOwnerActive = al_humanOwnerActive input,
      cx_aiBlocked = al_aiBlocked input, cx_requiresHuman = al_requiresHuman input,
      cx_policyStatus = policyStatus, cx_conflictingActionExists = False\<rparr>"

definition sandbox_config_of :: "autonomous_input \<Rightarrow> sandbox_config" where
  "sandbox_config_of input = buildSandboxAutonomyConfig (Some (al_sandboxAutonomyEnabled input))
     (Some (al_autonomousReplyEnabled input)) (Some (al_whitelistedWaIds input))
     (Some [''send_whatsapp_reply'', ''request_more_context'']) (Some (case_option ''low'' id (al_forceRiskLevel input)))"

definition gate_config_of :: "autonomous_input \<Rightarrow> gate_config" where
  "gate_config_of input = \<lparr>gc_executionGateEnabled = al_executionGateEnabled input,
     gc_outboxBridgeEnabled = al_outboxBridgeEnabled input, gc_sandboxModeRequired = al_sandboxRequired input\<rparr>"

definition outbox_config_of :: "autonomous_input \<Rightarrow> worker_config" where
  "outbox_config_of input =
     \<lparr>wc_workerEnabled = al_outboxWorkerEnabled input, wc_transportEnabled = al_messageTransportEnabled input,
      wc_workerId = ''autonomous-worker:'' @ al_tenantId input, wc_batchSize = 1, wc_leaseSeconds = 60,
      wc_defaultMaxAttempts = 3, wc_baseRetrySeconds = 30, wc_maxRetrySeconds = 3600, wc_retryJitterEnabled = False,
      wc_recoverExpiredLeases = False, wc_sandboxRequired = al_sandboxRequired input\<rparr>"

definition transport_config_of :: "autonomous_input \<Rightarrow> whatsapp_config" where
  "transport_config_of input =
     \<lparr>wa_enabled = al_messageTransportEnabled input, wa_sandbox = True,
      wa_graphBaseUrl = ''https://graph.'' @ ''facebook.com'', wa_graphApiVersion = ''v25.0'',
      wa_phoneNumberId = ''autonomous-loop-phone'', wa_accessToken = ''sandbox-token'', wa_timeoutMs = Double 10000 0,
      wa_allowedRecipients = al_whitelistedWaIds input, wa_requireExactWhitelistMatch = True,
      wa_maxTextLength = Double 800 0\<rparr>"

text \<open>The gate is asked with the sandbox verdict of the same action; the verdict sees the status of the
  policy result, the gate the policy status of the action.\<close>

definition gate_input_of :: "autonomous_input \<Rightarrow> string \<Rightarrow> crm_agent_action \<Rightarrow> gate_input" where
  "gate_input_of input policyStatus action =
     \<lparr>gi_now = al_now input, gi_config = gate_config_of input, gi_action = action,
      gi_context = case_context_of input (Some (a_policyStatus action)),
      gi_sandboxEvaluation = evaluateAgentActionForSandbox action (al_now input)
        (case_context_of input (Some policyStatus)) (sandbox_config_of input)\<rparr>"

definition mapScenario :: "transport_scenario \<Rightarrow> http_scenario" where
  "mapScenario value = (case value of Ts_accepted \<Rightarrow> Hs_accepted | Ts_temporary_failure \<Rightarrow> Hs_network_error
     | Ts_permanent_failure \<Rightarrow> Hs_policy_rejected | Ts_rate_limited \<Rightarrow> Hs_rate_limited | Ts_timeout \<Rightarrow> Hs_timeout
     | Ts_duplicate_accepted \<Rightarrow> Hs_duplicate_accepted)"

definition buildOutboxRecord :: "autonomous_input \<Rightarrow> crm_agent_action \<Rightarrow> string \<Rightarrow> string \<Rightarrow> string \<Rightarrow> outbox_message" where
  "buildOutboxRecord input action commandId recipient messageText =
     \<lparr>om_rowId = Ref_text (''outbox:'' @ commandId), om_commandId = commandId, om_idempotencyKey = commandId,
      om_actionId = a_actionId action, om_channel = ''whatsapp'', om_commandType = ''whatsapp_text'',
      om_recipient = recipient, om_messageText = messageText, om_status = Om_pending, om_attemptCount = 0,
      om_maxAttempts = 3, om_availableAt = al_now input, om_expiresAt = a_expiresAt action, om_claimedBy = None,
      om_claimedAt = None, om_leaseExpiresAt = None, om_lastAttemptAt = None, om_deliveredAt = None,
      om_providerMessageId = None, om_lastErrorCode = None, om_lastErrorMessageSafe = None,
      om_metadata = \<lparr>omd_source = ''ai_sdr'', omd_sandbox = True, omd_riskLevel = a_riskLevel action,
        omd_approvalRequirement = a_approvalRequirement action\<rparr>,
      om_createdAt = al_now input, om_updatedAt = al_now input\<rparr>"

text \<open>
  The command the preview of the loop builds from a verdict of the gate, and what the loop does with
  it: the row, a new fake client, and one run of the worker over the WhatsApp transport.  Without a
  command nothing is sent, and no client is made.
\<close>

definition immediate_command :: "autonomous_input \<Rightarrow> string \<Rightarrow> crm_agent_action \<Rightarrow> outbox_command option result" where
  "immediate_command input policyStatus action =
    (if ge_allowed (evaluateExecutionGate (gate_input_of input policyStatus action)) \<and>
        a_actionType action \<in> {''send_whatsapp_reply'', ''request_more_context''}
     then bind_result (buildOutboxCommand action (al_now input)) (\<lambda>c. Inr (Some c)) else Inr None)"

definition delivery_client :: "autonomous_input \<Rightarrow> outbox_command \<Rightarrow> fake_http_client" where
  "delivery_client input command = new_fake_http_client
     \<lparr>hc_scenarioByRequestId = [], hc_scenarioByCommandId = [],
      hc_scenarioByIdempotencyKey = [(oc_idempotencyKey command, mapScenario (al_transportScenario input))],
      hc_defaultScenario = None, hc_explicitRetryAfterSeconds = Some 30\<rparr>"

definition worker_input_of :: "autonomous_input \<Rightarrow> crm_agent_action \<Rightarrow> outbox_command \<Rightarrow> worker_input" where
  "worker_input_of input action command =
     \<lparr>wi_now = al_now input,
      wi_record = buildOutboxRecord input action (oc_commandId command) (oc_recipient command) (oc_messageText command),
      wi_config = outbox_config_of input\<rparr>"

definition deliverImmediate :: "(string \<Rightarrow> string) \<Rightarrow> (string \<Rightarrow> int option) \<Rightarrow> autonomous_input \<Rightarrow> string \<Rightarrow>
    crm_agent_action \<Rightarrow> process_result option result \<times> fake_http_client option" where
  "deliverImmediate digest legacy input policyStatus action =
    (case immediate_command input policyStatus action of
       Inl e \<Rightarrow> (Inl e, None)
     | Inr None \<Rightarrow> (Inr None, None)
     | Inr (Some command) \<Rightarrow>
         (case processOutboxMessage digest (whatsapp_send digest legacy (transport_config_of input) (fake_postJson digest))
             (worker_input_of input action command) (delivery_client input command) of
            (Inl e, client) \<Rightarrow> (Inl e, Some client)
          | (Inr r, client) \<Rightarrow> (Inr (Some r), Some client)))"

section \<open>What is posted\<close>

lemma delivery_client_empty [simp]: "fh_rawRequestsForTests (delivery_client input command) = []"
  by (simp add: delivery_client_def new_fake_http_client_def)

lemma fake_posts [simp]: "fh_rawRequestsForTests (snd (fake_postJson digest p h)) = fh_rawRequestsForTests h @ [p]"
  by (simp add: fake_postJson_def Let_def)

lemma message_sends:
  assumes "processOutboxMessage digest send input t = (res, t')"
  shows "t' = t \<or> (\<exists>r. send (transport_request_of input) t = (r, t'))"
proof (cases "ev_decision (evaluateOutboxCandidate input) = Process")
  case True
  then show ?thesis using assms
    by (auto simp: processMessage_Process await_def try_send_def compute_def done_with_def split: prod.splits sum.splits)
next
  case False
  then show ?thesis using assms processMessage_unsent [OF False, of digest send t] by auto
qed

lemma transport_request_simps [simp]:
  "tq_recipient (transport_request_of (worker_input_of input action c)) = oc_recipient c"
  "tq_messageText (transport_request_of (worker_input_of input action c)) = oc_messageText c"
  "tq_idempotencyKey (transport_request_of (worker_input_of input action c)) = oc_commandId c"
  by (simp_all add: transport_request_of_def worker_input_of_def buildOutboxRecord_def)

lemma built_command:
  assumes "buildOutboxCommand action at = Inr c"
  obtains r m k where "normalizeWaIdDigits (a_waId action) = Some r" "oc_recipient c = r"
    "candidate_message (a_finalMessage action) (a_draftMessage action) = Some m" "oc_messageText c = m"
    "asText (Some (a_idempotencyKey action)) = Some k" "oc_commandId c = command_id action k"
  using assms by (auto simp: buildOutboxCommand_def split: option.splits)

lemma wa_digits: "normalizeWaIdDigits v = Some r \<Longrightarrow> r \<noteq> [] \<and> list_all is_digit r"
  using strip_non_digits_all by (auto simp: normalizeWaIdDigits_def Let_def split: option.splits if_splits)

lemma delivered_post:
  assumes "deliverImmediate digest legacy input policyStatus action = (res, Some client)" "fh_rawRequestsForTests client \<noteq> []"
  obtains c p where "immediate_command input policyStatus action = Inr (Some c)"
    "fh_rawRequestsForTests client = [p]" "hp_body p = message_body (oc_recipient c) (js_trim (oc_messageText c))"
    "map_of (hp_headers p) ''X-Idempotency-Key'' = Some (js_trim (oc_commandId c))"
    "\<exists>v \<in> set (al_whitelistedWaIds input). normalizeWhatsAppRecipient v = Some (oc_recipient c)"
proof -
  obtain c where c: "immediate_command input policyStatus action = Inr (Some c)"
    using assms(1) by (auto simp: deliverImmediate_def split: sum.splits option.splits)
  then have "buildOutboxCommand action (al_now input) = Inr c"
    by (auto simp: immediate_command_def bind_result_Inr_iff split: if_splits)
  then have "oc_recipient c \<noteq> []" "list_all is_digit (oc_recipient c)"
    using wa_digits by (auto elim!: built_command)
  then have n: "normalizeWhatsAppRecipient (oc_recipient c) = Some (oc_recipient c)" by (rule normalize_recipient_id)
  let ?send = "whatsapp_send digest legacy (transport_config_of input) (fake_postJson digest)"
  let ?w = "worker_input_of input action c"
  obtain r where "processOutboxMessage digest ?send ?w (delivery_client input c) = (r, client)"
    using assms(1) c by (auto simp: deliverImmediate_def split: prod.splits sum.splits)
  from message_sends [OF this] assms(2) obtain r' where
    "?send (transport_request_of ?w) (delivery_client input c) = (r', client)" by auto
  then show ?thesis
  proof (cases rule: whatsapp_send_cases)
    case (refused tr)
    then show ?thesis using assms(2) by simp
  next
    case (posted r request tr)
    have "\<exists>v \<in> set (al_whitelistedWaIds input). normalizeWhatsAppRecipient v = Some (oc_recipient c)"
      using posted(1) n unfolding whatsapp_validation_iff by (auto simp: transport_config_of_def)
    then show ?thesis
      using that [OF c] posted(4) built_request(1,2) [OF _ posted(3)] n by simp
  qed
qed

text \<open>
  C3. From the gate to the HTTP call: when the loop delivers an immediate action, whatever reaches the
  HTTP client is one post, for an action the gate allowed, to the digits of the number of that
  action, with its final message or else its draft; the number is on the whitelist of the
  configuration, and where the sandbox is required the text is safe.
\<close>

theorem approved_number_is_posted:
  assumes "deliverImmediate digest legacy input policyStatus action = (res, Some client)" "fh_rawRequestsForTests client \<noteq> []"
  shows "ge_allowed (evaluateExecutionGate (gate_input_of input policyStatus action)) \<and>
    (\<exists>r m p v. fh_rawRequestsForTests client = [p] \<and> hp_body p = message_body r m \<and>
      normalizeWaIdDigits (a_waId action) = Some r \<and>
      candidate_message (a_finalMessage action) (a_draftMessage action) = Some m \<and>
      v \<in> set (al_whitelistedWaIds input) \<and> normalizeWhatsAppRecipient v = Some r \<and>
      (al_sandboxRequired input \<longrightarrow> safe_message m \<and> r \<in> set (parseAutonomousTestWaIds (Some (js_join '','' (al_whitelistedWaIds input))))))"
proof -
  obtain c p where d: "immediate_command input policyStatus action = Inr (Some c)"
    "fh_rawRequestsForTests client = [p]" "hp_body p = message_body (oc_recipient c) (js_trim (oc_messageText c))"
    "\<exists>v \<in> set (al_whitelistedWaIds input). normalizeWhatsAppRecipient v = Some (oc_recipient c)"
    using delivered_post [OF assms] by metis
  then have allowed: "ge_allowed (evaluateExecutionGate (gate_input_of input policyStatus action))"
    and b: "buildOutboxCommand action (al_now input) = Inr c"
    by (auto simp: immediate_command_def bind_result_Inr_iff split: if_splits)
  from b obtain r m k where c: "normalizeWaIdDigits (a_waId action) = Some r" "oc_recipient c = r"
    "candidate_message (a_finalMessage action) (a_draftMessage action) = Some m" "oc_messageText c = m"
    by (rule built_command)
  have "safe_message m \<and> r \<in> set (parseAutonomousTestWaIds (Some (js_join '','' (al_whitelistedWaIds input))))"
    if "al_sandboxRequired input"
  proof -
    have "sr_status (gi_sandboxEvaluation (gate_input_of input policyStatus action)) = Eligible"
      using allowed that by (simp add: gate_allowed_characterization gate_sandbox_cleared_def gate_input_of_def gate_config_of_def)
    then have "action_cleared (sandbox_config_of input)
        (si_action (toEvaluationInput action (al_now input) (case_context_of input (Some policyStatus)) (sandbox_config_of input)))"
      unfolding gate_input_of_def gate_input.simps evaluated_action_status by blast
    then show ?thesis by (rule action_cleared_command) (use c(1,3) in \<open>simp add: sandbox_config_of_def buildSandboxAutonomyConfig_def\<close>)
  qed
  then show ?thesis using allowed d c candidate_message_text [OF c(3)] by auto
qed

text \<open>A conversation with everything on, whose number is the only one of the whitelist.\<close>

definition sample_delivery :: autonomous_input where
  "sample_delivery = \<lparr>al_now = sample_now, al_tenantId = ''t'', al_caseId = Some (Ref_text ''5''), al_caseStatus = Some ''open'',
     al_lifecycleStatus = None, al_humanOwnerActive = False, al_aiBlocked = False, al_requiresHuman = False,
     al_sandboxAutonomyEnabled = True, al_autonomousReplyEnabled = True, al_whitelistedWaIds = [''56912345678''],
     al_executionGateEnabled = True, al_outboxBridgeEnabled = True, al_outboxWorkerEnabled = True,
     al_messageTransportEnabled = True, al_sandboxRequired = True, al_transportScenario = Ts_accepted,
     al_forceRiskLevel = None\<rparr>"

lemma sample_delivery_gate: "gate_input_of sample_delivery ''allowed'' sample_action = sample_gate_input sample_action"
  by (simp add: gate_input_of_def sample_delivery_def sample_gate_input_def gate_config_of_def case_context_of_def
      sample_context_def ref_string_def sandbox_config_of_def sample_sandbox_config_def buildSandboxAutonomyConfig_def
      sample_action_def ready_action_def SANDBOX_ALLOWED_ACTION_TYPES_def SANDBOX_ALLOWED_RISK_LEVEL_def)

lemma sample_delivery_command:
  "\<exists>c. immediate_command sample_delivery ''allowed'' sample_action = Inr (Some c) \<and> oc_recipient c = ''56912345678'' \<and>
    oc_messageText c = ''hola'' \<and> oc_commandId c = ''outbox:action:act-1:key-1''"
proof -
  have c: "case buildOutboxCommand sample_action sample_now of Inl _ \<Rightarrow> False | Inr c \<Rightarrow>
      oc_recipient c = ''56912345678'' \<and> oc_messageText c = ''hola'' \<and> oc_commandId c = ''outbox:action:act-1:key-1''"
    by code_simp
  have "ge_allowed (evaluateExecutionGate (sample_gate_input sample_action))"
    using sample_allowed by (simp add: gate_status_allowed)
  moreover have "a_actionType sample_action = ''send_whatsapp_reply''" by (simp add: sample_action_def ready_action_def)
  moreover have "al_now sample_delivery = sample_now" by (simp add: sample_delivery_def)
  ultimately show ?thesis using c
    by (auto simp: immediate_command_def sample_delivery_gate bind_result_def split: sum.splits)
qed

lemma process_sends:
  assumes "ev_decision (evaluateOutboxCandidate input) = Process"
  shows "snd (processOutboxMessage digest send input t) = snd (send (transport_request_of input) t)"
  unfolding processMessage_Process [OF assms]
  by (auto simp: await_def try_send_def compute_def done_with_def split: prod.splits sum.splits)

lemma sample_delivery_posts:
  "\<exists>res client. deliverImmediate digest legacy sample_delivery ''allowed'' sample_action = (res, Some client) \<and>
    fh_rawRequestsForTests client \<noteq> []"
proof -
  obtain c where c: "immediate_command sample_delivery ''allowed'' sample_action = Inr (Some c)" "oc_recipient c = ''56912345678''"
    "oc_messageText c = ''hola''" "oc_commandId c = ''outbox:action:act-1:key-1''" using sample_delivery_command by blast
  let ?w = "worker_input_of sample_delivery sample_action c"
  have t: "asText (Some ''outbox:action:act-1:key-1'') \<noteq> None" "asText (Some ''56912345678'') \<noteq> None"
    "asText (Some ''hola'') \<noteq> None" "asText (Some ''act-1'') \<noteq> None"
    "normalizeIsoTimestamp (Some sample_now) = Some sample_now"
    "case normalizeIsoTimestamp (Some ''2026-01-06T00:00:00.000Z'') of None \<Rightarrow> True | Some e \<Rightarrow> sample_now < e"
    by code_simp+
  have "ev_decision (evaluateOutboxCandidate ?w) = Process"
    unfolding candidate_process_characterization using t c
    by (simp add: worker_input_of_def buildOutboxRecord_def outbox_config_of_def sample_delivery_def well_addressed_def
        due_def free_for_def sample_action_def ready_action_def)
  note sends = process_sends [OF this]
  have w: "js_trim ''outbox:action:act-1:key-1'' \<noteq> []" "js_trim ''hola'' = ''hola''" "js_trim ''https://graph.facebook.com'' \<noteq> []"
    "js_trim ''v25.0'' \<noteq> []" "js_trim ''autonomous-loop-phone'' \<noteq> []" "js_trim ''sandbox-token'' \<noteq> []"
    "js_trim sample_now = sample_now" "sample_now \<noteq> []" "normalizeWhatsAppRecipient ''56912345678'' = Some ''56912345678''"
    "sendable_text (transport_config_of sample_delivery) ''hola''"
    "date_parse sample_now \<noteq> None" by code_simp+
  have "date_value legacy sample_now \<noteq> None" using w(11) by (auto simp: date_value_def split: option.split)
  then have v: "wv_ok (validateWhatsAppTransportInput digest legacy (transport_request_of ?w) (transport_config_of sample_delivery))"
    using w c unfolding whatsapp_validation_iff
    by (simp add: transport_request_of_def worker_input_of_def buildOutboxRecord_def transport_config_of_def sample_delivery_def)
  let ?send = "whatsapp_send digest legacy (transport_config_of sample_delivery) (fake_postJson digest)"
  obtain r h where s: "?send (transport_request_of ?w) (delivery_client sample_delivery c) = (r, h)" by fastforce
  then have h: "fh_rawRequestsForTests h \<noteq> []" by (cases rule: whatsapp_send_cases) (use v in simp_all)
  obtain r' where "processOutboxMessage digest ?send ?w (delivery_client sample_delivery c) = (r', h)"
    using sends [of digest ?send "delivery_client sample_delivery c"] s by (metis prod.collapse snd_conv)
  then show ?thesis using h c(1) by (auto simp: deliverImmediate_def split: sum.split)
qed

lemma approved_number_is_posted_witness:
  "\<exists>res client p. deliverImmediate id (\<lambda>_. None) sample_delivery ''allowed'' sample_action = (res, Some client) \<and>
     fh_rawRequestsForTests client = [p] \<and> hp_body p = message_body ''56912345678'' ''hola''"
proof -
  obtain res client where d: "deliverImmediate id (\<lambda>_. None) sample_delivery ''allowed'' sample_action = (res, Some client)"
    "fh_rawRequestsForTests client \<noteq> []" using sample_delivery_posts by blast
  have "normalizeWaIdDigits (a_waId sample_action) = Some ''56912345678''"
    "candidate_message (a_finalMessage sample_action) (a_draftMessage sample_action) = Some ''hola''" by code_simp+
  then show ?thesis using approved_number_is_posted [OF d] d(1) by auto
qed

end
