(* ===== verification/FollowUpSchedule.thy ===== *)
theory FollowUpSchedule
  imports AutonomySandbox JS_Date
begin

text \<open>
  The scheduling of follow-ups (\<open>lib/brain/commercial/follow-up-scheduling\<close>): validation of a
  candidate, the next time it may be sent (cooldowns, business hours, horizon, expiry), and the
  decision (ready, wait, replan, block, cancel, expire, invalid).

  The time zone data of \<open>Intl\<close> are the parameter \<open>zones\<close>: for a zone name that exists, the offset
  of local time at an instant, in milliseconds; an unknown name makes \<open>Intl\<close> throw.  Numbers are
  integers, so \<open>Number.isFinite\<close> holds and \<open>Math.trunc\<close> is the identity.
\<close>

section \<open>Types\<close>

type_synonym time_zones = "string \<Rightarrow> (int \<Rightarrow> int) option"

datatype fu_decision = Fd_ready | Fd_wait | Fd_cancel | Fd_expire | Fd_replan | Fd_block | Fd_invalid

datatype fu_reason = Fr_scheduled_time_reached | Fr_scheduled_time_not_reached | Fr_customer_replied
  | Fr_customer_replied_after_action_created | Fr_human_owner_active | Fr_ai_blocked | Fr_case_closed
  | Fr_case_requires_human | Fr_opportunity_closed_won | Fr_opportunity_closed_lost | Fr_opportunity_paused
  | Fr_opportunity_stage_changed | Fr_follow_up_not_allowed | Fr_policy_blocked | Fr_risk_too_high
  | Fr_approval_required | Fr_action_expired | Fr_max_attempts_reached | Fr_cooldown_active | Fr_conflicting_action
  | Fr_duplicate_action | Fr_missing_schedule | Fr_missing_expiry | Fr_missing_action_id | Fr_missing_idempotency_key
  | Fr_unsupported_action_type | Fr_invalid_action_status | Fr_invalid_timestamp | Fr_outside_business_hours
  | Fr_replanned_for_business_hours | Fr_replanned_after_cooldown | Fr_replanned_after_recent_outbound
  | Fr_stale_action_context

record fu_action =
  fua_actionId :: string
  fua_idempotencyKey :: "string option"
  fua_actionType :: string
  fua_status :: string
  fua_createdAt :: string
  fua_updatedAt :: "string option"
  fua_scheduledFor :: "string option"
  fua_expiresAt :: "string option"
  fua_attemptCount :: int
  fua_maxAttempts :: int
  fua_riskLevel :: string
  fua_approvalRequirement :: string
  fua_opportunityId :: "ref_id option"
  fua_conversationCaseId :: "ref_id option"
  fua_waId :: "string option"
  fua_blockReasons :: "string list"
  fua_cancelReason :: "string option"

record fu_activity =
  fuv_lastInboundAt :: "string option"
  fuv_lastOutboundAt :: "string option"
  fuv_lastHumanMessageAt :: "string option"
  fuv_lastAiMessageAt :: "string option"

record fu_context =
  fux_caseStatus :: "string option"
  fux_lifecycleStatus :: "string option"
  fux_humanOwnerActive :: bool
  fux_aiBlocked :: bool
  fux_requiresHuman :: bool
  fux_opportunityStatus :: "string option"
  fux_opportunityStage :: "string option"
  fux_opportunityStageChangedAt :: "string option"
  fux_policyStatus :: "string option"
  fux_conflictingActionExists :: bool
  fux_duplicateActionExists :: bool

record fu_policy =
  fup_followUpEnabled :: bool
  fup_allowedActionTypes :: "string list"
  fup_maxRiskLevel :: string
  fup_cooldownMinutesAfterInbound :: int
  fup_cooldownMinutesAfterOutbound :: int
  fup_businessHoursEnabled :: bool
  fup_businessTimezone :: string
  fup_businessDays :: "int list"
  fup_businessStartHour :: int
  fup_businessEndHour :: int
  fup_replanOutsideBusinessHours :: bool
  fup_replanAfterCooldown :: bool
  fup_requireExpiry :: bool
  fup_maxFutureDays :: int

record fu_input =
  fui_now :: string
  fui_action :: fu_action
  fui_activity :: fu_activity
  fui_context :: fu_context
  fui_policy :: fu_policy

record fu_timing =
  fut_evaluatedAt :: string
  fut_due :: bool
  fut_expired :: bool
  fut_cooldownUntil :: "string option"
  fut_outsideBusinessHours :: bool

record fu_retry =
  fuy_attemptCount :: int
  fuy_maxAttempts :: int
  fuy_attemptsRemaining :: int

record fu_side_effects =
  fue_actionUpdated :: bool
  fue_actionInserted :: bool
  fue_outboxWritten :: bool
  fue_messageSent :: bool
  fue_workerTriggered :: bool

record fu_result =
  fur_decision :: fu_decision
  fur_actionable :: bool
  fur_actionId :: string
  fur_reasons :: "fu_reason list"
  fur_warnings :: "string list"
  fur_originalScheduledFor :: "string option"
  fur_effectiveScheduledFor :: "string option"
  fur_nextScheduledFor :: "string option"
  fur_timing :: fu_timing
  fur_retry :: fu_retry
  fur_sideEffects :: fu_side_effects

text \<open>A validated candidate; the nested objects are the normalised ones, with the instants beside them.\<close>

record fu_candidate =
  fuc_now :: string
  fuc_nowMs :: int
  fuc_actionId :: string
  fuc_idempotencyKey :: string
  fuc_actionType :: string
  fuc_status :: string
  fuc_createdAt :: string
  fuc_createdAtMs :: int
  fuc_updatedAt :: "string option"
  fuc_updatedAtMs :: "int option"
  fuc_scheduledFor :: "string option"
  fuc_scheduledForMs :: "int option"
  fuc_expiresAt :: "string option"
  fuc_expiresAtMs :: "int option"
  fuc_attemptCount :: int
  fuc_maxAttempts :: int
  fuc_riskLevel :: string
  fuc_approvalRequirement :: string
  fuc_opportunityId :: "ref_id option"
  fuc_conversationCaseId :: "ref_id option"
  fuc_waId :: "string option"
  fuc_blockReasons :: "string list"
  fuc_cancelReason :: "string option"
  fuc_activity :: fu_activity
  fuc_lastInboundAtMs :: "int option"
  fuc_lastOutboundAtMs :: "int option"
  fuc_lastHumanMessageAtMs :: "int option"
  fuc_lastAiMessageAtMs :: "int option"
  fuc_context :: fu_context
  fuc_opportunityStageChangedAtMs :: "int option"
  fuc_policy :: fu_policy

record fu_validation =
  fuw_valid :: bool
  fuw_reason :: fu_reason
  fuw_candidate :: "fu_candidate option"
  fuw_warnings :: "string list"

record fu_computation =
  fus_originalScheduledFor :: "string option"
  fus_effectiveScheduledFor :: "string option"
  fus_cooldownUntil :: "string option"
  fus_outsideBusinessHours :: bool
  fus_reasons :: "fu_reason list"
  fus_scheduleChanged :: bool
  fus_scheduleImpossible :: bool

section \<open>Constants\<close>

definition FOLLOW_UP_SCHEDULING_SUPPORTED_ACTION_TYPES :: "string list" where
  "FOLLOW_UP_SCHEDULING_SUPPORTED_ACTION_TYPES = [''schedule_followup'', ''send_followup_message'', ''request_more_context'']"

definition FOLLOW_UP_SCHEDULING_ALLOWED_STATUSES :: "string list" where
  "FOLLOW_UP_SCHEDULING_ALLOWED_STATUSES = [''proposed'', ''approved'', ''planned'', ''scheduled'']"

definition FOLLOW_UP_SCHEDULING_CASE_CLOSED_STATUSES :: "string list" where
  "FOLLOW_UP_SCHEDULING_CASE_CLOSED_STATUSES = [''closed'', ''resolved'', ''cancelled'', ''canceled'', ''archived'']"

definition FOLLOW_UP_SCHEDULING_OPPORTUNITY_CLOSED_STATUSES :: "string list" where
  "FOLLOW_UP_SCHEDULING_OPPORTUNITY_CLOSED_STATUSES = [''won'', ''lost'']"

definition FOLLOW_UP_SCHEDULING_OPPORTUNITY_PAUSED_STATUSES :: "string list" where
  "FOLLOW_UP_SCHEDULING_OPPORTUNITY_PAUSED_STATUSES = [''paused'']"

definition FOLLOW_UP_SCHEDULING_RISK_LEVELS :: "string list" where
  "FOLLOW_UP_SCHEDULING_RISK_LEVELS = [''low'', ''medium'', ''high'', ''critical'', ''unknown'']"

definition FOLLOW_UP_SCHEDULING_RISK_SEVERITY :: "(string \<times> int) list" where
  "FOLLOW_UP_SCHEDULING_RISK_SEVERITY = [(''low'', 1), (''medium'', 2), (''high'', 3), (''critical'', 4), (''unknown'', 5)]"

definition FOLLOW_UP_SCHEDULING_APPROVAL_REQUIREMENTS :: "string list" where
  "FOLLOW_UP_SCHEDULING_APPROVAL_REQUIREMENTS = [''none'', ''operator_review'', ''manager_review'', ''blocked'']"

section \<open>Validation\<close>

definition parse_iso_text :: "string option \<Rightarrow> string option" where
  "parse_iso_text value = (case asText value of None \<Rightarrow> None | Some text \<Rightarrow> map_option iso_of_time (date_parse text))"

text \<open>\<open>new Date(text).getTime()\<close>, used on texts that \<open>toISOString\<close> has printed.\<close>

definition time_of :: "string \<Rightarrow> int" where
  "time_of s = (case date_parse s of Some t \<Rightarrow> t | None \<Rightarrow> 0)"

definition normalizeTextArray :: "string list \<Rightarrow> string list" where
  "normalizeTextArray value = js_unique (List.map_filter (\<lambda>item. asText (Some item)) value)"

definition fu_fail :: "fu_reason \<Rightarrow> fu_validation" where
  "fu_fail reason = \<lparr>fuw_valid = False, fuw_reason = reason, fuw_candidate = None, fuw_warnings = []\<rparr>"

text \<open>An optional timestamp that is given and cannot be read.\<close>

definition bad_time :: "string option \<Rightarrow> bool" where
  "bad_time value \<longleftrightarrow> value \<noteq> None \<and> parse_iso_text value = None"

definition normalized_policy :: "fu_policy \<Rightarrow> fu_policy" where
  "normalized_policy policy =
     \<lparr>fup_followUpEnabled = fup_followUpEnabled policy,
      fup_allowedActionTypes = normalizeTextArray (fup_allowedActionTypes policy),
      fup_maxRiskLevel = (case asText (Some (fup_maxRiskLevel policy)) of None \<Rightarrow> ''unknown'' | Some t \<Rightarrow> t),
      fup_cooldownMinutesAfterInbound = max 0 (fup_cooldownMinutesAfterInbound policy),
      fup_cooldownMinutesAfterOutbound = max 0 (fup_cooldownMinutesAfterOutbound policy),
      fup_businessHoursEnabled = fup_businessHoursEnabled policy,
      fup_businessTimezone = (case asText (Some (fup_businessTimezone policy)) of None \<Rightarrow> ''UTC'' | Some t \<Rightarrow> t),
      fup_businessDays = js_unique (filter (\<lambda>day. 0 \<le> day \<and> day \<le> 6) (fup_businessDays policy)),
      fup_businessStartHour = max 0 (fup_businessStartHour policy),
      fup_businessEndHour = max 0 (fup_businessEndHour policy),
      fup_replanOutsideBusinessHours = fup_replanOutsideBusinessHours policy,
      fup_replanAfterCooldown = fup_replanAfterCooldown policy,
      fup_requireExpiry = fup_requireExpiry policy,
      fup_maxFutureDays = max 0 (fup_maxFutureDays policy)\<rparr>"

definition normalized_context :: "fu_context \<Rightarrow> fu_context" where
  "normalized_context context =
     \<lparr>fux_caseStatus = asText (fux_caseStatus context), fux_lifecycleStatus = asText (fux_lifecycleStatus context),
      fux_humanOwnerActive = fux_humanOwnerActive context, fux_aiBlocked = fux_aiBlocked context,
      fux_requiresHuman = fux_requiresHuman context, fux_opportunityStatus = asText (fux_opportunityStatus context),
      fux_opportunityStage = asText (fux_opportunityStage context),
      fux_opportunityStageChangedAt = parse_iso_text (fux_opportunityStageChangedAt context),
      fux_policyStatus = asText (fux_policyStatus context),
      fux_conflictingActionExists = fux_conflictingActionExists context,
      fux_duplicateActionExists = fux_duplicateActionExists context\<rparr>"

definition normalized_activity :: "fu_activity \<Rightarrow> fu_activity" where
  "normalized_activity activity =
     \<lparr>fuv_lastInboundAt = parse_iso_text (fuv_lastInboundAt activity),
      fuv_lastOutboundAt = parse_iso_text (fuv_lastOutboundAt activity),
      fuv_lastHumanMessageAt = parse_iso_text (fuv_lastHumanMessageAt activity),
      fuv_lastAiMessageAt = parse_iso_text (fuv_lastAiMessageAt activity)\<rparr>"

definition normalized_candidate ::
  "fu_input \<Rightarrow> string \<Rightarrow> string \<Rightarrow> string \<Rightarrow> string \<Rightarrow> string \<Rightarrow> string \<Rightarrow> fu_candidate" where
  "normalized_candidate input now createdAt actionId idempotencyKey actionType status =
    (let action = fui_action input; activity = normalized_activity (fui_activity input);
         context = normalized_context (fui_context input);
         riskLevel = (case asText (Some (fua_riskLevel action)) of None \<Rightarrow> ''unknown'' | Some t \<Rightarrow> t);
         approvalRequirement = (case asText (Some (fua_approvalRequirement action)) of None \<Rightarrow> ''blocked'' | Some t \<Rightarrow> t)
     in \<lparr>fuc_now = now, fuc_nowMs = time_of now, fuc_actionId = actionId, fuc_idempotencyKey = idempotencyKey,
         fuc_actionType = actionType, fuc_status = status, fuc_createdAt = createdAt, fuc_createdAtMs = time_of createdAt,
         fuc_updatedAt = parse_iso_text (fua_updatedAt action),
         fuc_updatedAtMs = map_option time_of (parse_iso_text (fua_updatedAt action)),
         fuc_scheduledFor = parse_iso_text (fua_scheduledFor action),
         fuc_scheduledForMs = map_option time_of (parse_iso_text (fua_scheduledFor action)),
         fuc_expiresAt = parse_iso_text (fua_expiresAt action),
         fuc_expiresAtMs = map_option time_of (parse_iso_text (fua_expiresAt action)),
         fuc_attemptCount = max 0 (fua_attemptCount action), fuc_maxAttempts = max 0 (fua_maxAttempts action),
         fuc_riskLevel = (if riskLevel \<in> set FOLLOW_UP_SCHEDULING_RISK_LEVELS then riskLevel else ''unknown''),
         fuc_approvalRequirement = (if approvalRequirement \<in> set FOLLOW_UP_SCHEDULING_APPROVAL_REQUIREMENTS
           then approvalRequirement else ''blocked''),
         fuc_opportunityId = fua_opportunityId action, fuc_conversationCaseId = fua_conversationCaseId action,
         fuc_waId = asText (fua_waId action), fuc_blockReasons = normalizeTextArray (fua_blockReasons action),
         fuc_cancelReason = asText (fua_cancelReason action),
         fuc_activity = activity,
         fuc_lastInboundAtMs = map_option time_of (fuv_lastInboundAt activity),
         fuc_lastOutboundAtMs = map_option time_of (fuv_lastOutboundAt activity),
         fuc_lastHumanMessageAtMs = map_option time_of (fuv_lastHumanMessageAt activity),
         fuc_lastAiMessageAtMs = map_option time_of (fuv_lastAiMessageAt activity),
         fuc_context = context,
         fuc_opportunityStageChangedAtMs = map_option time_of (fux_opportunityStageChangedAt context),
         fuc_policy = normalized_policy (fui_policy input)\<rparr>)"

definition validateFollowUpCandidate :: "fu_input \<Rightarrow> fu_validation" where
  "validateFollowUpCandidate input =
    (let action = fui_action input; activity = fui_activity input
     in case (parse_iso_text (Some (fui_now input)), parse_iso_text (Some (fua_createdAt action))) of
       (Some now, Some createdAt) \<Rightarrow>
         if bad_time (fua_updatedAt action) \<or> bad_time (fua_scheduledFor action) \<or> bad_time (fua_expiresAt action) \<or>
            bad_time (fuv_lastInboundAt activity) \<or> bad_time (fuv_lastOutboundAt activity) \<or>
            bad_time (fuv_lastHumanMessageAt activity) \<or> bad_time (fuv_lastAiMessageAt activity) \<or>
            bad_time (fux_opportunityStageChangedAt (fui_context input))
         then fu_fail Fr_invalid_timestamp
         else (case asText (Some (fua_actionId action)) of
             None \<Rightarrow> fu_fail Fr_missing_action_id
           | Some actionId \<Rightarrow> (case asText (fua_idempotencyKey action) of
               None \<Rightarrow> fu_fail Fr_missing_idempotency_key
             | Some idempotencyKey \<Rightarrow>
                 (let actionType = js_trim (fua_actionType action); status = js_trim (fua_status action)
                  in if actionType \<notin> set FOLLOW_UP_SCHEDULING_SUPPORTED_ACTION_TYPES then fu_fail Fr_unsupported_action_type
                     else if status \<notin> set FOLLOW_UP_SCHEDULING_ALLOWED_STATUSES then fu_fail Fr_invalid_action_status
                     else \<lparr>fuw_valid = True, fuw_reason = Fr_scheduled_time_not_reached,
                       fuw_candidate = Some (normalized_candidate input now createdAt actionId idempotencyKey actionType status),
                       fuw_warnings = []\<rparr>)))
     | _ \<Rightarrow> fu_fail Fr_invalid_timestamp)"

section \<open>Local time\<close>

record local_parts =
  lp_year :: int
  lp_month :: int
  lp_day :: int
  lp_hour :: int
  lp_minute :: int
  lp_second :: int
  lp_weekday :: int

text \<open>The weekday of a day counted from the epoch, which was a Thursday; Sunday is 0.\<close>

definition weekday_of :: "int \<Rightarrow> int" where
  "weekday_of day = (day + 4) mod 7"

definition parts_of_local :: "int \<Rightarrow> local_parts" where
  "parts_of_local l =
    (let day = l div ms_per_day; ms = l mod ms_per_day; y = year_from_day day
     in case month_day (month_lengths y) (day - day_from_year y) of (m, r) \<Rightarrow>
       \<lparr>lp_year = y, lp_month = int m + 1, lp_day = r + 1, lp_hour = ms div 3600000, lp_minute = ms div 60000 mod 60,
        lp_second = ms div 1000 mod 60, lp_weekday = weekday_of day\<rparr>)"

definition getLocalParts :: "time_zones \<Rightarrow> int option \<Rightarrow> string \<Rightarrow> local_parts result" where
  "getLocalParts zones instantMs timeZone = (case zones timeZone of
      None \<Rightarrow> Inl (RangeError (''Invalid time zone specified: '' @ timeZone))
    | Some offset \<Rightarrow> (case Option.bind instantMs time_clip of
        None \<Rightarrow> Inl (RangeError ''Invalid time value'')
      | Some t \<Rightarrow> Inr (parts_of_local (t + offset t))))"

text \<open>\<open>Date.UTC(y, m - 1, d, h, mi, s)\<close> for a month of the year; days and hours may overflow.\<close>

definition date_utc :: "int \<Rightarrow> int \<Rightarrow> int \<Rightarrow> int \<Rightarrow> int \<Rightarrow> int \<Rightarrow> int option" where
  "date_utc year month day hour minute second =
    (let y = (if 0 \<le> year \<and> year \<le> 99 then 1900 + year else year);
         days = day_from_year y + sum_list (take (nat (month - 1)) (month_lengths y)) + day - 1
     in time_clip (days * ms_per_day + hour * 3600000 + minute * 60000 + second * 1000))"

text \<open>The loop of \<open>zonedLocalToUtcMs\<close>: the target, the rounds left and the guess, \<open>None\<close> for \<open>NaN\<close>.\<close>

fun zoned_loop :: "time_zones \<Rightarrow> string \<Rightarrow> int option \<Rightarrow> nat \<Rightarrow> int option \<Rightarrow> int option result" where
  "zoned_loop zones timeZone target 0 guess = Inr guess"
| "zoned_loop zones timeZone target (Suc rounds) guess =
    bind_result (getLocalParts zones guess timeZone) (\<lambda>parts.
      case (date_utc (lp_year parts) (lp_month parts) (lp_day parts) (lp_hour parts) (lp_minute parts) (lp_second parts), target) of
        (Some formatted, Some t) \<Rightarrow>
          if formatted - t = 0 then Inr guess
          else zoned_loop zones timeZone target rounds (map_option (\<lambda>g. g - (formatted - t)) guess)
      | _ \<Rightarrow> zoned_loop zones timeZone target rounds None)"

definition zonedLocalToUtcMs :: "time_zones \<Rightarrow> string \<Rightarrow> int \<Rightarrow> int \<Rightarrow> int \<Rightarrow> int \<Rightarrow> int \<Rightarrow> int \<Rightarrow> int option result" where
  "zonedLocalToUtcMs zones timeZone year month day hour minute second =
    (let target = date_utc year month day hour minute second in zoned_loop zones timeZone target 8 target)"

section \<open>Business hours\<close>

definition at_least :: "int option \<Rightarrow> int \<Rightarrow> bool" where
  "at_least t bound \<longleftrightarrow> (case t of None \<Rightarrow> False | Some x \<Rightarrow> x \<ge> bound)"

text \<open>The start of the business hours on the day that is \<open>dayOffset\<close> days after the local date.\<close>

definition window_start :: "time_zones \<Rightarrow> fu_policy \<Rightarrow> local_parts \<Rightarrow> int \<Rightarrow> int option result" where
  "window_start zones policy ref dayOffset =
    (case date_utc (lp_year ref) (lp_month ref) (lp_day ref + dayOffset) 0 0 0 of
       None \<Rightarrow> Inr None
     | Some localDate \<Rightarrow>
         if weekday_of (localDate div ms_per_day) \<notin> set (fup_businessDays policy) then Inr None
         else (let date = parts_of_local localDate
               in zonedLocalToUtcMs zones (fup_businessTimezone policy) (lp_year date) (lp_month date) (lp_day date)
                    (fup_businessStartHour policy) 0 0))"

fun window_loop :: "time_zones \<Rightarrow> fu_policy \<Rightarrow> local_parts \<Rightarrow> int \<Rightarrow> nat \<Rightarrow> int \<Rightarrow> int option result" where
  "window_loop zones policy ref candidateMs 0 dayOffset = Inr None"
| "window_loop zones policy ref candidateMs (Suc days) dayOffset =
    bind_result (window_start zones policy ref dayOffset) (\<lambda>start.
      if at_least start candidateMs then Inr start else window_loop zones policy ref candidateMs days (dayOffset + 1))"

definition findNextBusinessWindowStart :: "time_zones \<Rightarrow> int \<Rightarrow> int \<Rightarrow> fu_policy \<Rightarrow> int option result" where
  "findNextBusinessWindowStart zones referenceMs candidateMs policy =
    bind_result (getLocalParts zones (Some referenceMs) (fup_businessTimezone policy)) (\<lambda>ref.
      let withinBusinessDay = (case date_utc (lp_year ref) (lp_month ref) (lp_day ref) 0 0 0 of None \<Rightarrow> False
            | Some d \<Rightarrow> weekday_of (d div ms_per_day) \<in> set (fup_businessDays policy));
          rest = (if withinBusinessDay \<and> lp_hour ref \<ge> fup_businessStartHour policy \<and>
                lp_hour ref < fup_businessEndHour policy \<and> candidateMs \<le> referenceMs
              then Inr (Some referenceMs)
              else window_loop zones policy ref candidateMs (nat (fup_maxFutureDays policy + 1)) 0)
      in if withinBusinessDay \<and> lp_hour ref < fup_businessStartHour policy
         then bind_result (zonedLocalToUtcMs zones (fup_businessTimezone policy) (lp_year ref) (lp_month ref) (lp_day ref)
                (fup_businessStartHour policy) 0 0) (\<lambda>start.
              if at_least start candidateMs then Inr start else rest)
         else rest)"

definition isBusinessHoursCandidate :: "time_zones \<Rightarrow> int \<Rightarrow> fu_policy \<Rightarrow> bool result" where
  "isBusinessHoursCandidate zones instantMs policy =
    (if \<not> fup_businessHoursEnabled policy then Inr True
     else bind_result (getLocalParts zones (Some instantMs) (fup_businessTimezone policy)) (\<lambda>local.
       Inr (lp_weekday local \<in> set (fup_businessDays policy) \<and>
         lp_hour local \<ge> fup_businessStartHour policy \<and> lp_hour local < fup_businessEndHour policy)))"

section \<open>The next schedule\<close>

definition addMinutes :: "string \<Rightarrow> int \<Rightarrow> string result" where
  "addMinutes value minutes = (case date_parse value of None \<Rightarrow> Inr value
     | Some ms \<Rightarrow> to_iso_string (time_clip (ms + max 0 minutes * 60000)))"

definition maxNullable :: "int option list \<Rightarrow> int option" where
  "maxNullable values = (case List.map_filter id values of [] \<Rightarrow> None | v # vs \<Rightarrow> Some (fold max vs v))"

text \<open>The end of a cooldown after a message, if there was one.\<close>

definition cooldown_after :: "string option \<Rightarrow> int \<Rightarrow> string option result" where
  "cooldown_after message minutes = (case message of None \<Rightarrow> Inr None
     | Some at \<Rightarrow> bind_result (addMinutes at minutes) (\<lambda>ends. Inr (Some ends)))"

definition iso_option :: "int option \<Rightarrow> string option result" where
  "iso_option t = (case t of None \<Rightarrow> Inr None | Some ms \<Rightarrow> bind_result (to_iso_string (time_clip ms)) (\<lambda>printed. Inr (Some printed)))"

text \<open>Whether the time was moved for business hours, and the time; \<open>None\<close> if no window is left.\<close>

definition business_time :: "time_zones \<Rightarrow> fu_policy \<Rightarrow> int \<Rightarrow> int \<Rightarrow> (bool \<times> int) option result" where
  "business_time zones policy nowMs candidateMs =
    (if \<not> fup_businessHoursEnabled policy then Inr (Some (False, candidateMs))
     else bind_result (isBusinessHoursCandidate zones candidateMs policy) (\<lambda>inside.
       if inside then Inr (Some (False, candidateMs))
       else bind_result (findNextBusinessWindowStart zones nowMs candidateMs policy) (\<lambda>window.
         Inr (map_option (Pair True) window))))"

definition computeFollowUpSchedule :: "time_zones \<Rightarrow> fu_input \<Rightarrow> fu_candidate \<Rightarrow> fu_computation result" where
  "computeFollowUpSchedule zones input candidate =
    (let policy = fui_policy input; computed = (\<lambda>effective cooldown outside reasons changed impossible.
       \<lparr>fus_originalScheduledFor = fuc_scheduledFor candidate, fus_effectiveScheduledFor = effective,
        fus_cooldownUntil = cooldown, fus_outsideBusinessHours = outside, fus_reasons = reasons,
        fus_scheduleChanged = changed, fus_scheduleImpossible = impossible\<rparr>)
     in case fuc_scheduledFor candidate of None \<Rightarrow> Inr (computed None None False [] False True)
     | Some scheduledFor \<Rightarrow>
       (case (case fuc_scheduledForMs candidate of Some ms \<Rightarrow> Some ms | None \<Rightarrow> date_parse scheduledFor) of
          None \<Rightarrow> Inr (computed None None False [Fr_action_expired] False True)
        | Some originalMs \<Rightarrow>
          bind_result (cooldown_after (fuv_lastInboundAt (fuc_activity candidate)) (fup_cooldownMinutesAfterInbound policy)) (\<lambda>inbound.
          bind_result (cooldown_after (fuv_lastOutboundAt (fuc_activity candidate)) (fup_cooldownMinutesAfterOutbound policy)) (\<lambda>outbound.
          let inboundMs = Option.bind inbound date_parse; outboundMs = Option.bind outbound date_parse;
              cooldown = maxNullable [inboundMs, outboundMs];
              after = (\<lambda>t. case t of None \<Rightarrow> False | Some x \<Rightarrow> x > originalMs);
              cooldownReasons = (if after inboundMs then [Fr_replanned_after_cooldown] else []) @
                (if after outboundMs then [Fr_replanned_after_recent_outbound] else []);
              candidateMs = max originalMs (case cooldown of None \<Rightarrow> originalMs | Some c \<Rightarrow> c)
          in bind_result (iso_option cooldown) (\<lambda>cooldownIso.
             bind_result (business_time zones policy (fuc_nowMs candidate) candidateMs) (\<lambda>moved.
             case moved of None \<Rightarrow> Inr (computed None cooldownIso True [Fr_replanned_for_business_hours] True True)
             | Some (outside, time) \<Rightarrow>
               (let reasons = js_unique (cooldownReasons @ (if outside then [Fr_replanned_for_business_hours] else []))
                in if time > fuc_nowMs candidate + fup_maxFutureDays policy * 86400000 \<or>
                      (case fuc_expiresAtMs candidate of None \<Rightarrow> False | Some e \<Rightarrow> time > e)
                   then Inr (computed None cooldownIso outside reasons (time \<noteq> originalMs) True)
                   else bind_result (to_iso_string (time_clip time)) (\<lambda>effective.
                     Inr (computed (Some effective) cooldownIso outside reasons (time \<noteq> originalMs) False)))))))))"

definition calculateNextSchedule :: "time_zones \<Rightarrow> fu_input \<Rightarrow> string option result" where
  "calculateNextSchedule zones input = (case fuw_candidate (validateFollowUpCandidate input) of
      None \<Rightarrow> Inr None
    | Some candidate \<Rightarrow> bind_result (computeFollowUpSchedule zones input candidate) (\<lambda>s. Inr (fus_effectiveScheduledFor s)))"

section \<open>The decision\<close>

definition no_fu_effects :: fu_side_effects where
  "no_fu_effects = \<lparr>fue_actionUpdated = False, fue_actionInserted = False, fue_outboxWritten = False,
     fue_messageSent = False, fue_workerTriggered = False\<rparr>"

definition buildFollowUpDecision ::
  "fu_decision \<Rightarrow> string \<Rightarrow> fu_reason list \<Rightarrow> string list \<Rightarrow> string option \<Rightarrow> string option \<Rightarrow> string option \<Rightarrow>
   fu_timing \<Rightarrow> fu_retry \<Rightarrow> fu_result" where
  "buildFollowUpDecision decision actionId reasons warnings original effective next_time timing retry =
     \<lparr>fur_decision = decision, fur_actionable = (decision = Fd_ready), fur_actionId = actionId,
      fur_reasons = js_unique reasons, fur_warnings = js_unique warnings, fur_originalScheduledFor = original,
      fur_effectiveScheduledFor = effective, fur_nextScheduledFor = next_time, fur_timing = timing, fur_retry = retry,
      fur_sideEffects = no_fu_effects\<rparr>"

definition lowerText :: "string option \<Rightarrow> string" where
  "lowerText value = (case value of None \<Rightarrow> [] | Some v \<Rightarrow> js_lower (js_trim v))"

definition isBlockedPolicyStatus :: "string option \<Rightarrow> bool" where
  "isBlockedPolicyStatus value \<longleftrightarrow> lowerText value \<in> set [''blocked'', ''block'', ''denied'', ''rejected'', ''restricted'']"

definition isAllowedActionType :: "string \<Rightarrow> string list \<Rightarrow> bool" where
  "isAllowedActionType actionType allowed \<longleftrightarrow> (if length allowed = 0 then False else actionType \<in> set allowed)"

definition isCaseClosed :: "string option \<Rightarrow> string option \<Rightarrow> bool" where
  "isCaseClosed caseStatus lifecycleStatus \<longleftrightarrow>
     list_ex (\<lambda>item. item \<in> set FOLLOW_UP_SCHEDULING_CASE_CLOSED_STATUSES) [lowerText caseStatus, lowerText lifecycleStatus]"

definition isOpportunityClosed :: "string option \<Rightarrow> bool" where
  "isOpportunityClosed status \<longleftrightarrow> lowerText status \<in> set FOLLOW_UP_SCHEDULING_OPPORTUNITY_CLOSED_STATUSES"

definition isOpportunityPaused :: "string option \<Rightarrow> bool" where
  "isOpportunityPaused status \<longleftrightarrow> lowerText status \<in> set FOLLOW_UP_SCHEDULING_OPPORTUNITY_PAUSED_STATUSES"

definition isAllowedRisk :: "string \<Rightarrow> string \<Rightarrow> bool" where
  "isAllowedRisk riskLevel bound \<longleftrightarrow>
    (let risk = lowerText (Some riskLevel); limit = lowerText (Some bound)
     in if risk = [] \<or> limit = [] then False
        else if risk = ''unknown'' \<or> limit = ''unknown'' then False
        else case (map_of FOLLOW_UP_SCHEDULING_RISK_SEVERITY risk, map_of FOLLOW_UP_SCHEDULING_RISK_SEVERITY limit) of
          (Some r, Some l) \<Rightarrow> r \<le> l | _ \<Rightarrow> False)"

definition isApprovalSatisfied :: "string \<Rightarrow> string \<Rightarrow> bool" where
  "isApprovalSatisfied status approvalRequirement \<longleftrightarrow>
    (let s = lowerText (Some status); requirement = lowerText (Some approvalRequirement)
     in if requirement \<notin> set FOLLOW_UP_SCHEDULING_APPROVAL_REQUIREMENTS then False
        else if requirement = ''blocked'' then False
        else if requirement = ''none'' then True
        else s = ''approved'' \<or> s = ''scheduled'')"

definition hasStaleContext :: "fu_candidate \<Rightarrow> bool" where
  "hasStaleContext candidate \<longleftrightarrow> (case fuc_opportunityStageChangedAtMs candidate of None \<Rightarrow> False
     | Some t \<Rightarrow> t \<noteq> 0 \<and> t > fuc_createdAtMs candidate)"

definition isCustomerReplyAfterActionCreation :: "fu_candidate \<Rightarrow> bool" where
  "isCustomerReplyAfterActionCreation candidate \<longleftrightarrow> (case fuc_lastInboundAtMs candidate of None \<Rightarrow> False
     | Some t \<Rightarrow> t > fuc_createdAtMs candidate)"

definition makeInvalidResult :: "fu_input \<Rightarrow> fu_reason \<Rightarrow> string list \<Rightarrow> fu_result" where
  "makeInvalidResult input reason warnings = buildFollowUpDecision Fd_invalid (js_trim (fua_actionId (fui_action input)))
     [reason] warnings None None None
     \<lparr>fut_evaluatedAt = fui_now input, fut_due = False, fut_expired = False, fut_cooldownUntil = None, fut_outsideBusinessHours = False\<rparr>
     \<lparr>fuy_attemptCount = max 0 (fua_attemptCount (fui_action input)),
      fuy_maxAttempts = max 0 (fua_maxAttempts (fui_action input)), fuy_attemptsRemaining = 0\<rparr>"

text \<open>The decisions that need no schedule and share their shape: the guards before the attempts, in order.\<close>

definition early_decision :: "fu_input \<Rightarrow> fu_candidate \<Rightarrow> (fu_decision \<times> fu_reason) option" where
  "early_decision input candidate =
    (let policy = fuc_policy candidate; context = fuc_context candidate
     in if \<not> fup_followUpEnabled (fui_policy input) then Some (Fd_cancel, Fr_follow_up_not_allowed)
        else if \<not> isAllowedActionType (fuc_actionType candidate) (fup_allowedActionTypes policy)
        then Some (Fd_cancel, Fr_follow_up_not_allowed)
        else if isBlockedPolicyStatus (fux_policyStatus context) then Some (Fd_block, Fr_policy_blocked)
        else if \<not> isAllowedRisk (fuc_riskLevel candidate) (fup_maxRiskLevel policy) then Some (Fd_block, Fr_risk_too_high)
        else if \<not> isApprovalSatisfied (fuc_status candidate) (fuc_approvalRequirement candidate)
        then Some (Fd_block, if lowerText (Some (fuc_approvalRequirement candidate)) = ''blocked'' then Fr_policy_blocked else Fr_approval_required)
        else if fux_humanOwnerActive context then Some (Fd_cancel, Fr_human_owner_active)
        else if fux_aiBlocked context then Some (Fd_block, Fr_ai_blocked)
        else if fux_requiresHuman context then Some (Fd_block, Fr_case_requires_human)
        else if isCaseClosed (fux_caseStatus context) (fux_lifecycleStatus context) then Some (Fd_cancel, Fr_case_closed)
        else if isOpportunityClosed (fux_opportunityStatus context)
        then Some (Fd_cancel, if lowerText (fux_opportunityStatus context) = ''won'' then Fr_opportunity_closed_won else Fr_opportunity_closed_lost)
        else if isOpportunityPaused (fux_opportunityStatus context) then Some (Fd_block, Fr_opportunity_paused)
        else if isCustomerReplyAfterActionCreation candidate then Some (Fd_cancel, Fr_customer_replied_after_action_created)
        else if fux_duplicateActionExists context then Some (Fd_cancel, Fr_duplicate_action)
        else if fux_conflictingActionExists context then Some (Fd_block, Fr_conflicting_action)
        else None)"

text \<open>The decision once a schedule was computed.\<close>

definition scheduled_decision :: "fu_candidate \<Rightarrow> fu_computation \<Rightarrow> fu_decision \<times> fu_reason list \<times> bool \<times> bool" where
  "scheduled_decision candidate schedule =
    (let policy = fuc_policy candidate;
         due = (case fus_effectiveScheduledFor schedule of None \<Rightarrow> False | Some e \<Rightarrow> fuc_nowMs candidate \<ge> time_of e);
         closed = (fus_outsideBusinessHours schedule \<and> fup_businessHoursEnabled policy \<and> \<not> fup_replanOutsideBusinessHours policy);
         cooling = (fus_cooldownUntil schedule \<noteq> None \<and> \<not> fup_replanAfterCooldown policy)
     in if hasStaleContext candidate
        then (Fd_replan, Fr_stale_action_context # fus_reasons schedule, due, fus_outsideBusinessHours schedule)
        else if fus_scheduleChanged schedule \<and> \<not> due \<and> closed then (Fd_wait, [Fr_outside_business_hours], due, True)
        else if fus_scheduleChanged schedule \<and> \<not> due \<and> cooling then (Fd_wait, [Fr_cooldown_active], due, fus_outsideBusinessHours schedule)
        else if fus_scheduleChanged schedule \<and> \<not> due \<and> fus_reasons schedule \<noteq> []
        then (Fd_replan, fus_reasons schedule, due, fus_outsideBusinessHours schedule)
        else if due then (Fd_ready, [Fr_scheduled_time_reached], True, fus_outsideBusinessHours schedule)
        else if closed then (Fd_wait, [Fr_outside_business_hours], False, True)
        else if cooling then (Fd_wait, [Fr_cooldown_active], False, fus_outsideBusinessHours schedule)
        else if fus_reasons schedule \<noteq> [] \<and> (fup_replanAfterCooldown policy \<or> fup_replanOutsideBusinessHours policy)
        then (Fd_replan, fus_reasons schedule, False, fus_outsideBusinessHours schedule)
        else (Fd_wait, [Fr_scheduled_time_not_reached], False, fus_outsideBusinessHours schedule))"

definition evaluateFollowUpSchedule :: "time_zones \<Rightarrow> fu_input \<Rightarrow> fu_result result" where
  "evaluateFollowUpSchedule zones input =
    (let validated = validateFollowUpCandidate input
     in case (if fuw_valid validated then fuw_candidate validated else None) of
       None \<Rightarrow> Inr (makeInvalidResult input (fuw_reason validated) (fuw_warnings validated))
     | Some candidate \<Rightarrow>
       (let original = fuc_scheduledFor candidate;
            retry = (\<lambda>remaining. \<lparr>fuy_attemptCount = fuc_attemptCount candidate, fuy_maxAttempts = fuc_maxAttempts candidate,
              fuy_attemptsRemaining = remaining\<rparr>);
            remaining = max 0 (fuc_maxAttempts candidate - fuc_attemptCount candidate);
            decided = (\<lambda>decision reasons effective next_time due expired cooldown outside left.
              buildFollowUpDecision decision (fuc_actionId candidate) reasons [] original effective next_time
                \<lparr>fut_evaluatedAt = fuc_now candidate, fut_due = due, fut_expired = expired, fut_cooldownUntil = cooldown,
                 fut_outsideBusinessHours = outside\<rparr> (retry left))
        in case early_decision input candidate of
          Some (decision, reason) \<Rightarrow> Inr (decided decision [reason] original None False False None False remaining)
        | None \<Rightarrow>
          if fuc_attemptCount candidate \<ge> fuc_maxAttempts candidate
          then Inr (decided Fd_expire [Fr_max_attempts_reached] original None False True None False 0)
          else if fup_requireExpiry (fuc_policy candidate) \<and> fuc_expiresAt candidate = None
          then Inr (decided Fd_invalid [Fr_missing_expiry] original None False False None False remaining)
          else if (case fuc_expiresAtMs candidate of None \<Rightarrow> False | Some e \<Rightarrow> fuc_nowMs candidate \<ge> e)
          then Inr (decided Fd_expire [Fr_action_expired] (fuc_expiresAt candidate) None True True None False remaining)
          else if original = None
          then Inr (decided Fd_invalid [Fr_missing_schedule] None None False False None False remaining)
          else bind_result (computeFollowUpSchedule zones input candidate) (\<lambda>schedule.
            if fus_scheduleImpossible schedule
            then Inr (decided Fd_expire (if fus_reasons schedule \<noteq> [] then fus_reasons schedule else [Fr_action_expired])
              None None False True (fus_cooldownUntil schedule) (fus_outsideBusinessHours schedule) remaining)
            else (case scheduled_decision candidate schedule of (decision, reasons, due, outside) \<Rightarrow>
              Inr (decided decision reasons (fus_effectiveScheduledFor schedule)
                (if decision = Fd_replan then fus_effectiveScheduledFor schedule else None) due False
                (fus_cooldownUntil schedule) outside remaining)))))"

end
