(* ===== verification/FollowUpReplan.thy ===== *)
theory FollowUpReplan
  imports FollowUpSchedule ActionLifecycle
begin

text \<open>
  Cancelling and replanning follow-ups (\<open>lib/brain/commercial/follow-up-replanning\<close>): the mutation
  plan for the result of a scheduling evaluation, its validation, and its application to a state
  in memory.  The digest (\<open>createHash("sha256")\<close>) is the parameter \<open>digest\<close>.  A plan is a value of
  its type, so the checks of the validation that only inspect types always pass and are left out;
  metadata are JSON values, so the copies of a state are the state.
\<close>

section \<open>Types\<close>

datatype fm_plan_type = Fp_no_change | Fp_cancel_action | Fp_expire_action | Fp_block_action
  | Fp_replan_action | Fp_supersede_action | Fp_cancel_and_create_replacement

datatype fm_reason = Fm_customer_replied | Fm_customer_replied_after_action_created | Fm_human_owner_active
  | Fm_case_closed | Fm_case_requires_human | Fm_opportunity_closed_won | Fm_opportunity_closed_lost
  | Fm_opportunity_paused | Fm_opportunity_stage_changed | Fm_stale_action_context | Fm_follow_up_disabled
  | Fm_policy_blocked | Fm_risk_too_high | Fm_approval_required | Fm_action_expired | Fm_max_attempts_reached
  | Fm_duplicate_action | Fm_conflicting_action | Fm_cooldown_replan | Fm_business_hours_replan
  | Fm_recent_outbound_replan | Fm_schedule_changed | Fm_replacement_required | Fm_terminal_action_immutable
  | Fm_invalid_scheduling_result | Fm_missing_next_schedule | Fm_replacement_would_exceed_expiry
  | Fm_idempotent_plan_reused

datatype fm_event_type = Fe_follow_up_cancelled | Fe_follow_up_expired | Fe_follow_up_blocked
  | Fe_follow_up_replanned | Fe_follow_up_superseded | Fe_follow_up_replacement_created

primrec fm_plan_type_name :: "fm_plan_type \<Rightarrow> string" where
  "fm_plan_type_name Fp_no_change = ''no_change''"
| "fm_plan_type_name Fp_cancel_action = ''cancel_action''"
| "fm_plan_type_name Fp_expire_action = ''expire_action''"
| "fm_plan_type_name Fp_block_action = ''block_action''"
| "fm_plan_type_name Fp_replan_action = ''replan_action''"
| "fm_plan_type_name Fp_supersede_action = ''supersede_action''"
| "fm_plan_type_name Fp_cancel_and_create_replacement = ''cancel_and_create_replacement''"

primrec fm_reason_name :: "fm_reason \<Rightarrow> string" where
  "fm_reason_name Fm_customer_replied = ''customer_replied''"
| "fm_reason_name Fm_customer_replied_after_action_created = ''customer_replied_after_action_created''"
| "fm_reason_name Fm_human_owner_active = ''human_owner_active''"
| "fm_reason_name Fm_case_closed = ''case_closed''"
| "fm_reason_name Fm_case_requires_human = ''case_requires_human''"
| "fm_reason_name Fm_opportunity_closed_won = ''opportunity_closed_won''"
| "fm_reason_name Fm_opportunity_closed_lost = ''opportunity_closed_lost''"
| "fm_reason_name Fm_opportunity_paused = ''opportunity_paused''"
| "fm_reason_name Fm_opportunity_stage_changed = ''opportunity_stage_changed''"
| "fm_reason_name Fm_stale_action_context = ''stale_action_context''"
| "fm_reason_name Fm_follow_up_disabled = ''follow_up_disabled''"
| "fm_reason_name Fm_policy_blocked = ''policy_blocked''"
| "fm_reason_name Fm_risk_too_high = ''risk_too_high''"
| "fm_reason_name Fm_approval_required = ''approval_required''"
| "fm_reason_name Fm_action_expired = ''action_expired''"
| "fm_reason_name Fm_max_attempts_reached = ''max_attempts_reached''"
| "fm_reason_name Fm_duplicate_action = ''duplicate_action''"
| "fm_reason_name Fm_conflicting_action = ''conflicting_action''"
| "fm_reason_name Fm_cooldown_replan = ''cooldown_replan''"
| "fm_reason_name Fm_business_hours_replan = ''business_hours_replan''"
| "fm_reason_name Fm_recent_outbound_replan = ''recent_outbound_replan''"
| "fm_reason_name Fm_schedule_changed = ''schedule_changed''"
| "fm_reason_name Fm_replacement_required = ''replacement_required''"
| "fm_reason_name Fm_terminal_action_immutable = ''terminal_action_immutable''"
| "fm_reason_name Fm_invalid_scheduling_result = ''invalid_scheduling_result''"
| "fm_reason_name Fm_missing_next_schedule = ''missing_next_schedule''"
| "fm_reason_name Fm_replacement_would_exceed_expiry = ''replacement_would_exceed_expiry''"
| "fm_reason_name Fm_idempotent_plan_reused = ''idempotent_plan_reused''"

primrec fm_event_type_name :: "fm_event_type \<Rightarrow> string" where
  "fm_event_type_name Fe_follow_up_cancelled = ''follow_up_cancelled''"
| "fm_event_type_name Fe_follow_up_expired = ''follow_up_expired''"
| "fm_event_type_name Fe_follow_up_blocked = ''follow_up_blocked''"
| "fm_event_type_name Fe_follow_up_replanned = ''follow_up_replanned''"
| "fm_event_type_name Fe_follow_up_superseded = ''follow_up_superseded''"
| "fm_event_type_name Fe_follow_up_replacement_created = ''follow_up_replacement_created''"

primrec fu_reason_name :: "fu_reason \<Rightarrow> string" where
  "fu_reason_name Fr_scheduled_time_reached = ''scheduled_time_reached''"
| "fu_reason_name Fr_scheduled_time_not_reached = ''scheduled_time_not_reached''"
| "fu_reason_name Fr_customer_replied = ''customer_replied''"
| "fu_reason_name Fr_customer_replied_after_action_created = ''customer_replied_after_action_created''"
| "fu_reason_name Fr_human_owner_active = ''human_owner_active''"
| "fu_reason_name Fr_ai_blocked = ''ai_blocked''"
| "fu_reason_name Fr_case_closed = ''case_closed''"
| "fu_reason_name Fr_case_requires_human = ''case_requires_human''"
| "fu_reason_name Fr_opportunity_closed_won = ''opportunity_closed_won''"
| "fu_reason_name Fr_opportunity_closed_lost = ''opportunity_closed_lost''"
| "fu_reason_name Fr_opportunity_paused = ''opportunity_paused''"
| "fu_reason_name Fr_opportunity_stage_changed = ''opportunity_stage_changed''"
| "fu_reason_name Fr_follow_up_not_allowed = ''follow_up_not_allowed''"
| "fu_reason_name Fr_policy_blocked = ''policy_blocked''"
| "fu_reason_name Fr_risk_too_high = ''risk_too_high''"
| "fu_reason_name Fr_approval_required = ''approval_required''"
| "fu_reason_name Fr_action_expired = ''action_expired''"
| "fu_reason_name Fr_max_attempts_reached = ''max_attempts_reached''"
| "fu_reason_name Fr_cooldown_active = ''cooldown_active''"
| "fu_reason_name Fr_conflicting_action = ''conflicting_action''"
| "fu_reason_name Fr_duplicate_action = ''duplicate_action''"
| "fu_reason_name Fr_missing_schedule = ''missing_schedule''"
| "fu_reason_name Fr_missing_expiry = ''missing_expiry''"
| "fu_reason_name Fr_missing_action_id = ''missing_action_id''"
| "fu_reason_name Fr_missing_idempotency_key = ''missing_idempotency_key''"
| "fu_reason_name Fr_unsupported_action_type = ''unsupported_action_type''"
| "fu_reason_name Fr_invalid_action_status = ''invalid_action_status''"
| "fu_reason_name Fr_invalid_timestamp = ''invalid_timestamp''"
| "fu_reason_name Fr_outside_business_hours = ''outside_business_hours''"
| "fu_reason_name Fr_replanned_for_business_hours = ''replanned_for_business_hours''"
| "fu_reason_name Fr_replanned_after_cooldown = ''replanned_after_cooldown''"
| "fu_reason_name Fr_replanned_after_recent_outbound = ''replanned_after_recent_outbound''"
| "fu_reason_name Fr_stale_action_context = ''stale_action_context''"

record fm_patch =
  fmp_actionId :: string
  fmp_expectedStatuses :: "string list"
  fmp_nextStatus :: string
  fmp_scheduledFor :: "string change"
  fmp_expiresAt :: "string change"
  fmp_cancelReason :: "string change"
  fmp_blockReasons :: "string list option"
  fmp_supersededByActionId :: "string change"
  fmp_updatedAt :: string

record fm_replacement =
  fmr_actionId :: string
  fmr_idempotencyKey :: string
  fmr_actionType :: string
  fmr_status :: string
  fmr_opportunityId :: "ref_id option"
  fmr_conversationCaseId :: "ref_id option"
  fmr_waId :: "string option"
  fmr_scheduledFor :: string
  fmr_expiresAt :: "string option"
  fmr_attemptCount :: int
  fmr_maxAttempts :: int
  fmr_riskLevel :: string
  fmr_approvalRequirement :: string
  fmr_draftMessage :: "string option"
  fmr_finalMessage :: "string option"
  fmr_parentActionId :: string
  fmr_generation :: int
  fmr_lifecycleVersion :: "string option"
  fmr_policyVersion :: "string option"
  fmr_runtimeVersion :: "string option"
  fmr_createdAt :: string
  fmr_updatedAt :: string

record fm_event =
  fme_eventId :: string
  fme_eventType :: fm_event_type
  fme_actionId :: string
  fme_replacementActionId :: "string option"
  fme_reason :: fm_reason
  fme_metadata :: "(string \<times> json) list"
  fme_createdAt :: string

datatype fm_operation = Update_existing_action fm_patch | Create_replacement_action fm_replacement
  | Append_audit_event fm_event

record fm_original =
  fmo_rowId :: "int option"
  fmo_actionId :: string
  fmo_idempotencyKey :: "string option"
  fmo_actionType :: string
  fmo_status :: string
  fmo_createdAt :: string
  fmo_updatedAt :: "string option"
  fmo_scheduledFor :: "string option"
  fmo_expiresAt :: "string option"
  fmo_attemptCount :: int
  fmo_maxAttempts :: int
  fmo_riskLevel :: string
  fmo_approvalRequirement :: string
  fmo_opportunityId :: "ref_id option"
  fmo_conversationCaseId :: "ref_id option"
  fmo_waId :: "string option"
  fmo_draftMessage :: "string option"
  fmo_finalMessage :: "string option"
  fmo_blockReasons :: "string list"
  fmo_cancelReason :: "string option"
  fmo_parentActionId :: "string option"
  fmo_supersededByActionId :: "string option"
  fmo_lifecycleVersion :: "string option"
  fmo_policyVersion :: "string option"
  fmo_runtimeVersion :: "string option"

record fm_context =
  fmx_caseStatus :: "string option"
  fmx_lifecycleStatus :: "string option"
  fmx_humanOwnerActive :: bool
  fmx_aiBlocked :: bool
  fmx_requiresHuman :: bool
  fmx_opportunityStatus :: "string option"
  fmx_opportunityStage :: "string option"
  fmx_opportunityStageChangedAt :: "string option"
  fmx_policyStatus :: "string option"
  fmx_lastInboundAt :: "string option"
  fmx_lastOutboundAt :: "string option"
  fmx_conflictingActionId :: "string option"
  fmx_duplicateActionId :: "string option"

record fm_policy =
  fml_allowReplacementOnReplan :: bool
  fml_allowInPlaceScheduleUpdate :: bool
  fml_preserveOriginalAction :: bool
  fml_requireAuditEvent :: bool
  fml_resetAttemptsOnStageChange :: bool
  fml_incrementGenerationOnReplacement :: bool

record fm_input =
  fmi_now :: string
  fmi_originalAction :: fm_original
  fmi_schedulingResult :: fu_result
  fmi_currentContext :: fm_context
  fmi_policy :: fm_policy

record fm_side_effects =
  fms_databaseWritten :: bool
  fms_actionMutated :: bool
  fms_actionInserted :: bool
  fms_outboxWritten :: bool
  fms_messageSent :: bool
  fms_workerTriggered :: bool

record fm_plan =
  fpl_planId :: string
  fpl_planType :: fm_plan_type
  fpl_actionId :: string
  fpl_replacementActionId :: "string option"
  fpl_operations :: "fm_operation list"
  fpl_reasons :: "fm_reason list"
  fpl_warnings :: "string list"
  fpl_planKey :: string
  fpl_sideEffects :: fm_side_effects
  fpl_createdAt :: string

record fm_action =
  fma_rowId :: "int option"
  fma_actionId :: string
  fma_idempotencyKey :: "string option"
  fma_actionType :: string
  fma_status :: string
  fma_scheduledFor :: "string option"
  fma_expiresAt :: "string option"
  fma_attemptCount :: int
  fma_maxAttempts :: int
  fma_riskLevel :: string
  fma_approvalRequirement :: string
  fma_opportunityId :: "ref_id option"
  fma_conversationCaseId :: "ref_id option"
  fma_waId :: "string option"
  fma_draftMessage :: "string option"
  fma_finalMessage :: "string option"
  fma_blockReasons :: "string list"
  fma_cancelReason :: "string option"
  fma_supersededByActionId :: "string option"
  fma_parentActionId :: "string option"
  fma_generation :: "int option"
  fma_lifecycleVersion :: "string option"
  fma_policyVersion :: "string option"
  fma_runtimeVersion :: "string option"
  fma_createdAt :: string
  fma_updatedAt :: "string option"

record fm_state =
  fst_actions :: "fm_action list"
  fst_auditEvents :: "fm_event list"
  fst_appliedPlanKeys :: "string list"

record fm_apply_result =
  fmt_applied :: bool
  fmt_duplicate :: bool
  fmt_conflict :: bool
  fmt_rolledBack :: bool
  fmt_previousState :: fm_state
  fmt_nextState :: fm_state
  fmt_appliedOperationCount :: int
  fmt_error :: "string option"

section \<open>Constants\<close>

definition FOLLOW_UP_MUTATION_ALLOWED_MUTABLE_STATUSES :: "string list" where
  "FOLLOW_UP_MUTATION_ALLOWED_MUTABLE_STATUSES = [''proposed'', ''approved'', ''planned'', ''scheduled'']"

definition FOLLOW_UP_MUTATION_TERMINAL_STATUSES :: "string list" where
  "FOLLOW_UP_MUTATION_TERMINAL_STATUSES = [''cancelled'', ''expired'', ''executed'', ''rejected''] @
     map status_name COMMERCIAL_ACTION_TERMINAL_STATUSES"

text \<open>The texts the digests are taken of.\<close>

definition json_change :: "string change \<Rightarrow> json" where
  "json_change c = (case c of Unset \<Rightarrow> JUndef | Nulled \<Rightarrow> JNull | Assigned s \<Rightarrow> JStr s)"

definition json_ref_option :: "ref_id option \<Rightarrow> json" where
  "json_ref_option r = (case r of None \<Rightarrow> JNull | Some (Ref_num n) \<Rightarrow> JNum n | Some (Ref_text s) \<Rightarrow> JStr s)"

definition json_texts :: "string list \<Rightarrow> json" where
  "json_texts xs = JArr (map JStr xs)"

definition json_patch :: "fm_patch \<Rightarrow> json" where
  "json_patch p = JObj
     [(''actionId'', JStr (fmp_actionId p)), (''expectedStatuses'', json_texts (fmp_expectedStatuses p)),
      (''nextStatus'', JStr (fmp_nextStatus p)), (''scheduledFor'', json_change (fmp_scheduledFor p)),
      (''expiresAt'', json_change (fmp_expiresAt p)), (''cancelReason'', json_change (fmp_cancelReason p)),
      (''blockReasons'', (case fmp_blockReasons p of None \<Rightarrow> JUndef | Some rs \<Rightarrow> json_texts rs)),
      (''supersededByActionId'', json_change (fmp_supersededByActionId p)), (''updatedAt'', JStr (fmp_updatedAt p))]"

definition json_replacement :: "fm_replacement \<Rightarrow> json" where
  "json_replacement a = JObj
     [(''actionId'', JStr (fmr_actionId a)), (''idempotencyKey'', JStr (fmr_idempotencyKey a)),
      (''actionType'', JStr (fmr_actionType a)), (''status'', JStr (fmr_status a)),
      (''opportunityId'', json_ref_option (fmr_opportunityId a)),
      (''conversationCaseId'', json_ref_option (fmr_conversationCaseId a)), (''waId'', json_opt (fmr_waId a)),
      (''scheduledFor'', JStr (fmr_scheduledFor a)), (''expiresAt'', json_opt (fmr_expiresAt a)),
      (''attemptCount'', JNum (fmr_attemptCount a)), (''maxAttempts'', JNum (fmr_maxAttempts a)),
      (''riskLevel'', JStr (fmr_riskLevel a)), (''approvalRequirement'', JStr (fmr_approvalRequirement a)),
      (''draftMessage'', json_opt (fmr_draftMessage a)), (''finalMessage'', json_opt (fmr_finalMessage a)),
      (''parentActionId'', JStr (fmr_parentActionId a)), (''generation'', JNum (fmr_generation a)),
      (''lifecycleVersion'', json_opt (fmr_lifecycleVersion a)), (''policyVersion'', json_opt (fmr_policyVersion a)),
      (''runtimeVersion'', json_opt (fmr_runtimeVersion a)), (''createdAt'', JStr (fmr_createdAt a)),
      (''updatedAt'', JStr (fmr_updatedAt a))]"

definition json_event :: "fm_event \<Rightarrow> json" where
  "json_event e = JObj
     [(''eventId'', JStr (fme_eventId e)), (''eventType'', JStr (fm_event_type_name (fme_eventType e))),
      (''actionId'', JStr (fme_actionId e)), (''replacementActionId'', json_opt (fme_replacementActionId e)),
      (''reason'', JStr (fm_reason_name (fme_reason e))), (''metadata'', JObj (fme_metadata e)),
      (''createdAt'', JStr (fme_createdAt e))]"

primrec json_operation :: "fm_operation \<Rightarrow> json" where
  "json_operation (Update_existing_action p) = JObj [(''type'', JStr ''update_existing_action''), (''patch'', json_patch p)]"
| "json_operation (Create_replacement_action a) = JObj [(''type'', JStr ''create_replacement_action''), (''action'', json_replacement a)]"
| "json_operation (Append_audit_event e) = JObj [(''type'', JStr ''append_audit_event''), (''event'', json_event e)]"

definition mutation_payload :: "string \<Rightarrow> fm_plan_type \<Rightarrow> string \<Rightarrow> fm_reason list \<Rightarrow> fm_operation list \<Rightarrow> json" where
  "mutation_payload actionId planType createdAt reasons operations = JObj
     [(''actionId'', JStr actionId), (''planType'', JStr (fm_plan_type_name planType)), (''createdAt'', JStr createdAt),
      (''reasons'', JArr (map (\<lambda>r. JStr (fm_reason_name r)) reasons)), (''operations'', JArr (map json_operation operations))]"

definition buildStableDigest :: "(string \<Rightarrow> string) \<Rightarrow> json \<Rightarrow> string" where
  "buildStableDigest digest payload = digest (json_stringify payload)"

definition buildFollowUpMutationPlanId ::
  "(string \<Rightarrow> string) \<Rightarrow> string \<Rightarrow> fm_plan_type \<Rightarrow> string \<Rightarrow> fm_reason list \<Rightarrow> fm_operation list \<Rightarrow> string" where
  "buildFollowUpMutationPlanId digest actionId planType createdAt reasons operations =
     ''followup-mutation-plan:'' @ take 24 (buildStableDigest digest (mutation_payload actionId planType createdAt reasons operations))"

definition buildFollowUpMutationPlanKey ::
  "(string \<Rightarrow> string) \<Rightarrow> string \<Rightarrow> fm_plan_type \<Rightarrow> string \<Rightarrow> fm_reason list \<Rightarrow> fm_operation list \<Rightarrow> string" where
  "buildFollowUpMutationPlanKey digest actionId planType createdAt reasons operations =
     ''followup-mutation:'' @ actionId @ '':'' @ fm_plan_type_name planType @ '':'' @
     take 24 (buildStableDigest digest (mutation_payload actionId planType createdAt reasons operations))"

definition replacement_payload :: "string \<Rightarrow> int \<Rightarrow> string \<Rightarrow> fm_reason \<Rightarrow> json" where
  "replacement_payload originalActionId generation nextScheduledFor reason = JObj
     [(''originalActionId'', JStr originalActionId), (''generation'', JNum generation),
      (''nextScheduledFor'', JStr nextScheduledFor), (''reason'', JStr (fm_reason_name reason))]"

definition buildReplacementActionId :: "(string \<Rightarrow> string) \<Rightarrow> string \<Rightarrow> int \<Rightarrow> string \<Rightarrow> fm_reason \<Rightarrow> string" where
  "buildReplacementActionId digest originalActionId generation nextScheduledFor reason =
     ''followup-replacement:'' @ originalActionId @ '':g'' @ int_to_string generation @ '':'' @
     take 20 (buildStableDigest digest (replacement_payload originalActionId generation nextScheduledFor reason))"

definition buildReplacementIdempotencyKey :: "(string \<Rightarrow> string) \<Rightarrow> string \<Rightarrow> int \<Rightarrow> string \<Rightarrow> fm_reason \<Rightarrow> string" where
  "buildReplacementIdempotencyKey digest originalActionId generation nextScheduledFor reason =
     ''followup-replacement-idem:'' @ originalActionId @ '':g'' @ int_to_string generation @ '':'' @
     take 24 (buildStableDigest digest (replacement_payload originalActionId generation nextScheduledFor reason))"

definition buildFollowUpAuditEventId ::
  "(string \<Rightarrow> string) \<Rightarrow> string \<Rightarrow> fm_event_type \<Rightarrow> fm_reason \<Rightarrow> string \<Rightarrow> string option \<Rightarrow> string" where
  "buildFollowUpAuditEventId digest actionId eventType reason createdAt replacementActionId =
     ''followup-audit:'' @ actionId @ '':'' @ fm_event_type_name eventType @ '':'' @
     take 20 (buildStableDigest digest (JObj
       [(''actionId'', JStr actionId), (''eventType'', JStr (fm_event_type_name eventType)),
        (''reason'', JStr (fm_reason_name reason)), (''createdAt'', JStr createdAt),
        (''replacementActionId'', json_opt replacementActionId)]))"

definition normalizePlanReasons :: "fm_reason list \<Rightarrow> fm_reason list" where
  "normalizePlanReasons reasons = js_unique reasons"

definition mapSchedulingReasonToMutationReason :: "string \<Rightarrow> bool \<Rightarrow> bool \<Rightarrow> fm_reason" where
  "mapSchedulingReasonToMutationReason schedulingReason stageChanged customerRepliedAfterActionCreated =
    (if schedulingReason = ''customer_replied''
     then (if customerRepliedAfterActionCreated then Fm_customer_replied_after_action_created else Fm_customer_replied)
     else case map_of [
      (''customer_replied_after_action_created'', Fm_customer_replied_after_action_created),
      (''human_owner_active'', Fm_human_owner_active),
      (''case_closed'', Fm_case_closed),
      (''case_requires_human'', Fm_case_requires_human),
      (''opportunity_closed_won'', Fm_opportunity_closed_won),
      (''opportunity_closed_lost'', Fm_opportunity_closed_lost),
      (''opportunity_paused'', Fm_opportunity_paused),
      (''opportunity_stage_changed'', Fm_opportunity_stage_changed),
      (''follow_up_not_allowed'', Fm_follow_up_disabled),
      (''policy_blocked'', Fm_policy_blocked),
      (''risk_too_high'', Fm_risk_too_high),
      (''approval_required'', Fm_approval_required),
      (''action_expired'', Fm_action_expired),
      (''max_attempts_reached'', Fm_max_attempts_reached),
      (''duplicate_action'', Fm_duplicate_action),
      (''conflicting_action'', Fm_conflicting_action),
      (''cooldown_active'', Fm_cooldown_replan),
      (''outside_business_hours'', Fm_business_hours_replan),
      (''replanned_after_cooldown'', Fm_cooldown_replan),
      (''replanned_for_business_hours'', Fm_business_hours_replan),
      (''replanned_after_recent_outbound'', Fm_recent_outbound_replan),
      (''stale_action_context'', Fm_stale_action_context)] schedulingReason of
       Some reason \<Rightarrow> reason | None \<Rightarrow> if stageChanged then Fm_schedule_changed else Fm_replacement_required)"

section \<open>Plans\<close>

definition no_fm_effects :: fm_side_effects where
  "no_fm_effects = \<lparr>fms_databaseWritten = False, fms_actionMutated = False, fms_actionInserted = False,
     fms_outboxWritten = False, fms_messageSent = False, fms_workerTriggered = False\<rparr>"

text \<open>A plan whose identifiers are digests of its content.\<close>

definition digest_plan ::
  "(string \<Rightarrow> string) \<Rightarrow> fm_input \<Rightarrow> fm_plan_type \<Rightarrow> string option \<Rightarrow> fm_operation list \<Rightarrow> fm_reason list \<Rightarrow> string list \<Rightarrow> fm_plan" where
  "digest_plan digest input planType replacementActionId operations reasons warnings =
    (let actionId = fmo_actionId (fmi_originalAction input); now = fmi_now input
     in \<lparr>fpl_planId = buildFollowUpMutationPlanId digest actionId planType now reasons operations, fpl_planType = planType,
         fpl_actionId = actionId, fpl_replacementActionId = replacementActionId, fpl_operations = operations,
         fpl_reasons = reasons, fpl_warnings = warnings,
         fpl_planKey = buildFollowUpMutationPlanKey digest actionId planType now reasons operations,
         fpl_sideEffects = no_fm_effects, fpl_createdAt = now\<rparr>)"

text \<open>The patch of an original action: its status is expected, its time is set, the rest is absent.\<close>

definition base_patch :: "fm_input \<Rightarrow> string \<Rightarrow> string option \<Rightarrow> fm_patch" where
  "base_patch input nextStatus scheduledFor =
     \<lparr>fmp_actionId = fmo_actionId (fmi_originalAction input), fmp_expectedStatuses = [fmo_status (fmi_originalAction input)],
      fmp_nextStatus = nextStatus, fmp_scheduledFor = change_of scheduledFor, fmp_expiresAt = Unset, fmp_cancelReason = Unset,
      fmp_blockReasons = None, fmp_supersededByActionId = Unset, fmp_updatedAt = fmi_now input\<rparr>"

definition audit_event ::
  "(string \<Rightarrow> string) \<Rightarrow> fm_input \<Rightarrow> fm_event_type \<Rightarrow> fm_reason \<Rightarrow> string option \<Rightarrow> (string \<times> json) list \<Rightarrow> fm_event" where
  "audit_event digest input eventType reason replacementActionId metadata =
     \<lparr>fme_eventId = buildFollowUpAuditEventId digest (fmo_actionId (fmi_originalAction input)) eventType reason (fmi_now input) replacementActionId,
      fme_eventType = eventType, fme_actionId = fmo_actionId (fmi_originalAction input),
      fme_replacementActionId = replacementActionId, fme_reason = reason, fme_metadata = metadata, fme_createdAt = fmi_now input\<rparr>"

definition audited :: "fm_input \<Rightarrow> fm_operation list \<Rightarrow> fm_event list \<Rightarrow> fm_operation list" where
  "audited input operations events =
     (if fml_requireAuditEvent (fmi_policy input) then operations @ map Append_audit_event events else operations)"

definition first_reason :: "fm_input \<Rightarrow> string" where
  "first_reason input = (case fur_reasons (fmi_schedulingResult input) of
     [] \<Rightarrow> ''invalid_scheduling_result'' | r # _ \<Rightarrow> fu_reason_name r)"

subsection \<open>Cancelling\<close>

definition buildCancellationReason :: "fm_input \<Rightarrow> fm_reason" where
  "buildCancellationReason input = mapSchedulingReasonToMutationReason (first_reason input) False
     (case fmx_lastInboundAt (fmi_currentContext input) of None \<Rightarrow> False
      | Some inbound \<Rightarrow> (case (date_parse inbound, date_parse (fmo_createdAt (fmi_originalAction input))) of
          (Some i, Some c) \<Rightarrow> i > c | _ \<Rightarrow> False))"

definition buildCancellationAuditEvent :: "(string \<Rightarrow> string) \<Rightarrow> fm_input \<Rightarrow> fm_reason \<Rightarrow> fm_event" where
  "buildCancellationAuditEvent digest input reason = audit_event digest input Fe_follow_up_cancelled reason None
     [(''oldStatus'', JStr (fmo_status (fmi_originalAction input))), (''newStatus'', JStr ''cancelled''),
      (''oldScheduledFor'', json_opt (fmo_scheduledFor (fmi_originalAction input))), (''newScheduledFor'', JNull),
      (''reason'', JStr (fm_reason_name reason)),
      (''opportunityStage'', json_opt (fmx_opportunityStage (fmi_currentContext input))),
      (''attemptCount'', JNum (fmo_attemptCount (fmi_originalAction input)))]"

definition buildCancellationPlan :: "(string \<Rightarrow> string) \<Rightarrow> fm_input \<Rightarrow> fm_plan" where
  "buildCancellationPlan digest input =
    (let reason = buildCancellationReason input;
         patch = (base_patch input ''cancelled'' (fmo_scheduledFor (fmi_originalAction input)))
           \<lparr>fmp_cancelReason := Assigned (fm_reason_name reason)\<rparr>
     in digest_plan digest input Fp_cancel_action None
          (audited input [Update_existing_action patch] [buildCancellationAuditEvent digest input reason])
          (normalizePlanReasons [reason]) [])"

subsection \<open>Expiring\<close>

definition buildExpirationReason :: "fm_input \<Rightarrow> fm_reason" where
  "buildExpirationReason input =
    (let schedulingReason = first_reason input
     in if schedulingReason = ''max_attempts_reached'' then Fm_max_attempts_reached
        else if schedulingReason = ''action_expired'' then Fm_action_expired
        else if schedulingReason = ''replacement_would_exceed_expiry'' then Fm_replacement_would_exceed_expiry
        else mapSchedulingReasonToMutationReason schedulingReason False False)"

definition buildExpirationAuditEvent :: "(string \<Rightarrow> string) \<Rightarrow> fm_input \<Rightarrow> fm_reason \<Rightarrow> fm_event" where
  "buildExpirationAuditEvent digest input reason = audit_event digest input Fe_follow_up_expired reason None
     [(''oldStatus'', JStr (fmo_status (fmi_originalAction input))), (''newStatus'', JStr ''expired''),
      (''oldScheduledFor'', json_opt (fmo_scheduledFor (fmi_originalAction input))), (''newScheduledFor'', JNull),
      (''reason'', JStr (fm_reason_name reason)), (''attemptCount'', JNum (fmo_attemptCount (fmi_originalAction input)))]"

definition buildExpirationPlan :: "(string \<Rightarrow> string) \<Rightarrow> fm_input \<Rightarrow> fm_plan" where
  "buildExpirationPlan digest input =
    (let reason = buildExpirationReason input;
         patch = (base_patch input ''expired'' (fmo_scheduledFor (fmi_originalAction input)))
           \<lparr>fmp_expiresAt := change_of (fmo_expiresAt (fmi_originalAction input))\<rparr>
     in digest_plan digest input Fp_expire_action None
          (audited input [Update_existing_action patch] [buildExpirationAuditEvent digest input reason])
          (normalizePlanReasons [reason]) [])"

subsection \<open>Blocking\<close>

definition buildBlockReason :: "fm_input \<Rightarrow> fm_reason" where
  "buildBlockReason input = mapSchedulingReasonToMutationReason (first_reason input) False False"

definition buildBlockingAuditEvent :: "(string \<Rightarrow> string) \<Rightarrow> fm_input \<Rightarrow> fm_reason \<Rightarrow> fm_event" where
  "buildBlockingAuditEvent digest input reason = audit_event digest input Fe_follow_up_blocked reason None
     [(''oldStatus'', JStr (fmo_status (fmi_originalAction input))), (''newStatus'', JStr ''blocked''),
      (''oldScheduledFor'', json_opt (fmo_scheduledFor (fmi_originalAction input))), (''newScheduledFor'', JNull),
      (''reason'', JStr (fm_reason_name reason)),
      (''opportunityStage'', json_opt (fmx_opportunityStage (fmi_currentContext input))),
      (''attemptCount'', JNum (fmo_attemptCount (fmi_originalAction input)))]"

definition buildBlockingPlan :: "(string \<Rightarrow> string) \<Rightarrow> fm_input \<Rightarrow> fm_plan" where
  "buildBlockingPlan digest input =
    (let reason = buildBlockReason input;
         blockReasons = (if reason = Fm_conflicting_action then [''conflicting_action''] else [fm_reason_name reason]);
         patch = (base_patch input ''blocked'' (fmo_scheduledFor (fmi_originalAction input)))\<lparr>fmp_blockReasons := Some blockReasons\<rparr>
     in digest_plan digest input Fp_block_action None
          (audited input [Update_existing_action patch] [buildBlockingAuditEvent digest input reason])
          (normalizePlanReasons [reason]) [])"

subsection \<open>Replanning\<close>

definition parse_instant :: "string option \<Rightarrow> int option" where
  "parse_instant value = (case value of None \<Rightarrow> None | Some s \<Rightarrow> if s = [] then None else date_parse s)"

text \<open>The truthiness of a nullable text.\<close>

definition truthy :: "string option \<Rightarrow> bool" where
  "truthy value \<longleftrightarrow> value \<noteq> None \<and> value \<noteq> Some []"

definition resolveGeneration :: "fm_input \<Rightarrow> int" where
  "resolveGeneration input = max 1 (fmo_attemptCount (fmi_originalAction input) +
     (if fml_incrementGenerationOnReplacement (fmi_policy input) then 1 else 0))"

definition stageChanged :: "fm_input \<Rightarrow> bool" where
  "stageChanged input \<longleftrightarrow> (case (parse_instant (fmx_opportunityStageChangedAt (fmi_currentContext input)),
       parse_instant (Some (fmo_createdAt (fmi_originalAction input)))) of
     (Some changedAt, Some createdAt) \<Rightarrow> changedAt > createdAt | _ \<Rightarrow> False)"

definition canUpdateInPlace :: "fm_input \<Rightarrow> bool" where
  "canUpdateInPlace input \<longleftrightarrow>
    (let policy = fmi_policy input; status = fmo_status (fmi_originalAction input)
     in if \<not> fml_allowInPlaceScheduleUpdate policy then False
        else if fml_preserveOriginalAction policy then False
        else if status \<notin> set [''planned'', ''scheduled''] then False
        else if status \<in> set [''cancelled'', ''expired'', ''executed'', ''rejected'', ''blocked'', ''failed'', ''draft'', ''requires_review'']
        then False
        else truthy (fur_nextScheduledFor (fmi_schedulingResult input)))"

definition buildStageReason :: "fm_input \<Rightarrow> fm_reason" where
  "buildStageReason input = (if stageChanged input then Fm_stale_action_context
     else mapSchedulingReasonToMutationReason (first_reason input) False False)"

definition replan_metadata :: "fm_input \<Rightarrow> fm_reason \<Rightarrow> string \<Rightarrow> (string \<times> json) list" where
  "replan_metadata input reason newStatus =
     [(''oldStatus'', JStr (fmo_status (fmi_originalAction input))), (''newStatus'', JStr newStatus),
      (''oldScheduledFor'', json_opt (fmo_scheduledFor (fmi_originalAction input))),
      (''newScheduledFor'', json_opt (fur_nextScheduledFor (fmi_schedulingResult input))),
      (''reason'', JStr (fm_reason_name reason)),
      (''opportunityStage'', json_opt (fmx_opportunityStage (fmi_currentContext input))),
      (''attemptCount'', JNum (fmo_attemptCount (fmi_originalAction input))), (''generation'', JNum (resolveGeneration input))]"

definition buildReplanAuditEvents :: "(string \<Rightarrow> string) \<Rightarrow> fm_input \<Rightarrow> fm_reason \<Rightarrow> string option \<Rightarrow> fm_event list" where
  "buildReplanAuditEvents digest input reason replacementActionId =
    (if truthy replacementActionId
     then [audit_event digest input Fe_follow_up_superseded reason replacementActionId (replan_metadata input reason ''cancelled''),
           audit_event digest input Fe_follow_up_replacement_created reason replacementActionId (replan_metadata input reason ''scheduled'')]
     else [audit_event digest input Fe_follow_up_replanned reason replacementActionId (replan_metadata input reason ''scheduled'')])"

definition buildReplacementDraft :: "(string \<Rightarrow> string) \<Rightarrow> fm_input \<Rightarrow> fm_reason \<Rightarrow> fm_replacement result" where
  "buildReplacementDraft digest input reason =
    (let original = fmi_originalAction input; generation = resolveGeneration input
     in case fur_nextScheduledFor (fmi_schedulingResult input) of
       None \<Rightarrow> Inl (Error ''missing_next_schedule'')
     | Some next \<Rightarrow> if next = [] then Inl (Error ''missing_next_schedule'')
       else Inr \<lparr>fmr_actionId = buildReplacementActionId digest (fmo_actionId original) generation next reason,
         fmr_idempotencyKey = buildReplacementIdempotencyKey digest (fmo_actionId original) generation next reason,
         fmr_actionType = fmo_actionType original, fmr_status = ''scheduled'', fmr_opportunityId = fmo_opportunityId original,
         fmr_conversationCaseId = fmo_conversationCaseId original, fmr_waId = fmo_waId original, fmr_scheduledFor = next,
         fmr_expiresAt = fmo_expiresAt original,
         fmr_attemptCount = (if fml_resetAttemptsOnStageChange (fmi_policy input) \<and> stageChanged input then 0 else fmo_attemptCount original),
         fmr_maxAttempts = fmo_maxAttempts original, fmr_riskLevel = fmo_riskLevel original,
         fmr_approvalRequirement = fmo_approvalRequirement original, fmr_draftMessage = fmo_draftMessage original,
         fmr_finalMessage = fmo_finalMessage original, fmr_parentActionId = fmo_actionId original, fmr_generation = generation,
         fmr_lifecycleVersion = fmo_lifecycleVersion original, fmr_policyVersion = fmo_policyVersion original,
         fmr_runtimeVersion = fmo_runtimeVersion original, fmr_createdAt = fmi_now input, fmr_updatedAt = fmi_now input\<rparr>)"

definition buildInPlacePlan :: "(string \<Rightarrow> string) \<Rightarrow> fm_input \<Rightarrow> fm_reason \<Rightarrow> fm_plan" where
  "buildInPlacePlan digest input reason =
    (let patch = (base_patch input ''scheduled'' (fur_nextScheduledFor (fmi_schedulingResult input)))
           \<lparr>fmp_expiresAt := change_of (fmo_expiresAt (fmi_originalAction input))\<rparr>
     in digest_plan digest input Fp_replan_action None
          (audited input [Update_existing_action patch] (take 1 (buildReplanAuditEvents digest input reason None)))
          (normalizePlanReasons [reason]) [])"

definition buildReplacementPlan :: "(string \<Rightarrow> string) \<Rightarrow> fm_input \<Rightarrow> fm_reason \<Rightarrow> fm_plan_type \<Rightarrow> fm_plan result" where
  "buildReplacementPlan digest input reason planType =
    (if \<not> fml_allowReplacementOnReplan (fmi_policy input)
     then Inr (digest_plan digest input Fp_no_change None [] (normalizePlanReasons [reason, Fm_replacement_required])
       [''replacement_disabled_by_policy''])
     else bind_result (buildReplacementDraft digest input reason) (\<lambda>replacement.
       let patch = (base_patch input ''cancelled'' (fmo_scheduledFor (fmi_originalAction input)))
             \<lparr>fmp_cancelReason := Assigned ''superseded'', fmp_supersededByActionId := Assigned (fmr_actionId replacement)\<rparr>
       in Inr (digest_plan digest input planType (Some (fmr_actionId replacement))
            (audited input [Update_existing_action patch, Create_replacement_action replacement]
              (buildReplanAuditEvents digest input reason (Some (fmr_actionId replacement))))
            (normalizePlanReasons [reason, if planType = Fp_supersede_action then Fm_stale_action_context else Fm_schedule_changed]) [])))"

definition buildExpirationFallback :: "(string \<Rightarrow> string) \<Rightarrow> fm_input \<Rightarrow> fm_plan" where
  "buildExpirationFallback digest input =
    (let reason = Fm_replacement_would_exceed_expiry; original = fmi_originalAction input;
         patch = (base_patch input ''expired'' (fmo_scheduledFor original))\<lparr>fmp_expiresAt := change_of (fmo_expiresAt original)\<rparr>;
         metadata = [(''oldStatus'', JStr (fmo_status original)), (''newStatus'', JStr ''expired''),
           (''oldScheduledFor'', json_opt (fmo_scheduledFor original)),
           (''newScheduledFor'', json_opt (fur_nextScheduledFor (fmi_schedulingResult input))),
           (''reason'', JStr (fm_reason_name reason)), (''attemptCount'', JNum (fmo_attemptCount original))]
     in digest_plan digest input Fp_expire_action None
          (audited input [Update_existing_action patch] [audit_event digest input Fe_follow_up_expired reason None metadata])
          (normalizePlanReasons [reason]) [])"

definition buildReplanningPlan :: "(string \<Rightarrow> string) \<Rightarrow> fm_input \<Rightarrow> fm_plan result" where
  "buildReplanningPlan digest input =
    (let next = fur_nextScheduledFor (fmi_schedulingResult input); reason = buildStageReason input
     in if \<not> truthy next
        then Inr (digest_plan digest input Fp_no_change None [] [Fm_missing_next_schedule] [''missing_next_schedule''])
        else if (case (parse_instant next, parse_instant (fmo_expiresAt (fmi_originalAction input))) of
            (Some n, Some e) \<Rightarrow> n > e | _ \<Rightarrow> False)
        then Inr ((buildExpirationFallback digest input)
          \<lparr>fpl_reasons := [Fm_replacement_would_exceed_expiry], fpl_warnings := [''replacement_would_exceed_expiry'']\<rparr>)
        else if stageChanged input
        then buildReplacementPlan digest input reason
          (if fml_preserveOriginalAction (fmi_policy input) then Fp_cancel_and_create_replacement else Fp_supersede_action)
        else if canUpdateInPlace input then Inr (buildInPlacePlan digest input reason)
        else if fml_allowReplacementOnReplan (fmi_policy input)
        then buildReplacementPlan digest input reason Fp_cancel_and_create_replacement
        else Inr (digest_plan digest input Fp_no_change None [] [reason, Fm_replacement_required] [''replacement_required'']))"

section \<open>The plan of a scheduling result\<close>

definition isTerminalActionStatus :: "string \<Rightarrow> bool" where
  "isTerminalActionStatus status \<longleftrightarrow>
     status \<in> set (FOLLOW_UP_MUTATION_TERMINAL_STATUSES @ map status_name COMMERCIAL_ACTION_TERMINAL_STATUSES)"

definition isAllowedSchedulingStatus :: "string \<Rightarrow> bool" where
  "isAllowedSchedulingStatus status \<longleftrightarrow> status \<in> set FOLLOW_UP_MUTATION_ALLOWED_MUTABLE_STATUSES"

definition buildInvalidPlan :: "fm_input \<Rightarrow> fm_reason \<Rightarrow> fm_plan" where
  "buildInvalidPlan input reason =
    (let actionId = fmo_actionId (fmi_originalAction input)
     in \<lparr>fpl_planId = ''followup-mutation-plan-invalid:'' @ fm_reason_name reason @ '':'' @
           (case asText (Some actionId) of None \<Rightarrow> ''unknown'' | Some a \<Rightarrow> a),
         fpl_planType = Fp_no_change, fpl_actionId = actionId, fpl_replacementActionId = None, fpl_operations = [],
         fpl_reasons = [reason], fpl_warnings = [fm_reason_name reason],
         fpl_planKey = ''followup-mutation:'' @ actionId @ '':no_change:'' @ fm_reason_name reason,
         fpl_sideEffects = no_fm_effects, fpl_createdAt = fmi_now input\<rparr>)"

text \<open>The plan for a follow-up that waits or is ready; the word is the decision.\<close>

definition unchanged_plan :: "string \<Rightarrow> string \<Rightarrow> string \<Rightarrow> fm_plan" where
  "unchanged_plan actionId decision now =
     \<lparr>fpl_planId = ''followup-mutation-plan:'' @ actionId @ '':'' @ decision @ '':'' @
        filter (\<lambda>c. c \<noteq> CHR '':'' \<and> c \<noteq> CHR ''.'') (take 19 now),
      fpl_planType = Fp_no_change, fpl_actionId = actionId, fpl_replacementActionId = None, fpl_operations = [],
      fpl_reasons = [], fpl_warnings = [],
      fpl_planKey = ''followup-mutation:'' @ actionId @ '':no_change:'' @ decision @ '':'' @ now,
      fpl_sideEffects = no_fm_effects, fpl_createdAt = now\<rparr>"

definition buildFollowUpMutationPlan :: "(string \<Rightarrow> string) \<Rightarrow> fm_input \<Rightarrow> fm_plan result" where
  "buildFollowUpMutationPlan digest input =
    (let original = fmi_originalAction input
     in case (asText (Some (fmo_actionId original)), asText (fmo_idempotencyKey original), asText (Some (fmo_actionType original)),
           asText (Some (fmo_status original)), parse_iso_text (Some (fmi_now input))) of
       (Some actionId, Some idempotencyKey, Some actionType, Some status, Some now) \<Rightarrow>
         if isTerminalActionStatus status \<or> \<not> isAllowedSchedulingStatus status
         then Inr (buildInvalidPlan input Fm_terminal_action_immutable)
         else (case fur_decision (fmi_schedulingResult input) of
             Fd_invalid \<Rightarrow> Inr (buildInvalidPlan input Fm_invalid_scheduling_result)
           | Fd_wait \<Rightarrow> Inr (unchanged_plan actionId ''wait'' now)
           | Fd_ready \<Rightarrow> Inr (unchanged_plan actionId ''ready'' now)
           | Fd_cancel \<Rightarrow> Inr (buildCancellationPlan digest input)
           | Fd_expire \<Rightarrow> Inr (buildExpirationPlan digest input)
           | Fd_block \<Rightarrow> Inr (buildBlockingPlan digest input)
           | Fd_replan \<Rightarrow> if \<not> truthy (fur_nextScheduledFor (fmi_schedulingResult input))
               then Inr (buildInvalidPlan input Fm_missing_next_schedule) else buildReplanningPlan digest input)
     | _ \<Rightarrow> Inr (buildInvalidPlan input Fm_invalid_scheduling_result))"

section \<open>Validation of a plan\<close>

text \<open>What the loop over the operations remembers: an update, a replacement, an audit event, its action.\<close>

type_synonym fm_seen = "bool \<times> bool \<times> bool \<times> string option"

fun check_operation :: "fm_plan \<Rightarrow> fm_operation \<Rightarrow> fm_seen \<Rightarrow> fm_seen option" where
  "check_operation plan (Update_existing_action patch) (sawUpdate, sawReplacement, sawAudit, replacementActionId) =
    (if sawUpdate \<or> fmp_actionId patch \<noteq> fpl_actionId plan \<or> fmp_expectedStatuses patch = [] \<or>
        parse_iso_text (Some (fmp_updatedAt patch)) = None
     then None else Some (True, sawReplacement, sawAudit, replacementActionId))"
| "check_operation plan (Create_replacement_action action) (sawUpdate, sawReplacement, sawAudit, replacementActionId) =
    (if sawReplacement \<or> fmr_parentActionId action \<noteq> fpl_actionId plan \<or>
        parse_iso_text (Some (fmr_createdAt action)) = None \<or> parse_iso_text (Some (fmr_updatedAt action)) = None \<or>
        fmr_actionId action = fpl_actionId plan
     then None else Some (sawUpdate, True, sawAudit, Some (fmr_actionId action)))"
| "check_operation plan (Append_audit_event event) (sawUpdate, sawReplacement, sawAudit, replacementActionId) =
    (if fme_actionId event \<noteq> fpl_actionId plan \<or>
        (replacementActionId \<noteq> None \<and> fme_replacementActionId event \<noteq> None \<and> fme_replacementActionId event \<noteq> replacementActionId) \<or>
        parse_iso_text (Some (fme_createdAt event)) = None
     then None else Some (sawUpdate, sawReplacement, True, replacementActionId))"

fun check_operations :: "fm_plan \<Rightarrow> fm_operation list \<Rightarrow> fm_seen \<Rightarrow> fm_seen option" where
  "check_operations plan [] seen = Some seen"
| "check_operations plan (operation # rest) seen =
    (case check_operation plan operation seen of None \<Rightarrow> None | Some seen' \<Rightarrow> check_operations plan rest seen')"

text \<open>Whether the plan is valid; otherwise the reason is always \<open>invalid_root\<close>.\<close>

definition validateFollowUpMutationPlan :: "fm_plan \<Rightarrow> bool" where
  "validateFollowUpMutationPlan plan \<longleftrightarrow>
    (if js_trim (fpl_planId plan) = [] then False
     else if js_trim (fpl_actionId plan) = [] then False
     else if js_trim (fpl_planKey plan) = [] then False
     else if parse_iso_text (Some (fpl_createdAt plan)) = None then False
     else if fpl_sideEffects plan \<noteq> no_fm_effects then False
     else if fpl_planType plan = Fp_no_change then fpl_operations plan = [] \<and> fpl_replacementActionId plan = None
     else (case check_operations plan (fpl_operations plan) (False, False, False, None) of
         None \<Rightarrow> False
       | Some (sawUpdate, sawReplacement, sawAudit, replacementActionId) \<Rightarrow>
           if \<not> sawUpdate then False
           else if fpl_planType plan \<in> set [Fp_supersede_action, Fp_cancel_and_create_replacement] \<and> \<not> sawReplacement then False
           else if fpl_planType plan \<in> set [Fp_supersede_action, Fp_cancel_and_create_replacement] \<and> fpl_replacementActionId plan = None then False
           else if fpl_planType plan \<in> set [Fp_replan_action, Fp_cancel_action, Fp_expire_action, Fp_block_action] \<and>
                   fpl_replacementActionId plan \<noteq> None then False
           else \<not> (fpl_planType plan \<in> set [Fp_replan_action, Fp_supersede_action, Fp_cancel_and_create_replacement] \<and>
                   \<not> sawAudit \<and> fpl_warnings plan = [])))"

section \<open>Application in memory\<close>

definition changed :: "'a change \<Rightarrow> 'a option \<Rightarrow> 'a option" where
  "changed c current = (case c of Unset \<Rightarrow> current | Nulled \<Rightarrow> None | Assigned v \<Rightarrow> Some v)"

definition patched_action :: "fm_patch \<Rightarrow> fm_action \<Rightarrow> fm_action" where
  "patched_action patch current = current
     \<lparr>fma_status := fmp_nextStatus patch, fma_scheduledFor := changed (fmp_scheduledFor patch) (fma_scheduledFor current),
      fma_expiresAt := changed (fmp_expiresAt patch) (fma_expiresAt current),
      fma_cancelReason := changed (fmp_cancelReason patch) (fma_cancelReason current),
      fma_blockReasons := (case fmp_blockReasons patch of None \<Rightarrow> fma_blockReasons current | Some rs \<Rightarrow> rs),
      fma_supersededByActionId := changed (fmp_supersededByActionId patch) (fma_supersededByActionId current),
      fma_updatedAt := Some (fmp_updatedAt patch)\<rparr>"

definition action_of_draft :: "fm_replacement \<Rightarrow> fm_action" where
  "action_of_draft a =
     \<lparr>fma_rowId = None, fma_actionId = fmr_actionId a, fma_idempotencyKey = Some (fmr_idempotencyKey a),
      fma_actionType = fmr_actionType a, fma_status = fmr_status a, fma_scheduledFor = Some (fmr_scheduledFor a),
      fma_expiresAt = fmr_expiresAt a, fma_attemptCount = fmr_attemptCount a, fma_maxAttempts = fmr_maxAttempts a,
      fma_riskLevel = fmr_riskLevel a, fma_approvalRequirement = fmr_approvalRequirement a,
      fma_opportunityId = fmr_opportunityId a, fma_conversationCaseId = fmr_conversationCaseId a, fma_waId = fmr_waId a,
      fma_draftMessage = fmr_draftMessage a, fma_finalMessage = fmr_finalMessage a, fma_blockReasons = [],
      fma_cancelReason = None, fma_supersededByActionId = None, fma_parentActionId = Some (fmr_parentActionId a),
      fma_generation = Some (fmr_generation a), fma_lifecycleVersion = fmr_lifecycleVersion a,
      fma_policyVersion = fmr_policyVersion a, fma_runtimeVersion = fmr_runtimeVersion a, fma_createdAt = fmr_createdAt a,
      fma_updatedAt = Some (fmr_updatedAt a)\<rparr>"

primrec apply_operation :: "fm_operation \<Rightarrow> fm_state \<Rightarrow> fm_state result" where
  "apply_operation (Update_existing_action patch) working =
    (case find_index (\<lambda>a. fma_actionId a = fmp_actionId patch) (fst_actions working) of
       None \<Rightarrow> Inl (Error ''conflict_missing_action'')
     | Some index \<Rightarrow>
         (let current = fst_actions working ! index
          in if fma_status current \<notin> set (fmp_expectedStatuses patch) then Inl (Error ''optimistic_status_conflict'')
             else if (fmp_nextStatus patch = ''scheduled'' \<or> fmp_nextStatus patch = ''planned'') \<and>
                fma_status current \<in> set [''cancelled'', ''expired'', ''executed'', ''rejected'', ''blocked'', ''failed'']
             then Inl (Error ''terminal_action_immutable'')
             else Inr (working\<lparr>fst_actions := (fst_actions working)[index := patched_action patch current]\<rparr>)))"
| "apply_operation (Create_replacement_action action) working =
    (if list_ex (\<lambda>a. fma_actionId a = fmr_actionId action) (fst_actions working) then Inl (Error ''duplicate_action_id'')
     else if list_ex (\<lambda>a. fma_idempotencyKey a = Some (fmr_idempotencyKey action)) (fst_actions working)
     then Inl (Error ''duplicate_idempotency_key'')
     else Inr (working\<lparr>fst_actions := fst_actions working @ [action_of_draft action]\<rparr>))"
| "apply_operation (Append_audit_event event) working =
    (if list_ex (\<lambda>e. fme_eventId e = fme_eventId event) (fst_auditEvents working) then Inl (Error ''duplicate_audit_event_id'')
     else Inr (working\<lparr>fst_auditEvents := fst_auditEvents working @ [event]\<rparr>))"

fun apply_operations :: "fm_operation list \<Rightarrow> fm_state \<Rightarrow> fm_state result" where
  "apply_operations [] working = Inr working"
| "apply_operations (operation # rest) working = bind_result (apply_operation operation working) (apply_operations rest)"

definition error_text :: "js_error \<Rightarrow> string" where
  "error_text e = (case e of Error m \<Rightarrow> m | RangeError m \<Rightarrow> m | TypeError m \<Rightarrow> m)"

definition applyFollowUpMutationPlanInMemory :: "fm_state \<Rightarrow> fm_plan \<Rightarrow> fm_apply_result" where
  "applyFollowUpMutationPlanInMemory state plan =
    (let refused = (\<lambda>duplicate conflict rolledBack error.
       \<lparr>fmt_applied = False, fmt_duplicate = duplicate, fmt_conflict = conflict, fmt_rolledBack = rolledBack,
        fmt_previousState = state, fmt_nextState = state, fmt_appliedOperationCount = 0, fmt_error = Some error\<rparr>)
     in if \<not> validateFollowUpMutationPlan plan then refused False False False ''invalid_root''
        else if fpl_planKey plan \<in> set (fst_appliedPlanKeys state) then refused True False False ''duplicate_plan_key''
        else case apply_operations (fpl_operations plan) state of
          Inr working \<Rightarrow>
            \<lparr>fmt_applied = True, fmt_duplicate = False, fmt_conflict = False, fmt_rolledBack = False, fmt_previousState = state,
             fmt_nextState = working\<lparr>fst_appliedPlanKeys := fst_appliedPlanKeys working @ [fpl_planKey plan]\<rparr>,
             fmt_appliedOperationCount = int (length (fpl_operations plan)), fmt_error = None\<rparr>
        | Inl e \<Rightarrow> refused (js_includes (error_text e) ''duplicate'') (\<not> js_includes (error_text e) ''duplicate'') True (error_text e))"

end
