(* ===== verification/FollowUpSafety.thy ===== *)
theory FollowUpSafety
  imports FollowUpSchedule
begin

text \<open>
  What the scheduling of follow-ups guarantees: the bounds of a computed time, business hours, the
  exact conditions of a ready follow-up, its liveness, and the stability of a replanned time.
\<close>

section \<open>Instants and their texts\<close>

lemma time_of_iso [simp]: "\<bar>t\<bar> \<le> max_time \<Longrightarrow> time_of (iso_of_time t) = t"
  by (simp add: time_of_def date_parse_iso_of_time)

lemma parse_iso_textE:
  assumes "parse_iso_text v = Some s"
  obtains t where "\<bar>t\<bar> \<le> max_time" "s = iso_of_time t" "time_of s = t" "date_parse s = Some t"
  using assms date_parse_range by (auto simp: parse_iso_text_def date_parse_iso_of_time split: option.splits)

lemma printed_time:
  "to_iso_string (time_clip t) = (if \<bar>t\<bar> \<le> max_time then Inr (iso_of_time t) else Inl (RangeError ''Invalid time value''))"
  by (simp add: to_iso_string_def time_clip_def)

section \<open>Local time\<close>

lemma parts_day:
  assumes "parts_of_local l = p"
  shows "day_from_year (lp_year p) + sum_list (take (nat (lp_month p - 1)) (month_lengths (lp_year p))) + lp_day p - 1 = l div ms_per_day"
    "lp_year p = year_from_day (l div ms_per_day)" "lp_weekday p = weekday_of (l div ms_per_day)"
    "lp_hour p = l mod ms_per_day div 3600000" "lp_minute p = l mod ms_per_day div 60000 mod 60"
    "lp_second p = l mod ms_per_day div 1000 mod 60"
proof -
  let ?d = "l div ms_per_day"
  obtain m r where md: "month_day (month_lengths (year_from_day ?d)) (?d - day_from_year (year_from_day ?d)) = (m, r)"
    by fastforce
  then have p: "p = \<lparr>lp_year = year_from_day ?d, lp_month = int m + 1, lp_day = r + 1,
      lp_hour = l mod ms_per_day div 3600000, lp_minute = l mod ms_per_day div 60000 mod 60,
      lp_second = l mod ms_per_day div 1000 mod 60, lp_weekday = weekday_of ?d\<rparr>"
    using assms by (simp add: parts_of_local_def Let_def)
  show "day_from_year (lp_year p) + sum_list (take (nat (lp_month p - 1)) (month_lengths (lp_year p))) + lp_day p - 1 = ?d"
    using date_fields(4) [OF md] by (simp add: p)
  show "lp_year p = year_from_day ?d" "lp_weekday p = weekday_of ?d" "lp_hour p = l mod ms_per_day div 3600000"
    "lp_minute p = l mod ms_per_day div 60000 mod 60" "lp_second p = l mod ms_per_day div 1000 mod 60" by (simp_all add: p)
qed

text \<open>From 1900 on, \<open>Date.UTC\<close> of the parts of a local date is that date.\<close>

lemma modern_year: "- 25567 \<le> d \<Longrightarrow> 1900 \<le> year_from_day d"
proof -
  assume "- 25567 \<le> d"
  then have "year_from_day (- 25567) \<le> year_from_day d" by (rule year_from_day_mono)
  moreover have "year_from_day (- 25567) = 1900" by code_simp
  ultimately show ?thesis by simp
qed

lemma date_utc_parts:
  assumes "- 25567 \<le> l div ms_per_day" "parts_of_local l = p"
  shows "date_utc (lp_year p) (lp_month p) (lp_day p + k) h mi s =
    time_clip ((l div ms_per_day + k) * ms_per_day + h * 3600000 + mi * 60000 + s * 1000)"
proof -
  have y: "\<not> (0 \<le> lp_year p \<and> lp_year p \<le> 99)"
    using modern_year [OF assms(1)] parts_day(2) [OF assms(2)] by simp
  have "day_from_year (lp_year p) + sum_list (take (nat (lp_month p - 1)) (month_lengths (lp_year p))) + (lp_day p + k) - 1 =
      l div ms_per_day + k" using parts_day(1) [OF assms(2)] by linarith
  then show ?thesis unfolding date_utc_def Let_def if_not_P [OF y] by (simp only: )
qed

lemma clock_fields: "(m :: int) mod 86400000 div 3600000 * 3600000 + m mod 86400000 div 60000 mod 60 * 60000 +
    m mod 86400000 div 1000 mod 60 * 1000 = m mod 86400000 - m mod 1000"
proof -
  define x where "x = m mod 86400000"
  have "x div 60000 div 60 = x div 3600000" "x div 1000 div 60 = x div 60000" by (simp_all add: zdiv_zmult2_eq [symmetric])
  moreover have "m mod 1000 = x mod 1000" unfolding x_def by (simp add: mod_mod_cancel)
  ultimately show ?thesis unfolding x_def [symmetric]
    using div_mult_mod_eq [of "x div 60000" 60] div_mult_mod_eq [of "x div 1000" 60] div_mult_mod_eq [of x 1000] by linarith
qed

lemma date_utc_of_parts:
  assumes "- 25567 \<le> l div ms_per_day" "parts_of_local l = p"
  shows "date_utc (lp_year p) (lp_month p) (lp_day p) (lp_hour p) (lp_minute p) (lp_second p) = time_clip (l - l mod 1000)"
proof -
  have "l div ms_per_day * ms_per_day + lp_hour p * 3600000 + lp_minute p * 60000 + lp_second p * 1000 = l - l mod 1000"
    unfolding parts_day(4-6) [OF assms(2)] using clock_fields [of l] div_mult_mod_eq [of l ms_per_day] by linarith
  then show ?thesis using date_utc_parts [OF assms, of 0 "lp_hour p" "lp_minute p" "lp_second p"] by simp
qed

section \<open>Time zones\<close>

text \<open>
  What is assumed of a zone: its offset is in whole seconds and less than a day, it changes at most once in any two
  days, and the given hour exists on every local day.  Zones with one offset are of this kind, and zones
  with daylight saving, for the hours that no change to summer time leaves out.
\<close>

definition daylight_zone :: "time_zones \<Rightarrow> string \<Rightarrow> int \<Rightarrow> bool" where
  "daylight_zone zones name hour \<longleftrightarrow> (case zones name of None \<Rightarrow> False
     | Some offset \<Rightarrow> (\<forall>x. offset x mod 1000 = 0 \<and> \<bar>offset x\<bar> < ms_per_day) \<and>
         (\<forall>c. \<exists>change before after. \<forall>x. \<bar>x - c\<bar> \<le> ms_per_day \<longrightarrow> offset x = (if x < change then before else after)) \<and>
         (\<forall>d. \<exists>x. x + offset x = d * ms_per_day + hour * 3600000))"

lemma daylight_zoneE:
  assumes "daylight_zone zones name hour"
  obtains offset where "zones name = Some offset" "\<And>x. offset x mod 1000 = 0" "\<And>x. \<bar>offset x\<bar> < ms_per_day"
    "\<And>c. \<exists>change before after. \<forall>x. \<bar>x - c\<bar> \<le> ms_per_day \<longrightarrow> offset x = (if x < change then before else after)"
    "\<And>d. \<exists>x. x + offset x = d * ms_per_day + hour * 3600000"
  using assms unfolding daylight_zone_def by (cases "zones name") auto

text \<open>A zone like UTC: one offset.\<close>

lemma fixed_zone_daylight:
  assumes "zones name = Some (\<lambda>_. offset)" "offset mod 1000 = 0" "\<bar>offset\<bar> < ms_per_day"
  shows "daylight_zone zones name hour"
proof -
  have "\<exists>x. x + offset = d * ms_per_day + hour * 3600000" for d by (rule exI [of _ "d * ms_per_day + hour * 3600000 - offset"]) simp
  then show ?thesis using assms by (auto simp: daylight_zone_def)
qed

lemma getLocalParts_Inr:
  "getLocalParts zones t name = Inr p \<longleftrightarrow>
     (\<exists>offset x. zones name = Some offset \<and> t = Some x \<and> \<bar>x\<bar> \<le> max_time \<and> p = parts_of_local (x + offset x))"
  by (cases t) (auto simp: getLocalParts_def time_clip_def split: option.splits if_splits)

text \<open>One round of the loop: the guess is right, or it is corrected by the offset it has.\<close>

lemma zoned_round:
  assumes zone: "zones name = Some offset" "\<And>x. offset x mod 1000 = 0" "\<And>x. \<bar>offset x\<bar> < ms_per_day"
    and loop: "zoned_loop zones name (Some t) (Suc n) (Some g) = Inr (Some s)"
    and g: "g mod 1000 = 0" "- 25565 * ms_per_day \<le> g"
  shows "\<bar>g\<bar> \<le> max_time \<and> (if g + offset g = t then s = g else zoned_loop zones name (Some t) n (Some (t - offset g)) = Inr (Some s))"
proof -
  define p where "p = parts_of_local (g + offset g)"
  have m: "(g + offset g) mod 1000 = 0" using g(1) zone(2) by (simp add: mod_add_eq [symmetric])
  have "- 25567 \<le> (g + offset g) div ms_per_day" using g(2) zone(3) [of g] by linarith
  then have f: "date_utc (lp_year p) (lp_month p) (lp_day p) (lp_hour p) (lp_minute p) (lp_second p) = time_clip (g + offset g)"
    using date_utc_of_parts [OF _ p_def [symmetric]] m by simp
  have none: "zoned_loop zones name (Some t) n None \<noteq> Inr (Some s)"
    using zone(1) by (cases n) (simp_all add: getLocalParts_def)
  have "getLocalParts zones (Some g) name = (if max_time < \<bar>g\<bar> then Inl (RangeError ''Invalid time value'') else Inr p)"
    using zone(1) by (simp add: getLocalParts_def time_clip_def p_def)
  then have "\<bar>g\<bar> \<le> max_time" and r: "(case time_clip (g + offset g) of
       Some formatted \<Rightarrow> if formatted = t then Inr (Some g) else zoned_loop zones name (Some t) n (Some (g - (formatted - t)))
     | None \<Rightarrow> zoned_loop zones name (Some t) n None) = Inr (Some s)"
    using loop f by (auto split: if_splits option.splits)
  then show ?thesis using none by (cases "\<bar>g + offset g\<bar> \<le> max_time") (auto simp: time_clip_def split: if_splits)
qed

text \<open>The loop finds an instant whose local time is the target, in three rounds at most.\<close>

lemma zoned_found:
  assumes zone: "daylight_zone zones name hour" and offset: "zones name = Some offset"
    and loop: "zoned_loop zones name (Some t) 8 (Some t) = Inr (Some s)"
    and t: "t = d * ms_per_day + hour * 3600000" "- 25560 * ms_per_day \<le> t"
  shows "s + offset s = t \<and> \<bar>s\<bar> \<le> max_time"
proof -
  obtain offset' where o: "zones name = Some offset'" "\<And>x. offset' x mod 1000 = 0" "\<And>x. \<bar>offset' x\<bar> < ms_per_day"
    "\<And>c. \<exists>change before after. \<forall>x. \<bar>x - c\<bar> \<le> ms_per_day \<longrightarrow> offset' x = (if x < change then before else after)"
    "\<And>d. \<exists>x. x + offset' x = d * ms_per_day + hour * 3600000" by (rule daylight_zoneE [OF zone]) (rule that)
  have "offset' = offset" using o(1) offset by simp
  note z = o(2,3) [unfolded this] and once = o(4) [unfolded this, of t] and here = o(5) [unfolded this, of d, folded t(1)]
  have "t = (d * 86400 + hour * 3600) * 1000" using t(1) by simp
  then have t0: "t mod 1000 = 0" by simp
  define f where "f g = t - offset g" for g
  have g: "f g mod 1000 = 0" "- 25565 * ms_per_day \<le> f g" "\<bar>f g - t\<bar> \<le> ms_per_day" for g
    using t0 z [of g] t(2) by (simp_all add: f_def mod_diff_eq [symmetric] abs_le_iff) (linarith+)?
  have step: "\<bar>g\<bar> \<le> max_time \<and> (if f g = g then s = g else zoned_loop zones name (Some t) n (Some (f g)) = Inr (Some s))"
    if "zoned_loop zones name (Some t) (Suc n) (Some g) = Inr (Some s)" "g mod 1000 = 0" "- 25565 * ms_per_day \<le> g" for g n
    using zoned_round [OF offset z that] by (auto simp: f_def split: if_splits)
  obtain change before after where once: "\<And>x. \<bar>x - t\<bar> \<le> ms_per_day \<Longrightarrow> offset x = (if x < change then before else after)" using once by blast
  obtain x where "x + offset x = t" using here by blast
  then have x: "f x = x" unfolding f_def by linarith
  have near: "f g = (if g < change then t - before else t - after)" if "\<bar>g - t\<bar> \<le> ms_per_day" for g
    using once [OF that] by (simp add: f_def)
  have settled: "f (f (f t)) = f (f t)"
    using near [of t] near [OF g(3) [of t]] near [OF g(3) [of "f t"]] near [OF g(3) [of x]] x by (auto split: if_splits)
  have "f s = s \<and> \<bar>s\<bar> \<le> max_time"
  proof -
    have rounds: "(8 :: nat) = Suc (Suc (Suc 5))" by simp
    note one = step [OF loop [unfolded rounds] t0]
    show ?thesis
    proof (cases "f t = t")
      case True
      then show ?thesis using one t(2) by simp
    next
      case False
      then have two: "zoned_loop zones name (Some t) (Suc (Suc 5)) (Some (f t)) = Inr (Some s)"
        using one t(2) by (simp del: zoned_loop.simps)
      show ?thesis
      proof (cases "f (f t) = f t")
        case True
        then show ?thesis using step [OF two g(1,2)] by simp
      next
        case False
        then have three: "zoned_loop zones name (Some t) (Suc 5) (Some (f (f t))) = Inr (Some s)"
          using step [OF two g(1,2)] by (simp del: zoned_loop.simps)
        show ?thesis using step [OF three g(1,2)] settled by (auto simp del: zoned_loop.simps)
      qed
    qed
  qed
  then show ?thesis by (simp add: f_def)
qed

section \<open>Business hours\<close>

text \<open>The instant of an hour of a local day.\<close>

lemma zoned_start:
  assumes "daylight_zone zones name h" "zones name = Some offset" "parts_of_local l = p" "- 25560 \<le> l div ms_per_day" "0 \<le> h"
    "zonedLocalToUtcMs zones name (lp_year p) (lp_month p) (lp_day p) h 0 0 = Inr (Some s)"
  shows "s + offset s = l div ms_per_day * ms_per_day + h * 3600000 \<and> \<bar>s\<bar> \<le> max_time"
proof -
  define t where "t = l div ms_per_day * ms_per_day + h * 3600000"
  have "date_utc (lp_year p) (lp_month p) (lp_day p) h 0 0 = time_clip t"
    using date_utc_parts [OF _ assms(3), of 0 h 0 0] assms(4) by (simp add: t_def)
  then have loop: "zoned_loop zones name (time_clip t) 8 (time_clip t) = Inr (Some s)"
    using assms(6) by (simp add: zonedLocalToUtcMs_def Let_def del: zoned_loop.simps)
  have "zoned_loop zones name None 8 None \<noteq> Inr (Some s)"
    using assms(2) by (simp add: getLocalParts_def eval_nat_numeral)
  then have "\<bar>t\<bar> \<le> max_time" using loop by (auto simp: time_clip_def simp del: zoned_loop.simps split: if_splits)
  then have "zoned_loop zones name (Some t) 8 (Some t) = Inr (Some s)" using loop by (simp add: time_clip_def del: zoned_loop.simps)
  moreover have "- 25560 * ms_per_day \<le> t" using assms(4,5) by (simp add: t_def)
  ultimately show ?thesis using zoned_found [OF assms(1,2) _ t_def] by (simp add: t_def)
qed

definition in_business_hours :: "time_zones \<Rightarrow> fu_policy \<Rightarrow> int \<Rightarrow> bool" where
  "in_business_hours zones policy t \<longleftrightarrow> isBusinessHoursCandidate zones t policy = Inr True"

lemma hour_in_hours:
  assumes "zones (fup_businessTimezone policy) = Some offset" "weekday_of d \<in> set (fup_businessDays policy)"
    "0 \<le> h" "h < 24" "fup_businessStartHour policy \<le> h" "h < fup_businessEndHour policy"
    "s + offset s = d * ms_per_day + h * 3600000 \<and> \<bar>s\<bar> \<le> max_time"
  shows "in_business_hours zones policy s"
proof -
  let ?l = "d * ms_per_day + h * 3600000"
  have "?l div ms_per_day = d" "?l mod ms_per_day = h * 3600000" using assms(3,4) by simp_all
  then have "lp_weekday (parts_of_local ?l) = weekday_of d" "lp_hour (parts_of_local ?l) = h"
    using parts_day(3,4) [OF refl, of ?l] by simp_all
  moreover have "getLocalParts zones (Some s) (fup_businessTimezone policy) = Inr (parts_of_local ?l)"
    unfolding getLocalParts_Inr using assms(1,7) by auto
  ultimately show ?thesis using assms by (simp add: in_business_hours_def isBusinessHoursCandidate_def)
qed

text \<open>The policy of a business day: hours of one day, in order.\<close>

definition day_hours :: "fu_policy \<Rightarrow> bool" where
  "day_hours policy \<longleftrightarrow> 0 \<le> fup_businessStartHour policy \<and> fup_businessStartHour policy < fup_businessEndHour policy \<and>
     fup_businessStartHour policy < 24"

lemma window_start_hours:
  assumes "daylight_zone zones (fup_businessTimezone policy) (fup_businessStartHour policy)" "day_hours policy" "parts_of_local l = ref"
    "- 25560 \<le> l div ms_per_day" "0 \<le> k" "window_start zones policy ref k = Inr (Some s)"
  shows "in_business_hours zones policy s"
proof -
  define d where "d = l div ms_per_day + k"
  have u: "date_utc (lp_year ref) (lp_month ref) (lp_day ref + k) 0 0 0 = time_clip (d * ms_per_day)"
    using date_utc_parts [OF _ assms(3), of k 0 0 0] assms(4) by (simp add: d_def)
  then have w: "weekday_of d \<in> set (fup_businessDays policy)"
    and z: "zonedLocalToUtcMs zones (fup_businessTimezone policy) (lp_year (parts_of_local (d * ms_per_day)))
      (lp_month (parts_of_local (d * ms_per_day))) (lp_day (parts_of_local (d * ms_per_day))) (fup_businessStartHour policy) 0 0 = Inr (Some s)"
    using assms(6) by (auto simp: window_start_def time_clip_def Let_def split: if_splits)
  have "- 25560 \<le> d * ms_per_day div ms_per_day" "0 \<le> fup_businessStartHour policy"
    using assms(2,4,5) by (simp_all add: d_def day_hours_def)
  moreover obtain offset where offset: "zones (fup_businessTimezone policy) = Some offset" by (rule daylight_zoneE [OF assms(1)]) (rule that)
  ultimately have "s + offset s = d * ms_per_day + fup_businessStartHour policy * 3600000 \<and> \<bar>s\<bar> \<le> max_time"
    using zoned_start [OF assms(1) offset refl _ _ z] by simp
  then show ?thesis using hour_in_hours [of zones policy offset d "fup_businessStartHour policy" s, OF offset w] assms(2) by (simp add: day_hours_def)
qed

lemma window_loop_start:
  assumes "window_loop zones policy ref c n k = Inr (Some s)" "0 \<le> k"
  obtains j where "0 \<le> j" "window_start zones policy ref j = Inr (Some s)" "c \<le> s"
  using assms
proof (induction n arbitrary: k thesis)
  case 0
  then show ?case by simp
next
  case (Suc n)
  obtain start where start: "window_start zones policy ref k = Inr start"
    using Suc.prems(2) by (auto simp: bind_result_Inr_iff)
  show ?case
  proof (cases "at_least start c")
    case True
    then show ?thesis using Suc.prems(1) [of k] Suc.prems(2,3) start by (auto simp: at_least_def split: option.splits)
  next
    case False
    then show ?thesis using Suc.IH [of thesis "k + 1"] Suc.prems start by simp
  qed
qed

text \<open>The next window is now, or the start of the hours of today or a later day; it is never too early.\<close>

lemma next_window_after:
  assumes "findNextBusinessWindowStart zones nowMs c policy = Inr (Some t)"
  shows "c \<le> t"
  using assms
  by (auto simp: findNextBusinessWindowStart_def bind_result_Inr_iff Let_def at_least_def split: if_splits option.splits
      elim: window_loop_start)

text \<open>An instant far enough from the year 1900 for \<open>Date.UTC\<close> to read the year as it is.\<close>

definition modern :: "int \<Rightarrow> bool" where
  "modern t \<longleftrightarrow> - 25559 * ms_per_day \<le> t"

lemma next_window_hours:
  assumes zone: "daylight_zone zones (fup_businessTimezone policy) (fup_businessStartHour policy)" and hours: "day_hours policy"
    and now: "modern nowMs" and window: "findNextBusinessWindowStart zones nowMs c policy = Inr (Some t)"
  shows "in_business_hours zones policy t"
proof -
  obtain offset where offset: "zones (fup_businessTimezone policy) = Some offset" "\<And>x. \<bar>offset x\<bar> < ms_per_day"
    by (rule daylight_zoneE [OF zone]) (rule that)
  define l where "l = nowMs + offset nowMs"
  define ref where "ref = parts_of_local l"
  define today where "today \<longleftrightarrow> weekday_of (l div ms_per_day) \<in> set (fup_businessDays policy) \<and> \<bar>l div ms_per_day * ms_per_day\<bar> \<le> max_time"
  define rest where "rest = (if today \<and> lp_hour ref \<ge> fup_businessStartHour policy \<and> lp_hour ref < fup_businessEndHour policy \<and> c \<le> nowMs
      then Inr (Some nowMs) else window_loop zones policy ref c (nat (fup_maxFutureDays policy + 1)) 0)"
  have l: "- 25560 \<le> l div ms_per_day" using offset(2) [of nowMs] now unfolding l_def modern_def by linarith
  have parts: "getLocalParts zones (Some nowMs) (fup_businessTimezone policy) = Inr ref" "\<bar>nowMs\<bar> \<le> max_time"
    using window offset(1) by (auto simp: findNextBusinessWindowStart_def bind_result_Inr_iff getLocalParts_Inr ref_def l_def)
  have "date_utc (lp_year ref) (lp_month ref) (lp_day ref) 0 0 0 = time_clip (l div ms_per_day * ms_per_day)"
    using date_utc_parts [OF _ ref_def [symmetric], of 0 0 0 0] l by simp
  then have "(case date_utc (lp_year ref) (lp_month ref) (lp_day ref) 0 0 0 of None \<Rightarrow> False
      | Some d \<Rightarrow> weekday_of (d div ms_per_day) \<in> set (fup_businessDays policy)) = today"
    by (simp add: time_clip_def today_def)
  then consider (start) "today" "zonedLocalToUtcMs zones (fup_businessTimezone policy) (lp_year ref) (lp_month ref) (lp_day ref)
        (fup_businessStartHour policy) 0 0 = Inr (Some t)"
    | (rest) "rest = Inr (Some t)"
    using window parts(1)
    by (auto simp: findNextBusinessWindowStart_def bind_result_Inr_iff Let_def rest_def at_least_def split: if_splits option.splits)
  then show ?thesis
  proof cases
    case start
    have "t + offset t = l div ms_per_day * ms_per_day + fup_businessStartHour policy * 3600000 \<and> \<bar>t\<bar> \<le> max_time"
      using zoned_start [OF zone offset(1) ref_def [symmetric] l _ start(2)] hours by (simp add: day_hours_def)
    then show ?thesis using hour_in_hours [of zones policy offset "l div ms_per_day" "fup_businessStartHour policy" t, OF offset(1)] start(1) hours
      by (simp add: day_hours_def today_def)
  next
    case rest
    show ?thesis
    proof (cases "today \<and> lp_hour ref \<ge> fup_businessStartHour policy \<and> lp_hour ref < fup_businessEndHour policy \<and> c \<le> nowMs")
      case True
      then have "t = nowMs" using rest by (simp add: rest_def)
      then show ?thesis using True parts parts_day(3) [OF ref_def [symmetric]]
        by (simp add: in_business_hours_def isBusinessHoursCandidate_def today_def)
    next
      case False
      then have "window_loop zones policy ref c (nat (fup_maxFutureDays policy + 1)) 0 = Inr (Some t)" using rest unfolding rest_def if_not_P [OF False] by simp
      then obtain j where "0 \<le> j" "window_start zones policy ref j = Inr (Some t)" by (rule window_loop_start) simp_all
      then show ?thesis by (rule window_start_hours [OF zone hours ref_def [symmetric] l])
    qed
  qed
qed

text \<open>The time that business hours allow.\<close>

lemma business_time_after: "business_time zones policy nowMs c = Inr (Some (moved, t)) \<Longrightarrow> c \<le> t"
  using next_window_after by (auto simp: business_time_def bind_result_Inr_iff split: if_splits)

lemma business_time_hours:
  assumes "daylight_zone zones (fup_businessTimezone policy) (fup_businessStartHour policy)" "day_hours policy" "modern nowMs"
    "business_time zones policy nowMs c = Inr (Some (moved, t))"
  shows "in_business_hours zones policy t"
  using assms(4) next_window_hours [OF assms(1-3)]
  by (auto simp: business_time_def bind_result_Inr_iff in_business_hours_def isBusinessHoursCandidate_def split: if_splits)

lemma business_time_kept:
  "in_business_hours zones policy c \<Longrightarrow> business_time zones policy nowMs c = Inr (Some (False, c))"
  by (auto simp: business_time_def in_business_hours_def isBusinessHoursCandidate_def split: if_splits)

section \<open>Candidates\<close>

text \<open>The checks of the timestamps, besides those of now and of the creation.\<close>

definition good_times :: "fu_input \<Rightarrow> bool" where
  "good_times input \<longleftrightarrow> \<not> bad_time (fua_updatedAt (fui_action input)) \<and> \<not> bad_time (fua_scheduledFor (fui_action input)) \<and>
     \<not> bad_time (fua_expiresAt (fui_action input)) \<and> \<not> bad_time (fuv_lastInboundAt (fui_activity input)) \<and>
     \<not> bad_time (fuv_lastOutboundAt (fui_activity input)) \<and> \<not> bad_time (fuv_lastHumanMessageAt (fui_activity input)) \<and>
     \<not> bad_time (fuv_lastAiMessageAt (fui_activity input)) \<and> \<not> bad_time (fux_opportunityStageChangedAt (fui_context input))"

lemma valid_candidate_eq:
  "fuw_candidate (validateFollowUpCandidate input) = Some c \<longleftrightarrow> good_times input \<and>
    js_trim (fua_actionType (fui_action input)) \<in> set FOLLOW_UP_SCHEDULING_SUPPORTED_ACTION_TYPES \<and>
    js_trim (fua_status (fui_action input)) \<in> set FOLLOW_UP_SCHEDULING_ALLOWED_STATUSES \<and>
    (\<exists>now createdAt actionId key. parse_iso_text (Some (fui_now input)) = Some now \<and>
      parse_iso_text (Some (fua_createdAt (fui_action input))) = Some createdAt \<and>
      asText (Some (fua_actionId (fui_action input))) = Some actionId \<and> asText (fua_idempotencyKey (fui_action input)) = Some key \<and>
      c = normalized_candidate input now createdAt actionId key (js_trim (fua_actionType (fui_action input)))
        (js_trim (fua_status (fui_action input))))"
  unfolding validateFollowUpCandidate_def good_times_def Let_def fu_fail_def
  by (auto split: option.splits if_splits)

lemma valid_candidate:
  assumes "fuw_candidate (validateFollowUpCandidate input) = Some c"
  obtains now createdAt actionId key where
    "parse_iso_text (Some (fui_now input)) = Some now" "parse_iso_text (Some (fua_createdAt (fui_action input))) = Some createdAt"
    "c = normalized_candidate input now createdAt actionId key (js_trim (fua_actionType (fui_action input)))
       (js_trim (fua_status (fui_action input)))"
  using assms unfolding valid_candidate_eq by auto

lemma valid_candidate_iff: "fuw_valid (validateFollowUpCandidate input) \<longleftrightarrow> fuw_candidate (validateFollowUpCandidate input) \<noteq> None"
  by (auto simp: validateFollowUpCandidate_def Let_def fu_fail_def split: option.splits)

lemma parse_iso_text_iso [simp]: "\<bar>t\<bar> \<le> max_time \<Longrightarrow> parse_iso_text (Some (iso_of_time t)) = Some (iso_of_time t)"
  by (simp add: parse_iso_text_def asText_def Let_def date_parse_iso_of_time)

section \<open>The computed schedule\<close>

text \<open>The end of a cooldown, as an instant.\<close>

definition cooldown_end :: "string option \<Rightarrow> int \<Rightarrow> int option" where
  "cooldown_end message minutes = map_option (\<lambda>at. time_of at + max 0 minutes * 60000) message"

lemma cooldown_after_end:
  assumes "cooldown_after (parse_iso_text message) minutes = Inr ends"
  shows "Option.bind ends date_parse = cooldown_end (parse_iso_text message) minutes"
proof (cases "parse_iso_text message")
  case (Some at)
  then obtain t where "\<bar>t\<bar> \<le> max_time" "at = iso_of_time t" by (rule parse_iso_textE)
  then show ?thesis using assms Some
    by (auto simp: cooldown_after_def addMinutes_def cooldown_end_def bind_result_Inr_iff printed_time date_parse_iso_of_time
        split: if_splits)
qed (use assms in \<open>simp add: cooldown_after_def cooldown_end_def\<close>)

lemma compute_cooldowns:
  assumes "computeFollowUpSchedule zones input c = Inr s" "\<not> fus_scheduleImpossible s"
    "fuv_lastInboundAt (fuc_activity c) = parse_iso_text inbound" "fuv_lastOutboundAt (fuc_activity c) = parse_iso_text outbound"
    "fuc_scheduledForMs c = map_option time_of (fuc_scheduledFor c)"
    "inEnd = cooldown_end (parse_iso_text inbound) (fup_cooldownMinutesAfterInbound (fui_policy input))"
    "outEnd = cooldown_end (parse_iso_text outbound) (fup_cooldownMinutesAfterOutbound (fui_policy input))"
  obtains original ib ob ci where "fuc_scheduledForMs c = Some original" "fuc_scheduledFor c \<noteq> None"
    "cooldown_after (parse_iso_text inbound) (fup_cooldownMinutesAfterInbound (fui_policy input)) = Inr ib"
    "cooldown_after (parse_iso_text outbound) (fup_cooldownMinutesAfterOutbound (fui_policy input)) = Inr ob"
    "Option.bind ib date_parse = inEnd" "Option.bind ob date_parse = outEnd"
    "iso_option (maxNullable [inEnd, outEnd]) = Inr ci"
proof -
  obtain original where o: "fuc_scheduledForMs c = Some original" and sched: "fuc_scheduledFor c \<noteq> None"
    using assms(1,2,5) by (cases "fuc_scheduledFor c") (auto simp: computeFollowUpSchedule_def)
  obtain ib ob where ib: "cooldown_after (parse_iso_text inbound) (fup_cooldownMinutesAfterInbound (fui_policy input)) = Inr ib"
    and ob: "cooldown_after (parse_iso_text outbound) (fup_cooldownMinutesAfterOutbound (fui_policy input)) = Inr ob"
    using assms(1,3,4) sched o by (auto simp: computeFollowUpSchedule_def Let_def bind_result_Inr_iff)
  note ends = cooldown_after_end [OF ib, folded assms(6)] cooldown_after_end [OF ob, folded assms(7)]
  obtain ci where "iso_option (maxNullable [inEnd, outEnd]) = Inr ci"
    using assms(1,3,4) sched o by (auto simp: computeFollowUpSchedule_def Let_def bind_result_Inr_iff ib ob ends)
  then show thesis by (rule that [OF o sched ib ob ends])
qed

lemma compute_time:
  assumes "computeFollowUpSchedule zones input c = Inr s" "\<not> fus_scheduleImpossible s"
    "fuv_lastInboundAt (fuc_activity c) = parse_iso_text inbound" "fuv_lastOutboundAt (fuc_activity c) = parse_iso_text outbound"
    "fuc_scheduledForMs c = map_option time_of (fuc_scheduledFor c)"
    "inEnd = cooldown_end (parse_iso_text inbound) (fup_cooldownMinutesAfterInbound (fui_policy input))"
    "outEnd = cooldown_end (parse_iso_text outbound) (fup_cooldownMinutesAfterOutbound (fui_policy input))"
  obtains original moved t where "fuc_scheduledForMs c = Some original"
    "business_time zones (fui_policy input) (fuc_nowMs c)
       (max original (case maxNullable [inEnd, outEnd] of None \<Rightarrow> original | Some e \<Rightarrow> e)) = Inr (Some (moved, t))"
    "\<bar>t\<bar> \<le> max_time" "t \<le> fuc_nowMs c + fup_maxFutureDays (fui_policy input) * 86400000"
    "\<And>e. fuc_expiresAtMs c = Some e \<Longrightarrow> t \<le> e"
    "fus_effectiveScheduledFor s = Some (iso_of_time t)" "fus_outsideBusinessHours s = moved"
    "fus_scheduleChanged s = (t \<noteq> original)"
    "fus_reasons s = js_unique ((if (\<exists>e. inEnd = Some e \<and> e > original) then [Fr_replanned_after_cooldown] else []) @
       (if (\<exists>e. outEnd = Some e \<and> e > original) then [Fr_replanned_after_recent_outbound] else []) @
       (if moved then [Fr_replanned_for_business_hours] else []))"
    "(fus_cooldownUntil s = None) = (inEnd = None \<and> outEnd = None)"
  proof -
  obtain original ib ob ci where o: "fuc_scheduledForMs c = Some original" and sched: "fuc_scheduledFor c \<noteq> None"
    and ib: "cooldown_after (parse_iso_text inbound) (fup_cooldownMinutesAfterInbound (fui_policy input)) = Inr ib"
    and ob: "cooldown_after (parse_iso_text outbound) (fup_cooldownMinutesAfterOutbound (fui_policy input)) = Inr ob"
    and ends: "Option.bind ib date_parse = inEnd" "Option.bind ob date_parse = outEnd"
    and ci': "iso_option (maxNullable [inEnd, outEnd]) = Inr ci"
    by (rule compute_cooldowns [OF assms]) (rule that)
  define latest where "latest = maxNullable [inEnd, outEnd]"
  have none: "(latest = None) = (inEnd = None \<and> outEnd = None)"
    by (auto simp: latest_def maxNullable_def List.map_filter_def split: option.splits list.splits)
  define cand where "cand = max original (case latest of None \<Rightarrow> original | Some e \<Rightarrow> e)"
  have ci: "iso_option latest = Inr ci" using ci' by (simp add: latest_def)
  obtain bt where bt: "business_time zones (fui_policy input) (fuc_nowMs c) cand = Inr bt"
    using assms(1,3,4) sched o ci
    by (auto simp: computeFollowUpSchedule_def Let_def bind_result_Inr_iff ib ob ends latest_def cand_def)
  have ci_none: "(ci = None) = (latest = None)" using ci by (auto simp: iso_option_def bind_result_Inr_iff split: option.splits)
  note run = assms(1) [unfolded computeFollowUpSchedule_def Let_def assms(3,4) o ib ob bind_result_simps option.case ends
      latest_def [symmetric] ci cand_def [symmetric] bt]
  obtain moved t where m: "bt = Some (moved, t)" using run assms(2) sched by (cases bt) auto
  let ?reasons = "js_unique ((if (\<exists>e. inEnd = Some e \<and> e > original) then [Fr_replanned_after_cooldown] else []) @
     (if (\<exists>e. outEnd = Some e \<and> e > original) then [Fr_replanned_after_recent_outbound] else []) @
     (if moved then [Fr_replanned_for_business_hours] else []))"
  have later: "(case e of None \<Rightarrow> False | Some x \<Rightarrow> x > original) = (\<exists>x. e = Some x \<and> x > original)" for e :: "int option"
    by (simp split: option.split)
  obtain sf where sf: "fuc_scheduledFor c = Some sf" using sched by blast
  have all: "\<bar>t\<bar> \<le> max_time \<and> t \<le> fuc_nowMs c + fup_maxFutureDays (fui_policy input) * 86400000 \<and>
      \<not> (case fuc_expiresAtMs c of None \<Rightarrow> False | Some e \<Rightarrow> t > e) \<and>
      s = \<lparr>fus_originalScheduledFor = fuc_scheduledFor c, fus_effectiveScheduledFor = Some (iso_of_time t), fus_cooldownUntil = ci,
        fus_outsideBusinessHours = moved, fus_reasons = ?reasons, fus_scheduleChanged = (t \<noteq> original), fus_scheduleImpossible = False\<rparr>"
    using run assms(2) sf m
    by (auto simp: printed_time later bind_result_Inr_iff split: if_splits)
  show thesis
    by (rule that [OF o bt [unfolded m cand_def latest_def]]) (use all none ci_none in \<open>simp_all split: option.splits\<close>)
qed

section \<open>Decisions\<close>

lemma early_decision_kind: "early_decision input c = Some (d, reason) \<Longrightarrow> d = Fd_cancel \<or> d = Fd_block"
  by (auto simp: early_decision_def Let_def split: if_splits)

lemma scheduled_decision_kind:
  "scheduled_decision c s = (d, reasons, due, outside) \<Longrightarrow> d = Fd_replan \<or> d = Fd_wait \<or> d = Fd_ready"
  by (auto simp: scheduled_decision_def Let_def split: if_splits)

lemma scheduled_ready_iff:
  "scheduled_decision c s = (d, reasons, due, outside) \<Longrightarrow>
     d = Fd_ready \<longleftrightarrow> \<not> hasStaleContext c \<and> (\<exists>e. fus_effectiveScheduledFor s = Some e \<and> time_of e \<le> fuc_nowMs c)"
  by (auto simp: scheduled_decision_def Let_def split: if_splits option.splits)

text \<open>The candidates that reach the computation of a schedule.\<close>

definition schedulable :: "fu_input \<Rightarrow> fu_candidate \<Rightarrow> bool" where
  "schedulable input c \<longleftrightarrow> fuw_candidate (validateFollowUpCandidate input) = Some c \<and> early_decision input c = None \<and>
     fuc_attemptCount c < fuc_maxAttempts c \<and> \<not> (fup_requireExpiry (fuc_policy c) \<and> fuc_expiresAt c = None) \<and>
     \<not> (case fuc_expiresAtMs c of None \<Rightarrow> False | Some e \<Rightarrow> fuc_nowMs c \<ge> e) \<and> fuc_scheduledFor c \<noteq> None"

lemma evaluate_schedulable:
  assumes "schedulable input c" "computeFollowUpSchedule zones input c = Inr s" "\<not> fus_scheduleImpossible s"
    "scheduled_decision c s = (d, reasons, due, outside)"
  shows "\<exists>r. evaluateFollowUpSchedule zones input = Inr r \<and> fur_decision r = d \<and> fur_reasons r = js_unique reasons \<and>
    fur_effectiveScheduledFor r = fus_effectiveScheduledFor s \<and>
    fur_nextScheduledFor r = (if d = Fd_replan then fus_effectiveScheduledFor s else None)"
  using assms valid_candidate_iff [of input]
  by (auto simp: schedulable_def evaluateFollowUpSchedule_def Let_def buildFollowUpDecision_def)

lemma evaluate_scheduledE:
  assumes "evaluateFollowUpSchedule zones input = Inr r" "fur_decision r \<in> {Fd_ready, Fd_wait, Fd_replan}"
  obtains c s reasons due outside where "schedulable input c" "computeFollowUpSchedule zones input c = Inr s"
    "\<not> fus_scheduleImpossible s" "scheduled_decision c s = (fur_decision r, reasons, due, outside)"
    "fur_reasons r = js_unique reasons" "fur_effectiveScheduledFor r = fus_effectiveScheduledFor s"
    "fur_nextScheduledFor r = (if fur_decision r = Fd_replan then fus_effectiveScheduledFor s else None)"
proof -
  obtain c where c: "fuw_candidate (validateFollowUpCandidate input) = Some c" "fuw_valid (validateFollowUpCandidate input)"
    using assms valid_candidate_iff [of input]
    by (cases "fuw_candidate (validateFollowUpCandidate input)")
      (auto simp: evaluateFollowUpSchedule_def Let_def makeInvalidResult_def buildFollowUpDecision_def)
  have early: "early_decision input c = None"
  proof (rule ccontr)
    assume "early_decision input c \<noteq> None"
    then obtain d reason where e: "early_decision input c = Some (d, reason)" by auto
    then have "fur_decision r = d" using assms(1) c by (auto simp: evaluateFollowUpSchedule_def Let_def buildFollowUpDecision_def)
    then show False using early_decision_kind [OF e] assms(2) by auto
  qed
  have sch: "schedulable input c"
    unfolding schedulable_def
    using assms c early by (auto simp: evaluateFollowUpSchedule_def Let_def buildFollowUpDecision_def split: if_splits)
  then obtain s where s: "computeFollowUpSchedule zones input c = Inr s" "\<not> fus_scheduleImpossible s"
    using assms c early
    by (auto simp: schedulable_def evaluateFollowUpSchedule_def Let_def buildFollowUpDecision_def bind_result_Inr_iff split: if_splits)
  obtain d reasons due outside where d: "scheduled_decision c s = (d, reasons, due, outside)" using prod_cases4 by blast
  show thesis using evaluate_schedulable [OF sch s d] assms(1) d that [OF sch s] by auto
qed

text \<open>What a candidate takes from the input.\<close>

definition input_now :: "fu_input \<Rightarrow> int" where
  "input_now input = (case parse_iso_text (Some (fui_now input)) of None \<Rightarrow> 0 | Some now \<Rightarrow> time_of now)"

definition instant_of :: "string option \<Rightarrow> int option" where
  "instant_of value = map_option time_of (parse_iso_text value)"

lemma instant_of_range: "instant_of value = Some t \<Longrightarrow> \<bar>t\<bar> \<le> max_time"
  by (auto simp: instant_of_def elim: parse_iso_textE)

definition candidate_of :: "fu_input \<Rightarrow> fu_candidate \<Rightarrow> bool" where
  "candidate_of input c \<longleftrightarrow> fuc_nowMs c = input_now input \<and> \<bar>input_now input\<bar> \<le> max_time \<and>
     Some (fuc_createdAtMs c) = instant_of (Some (fua_createdAt (fui_action input))) \<and>
     fuc_activity c = normalized_activity (fui_activity input) \<and> fuc_context c = normalized_context (fui_context input) \<and>
     fuc_policy c = normalized_policy (fui_policy input) \<and>
     fuc_scheduledFor c = parse_iso_text (fua_scheduledFor (fui_action input)) \<and>
     fuc_scheduledForMs c = instant_of (fua_scheduledFor (fui_action input)) \<and>
     fuc_expiresAt c = parse_iso_text (fua_expiresAt (fui_action input)) \<and>
     fuc_expiresAtMs c = instant_of (fua_expiresAt (fui_action input)) \<and>
     fuc_attemptCount c = max 0 (fua_attemptCount (fui_action input)) \<and>
     fuc_maxAttempts c = max 0 (fua_maxAttempts (fui_action input)) \<and>
     fuc_actionType c = js_trim (fua_actionType (fui_action input)) \<and> fuc_status c = js_trim (fua_status (fui_action input)) \<and>
     fuc_lastInboundAtMs c = instant_of (fuv_lastInboundAt (fui_activity input)) \<and>
     fuc_lastOutboundAtMs c = instant_of (fuv_lastOutboundAt (fui_activity input)) \<and>
     fuc_opportunityStageChangedAtMs c = instant_of (fux_opportunityStageChangedAt (fui_context input))"

lemma validated_candidate: "fuw_candidate (validateFollowUpCandidate input) = Some c \<Longrightarrow> candidate_of input c"
  by (erule valid_candidate)
    (auto simp: candidate_of_def normalized_candidate_def Let_def input_now_def instant_of_def normalized_activity_def
      normalized_context_def elim: parse_iso_textE)

lemma schedulable_candidate: "schedulable input c \<Longrightarrow> candidate_of input c"
  by (auto simp: schedulable_def intro: validated_candidate)

text \<open>The instant a follow-up waits for, before business hours: its own time and both cooldowns.\<close>

definition inbound_end :: "fu_input \<Rightarrow> int option" where
  "inbound_end input = cooldown_end (parse_iso_text (fuv_lastInboundAt (fui_activity input)))
     (fup_cooldownMinutesAfterInbound (fui_policy input))"

definition outbound_end :: "fu_input \<Rightarrow> int option" where
  "outbound_end input = cooldown_end (parse_iso_text (fuv_lastOutboundAt (fui_activity input)))
     (fup_cooldownMinutesAfterOutbound (fui_policy input))"

definition cooled_time :: "fu_input \<Rightarrow> int \<Rightarrow> int" where
  "cooled_time input original = max original (case maxNullable [inbound_end input, outbound_end input] of None \<Rightarrow> original | Some e \<Rightarrow> e)"

lemma cooled_time_bounds:
  "original \<le> cooled_time input original"
  "inbound_end input = Some e \<Longrightarrow> e \<le> cooled_time input original"
  "outbound_end input = Some e \<Longrightarrow> e \<le> cooled_time input original"
  by (auto simp: cooled_time_def maxNullable_def List.map_filter_def split: option.splits)

lemma cooled_time_idem: "cooled_time input original \<le> t \<Longrightarrow> cooled_time input t = t"
  by (auto simp: cooled_time_def maxNullable_def List.map_filter_def split: option.splits)

text \<open>The computed time of a candidate that was not refused.\<close>

lemma computed_time:
  assumes "candidate_of input c" "computeFollowUpSchedule zones input c = Inr s" "\<not> fus_scheduleImpossible s"
  obtains original moved t where "instant_of (fua_scheduledFor (fui_action input)) = Some original"
    "business_time zones (fui_policy input) (input_now input) (cooled_time input original) = Inr (Some (moved, t))"
    "\<bar>t\<bar> \<le> max_time" "t \<le> input_now input + fup_maxFutureDays (fui_policy input) * 86400000"
    "\<And>e. instant_of (fua_expiresAt (fui_action input)) = Some e \<Longrightarrow> t \<le> e"
    "fus_effectiveScheduledFor s = Some (iso_of_time t)" "fus_outsideBusinessHours s = moved" "fus_scheduleChanged s = (t \<noteq> original)"
    "fus_reasons s = js_unique ((if (\<exists>e. inbound_end input = Some e \<and> e > original) then [Fr_replanned_after_cooldown] else []) @
       (if (\<exists>e. outbound_end input = Some e \<and> e > original) then [Fr_replanned_after_recent_outbound] else []) @
       (if moved then [Fr_replanned_for_business_hours] else []))"
    "(fus_cooldownUntil s = None) = (inbound_end input = None \<and> outbound_end input = None)"
proof -
  have fields: "fuv_lastInboundAt (fuc_activity c) = parse_iso_text (fuv_lastInboundAt (fui_activity input))"
    "fuv_lastOutboundAt (fuc_activity c) = parse_iso_text (fuv_lastOutboundAt (fui_activity input))"
    "fuc_scheduledForMs c = map_option time_of (fuc_scheduledFor c)"
    "fuc_nowMs c = input_now input" "fuc_scheduledForMs c = instant_of (fua_scheduledFor (fui_action input))"
    "fuc_expiresAtMs c = instant_of (fua_expiresAt (fui_action input))"
    using assms(1) by (simp_all add: candidate_of_def normalized_activity_def instant_of_def)
  show thesis
    by (rule compute_time [OF assms(2,3) fields(1-3) inbound_end_def outbound_end_def,
        unfolded fields(4-6), folded cooled_time_def]) (rule that)
qed

section \<open>Properties\<close>

text \<open>The risk of the action is known and not above the bound of the policy.\<close>

definition within_risk :: "string \<Rightarrow> string \<Rightarrow> bool" where
  "within_risk risk bound \<longleftrightarrow> (let r = js_trim risk; b = lowerText (Some bound)
     in r = ''low'' \<and> b \<in> {''low'', ''medium'', ''high'', ''critical''} \<or> r = ''medium'' \<and> b \<in> {''medium'', ''high'', ''critical''} \<or>
        r = ''high'' \<and> b \<in> {''high'', ''critical''} \<or> r = ''critical'' \<and> b = ''critical'')"

text \<open>No approval is needed, or the one that is needed was given.\<close>

definition approval_given :: "string \<Rightarrow> string \<Rightarrow> bool" where
  "approval_given status requirement \<longleftrightarrow> js_trim requirement = ''none'' \<or>
     (js_trim requirement \<in> {''operator_review'', ''manager_review''} \<and> lowerText (Some status) \<in> {''approved'', ''scheduled''})"

lemma lower_asText: "lowerText (asText v) = lowerText v"
  by (auto simp: lowerText_def asText_def Let_def js_lower_def split: option.split)

lemma lower_trim: "lowerText (Some (js_trim v)) = lowerText (Some v)"
  by (simp add: lowerText_def)

lemma lower_constants: "lowerText (Some ''low'') = ''low''" "lowerText (Some ''medium'') = ''medium''" "lowerText (Some ''high'') = ''high''"
  "lowerText (Some ''critical'') = ''critical''" "lowerText (Some ''unknown'') = ''unknown''" "lowerText (Some ''none'') = ''none''"
  "lowerText (Some ''operator_review'') = ''operator_review''" "lowerText (Some ''manager_review'') = ''manager_review''"
  "lowerText (Some ''blocked'') = ''blocked''"
  by code_simp+

lemma lower_or_default:
  "lowerText (Some (case asText (Some v) of None \<Rightarrow> d | Some t \<Rightarrow> t)) = (if js_trim v = [] then lowerText (Some d) else lowerText (Some v))"
  by (simp add: lowerText_def asText_def Let_def)

lemma lower_empty: "lowerText (Some v) = [] \<longleftrightarrow> js_trim v = []"
  by (simp add: lowerText_def js_lower_def)

lemma known_or_default:
  "(let r = (case asText (Some v) of None \<Rightarrow> d | Some t \<Rightarrow> t) in if r \<in> set known then r else d) =
     (if js_trim v \<in> set known \<and> js_trim v \<noteq> [] then js_trim v else d)"
  by (simp add: asText_def Let_def)

lemma allowed_risk_iff:
  "isAllowedRisk (if js_trim risk \<in> set FOLLOW_UP_SCHEDULING_RISK_LEVELS \<and> js_trim risk \<noteq> [] then js_trim risk else ''unknown'')
     (case asText (Some bound) of None \<Rightarrow> ''unknown'' | Some t \<Rightarrow> t) \<longleftrightarrow> within_risk risk bound"
proof -
  let ?b = "lowerText (Some bound)"
  have "isAllowedRisk r (case asText (Some bound) of None \<Rightarrow> ''unknown'' | Some t \<Rightarrow> t) \<longleftrightarrow>
      r = ''low'' \<and> ?b \<in> {''low'', ''medium'', ''high'', ''critical''} \<or> r = ''medium'' \<and> ?b \<in> {''medium'', ''high'', ''critical''} \<or>
      r = ''high'' \<and> ?b \<in> {''high'', ''critical''} \<or> r = ''critical'' \<and> ?b = ''critical''"
    if "r \<in> {''low'', ''medium'', ''high'', ''critical'', ''unknown''}" for r
  proof (cases "js_trim bound = []")
    case True
    then have "?b = []" by (simp add: lower_empty)
    then show ?thesis using that True by (elim insertE) (simp_all add: isAllowedRisk_def lower_or_default lower_constants Let_def)
  next
    case False
    then have "?b \<noteq> []" by (simp add: lower_empty)
    then show ?thesis using that False by (elim insertE)
      (auto simp: isAllowedRisk_def lower_or_default lower_constants FOLLOW_UP_SCHEDULING_RISK_SEVERITY_def Let_def)
  qed
  then show ?thesis unfolding within_risk_def Let_def FOLLOW_UP_SCHEDULING_RISK_LEVELS_def by auto
qed

lemma approval_satisfied_iff:
  "isApprovalSatisfied (js_trim status) (if js_trim requirement \<in> set FOLLOW_UP_SCHEDULING_APPROVAL_REQUIREMENTS \<and> js_trim requirement \<noteq> []
     then js_trim requirement else ''blocked'') \<longleftrightarrow> approval_given status requirement"
proof -
  have "isApprovalSatisfied (js_trim status) r \<longleftrightarrow>
      r = ''none'' \<or> (r \<in> {''operator_review'', ''manager_review''} \<and> lowerText (Some status) \<in> {''approved'', ''scheduled''})"
    if "r \<in> {''none'', ''operator_review'', ''manager_review'', ''blocked''}" for r
    using that by (elim insertE)
      (auto simp: isApprovalSatisfied_def lower_constants FOLLOW_UP_SCHEDULING_APPROVAL_REQUIREMENTS_def Let_def lower_trim)
  then show ?thesis unfolding approval_given_def FOLLOW_UP_SCHEDULING_APPROVAL_REQUIREMENTS_def by auto
qed

lemma early_passes:
  assumes "fuw_candidate (validateFollowUpCandidate input) = Some c"
  shows "early_decision input c = None \<longleftrightarrow> fup_followUpEnabled (fui_policy input) \<and>
    js_trim (fua_actionType (fui_action input)) \<in> set (normalizeTextArray (fup_allowedActionTypes (fui_policy input))) \<and>
    lowerText (fux_policyStatus (fui_context input)) \<notin> {''blocked'', ''block'', ''denied'', ''rejected'', ''restricted''} \<and>
    within_risk (fua_riskLevel (fui_action input)) (fup_maxRiskLevel (fui_policy input)) \<and>
    approval_given (fua_status (fui_action input)) (fua_approvalRequirement (fui_action input)) \<and>
    \<not> fux_humanOwnerActive (fui_context input) \<and> \<not> fux_aiBlocked (fui_context input) \<and> \<not> fux_requiresHuman (fui_context input) \<and>
    lowerText (fux_caseStatus (fui_context input)) \<notin> {''closed'', ''resolved'', ''cancelled'', ''canceled'', ''archived''} \<and>
    lowerText (fux_lifecycleStatus (fui_context input)) \<notin> {''closed'', ''resolved'', ''cancelled'', ''canceled'', ''archived''} \<and>
    lowerText (fux_opportunityStatus (fui_context input)) \<notin> {''won'', ''lost'', ''paused''} \<and>
    \<not> fux_duplicateActionExists (fui_context input) \<and> \<not> fux_conflictingActionExists (fui_context input) \<and>
    \<not> (\<exists>t. instant_of (fuv_lastInboundAt (fui_activity input)) = Some t \<and> fuc_createdAtMs c < t)"
proof -
  from assms obtain now createdAt actionId key where
    c: "c = normalized_candidate input now createdAt actionId key (js_trim (fua_actionType (fui_action input))) (js_trim (fua_status (fui_action input)))"
    by (rule valid_candidate)
  note o = validated_candidate [OF assms, unfolded candidate_of_def]
  have "fuc_riskLevel c = (if js_trim (fua_riskLevel (fui_action input)) \<in> set FOLLOW_UP_SCHEDULING_RISK_LEVELS \<and>
      js_trim (fua_riskLevel (fui_action input)) \<noteq> [] then js_trim (fua_riskLevel (fui_action input)) else ''unknown'')"
    "fuc_approvalRequirement c = (if js_trim (fua_approvalRequirement (fui_action input)) \<in> set FOLLOW_UP_SCHEDULING_APPROVAL_REQUIREMENTS \<and>
      js_trim (fua_approvalRequirement (fui_action input)) \<noteq> [] then js_trim (fua_approvalRequirement (fui_action input)) else ''blocked'')"
    unfolding c by (simp_all add: normalized_candidate_def known_or_default [symmetric] Let_def)
  moreover have "fup_maxRiskLevel (fuc_policy c) = (case asText (Some (fup_maxRiskLevel (fui_policy input))) of None \<Rightarrow> ''unknown'' | Some t \<Rightarrow> t)"
    "fup_allowedActionTypes (fuc_policy c) = normalizeTextArray (fup_allowedActionTypes (fui_policy input))"
    using o by (simp_all add: normalized_policy_def)
  ultimately have checks: "isAllowedRisk (fuc_riskLevel c) (fup_maxRiskLevel (fuc_policy c)) \<longleftrightarrow>
      within_risk (fua_riskLevel (fui_action input)) (fup_maxRiskLevel (fui_policy input))"
    "isApprovalSatisfied (fuc_status c) (fuc_approvalRequirement c) \<longleftrightarrow>
      approval_given (fua_status (fui_action input)) (fua_approvalRequirement (fui_action input))"
    "isAllowedActionType (fuc_actionType c) (fup_allowedActionTypes (fuc_policy c)) \<longleftrightarrow>
      js_trim (fua_actionType (fui_action input)) \<in> set (normalizeTextArray (fup_allowedActionTypes (fui_policy input)))"
    using o by (auto simp: allowed_risk_iff approval_satisfied_iff isAllowedActionType_def)
  have reply: "isCustomerReplyAfterActionCreation c \<longleftrightarrow>
      (\<exists>t. instant_of (fuv_lastInboundAt (fui_activity input)) = Some t \<and> fuc_createdAtMs c < t)"
    using o by (simp add: isCustomerReplyAfterActionCreation_def split: option.split)
  have x: "fuc_context c = normalized_context (fui_context input)" using o by simp
  have early: "early_decision input c = None \<longleftrightarrow> fup_followUpEnabled (fui_policy input) \<and>
      isAllowedActionType (fuc_actionType c) (fup_allowedActionTypes (fuc_policy c)) \<and>
      \<not> isBlockedPolicyStatus (fux_policyStatus (fuc_context c)) \<and> isAllowedRisk (fuc_riskLevel c) (fup_maxRiskLevel (fuc_policy c)) \<and>
      isApprovalSatisfied (fuc_status c) (fuc_approvalRequirement c) \<and> \<not> fux_humanOwnerActive (fuc_context c) \<and>
      \<not> fux_aiBlocked (fuc_context c) \<and> \<not> fux_requiresHuman (fuc_context c) \<and>
      \<not> isCaseClosed (fux_caseStatus (fuc_context c)) (fux_lifecycleStatus (fuc_context c)) \<and>
      \<not> isOpportunityClosed (fux_opportunityStatus (fuc_context c)) \<and> \<not> isOpportunityPaused (fux_opportunityStatus (fuc_context c)) \<and>
      \<not> isCustomerReplyAfterActionCreation c \<and> \<not> fux_duplicateActionExists (fuc_context c) \<and> \<not> fux_conflictingActionExists (fuc_context c)"
    by (simp add: early_decision_def Let_def)
  show ?thesis unfolding early checks reply x
    by (simp add: normalized_context_def lower_asText isBlockedPolicyStatus_def isCaseClosed_def isOpportunityClosed_def isOpportunityPaused_def
      FOLLOW_UP_SCHEDULING_CASE_CLOSED_STATUSES_def FOLLOW_UP_SCHEDULING_OPPORTUNITY_CLOSED_STATUSES_def
      FOLLOW_UP_SCHEDULING_OPPORTUNITY_PAUSED_STATUSES_def) argo
qed

text \<open>
  C20. Exactly when a follow-up is ready: the candidate is valid; the policy allows follow-ups of its type, does not block
  it, and admits its risk; the approval it needs was given; no human owns or must handle the case, the AI
  is not blocked; neither case nor opportunity is closed, and the opportunity is not paused; no duplicate or
  conflicting action exists; attempts are left; it has an expiry where one is required, and has not
  expired; the customer has not written and the stage has not changed since it was created; and its
  computed time has come.\<close>

theorem ready_follow_up_is_allowed:
  assumes "evaluateFollowUpSchedule zones input = Inr r"
  shows "fur_decision r = Fd_ready \<longleftrightarrow> fuw_valid (validateFollowUpCandidate input) \<and> fup_followUpEnabled (fui_policy input) \<and>
    js_trim (fua_actionType (fui_action input)) \<in> set (normalizeTextArray (fup_allowedActionTypes (fui_policy input))) \<and>
    lowerText (fux_policyStatus (fui_context input)) \<notin> {''blocked'', ''block'', ''denied'', ''rejected'', ''restricted''} \<and>
    within_risk (fua_riskLevel (fui_action input)) (fup_maxRiskLevel (fui_policy input)) \<and>
    approval_given (fua_status (fui_action input)) (fua_approvalRequirement (fui_action input)) \<and>
    \<not> fux_humanOwnerActive (fui_context input) \<and> \<not> fux_aiBlocked (fui_context input) \<and> \<not> fux_requiresHuman (fui_context input) \<and>
    lowerText (fux_caseStatus (fui_context input)) \<notin> {''closed'', ''resolved'', ''cancelled'', ''canceled'', ''archived''} \<and>
    lowerText (fux_lifecycleStatus (fui_context input)) \<notin> {''closed'', ''resolved'', ''cancelled'', ''canceled'', ''archived''} \<and>
    lowerText (fux_opportunityStatus (fui_context input)) \<notin> {''won'', ''lost'', ''paused''} \<and>
    \<not> fux_duplicateActionExists (fui_context input) \<and> \<not> fux_conflictingActionExists (fui_context input) \<and>
    max 0 (fua_attemptCount (fui_action input)) < fua_maxAttempts (fui_action input) \<and>
    (case instant_of (fua_expiresAt (fui_action input)) of None \<Rightarrow> \<not> fup_requireExpiry (fui_policy input) | Some e \<Rightarrow> input_now input < e) \<and>
    (\<exists>created. instant_of (Some (fua_createdAt (fui_action input))) = Some created \<and>
      \<not> (\<exists>t. instant_of (fuv_lastInboundAt (fui_activity input)) = Some t \<and> created < t) \<and>
      \<not> (\<exists>t. instant_of (fux_opportunityStageChangedAt (fui_context input)) = Some t \<and> t \<noteq> 0 \<and> created < t)) \<and>
    (\<exists>t. fur_effectiveScheduledFor r = Some (iso_of_time t) \<and> \<bar>t\<bar> \<le> max_time \<and> t \<le> input_now input)"
proof (cases "\<exists>c. fuw_candidate (validateFollowUpCandidate input) = Some c")
  case False
  then show ?thesis using assms
    by (auto simp: evaluateFollowUpSchedule_def valid_candidate_iff Let_def makeInvalidResult_def buildFollowUpDecision_def)
next
  case True
  then obtain c where c: "fuw_candidate (validateFollowUpCandidate input) = Some c" by blast
  note o = validated_candidate [OF c]
  have sch: "schedulable input c \<longleftrightarrow> early_decision input c = None \<and>
      max 0 (fua_attemptCount (fui_action input)) < fua_maxAttempts (fui_action input) \<and>
      (case instant_of (fua_expiresAt (fui_action input)) of None \<Rightarrow> \<not> fup_requireExpiry (fui_policy input) | Some e \<Rightarrow> input_now input < e) \<and>
      fuc_scheduledFor c \<noteq> None"
    using c o by (auto simp: schedulable_def candidate_of_def normalized_policy_def instant_of_def split: option.splits)
  have stale: "hasStaleContext c \<longleftrightarrow> (\<exists>t. instant_of (fux_opportunityStageChangedAt (fui_context input)) = Some t \<and> t \<noteq> 0 \<and> fuc_createdAtMs c < t)"
    and created: "instant_of (Some (fua_createdAt (fui_action input))) = Some (fuc_createdAtMs c)"
    using o by (auto simp: hasStaleContext_def candidate_of_def split: option.split)
  have valid: "fuw_valid (validateFollowUpCandidate input)" using c by (simp add: valid_candidate_iff)
  have "fur_decision r = Fd_ready \<longleftrightarrow> (early_decision input c = None \<and>
      max 0 (fua_attemptCount (fui_action input)) < fua_maxAttempts (fui_action input) \<and>
      (case instant_of (fua_expiresAt (fui_action input)) of None \<Rightarrow> \<not> fup_requireExpiry (fui_policy input) | Some e \<Rightarrow> input_now input < e)) \<and>
      \<not> hasStaleContext c \<and> (\<exists>t. fur_effectiveScheduledFor r = Some (iso_of_time t) \<and> \<bar>t\<bar> \<le> max_time \<and> t \<le> input_now input)"
    (is "_ \<longleftrightarrow> ?passes \<and> _ \<and> ?due")
  proof
    assume r: "fur_decision r = Fd_ready"
    obtain c' s reasons due outside where run: "schedulable input c'" "computeFollowUpSchedule zones input c' = Inr s"
      "\<not> fus_scheduleImpossible s" "scheduled_decision c' s = (Fd_ready, reasons, due, outside)"
      "fur_effectiveScheduledFor r = fus_effectiveScheduledFor s"
      by (rule evaluate_scheduledE [OF assms]) (use r in auto)
    have "c' = c" using run(1) c by (simp add: schedulable_def)
    with run have run: "schedulable input c" "computeFollowUpSchedule zones input c = Inr s"
      "scheduled_decision c s = (Fd_ready, reasons, due, outside)" by simp_all
    obtain t where "\<bar>t\<bar> \<le> max_time" "fus_effectiveScheduledFor s = Some (iso_of_time t)"
      by (rule computed_time [OF o run(2) \<open>\<not> fus_scheduleImpossible s\<close>]) (rule that)
    then show "?passes \<and> \<not> hasStaleContext c \<and> ?due"
      using scheduled_ready_iff [OF run(3)] run(1) sch o \<open>fur_effectiveScheduledFor r = _\<close> by (auto simp: candidate_of_def)
  next
    assume h: "?passes \<and> \<not> hasStaleContext c \<and> ?due"
    then obtain t where t: "fur_effectiveScheduledFor r = Some (iso_of_time t)" "\<bar>t\<bar> \<le> max_time" "t \<le> input_now input" by blast
    have "fuc_scheduledFor c \<noteq> None"
    proof
      assume "fuc_scheduledFor c = None"
      then show False using assms valid c t(1) h o
        by (auto simp: evaluateFollowUpSchedule_def Let_def buildFollowUpDecision_def candidate_of_def normalized_policy_def instant_of_def
          split: option.splits if_splits)
    qed
    then have sch': "schedulable input c" using sch h by blast
    then obtain s where s: "computeFollowUpSchedule zones input c = Inr s" "\<not> fus_scheduleImpossible s"
      using assms valid c t(1)
      by (auto simp: schedulable_def evaluateFollowUpSchedule_def Let_def buildFollowUpDecision_def bind_result_Inr_iff split: if_splits)
    obtain d reasons due outside where d: "scheduled_decision c s = (d, reasons, due, outside)" using prod_cases4 by blast
    have "fur_decision r = d" "fur_effectiveScheduledFor r = fus_effectiveScheduledFor s"
      using evaluate_schedulable [OF sch' s d] assms by auto
    then show "fur_decision r = Fd_ready" using scheduled_ready_iff [OF d] h t o by (auto simp: candidate_of_def)
  qed
  then show ?thesis using valid early_passes [OF c] stale created by auto
qed

text \<open>
  C21. Every time that is computed lies after the scheduled time and after both cooldowns, within the horizon
  of the policy, and not after the expiry; the time of a ready follow-up is not in the future.\<close>

theorem follow_up_time_bounds:
  assumes "evaluateFollowUpSchedule zones input = Inr r" "fur_decision r \<in> {Fd_ready, Fd_wait, Fd_replan}"
  shows "\<exists>original t. instant_of (fua_scheduledFor (fui_action input)) = Some original \<and>
    fur_effectiveScheduledFor r = Some (iso_of_time t) \<and> original \<le> t \<and>
    (\<forall>e. inbound_end input = Some e \<longrightarrow> e \<le> t) \<and> (\<forall>e. outbound_end input = Some e \<longrightarrow> e \<le> t) \<and>
    t \<le> input_now input + fup_maxFutureDays (fui_policy input) * 86400000 \<and>
    (\<forall>e. instant_of (fua_expiresAt (fui_action input)) = Some e \<longrightarrow> t \<le> e \<and> input_now input < e) \<and>
    (fur_decision r = Fd_ready \<longrightarrow> t \<le> input_now input)"
proof -
  obtain c s reasons due outside where run: "schedulable input c" "computeFollowUpSchedule zones input c = Inr s"
    "\<not> fus_scheduleImpossible s" "scheduled_decision c s = (fur_decision r, reasons, due, outside)"
    "fur_effectiveScheduledFor r = fus_effectiveScheduledFor s"
    by (rule evaluate_scheduledE [OF assms])
  have c: "candidate_of input c" by (rule schedulable_candidate [OF run(1)])
  have alive: "\<And>e. instant_of (fua_expiresAt (fui_action input)) = Some e \<Longrightarrow> input_now input < e"
    using run(1) c by (auto simp: schedulable_def candidate_of_def)
  obtain original moved t where t: "instant_of (fua_scheduledFor (fui_action input)) = Some original"
    "business_time zones (fui_policy input) (input_now input) (cooled_time input original) = Inr (Some (moved, t))"
    "\<bar>t\<bar> \<le> max_time" "t \<le> input_now input + fup_maxFutureDays (fui_policy input) * 86400000"
    "\<And>e. instant_of (fua_expiresAt (fui_action input)) = Some e \<Longrightarrow> t \<le> e"
    "fus_effectiveScheduledFor s = Some (iso_of_time t)"
    by (rule computed_time [OF c run(2,3)]) (rule that)
  have "cooled_time input original \<le> t" by (rule business_time_after [OF t(2)])
  moreover have "fur_decision r = Fd_ready \<Longrightarrow> t \<le> input_now input"
    using scheduled_ready_iff [OF run(4)] c t(3,6) by (auto simp: candidate_of_def)
  ultimately show ?thesis
    using t alive run(5) cooled_time_bounds(1) [of original input] cooled_time_bounds(2,3) [of input _ original]
    by (intro exI [of _ original] exI [of _ t]) (auto intro: order_trans)
qed

text \<open>
  With the hours of one day, in a zone with at most one change of offset in two days that leaves the opening
  hour of no day out, the time of a follow-up that is ready, waits or is replanned lies in the business hours of
  the policy.\<close>

theorem follow_up_time_in_hours:
  assumes "evaluateFollowUpSchedule zones input = Inr r" "fur_decision r \<in> {Fd_ready, Fd_wait, Fd_replan}"
    "daylight_zone zones (fup_businessTimezone (fui_policy input)) (fup_businessStartHour (fui_policy input))"
    "day_hours (fui_policy input)" "modern (input_now input)"
  shows "\<exists>t. fur_effectiveScheduledFor r = Some (iso_of_time t) \<and> in_business_hours zones (fui_policy input) t"
proof -
  obtain c s where run: "schedulable input c" "computeFollowUpSchedule zones input c = Inr s" "\<not> fus_scheduleImpossible s"
    "fur_effectiveScheduledFor r = fus_effectiveScheduledFor s"
    by (rule evaluate_scheduledE [OF assms(1,2)])
  obtain original moved t where "business_time zones (fui_policy input) (input_now input) (cooled_time input original) = Inr (Some (moved, t))"
    "fus_effectiveScheduledFor s = Some (iso_of_time t)"
    by (rule computed_time [OF schedulable_candidate [OF run(1)] run(2,3)])
  then show ?thesis using business_time_hours [OF assms(3-5)] run(4) by auto
qed

text \<open>The same input with another scheduled time, and stored again and read later: with another status, at another instant.\<close>

definition rescheduled :: "fu_input \<Rightarrow> string \<Rightarrow> fu_input" where
  "rescheduled input at = input\<lparr>fui_action := (fui_action input)\<lparr>fua_scheduledFor := Some at\<rparr>\<rparr>"

definition stored_again :: "fu_input \<Rightarrow> string \<Rightarrow> string \<Rightarrow> string option \<Rightarrow> string \<Rightarrow> fu_input" where
  "stored_again input now status updatedAt at = input\<lparr>fui_now := now, fui_action := (fui_action input)
     \<lparr>fua_status := status, fua_updatedAt := updatedAt, fua_scheduledFor := Some at\<rparr>\<rparr>"

lemma rescheduled_stored:
  "rescheduled input at = stored_again input (fui_now input) (fua_status (fui_action input)) (fua_updatedAt (fui_action input)) at"
  by (simp add: rescheduled_def stored_again_def)

lemma stored_again_simps [simp]:
  "fui_policy (stored_again input now status updatedAt at) = fui_policy input" "fui_now (stored_again input now status updatedAt at) = now"
  "fui_activity (stored_again input now status updatedAt at) = fui_activity input"
  "fui_context (stored_again input now status updatedAt at) = fui_context input"
  by (simp_all add: stored_again_def)

text \<open>What becomes of the candidate; the new status is one that may be scheduled and meets the approval.\<close>

definition restored :: "fu_candidate \<Rightarrow> string \<Rightarrow> string \<Rightarrow> string option \<Rightarrow> int \<Rightarrow> fu_candidate" where
  "restored c now status updatedAt t = c\<lparr>fuc_now := now, fuc_nowMs := time_of now,
     fuc_scheduledFor := Some (iso_of_time t), fuc_scheduledForMs := Some t, fuc_status := js_trim status,
     fuc_updatedAt := parse_iso_text updatedAt, fuc_updatedAtMs := map_option time_of (parse_iso_text updatedAt)\<rparr>"

definition status_kept :: "fu_input \<Rightarrow> string \<Rightarrow> bool" where
  "status_kept input status \<longleftrightarrow> js_trim status = js_trim (fua_status (fui_action input)) \<or> status = ''scheduled''"

lemma status_kept_allowed:
  assumes "status_kept input status" "js_trim (fua_status (fui_action input)) \<in> set FOLLOW_UP_SCHEDULING_ALLOWED_STATUSES"
  shows "js_trim status \<in> set FOLLOW_UP_SCHEDULING_ALLOWED_STATUSES"
proof -
  have "js_trim ''scheduled'' \<in> set FOLLOW_UP_SCHEDULING_ALLOWED_STATUSES" by code_simp
  then show ?thesis using assms by (auto simp: status_kept_def)
qed

lemma status_kept_approved:
  assumes "status_kept input status" "isApprovalSatisfied (js_trim (fua_status (fui_action input))) requirement"
  shows "isApprovalSatisfied (js_trim status) requirement"
proof -
  have "lowerText (Some (js_trim ''scheduled'')) = ''scheduled''" by code_simp
  then show ?thesis using assms by (auto simp: status_kept_def isApprovalSatisfied_def Let_def split: if_splits)
qed

lemma stored_candidate:
  assumes "fuw_candidate (validateFollowUpCandidate input) = Some c" "\<bar>t\<bar> \<le> max_time" "status_kept input status" "\<not> bad_time updatedAt"
    "parse_iso_text (Some now) = Some n"
  shows "fuw_candidate (validateFollowUpCandidate (stored_again input now status updatedAt (iso_of_time t))) = Some (restored c n status updatedAt t)"
proof -
  have "good_times input \<Longrightarrow> good_times (stored_again input now status updatedAt (iso_of_time t))"
    using assms(2,4) by (simp add: good_times_def stored_again_def bad_time_def)
  moreover have "normalized_candidate (stored_again input now status updatedAt (iso_of_time t)) n createdAt actionId key actionType (js_trim status) =
      restored (normalized_candidate input old createdAt actionId key actionType before) n status updatedAt t" for old createdAt actionId key actionType before
    using assms(2) by (simp add: normalized_candidate_def stored_again_def restored_def Let_def)
  ultimately show ?thesis using assms(1,5) status_kept_allowed [OF assms(3)] unfolding valid_candidate_eq by (auto simp: stored_again_def)
qed

lemma stored_early:
  assumes "early_decision input c = None" "fuc_status c = js_trim (fua_status (fui_action input))" "status_kept input status"
  shows "early_decision (stored_again input now status updatedAt at) (restored c n status updatedAt t) = None"
proof -
  have "isCustomerReplyAfterActionCreation (restored c n status updatedAt t) = isCustomerReplyAfterActionCreation c"
    by (cases "fuc_lastInboundAtMs c") (simp_all add: isCustomerReplyAfterActionCreation_def restored_def)
  moreover have "isApprovalSatisfied (js_trim status) (fuc_approvalRequirement c)"
    using assms(1,2) status_kept_approved [OF assms(3)] by (auto simp: early_decision_def Let_def split: if_splits)
  ultimately show ?thesis using assms(1) by (simp add: early_decision_def restored_def Let_def split: if_splits)
qed

lemma stored_schedulable:
  assumes "schedulable input c" "\<bar>t\<bar> \<le> max_time" "status_kept input status" "\<not> bad_time updatedAt"
    "parse_iso_text (Some now) = Some n" "\<And>e. fuc_expiresAtMs c = Some e \<Longrightarrow> time_of n < e"
  shows "schedulable (stored_again input now status updatedAt (iso_of_time t)) (restored c n status updatedAt t)"
proof -
  have "fuc_status c = js_trim (fua_status (fui_action input))"
    using schedulable_candidate [OF assms(1)] by (simp add: candidate_of_def)
  then show ?thesis using assms(1,6) stored_candidate [OF _ assms(2-5), of c] stored_early [OF _ _ assms(3), of c]
    by (cases "fuc_expiresAtMs c") (simp_all add: schedulable_def, simp_all add: restored_def)
qed

text \<open>A time that satisfies everything is kept by another computation.\<close>

lemma compute_kept:
  assumes "candidate_of input c" "computeFollowUpSchedule zones input c = Inr s" "\<not> fus_scheduleImpossible s"
    "fus_effectiveScheduledFor s = Some (iso_of_time t)" "\<bar>t\<bar> \<le> max_time" "in_business_hours zones (fui_policy input) t"
    "input_now input \<le> time_of n"
  obtains s' where "computeFollowUpSchedule zones (stored_again input now status updatedAt (iso_of_time t)) (restored c n status updatedAt t) = Inr s'"
    "\<not> fus_scheduleImpossible s'" "fus_effectiveScheduledFor s' = Some (iso_of_time t)" "\<not> fus_outsideBusinessHours s'"
    "fus_reasons s' = []" "\<not> fus_scheduleChanged s'"
proof -
  have fields: "fuv_lastInboundAt (fuc_activity c) = parse_iso_text (fuv_lastInboundAt (fui_activity input))"
    "fuv_lastOutboundAt (fuc_activity c) = parse_iso_text (fuv_lastOutboundAt (fui_activity input))"
    "fuc_scheduledForMs c = map_option time_of (fuc_scheduledFor c)" "fuc_nowMs c = input_now input"
    "fuc_expiresAtMs c = instant_of (fua_expiresAt (fui_action input))"
    using assms(1) by (simp_all add: candidate_of_def normalized_activity_def instant_of_def)
  obtain original ib ob ci where
    ib: "cooldown_after (parse_iso_text (fuv_lastInboundAt (fui_activity input))) (fup_cooldownMinutesAfterInbound (fui_policy input)) = Inr ib"
    and ob: "cooldown_after (parse_iso_text (fuv_lastOutboundAt (fui_activity input))) (fup_cooldownMinutesAfterOutbound (fui_policy input)) = Inr ob"
    and ends: "Option.bind ib date_parse = inbound_end input" "Option.bind ob date_parse = outbound_end input"
    and ci: "iso_option (maxNullable [inbound_end input, outbound_end input]) = Inr ci"
    by (rule compute_cooldowns [OF assms(2,3) fields(1-3) inbound_end_def outbound_end_def]) (rule that)
  obtain original moved t' where run: "business_time zones (fui_policy input) (input_now input) (cooled_time input original) = Inr (Some (moved, t'))"
    "\<bar>t'\<bar> \<le> max_time" "t' \<le> input_now input + fup_maxFutureDays (fui_policy input) * 86400000"
    "\<And>e. instant_of (fua_expiresAt (fui_action input)) = Some e \<Longrightarrow> t' \<le> e" "fus_effectiveScheduledFor s = Some (iso_of_time t')"
    by (rule computed_time [OF assms(1-3)]) (rule that)
  have t: "t' = t" using assms(4,5) run(2,5) by (metis option.inject time_of_iso)
  have after: "cooled_time input original \<le> t" using business_time_after [OF run(1)] t by simp
  have ends_before: "\<not> (case inbound_end input of None \<Rightarrow> False | Some x \<Rightarrow> x > t)" "\<not> (case outbound_end input of None \<Rightarrow> False | Some x \<Rightarrow> x > t)"
    using cooled_time_bounds(2,3) [of input _ original] after by (force split: option.splits)+
  have kept: "max t (case maxNullable [inbound_end input, outbound_end input] of None \<Rightarrow> t | Some e \<Rightarrow> e) = t"
    using cooled_time_idem [OF after] by (simp add: cooled_time_def)
  have "\<not> (case fuc_expiresAtMs c of None \<Rightarrow> False | Some e \<Rightarrow> t > e)" using run(4) t fields(5) by (auto split: option.splits)
  moreover have "t \<le> time_of n + fup_maxFutureDays (fui_policy input) * 86400000" using run(3) t assms(7) by linarith
  ultimately show thesis
    using that run(2) business_time_kept [OF assms(6), of "time_of n"] ends_before
    by (simp add: computeFollowUpSchedule_def restored_def Let_def fields ib ob ends ci kept t printed_time)
qed

text \<open>
  A replanned time is kept by a later evaluation before the expiry, whatever status of the two it is stored with: the
  follow-up is ready once the time has come, and waits for it until then.
\<close>

lemma replanned_time_settles:
  assumes "evaluateFollowUpSchedule zones input = Inr r" "fur_decision r = Fd_replan"
    "Fr_stale_action_context \<notin> set (fur_reasons r)" "fur_nextScheduledFor r = Some at"
    "daylight_zone zones (fup_businessTimezone (fui_policy input)) (fup_businessStartHour (fui_policy input))"
    "day_hours (fui_policy input)" "modern (input_now input)"
    "status_kept input status" "\<not> bad_time updatedAt"
    "instant_of (Some now) = Some later" "input_now input \<le> later"
    "\<And>e. instant_of (fua_expiresAt (fui_action input)) = Some e \<Longrightarrow> later < e"
  shows "\<exists>t r'. instant_of (Some at) = Some t \<and> evaluateFollowUpSchedule zones (stored_again input now status updatedAt at) = Inr r' \<and>
    fur_decision r' = (if t \<le> later then Fd_ready else Fd_wait) \<and> fur_effectiveScheduledFor r' = Some at"
proof -
  obtain c s reasons due outside where run: "schedulable input c" "computeFollowUpSchedule zones input c = Inr s"
    "\<not> fus_scheduleImpossible s" "scheduled_decision c s = (Fd_replan, reasons, due, outside)" "fur_reasons r = js_unique reasons"
    "fur_nextScheduledFor r = fus_effectiveScheduledFor s"
    by (rule evaluate_scheduledE [OF assms(1)]) (use assms(2) in auto)
  have c: "candidate_of input c" by (rule schedulable_candidate [OF run(1)])
  obtain original moved t where t: "business_time zones (fui_policy input) (input_now input) (cooled_time input original) = Inr (Some (moved, t))"
    "\<bar>t\<bar> \<le> max_time" "fus_effectiveScheduledFor s = Some (iso_of_time t)"
    by (rule computed_time [OF c run(2,3)]) (rule that)
  obtain n where n: "parse_iso_text (Some now) = Some n" "time_of n = later" using assms(10) by (auto simp: instant_of_def)
  have alive: "\<And>e. fuc_expiresAtMs c = Some e \<Longrightarrow> time_of n < e" using c assms(12) n(2) by (simp add: candidate_of_def)
  have at: "at = iso_of_time t" using assms(4) run(6) t(3) by simp
  have hours: "in_business_hours zones (fui_policy input) t" by (rule business_time_hours [OF assms(5-7) t(1)])
  define c' where "c' = restored c n status updatedAt t"
  obtain s' where s': "computeFollowUpSchedule zones (stored_again input now status updatedAt at) c' = Inr s'" "\<not> fus_scheduleImpossible s'"
    "fus_effectiveScheduledFor s' = Some at" "\<not> fus_outsideBusinessHours s'" "fus_reasons s' = []" "\<not> fus_scheduleChanged s'"
    unfolding at c'_def by (rule compute_kept [OF c run(2,3) t(3,2) hours, of n]) (use n(2) assms(11) that in auto)
  have sch: "schedulable (stored_again input now status updatedAt at) c'"
    unfolding at c'_def by (rule stored_schedulable [OF run(1) t(2) assms(8,9) n(1) alive])
  have "\<not> hasStaleContext c" using run(4,5) assms(3) by (auto simp: scheduled_decision_def Let_def split: if_splits)
  then have fresh: "\<not> hasStaleContext c'" by (cases "fuc_opportunityStageChangedAtMs c") (simp_all add: hasStaleContext_def c'_def restored_def)
  obtain d reasons' due' outside' where d: "scheduled_decision c' s' = (d, reasons', due', outside')" using prod_cases4 by blast
  have "fuc_nowMs c' = later" using n(2) by (simp add: c'_def restored_def)
  then have "d = (if t \<le> later then Fd_ready else Fd_wait)"
    using d s'(3-6) fresh at t(2) by (auto simp: scheduled_decision_def Let_def split: if_splits)
  moreover have "instant_of (Some at) = Some t" using at t(2) by (simp add: instant_of_def)
  ultimately show ?thesis using evaluate_schedulable [OF sch s'(1,2) d] s'(3) by auto
qed

text \<open>
  A replanned time is final: storing it as the scheduled time and evaluating again at the same instant
  neither moves it nor asks for another plan, unless the plan came from a stale context.\<close>

theorem replanned_time_is_kept:
  assumes "evaluateFollowUpSchedule zones input = Inr r" "fur_decision r = Fd_replan"
    "Fr_stale_action_context \<notin> set (fur_reasons r)" "fur_nextScheduledFor r = Some at"
    "daylight_zone zones (fup_businessTimezone (fui_policy input)) (fup_businessStartHour (fui_policy input))"
    "day_hours (fui_policy input)" "modern (input_now input)"
  shows "\<exists>r'. evaluateFollowUpSchedule zones (rescheduled input at) = Inr r' \<and> fur_decision r' \<in> {Fd_ready, Fd_wait} \<and>
    fur_effectiveScheduledFor r' = Some at"
proof -
  obtain c where c: "schedulable input c" by (rule evaluate_scheduledE [OF assms(1)]) (use assms(2) in auto)
  then have "\<not> bad_time (fua_updatedAt (fui_action input))" unfolding schedulable_def valid_candidate_eq good_times_def by blast
  moreover have "instant_of (Some (fui_now input)) = Some (input_now input)" using c
    by (auto simp: schedulable_def instant_of_def input_now_def elim!: valid_candidate)
  moreover have "instant_of (fua_expiresAt (fui_action input)) = Some e \<Longrightarrow> input_now input < e" for e
    using c schedulable_candidate [OF c] by (simp add: schedulable_def candidate_of_def)
  moreover have "status_kept input (fua_status (fui_action input))" by (simp add: status_kept_def)
  ultimately show ?thesis unfolding rescheduled_stored
    using replanned_time_settles [OF assms, of "fua_status (fui_action input)" "fua_updatedAt (fui_action input)" "fui_now input" "input_now input"]
    by fastforce
qed

text \<open>An instant of business hours is its own window.\<close>

lemma next_window_now:
  assumes "zones (fup_businessTimezone policy) = Some offset" "modern nowMs" "fup_businessHoursEnabled policy"
    "in_business_hours zones policy nowMs" "c \<le> nowMs" "\<bar>offset nowMs\<bar> < ms_per_day"
  shows "findNextBusinessWindowStart zones nowMs c policy = Inr (Some nowMs)"
proof -
  define l where "l = nowMs + offset nowMs"
  define ref where "ref = parts_of_local l"
  have parts: "getLocalParts zones (Some nowMs) (fup_businessTimezone policy) = Inr ref" "\<bar>nowMs\<bar> \<le> max_time"
    and open_now: "lp_weekday ref \<in> set (fup_businessDays policy)" "lp_hour ref \<ge> fup_businessStartHour policy"
      "lp_hour ref < fup_businessEndHour policy"
    using assms(1,3,4) by (auto simp: in_business_hours_def isBusinessHoursCandidate_def bind_result_Inr_iff getLocalParts_Inr
        ref_def l_def)
  have "- 25560 * ms_per_day \<le> l" "l < 100000001 * ms_per_day" using assms(2,6) parts(2) unfolding l_def modern_def by linarith+
  then have "- 25560 \<le> l div ms_per_day" "l div ms_per_day \<le> 100000000" by linarith+
  then have l: "- 25567 \<le> l div ms_per_day" "\<bar>l div ms_per_day * ms_per_day\<bar> \<le> max_time" by linarith+
  have "date_utc (lp_year ref) (lp_month ref) (lp_day ref) 0 0 0 = Some (l div ms_per_day * ms_per_day)"
    using date_utc_parts [OF l(1) ref_def [symmetric], of 0 0 0 0] l(2) by (simp add: time_clip_def)
  then show ?thesis
    using parts open_now assms(5) parts_day(3) [OF ref_def [symmetric]] by (simp add: findNextBusinessWindowStart_def Let_def)
qed

lemma cooldown_over:
  assumes "cooldown_end (parse_iso_text message) minutes = e" "\<And>x. e = Some x \<Longrightarrow> x \<le> now" "\<bar>now\<bar> \<le> max_time"
  obtains ends where "cooldown_after (parse_iso_text message) minutes = Inr ends" "Option.bind ends date_parse = e"
    "\<And>x. e = Some x \<Longrightarrow> \<bar>x\<bar> \<le> max_time"
proof (cases "parse_iso_text message")
  case None
  then show thesis using that assms(1) by (simp add: cooldown_after_def cooldown_end_def)
next
  case (Some at)
  then obtain a where a: "\<bar>a\<bar> \<le> max_time" "at = iso_of_time a" by (rule parse_iso_textE)
  then have e: "e = Some (a + max 0 minutes * 60000)" using assms(1) Some by (simp add: cooldown_end_def)
  then have "\<bar>a + max 0 minutes * 60000\<bar> \<le> max_time" using assms(2,3) a(1) by (force simp: abs_le_iff max_def)
  then show thesis
    using that a e Some
    by (simp add: cooldown_after_def addMinutes_def date_parse_iso_of_time printed_time)
qed

lemma compute_due:
  assumes c: "candidate_of input c" and original: "instant_of (fua_scheduledFor (fui_action input)) = Some original"
    and cooled: "cooled_time input original \<le> input_now input"
    and time: "business_time zones (fui_policy input) (input_now input) (cooled_time input original) = Inr (Some (moved, t))"
    and due: "t \<le> input_now input" and days: "0 \<le> fup_maxFutureDays (fui_policy input)"
    and alive: "\<not> (case fuc_expiresAtMs c of None \<Rightarrow> False | Some e \<Rightarrow> fuc_nowMs c \<ge> e)"
  obtains s where "computeFollowUpSchedule zones input c = Inr s" "\<not> fus_scheduleImpossible s"
    "fus_effectiveScheduledFor s = Some (iso_of_time t)" "\<bar>t\<bar> \<le> max_time"
proof -
  have now: "\<bar>input_now input\<bar> \<le> max_time" using c by (simp add: candidate_of_def)
  obtain sf where sf: "parse_iso_text (fua_scheduledFor (fui_action input)) = Some sf" "time_of sf = original"
    using original by (auto simp: instant_of_def)
  have t: "\<bar>t\<bar> \<le> max_time" using business_time_after [OF time] cooled_time_bounds(1) [of original input] instant_of_range [OF original] due now by linarith
  have ends: "\<And>x. inbound_end input = Some x \<Longrightarrow> x \<le> input_now input" "\<And>x. outbound_end input = Some x \<Longrightarrow> x \<le> input_now input"
    using cooled_time_bounds(2,3) [of input _ original] cooled by force+
  obtain ib where ib: "cooldown_after (parse_iso_text (fuv_lastInboundAt (fui_activity input))) (fup_cooldownMinutesAfterInbound (fui_policy input)) = Inr ib"
    "Option.bind ib date_parse = inbound_end input" "\<And>x. inbound_end input = Some x \<Longrightarrow> \<bar>x\<bar> \<le> max_time"
    by (rule cooldown_over [OF inbound_end_def [of input, symmetric] _ now]) (erule ends(1), rule that)
  obtain ob where ob: "cooldown_after (parse_iso_text (fuv_lastOutboundAt (fui_activity input))) (fup_cooldownMinutesAfterOutbound (fui_policy input)) = Inr ob"
    "Option.bind ob date_parse = outbound_end input" "\<And>x. outbound_end input = Some x \<Longrightarrow> \<bar>x\<bar> \<le> max_time"
    by (rule cooldown_over [OF outbound_end_def [of input, symmetric] _ now]) (erule ends(2), rule that)
  have "\<And>x. maxNullable [inbound_end input, outbound_end input] = Some x \<Longrightarrow> \<bar>x\<bar> \<le> max_time"
    using ib(3) ob(3)
    by (cases "inbound_end input"; cases "outbound_end input") (auto simp: maxNullable_def List.map_filter_def max_def split: if_splits)
  then obtain ci where ci: "iso_option (maxNullable [inbound_end input, outbound_end input]) = Inr ci"
    by (cases "maxNullable [inbound_end input, outbound_end input]") (auto simp: iso_option_def printed_time)
  have fields: "fuv_lastInboundAt (fuc_activity c) = parse_iso_text (fuv_lastInboundAt (fui_activity input))"
    "fuv_lastOutboundAt (fuc_activity c) = parse_iso_text (fuv_lastOutboundAt (fui_activity input))"
    "fuc_scheduledFor c = Some sf" "fuc_scheduledForMs c = Some original" "fuc_nowMs c = input_now input"
    using c sf by (simp_all add: candidate_of_def normalized_activity_def instant_of_def)
  have early: "t \<le> input_now input + fup_maxFutureDays (fui_policy input) * 86400000" "\<not> (case fuc_expiresAtMs c of None \<Rightarrow> False | Some e \<Rightarrow> t > e)"
    using due days alive fields(5) by (auto split: option.splits)
  show thesis
    using that t early time
    by (simp add: computeFollowUpSchedule_def Let_def fields ib(1,2) ob(1,2) ci printed_time cooled_time_def)
qed

text \<open>
  A follow-up that may be scheduled becomes ready: when its time and both cooldowns have come, its context
  is not stale and it is business time, now or at that time, the decision is to send it.\<close>

theorem due_follow_up_is_ready:
  assumes "schedulable input c" "\<not> hasStaleContext c" "instant_of (fua_scheduledFor (fui_action input)) = Some original"
    "cooled_time input original \<le> input_now input" "0 \<le> fup_maxFutureDays (fui_policy input)"
    "zones (fup_businessTimezone (fui_policy input)) = Some offset" "\<bar>offset (input_now input)\<bar> < ms_per_day" "modern (input_now input)"
    "in_business_hours zones (fui_policy input) (input_now input) \<or> in_business_hours zones (fui_policy input) (cooled_time input original)"
  shows "\<exists>r. evaluateFollowUpSchedule zones input = Inr r \<and> fur_decision r = Fd_ready"
proof -
  have c: "candidate_of input c" by (rule schedulable_candidate [OF assms(1)])
  let ?policy = "fui_policy input" and ?now = "input_now input" and ?cooled = "cooled_time input original"
  have "\<bar>?now\<bar> \<le> max_time" using c by (simp add: candidate_of_def)
  then have range: "\<bar>?cooled\<bar> \<le> max_time"
    using instant_of_range [OF assms(3)] cooled_time_bounds(1) [of original input] assms(4) by linarith
  have "\<exists>moved t. business_time zones ?policy ?now ?cooled = Inr (Some (moved, t)) \<and> t \<le> ?now"
  proof (cases "fup_businessHoursEnabled ?policy")
    case True
    have "getLocalParts zones (Some ?cooled) (fup_businessTimezone ?policy) = Inr (parts_of_local (?cooled + offset ?cooled))"
      using assms(6) range by (auto simp: getLocalParts_Inr)
    then have "\<exists>inside. isBusinessHoursCandidate zones ?cooled ?policy = Inr inside"
      using True by (simp add: isBusinessHoursCandidate_def)
    then obtain inside where inside: "isBusinessHoursCandidate zones ?cooled ?policy = Inr inside" by blast
    show ?thesis
    proof (cases inside)
      case False
      then have "in_business_hours zones ?policy ?now" using assms(9) inside by (simp add: in_business_hours_def)
      then show ?thesis using next_window_now [of zones ?policy offset ?now ?cooled] assms(4,6,7,8) inside False True by (auto simp: business_time_def True)
    qed (use inside assms(4) in \<open>auto simp: business_time_def\<close>)
  qed (use assms(4) in \<open>auto simp: business_time_def\<close>)
  then obtain moved t where t: "business_time zones (fui_policy input) (input_now input) (cooled_time input original) = Inr (Some (moved, t))"
    "t \<le> input_now input" by blast
  obtain s where s: "computeFollowUpSchedule zones input c = Inr s" "\<not> fus_scheduleImpossible s"
    "fus_effectiveScheduledFor s = Some (iso_of_time t)" "\<bar>t\<bar> \<le> max_time"
    by (rule compute_due [OF c assms(3,4) t assms(5)]) (use assms(1) that in \<open>auto simp: schedulable_def\<close>)
  obtain d reasons due outside where d: "scheduled_decision c s = (d, reasons, due, outside)" using prod_cases4 by blast
  have "fuc_nowMs c = input_now input" using c by (simp add: candidate_of_def)
  then have "d = Fd_ready" using scheduled_ready_iff [OF d] assms(2) s(3,4) t(2) by simp
  then show ?thesis using evaluate_schedulable [OF assms(1) s(1,2) d] by blast
qed

text \<open>A well-formed result.\<close>

definition wf_result :: "fu_result \<Rightarrow> bool" where
  "wf_result r \<longleftrightarrow> (fur_actionable r = (fur_decision r = Fd_ready)) \<and> fur_reasons r \<noteq> [] \<and> distinct (fur_reasons r) \<and>
     (fur_nextScheduledFor r = (if fur_decision r = Fd_replan then fur_effectiveScheduledFor r else None)) \<and>
     (fut_expired (fur_timing r) = (fur_decision r = Fd_expire)) \<and> (fut_due (fur_timing r) \<or> fur_decision r \<noteq> Fd_ready) \<and>
     0 \<le> fuy_attemptsRemaining (fur_retry r) \<and> fuy_attemptsRemaining (fur_retry r) \<le> fuy_maxAttempts (fur_retry r) \<and>
     0 \<le> fuy_attemptCount (fur_retry r) \<and> fur_sideEffects r = no_fu_effects"

lemma wf_result_build [simp]:
  "wf_result (buildFollowUpDecision d actionId reasons warnings original effective next_time timing retry) \<longleftrightarrow>
     reasons \<noteq> [] \<and> next_time = (if d = Fd_replan then effective else None) \<and> fut_expired timing = (d = Fd_expire) \<and>
     (fut_due timing \<or> d \<noteq> Fd_ready) \<and> 0 \<le> fuy_attemptsRemaining retry \<and>
     fuy_attemptsRemaining retry \<le> fuy_maxAttempts retry \<and> 0 \<le> fuy_attemptCount retry"
  by (simp add: wf_result_def buildFollowUpDecision_def)

lemma scheduled_decision_wf:
  "scheduled_decision c s = (d, reasons, due, outside) \<Longrightarrow> reasons \<noteq> [] \<and> (due \<or> d \<noteq> Fd_ready) \<and> d \<noteq> Fd_expire"
  by (auto simp: scheduled_decision_def Let_def split: if_splits)

text \<open>
  C40. The shape of a result: only a ready one is actionable, only a replanned one suggests a time, only an expired
  one is marked expired, the reasons are a non-empty set, the attempts left are in range, and the
  evaluation itself has no side effects.\<close>

theorem follow_up_result_wf:
  assumes "evaluateFollowUpSchedule zones input = Inr r"
  shows "wf_result r"
proof (cases "fuw_candidate (validateFollowUpCandidate input)")
  case None
  then show ?thesis using assms valid_candidate_iff [of input]
    by (auto simp: evaluateFollowUpSchedule_def Let_def makeInvalidResult_def)
next
  case (Some c)
  have c: "0 \<le> fuc_attemptCount c" "0 \<le> fuc_maxAttempts c" "fuw_valid (validateFollowUpCandidate input)"
    using validated_candidate [OF Some] valid_candidate_iff [of input] Some by (auto simp: candidate_of_def)
  show ?thesis
  proof (cases "early_decision input c")
    case early: (Some e)
    obtain d reason where e: "e = (d, reason)" by fastforce
    show ?thesis using assms Some c early early_decision_kind [OF early [unfolded e]] e
      by (auto simp: evaluateFollowUpSchedule_def Let_def)
  next
    case None
    then show ?thesis using assms Some c
      by (auto simp: evaluateFollowUpSchedule_def Let_def bind_result_Inr_iff split: if_splits prod.splits
          dest!: scheduled_decision_wf)
  qed
qed

definition range_error :: "'a result \<Rightarrow> bool" where
  "range_error r \<longleftrightarrow> (\<exists>text. r = Inl (RangeError text))"

lemma range_error_bind:
  "(\<And>e. r = Inl e \<Longrightarrow> \<exists>text. e = RangeError text) \<Longrightarrow> (\<And>a. range_error (f a)) \<Longrightarrow> range_error (bind_result r f)"
  by (cases r) (auto simp: range_error_def)

lemma cooldown_error: "cooldown_after message minutes = Inl e \<Longrightarrow> \<exists>text. e = RangeError text"
  by (auto simp: cooldown_after_def addMinutes_def to_iso_string_def split: option.splits)

lemma iso_option_error: "iso_option t = Inl e \<Longrightarrow> \<exists>text. e = RangeError text"
  by (auto simp: iso_option_def to_iso_string_def split: option.splits)

text \<open>
  The policy is validated with a time zone (\<open>UTC\<close> when it is blank), but the schedule is computed with the zone of
  the raw policy: where \<open>Intl\<close> does not know that name, the evaluation of an otherwise good follow-up throws.\<close>

theorem unknown_zone_throws:
  assumes "schedulable input c" "fup_businessHoursEnabled (fui_policy input)" "zones (fup_businessTimezone (fui_policy input)) = None"
  shows "\<exists>message. evaluateFollowUpSchedule zones input = Inl (RangeError message)"
proof -
  obtain sf where c: "fuc_scheduledFor c = Some sf" "fuc_scheduledForMs c = Some (time_of sf)"
    using assms(1) schedulable_candidate [OF assms(1)] by (auto simp: schedulable_def candidate_of_def instant_of_def)
  have closed: "range_error (bind_result (business_time zones (fui_policy input) now t) f)" for now t f
    using assms(2,3) by (simp add: business_time_def isBusinessHoursCandidate_def getLocalParts_def range_error_def)
  have "range_error (computeFollowUpSchedule zones input c)"
    unfolding computeFollowUpSchedule_def Let_def c option.case
    by (rule range_error_bind, erule cooldown_error, rule range_error_bind, erule cooldown_error,
      rule range_error_bind, erule iso_option_error, rule closed)
  then show ?thesis using assms(1) valid_candidate_iff [of input]
    by (auto simp: schedulable_def evaluateFollowUpSchedule_def Let_def range_error_def)
qed

text \<open>Where cooldowns are not replanned, a follow-up that only waits for its own time reports an active cooldown,
  whether or not that cooldown has ended.\<close>

theorem ended_cooldown_is_reported:
  assumes "schedulable input c" "\<not> hasStaleContext c" "computeFollowUpSchedule zones input c = Inr s" "\<not> fus_scheduleImpossible s"
    "fus_effectiveScheduledFor s = Some e" "fuc_nowMs c < time_of e" "\<not> fus_scheduleChanged s" "\<not> fus_outsideBusinessHours s"
    "fus_cooldownUntil s \<noteq> None" "\<not> fup_replanAfterCooldown (fui_policy input)"
  shows "\<exists>r. evaluateFollowUpSchedule zones input = Inr r \<and> fur_decision r = Fd_wait \<and> fur_reasons r = [Fr_cooldown_active]"
proof -
  have "\<not> fup_replanAfterCooldown (fuc_policy c)"
    using schedulable_candidate [OF assms(1)] assms(10) by (simp add: candidate_of_def normalized_policy_def)
  then have "\<exists>due outside. scheduled_decision c s = (Fd_wait, [Fr_cooldown_active], due, outside)"
    using assms(2,5-9) by (auto simp: scheduled_decision_def Let_def)
  then obtain due outside where d: "scheduled_decision c s = (Fd_wait, [Fr_cooldown_active], due, outside)" by blast
  show ?thesis using evaluate_schedulable [OF assms(1,3,4) d] by (auto simp: js_unique_id)
qed

section \<open>Witnesses\<close>

definition sample_follow_up :: "string \<Rightarrow> string \<Rightarrow> fu_input" where
  "sample_follow_up now scheduledFor =
     \<lparr>fui_now = now,
      fui_action = \<lparr>fua_actionId = ''act-1'', fua_idempotencyKey = Some ''key-1'', fua_actionType = ''send_followup_message'',
        fua_status = ''scheduled'', fua_createdAt = ''2024-05-01T12:00:00.000Z'', fua_updatedAt = None,
        fua_scheduledFor = Some scheduledFor, fua_expiresAt = Some ''2024-05-20T00:00:00.000Z'', fua_attemptCount = 0,
        fua_maxAttempts = 2, fua_riskLevel = ''low'', fua_approvalRequirement = ''operator_review'', fua_opportunityId = None,
        fua_conversationCaseId = None, fua_waId = None, fua_blockReasons = [], fua_cancelReason = None\<rparr>,
      fui_activity = \<lparr>fuv_lastInboundAt = None, fuv_lastOutboundAt = Some ''2024-05-01T10:00:00.000Z'',
        fuv_lastHumanMessageAt = None, fuv_lastAiMessageAt = None\<rparr>,
      fui_context = \<lparr>fux_caseStatus = Some ''open'', fux_lifecycleStatus = None, fux_humanOwnerActive = False,
        fux_aiBlocked = False, fux_requiresHuman = False, fux_opportunityStatus = Some ''open'', fux_opportunityStage = None,
        fux_opportunityStageChangedAt = None, fux_policyStatus = None, fux_conflictingActionExists = False,
        fux_duplicateActionExists = False\<rparr>,
      fui_policy = \<lparr>fup_followUpEnabled = True, fup_allowedActionTypes = [''send_followup_message''], fup_maxRiskLevel = ''medium'',
        fup_cooldownMinutesAfterInbound = 60, fup_cooldownMinutesAfterOutbound = 1440, fup_businessHoursEnabled = True,
        fup_businessTimezone = ''America/Santiago'', fup_businessDays = [1, 2, 3, 4, 5], fup_businessStartHour = 9,
        fup_businessEndHour = 18, fup_replanOutsideBusinessHours = True, fup_replanAfterCooldown = True,
        fup_requireExpiry = True, fup_maxFutureDays = 30\<rparr>\<rparr>"

text \<open>Chile in 2024: four hours behind UTC from 7 April to 8 September, three hours before and after.\<close>

definition sample_zones :: time_zones where
  "sample_zones name = (if name = ''America/Santiago''
     then Some (\<lambda>x. if x < 1712458800000 then - 10800000 else if x < 1725768000000 then - 14400000 else - 10800000) else None)"

definition sample_decision :: "string \<Rightarrow> string \<Rightarrow> (fu_decision \<times> fu_reason list \<times> string option) option" where
  "sample_decision now scheduledFor = (case evaluateFollowUpSchedule sample_zones (sample_follow_up now scheduledFor) of
     Inl e \<Rightarrow> None | Inr r \<Rightarrow> Some (fur_decision r, fur_reasons r, fur_nextScheduledFor r))"

lemma sample_run:
  "sample_decision now scheduledFor = Some (d, reasons, at) \<Longrightarrow>
     \<exists>r. evaluateFollowUpSchedule sample_zones (sample_follow_up now scheduledFor) = Inr r \<and> fur_decision r = d \<and>
       fur_reasons r = reasons \<and> fur_nextScheduledFor r = at"
  by (auto simp: sample_decision_def split: sum.splits)

lemma sample_ready:
  "\<exists>r. evaluateFollowUpSchedule sample_zones (sample_follow_up ''2024-05-06T15:00:00.000Z'' ''2024-05-06T14:00:00.000Z'') = Inr r \<and>
     fur_decision r = Fd_ready \<and> fur_reasons r = [Fr_scheduled_time_reached] \<and> fur_nextScheduledFor r = None"
  by (rule sample_run) code_simp

lemma sample_replan:
  "\<exists>r. evaluateFollowUpSchedule sample_zones (sample_follow_up ''2024-05-03T12:00:00.000Z'' ''2024-05-04T14:00:00.000Z'') = Inr r \<and>
     fur_decision r = Fd_replan \<and> fur_reasons r = [Fr_replanned_for_business_hours] \<and>
     fur_nextScheduledFor r = Some ''2024-05-06T13:00:00.000Z''"
  by (rule sample_run) code_simp

lemma sample_policy: "fup_businessTimezone (fui_policy (sample_follow_up now scheduledFor)) = ''America/Santiago''"
  "fup_businessStartHour (fui_policy (sample_follow_up now scheduledFor)) = 9" "day_hours (fui_policy (sample_follow_up now scheduledFor))"
  by (simp_all add: sample_follow_up_def day_hours_def)

lemma sample_daylight: "daylight_zone sample_zones ''America/Santiago'' 9"
proof -
  define offset :: "int \<Rightarrow> int" where "offset x = (if x < 1712458800000 then - 10800000 else if x < 1725768000000 then - 14400000 else - 10800000)" for x
  have "\<exists>change before after. \<forall>x. \<bar>x - c\<bar> \<le> ms_per_day \<longrightarrow> offset x = (if x < change then before else after)" for c
  proof (cases "c + ms_per_day < 1725768000000")
    case True
    then show ?thesis
      by (intro exI [of _ 1712458800000] exI [of _ "- 10800000"] exI [of _ "- 14400000"]) (auto simp: offset_def abs_le_iff)
  next
    case False
    then show ?thesis
      by (intro exI [of _ 1725768000000] exI [of _ "- 14400000"] exI [of _ "- 10800000"]) (auto simp: offset_def abs_le_iff)
  qed
  moreover have "\<exists>x. x + offset x = d * ms_per_day + 9 * 3600000" for d :: int
  proof (cases "d * ms_per_day + 43200000 < 1712458800000 \<or> 1725768000000 \<le> d * ms_per_day + 43200000")
    case True
    then show ?thesis by (intro exI [of _ "d * ms_per_day + 43200000"]) (auto simp: offset_def)
  next
    case False
    then show ?thesis by (intro exI [of _ "d * ms_per_day + 46800000"]) (simp add: offset_def, presburger?)
  qed
  ultimately show ?thesis by (auto simp: daylight_zone_def sample_zones_def offset_def)
qed

lemma sample_santiago: "sample_zones (fup_businessTimezone (fui_policy (sample_follow_up now scheduledFor))) =
    Some (\<lambda>x. if x < 1712458800000 then - 10800000 else if x < 1725768000000 then - 14400000 else - 10800000)"
  unfolding sample_policy(1) by (simp add: sample_zones_def)

lemma sample_zone: "daylight_zone sample_zones (fup_businessTimezone (fui_policy (sample_follow_up now scheduledFor)))
    (fup_businessStartHour (fui_policy (sample_follow_up now scheduledFor)))"
  "day_hours (fui_policy (sample_follow_up now scheduledFor))"
  unfolding sample_policy(1,2) by (rule sample_daylight) (rule sample_policy)

lemma sample_modern:
  "modern (input_now (sample_follow_up ''2024-05-06T15:00:00.000Z'' scheduledFor))"
  "modern (input_now (sample_follow_up ''2024-05-03T12:00:00.000Z'' scheduledFor))"
proof -
  have "map_option time_of (parse_iso_text (Some ''2024-05-06T15:00:00.000Z'')) = Some 1715007600000"
    "map_option time_of (parse_iso_text (Some ''2024-05-03T12:00:00.000Z'')) = Some 1714737600000" by code_simp+
  then show "modern (input_now (sample_follow_up ''2024-05-06T15:00:00.000Z'' scheduledFor))"
    "modern (input_now (sample_follow_up ''2024-05-03T12:00:00.000Z'' scheduledFor))"
    by (auto simp: input_now_def sample_follow_up_def modern_def)
qed

theorem ready_follow_up_is_allowed_witness:
  "\<exists>r. evaluateFollowUpSchedule sample_zones (sample_follow_up ''2024-05-06T15:00:00.000Z'' ''2024-05-06T14:00:00.000Z'') = Inr r \<and>
     fur_decision r = Fd_ready \<and>
     within_risk (fua_riskLevel (fui_action (sample_follow_up ''2024-05-06T15:00:00.000Z'' ''2024-05-06T14:00:00.000Z'')))
       (fup_maxRiskLevel (fui_policy (sample_follow_up ''2024-05-06T15:00:00.000Z'' ''2024-05-06T14:00:00.000Z'')))"
  using sample_ready ready_follow_up_is_allowed by blast

theorem follow_up_time_bounds_witness:
  "\<exists>r t. evaluateFollowUpSchedule sample_zones (sample_follow_up ''2024-05-03T12:00:00.000Z'' ''2024-05-04T14:00:00.000Z'') = Inr r \<and>
     fur_decision r = Fd_replan \<and> fur_effectiveScheduledFor r = Some (iso_of_time t) \<and>
     t \<le> input_now (sample_follow_up ''2024-05-03T12:00:00.000Z'' ''2024-05-04T14:00:00.000Z'') +
       fup_maxFutureDays (fui_policy (sample_follow_up ''2024-05-03T12:00:00.000Z'' ''2024-05-04T14:00:00.000Z'')) * 86400000"
proof -
  obtain r where r: "evaluateFollowUpSchedule sample_zones (sample_follow_up ''2024-05-03T12:00:00.000Z'' ''2024-05-04T14:00:00.000Z'') = Inr r"
    "fur_decision r = Fd_replan" using sample_replan by blast
  then show ?thesis using follow_up_time_bounds [OF r(1)] by auto
qed

theorem follow_up_time_in_hours_witness:
  "\<exists>r t. evaluateFollowUpSchedule sample_zones (sample_follow_up ''2024-05-03T12:00:00.000Z'' ''2024-05-04T14:00:00.000Z'') = Inr r \<and>
     fur_decision r = Fd_replan \<and> fur_effectiveScheduledFor r = Some (iso_of_time t) \<and>
     in_business_hours sample_zones (fui_policy (sample_follow_up ''2024-05-03T12:00:00.000Z'' ''2024-05-04T14:00:00.000Z'')) t"
proof -
  obtain r where r: "evaluateFollowUpSchedule sample_zones (sample_follow_up ''2024-05-03T12:00:00.000Z'' ''2024-05-04T14:00:00.000Z'') = Inr r"
    "fur_decision r = Fd_replan" using sample_replan by blast
  then show ?thesis using follow_up_time_in_hours [OF r(1) _ sample_zone sample_modern(2)] by auto
qed

theorem replanned_time_is_kept_witness:
  "\<exists>r. evaluateFollowUpSchedule sample_zones
       (rescheduled (sample_follow_up ''2024-05-03T12:00:00.000Z'' ''2024-05-04T14:00:00.000Z'') ''2024-05-06T13:00:00.000Z'') = Inr r \<and>
     fur_decision r \<in> {Fd_ready, Fd_wait} \<and> fur_effectiveScheduledFor r = Some ''2024-05-06T13:00:00.000Z''"
proof -
  obtain r where r: "evaluateFollowUpSchedule sample_zones (sample_follow_up ''2024-05-03T12:00:00.000Z'' ''2024-05-04T14:00:00.000Z'') = Inr r"
    "fur_decision r = Fd_replan" "fur_reasons r = [Fr_replanned_for_business_hours]" "fur_nextScheduledFor r = Some ''2024-05-06T13:00:00.000Z''"
    using sample_replan by blast
  then show ?thesis by (intro replanned_time_is_kept [OF r(1,2) _ r(4) sample_zone sample_modern(2)]) simp
qed

lemma sample_schedulable:
  "\<exists>c. schedulable (sample_follow_up ''2024-05-06T15:00:00.000Z'' ''2024-05-06T14:00:00.000Z'') c \<and> \<not> hasStaleContext c"
proof -
  have "case fuw_candidate (validateFollowUpCandidate (sample_follow_up ''2024-05-06T15:00:00.000Z'' ''2024-05-06T14:00:00.000Z'')) of
      None \<Rightarrow> False
    | Some c \<Rightarrow> early_decision (sample_follow_up ''2024-05-06T15:00:00.000Z'' ''2024-05-06T14:00:00.000Z'') c = None \<and>
        fuc_attemptCount c < fuc_maxAttempts c \<and> \<not> (fup_requireExpiry (fuc_policy c) \<and> fuc_expiresAt c = None) \<and>
        \<not> (case fuc_expiresAtMs c of None \<Rightarrow> False | Some e \<Rightarrow> fuc_nowMs c \<ge> e) \<and> fuc_scheduledFor c \<noteq> None \<and> \<not> hasStaleContext c"
    by code_simp
  then show ?thesis by (auto simp: schedulable_def split: option.splits)
qed

theorem due_follow_up_is_ready_witness:
  "\<exists>r. evaluateFollowUpSchedule sample_zones (sample_follow_up ''2024-05-06T15:00:00.000Z'' ''2024-05-06T14:00:00.000Z'') = Inr r \<and>
     fur_decision r = Fd_ready"
proof -
  let ?input = "sample_follow_up ''2024-05-06T15:00:00.000Z'' ''2024-05-06T14:00:00.000Z''"
  let ?offset = "\<lambda>x :: int. if x < 1712458800000 then - 10800000 else if x < 1725768000000 then - 14400000 else - 10800000 :: int"
  obtain c where c: "schedulable (sample_follow_up ''2024-05-06T15:00:00.000Z'' ''2024-05-06T14:00:00.000Z'') c" "\<not> hasStaleContext c"
    using sample_schedulable by blast
  have "instant_of (Some ''2024-05-06T14:00:00.000Z'') = Some 1715004000000"
    "cooled_time (sample_follow_up ''2024-05-06T15:00:00.000Z'' ''2024-05-06T14:00:00.000Z'') 1715004000000 \<le>
       input_now (sample_follow_up ''2024-05-06T15:00:00.000Z'' ''2024-05-06T14:00:00.000Z'')"
    "isBusinessHoursCandidate sample_zones (input_now (sample_follow_up ''2024-05-06T15:00:00.000Z'' ''2024-05-06T14:00:00.000Z''))
       (fui_policy (sample_follow_up ''2024-05-06T15:00:00.000Z'' ''2024-05-06T14:00:00.000Z'')) = Inr True" by code_simp+
  moreover have "sample_zones (fup_businessTimezone (fui_policy ?input)) = Some ?offset" by (rule sample_santiago)
  moreover have "\<bar>?offset (input_now ?input)\<bar> < ms_per_day" by simp
  moreover have "0 \<le> fup_maxFutureDays (fui_policy ?input)" by (simp add: sample_follow_up_def)
  moreover have "fua_scheduledFor (fui_action ?input) = Some ''2024-05-06T14:00:00.000Z''" by (simp add: sample_follow_up_def)
  ultimately show ?thesis using c sample_modern(1) [of "''2024-05-06T14:00:00.000Z''"]
    by (intro due_follow_up_is_ready [where zones = sample_zones and input = ?input and original = 1715004000000 and offset = ?offset and c = c])
      (simp_all add: in_business_hours_def)
qed

theorem unknown_zone_throws_witness:
  "\<exists>message. evaluateFollowUpSchedule (\<lambda>_. None) (sample_follow_up ''2024-05-06T15:00:00.000Z'' ''2024-05-06T14:00:00.000Z'') =
     Inl (RangeError message)"
proof -
  obtain c where c: "schedulable (sample_follow_up ''2024-05-06T15:00:00.000Z'' ''2024-05-06T14:00:00.000Z'') c"
    using sample_schedulable by blast
  show ?thesis by (rule unknown_zone_throws [OF c]) (simp_all add: sample_follow_up_def)
qed

theorem follow_up_result_wf_witness:
  "\<exists>r. evaluateFollowUpSchedule sample_zones (sample_follow_up ''2024-05-03T12:00:00.000Z'' ''2024-05-04T14:00:00.000Z'') = Inr r \<and>
     wf_result r"
  using sample_replan follow_up_result_wf by blast

end
