(* ===== verification/FollowUpReplanSafety.thy ===== *)
theory FollowUpReplanSafety
  imports FollowUpReplan FollowUpSafety
begin

text \<open>
  What the mutation plans guarantee: the shape of a plan, its validity, the lineage of replaced
  actions over every history of applied plans, and that a plan is applied once or not at all.
\<close>

section \<open>The shape of a plan\<close>

text \<open>The original action is identified and its status may change, so that a plan can have operations.\<close>

definition mutable_original :: "fm_input \<Rightarrow> bool" where
  "mutable_original input \<longleftrightarrow> asText (Some (fmo_actionId (fmi_originalAction input))) \<noteq> None \<and>
     parse_iso_text (Some (fmi_now input)) \<noteq> None \<and>
     js_trim (fmo_status (fmi_originalAction input)) \<in> set FOLLOW_UP_MUTATION_ALLOWED_MUTABLE_STATUSES"

lemma digest_plan_simps [simp]:
  "fpl_planType (digest_plan digest input t r ops rs ws) = t"
  "fpl_actionId (digest_plan digest input t r ops rs ws) = fmo_actionId (fmi_originalAction input)"
  "fpl_replacementActionId (digest_plan digest input t r ops rs ws) = r"
  "fpl_operations (digest_plan digest input t r ops rs ws) = ops" "fpl_reasons (digest_plan digest input t r ops rs ws) = rs"
  "fpl_warnings (digest_plan digest input t r ops rs ws) = ws" "fpl_sideEffects (digest_plan digest input t r ops rs ws) = no_fm_effects"
  "fpl_createdAt (digest_plan digest input t r ops rs ws) = fmi_now input"
  by (simp_all add: digest_plan_def Let_def)

lemma mutation_patch_simps [simp]:
  "fmp_actionId (base_patch input s t) = fmo_actionId (fmi_originalAction input)"
  "fmp_expectedStatuses (base_patch input s t) = [fmo_status (fmi_originalAction input)]"
  "fmp_nextStatus (base_patch input s t) = s" "fmp_scheduledFor (base_patch input s t) = change_of t"
  "fmp_expiresAt (base_patch input s t) = Unset" "fmp_supersededByActionId (base_patch input s t) = Unset"
  "fmp_updatedAt (base_patch input s t) = fmi_now input"
  by (simp_all add: base_patch_def)

text \<open>An event that belongs to the original action of an input.\<close>

definition own_event :: "fm_input \<Rightarrow> string option \<Rightarrow> fm_event \<Rightarrow> bool" where
  "own_event input replacementActionId e \<longleftrightarrow> fme_actionId e = fmo_actionId (fmi_originalAction input) \<and>
     fme_createdAt e = fmi_now input \<and> fme_replacementActionId e = replacementActionId"

lemma own_audit_event [simp]: "own_event input r (audit_event digest input t reason r md)"
  by (simp add: own_event_def audit_event_def)

lemma own_replan_events: "e \<in> set (buildReplanAuditEvents digest input reason r) \<Longrightarrow> own_event input r e"
  by (auto simp: buildReplanAuditEvents_def split: if_splits)

text \<open>A patch of the original action that keeps its lineage, or that cancels it for a replacement.\<close>

definition plain_patch :: "fm_input \<Rightarrow> fm_patch \<Rightarrow> bool" where
  "plain_patch input p \<longleftrightarrow> fmp_actionId p = fmo_actionId (fmi_originalAction input) \<and>
     fmp_expectedStatuses p = [fmo_status (fmi_originalAction input)] \<and> fmp_updatedAt p = fmi_now input"

definition draft_of :: "fm_input \<Rightarrow> fm_replacement \<Rightarrow> bool" where
  "draft_of input d \<longleftrightarrow> fmr_parentActionId d = fmo_actionId (fmi_originalAction input) \<and> fmr_status d = ''scheduled'' \<and>
     fmr_createdAt d = fmi_now input \<and> fmr_updatedAt d = fmi_now input \<and>
     length (fmo_actionId (fmi_originalAction input)) < length (fmr_actionId d) \<and>
     fur_nextScheduledFor (fmi_schedulingResult input) = Some (fmr_scheduledFor d) \<and>
     fmr_expiresAt d = fmo_expiresAt (fmi_originalAction input)"

lemma replacement_draft:
  "buildReplacementDraft digest input reason = Inr d \<Longrightarrow> draft_of input d"
  by (auto simp: buildReplacementDraft_def draft_of_def buildReplacementActionId_def Let_def split: option.splits if_splits)

lemma draft_exists: "truthy (fur_nextScheduledFor (fmi_schedulingResult input)) \<Longrightarrow> \<exists>d. buildReplacementDraft digest input reason = Inr d"
  by (auto simp: buildReplacementDraft_def truthy_def Let_def)

lemma audited_events: "\<exists>es'. audited input ops es = ops @ map Append_audit_event es' \<and> set es' \<subseteq> set es \<and>
    (es' = [] \<longleftrightarrow> \<not> fml_requireAuditEvent (fmi_policy input) \<or> es = [])"
  by (auto simp: audited_def intro: exI [of _ es] exI [of _ "[]"])

definition patch_plan_types :: "fm_plan_type list" where
  "patch_plan_types = [Fp_cancel_action, Fp_expire_action, Fp_block_action, Fp_replan_action]"

definition replace_plan_types :: "fm_plan_type list" where
  "replace_plan_types = [Fp_supersede_action, Fp_cancel_and_create_replacement]"

text \<open>Every plan is idle, patches the original action, or patches it and creates a replacement.\<close>

definition idle_plan :: "fm_plan \<Rightarrow> bool" where
  "idle_plan plan \<longleftrightarrow> fpl_planType plan = Fp_no_change \<and> fpl_operations plan = [] \<and> fpl_replacementActionId plan = None"

text \<open>The status a plan type gives to the original action, and the patch that only moves it.\<close>

primrec settled_status :: "fm_plan_type \<Rightarrow> string" where
  "settled_status Fp_no_change = []"
| "settled_status Fp_cancel_action = ''cancelled''"
| "settled_status Fp_expire_action = ''expired''"
| "settled_status Fp_block_action = ''blocked''"
| "settled_status Fp_replan_action = ''scheduled''"
| "settled_status Fp_supersede_action = ''cancelled''"
| "settled_status Fp_cancel_and_create_replacement = ''cancelled''"

definition in_place_patch :: "fm_input \<Rightarrow> fm_patch" where
  "in_place_patch input = (base_patch input ''scheduled'' (fur_nextScheduledFor (fmi_schedulingResult input)))
     \<lparr>fmp_expiresAt := change_of (fmo_expiresAt (fmi_originalAction input))\<rparr>"

definition patch_plan :: "fm_input \<Rightarrow> fm_patch \<Rightarrow> fm_event list \<Rightarrow> fm_plan \<Rightarrow> bool" where
  "patch_plan input p es plan \<longleftrightarrow> plain_patch input p \<and> fmp_supersededByActionId p = Unset \<and>
     fpl_operations plan = Update_existing_action p # map Append_audit_event es \<and> (\<forall>e \<in> set es. own_event input None e) \<and>
     (es = [] \<longleftrightarrow> \<not> fml_requireAuditEvent (fmi_policy input)) \<and> fpl_replacementActionId plan = None \<and>
     fpl_planType plan \<in> set patch_plan_types \<and> fmp_nextStatus p = settled_status (fpl_planType plan) \<and>
     (fpl_planType plan \<noteq> Fp_replan_action \<or> fpl_warnings plan = [] \<and> p = in_place_patch input)"

definition replace_plan :: "fm_input \<Rightarrow> fm_patch \<Rightarrow> fm_replacement \<Rightarrow> fm_event list \<Rightarrow> fm_plan \<Rightarrow> bool" where
  "replace_plan input p d es plan \<longleftrightarrow> plain_patch input p \<and> fmp_nextStatus p = ''cancelled'' \<and>
     fmp_supersededByActionId p = Assigned (fmr_actionId d) \<and> draft_of input d \<and>
     fpl_operations plan = Update_existing_action p # Create_replacement_action d # map Append_audit_event es \<and>
     (\<forall>e \<in> set es. own_event input (Some (fmr_actionId d)) e) \<and> (es = [] \<longleftrightarrow> \<not> fml_requireAuditEvent (fmi_policy input)) \<and>
     fpl_replacementActionId plan = Some (fmr_actionId d) \<and> fpl_planType plan \<in> set replace_plan_types \<and> fpl_warnings plan = []"

lemma patch_plan_digest:
  assumes "plain_patch input p" "fmp_supersededByActionId p = Unset" "\<forall>e \<in> set es. own_event input None e" "es \<noteq> []"
    "t \<in> set patch_plan_types" "fmp_nextStatus p = settled_status t" "t \<noteq> Fp_replan_action \<or> ws = [] \<and> p = in_place_patch input"
  shows "\<exists>q es'. patch_plan input q es' (digest_plan digest input t None (audited input [Update_existing_action p] es) rs ws)"
  using assms audited_events [of input "[Update_existing_action p]" es]
  by (fastforce simp: patch_plan_def intro!: exI [of _ p])

lemma plan_shapes:
  "\<exists>p es. patch_plan input p es (buildCancellationPlan digest input)"
  "\<exists>p es. patch_plan input p es (buildExpirationPlan digest input)"
  "\<exists>p es. patch_plan input p es (buildBlockingPlan digest input)"
  "\<exists>p es. patch_plan input p es (buildInPlacePlan digest input reason)"
  "\<exists>p es. patch_plan input p es ((buildExpirationFallback digest input)\<lparr>fpl_reasons := rs, fpl_warnings := ws\<rparr>)"
proof -
  show "\<exists>p es. patch_plan input p es (buildCancellationPlan digest input)"
    unfolding buildCancellationPlan_def Let_def
    by (rule patch_plan_digest) (simp_all add: plain_patch_def patch_plan_types_def buildCancellationAuditEvent_def)
  show "\<exists>p es. patch_plan input p es (buildExpirationPlan digest input)"
    unfolding buildExpirationPlan_def Let_def
    by (rule patch_plan_digest) (simp_all add: plain_patch_def patch_plan_types_def buildExpirationAuditEvent_def)
  show "\<exists>p es. patch_plan input p es (buildBlockingPlan digest input)"
    unfolding buildBlockingPlan_def Let_def
    by (rule patch_plan_digest) (simp_all add: plain_patch_def patch_plan_types_def buildBlockingAuditEvent_def)
  show "\<exists>p es. patch_plan input p es (buildInPlacePlan digest input reason)"
    unfolding buildInPlacePlan_def Let_def
    by (rule patch_plan_digest)
      (auto simp: plain_patch_def patch_plan_types_def buildReplanAuditEvents_def truthy_def in_place_patch_def dest!: in_set_takeD)
  have "\<exists>p es. patch_plan input p es (buildExpirationFallback digest input)"
    unfolding buildExpirationFallback_def Let_def
    by (rule patch_plan_digest) (simp_all add: plain_patch_def patch_plan_types_def)
  moreover have "fpl_planType (buildExpirationFallback digest input) = Fp_expire_action" by (simp add: buildExpirationFallback_def Let_def)
  ultimately show "\<exists>p es. patch_plan input p es ((buildExpirationFallback digest input)\<lparr>fpl_reasons := rs, fpl_warnings := ws\<rparr>)"
    by (auto simp: patch_plan_def)
qed

lemma replacement_shape:
  assumes "buildReplacementPlan digest input reason t = Inr plan" "t \<in> set replace_plan_types"
  shows "idle_plan plan \<or> (\<exists>p d es. replace_plan input p d es plan)"
proof (cases "fml_allowReplacementOnReplan (fmi_policy input)")
  case False
  then show ?thesis using assms(1) by (auto simp: buildReplacementPlan_def idle_plan_def)
next
  case True
  then obtain d where d: "buildReplacementDraft digest input reason = Inr d" using assms(1)
    by (auto simp: buildReplacementPlan_def bind_result_Inr_iff)
  let ?p = "(base_patch input ''cancelled'' (fmo_scheduledFor (fmi_originalAction input)))
    \<lparr>fmp_cancelReason := Assigned ''superseded'', fmp_supersededByActionId := Assigned (fmr_actionId d)\<rparr>"
  let ?es = "buildReplanAuditEvents digest input reason (Some (fmr_actionId d))"
  obtain es where es: "audited input [Update_existing_action ?p, Create_replacement_action d] ?es =
      [Update_existing_action ?p, Create_replacement_action d] @ map Append_audit_event es" "set es \<subseteq> set ?es"
    "es = [] \<longleftrightarrow> \<not> fml_requireAuditEvent (fmi_policy input) \<or> ?es = []"
    using audited_events by blast
  have "?es \<noteq> []" by (simp add: buildReplanAuditEvents_def)
  moreover have "\<forall>e \<in> set es. own_event input (Some (fmr_actionId d)) e" using es(2) own_replan_events by blast
  ultimately have "replace_plan input ?p d es plan"
    using assms True d es(1,3) replacement_draft [OF d]
    by (auto simp: buildReplacementPlan_def replace_plan_def plain_patch_def)
  then show ?thesis by blast
qed

lemma replacement_returns:
  "truthy (fur_nextScheduledFor (fmi_schedulingResult input)) \<Longrightarrow> \<exists>plan. buildReplacementPlan digest input reason t = Inr plan"
  using draft_exists [of input digest reason] by (auto simp: buildReplacementPlan_def Let_def)

lemma built_plan_cases:
  assumes "buildFollowUpMutationPlan digest input = Inr plan"
  obtains (idle) "idle_plan plan"
  | (patch) p es where "mutable_original input" "patch_plan input p es plan"
  | (replace) p d es where "mutable_original input" "replace_plan input p d es plan"
proof -
  have idle: "idle_plan (buildInvalidPlan input reason)" "idle_plan (unchanged_plan a w n)"
    "idle_plan (digest_plan digest input Fp_no_change None [] rs ws)" for reason a w n rs ws
    by (simp_all add: idle_plan_def buildInvalidPlan_def unchanged_plan_def Let_def)
  have replan: "idle_plan plan \<or> (\<exists>p es. patch_plan input p es plan) \<or> (\<exists>p d es. replace_plan input p d es plan)"
    if "buildReplanningPlan digest input = Inr plan"
  proof -
    have "Fp_supersede_action \<in> set replace_plan_types" "Fp_cancel_and_create_replacement \<in> set replace_plan_types"
      by (simp_all add: replace_plan_types_def)
    then show ?thesis
      using that idle(3) plan_shapes(4,5) replacement_shape [of digest input]
      unfolding buildReplanningPlan_def Let_def by (auto split: if_splits; blast)
  qed
  show thesis
  proof (cases "idle_plan plan")
    case True
    then show thesis by (rule that(1))
  next
    case False
    then obtain a k t st n where ids: "asText (Some (fmo_actionId (fmi_originalAction input))) = Some a"
      "asText (Some (fmo_status (fmi_originalAction input))) = Some st" "parse_iso_text (Some (fmi_now input)) = Some n"
      "isAllowedSchedulingStatus st"
      and d: "fur_decision (fmi_schedulingResult input) = Fd_cancel \<and> plan = buildCancellationPlan digest input \<or>
        fur_decision (fmi_schedulingResult input) = Fd_expire \<and> plan = buildExpirationPlan digest input \<or>
        fur_decision (fmi_schedulingResult input) = Fd_block \<and> plan = buildBlockingPlan digest input \<or>
        fur_decision (fmi_schedulingResult input) = Fd_replan \<and> buildReplanningPlan digest input = Inr plan"
      using assms idle(1,2)
      by (auto simp: buildFollowUpMutationPlan_def Let_def split: option.splits if_splits fu_decision.splits)
    have m: "mutable_original input"
      using ids by (auto simp: mutable_original_def isAllowedSchedulingStatus_def asText_def Let_def split: if_splits)
    show thesis using d replan False that(2,3) [OF m] plan_shapes(1-3) [of input digest] by blast
  qed
qed

section \<open>Validity\<close>

lemma js_trim_Cons: "\<not> is_ws c \<Longrightarrow> js_trim (c # s) \<noteq> []"
  by (simp add: js_trim_def dropWhile_eq_Nil_conv)

text \<open>The fields that every plan must have.\<close>

definition good_fields :: "fm_plan \<Rightarrow> bool" where
  "good_fields plan \<longleftrightarrow> js_trim (fpl_planId plan) \<noteq> [] \<and> js_trim (fpl_actionId plan) \<noteq> [] \<and> js_trim (fpl_planKey plan) \<noteq> [] \<and>
     parse_iso_text (Some (fpl_createdAt plan)) \<noteq> None \<and> fpl_sideEffects plan = no_fm_effects"

lemma mutation_plan_fields:
  assumes "asText (Some (fmo_actionId (fmi_originalAction input))) = Some actionId" "parse_iso_text (Some (fmi_now input)) = Some now"
  shows "good_fields (digest_plan digest input t r ops rs ws)" "good_fields (buildInvalidPlan input reason)"
    "good_fields (unchanged_plan actionId decision now)"
proof -
  have ws: "\<not> is_ws CHR ''f''" by (simp add: is_ws_def)
  have id: "js_trim (fmo_actionId (fmi_originalAction input)) \<noteq> []" "js_trim actionId \<noteq> []"
    using assms(1) by (auto simp: asText_def Let_def split: if_splits)
  have now: "parse_iso_text (Some now) \<noteq> None" by (rule parse_iso_textE [OF assms(2)]) simp
  show "good_fields (digest_plan digest input t r ops rs ws)"
    by (simp add: good_fields_def digest_plan_def buildFollowUpMutationPlanId_def buildFollowUpMutationPlanKey_def Let_def
        js_trim_Cons ws id assms(2))
  show "good_fields (buildInvalidPlan input reason)"
    by (simp add: good_fields_def buildInvalidPlan_def Let_def js_trim_Cons ws id assms(2))
  show "good_fields (unchanged_plan actionId decision now)"
    using now by (simp add: good_fields_def unchanged_plan_def js_trim_Cons ws id)
qed

lemma good_fields_update [simp]:
  "good_fields (plan\<lparr>fpl_reasons := rs, fpl_warnings := ws\<rparr>) = good_fields plan"
  by (simp add: good_fields_def)

lemma replanning_returns:
  assumes "truthy (fur_nextScheduledFor (fmi_schedulingResult input))"
  shows "\<exists>plan. buildReplanningPlan digest input = Inr plan"
  using replacement_returns [OF assms] by (auto simp: buildReplanningPlan_def Let_def)

definition own_plan :: "fm_input \<Rightarrow> fm_plan \<Rightarrow> bool" where
  "own_plan input plan \<longleftrightarrow> good_fields plan \<and> (idle_plan plan \<or> fpl_actionId plan = fmo_actionId (fmi_originalAction input))"

text \<open>A plan is always returned, for the given action.\<close>

lemma built_plan_own:
  assumes "asText (Some (fmo_actionId (fmi_originalAction input))) = Some actionId" "parse_iso_text (Some (fmi_now input)) = Some now"
  obtains plan where "buildFollowUpMutationPlan digest input = Inr plan" "own_plan input plan"
proof -
  have digest: "own_plan input (digest_plan digest input t r ops rs ws)" for t r ops rs ws
    using mutation_plan_fields(1) [OF assms] by (simp add: own_plan_def)
  have invalid: "own_plan input (buildInvalidPlan input reason)" for reason
    using mutation_plan_fields(2) [OF assms] by (simp add: own_plan_def buildInvalidPlan_def Let_def)
  have unchanged: "own_plan input (unchanged_plan actionId w now)" for w
    using mutation_plan_fields(3) [OF assms] by (simp add: own_plan_def idle_plan_def unchanged_plan_def)
  have replacement: "own_plan input plan" if "buildReplacementPlan digest input reason t = Inr plan" for reason t plan
    using that digest by (auto simp: buildReplacementPlan_def Let_def bind_result_Inr_iff split: if_splits)
  have fallback: "own_plan input ((buildExpirationFallback digest input)\<lparr>fpl_reasons := rs, fpl_warnings := ws\<rparr>)" for rs ws
    using digest by (simp add: buildExpirationFallback_def Let_def own_plan_def idle_plan_def)
  have replanning: "own_plan input plan" if "buildReplanningPlan digest input = Inr plan" for plan
    using that digest replacement fallback by (auto simp: buildReplanningPlan_def buildInPlacePlan_def Let_def split: if_splits)
  have plans: "own_plan input (buildCancellationPlan digest input)" "own_plan input (buildExpirationPlan digest input)"
    "own_plan input (buildBlockingPlan digest input)"
    using digest by (simp_all add: buildCancellationPlan_def buildExpirationPlan_def buildBlockingPlan_def Let_def)
  have "\<exists>plan. buildFollowUpMutationPlan digest input = Inr plan \<and> own_plan input plan"
    using invalid unchanged plans replanning replanning_returns [of input digest] assms
    by (auto simp: buildFollowUpMutationPlan_def Let_def split: option.split fu_decision.split)
  then show thesis using that by blast
qed

lemma check_events:
  assumes "fpl_actionId plan = fmo_actionId (fmi_originalAction input)" "parse_iso_text (Some (fmi_now input)) \<noteq> None"
    "\<forall>e \<in> set es. own_event input r e" "r' = None \<or> r' = r"
  shows "check_operations plan (map Append_audit_event es) (u, rp, a, r') = Some (u, rp, a \<or> es \<noteq> [], r')"
  using assms by (induction es arbitrary: a) (auto simp: own_event_def)

lemma patch_plan_valid:
  assumes "patch_plan input p es plan" "fpl_actionId plan = fmo_actionId (fmi_originalAction input)"
    "parse_iso_text (Some (fmi_now input)) \<noteq> None"
  shows "check_operations plan (fpl_operations plan) (False, False, False, None) = Some (True, False, es \<noteq> [], None)"
  using assms check_events [of plan input es None None] by (auto simp: patch_plan_def plain_patch_def)

lemma replace_plan_valid:
  assumes "replace_plan input p d es plan" "fpl_actionId plan = fmo_actionId (fmi_originalAction input)"
    "parse_iso_text (Some (fmi_now input)) \<noteq> None"
  shows "check_operations plan (fpl_operations plan) (False, False, False, None) = Some (True, True, es \<noteq> [], Some (fmr_actionId d))"
  using assms check_events [of plan input es "Some (fmr_actionId d)" "Some (fmr_actionId d)"]
  by (auto simp: replace_plan_def plain_patch_def draft_of_def)

text \<open>
  C26. A plan is returned for every identified action at a readable time, and the applier accepts it
  exactly when it is audited or does not replan: without audit events every plan that moves or
  replaces a follow-up is refused.
\<close>

theorem built_plan_valid:
  assumes "asText (Some (fmo_actionId (fmi_originalAction input))) = Some actionId" "parse_iso_text (Some (fmi_now input)) = Some now"
  shows "\<exists>plan. buildFollowUpMutationPlan digest input = Inr plan \<and>
    (validateFollowUpMutationPlan plan \<longleftrightarrow> fml_requireAuditEvent (fmi_policy input) \<or>
      fpl_planType plan \<notin> {Fp_replan_action, Fp_supersede_action, Fp_cancel_and_create_replacement})"
proof -
  obtain plan where b: "buildFollowUpMutationPlan digest input = Inr plan" and own: "own_plan input plan"
    by (rule built_plan_own [OF assms])
  have good: "validateFollowUpMutationPlan plan = (if fpl_planType plan = Fp_no_change then fpl_operations plan = [] \<and> fpl_replacementActionId plan = None
     else (case check_operations plan (fpl_operations plan) (False, False, False, None) of
         None \<Rightarrow> False
       | Some (sawUpdate, sawReplacement, sawAudit, replacementActionId) \<Rightarrow>
           if \<not> sawUpdate then False
           else if fpl_planType plan \<in> set [Fp_supersede_action, Fp_cancel_and_create_replacement] \<and> \<not> sawReplacement then False
           else if fpl_planType plan \<in> set [Fp_supersede_action, Fp_cancel_and_create_replacement] \<and> fpl_replacementActionId plan = None then False
           else if fpl_planType plan \<in> set [Fp_replan_action, Fp_cancel_action, Fp_expire_action, Fp_block_action] \<and>
                   fpl_replacementActionId plan \<noteq> None then False
           else \<not> (fpl_planType plan \<in> set [Fp_replan_action, Fp_supersede_action, Fp_cancel_and_create_replacement] \<and>
                   \<not> sawAudit \<and> fpl_warnings plan = [])))"
    using own unfolding validateFollowUpMutationPlan_def own_plan_def good_fields_def
    by (elim conjE) (simp only: if_False simp_thms)
  have now: "parse_iso_text (Some (fmi_now input)) \<noteq> None" using assms(2) by simp
  have id: "\<not> idle_plan plan \<Longrightarrow> fpl_actionId plan = fmo_actionId (fmi_originalAction input)" using own by (simp add: own_plan_def)
  show ?thesis using b
  proof (cases rule: built_plan_cases)
    case idle
    then show ?thesis using b by (simp add: good idle_plan_def)
  next
    case (patch p es)
    then have "\<not> idle_plan plan" by (simp add: patch_plan_def idle_plan_def)
    then show ?thesis using b patch_plan_valid [OF patch(2) id now] patch(2)
      by (auto simp: good patch_plan_def patch_plan_types_def)
  next
    case (replace p d es)
    then have "\<not> idle_plan plan" by (simp add: replace_plan_def idle_plan_def)
    then show ?thesis using b replace_plan_valid [OF replace(2) id now] replace(2)
      by (auto simp: good replace_plan_def replace_plan_types_def)
  qed
qed

section \<open>Applying plans\<close>

text \<open>Identifiers and keys are unique, and the two directions of the lineage agree: an action is superseded by its only
  child, exists beside it and is cancelled.\<close>

definition lineage_ok :: "fm_action list \<Rightarrow> bool" where
  "lineage_ok xs \<longleftrightarrow> distinct (map fma_actionId xs) \<and>
     (\<forall>i < length xs. \<forall>j < length xs. fma_idempotencyKey (xs ! i) \<noteq> None \<and> fma_idempotencyKey (xs ! i) = fma_idempotencyKey (xs ! j) \<longrightarrow> i = j) \<and>
     (\<forall>i < length xs. \<forall>x. fma_supersededByActionId (xs ! i) = Some x \<longrightarrow>
       fma_status (xs ! i) = ''cancelled'' \<and> x \<in> set (map fma_actionId xs)) \<and>
     (\<forall>i < length xs. \<forall>x. fma_parentActionId (xs ! i) = Some x \<longrightarrow> x \<in> set (map fma_actionId xs)) \<and>
     (\<forall>i < length xs. \<forall>j < length xs. fma_supersededByActionId (xs ! i) = Some (fma_actionId (xs ! j)) \<longleftrightarrow>
       fma_parentActionId (xs ! j) = Some (fma_actionId (xs ! i)))"

definition memory_ok :: "fm_state \<Rightarrow> bool" where
  "memory_ok state \<longleftrightarrow> lineage_ok (fst_actions state) \<and> distinct (map fme_eventId (fst_auditEvents state)) \<and>
     distinct (fst_appliedPlanKeys state)"

text \<open>A follow-up whose status no plan may change.\<close>

definition closed_action :: "fm_action \<Rightarrow> bool" where
  "closed_action a \<longleftrightarrow> js_trim (fma_status a) \<notin> set FOLLOW_UP_MUTATION_ALLOWED_MUTABLE_STATUSES"

lemma apply_cases:
  obtains (refused) "\<not> fmt_applied (applyFollowUpMutationPlanInMemory state plan)"
      "fmt_nextState (applyFollowUpMutationPlanInMemory state plan) = state"
  | (applied) w where "fmt_applied (applyFollowUpMutationPlanInMemory state plan)" "validateFollowUpMutationPlan plan"
      "fpl_planKey plan \<notin> set (fst_appliedPlanKeys state)" "apply_operations (fpl_operations plan) state = Inr w"
      "fmt_nextState (applyFollowUpMutationPlanInMemory state plan) = w\<lparr>fst_appliedPlanKeys := fst_appliedPlanKeys w @ [fpl_planKey plan]\<rparr>"
proof (cases "validateFollowUpMutationPlan plan \<and> fpl_planKey plan \<notin> set (fst_appliedPlanKeys state)")
  case True
  then show thesis using that
    by (cases "apply_operations (fpl_operations plan) state") (simp_all add: applyFollowUpMutationPlanInMemory_def Let_def)
qed (use that(1) in \<open>auto simp: applyFollowUpMutationPlanInMemory_def Let_def\<close>)

lemma apply_update:
  assumes "apply_operation (Update_existing_action p) s = Inr w"
  obtains i where "i < length (fst_actions s)" "fma_actionId (fst_actions s ! i) = fmp_actionId p"
    "fma_status (fst_actions s ! i) \<in> set (fmp_expectedStatuses p)"
    "w = s\<lparr>fst_actions := (fst_actions s)[i := patched_action p (fst_actions s ! i)]\<rparr>"
  using assms by (auto simp: Let_def dest!: find_index_Some split: option.splits if_splits)

lemma apply_events:
  assumes "apply_operations (map Append_audit_event es) s = Inr w"
  shows "fst_actions w = fst_actions s \<and> fst_appliedPlanKeys w = fst_appliedPlanKeys s \<and> fst_auditEvents w = fst_auditEvents s @ es"
  using assms
proof (induction es arbitrary: s)
  case (Cons e es)
  then have "fme_eventId e \<notin> fme_eventId ` set (fst_auditEvents s)"
    "apply_operations (map Append_audit_event es) (s\<lparr>fst_auditEvents := fst_auditEvents s @ [e]\<rparr>) = Inr w"
    by (auto simp: list_ex_iff split: if_splits)
  then show ?case using Cons.IH by fastforce
qed simp

lemma apply_events_distinct:
  "apply_operations (map Append_audit_event es) s = Inr w \<Longrightarrow> distinct (map fme_eventId (fst_auditEvents s)) \<Longrightarrow>
    distinct (map fme_eventId (fst_auditEvents w))"
  by (induction es arbitrary: s) (fastforce simp: list_ex_iff split: if_splits)+

text \<open>A plan of an input changes at most one open action, which keeps its identity, and adds at most one.\<close>

lemma lineage_okD:
  assumes "lineage_ok xs"
  shows "distinct (map fma_actionId xs)"
    "i < length xs \<Longrightarrow> j < length xs \<Longrightarrow> fma_idempotencyKey (xs ! i) \<noteq> None \<Longrightarrow> fma_idempotencyKey (xs ! i) = fma_idempotencyKey (xs ! j) \<Longrightarrow> i = j"
    "i < length xs \<Longrightarrow> fma_supersededByActionId (xs ! i) = Some x \<Longrightarrow> fma_status (xs ! i) = ''cancelled'' \<and> x \<in> set (map fma_actionId xs)"
    "i < length xs \<Longrightarrow> fma_parentActionId (xs ! i) = Some x \<Longrightarrow> x \<in> set (map fma_actionId xs)"
    "i < length xs \<Longrightarrow> j < length xs \<Longrightarrow> fma_supersededByActionId (xs ! i) = Some (fma_actionId (xs ! j)) \<longleftrightarrow>
       fma_parentActionId (xs ! j) = Some (fma_actionId (xs ! i))"
  using assms unfolding lineage_ok_def by blast+

lemma lineage_okI:
  assumes "distinct (map fma_actionId xs)"
    "\<And>i j. i < length xs \<Longrightarrow> j < length xs \<Longrightarrow> fma_idempotencyKey (xs ! i) \<noteq> None \<Longrightarrow> fma_idempotencyKey (xs ! i) = fma_idempotencyKey (xs ! j) \<Longrightarrow> i = j"
    "\<And>i x. i < length xs \<Longrightarrow> fma_supersededByActionId (xs ! i) = Some x \<Longrightarrow> fma_status (xs ! i) = ''cancelled'' \<and> x \<in> set (map fma_actionId xs)"
    "\<And>i x. i < length xs \<Longrightarrow> fma_parentActionId (xs ! i) = Some x \<Longrightarrow> x \<in> set (map fma_actionId xs)"
    "\<And>i j. i < length xs \<Longrightarrow> j < length xs \<Longrightarrow> fma_supersededByActionId (xs ! i) = Some (fma_actionId (xs ! j)) \<longleftrightarrow>
       fma_parentActionId (xs ! j) = Some (fma_actionId (xs ! i))"
  shows "lineage_ok xs"
  using assms unfolding lineage_ok_def by blast

lemma patch_lineage:
  assumes ok: "lineage_ok xs" and i: "i < length xs" and open_row: "fma_supersededByActionId (xs ! i) = None"
    and y: "fma_actionId y = fma_actionId (xs ! i)" "fma_idempotencyKey y = fma_idempotencyKey (xs ! i)"
      "fma_parentActionId y = fma_parentActionId (xs ! i)" "fma_supersededByActionId y = None"
  shows "lineage_ok (xs[i := y])"
proof -
  have ids: "map fma_actionId (xs[i := y]) = map fma_actionId xs" by (simp add: map_update y(1) list_update_same_conv i)
  have fields: "fma_actionId (xs[i := y] ! j) = fma_actionId (xs ! j)" "fma_idempotencyKey (xs[i := y] ! j) = fma_idempotencyKey (xs ! j)"
    "fma_parentActionId (xs[i := y] ! j) = fma_parentActionId (xs ! j)"
    "fma_supersededByActionId (xs[i := y] ! j) = fma_supersededByActionId (xs ! j)" if "j < length xs" for j
    using y open_row that by (cases "i = j"; simp)+
  have status: "fma_status (xs[i := y] ! j) = fma_status (xs ! j)" if "fma_supersededByActionId (xs ! j) \<noteq> None" for j
    using that open_row by (cases "j = i") auto
  show ?thesis
  proof (rule lineage_okI; unfold ids length_list_update)
    show "distinct (map fma_actionId xs)" by (rule lineage_okD(1) [OF ok])
  next
    fix a b
    assume "a < length xs" "b < length xs" "fma_idempotencyKey (xs[i := y] ! a) \<noteq> None"
      "fma_idempotencyKey (xs[i := y] ! a) = fma_idempotencyKey (xs[i := y] ! b)"
    then show "a = b" using lineage_okD(2) [OF ok] fields(2) by metis
  next
    fix a x
    assume "a < length xs" "fma_supersededByActionId (xs[i := y] ! a) = Some x"
    then show "fma_status (xs[i := y] ! a) = ''cancelled'' \<and> x \<in> set (map fma_actionId xs)"
      using lineage_okD(3) [OF ok] fields(4) status by (metis option.distinct(1))
  next
    fix a x
    assume "a < length xs" "fma_parentActionId (xs[i := y] ! a) = Some x"
    then show "x \<in> set (map fma_actionId xs)" using lineage_okD(4) [OF ok] fields(3) by metis
  next
    fix a b
    assume "a < length xs" "b < length xs"
    then show "fma_supersededByActionId (xs[i := y] ! a) = Some (fma_actionId (xs[i := y] ! b)) \<longleftrightarrow>
        fma_parentActionId (xs[i := y] ! b) = Some (fma_actionId (xs[i := y] ! a))"
      using lineage_okD(5) [OF ok] fields by metis
  qed
qed

text \<open>A replacement: the original is cancelled for a new action that names it as its parent.\<close>

lemma replace_lineage:
  assumes ok: "lineage_ok xs" and i: "i < length xs" and open_row: "fma_supersededByActionId (xs ! i) = None"
    and y: "fma_actionId y = fma_actionId (xs ! i)" "fma_idempotencyKey y = fma_idempotencyKey (xs ! i)"
      "fma_parentActionId y = fma_parentActionId (xs ! i)" "fma_supersededByActionId y = Some (fma_actionId d)" "fma_status y = ''cancelled''"
    and d: "fma_actionId d \<notin> set (map fma_actionId xs)" "\<forall>a \<in> set xs. fma_idempotencyKey a \<noteq> fma_idempotencyKey d"
      "fma_parentActionId d = Some (fma_actionId y)" "fma_supersededByActionId d = None"
  shows "lineage_ok (xs[i := y] @ [d])"
proof -
  let ?n = "length xs" and ?ys = "xs[i := y] @ [d]"
  have ids: "map fma_actionId ?ys = map fma_actionId xs @ [fma_actionId d]"
    by (simp add: map_update y(1) list_update_same_conv i)
  have nth: "?ys ! j = (if j = ?n then d else if j = i then y else xs ! j)" if "j < Suc ?n" for j
    using that by (auto simp: nth_append)
  have own: "xs ! j \<in> set xs" "fma_actionId (xs ! j) \<in> set (map fma_actionId xs)" if "j < ?n" for j using that by auto
  have childless: "fma_parentActionId (xs ! j) \<noteq> Some (fma_actionId (xs ! i))" if "j < ?n" for j
    using lineage_okD(5) [OF ok i that] open_row by simp
  have unknown: "fma_parentActionId (xs ! j) \<noteq> Some (fma_actionId d)" "fma_supersededByActionId (xs ! j) \<noteq> Some (fma_actionId d)"
    "fma_actionId (xs ! j) \<noteq> fma_actionId d" if "j < ?n" for j
    using lineage_okD(3,4) [OF ok that] d(1) own(2) [OF that] by metis+
  have inj: "fma_actionId (xs ! j) = fma_actionId (xs ! k) \<longleftrightarrow> j = k" if "j < ?n" "k < ?n" for j k
    using lineage_okD(1) [OF ok] that by (metis distinct_conv_nth length_map nth_map)
  show ?thesis
  proof (rule lineage_okI; unfold ids length_append_singleton length_list_update)
    show "distinct (map fma_actionId xs @ [fma_actionId d])" using lineage_okD(1) [OF ok] d(1) by simp
  next
    fix a b
    assume "a < Suc ?n" "b < Suc ?n" "fma_idempotencyKey (?ys ! a) \<noteq> None" "fma_idempotencyKey (?ys ! a) = fma_idempotencyKey (?ys ! b)"
    then show "a = b" using lineage_okD(2) [OF ok] d(2) own(1) i y(2) by (auto simp: nth split: if_splits) (metis less_SucE)+
  next
    fix a x
    assume "a < Suc ?n" "fma_supersededByActionId (?ys ! a) = Some x"
    then show "fma_status (?ys ! a) = ''cancelled'' \<and> x \<in> set (map fma_actionId xs @ [fma_actionId d])"
      using lineage_okD(3) [OF ok, of a] y(4,5) d(4) by (auto simp: nth split: if_splits)
  next
    fix a x
    assume "a < Suc ?n" "fma_parentActionId (?ys ! a) = Some x"
    then show "x \<in> set (map fma_actionId xs @ [fma_actionId d])"
      using lineage_okD(4) [OF ok, of a] lineage_okD(4) [OF ok, of i] y(1,3) d(3) i own(2) [OF i] by (auto simp: nth split: if_splits)
  next
    fix a b
    assume "a < Suc ?n" "b < Suc ?n"
    then show "fma_supersededByActionId (?ys ! a) = Some (fma_actionId (?ys ! b)) \<longleftrightarrow>
        fma_parentActionId (?ys ! b) = Some (fma_actionId (?ys ! a))"
      using lineage_okD(5) [OF ok, of a b] unknown [of a] unknown [of b] unknown(3) [OF i] childless [of b] inj [of a i] inj [of b i] y d(3,4) i open_row
      by (cases "a = ?n"; cases "b = ?n"; cases "a = i"; cases "b = i") (auto simp: nth)
  qed
qed

section \<open>Histories\<close>

text \<open>A state with every action as it was or changed at one open place, and the new ones behind.\<close>

definition grows :: "fm_state \<Rightarrow> fm_state \<Rightarrow> bool" where
  "grows s t \<longleftrightarrow> length (fst_actions s) \<le> length (fst_actions t) \<and>
     (\<forall>i < length (fst_actions s). fma_actionId (fst_actions t ! i) = fma_actionId (fst_actions s ! i) \<and>
       (closed_action (fst_actions s ! i) \<longrightarrow> fst_actions t ! i = fst_actions s ! i)) \<and>
     prefix (fst_auditEvents s) (fst_auditEvents t) \<and> prefix (fst_appliedPlanKeys s) (fst_appliedPlanKeys t)"

lemma state_grows_refl [simp]: "grows s s"
  by (simp add: grows_def)

lemma state_grows_trans: "grows s t \<Longrightarrow> grows t u \<Longrightarrow> grows s u"
  unfolding grows_def by (auto intro: prefix_order.trans)

lemma patched_action_simps [simp]:
  "fma_actionId (patched_action p a) = fma_actionId a" "fma_idempotencyKey (patched_action p a) = fma_idempotencyKey a"
  "fma_parentActionId (patched_action p a) = fma_parentActionId a" "fma_status (patched_action p a) = fmp_nextStatus p"
  "fma_supersededByActionId (patched_action p a) = changed (fmp_supersededByActionId p) (fma_supersededByActionId a)"
  by (simp_all add: patched_action_def)

lemma cancelled_closed: "fma_status a = ''cancelled'' \<Longrightarrow> closed_action a"
proof -
  have "js_trim ''cancelled'' \<notin> set FOLLOW_UP_MUTATION_ALLOWED_MUTABLE_STATUSES" by code_simp
  then show "fma_status a = ''cancelled'' \<Longrightarrow> closed_action a" by (simp add: closed_action_def)
qed

text \<open>The first operation of a plan with operations.\<close>

lemma own_update:
  assumes "mutable_original input" "plain_patch input p" "apply_operation (Update_existing_action p) s = Inr w" "lineage_ok (fst_actions s)"
  obtains i where "i < length (fst_actions s)" "\<not> closed_action (fst_actions s ! i)" "fma_supersededByActionId (fst_actions s ! i) = None"
    "fma_actionId (fst_actions s ! i) = fmo_actionId (fmi_originalAction input)"
    "w = s\<lparr>fst_actions := (fst_actions s)[i := patched_action p (fst_actions s ! i)]\<rparr>"
proof -
  obtain i where i: "i < length (fst_actions s)" "fma_actionId (fst_actions s ! i) = fmp_actionId p"
    "fma_status (fst_actions s ! i) \<in> set (fmp_expectedStatuses p)"
    "w = s\<lparr>fst_actions := (fst_actions s)[i := patched_action p (fst_actions s ! i)]\<rparr>"
    by (rule apply_update [OF assms(3)])
  have "\<not> closed_action (fst_actions s ! i)" using i(3) assms(1,2) by (simp add: closed_action_def plain_patch_def mutable_original_def)
  moreover from this have "fma_supersededByActionId (fst_actions s ! i) = None"
    using lineage_okD(3) [OF assms(4) i(1)] cancelled_closed by (metis option.exhaust)
  ultimately show thesis using that i assms(2) by (simp add: plain_patch_def)
qed

lemma built_plan_applied:
  assumes "buildFollowUpMutationPlan digest input = Inr plan" "memory_ok s" "apply_operations (fpl_operations plan) s = Inr w"
  shows "lineage_ok (fst_actions w) \<and> distinct (map fme_eventId (fst_auditEvents w)) \<and> fst_appliedPlanKeys w = fst_appliedPlanKeys s \<and>
    grows s w"
  using assms(1)
proof (cases rule: built_plan_cases)
  case idle
  then show ?thesis using assms(2,3) by (simp add: idle_plan_def memory_ok_def)
next
  case (patch p es)
  then obtain u where u: "apply_operation (Update_existing_action p) s = Inr u" "apply_operations (map Append_audit_event es) u = Inr w"
    using assms(3) by (auto simp: patch_plan_def bind_result_Inr_iff)
  obtain i where i: "i < length (fst_actions s)" "\<not> closed_action (fst_actions s ! i)" "fma_supersededByActionId (fst_actions s ! i) = None"
    "u = s\<lparr>fst_actions := (fst_actions s)[i := patched_action p (fst_actions s ! i)]\<rparr>"
    by (rule own_update [OF patch(1) _ u(1)]) (use patch(2) assms(2) in \<open>auto simp: patch_plan_def memory_ok_def\<close>)
  have l: "lineage_ok ((fst_actions s)[i := patched_action p (fst_actions s ! i)])"
    by (rule patch_lineage) (use assms(2) i patch(2) in \<open>simp_all add: memory_ok_def patch_plan_def changed_def\<close>)
  have "distinct (map fme_eventId (fst_auditEvents w))" using apply_events_distinct [OF u(2)] i(4) assms(2) by (simp add: memory_ok_def)
  moreover have "lineage_ok (fst_actions w)" "fst_appliedPlanKeys w = fst_appliedPlanKeys s" "grows s w"
    using apply_events [OF u(2)] i l by (auto simp: grows_def nth_list_update)
  ultimately show ?thesis by blast
next
  case (replace p d es)
  then obtain u v where u: "apply_operation (Update_existing_action p) s = Inr u"
    and v: "apply_operation (Create_replacement_action d) u = Inr v" "apply_operations (map Append_audit_event es) v = Inr w"
    using assms(3) by (auto simp: replace_plan_def bind_result_Inr_iff simp del: apply_operation.simps)
  obtain i where i: "i < length (fst_actions s)" "\<not> closed_action (fst_actions s ! i)" "fma_supersededByActionId (fst_actions s ! i) = None"
    "fma_actionId (fst_actions s ! i) = fmo_actionId (fmi_originalAction input)"
    "u = s\<lparr>fst_actions := (fst_actions s)[i := patched_action p (fst_actions s ! i)]\<rparr>"
    by (rule own_update [OF replace(1) _ u]) (use replace(2) assms(2) in \<open>auto simp: replace_plan_def memory_ok_def\<close>)
  let ?y = "patched_action p (fst_actions s ! i)" and ?xs = "fst_actions s"
  have fresh: "fmr_actionId d \<notin> set (map fma_actionId (?xs[i := ?y]))" "\<forall>a \<in> set (?xs[i := ?y]). fma_idempotencyKey a \<noteq> Some (fmr_idempotencyKey d)"
    and w: "v = s\<lparr>fst_actions := ?xs[i := ?y] @ [action_of_draft d]\<rparr>"
    using v(1) by (auto simp: i(5) list_ex_iff image_iff split: if_splits)
  have same: "map fma_actionId (?xs[i := ?y]) = map fma_actionId ?xs" "map fma_idempotencyKey (?xs[i := ?y]) = map fma_idempotencyKey ?xs"
    using i(1) by (simp_all add: map_update list_update_same_conv)
  have "lineage_ok (?xs[i := ?y] @ [action_of_draft d])"
  proof (rule replace_lineage)
    show "lineage_ok ?xs" using assms(2) by (simp add: memory_ok_def)
    show "fma_actionId (action_of_draft d) \<notin> set (map fma_actionId ?xs)" using fresh(1) unfolding same by (simp add: action_of_draft_def)
    have "Some (fmr_idempotencyKey d) \<notin> set (map fma_idempotencyKey ?xs)"
      using fresh(2) unfolding same(2) [symmetric] by auto
    then show "\<forall>a \<in> set ?xs. fma_idempotencyKey a \<noteq> fma_idempotencyKey (action_of_draft d)" by (force simp: action_of_draft_def)
  qed (use i replace(2) in \<open>simp_all add: replace_plan_def changed_def action_of_draft_def draft_of_def\<close>)
  then have "lineage_ok (fst_actions w)" "fst_appliedPlanKeys w = fst_appliedPlanKeys s" "grows s w"
    using apply_events [OF v(2)] i w by (auto simp: grows_def nth_list_update nth_append)
  moreover have "distinct (map fme_eventId (fst_auditEvents w))" using apply_events_distinct [OF v(2)] w assms(2) by (simp add: memory_ok_def)
  ultimately show ?thesis by blast
qed

inductive replanning_history :: "(string \<Rightarrow> string) \<Rightarrow> fm_state \<Rightarrow> fm_state \<Rightarrow> bool" for digest s where
  start: "replanning_history digest s s"
| step: "replanning_history digest s (fmt_nextState (applyFollowUpMutationPlanInMemory t plan))"
    if "replanning_history digest s t" "buildFollowUpMutationPlan digest input = Inr plan"

lemma apply_step:
  assumes "buildFollowUpMutationPlan digest input = Inr plan" "memory_ok s"
  shows "memory_ok (fmt_nextState (applyFollowUpMutationPlanInMemory s plan)) \<and> grows s (fmt_nextState (applyFollowUpMutationPlanInMemory s plan))"
proof (cases rule: apply_cases [of s plan])
  case refused
  then show ?thesis using assms(2) by simp
next
  case (applied w)
  then show ?thesis using built_plan_applied [OF assms applied(4)] assms(2)
    by (auto simp: memory_ok_def grows_def intro: prefix_snoc [THEN iffD2])
qed

lemma history_facts: "replanning_history digest s t \<Longrightarrow> memory_ok s \<Longrightarrow> memory_ok t \<and> grows s t"
  by (induction rule: replanning_history.induct) (auto dest: apply_step intro: state_grows_trans)

text \<open>
  C23. Over every history of plans, for whatever inputs and in whatever order, the stored follow-ups stay
  consistent: identifiers and keys are unique, a superseded action is cancelled and has exactly one
  child, which names it as its parent, and an action that is not open is never changed again.
\<close>

theorem replanning_history_consistent:
  assumes "replanning_history digest s t" "memory_ok s"
  shows "memory_ok t \<and> length (fst_actions s) \<le> length (fst_actions t) \<and>
    (\<forall>i < length (fst_actions s). closed_action (fst_actions s ! i) \<longrightarrow> fst_actions t ! i = fst_actions s ! i)"
  using history_facts [OF assms] by (simp add: grows_def)

text \<open>
  C25. A plan is applied at most once: after it was applied, and however the state went on since then, the
  same plan is refused as a duplicate and changes nothing.
\<close>

theorem plan_applies_once:
  assumes "memory_ok s" "fmt_applied (applyFollowUpMutationPlanInMemory s plan)" "buildFollowUpMutationPlan digest input = Inr plan"
    "replanning_history digest (fmt_nextState (applyFollowUpMutationPlanInMemory s plan)) t"
  shows "fmt_duplicate (applyFollowUpMutationPlanInMemory t plan) \<and> \<not> fmt_applied (applyFollowUpMutationPlanInMemory t plan) \<and>
    fmt_nextState (applyFollowUpMutationPlanInMemory t plan) = t"
proof (cases rule: apply_cases [of s plan])
  case refused
  then show ?thesis using assms(2) by simp
next
  case (applied w)
  let ?u = "fmt_nextState (applyFollowUpMutationPlanInMemory s plan)"
  have "memory_ok ?u" using apply_step [OF assms(3,1)] by simp
  then have "grows ?u t" using history_facts [OF assms(4)] by simp
  then have "fpl_planKey plan \<in> set (fst_appliedPlanKeys t)" using applied(5) by (auto simp: grows_def dest: set_mono_prefix)
  then show ?thesis using applied(2) by (simp add: applyFollowUpMutationPlanInMemory_def Let_def)
qed

section \<open>The outcome of a plan\<close>

lemma built_plan_type:
  assumes "buildFollowUpMutationPlan digest input = Inr plan" "\<not> idle_plan plan"
  shows "fpl_planType plan \<in> (case fur_decision (fmi_schedulingResult input) of
    Fd_cancel \<Rightarrow> {Fp_cancel_action} | Fd_expire \<Rightarrow> {Fp_expire_action} | Fd_block \<Rightarrow> {Fp_block_action}
  | Fd_replan \<Rightarrow> {Fp_replan_action, Fp_supersede_action, Fp_cancel_and_create_replacement, Fp_expire_action} | _ \<Rightarrow> {})"
proof -
  have idle: "idle_plan (buildInvalidPlan input reason)" "idle_plan (unchanged_plan a w n)"
    "idle_plan (digest_plan digest input Fp_no_change None [] rs ws)" for reason a w n rs ws
    by (simp_all add: idle_plan_def buildInvalidPlan_def unchanged_plan_def Let_def)
  have replacement: "idle_plan plan \<or> fpl_planType plan = t" if "buildReplacementPlan digest input reason t = Inr plan" for reason t
    using that idle(3) by (auto simp: buildReplacementPlan_def Let_def bind_result_Inr_iff split: if_splits)
  have replanning: "idle_plan plan \<or> fpl_planType plan \<in> {Fp_replan_action, Fp_supersede_action, Fp_cancel_and_create_replacement, Fp_expire_action}"
    if "buildReplanningPlan digest input = Inr plan"
    using that idle(3) replacement unfolding buildReplanningPlan_def Let_def
    by (auto simp: buildInPlacePlan_def buildExpirationFallback_def Let_def split: if_splits)
  have plain: "fpl_planType (buildCancellationPlan digest input) = Fp_cancel_action" "fpl_planType (buildExpirationPlan digest input) = Fp_expire_action"
    "fpl_planType (buildBlockingPlan digest input) = Fp_block_action"
    by (simp_all add: buildCancellationPlan_def buildExpirationPlan_def buildBlockingPlan_def Let_def)
  then show ?thesis using assms idle(1,2) replanning
    by (auto simp: buildFollowUpMutationPlan_def Let_def split: option.splits if_splits fu_decision.splits)
qed

text \<open>The new action of a replacement plan, and the action that a plan leaves in the place of the original.\<close>

definition replacement_of :: "fm_input \<Rightarrow> fm_action \<Rightarrow> fm_action \<Rightarrow> bool" where
  "replacement_of input b c \<longleftrightarrow> fma_supersededByActionId b = Some (fma_actionId c) \<and> fma_parentActionId c = Some (fma_actionId b) \<and>
     fma_status c = ''scheduled'' \<and> fma_scheduledFor c = fur_nextScheduledFor (fmi_schedulingResult input)"

lemma applied_plan:
  assumes "buildFollowUpMutationPlan digest input = Inr plan" "memory_ok s" "apply_operations (fpl_operations plan) s = Inr w" "\<not> idle_plan plan"
  obtains i p where "i < length (fst_actions s)" "fma_actionId (fst_actions s ! i) = fmo_actionId (fmi_originalAction input)"
    "fma_status (fst_actions s ! i) = fmo_status (fmi_originalAction input)" "fmp_nextStatus p = settled_status (fpl_planType plan)"
    "fpl_planType plan = Fp_replan_action \<Longrightarrow> p = in_place_patch input"
    "fpl_planType plan \<notin> set replace_plan_types \<Longrightarrow> fst_actions w = (fst_actions s)[i := patched_action p (fst_actions s ! i)]"
    "fpl_planType plan \<in> set replace_plan_types \<Longrightarrow> \<exists>c. fst_actions w = (fst_actions s)[i := patched_action p (fst_actions s ! i)] @ [c] \<and>
       fma_actionId c \<notin> fma_actionId ` set (fst_actions s) \<and> replacement_of input (patched_action p (fst_actions s ! i)) c"
  using assms(1)
proof (cases rule: built_plan_cases)
  case idle
  then show thesis using assms(4) by simp
next
  case (patch p es)
  then obtain u where u: "apply_operation (Update_existing_action p) s = Inr u" "apply_operations (map Append_audit_event es) u = Inr w"
    using assms(3) by (auto simp: patch_plan_def bind_result_Inr_iff)
  obtain i where i: "i < length (fst_actions s)" "fma_actionId (fst_actions s ! i) = fmp_actionId p"
    "fma_status (fst_actions s ! i) \<in> set (fmp_expectedStatuses p)"
    "u = s\<lparr>fst_actions := (fst_actions s)[i := patched_action p (fst_actions s ! i)]\<rparr>"
    by (rule apply_update [OF u(1)])
  have "fst_actions w = (fst_actions s)[i := patched_action p (fst_actions s ! i)]" using apply_events [OF u(2)] i(4) by simp
  then show thesis using that [of i p] i patch(2)
    by (auto simp: patch_plan_def plain_patch_def patch_plan_types_def replace_plan_types_def)
next
  case (replace p d es)
  then obtain u v where u: "apply_operation (Update_existing_action p) s = Inr u"
    and v: "apply_operation (Create_replacement_action d) u = Inr v" "apply_operations (map Append_audit_event es) v = Inr w"
    using assms(3) by (auto simp: replace_plan_def bind_result_Inr_iff simp del: apply_operation.simps)
  obtain i where i: "i < length (fst_actions s)" "fma_actionId (fst_actions s ! i) = fmp_actionId p"
    "fma_status (fst_actions s ! i) \<in> set (fmp_expectedStatuses p)"
    "u = s\<lparr>fst_actions := (fst_actions s)[i := patched_action p (fst_actions s ! i)]\<rparr>"
    by (rule apply_update [OF u])
  let ?b = "patched_action p (fst_actions s ! i)"
  have fresh: "fmr_actionId d \<notin> fma_actionId ` set ((fst_actions s)[i := ?b])"
    and w: "fst_actions w = (fst_actions s)[i := ?b] @ [action_of_draft d]"
    using v(1) apply_events [OF v(2)] by (auto simp: i(4) list_ex_iff split: if_splits)
  have "map fma_actionId ((fst_actions s)[i := ?b]) = map fma_actionId (fst_actions s)" using i(1) by (simp add: map_update list_update_same_conv)
  then have "fmr_actionId d \<notin> fma_actionId ` set (fst_actions s)" using fresh by (metis list.set_map)
  then have "fma_actionId (action_of_draft d) \<notin> fma_actionId ` set (fst_actions s)" by (simp add: action_of_draft_def)
  moreover have "replacement_of input ?b (action_of_draft d)"
    using i(2) replace(2) by (simp add: replacement_of_def replace_plan_def draft_of_def action_of_draft_def plain_patch_def changed_def)
  moreover have "fpl_planType plan \<noteq> Fp_replan_action" "fmp_nextStatus p = settled_status (fpl_planType plan)"
    using replace(2) by (auto simp: replace_plan_def replace_plan_types_def)
  ultimately show thesis using that [of i p] i(1-3) replace(2) w by (auto simp: replace_plan_def plain_patch_def)
qed

text \<open>
  C24. A plan that is applied settles its follow-up as the scheduler decided, and touches no other: the original,
  which had the expected status, is patched where it stands, to cancelled, expired or blocked, and a
  replanned follow-up is moved to the new time, is expired, or is cancelled for exactly one new action of
  that time, added at the end, each naming the other.  Every other stored action stays as it was.
\<close>

theorem applied_plan_settles:
  assumes "buildFollowUpMutationPlan digest input = Inr plan" "memory_ok s" "fmt_applied (applyFollowUpMutationPlanInMemory s plan)"
    "fur_decision (fmi_schedulingResult input) \<in> {Fd_cancel, Fd_expire, Fd_block, Fd_replan}" "fpl_planType plan \<noteq> Fp_no_change"
  shows "\<exists>i b added. i < length (fst_actions s) \<and>
    fst_actions (fmt_nextState (applyFollowUpMutationPlanInMemory s plan)) = (fst_actions s)[i := b] @ added \<and>
    fma_actionId (fst_actions s ! i) = fmo_actionId (fmi_originalAction input) \<and>
    fma_status (fst_actions s ! i) = fmo_status (fmi_originalAction input) \<and> fma_actionId b = fma_actionId (fst_actions s ! i) \<and>
    (case fur_decision (fmi_schedulingResult input) of
       Fd_cancel \<Rightarrow> fma_status b = ''cancelled'' \<and> added = [] | Fd_expire \<Rightarrow> fma_status b = ''expired'' \<and> added = []
     | Fd_block \<Rightarrow> fma_status b = ''blocked'' \<and> added = []
     | _ \<Rightarrow> fma_status b = ''expired'' \<and> added = [] \<or>
         fma_status b = ''scheduled'' \<and> fma_scheduledFor b = fur_nextScheduledFor (fmi_schedulingResult input) \<and> added = [] \<or>
         fma_status b = ''cancelled'' \<and> (\<exists>c. added = [c] \<and> fma_actionId c \<notin> fma_actionId ` set (fst_actions s) \<and> replacement_of input b c))"
proof (cases rule: apply_cases [of s plan])
  case refused
  then show ?thesis using assms(3) by simp
next
  case (applied w)
  have changes: "\<not> idle_plan plan" using assms(5) by (simp add: idle_plan_def)
  obtain i p where i: "i < length (fst_actions s)" "fma_actionId (fst_actions s ! i) = fmo_actionId (fmi_originalAction input)"
    "fma_status (fst_actions s ! i) = fmo_status (fmi_originalAction input)" "fmp_nextStatus p = settled_status (fpl_planType plan)"
    "fpl_planType plan = Fp_replan_action \<Longrightarrow> p = in_place_patch input"
    and kept: "fpl_planType plan \<notin> set replace_plan_types \<Longrightarrow> fst_actions w = (fst_actions s)[i := patched_action p (fst_actions s ! i)]"
    and grown: "fpl_planType plan \<in> set replace_plan_types \<Longrightarrow> \<exists>c. fst_actions w = (fst_actions s)[i := patched_action p (fst_actions s ! i)] @ [c] \<and>
       fma_actionId c \<notin> fma_actionId ` set (fst_actions s) \<and> replacement_of input (patched_action p (fst_actions s ! i)) c"
    by (rule applied_plan [OF assms(1,2) applied(4) changes]) (rule that)
  have next_time: "fma_scheduledFor (patched_action (in_place_patch input) a) = fur_nextScheduledFor (fmi_schedulingResult input)" for a
    by (simp add: patched_action_def in_place_patch_def changed_def change_of_def split: option.split)
  have actions: "fst_actions (fmt_nextState (applyFollowUpMutationPlanInMemory s plan)) = fst_actions w" using applied(5) by simp
  have b: "fma_actionId (patched_action p a) = fma_actionId a" "fma_status (patched_action p a) = fmp_nextStatus p" for a by simp_all
  note types = built_plan_type [OF assms(1) changes]
  show ?thesis
  proof (cases "fpl_planType plan \<in> set replace_plan_types")
    case True
    then obtain c where c: "fst_actions w = (fst_actions s)[i := patched_action p (fst_actions s ! i)] @ [c]"
      "fma_actionId c \<notin> fma_actionId ` set (fst_actions s)" "replacement_of input (patched_action p (fst_actions s ! i)) c" using grown by blast
    show ?thesis unfolding actions
      by (intro exI [of _ i] exI [of _ "patched_action p (fst_actions s ! i)"] exI [of _ "[c]"])
        (use i(1-4) c b types assms(4) True in \<open>auto simp: replace_plan_types_def split: fu_decision.splits\<close>)
  next
    case False
    then show ?thesis unfolding actions
      by (intro exI [of _ i] exI [of _ "patched_action p (fst_actions s ! i)"] exI [of _ "[]"])
        (use i kept b types assms(4) next_time in \<open>auto simp: replace_plan_types_def split: fu_decision.splits\<close>)
  qed
qed

section \<open>The cycle of scheduling and replanning\<close>

text \<open>A stored follow-up as the scheduler and as the plan builder read it.\<close>

definition follow_up_of :: "fm_action \<Rightarrow> fu_action" where
  "follow_up_of a = \<lparr>fua_actionId = fma_actionId a, fua_idempotencyKey = fma_idempotencyKey a, fua_actionType = fma_actionType a,
     fua_status = fma_status a, fua_createdAt = fma_createdAt a, fua_updatedAt = fma_updatedAt a,
     fua_scheduledFor = fma_scheduledFor a, fua_expiresAt = fma_expiresAt a, fua_attemptCount = fma_attemptCount a,
     fua_maxAttempts = fma_maxAttempts a, fua_riskLevel = fma_riskLevel a, fua_approvalRequirement = fma_approvalRequirement a,
     fua_opportunityId = fma_opportunityId a, fua_conversationCaseId = fma_conversationCaseId a, fua_waId = fma_waId a,
     fua_blockReasons = fma_blockReasons a, fua_cancelReason = fma_cancelReason a\<rparr>"

definition original_of :: "fm_action \<Rightarrow> fm_original" where
  "original_of a = \<lparr>fmo_rowId = fma_rowId a, fmo_actionId = fma_actionId a, fmo_idempotencyKey = fma_idempotencyKey a,
     fmo_actionType = fma_actionType a, fmo_status = fma_status a, fmo_createdAt = fma_createdAt a, fmo_updatedAt = fma_updatedAt a,
     fmo_scheduledFor = fma_scheduledFor a, fmo_expiresAt = fma_expiresAt a, fmo_attemptCount = fma_attemptCount a,
     fmo_maxAttempts = fma_maxAttempts a, fmo_riskLevel = fma_riskLevel a, fmo_approvalRequirement = fma_approvalRequirement a,
     fmo_opportunityId = fma_opportunityId a, fmo_conversationCaseId = fma_conversationCaseId a, fmo_waId = fma_waId a,
     fmo_draftMessage = fma_draftMessage a, fmo_finalMessage = fma_finalMessage a, fmo_blockReasons = fma_blockReasons a,
     fmo_cancelReason = fma_cancelReason a, fmo_parentActionId = fma_parentActionId a,
     fmo_supersededByActionId = fma_supersededByActionId a, fmo_lifecycleVersion = fma_lifecycleVersion a,
     fmo_policyVersion = fma_policyVersion a, fmo_runtimeVersion = fma_runtimeVersion a\<rparr>"

lemma moved_in_place:
  assumes "fmi_originalAction input = original_of a" "fui_action fu = follow_up_of a"
    "fur_nextScheduledFor (fmi_schedulingResult input) = Some at"
  shows "fu\<lparr>fui_now := now, fui_action := follow_up_of (patched_action (in_place_patch input) a)\<rparr> =
    stored_again fu now ''scheduled'' (Some (fmi_now input)) at"
  using assms by (cases "fma_expiresAt a")
    (simp_all add: stored_again_def follow_up_of_def original_of_def patched_action_def in_place_patch_def base_patch_def changed_def change_of_def)

text \<open>
  C22. The cycle closes: a stored follow-up that the scheduler replans, moved in place by an applied plan and
  read again at that instant or any later one before its expiry, keeps the stored time, waits while it lies
  ahead and is ready once it has come; it is neither moved again nor planned again.  Asked of the rest: the
  replan does not come from a stage change after the action was made (such an action is replaced, not moved);
  the zone of the business hours changes its offset at most once in any two days and no change leaves out the
  opening hour; the hours lie within one day; the first instant is after 1900; and everything but the
  action and the clock is read again as it was.\<close>

theorem replanning_cycle_settles:
  assumes "memory_ok s" "a \<in> set (fst_actions s)" "fui_action fu = follow_up_of a" "evaluateFollowUpSchedule zones fu = Inr r"
    "Fr_stale_action_context \<notin> set (fur_reasons r)"
    "daylight_zone zones (fup_businessTimezone (fui_policy fu)) (fup_businessStartHour (fui_policy fu))"
    "day_hours (fui_policy fu)" "modern (input_now fu)"
    "fmi_originalAction input = original_of a" "fmi_schedulingResult input = r"
    "buildFollowUpMutationPlan digest input = Inr plan" "fpl_planType plan = Fp_replan_action"
    "fmt_applied (applyFollowUpMutationPlanInMemory s plan)"
    "instant_of (Some now) = Some later" "input_now fu \<le> later"
    "\<And>e. instant_of (fma_expiresAt a) = Some e \<Longrightarrow> later < e"
  shows "\<exists>b \<in> set (fst_actions (fmt_nextState (applyFollowUpMutationPlanInMemory s plan))).
    fma_actionId b = fma_actionId a \<and> fma_scheduledFor b = fur_nextScheduledFor r \<and>
    (\<exists>t r'. instant_of (fma_scheduledFor b) = Some t \<and>
      evaluateFollowUpSchedule zones (fu\<lparr>fui_now := now, fui_action := follow_up_of b\<rparr>) = Inr r' \<and>
      fur_decision r' = (if t \<le> later then Fd_ready else Fd_wait) \<and> fur_effectiveScheduledFor r' = fma_scheduledFor b)"
proof (cases rule: apply_cases [of s plan])
  case refused
  then show ?thesis using assms(13) by simp
next
  case (applied w)
  have changes: "\<not> idle_plan plan" using assms(12) by (simp add: idle_plan_def)
  obtain i p where i: "i < length (fst_actions s)" "fma_actionId (fst_actions s ! i) = fmo_actionId (fmi_originalAction input)"
    "patched_action p (fst_actions s ! i) \<in> set (fst_actions w)" "p = in_place_patch input"
    by (rule applied_plan [OF assms(11,1) applied(4) changes])
      (use assms(12) in \<open>auto intro: that simp: replace_plan_types_def set_update_memI\<close>)
  have "fma_actionId (fst_actions s ! i) = fma_actionId a" using i(2) assms(9) by (simp add: original_of_def)
  then have ia: "fst_actions s ! i = a"
    using assms(1,2) i(1) by (metis lineage_okD(1) memory_ok_def inj_on_def distinct_map nth_mem)
  let ?b = "patched_action (in_place_patch input) a"
  have d: "fur_decision r = Fd_replan"
    using built_plan_type [OF assms(11) changes] assms(10,12) by (cases "fur_decision r") simp_all
  have "truthy (fur_nextScheduledFor r) \<and> mutable_original input"
    using assms(10,11,12) d by (auto simp: buildFollowUpMutationPlan_def mutable_original_def isAllowedSchedulingStatus_def asText_def
        buildInvalidPlan_def Let_def split: option.splits if_splits)
  then obtain at where at: "fur_nextScheduledFor r = Some at" and stored: "\<not> bad_time (Some (fmi_now input))"
    by (auto simp: truthy_def mutable_original_def bad_time_def)
  have moved: "fu\<lparr>fui_now := now, fui_action := follow_up_of ?b\<rparr> = stored_again fu now ''scheduled'' (Some (fmi_now input)) at"
    by (rule moved_in_place [OF assms(9,3)]) (simp add: assms(10) at)
  have alive: "later < e" if "instant_of (fua_expiresAt (fui_action fu)) = Some e" for e
    using assms(16) that by (simp add: assms(3) follow_up_of_def)
  have kept: "status_kept fu ''scheduled''" by (simp add: status_kept_def)
  obtain t r' where r': "instant_of (Some at) = Some t" "evaluateFollowUpSchedule zones (fu\<lparr>fui_now := now, fui_action := follow_up_of ?b\<rparr>) = Inr r'"
    "fur_decision r' = (if t \<le> later then Fd_ready else Fd_wait)" "fur_effectiveScheduledFor r' = Some at"
    unfolding moved using replanned_time_settles [OF assms(4) d assms(5) at assms(6-8) kept stored assms(14,15) alive] by blast
  have "fma_scheduledFor ?b = Some at" "fma_actionId ?b = fma_actionId a"
    using at by (simp_all add: patched_action_def in_place_patch_def changed_def change_of_def assms(10))
  then show ?thesis using r' at i(3,4) ia applied(5) by (auto intro!: bexI [of _ ?b])
qed

text \<open>What the metadata of an event show.\<close>

definition plain_metadata :: "fm_event \<Rightarrow> bool" where
  "plain_metadata e \<longleftrightarrow> map fst (fme_metadata e) \<in> {
    [''oldStatus'', ''newStatus'', ''oldScheduledFor'', ''newScheduledFor'', ''reason'', ''attemptCount''],
    [''oldStatus'', ''newStatus'', ''oldScheduledFor'', ''newScheduledFor'', ''reason'', ''opportunityStage'', ''attemptCount''],
    [''oldStatus'', ''newStatus'', ''oldScheduledFor'', ''newScheduledFor'', ''reason'', ''opportunityStage'', ''attemptCount'', ''generation'']}"

lemma audited_event: "Append_audit_event e \<in> set (audited input ops es) \<Longrightarrow> Append_audit_event e \<in> set ops \<or> e \<in> set es"
  by (auto simp: audited_def split: if_splits)

lemma plain_events:
  "plain_metadata (buildCancellationAuditEvent digest input reason)" "plain_metadata (buildExpirationAuditEvent digest input reason)"
  "plain_metadata (buildBlockingAuditEvent digest input reason)"
  "e \<in> set (buildReplanAuditEvents digest input reason r) \<Longrightarrow> plain_metadata e"
  by (auto simp: plain_metadata_def buildCancellationAuditEvent_def buildExpirationAuditEvent_def buildBlockingAuditEvent_def
      buildReplanAuditEvents_def replan_metadata_def audit_event_def split: if_splits)

text \<open>
  An audit event shows only statuses, times, the reason, the stage and the counters of the original:
  neither a message, nor a number, nor a key is written to it.
\<close>

theorem audit_metadata_keys:
  assumes "buildFollowUpMutationPlan digest input = Inr plan" "Append_audit_event e \<in> set (fpl_operations plan)"
  shows "set (map fst (fme_metadata e)) \<subseteq> set [''oldStatus'', ''newStatus'', ''oldScheduledFor'', ''newScheduledFor'', ''reason'',
    ''opportunityStage'', ''attemptCount'', ''generation'']"
proof -
  have fallback: "plain_metadata e" if "Append_audit_event e \<in> set (fpl_operations (buildExpirationFallback digest input))"
    using that by (auto simp: buildExpirationFallback_def Let_def plain_metadata_def audit_event_def dest!: audited_event)
  have replacement: "plain_metadata e" if "buildReplacementPlan digest input reason t = Inr plan" for reason t
    using that assms(2) plain_events(4)
    by (auto simp: buildReplacementPlan_def Let_def bind_result_Inr_iff dest!: audited_event split: if_splits)
  have in_place: "plain_metadata e" if "Append_audit_event e \<in> set (fpl_operations (buildInPlacePlan digest input reason))" for reason
    using that plain_events(4) by (auto simp: buildInPlacePlan_def Let_def dest!: audited_event in_set_takeD)
  have replanning: "plain_metadata e" if "buildReplanningPlan digest input = Inr plan"
    using that assms(2) fallback replacement in_place
    unfolding buildReplanningPlan_def Let_def by (auto split: if_splits)
  have "plain_metadata e"
    using assms replanning plain_events(1-3)
    by (auto simp: buildFollowUpMutationPlan_def Let_def buildInvalidPlan_def unchanged_plan_def buildCancellationPlan_def
        buildExpirationPlan_def buildBlockingPlan_def dest!: audited_event split: option.splits if_splits fu_decision.splits)
  then show ?thesis by (auto simp: plain_metadata_def)
qed

section \<open>Witnesses\<close>

definition sample_stored :: fm_action where
  "sample_stored = \<lparr>fma_rowId = Some 1, fma_actionId = ''act-1'', fma_idempotencyKey = Some ''key-1'',
     fma_actionType = ''send_followup_message'', fma_status = ''scheduled'', fma_scheduledFor = Some ''2024-05-04T14:00:00.000Z'',
     fma_expiresAt = Some ''2024-05-20T00:00:00.000Z'', fma_attemptCount = 0, fma_maxAttempts = 2, fma_riskLevel = ''low'',
     fma_approvalRequirement = ''operator_review'', fma_opportunityId = None, fma_conversationCaseId = None, fma_waId = None,
     fma_draftMessage = None, fma_finalMessage = None, fma_blockReasons = [], fma_cancelReason = None,
     fma_supersededByActionId = None, fma_parentActionId = None, fma_generation = None, fma_lifecycleVersion = None,
     fma_policyVersion = None, fma_runtimeVersion = None, fma_createdAt = ''2024-05-01T12:00:00.000Z'', fma_updatedAt = None\<rparr>"

definition sample_memory :: fm_state where
  "sample_memory = \<lparr>fst_actions = [sample_stored], fst_auditEvents = [], fst_appliedPlanKeys = []\<rparr>"

definition sample_cycle :: fu_input where
  "sample_cycle = sample_follow_up ''2024-05-03T12:00:00.000Z'' ''2024-05-04T14:00:00.000Z''"

definition sample_at :: string where
  "sample_at = ''2024-05-06T13:00:00.000Z''"

definition sample_run_ok :: "fu_result \<Rightarrow> bool" where
  "sample_run_ok r \<longleftrightarrow> fur_decision r = Fd_replan \<and> fur_reasons r = [Fr_replanned_for_business_hours] \<and>
     fur_nextScheduledFor r = Some sample_at"

lemma sample_cycle_replans:
  obtains r where "evaluateFollowUpSchedule sample_zones sample_cycle = Inr r" "sample_run_ok r"
  using sample_replan that by (auto simp: sample_cycle_def sample_run_ok_def sample_at_def)

text \<open>The plan for it, which replaces the action when the original is preserved and moves it otherwise.\<close>

definition sample_input :: "fu_result \<Rightarrow> bool \<Rightarrow> fm_input" where
  "sample_input r preserve = \<lparr>fmi_now = ''2024-05-03T12:00:00.000Z'', fmi_originalAction = original_of sample_stored,
     fmi_schedulingResult = r,
     fmi_currentContext = \<lparr>fmx_caseStatus = Some ''open'', fmx_lifecycleStatus = None, fmx_humanOwnerActive = False, fmx_aiBlocked = False,
       fmx_requiresHuman = False, fmx_opportunityStatus = Some ''open'', fmx_opportunityStage = None, fmx_opportunityStageChangedAt = None,
       fmx_policyStatus = None, fmx_lastInboundAt = None, fmx_lastOutboundAt = Some ''2024-05-01T10:00:00.000Z'',
       fmx_conflictingActionId = None, fmx_duplicateActionId = None\<rparr>,
     fmi_policy = \<lparr>fml_allowReplacementOnReplan = True, fml_allowInPlaceScheduleUpdate = True, fml_preserveOriginalAction = preserve,
       fml_requireAuditEvent = True, fml_resetAttemptsOnStageChange = True, fml_incrementGenerationOnReplacement = True\<rparr>\<rparr>"

lemma sample_texts:
  "asText (Some (fma_actionId sample_stored)) = Some ''act-1''" "asText (fma_idempotencyKey sample_stored) = Some ''key-1''"
  "asText (Some (fma_actionType sample_stored)) = Some ''send_followup_message''"
  "asText (Some (fma_status sample_stored)) = Some ''scheduled''"
  "parse_iso_text (Some ''2024-05-03T12:00:00.000Z'') = Some ''2024-05-03T12:00:00.000Z''"
  "\<not> isTerminalActionStatus ''scheduled''" "isAllowedSchedulingStatus ''scheduled''" "truthy (Some sample_at)"
  "parse_instant (Some sample_at) = Some 1715000400000" "parse_instant (fma_expiresAt sample_stored) = Some 1716163200000"
  by code_simp+

lemma sample_input_simps:
  "fmi_originalAction (sample_input r preserve) = original_of sample_stored" "fmi_schedulingResult (sample_input r preserve) = r"
  "fmi_now (sample_input r preserve) = ''2024-05-03T12:00:00.000Z''" "fml_requireAuditEvent (fmi_policy (sample_input r preserve))"
  "fml_allowReplacementOnReplan (fmi_policy (sample_input r preserve))"
  "\<not> stageChanged (sample_input r preserve)"
  by (simp_all add: sample_input_def stageChanged_def parse_instant_def)

lemma original_of_simps:
  "fmo_actionId (original_of a) = fma_actionId a" "fmo_idempotencyKey (original_of a) = fma_idempotencyKey a"
  "fmo_actionType (original_of a) = fma_actionType a" "fmo_status (original_of a) = fma_status a"
  "fmo_expiresAt (original_of a) = fma_expiresAt a"
  by (simp_all add: original_of_def)

lemma sample_built:
  assumes "sample_run_ok r"
  shows "buildFollowUpMutationPlan digest (sample_input r preserve) =
    (if preserve then buildReplacementPlan digest (sample_input r True) (buildStageReason (sample_input r True)) Fp_cancel_and_create_replacement
     else Inr (buildInPlacePlan digest (sample_input r False) (buildStageReason (sample_input r False))))"
proof -
  have "canUpdateInPlace (sample_input r False)" "\<not> canUpdateInPlace (sample_input r True)" using assms
    by (simp_all add: canUpdateInPlace_def sample_input_def original_of_def sample_stored_def sample_run_ok_def truthy_def sample_at_def)
  then show ?thesis using assms
    by (cases preserve) (simp_all add: buildFollowUpMutationPlan_def buildReplanningPlan_def sample_input_simps original_of_simps sample_texts Let_def sample_run_ok_def)
qed

lemma sample_plan:
  assumes r: "sample_run_ok r"
  obtains plan e where "buildFollowUpMutationPlan digest (sample_input r preserve) = Inr plan"
    "fpl_planType plan = (if preserve then Fp_cancel_and_create_replacement else Fp_replan_action)"
    "fmt_applied (applyFollowUpMutationPlanInMemory sample_memory plan)" "Append_audit_event e \<in> set (fpl_operations plan)"
proof -
  obtain plan where plan: "buildFollowUpMutationPlan digest (sample_input r preserve) = Inr plan" and valid: "validateFollowUpMutationPlan plan"
    using built_plan_valid [of "sample_input r preserve" _ _ digest] by (force simp: sample_input_simps original_of_simps sample_texts)
  have fields: "fma_actionId sample_stored = ''act-1''" "fma_status sample_stored = ''scheduled''"
    "fma_idempotencyKey sample_stored = Some ''key-1''" by (simp_all add: sample_stored_def)
  have t: "fpl_planType plan = (if preserve then Fp_cancel_and_create_replacement else Fp_replan_action)"
    and a: "\<exists>w. apply_operations (fpl_operations plan) sample_memory = Inr w" and e: "\<exists>e. Append_audit_event e \<in> set (fpl_operations plan)"
    using plan r unfolding sample_built [OF r]
    by (auto simp: buildReplacementPlan_def buildReplacementDraft_def buildInPlacePlan_def audited_def buildReplanAuditEvents_def Let_def
        sample_input_simps original_of_simps sample_run_ok_def sample_at_def truthy_def bind_result_Inr_iff sample_memory_def fields
        audit_event_def buildFollowUpAuditEventId_def buildReplacementActionId_def buildReplacementIdempotencyKey_def split: if_splits)
  have "fmt_applied (applyFollowUpMutationPlanInMemory sample_memory plan)"
    using a valid by (auto simp: applyFollowUpMutationPlanInMemory_def Let_def sample_memory_def)
  then show thesis using that plan t e by blast
qed

lemma sample_memory_ok: "memory_ok sample_memory"
  by (simp add: memory_ok_def lineage_ok_def sample_memory_def sample_stored_def)

lemma built_plan_valid_witness:
  "\<exists>r plan. buildFollowUpMutationPlan (\<lambda>_. ''digest'') (sample_input r True) = Inr plan \<and> validateFollowUpMutationPlan plan"
proof -
  have "asText (Some (fmo_actionId (fmi_originalAction (sample_input r True)))) = Some ''act-1''"
    "parse_iso_text (Some (fmi_now (sample_input r True))) = Some ''2024-05-03T12:00:00.000Z''" for r
    by (simp_all add: sample_input_simps original_of_simps sample_texts)
  from built_plan_valid [OF this] show ?thesis using sample_input_simps(4) by blast
qed

lemma replanning_history_consistent_witness:
  "\<exists>t. replanning_history (\<lambda>_. ''digest'') sample_memory t \<and> t \<noteq> sample_memory \<and> memory_ok t"
proof -
  obtain r where r: "sample_run_ok r" using sample_cycle_replans by blast
  obtain plan where plan: "buildFollowUpMutationPlan (\<lambda>_. ''digest'') (sample_input r True) = Inr plan"
    "fmt_applied (applyFollowUpMutationPlanInMemory sample_memory plan)" by (rule sample_plan [OF r])
  let ?t = "fmt_nextState (applyFollowUpMutationPlanInMemory sample_memory plan)"
  have h: "replanning_history (\<lambda>_. ''digest'') sample_memory ?t" by (rule replanning_history.step [OF replanning_history.start plan(1)])
  have "fst_appliedPlanKeys ?t \<noteq> []" by (rule apply_cases [of sample_memory plan]) (use plan(2) in simp_all)
  then have "?t \<noteq> sample_memory" by (auto simp: sample_memory_def)
  then show ?thesis using h replanning_history_consistent [OF h sample_memory_ok] by blast
qed

lemma plan_applies_once_witness:
  "\<exists>plan t. fmt_applied (applyFollowUpMutationPlanInMemory sample_memory plan) \<and>
     t = fmt_nextState (applyFollowUpMutationPlanInMemory sample_memory plan) \<and>
     fmt_duplicate (applyFollowUpMutationPlanInMemory t plan) \<and> fmt_nextState (applyFollowUpMutationPlanInMemory t plan) = t"
proof -
  obtain r where r: "sample_run_ok r" using sample_cycle_replans by blast
  obtain plan where plan: "buildFollowUpMutationPlan (\<lambda>_. ''digest'') (sample_input r True) = Inr plan"
    "fmt_applied (applyFollowUpMutationPlanInMemory sample_memory plan)" by (rule sample_plan [OF r])
  show ?thesis using plan(2) plan_applies_once [OF sample_memory_ok plan(2,1) replanning_history.start] by blast
qed

lemma audit_metadata_keys_witness:
  "\<exists>r plan e. buildFollowUpMutationPlan (\<lambda>_. ''digest'') (sample_input r True) = Inr plan \<and>
     Append_audit_event e \<in> set (fpl_operations plan) \<and> ''finalMessage'' \<notin> set (map fst (fme_metadata e))"
proof -
  obtain r where r: "sample_run_ok r" using sample_cycle_replans by blast
  obtain plan e where plan: "buildFollowUpMutationPlan (\<lambda>_. ''digest'') (sample_input r True) = Inr plan"
    "Append_audit_event e \<in> set (fpl_operations plan)" by (rule sample_plan [OF r])
  have "''finalMessage'' \<notin> set (map fst (fme_metadata e))" using audit_metadata_keys [OF plan] by auto
  then show ?thesis using plan by blast
qed

lemma applied_plan_settles_witness:
  "\<exists>plan i b added. fst_actions (fmt_nextState (applyFollowUpMutationPlanInMemory sample_memory plan)) = (fst_actions sample_memory)[i := b] @ added \<and>
     fma_actionId b = ''act-1'' \<and> length added \<le> 1"
proof -
  obtain r where r: "sample_run_ok r" using sample_cycle_replans by blast
  obtain plan where plan: "buildFollowUpMutationPlan (\<lambda>_. ''digest'') (sample_input r True) = Inr plan"
    "fpl_planType plan = (if True then Fp_cancel_and_create_replacement else Fp_replan_action)"
    "fmt_applied (applyFollowUpMutationPlanInMemory sample_memory plan)" by (rule sample_plan [OF r])
  have id: "fmo_actionId (fmi_originalAction (sample_input r True)) = ''act-1''" by (simp add: sample_input_def original_of_def sample_stored_def)
  have d: "fur_decision (fmi_schedulingResult (sample_input r True)) \<in> {Fd_cancel, Fd_expire, Fd_block, Fd_replan}"
    using r by (simp add: sample_input_def sample_run_ok_def)
  have "fpl_planType plan \<noteq> Fp_no_change" using plan(2) by simp
  from applied_plan_settles [OF plan(1) sample_memory_ok plan(3) d this, unfolded id] obtain i b added where
    "fst_actions (fmt_nextState (applyFollowUpMutationPlanInMemory sample_memory plan)) = (fst_actions sample_memory)[i := b] @ added"
    "fma_actionId b = ''act-1''" "length added \<le> 1"
    by (force split: fu_decision.splits)
  then show ?thesis by blast
qed

lemma replanning_cycle_settles_witness:
  "\<exists>plan. \<exists>b \<in> set (fst_actions (fmt_nextState (applyFollowUpMutationPlanInMemory sample_memory plan))).
     fma_scheduledFor b = Some ''2024-05-06T13:00:00.000Z'' \<and>
     (\<exists>r. evaluateFollowUpSchedule sample_zones (sample_cycle\<lparr>fui_now := ''2024-05-06T13:00:00.000Z'', fui_action := follow_up_of b\<rparr>) = Inr r \<and>
       fur_decision r = Fd_ready \<and> fur_effectiveScheduledFor r = Some ''2024-05-06T13:00:00.000Z'')"
proof -
  obtain r where run: "evaluateFollowUpSchedule sample_zones sample_cycle = Inr r" and r: "sample_run_ok r" by (rule sample_cycle_replans)
  obtain plan where plan: "buildFollowUpMutationPlan (\<lambda>_. ''digest'') (sample_input r False) = Inr plan"
    "fpl_planType plan = (if False then Fp_cancel_and_create_replacement else Fp_replan_action)"
    "fmt_applied (applyFollowUpMutationPlanInMemory sample_memory plan)" by (rule sample_plan [OF r])
  have read: "sample_stored \<in> set (fst_actions sample_memory)" "fui_action sample_cycle = follow_up_of sample_stored"
    "Fr_stale_action_context \<notin> set (fur_reasons r)" "fmi_originalAction (sample_input r False) = original_of sample_stored"
    "fmi_schedulingResult (sample_input r False) = r" "fpl_planType plan = Fp_replan_action"
    using plan(2) r
    by (simp_all add: sample_memory_def sample_cycle_def sample_follow_up_def sample_stored_def follow_up_of_def sample_run_ok_def sample_input_simps)
  have zone: "daylight_zone sample_zones (fup_businessTimezone (fui_policy sample_cycle)) (fup_businessStartHour (fui_policy sample_cycle))"
    "day_hours (fui_policy sample_cycle)" "modern (input_now sample_cycle)"
    unfolding sample_cycle_def by (rule sample_zone sample_modern(2))+
  have now: "instant_of (Some ''2024-05-06T13:00:00.000Z'') = Some 1715000400000" "input_now sample_cycle = 1714737600000"
    "instant_of (fma_expiresAt sample_stored) = Some 1716163200000" by code_simp+
  have next_at: "fur_nextScheduledFor r = Some ''2024-05-06T13:00:00.000Z''" using r by (simp add: sample_run_ok_def sample_at_def)
  show ?thesis
    using replanning_cycle_settles [OF sample_memory_ok read(1,2) run read(3) zone read(4,5) plan(1) read(6) plan(3) now(1)] now(1,2,3)
    by (fastforce simp: next_at)
qed

end
