(* ===== verification/SalesAgent.thy ===== *)
theory SalesAgent
  imports JS_Value
begin

text \<open>
  The result of the sales agent (\<open>lib/brain/commercial/sales-agent/validationTypes.ts\<close>) and the result
  that stands for it when something failed (\<open>sales-agent/createFailedSafeResult.ts\<close>).  The language
  model that makes the results is not in the model; a result is any value of its type.  The names of
  outcomes, decisions, actions, claims, sources and tools are texts, as the code compares them.
\<close>

section \<open>Risk\<close>

datatype sa_risk = Sr_low | Sr_medium | Sr_high | Sr_blocked

primrec sa_risk_name :: "sa_risk \<Rightarrow> string" where
  "sa_risk_name Sr_low = ''low''"
| "sa_risk_name Sr_medium = ''medium''"
| "sa_risk_name Sr_high = ''high''"
| "sa_risk_name Sr_blocked = ''blocked''"

datatype sa_approval = Sa_none | Sa_review | Sa_operator_review | Sa_handoff | Sa_blocked

primrec sa_approval_name :: "sa_approval \<Rightarrow> string" where
  "sa_approval_name Sa_none = ''none''"
| "sa_approval_name Sa_review = ''review''"
| "sa_approval_name Sa_operator_review = ''operator_review''"
| "sa_approval_name Sa_handoff = ''handoff''"
| "sa_approval_name Sa_blocked = ''blocked''"

section \<open>Results\<close>

record sa_evidence =
  sae_source :: string
  sae_summary :: string
  sae_verified :: bool
  sae_confidence :: string
  sae_reference :: "string option"
  sae_capturedAt :: "string option"
  sae_expiresAt :: "string option"

record sa_claim =
  sac_type :: string
  sac_value :: string
  sac_evidenceSource :: string
  sac_evidenceSummary :: string
  sac_evidenceReference :: "string option"
  sac_verified :: bool
  sac_confidence :: string
  sac_expiresAt :: "string option"

record sa_analysis =
  san_summary :: string
  san_qualificationState :: string
  san_customerReadiness :: string
  san_productFit :: string
  san_confidence :: string
  san_riskLevel :: sa_risk
  san_reasonCodes :: "string list"

record sa_decision =
  sad_type :: string
  sad_reason :: string
  sad_confidence :: string
  sad_riskLevel :: sa_risk
  sad_requiresApproval :: sa_approval
  sad_errorCode :: "string option"
  sad_reasonCodes :: "string list"
  sad_policyTags :: "string list"

record sa_action =
  saa_type :: string
  saa_priority :: string
  saa_confidence :: string
  saa_riskLevel :: sa_risk
  saa_requiresApproval :: sa_approval
  saa_reason :: string
  saa_payload :: "(string \<times> json) list"
  saa_dependencies :: "string list"
  saa_policyTags :: "string list"
  saa_expiresAt :: "string option"
  saa_idempotencyHint :: "string option"

record sa_tool_request =
  sat_tool :: string
  sat_purpose :: string
  sat_status :: string
  sat_requiredInputs :: "(string \<times> json) list"
  sat_optionalInputs :: "(string \<times> json) list option"
  sat_urgency :: string
  sat_blocking :: bool
  sat_reason :: string
  sat_expectedEvidence :: "string list"
  sat_fallbackDecision :: "string option"

datatype sa_entity_type = Entity_lead | Entity_opportunity

primrec sa_entity_type_name :: "sa_entity_type \<Rightarrow> string" where
  "sa_entity_type_name Entity_lead = ''lead''"
| "sa_entity_type_name Entity_opportunity = ''opportunity''"

record sa_entity_proposal =
  sap_entityType :: sa_entity_type
  sap_proposedChanges :: "(string \<times> json) list"
  sap_evidence :: "sa_evidence list"
  sap_confidence :: string
  sap_requiresApproval :: sa_approval
  sap_reason :: string
  sap_policyTags :: "string list"
  sap_expiresAt :: "string option"
  sap_idempotencyHint :: "string option"

record sa_response =
  sar_messageIntent :: string
  sar_draftText :: "string option"
  sar_language :: string
  sar_tone :: string
  sar_questions :: "string list"
  sar_claims :: "sa_claim list"
  sar_disclaimers :: "string list"
  sar_requiresApproval :: sa_approval
  sar_blockedClaims :: "string list"
  sar_confidence :: string

record sa_policy_assessment =
  sas_status :: string
  sas_blocked :: bool
  sas_reason :: string
  sas_confidence :: string
  sas_riskLevel :: sa_risk
  sas_approvalRequirement :: sa_approval
  sas_errorCode :: "string option"
  sas_reasonCodes :: "string list"
  sas_policyTags :: "string list"

record sa_rationale =
  sal_summary :: string
  sal_evidence :: "string list"
  sal_counterEvidence :: "string list"
  sal_assumptions :: "string list"
  sal_riskFlags :: "string list"
  sal_missingInformation :: "string list"
  sal_policyRulesApplied :: "string list"

record sa_result =
  sg_runId :: string
  sg_contractVersion :: string
  sg_outcome :: string
  sg_analysis :: sa_analysis
  sg_decision :: sa_decision
  sg_shouldRespondNow :: bool
  sg_shouldRequestTool :: bool
  sg_shouldRequestHuman :: bool
  sg_shouldEvaluateFollowUp :: bool
  sg_proposedActions :: "sa_action list"
  sg_toolRequests :: "sa_tool_request list"
  sg_entityProposals :: "sa_entity_proposal list"
  sg_responseProposal :: "sa_response option"
  sg_evidence :: "sa_evidence list"
  sg_policyAssessment :: sa_policy_assessment
  sg_warnings :: "string list"
  sg_rationale :: sa_rationale
  sg_metadata :: "(string \<times> json) list"

section \<open>The result of a failure\<close>

record sa_issue =
  sai_code :: string
  sai_fatal :: bool
  sai_message :: string
  sai_path :: "string list"

record sa_validation_context =
  sav_expectedRunId :: "string option"
  sav_contractVersion :: "string option"

definition pickDecisionType :: "sa_issue list \<Rightarrow> string \<Rightarrow> string" where
  "pickDecisionType issues fallback =
    (let codes = map sai_code issues
     in if ''missing_required_field'' \<in> set codes \<or> ''contract_incomplete'' \<in> set codes \<or> ''invalid_root'' \<in> set codes
        then ''insufficient_context''
        else if list_ex (\<lambda>code. code \<in> set codes) [''run_id_mismatch'', ''unsupported_contract_version'', ''forbidden_key'',
          ''non_serializable_value'', ''hard_blocked_action'', ''sensitive_claim_without_evidence'', ''contradictory_decision'']
        then ''blocked_by_policy''
        else fallback)"

definition pickRiskLevel :: "sa_issue list \<Rightarrow> sa_risk" where
  "pickRiskLevel issues = (if list_ex sai_fatal issues then Sr_blocked else Sr_high)"

definition pickApprovalRequirement :: "sa_issue list \<Rightarrow> sa_approval" where
  "pickApprovalRequirement issues = (if list_ex sai_fatal issues then Sa_blocked else Sa_operator_review)"

definition pickErrorCode :: "sa_issue list \<Rightarrow> string" where
  "pickErrorCode issues =
    (let codes = map sai_code issues
     in if ''run_id_mismatch'' \<in> set codes then ''run_id_mismatch''
        else if ''unsupported_contract_version'' \<in> set codes then ''unsupported_contract_version''
        else if ''forbidden_key'' \<in> set codes then ''invalid_output''
        else if ''non_serializable_value'' \<in> set codes then ''invalid_output''
        else if ''hard_blocked_action'' \<in> set codes then ''blocked_by_policy''
        else ''invalid_output'')"

text \<open>The reason and the decision are given by the only caller in the model, the policy.\<close>

definition createFailedSafeResult :: "sa_validation_context \<Rightarrow> sa_issue list \<Rightarrow> string option \<Rightarrow> string option \<Rightarrow> sa_result" where
  "createFailedSafeResult context issues given_reason given_type =
    (let reason = (case given_reason of Some r \<Rightarrow> r | None \<Rightarrow>
           (case issues of [] \<Rightarrow> ''SalesAgent output failed validation.'' | i # _ \<Rightarrow> sai_message i));
         decisionType = (case given_type of Some t \<Rightarrow> t | None \<Rightarrow> pickDecisionType issues ''no_commercial_action'');
         riskLevel = pickRiskLevel issues; approvalRequirement = pickApprovalRequirement issues; errorCode = pickErrorCode issues;
         codes = map sai_code issues
     in \<lparr>sg_runId = (case sav_expectedRunId context of Some r \<Rightarrow> r | None \<Rightarrow> ''failed-safe''),
         sg_contractVersion = (case sav_contractVersion context of Some v \<Rightarrow> v | None \<Rightarrow> ''brain.sales-agent.output.v1''),
         sg_outcome = ''failed_safe'',
         sg_analysis = \<lparr>san_summary = reason, san_qualificationState = ''unknown'', san_customerReadiness = ''unknown'',
           san_productFit = ''unknown'', san_confidence = ''low'', san_riskLevel = riskLevel, san_reasonCodes = codes\<rparr>,
         sg_decision = \<lparr>sad_type = decisionType, sad_reason = reason, sad_confidence = ''low'', sad_riskLevel = riskLevel,
           sad_requiresApproval = approvalRequirement, sad_errorCode = Some errorCode, sad_reasonCodes = codes,
           sad_policyTags = [''fail_safe'', ''validation_block'']\<rparr>,
         sg_shouldRespondNow = False, sg_shouldRequestTool = False,
         sg_shouldRequestHuman = (decisionType = ''blocked_by_policy'' \<or> decisionType = ''insufficient_context'' \<or>
           decisionType = ''request_human''),
         sg_shouldEvaluateFollowUp = False, sg_proposedActions = [], sg_toolRequests = [], sg_entityProposals = [],
         sg_responseProposal = None, sg_evidence = [],
         sg_policyAssessment = \<lparr>sas_status = ''blocked'', sas_blocked = True, sas_reason = reason, sas_confidence = ''low'',
           sas_riskLevel = riskLevel, sas_approvalRequirement = approvalRequirement, sas_errorCode = Some errorCode,
           sas_reasonCodes = codes, sas_policyTags = [''fail_safe'', ''validation_block'']\<rparr>,
         sg_warnings = ''failed_safe'' # codes,
         sg_rationale = \<lparr>sal_summary = reason, sal_evidence = map sai_message issues, sal_counterEvidence = [],
           sal_assumptions = [''Output failed structural validation and was blocked closed.''], sal_riskFlags = codes,
           sal_missingInformation = map (\<lambda>i. js_join ''.'' (sai_path i)) issues,
           sal_policyRulesApplied = [''sales_agent_output_validation_fail_closed'']\<rparr>,
         sg_metadata = [(''failedSafe'', JBool True), (''issueCodes'', JArr (map JStr codes)),
           (''generatedBy'', JStr ''createFailedSafeResult'')]\<rparr>)"

end
