(* ===== verification/CommercialPolicy.thy ===== *)
theory CommercialPolicy
  imports SalesAgent
begin

text \<open>
  The types of the commercial policy (\<open>lib/brain/commercial/policy/policyTypes.ts\<close>) and the order of its
  approval requirements and risks (\<open>policy/policyUtils.ts\<close>).  The evaluation is in \<open>PolicyRules\<close>.
\<close>

section \<open>Types\<close>

datatype po_status = Po_allowed | Po_allowed_with_restrictions | Po_requires_review | Po_blocked | Po_failed_safe

datatype po_decision = Pd_allow | Pd_allow_with_approval | Pd_block | Pd_remove | Pd_downgrade_to_review | Pd_failed_safe

datatype po_approval = Pa_none | Pa_operator_review | Pa_explicit_operator_approval | Pa_blocked

datatype po_level = Pl_info | Pl_warning | Pl_error | Pl_fatal

datatype po_verdict = Pv_allowed | Pv_review | Pv_blocked

datatype po_freshness = Pf_fresh | Pf_recent | Pf_stale | Pf_unknown

datatype po_volatility = Vo_stable | Vo_semi_volatile | Vo_volatile | Vo_highly_volatile

datatype po_failed_reason = Pr_invalid_input | Pr_policy_version_mismatch | Pr_policy_disabled | Pr_policy_context_missing
  | Pr_exception | Pr_unsafe_output | Pr_unknown_issue

datatype po_code = Pc_sensitive_claim_blocked | Pc_evidence_missing | Pc_evidence_unverified | Pc_evidence_stale
  | Pc_claim_source_not_authorized | Pc_hard_blocked_action | Pc_action_requires_approval | Pc_duplicate_action
  | Pc_expired_action | Pc_tool_not_allowed | Pc_tool_unavailable | Pc_tool_execution_claimed | Pc_invalid_entity_proposal
  | Pc_terminal_transition_requires_evidence | Pc_customer_master_mutation_blocked | Pc_identity_conflict
  | Pc_outbound_blocked | Pc_opt_out_active | Pc_ai_blocked | Pc_human_owner_active | Pc_recent_customer_reply
  | Pc_policy_context_missing | Pc_policy_version_mismatch | Pc_failed_safe | Pc_policy_disabled | Pc_invalid_input
  | Pc_unknown_issue

datatype po_rule = Ru_claim_price_evidence | Ru_claim_stock_freshness | Ru_claim_delivery_commitment
  | Ru_claim_discount_approval | Ru_claim_order_status_source | Ru_action_hard_block | Ru_action_duplicate | Ru_action_review
  | Ru_action_explicit_approval | Ru_tool_capability_allowlist | Ru_tool_no_execution | Ru_entity_terminal_state
  | Ru_entity_customer_master_block | Ru_outbound_optout | Ru_outbound_ai_blocked | Ru_outbound_human_owner
  | Ru_outbound_identity_conflict | Ru_followup_recent_reply | Ru_governance_approval | Ru_governance_fail_closed
  | Ru_version_mismatch | Ru_disabled

primrec po_status_name :: "po_status \<Rightarrow> string" where
  "po_status_name Po_allowed = ''allowed''"
| "po_status_name Po_allowed_with_restrictions = ''allowed_with_restrictions''"
| "po_status_name Po_requires_review = ''requires_review''"
| "po_status_name Po_blocked = ''blocked''"
| "po_status_name Po_failed_safe = ''failed_safe''"

primrec po_decision_name :: "po_decision \<Rightarrow> string" where
  "po_decision_name Pd_allow = ''allow''"
| "po_decision_name Pd_allow_with_approval = ''allow_with_approval''"
| "po_decision_name Pd_block = ''block''"
| "po_decision_name Pd_remove = ''remove''"
| "po_decision_name Pd_downgrade_to_review = ''downgrade_to_review''"
| "po_decision_name Pd_failed_safe = ''failed_safe''"

primrec po_approval_name :: "po_approval \<Rightarrow> string" where
  "po_approval_name Pa_none = ''none''"
| "po_approval_name Pa_operator_review = ''operator_review''"
| "po_approval_name Pa_explicit_operator_approval = ''explicit_operator_approval''"
| "po_approval_name Pa_blocked = ''blocked''"

primrec po_failed_reason_name :: "po_failed_reason \<Rightarrow> string" where
  "po_failed_reason_name Pr_invalid_input = ''invalid_input''"
| "po_failed_reason_name Pr_policy_version_mismatch = ''policy_version_mismatch''"
| "po_failed_reason_name Pr_policy_disabled = ''policy_disabled''"
| "po_failed_reason_name Pr_policy_context_missing = ''policy_context_missing''"
| "po_failed_reason_name Pr_exception = ''exception''"
| "po_failed_reason_name Pr_unsafe_output = ''unsafe_output''"
| "po_failed_reason_name Pr_unknown_issue = ''unknown_issue''"

primrec po_code_name :: "po_code \<Rightarrow> string" where
  "po_code_name Pc_sensitive_claim_blocked = ''sensitive_claim_blocked''"
| "po_code_name Pc_evidence_missing = ''evidence_missing''"
| "po_code_name Pc_evidence_unverified = ''evidence_unverified''"
| "po_code_name Pc_evidence_stale = ''evidence_stale''"
| "po_code_name Pc_claim_source_not_authorized = ''claim_source_not_authorized''"
| "po_code_name Pc_hard_blocked_action = ''hard_blocked_action''"
| "po_code_name Pc_action_requires_approval = ''action_requires_approval''"
| "po_code_name Pc_duplicate_action = ''duplicate_action''"
| "po_code_name Pc_expired_action = ''expired_action''"
| "po_code_name Pc_tool_not_allowed = ''tool_not_allowed''"
| "po_code_name Pc_tool_unavailable = ''tool_unavailable''"
| "po_code_name Pc_tool_execution_claimed = ''tool_execution_claimed''"
| "po_code_name Pc_invalid_entity_proposal = ''invalid_entity_proposal''"
| "po_code_name Pc_terminal_transition_requires_evidence = ''terminal_transition_requires_evidence''"
| "po_code_name Pc_customer_master_mutation_blocked = ''customer_master_mutation_blocked''"
| "po_code_name Pc_identity_conflict = ''identity_conflict''"
| "po_code_name Pc_outbound_blocked = ''outbound_blocked''"
| "po_code_name Pc_opt_out_active = ''opt_out_active''"
| "po_code_name Pc_ai_blocked = ''ai_blocked''"
| "po_code_name Pc_human_owner_active = ''human_owner_active''"
| "po_code_name Pc_recent_customer_reply = ''recent_customer_reply''"
| "po_code_name Pc_policy_context_missing = ''policy_context_missing''"
| "po_code_name Pc_policy_version_mismatch = ''policy_version_mismatch''"
| "po_code_name Pc_failed_safe = ''failed_safe''"
| "po_code_name Pc_policy_disabled = ''policy_disabled''"
| "po_code_name Pc_invalid_input = ''invalid_input''"
| "po_code_name Pc_unknown_issue = ''unknown_issue''"

primrec po_rule_name :: "po_rule \<Rightarrow> string" where
  "po_rule_name Ru_claim_price_evidence = ''POLICY-CLAIM-PRICE-EVIDENCE''"
| "po_rule_name Ru_claim_stock_freshness = ''POLICY-CLAIM-STOCK-FRESHNESS''"
| "po_rule_name Ru_claim_delivery_commitment = ''POLICY-CLAIM-DELIVERY-COMMITMENT''"
| "po_rule_name Ru_claim_discount_approval = ''POLICY-CLAIM-DISCOUNT-APPROVAL''"
| "po_rule_name Ru_claim_order_status_source = ''POLICY-CLAIM-ORDER-STATUS-SOURCE''"
| "po_rule_name Ru_action_hard_block = ''POLICY-ACTION-HARD-BLOCK''"
| "po_rule_name Ru_action_duplicate = ''POLICY-ACTION-DUPLICATE''"
| "po_rule_name Ru_action_review = ''POLICY-ACTION-REVIEW''"
| "po_rule_name Ru_action_explicit_approval = ''POLICY-ACTION-EXPLICIT-APPROVAL''"
| "po_rule_name Ru_tool_capability_allowlist = ''POLICY-TOOL-CAPABILITY-ALLOWLIST''"
| "po_rule_name Ru_tool_no_execution = ''POLICY-TOOL-NO-EXECUTION''"
| "po_rule_name Ru_entity_terminal_state = ''POLICY-ENTITY-TERMINAL-STATE''"
| "po_rule_name Ru_entity_customer_master_block = ''POLICY-ENTITY-CUSTOMER-MASTER-BLOCK''"
| "po_rule_name Ru_outbound_optout = ''POLICY-OUTBOUND-OPTOUT''"
| "po_rule_name Ru_outbound_ai_blocked = ''POLICY-OUTBOUND-AI-BLOCKED''"
| "po_rule_name Ru_outbound_human_owner = ''POLICY-OUTBOUND-HUMAN-OWNER''"
| "po_rule_name Ru_outbound_identity_conflict = ''POLICY-OUTBOUND-IDENTITY-CONFLICT''"
| "po_rule_name Ru_followup_recent_reply = ''POLICY-FOLLOWUP-RECENT-REPLY''"
| "po_rule_name Ru_governance_approval = ''POLICY-GOVERNANCE-APPROVAL''"
| "po_rule_name Ru_governance_fail_closed = ''POLICY-GOVERNANCE-FAIL-CLOSED''"
| "po_rule_name Ru_version_mismatch = ''POLICY-VERSION-MISMATCH''"
| "po_rule_name Ru_disabled = ''POLICY-DISABLED''"

text \<open>A time is a text or a \<open>Date\<close>, which may be invalid.\<close>

datatype js_moment = Moment_text string | Moment_date "int option"

record po_channel =
  pch_channel :: "string option"
  pch_available :: bool
  pch_outboundAllowed :: bool
  pch_manualApprovalRequired :: bool
  pch_optOut :: bool
  pch_quietHoursActive :: bool
  pch_humanOwnerActive :: bool
  pch_aiBlocked :: bool
  pch_identityConflict :: bool
  pch_recentCustomerReply :: bool
  pch_recentHumanContact :: bool

record po_flags =
  pfl_commercialPolicyEnabled :: bool
  pfl_allowDraftReplies :: bool
  pfl_allowToolRequests :: bool
  pfl_allowEntityProposals :: bool
  pfl_allowFollowUpEvaluation :: bool
  pfl_allowInternalTasks :: bool
  pfl_allowQuoteDraftRequests :: bool
  pfl_allowOperatorReviewRequests :: bool
  pfl_allowSensitiveClaims :: bool
  pfl_allowOutboundProposals :: bool

record po_input =
  poi_salesAgentResult :: sa_result
  poi_commercialContext :: json
  poi_channelContext :: po_channel
  poi_currentTime :: js_moment
  poi_contractVersion :: string
  poi_policyVersion :: string
  poi_allowedCapabilities :: "string list"
  poi_featureFlags :: po_flags
  poi_metadata :: json

record po_issue =
  pis_code :: po_code
  pis_level :: po_level
  pis_message :: string
  pis_path :: "string list"
  pis_ruleId :: "po_rule option"
  pis_details :: json

text \<open>An assessment of a claim, an action, a tool request or an entity proposal.\<close>

record 'a po_assessment =
  pas_index :: nat
  pas_subject :: 'a
  pas_status :: po_verdict
  pas_decision :: po_decision
  pas_approvalRequirement :: po_approval
  pas_riskLevel :: sa_risk
  pas_ruleIds :: "po_rule list"
  pas_issues :: "po_issue list"
  pas_reason :: string

record po_claim_assessment = "sa_claim po_assessment" +
  pas_volatility :: po_volatility
  pas_freshness :: po_freshness
  pas_sensitive :: bool

record po_action_assessment = "sa_action po_assessment" +
  pas_duplicateOf :: "nat option"
  pas_hardBlocked :: bool

record po_tool_assessment = "sa_tool_request po_assessment" +
  pas_unavailable :: bool

record po_entity_assessment = "sa_entity_proposal po_assessment" +
  pas_terminalTransition :: bool
  pas_customerMasterMutation :: bool

text \<open>What the evaluation of all claims, actions, tool requests or entity proposals gives.\<close>

record ('a, 'b) po_evaluation =
  pev_kept :: "'a list"
  pev_blocked :: "'a list"
  pev_assessments :: "'b list"
  pev_issues :: "po_issue list"
  pev_warnings :: "string list"
  pev_appliedRules :: "po_rule list"
  pev_riskLevel :: sa_risk
  pev_requiresApproval :: po_approval

record po_summary =
  psu_originalOutcome :: string
  psu_governedOutcome :: string
  psu_allowedClaims :: nat
  psu_blockedClaims :: nat
  psu_allowedActions :: nat
  psu_blockedActions :: nat
  psu_allowedToolRequests :: nat
  psu_blockedToolRequests :: nat
  psu_allowedEntityProposals :: nat
  psu_blockedEntityProposals :: nat
  psu_reviewRequired :: bool
  psu_blocked :: bool
  psu_notes :: "string list"

record po_metadata =
  pme_policyVersion :: string
  pme_contractVersion :: string
  pme_currentTime :: string
  pme_validatedAt :: string
  pme_allowedCapabilities :: "string list"
  pme_featureFlags :: po_flags
  pme_issueCount :: nat
  pme_warningCount :: nat
  pme_appliedRuleCount :: nat
  pme_sanitized :: bool
  pme_sanitizedFields :: "string list"
  pme_safeMetadata :: "(string \<times> json) list"
  pme_commercialContext :: "(string \<times> json) list"

record po_reference =
  prf_runId :: string
  prf_contractVersion :: string
  prf_outcome :: string
  prf_decisionType :: string

record po_result =
  pre_status :: po_status
  pre_overallDecision :: po_decision
  pre_riskLevel :: sa_risk
  pre_requiresApproval :: po_approval
  pre_originalResultReference :: po_reference
  pre_governedResult :: sa_result
  pre_claimAssessments :: "po_claim_assessment list"
  pre_actionAssessments :: "po_action_assessment list"
  pre_toolRequestAssessments :: "po_tool_assessment list"
  pre_entityProposalAssessments :: "po_entity_assessment list"
  pre_blockedClaims :: "sa_claim list"
  pre_blockedActions :: "sa_action list"
  pre_blockedToolRequests :: "sa_tool_request list"
  pre_blockedEntityProposals :: "sa_entity_proposal list"
  pre_appliedRules :: "po_rule list"
  pre_issues :: "po_issue list"
  pre_warnings :: "string list"
  pre_summary :: po_summary
  pre_metadata :: po_metadata

section \<open>Ranks\<close>

primrec rankApproval :: "po_approval \<Rightarrow> nat" where
  "rankApproval Pa_none = 0"
| "rankApproval Pa_operator_review = 1"
| "rankApproval Pa_explicit_operator_approval = 2"
| "rankApproval Pa_blocked = 3"

primrec rankRisk :: "sa_risk \<Rightarrow> nat" where
  "rankRisk Sr_low = 0"
| "rankRisk Sr_medium = 1"
| "rankRisk Sr_high = 2"
| "rankRisk Sr_blocked = 3"

definition maxApproval :: "po_approval \<Rightarrow> po_approval \<Rightarrow> po_approval" where
  "maxApproval left right = (if rankApproval left \<ge> rankApproval right then left else right)"

definition maxRisk :: "sa_risk \<Rightarrow> sa_risk \<Rightarrow> sa_risk" where
  "maxRisk left right = (if rankRisk left \<ge> rankRisk right then left else right)"

text \<open>The ranks order the requirements and the risks, so that \<open>maxApproval\<close> and \<open>maxRisk\<close> are \<open>max\<close>.\<close>

instantiation po_approval :: linorder
begin
definition less_eq_po_approval :: "po_approval \<Rightarrow> po_approval \<Rightarrow> bool" where
  "less_eq_po_approval a b \<longleftrightarrow> rankApproval a \<le> rankApproval b"
definition less_po_approval :: "po_approval \<Rightarrow> po_approval \<Rightarrow> bool" where
  "less_po_approval a b \<longleftrightarrow> rankApproval a < rankApproval b"
instance
proof
  fix a b :: po_approval
  show "a \<le> b \<Longrightarrow> b \<le> a \<Longrightarrow> a = b" by (cases a; cases b) (simp_all add: less_eq_po_approval_def)
qed (auto simp: less_eq_po_approval_def less_po_approval_def)
end

instantiation sa_risk :: linorder
begin
definition less_eq_sa_risk :: "sa_risk \<Rightarrow> sa_risk \<Rightarrow> bool" where
  "less_eq_sa_risk a b \<longleftrightarrow> rankRisk a \<le> rankRisk b"
definition less_sa_risk :: "sa_risk \<Rightarrow> sa_risk \<Rightarrow> bool" where
  "less_sa_risk a b \<longleftrightarrow> rankRisk a < rankRisk b"
instance
proof
  fix a b :: sa_risk
  show "a \<le> b \<Longrightarrow> b \<le> a \<Longrightarrow> a = b" by (cases a; cases b) (simp_all add: less_eq_sa_risk_def)
qed (auto simp: less_eq_sa_risk_def less_sa_risk_def)
end

lemma max_ranks [simp]: "maxApproval a b = max a b" "maxRisk r s = max r s"
proof -
  have "rankApproval a = rankApproval b \<Longrightarrow> a = b" by (cases a; cases b) simp_all
  then show "maxApproval a b = max a b" by (auto simp: maxApproval_def max_def less_eq_po_approval_def)
  have "rankRisk r = rankRisk s \<Longrightarrow> r = s" by (cases r; cases s) simp_all
  then show "maxRisk r s = max r s" by (auto simp: maxRisk_def max_def less_eq_sa_risk_def)
qed

end
