(* ===== verification/PolicyRules.thy ===== *)
theory PolicyRules
  imports CommercialPolicy JS_Regex JS_Text "HOL-Library.AList"
begin

text \<open>
  The helpers of the commercial policy (\<open>policy/policyUtils.ts\<close>) and the assessment of claims,
  actions, tool requests and entity proposals (\<open>policy/evaluateCommercialClaims.ts\<close>, \<open>...Actions.ts\<close>,
  \<open>...ToolRequests.ts\<close>, \<open>...EntityProposals.ts\<close>).  Metadata are the values of \<open>JS_Value\<close>: plain trees without
  \<open>Date\<close>, \<open>bigint\<close>, functions, symbols, sharing or cycles.  The parameter \<open>legacy\<close> is the engine's
  reading of a text that is not in the date format of the language.
\<close>

section \<open>Issues and metadata\<close>

definition buildPolicyIssue :: "po_code \<Rightarrow> string \<Rightarrow> string list \<Rightarrow> po_rule option \<Rightarrow> json \<Rightarrow> po_level \<Rightarrow> po_issue" where
  "buildPolicyIssue code message path ruleId details level =
    \<lparr>pis_code = code, pis_level = level, pis_message = message, pis_path = path, pis_ruleId = ruleId,
     pis_details = nullish_or details JNull\<rparr>"

definition FORBIDDEN_KEYS :: "string list" where
  "FORBIDDEN_KEYS = [''__proto__'', ''prototype'', ''constructor'']"

definition SENSITIVE_KEY_PATTERN :: regex where
  "SENSITIVE_KEY_PATTERN = ralts [rlit_i ''authorization'',
     rseqs [rlit_i ''api'', ropt (RClass (\<lambda>c. c = CHR ''-'' \<or> c = CHR ''_'')), rlit_i ''key''],
     rlit_i ''token'', rlit_i ''secret'', rlit_i ''password'', rlit_i ''cookie'', rlit_i ''webhook'', rlit_i ''header'']"

definition metadata_issue :: "string \<Rightarrow> string list \<Rightarrow> json \<Rightarrow> po_issue" where
  "metadata_issue message path details =
    buildPolicyIssue Pc_invalid_input message path (Some Ru_governance_fail_closed) details Pl_warning"

text \<open>
  The value, the issues and the sanitized fields; the items of an array from index \<open>n\<close> on and the members
  of an object.  A member whose key is forbidden or sensitive, or whose value is \<open>undefined\<close>, is left out.
\<close>

fun sanitizeRecursive :: "json \<Rightarrow> string list \<Rightarrow> json \<times> po_issue list \<times> string list"
  and sanitizeItems :: "json list \<Rightarrow> nat \<Rightarrow> string list \<Rightarrow> json list \<times> po_issue list \<times> string list"
  and sanitizeMembers :: "(string \<times> json) list \<Rightarrow> string list \<Rightarrow> (string \<times> json) list \<times> po_issue list \<times> string list" where
  "sanitizeRecursive JUndef path =
     (JUndef, [metadata_issue ''Non-serializable values are not allowed in commercial policy metadata.'' path
        (JObj [(''receivedType'', JStr ''undefined'')])], [js_join ''.'' path])"
| "sanitizeRecursive (JArr xs) path = (case sanitizeItems xs 0 path of (ys, is, fs) \<Rightarrow> (JArr ys, is, fs))"
| "sanitizeRecursive (JObj kvs) path = (case sanitizeMembers kvs path of (out, is, fs) \<Rightarrow> (JObj out, is, fs))"
| "sanitizeRecursive v path = (v, [], [])"
| "sanitizeItems [] n path = ([], [], [])"
| "sanitizeItems (x # xs) n path =
    (case sanitizeRecursive x (path @ [nat_to_string n]) of (y, is, fs) \<Rightarrow>
     case sanitizeItems xs (Suc n) path of (ys, is', fs') \<Rightarrow>
       (if y = JUndef then ys else y # ys, is @ is', fs @ fs'))"
| "sanitizeMembers [] path = ([], [], [])"
| "sanitizeMembers ((key, v) # kvs) path =
    (if key \<in> set FORBIDDEN_KEYS \<or> regex_test SENSITIVE_KEY_PATTERN key then
      (case sanitizeMembers kvs path of (out, is', fs') \<Rightarrow>
        (out, metadata_issue (if key \<in> set FORBIDDEN_KEYS
            then ''Forbidden key encountered in commercial policy metadata.''
            else ''Sensitive key was removed from commercial policy metadata.'')
          (path @ [key]) (JObj [(''key'', JStr key)]) # is', js_join ''.'' (path @ [key]) # fs'))
     else
      (case sanitizeRecursive v (path @ [key]) of (w, is, fs) \<Rightarrow>
       case sanitizeMembers kvs path of (out, is', fs') \<Rightarrow>
         (if w = JUndef then out else (key, w) # out, is @ is', fs @ fs')))"

record po_sanitized =
  psz_value :: "(string \<times> json) list"
  psz_issues :: "po_issue list"
  psz_sanitizedFields :: "string list"
  psz_sanitized :: bool
  psz_bytes :: nat

definition received_type :: "json \<Rightarrow> string" where
  "received_type v = (case v of JArr _ \<Rightarrow> ''array'' | JNull \<Rightarrow> ''null'' | JUndef \<Rightarrow> ''undefined'' | JBool _ \<Rightarrow> ''boolean''
     | JNum _ \<Rightarrow> ''number'' | JStr _ \<Rightarrow> ''string'' | JObj _ \<Rightarrow> ''object'')"

definition sanitizePolicyRecord :: "json \<Rightarrow> po_sanitized" where
  "sanitizePolicyRecord v = (case v of
      JObj kvs \<Rightarrow> (case sanitizeMembers kvs [] of (out, is, fs) \<Rightarrow>
        \<lparr>psz_value = out, psz_issues = is, psz_sanitizedFields = js_unique fs, psz_sanitized = (is \<noteq> []),
         psz_bytes = length (json_stringify (JObj out))\<rparr>)
    | _ \<Rightarrow> \<lparr>psz_value = [], psz_issues = [metadata_issue ''Commercial policy metadata must be a plain object.'' []
           (JObj [(''receivedType'', JStr (received_type v))])],
         psz_sanitizedFields = [], psz_sanitized = True, psz_bytes = 2\<rparr>)"

text \<open>\<open>JSON.parse(JSON.stringify(v))\<close> of a value that is not \<open>undefined\<close>.\<close>

fun json_clone :: "json \<Rightarrow> json" where
  "json_clone (JArr xs) = JArr (map (\<lambda>x. if x = JUndef then JNull else json_clone x) xs)"
| "json_clone (JObj kvs) = JObj (map (\<lambda>(k, v). (k, json_clone v)) (filter (\<lambda>(k, v). v \<noteq> JUndef) kvs))"
| "json_clone v = v"

text \<open>Only the metadata of a result can hold a value that the copy does not keep and that is not replaced later.\<close>

definition cloneSalesAgentResult :: "sa_result \<Rightarrow> sa_result" where
  "cloneSalesAgentResult result = result\<lparr>sg_metadata := (case json_clone (JObj (sg_metadata result)) of JObj kvs \<Rightarrow> kvs | _ \<Rightarrow> [])\<rparr>"

section \<open>Stable texts\<close>

text \<open>The properties of an object are listed with its array indices first, in ascending order.\<close>

definition array_index :: "string \<Rightarrow> bool" where
  "array_index k \<longleftrightarrow> nat_to_string (digits_value k) = k \<and> digits_value k < 4294967295"

definition property_order :: "(string \<times> json) list \<Rightarrow> (string \<times> json) list" where
  "property_order kvs = sort_key (\<lambda>(k, v). digits_value k) (filter (\<lambda>(k, v). array_index k) kvs) @
     filter (\<lambda>(k, v). \<not> array_index k) kvs"

definition code_unit_compare :: "string \<times> json \<Rightarrow> string \<times> json \<Rightarrow> int" where
  "code_unit_compare a b = (if fst a = fst b then 0
     else if ord_class.lexordp (map of_char (fst a) :: nat list) (map of_char (fst b)) then - 1 else 1)"

fun stable_value :: "json \<Rightarrow> json" where
  "stable_value JUndef = JNull"
| "stable_value (JArr xs) = JArr (map stable_value xs)"
| "stable_value (JObj kvs) = JObj (property_order (js_sort code_unit_compare
     (map (\<lambda>(k, v). (k, stable_value v))
       (filter (\<lambda>(k, v). k \<notin> set FORBIDDEN_KEYS \<and> \<not> regex_test SENSITIVE_KEY_PATTERN k) kvs))))"
| "stable_value v = v"

definition stableStringifyJson :: "json \<Rightarrow> string" where
  "stableStringifyJson v = json_stringify (stable_value v)"

section \<open>Times and texts\<close>

primrec moment_time :: "(string \<Rightarrow> int option) \<Rightarrow> js_moment \<Rightarrow> int option" where
  "moment_time legacy (Moment_text s) = date_value legacy s"
| "moment_time legacy (Moment_date t) = t"

definition policy_parseTime :: "(string \<Rightarrow> int option) \<Rightarrow> js_moment \<Rightarrow> int" where
  "policy_parseTime legacy m = (case moment_time legacy m of Some t \<Rightarrow> t | None \<Rightarrow> 0)"

primrec moment_string :: "js_moment \<Rightarrow> string result" where
  "moment_string (Moment_text s) = Inr s"
| "moment_string (Moment_date t) = to_iso_string t"

text \<open>\<open>value ? parseTime(value) : 0\<close> of an optional text.\<close>

definition time_or_zero :: "(string \<Rightarrow> int option) \<Rightarrow> string option \<Rightarrow> int" where
  "time_or_zero legacy v = (case v of Some s \<Rightarrow> if s = [] then 0 else policy_parseTime legacy (Moment_text s) | None \<Rightarrow> 0)"

definition spaced_i :: "string \<Rightarrow> string \<Rightarrow> regex" where
  "spaced_i a b = rseqs [rlit_i a, rplus (RClass is_ws), rlit_i b]"

definition hasSensitiveBlockedText :: "string \<Rightarrow> bool" where
  "hasSensitiveBlockedText t = regex_test (ralts (map rlit_i [''executed'', ''execution'', ''completed'', ''sent'', ''enviado'',
     ''ejecutado'', ''ejecutada'', ''completado'', ''completada'', ''realizado'', ''realizada'', ''done''] @
     [spaced_i ''already'' ''done'', spaced_i ''already'' ''executed'', spaced_i ''ya'' ''ejecutado'', spaced_i ''ya'' ''ejecutada''])) t"

definition isTerminalOpportunityStatus :: "json \<Rightarrow> bool" where
  "isTerminalOpportunityStatus v \<longleftrightarrow>
    (case v of JStr s \<Rightarrow> s \<in> set [''won'', ''lost'', ''closed_won'', ''closed_lost''] | _ \<Rightarrow> False)"

section \<open>What the evaluations share\<close>

definition assessment_warnings :: "po_issue list \<Rightarrow> string list" where
  "assessment_warnings is = js_unique (map (\<lambda>i. po_code_name (pis_code i)) (filter (\<lambda>i. pis_level i = Pl_warning) is))"

text \<open>
  The four evaluations sort the subjects of their assessments into kept and blocked, collect issues,
  warnings and rules, and take the maximum of the risks and the approval requirements.
\<close>

definition evaluation_of :: "('a, 'b) po_assessment_scheme list \<Rightarrow> ('a, ('a, 'b) po_assessment_scheme) po_evaluation" where
  "evaluation_of as =
    (let issues = concat (map pas_issues as)
     in \<lparr>pev_kept = map pas_subject (filter (\<lambda>a. pas_status a \<noteq> Pv_blocked) as),
         pev_blocked = map pas_subject (filter (\<lambda>a. pas_status a = Pv_blocked) as),
         pev_assessments = as, pev_issues = issues, pev_warnings = assessment_warnings issues,
         pev_appliedRules = js_unique (concat (map pas_ruleIds as)),
         pev_riskLevel = foldl maxRisk Sr_low (map pas_riskLevel as),
         pev_requiresApproval = foldl maxApproval Pa_none (map pas_approvalRequirement as)\<rparr>)"

text \<open>\<open>issues[0]?.message ?? otherwise\<close>.\<close>

definition first_message :: "po_issue list \<Rightarrow> string \<Rightarrow> string" where
  "first_message is otherwise = (case is of [] \<Rightarrow> otherwise | i # _ \<Rightarrow> pis_message i)"

section \<open>Claims\<close>

definition COMMERCIAL_POLICY_RECENT_EVIDENCE_MAX_AGE_MS :: int where
  "COMMERCIAL_POLICY_RECENT_EVIDENCE_MAX_AGE_MS = 24 * 60 * 60 * 1000"

definition COMMERCIAL_POLICY_SEMI_VOLATILE_MAX_AGE_MS :: int where
  "COMMERCIAL_POLICY_SEMI_VOLATILE_MAX_AGE_MS = 7 * 24 * 60 * 60 * 1000"

definition COMMERCIAL_POLICY_CLAIM_VOLATILITY_MAP :: "(string \<times> po_volatility) list" where
  "COMMERCIAL_POLICY_CLAIM_VOLATILITY_MAP =
    [(''general'', Vo_stable), (''product'', Vo_stable), (''price'', Vo_volatile), (''stock'', Vo_highly_volatile),
     (''delivery'', Vo_highly_volatile), (''dispatch'', Vo_highly_volatile), (''order_status'', Vo_highly_volatile),
     (''service_availability'', Vo_semi_volatile), (''promotion'', Vo_volatile), (''warranty'', Vo_semi_volatile)]"

definition claimVolatilityForType :: "string \<Rightarrow> po_volatility" where
  "claimVolatilityForType claimType =
    (if claimType = ''price'' \<or> claimType = ''promotion'' then Vo_volatile
     else if claimType \<in> set [''stock'', ''delivery'', ''dispatch'', ''order_status''] then Vo_highly_volatile
     else if claimType = ''service_availability'' then Vo_semi_volatile
     else if claimType = ''warranty'' then Vo_semi_volatile
     else Vo_stable)"

definition claim_volatility :: "string \<Rightarrow> po_volatility" where
  "claim_volatility claimType = (case map_of COMMERCIAL_POLICY_CLAIM_VOLATILITY_MAP claimType of
     Some v \<Rightarrow> v | None \<Rightarrow> claimVolatilityForType claimType)"

definition isSensitiveClaimType :: "string \<Rightarrow> bool" where
  "isSensitiveClaimType claimType \<longleftrightarrow> claimType \<in> set [''price'', ''stock'', ''delivery'', ''dispatch'', ''order_status'',
     ''service_availability'', ''promotion'', ''warranty'']"

definition isStrongEvidenceSource :: "string \<Rightarrow> bool" where
  "isStrongEvidenceSource source \<longleftrightarrow>
    source \<in> set [''tool_result'', ''operator_input'', ''policy_context'', ''order_context'', ''product_service_context'']"

definition claimRuleId :: "string \<Rightarrow> po_rule" where
  "claimRuleId claimType =
    (if claimType = ''price'' then Ru_claim_price_evidence
     else if claimType = ''stock'' then Ru_claim_stock_freshness
     else if claimType = ''delivery'' \<or> claimType = ''dispatch'' then Ru_claim_delivery_commitment
     else if claimType = ''promotion'' then Ru_claim_discount_approval
     else if claimType = ''order_status'' then Ru_claim_order_status_source
     else Ru_governance_approval)"

definition given_text :: "string option \<Rightarrow> bool" where
  "given_text v \<longleftrightarrow> v \<noteq> None \<and> v \<noteq> Some []"

definition freshnessForClaim ::
  "(string \<Rightarrow> int option) \<Rightarrow> sa_claim \<Rightarrow> sa_evidence list \<Rightarrow> int \<Rightarrow> po_volatility \<Rightarrow> po_freshness" where
  "freshnessForClaim legacy claim evidence currentTimeMs volatility =
    (let explicitExpiry = time_or_zero legacy (sac_expiresAt claim)
     in if explicitExpiry > 0 \<and> explicitExpiry \<le> currentTimeMs then Pf_stale
        else (case find (\<lambda>e. given_text (sae_expiresAt e) \<or> given_text (sae_capturedAt e)) evidence of
            None \<Rightarrow> if volatility = Vo_stable then Pf_unknown else Pf_stale
          | Some candidate \<Rightarrow>
              let evidenceExpiry = time_or_zero legacy (sae_expiresAt candidate);
                  capturedAt = time_or_zero legacy (sae_capturedAt candidate);
                  age = currentTimeMs - capturedAt
              in if evidenceExpiry > 0 \<and> evidenceExpiry \<le> currentTimeMs then Pf_stale
                 else if capturedAt \<le> 0 then (if volatility = Vo_stable then Pf_unknown else Pf_stale)
                 else if age \<le> COMMERCIAL_POLICY_RECENT_EVIDENCE_MAX_AGE_MS then Pf_fresh
                 else if age \<le> COMMERCIAL_POLICY_SEMI_VOLATILE_MAX_AGE_MS then Pf_recent
                 else Pf_stale))"

definition approvalForClaim :: "string \<Rightarrow> po_freshness \<Rightarrow> po_volatility \<Rightarrow> po_approval" where
  "approvalForClaim claimType freshness volatility =
    (if freshness = Pf_stale then Pa_operator_review
     else if claimType = ''delivery'' \<or> claimType = ''dispatch'' then Pa_explicit_operator_approval
     else if claimType = ''promotion'' then Pa_explicit_operator_approval
     else if volatility = Vo_highly_volatile then Pa_operator_review
     else if volatility = Vo_volatile \<and> freshness \<noteq> Pf_fresh then Pa_operator_review
     else Pa_none)"

definition result_claims :: "sa_result \<Rightarrow> sa_claim list" where
  "result_claims r = (case sg_responseProposal r of Some p \<Rightarrow> sar_claims p | None \<Rightarrow> [])"

text \<open>The verdict on a claim: its status, decision, risk, approval requirement and issues.\<close>

type_synonym po_judgement = "po_verdict \<times> po_decision \<times> sa_risk \<times> po_approval \<times> po_issue list"

definition judge_claim :: "po_flags \<Rightarrow> nat \<Rightarrow> sa_claim \<Rightarrow> po_volatility \<Rightarrow> po_freshness \<Rightarrow> po_judgement" where
  "judge_claim flags index claim volatility freshness =
    (let sensitive = isSensitiveClaimType (sac_type claim);
         approval = approvalForClaim (sac_type claim) freshness volatility;
         issue = (\<lambda>code message key detail level. buildPolicyIssue code message [''responseProposal'', ''claims'', nat_to_string index]
           (Some (claimRuleId (sac_type claim))) (JObj [(key, JStr detail)]) level)
     in if sensitive \<and> \<not> pfl_allowSensitiveClaims flags then
          (Pv_blocked, Pd_remove, Sr_blocked, Pa_blocked,
           [issue Pc_sensitive_claim_blocked ''Sensitive claims are disabled by policy flags.'' ''claimType'' (sac_type claim) Pl_warning])
        else if sensitive \<and> \<not> isStrongEvidenceSource (sac_evidenceSource claim) then
          (Pv_blocked, Pd_remove, Sr_blocked, Pa_blocked,
           [issue Pc_claim_source_not_authorized ''Claim evidence source is not authorized for sensitive claims.''
              ''evidenceSource'' (sac_evidenceSource claim) Pl_error])
        else if sensitive \<and> \<not> sac_verified claim then
          (Pv_blocked, Pd_remove, Sr_blocked, Pa_blocked,
           [issue Pc_evidence_unverified ''Sensitive claim is not verified.'' ''claimType'' (sac_type claim) Pl_error])
        else if sensitive \<and> freshness = Pf_stale then
          (Pv_review, Pd_downgrade_to_review, Sr_high,
           if approval = Pa_explicit_operator_approval then Pa_explicit_operator_approval else Pa_operator_review,
           [issue Pc_evidence_stale ''Sensitive claim evidence is stale.'' ''claimType'' (sac_type claim) Pl_warning])
        else if isSensitiveClaimType (sac_type claim) \<and> \<not> sac_verified claim then
          (Pv_review, Pd_downgrade_to_review, Sr_medium, Pa_operator_review,
           [issue Pc_evidence_unverified ''Claim is not verified.'' ''claimType'' (sac_type claim) Pl_warning])
        else if sensitive \<and> freshness = Pf_unknown \<and> volatility \<noteq> Vo_stable then
          (Pv_review, Pd_downgrade_to_review, if volatility = Vo_highly_volatile then Sr_high else Sr_medium,
           if approval = Pa_explicit_operator_approval then Pa_explicit_operator_approval else Pa_operator_review,
           [issue Pc_evidence_missing ''Sensitive claim lacks freshness evidence.'' ''claimType'' (sac_type claim) Pl_warning])
        else if sac_type claim = ''delivery'' \<or> sac_type claim = ''dispatch'' \<or> sac_type claim = ''promotion'' then
          (Pv_review, Pd_allow_with_approval, Sr_high, Pa_explicit_operator_approval,
           [issue Pc_action_requires_approval ''Sensitive commercial claim requires explicit approval.'' ''claimType''
              (sac_type claim) Pl_info])
        else if volatility \<noteq> Vo_stable \<and> freshness \<noteq> Pf_fresh then
          (Pv_review, Pd_allow_with_approval, if volatility = Vo_highly_volatile then Sr_high else Sr_medium,
           if approval = Pa_none then Pa_operator_review else approval, [])
        else if sac_confidence claim = ''low'' then
          (Pv_review, Pd_allow_with_approval, Sr_medium, Pa_operator_review,
           [issue Pc_action_requires_approval ''Low confidence claim requires review.'' ''claimType'' (sac_type claim) Pl_info])
        else (Pv_allowed, Pd_allow, Sr_low, approval, []))"

definition missing_claim :: "nat \<Rightarrow> po_claim_assessment" where
  "missing_claim index =
    \<lparr>pas_index = index,
     pas_subject = \<lparr>sac_type = ''general'', sac_value = [], sac_evidenceSource = ''customer_message'', sac_evidenceSummary = [],
       sac_evidenceReference = None, sac_verified = False, sac_confidence = ''low'', sac_expiresAt = None\<rparr>,
     pas_status = Pv_blocked, pas_decision = Pd_remove, pas_approvalRequirement = Pa_blocked, pas_riskLevel = Sr_blocked,
     pas_ruleIds = [Ru_governance_fail_closed],
     pas_issues = [buildPolicyIssue Pc_invalid_input ''Claim is missing from the validated result.''
       [''responseProposal'', ''claims'', nat_to_string index] (Some Ru_governance_fail_closed) JNull Pl_fatal],
     pas_reason = ''Claim is missing from the validated result.'', pas_volatility = Vo_stable, pas_freshness = Pf_unknown,
     pas_sensitive = False\<rparr>"

definition assess_claim :: "(string \<Rightarrow> int option) \<Rightarrow> po_input \<Rightarrow> int \<Rightarrow> nat \<Rightarrow> sa_claim \<Rightarrow> po_claim_assessment" where
  "assess_claim legacy input currentTimeMs index claim =
    (let volatility = claim_volatility (sac_type claim);
         freshness = freshnessForClaim legacy claim
           (filter (\<lambda>e. sae_source e = sac_evidenceSource claim) (sg_evidence (poi_salesAgentResult input)))
           currentTimeMs volatility
     in (case judge_claim (poi_featureFlags input) index claim volatility freshness of
          (status, decision, risk, approval, issues) \<Rightarrow>
            \<lparr>pas_index = index, pas_subject = claim, pas_status = status, pas_decision = decision,
             pas_approvalRequirement = approval, pas_riskLevel = risk, pas_ruleIds = [claimRuleId (sac_type claim)],
             pas_issues = issues, pas_reason = first_message issues ''Claim complies with policy.'',
             pas_volatility = volatility, pas_freshness = freshness,
             pas_sensitive = isSensitiveClaimType (sac_type claim)\<rparr>))"

definition evaluateClaim :: "(string \<Rightarrow> int option) \<Rightarrow> po_input \<Rightarrow> nat \<Rightarrow> int \<Rightarrow> po_claim_assessment" where
  "evaluateClaim legacy input index currentTimeMs =
    (let claims = result_claims (poi_salesAgentResult input)
     in if index < length claims then assess_claim legacy input currentTimeMs index (claims ! index) else missing_claim index)"

type_synonym po_claims = "(sa_claim, po_claim_assessment) po_evaluation"
type_synonym po_actions = "(sa_action, po_action_assessment) po_evaluation"
type_synonym po_tools = "(sa_tool_request, po_tool_assessment) po_evaluation"
type_synonym po_entities = "(sa_entity_proposal, po_entity_assessment) po_evaluation"

definition evaluateCommercialClaims :: "(string \<Rightarrow> int option) \<Rightarrow> po_input \<Rightarrow> po_claims" where
  "evaluateCommercialClaims legacy input =
    (let currentTimeMs = policy_parseTime legacy (poi_currentTime input)
     in evaluation_of (map (\<lambda>index. evaluateClaim legacy input index currentTimeMs)
          [0..<length (result_claims (poi_salesAgentResult input))]))"

section \<open>Actions\<close>

definition isBlockedAction :: "string \<Rightarrow> bool" where
  "isBlockedAction actionType \<longleftrightarrow> actionType \<in> set [''create_lead'', ''create_opportunity'', ''mutate_case'']"

definition actionRuleId :: "string \<Rightarrow> po_rule" where
  "actionRuleId actionType =
    (if actionType = ''send_whatsapp_message'' then Ru_outbound_optout
     else if actionType = ''follow_up'' then Ru_followup_recent_reply
     else if actionType = ''request_human_review'' then Ru_governance_approval
     else if actionType = ''request_tool'' then Ru_tool_capability_allowlist
     else if isBlockedAction actionType then Ru_action_hard_block
     else Ru_governance_approval)"

definition action_key :: "sa_action \<Rightarrow> string" where
  "action_key action = stableStringifyJson (JObj
    [(''type'', JStr (saa_type action)), (''priority'', JStr (saa_priority action)),
     (''confidence'', JStr (saa_confidence action)), (''riskLevel'', JStr (sa_risk_name (saa_riskLevel action))),
     (''requiresApproval'', JStr (sa_approval_name (saa_requiresApproval action))), (''reason'', JStr (saa_reason action)),
     (''payload'', JObj (saa_payload action)), (''dependencies'', JArr (map JStr (saa_dependencies action))),
     (''policyTags'', JArr (map JStr (saa_policyTags action))), (''expiresAt'', json_opt (saa_expiresAt action)),
     (''idempotencyHint'', json_opt (saa_idempotencyHint action))])"

definition action_expired :: "(string \<Rightarrow> int option) \<Rightarrow> po_input \<Rightarrow> sa_action \<Rightarrow> bool" where
  "action_expired legacy input action \<longleftrightarrow> (case saa_expiresAt action of None \<Rightarrow> False | Some s \<Rightarrow> s \<noteq> [] \<and>
     (case (date_value legacy s, moment_time legacy (poi_currentTime input)) of
        (Some e, Some t) \<Rightarrow> e \<le> t | _ \<Rightarrow> False))"

definition action_issue :: "nat \<Rightarrow> sa_action \<Rightarrow> po_code \<Rightarrow> string \<Rightarrow> json \<Rightarrow> po_level \<Rightarrow> po_issue" where
  "action_issue index action code message details level =
    buildPolicyIssue code message [''proposedActions'', nat_to_string index] (Some (actionRuleId (saa_type action))) details level"

text \<open>The review of a proposal that a flag enables, and its downgrade when the flag is off.\<close>

definition flagged_review :: "bool \<Rightarrow> po_issue \<Rightarrow> po_issue list \<Rightarrow> po_judgement" where
  "flagged_review enabled disabled_issue issues =
    (if \<not> enabled then (Pv_review, Pd_downgrade_to_review, Sr_medium, Pa_operator_review, [disabled_issue])
     else (Pv_review, Pd_allow_with_approval, Sr_medium, Pa_operator_review, issues))"

definition blocked_judgement :: "po_issue \<Rightarrow> po_judgement" where
  "blocked_judgement issue = (Pv_blocked, Pd_remove, Sr_blocked, Pa_blocked, [issue])"

text \<open>The verdict on an action that is not a duplicate of one already seen, before its text is read.\<close>

definition judge_action :: "(string \<Rightarrow> int option) \<Rightarrow> po_input \<Rightarrow> nat \<Rightarrow> sa_action \<Rightarrow> po_judgement" where
  "judge_action legacy input index action =
    (let flags = poi_featureFlags input; channel = poi_channelContext input; type = saa_type action;
         issue = (\<lambda>code message level. action_issue index action code message (JObj [(''actionType'', JStr type)]) level);
         allowed = (Pv_allowed, Pd_allow, saa_riskLevel action,
           if saa_requiresApproval action = Sa_blocked then Pa_blocked else Pa_none, [])
     in if isBlockedAction type then
          blocked_judgement (if type = ''create_lead''
            then issue Pc_hard_blocked_action ''Action is hard blocked by policy.'' Pl_fatal
            else issue Pc_action_requires_approval ''Action is blocked by policy and removed from execution.'' Pl_error)
        else if action_expired legacy input action then
          (Pv_blocked, Pd_remove, Sr_high, Pa_blocked, [action_issue index action Pc_expired_action
             ''Action expired before policy evaluation.'' (JObj [(''expiresAt'', json_opt (saa_expiresAt action))]) Pl_fatal])
        else if type = ''send_whatsapp_message'' then
          (if \<not> pfl_allowOutboundProposals flags \<or> \<not> pch_outboundAllowed channel then
             blocked_judgement (issue Pc_outbound_blocked ''Outbound proposals are blocked by policy or channel context.'' Pl_error)
           else if pch_optOut channel \<or> pch_aiBlocked channel \<or> pch_identityConflict channel then
             blocked_judgement (issue (if pch_optOut channel then Pc_opt_out_active else if pch_aiBlocked channel then Pc_ai_blocked
               else Pc_identity_conflict) ''Outbound proposal is blocked by channel policy.'' Pl_fatal)
           else (Pv_review, Pd_allow_with_approval, Sr_high, Pa_explicit_operator_approval,
             [issue Pc_action_requires_approval ''Outbound message proposal requires explicit approval.'' Pl_info]))
        else if type = ''draft_response'' then
          (if \<not> pfl_allowDraftReplies flags then
             (Pv_review, Pd_downgrade_to_review, Sr_medium, Pa_operator_review,
              [issue Pc_action_requires_approval ''Draft responses are disabled by policy flags.'' Pl_warning])
           else allowed)
        else if type = ''request_tool'' then
          flagged_review (pfl_allowToolRequests flags)
            (issue Pc_action_requires_approval ''Tool requests are disabled by policy flags.'' Pl_warning) []
        else if type = ''request_human_review'' then
          flagged_review (pfl_allowOperatorReviewRequests flags)
            (issue Pc_action_requires_approval ''Human review requests are disabled by policy flags.'' Pl_warning) []
        else if type = ''follow_up'' then
          (if pfl_allowFollowUpEvaluation flags \<and> (pch_optOut channel \<or> pch_aiBlocked channel \<or> pch_identityConflict channel \<or>
              pch_humanOwnerActive channel \<or> pch_recentCustomerReply channel) then
             blocked_judgement (issue (if pch_optOut channel then Pc_opt_out_active else if pch_aiBlocked channel then Pc_ai_blocked
               else if pch_identityConflict channel then Pc_identity_conflict
               else if pch_humanOwnerActive channel then Pc_human_owner_active else Pc_recent_customer_reply)
               ''Follow-up is blocked by channel policy.'' Pl_error)
           else flagged_review (pfl_allowFollowUpEvaluation flags)
             (issue Pc_action_requires_approval ''Follow-up evaluation is disabled by policy flags.'' Pl_warning)
             [issue Pc_action_requires_approval ''Follow-up proposal requires operator review.'' Pl_info])
        else allowed)"

definition claims_execution :: "sa_action \<Rightarrow> bool" where
  "claims_execution action \<longleftrightarrow> hasSensitiveBlockedText (saa_reason action) \<or> hasSensitiveBlockedText (saa_type action)"

text \<open>A verdict after a text that speaks of execution was found.\<close>

fun review_text :: "po_issue \<Rightarrow> po_judgement \<Rightarrow> po_judgement" where
  "review_text issue (status, decision, risk, approval, issues) =
    (if status = Pv_allowed then Pv_review else status, if decision = Pd_allow then Pd_allow_with_approval else decision,
     maxRisk risk Sr_medium, maxApproval approval Pa_operator_review, issues @ [issue])"

text \<open>The assessment of an action and the keys seen after it.\<close>

definition evaluateAction :: "(string \<Rightarrow> int option) \<Rightarrow> po_input \<Rightarrow> nat \<Rightarrow> sa_action \<Rightarrow> (string \<times> nat) list \<Rightarrow>
    po_action_assessment \<times> (string \<times> nat) list" where
  "evaluateAction legacy input index action seenKeys =
    (let key = action_key action; duplicateOf = map_of seenKeys key;
         judged = (case duplicateOf of
             Some d \<Rightarrow> (Pv_blocked, Pd_remove, Sr_medium, Pa_none, [action_issue index action Pc_duplicate_action
               ''Duplicate proposed action removed.'' (JObj [(''duplicateOf'', JNum (int d))]) Pl_warning])
           | None \<Rightarrow> judge_action legacy input index action);
         final = (if claims_execution action then review_text (action_issue index action Pc_action_requires_approval
             ''Action text claims execution or completion and requires review.''
             (JObj [(''actionType'', JStr (saa_type action))]) Pl_warning) judged else judged)
     in (case final of (status, decision, risk, approval, issues) \<Rightarrow>
       (\<lparr>pas_index = index, pas_subject = action, pas_status = status, pas_decision = decision,
         pas_approvalRequirement = approval, pas_riskLevel = risk, pas_ruleIds = [actionRuleId (saa_type action)],
         pas_issues = issues, pas_reason = first_message issues ''Action complies with policy.'',
         pas_duplicateOf = duplicateOf,
         pas_hardBlocked = (duplicateOf \<noteq> None \<or> (isBlockedAction (saa_type action) \<and> saa_type action = ''create_lead''))\<rparr>,
        if duplicateOf = None \<and> decision \<noteq> Pd_remove then (key, index) # seenKeys else seenKeys)))"

fun evaluateActions :: "(string \<Rightarrow> int option) \<Rightarrow> po_input \<Rightarrow> nat \<Rightarrow> sa_action list \<Rightarrow> (string \<times> nat) list \<Rightarrow>
    po_action_assessment list" where
  "evaluateActions legacy input index [] seenKeys = []"
| "evaluateActions legacy input index (action # rest) seenKeys =
    (case evaluateAction legacy input index action seenKeys of
      (assessment, seenKeys') \<Rightarrow> assessment # evaluateActions legacy input (Suc index) rest seenKeys')"

definition evaluateCommercialActions :: "(string \<Rightarrow> int option) \<Rightarrow> po_input \<Rightarrow> po_actions" where
  "evaluateCommercialActions legacy input =
    evaluation_of (evaluateActions legacy input 0 (sg_proposedActions (poi_salesAgentResult input)) [])"

section \<open>Tool requests\<close>

definition SALES_AGENT_TOOL_NAMES :: "string list" where
  "SALES_AGENT_TOOL_NAMES = [''searchKnowledge'', ''getStaticBusinessInfo'', ''getKnowledgePolicy'', ''getConversationHistory'',
    ''getActiveCase'', ''searchProducts'', ''getProductStock'', ''getOrderByInvoice'', ''explainAgentDecision'',
    ''lookupCustomerByEmail'', ''createCustomer'', ''linkCustomerToConversation'', ''getCustomerContext'']"

definition CAPABILITY_TOOL_ALIASES :: "(string \<times> string) list" where
  "CAPABILITY_TOOL_ALIASES = [(''searchProducts'', ''search_products'')]"

definition resolveCapabilityNameForSalesAgentTool :: "string \<Rightarrow> string option" where
  "resolveCapabilityNameForSalesAgentTool tool = map_of CAPABILITY_TOOL_ALIASES tool"

text \<open>The authority of a registered capability; the registry holds two, both autonomous.\<close>

definition resolveCapabilityGovernance :: "string \<Rightarrow> string option" where
  "resolveCapabilityGovernance capability =
    map_of [(''search_products'', ''autonomous''), (''get_product_details'', ''autonomous'')] capability"

definition toolRuleId :: "string \<Rightarrow> po_rule" where
  "toolRuleId toolName =
    (if toolName \<in> set [''searchKnowledge'', ''getStaticBusinessInfo'', ''getKnowledgePolicy'', ''getConversationHistory'',
        ''getActiveCase'', ''searchProducts'', ''getProductStock'', ''getOrderByInvoice'']
     then Ru_tool_capability_allowlist else Ru_governance_approval)"

definition isToolAllowed :: "string \<Rightarrow> string list \<Rightarrow> bool" where
  "isToolAllowed toolName allowedCapabilities \<longleftrightarrow>
    toolName \<in> set SALES_AGENT_TOOL_NAMES \<and> toolName \<in> set allowedCapabilities"

definition resolveEffectiveBlocking :: "string \<Rightarrow> bool \<Rightarrow> bool" where
  "resolveEffectiveBlocking tool reportedBlocking =
    (case resolveCapabilityNameForSalesAgentTool tool of
      None \<Rightarrow> reportedBlocking
    | Some capabilityName \<Rightarrow> (case resolveCapabilityGovernance capabilityName of
        None \<Rightarrow> reportedBlocking | Some authority \<Rightarrow> authority = ''requires_approval''))"

definition tool_issue :: "nat \<Rightarrow> sa_tool_request \<Rightarrow> po_code \<Rightarrow> string \<Rightarrow> po_level \<Rightarrow> po_issue" where
  "tool_issue index request code message level =
    buildPolicyIssue code message [''toolRequests'', nat_to_string index] (Some (toolRuleId (sat_tool request)))
      (JObj [(''tool'', JStr (sat_tool request))]) level"

text \<open>The verdict on a tool request and whether it is unavailable, before its optional inputs are read.\<close>

definition judge_tool :: "po_input \<Rightarrow> nat \<Rightarrow> sa_tool_request \<Rightarrow> po_judgement \<times> bool" where
  "judge_tool input index request =
    (let issue = tool_issue index request; enabled = pfl_allowToolRequests (poi_featureFlags input);
         effectiveBlocking = resolveEffectiveBlocking (sat_tool request) (sat_blocking request)
     in if \<not> isToolAllowed (sat_tool request) (poi_allowedCapabilities input) then
          ((Pv_blocked, Pd_remove, Sr_blocked, Pa_blocked,
            [issue Pc_tool_not_allowed ''Tool request is not allowed by the current capability allowlist.'' Pl_error]), True)
        else if sat_status request = ''blocked'' then
          ((Pv_blocked, Pd_remove, Sr_high, Pa_blocked,
            [issue Pc_tool_unavailable ''Tool request is already blocked by the model output.'' Pl_warning]), True)
        else if hasSensitiveBlockedText (sat_purpose request) \<or> hasSensitiveBlockedText (sat_reason request) then
          ((Pv_blocked, Pd_remove, Sr_blocked, Pa_blocked,
            [issue Pc_tool_execution_claimed ''Tool request appears to claim execution or completion.'' Pl_fatal]), True)
        else if effectiveBlocking \<and> \<not> enabled then
          ((Pv_blocked, Pd_remove, Sr_high, Pa_blocked,
            [issue Pc_tool_unavailable ''Blocking tool requests are disabled by policy flags.'' Pl_error]), True)
        else if effectiveBlocking then
          ((Pv_review, Pd_allow_with_approval, Sr_high, Pa_operator_review,
            [issue Pc_action_requires_approval ''Blocking tool request requires operator review.'' Pl_info]), False)
        else if \<not> enabled then
          ((Pv_review, Pd_downgrade_to_review, Sr_medium, Pa_operator_review,
            [issue Pc_action_requires_approval ''Tool requests are disabled by policy flags.'' Pl_warning]), False)
        else ((Pv_allowed, Pd_allow, Sr_low, Pa_none, []), False))"

definition inputs_claim_execution :: "sa_tool_request \<Rightarrow> bool" where
  "inputs_claim_execution request \<longleftrightarrow> (case sat_optionalInputs request of None \<Rightarrow> False
     | Some kvs \<Rightarrow> hasSensitiveBlockedText (json_stringify (JObj kvs)))"

definition assess_tool :: "po_input \<Rightarrow> nat \<Rightarrow> sa_tool_request \<Rightarrow> po_tool_assessment" where
  "assess_tool input index request =
    (let (judged, unavailable) = judge_tool input index request;
         final = (if inputs_claim_execution request then review_text (tool_issue index request Pc_tool_execution_claimed
             ''Tool request optional inputs contain execution-like claims.'' Pl_warning) judged else judged)
     in (case final of (status, decision, risk, approval, issues) \<Rightarrow>
       \<lparr>pas_index = index, pas_subject = request, pas_status = status, pas_decision = decision,
        pas_approvalRequirement = approval, pas_riskLevel = risk, pas_ruleIds = [toolRuleId (sat_tool request)],
        pas_issues = issues, pas_reason = first_message issues ''Tool request complies with policy.'',
        pas_unavailable = unavailable\<rparr>))"

definition evaluateToolRequest :: "po_input \<Rightarrow> nat \<Rightarrow> po_tool_assessment" where
  "evaluateToolRequest input index = assess_tool input index (sg_toolRequests (poi_salesAgentResult input) ! index)"

definition evaluateCommercialToolRequests :: "po_input \<Rightarrow> po_tools" where
  "evaluateCommercialToolRequests input = evaluation_of (map (evaluateToolRequest input)
     [0..<length (sg_toolRequests (poi_salesAgentResult input))])"

section \<open>Entity proposals\<close>

definition allowedKeysForEntityType :: "sa_entity_type \<Rightarrow> string list" where
  "allowedKeysForEntityType entityType = (case entityType of
      Entity_lead \<Rightarrow> [''status'', ''qualificationState'', ''customerReadiness'', ''productFit'', ''source'', ''score'', ''notes'',
        ''reason'', ''nextFollowUpAt'', ''lastInteractionAt'']
    | Entity_opportunity \<Rightarrow> [''status'', ''stage'', ''amount'', ''currency'', ''probability'', ''expectedCloseAt'', ''reason'',
        ''notes'', ''nextFollowUpAt'', ''lastInteractionAt''])"

definition proposalRuleId :: "sa_entity_type \<Rightarrow> po_rule" where
  "proposalRuleId entityType = (case entityType of Entity_lead \<Rightarrow> Ru_governance_approval | Entity_opportunity \<Rightarrow> Ru_entity_terminal_state)"

definition hasStrongEvidence :: "sa_entity_proposal \<Rightarrow> bool" where
  "hasStrongEvidence proposal \<longleftrightarrow> list_ex (\<lambda>e. sae_verified e \<and>
     (sae_source e = ''tool_result'' \<or> sae_source e = ''operator_input'' \<or> sae_source e = ''policy_context'' \<or>
      sae_source e = ''order_context'' \<or> sae_source e = ''product_service_context'')) (sap_evidence proposal)"

definition customer_master_pattern :: regex where
  "customer_master_pattern = ralts
     [rseqs [rlit_i ''customer'', RStar (RClass (\<lambda>c. of_char c \<noteq> (10::nat) \<and> of_char c \<noteq> (13::nat))), rlit_i ''master''],
      rlit_i ''customer_key'', rlit_i ''identity'', rlit_i ''merge'', rlit_i ''master_id'']"

definition isCustomerMasterMutation :: "(string \<times> json) list \<Rightarrow> bool" where
  "isCustomerMasterMutation proposedChanges \<longleftrightarrow> list_ex (regex_test customer_master_pattern) (map fst proposedChanges)"

definition COMMERCIAL_POLICY_HIGH_IMPACT_ENTITY_FIELDS :: "string list" where
  "COMMERCIAL_POLICY_HIGH_IMPACT_ENTITY_FIELDS = [''status'', ''stage'', ''amount'', ''currency'', ''probability'',
     ''expectedCloseAt'', ''nextFollowUpAt'', ''qualificationState'', ''customerReadiness'', ''productFit'', ''score'',
     ''lastInteractionAt'']"

definition terminal_proposal :: "sa_entity_proposal \<Rightarrow> bool" where
  "terminal_proposal proposal \<longleftrightarrow> isTerminalOpportunityStatus (jget (JObj (sap_proposedChanges proposal)) ''status'')"

text \<open>The verdict of the rules on an entity proposal, before its own approval requirement is read.\<close>

definition judge_entity :: "po_input \<Rightarrow> nat \<Rightarrow> sa_entity_proposal \<Rightarrow> po_judgement" where
  "judge_entity input index proposal =
    (let issue = (\<lambda>code message details level. buildPolicyIssue code message [''entityProposals'', nat_to_string index]
           (Some (proposalRuleId (sap_entityType proposal))) details level);
         entity = JObj [(''entityType'', JStr (sa_entity_type_name (sap_entityType proposal)))];
         keys = map fst (sap_proposedChanges proposal);
         invalidKeys = filter (\<lambda>k. k \<notin> set (allowedKeysForEntityType (sap_entityType proposal))) keys;
         highImpact = list_ex (\<lambda>k. k \<in> set COMMERCIAL_POLICY_HIGH_IMPACT_ENTITY_FIELDS) keys
     in if \<not> pfl_allowEntityProposals (poi_featureFlags input) then
          (Pv_review, Pd_downgrade_to_review, Sr_medium, Pa_operator_review,
           [issue Pc_action_requires_approval ''Entity proposals are disabled by policy flags.'' entity Pl_warning])
        else if isCustomerMasterMutation (sap_proposedChanges proposal) then
          blocked_judgement (issue Pc_customer_master_mutation_blocked
            ''Entity proposal attempts to mutate customer master-like identifiers.'' entity Pl_fatal)
        else if invalidKeys \<noteq> [] then
          blocked_judgement (issue Pc_invalid_entity_proposal
            ''Entity proposal contains fields outside the approved contract.''
            (JObj [(''invalidKeys'', JArr (map JStr invalidKeys))]) Pl_error)
        else if terminal_proposal proposal \<and> \<not> hasStrongEvidence proposal then
          blocked_judgement (issue Pc_terminal_transition_requires_evidence
            ''Terminal transition requires authorized evidence.'' entity Pl_fatal)
        else if terminal_proposal proposal \<and> hasStrongEvidence proposal then
          (Pv_review, Pd_allow_with_approval, Sr_high, Pa_explicit_operator_approval,
           [issue Pc_action_requires_approval ''Terminal transition requires explicit approval.'' entity Pl_info])
        else if highImpact then
          (Pv_review, Pd_allow_with_approval, Sr_medium, Pa_operator_review,
           [issue Pc_action_requires_approval ''High-impact entity proposal requires operator review.'' entity Pl_info])
        else (Pv_allowed, Pd_allow, Sr_low, Pa_none, []))"

fun own_requirement :: "sa_entity_proposal \<Rightarrow> po_judgement \<Rightarrow> po_judgement" where
  "own_requirement proposal (status, decision, risk, approval, issues) =
    (if sap_requiresApproval proposal = Sa_blocked then (Pv_blocked, Pd_remove, Sr_blocked, Pa_blocked, issues)
     else if sap_requiresApproval proposal = Sa_operator_review \<and> status = Pv_allowed then
       (Pv_review, Pd_allow_with_approval, maxRisk risk Sr_medium, Pa_operator_review, issues)
     else (status, decision, risk, approval, issues))"

fun terminal_evidence :: "sa_entity_proposal \<Rightarrow> po_judgement \<Rightarrow> po_judgement" where
  "terminal_evidence proposal (status, decision, risk, approval, issues) =
    (if sap_entityType proposal = Entity_opportunity \<and> terminal_proposal proposal \<and> \<not> hasStrongEvidence proposal
     then (Pv_blocked, Pd_remove, Sr_blocked, Pa_blocked, issues)
     else (status, decision, risk, approval, issues))"

definition assess_entity :: "po_input \<Rightarrow> nat \<Rightarrow> sa_entity_proposal \<Rightarrow> po_entity_assessment" where
  "assess_entity input index proposal =
    (case terminal_evidence proposal (own_requirement proposal (judge_entity input index proposal)) of
      (status, decision, risk, approval, issues) \<Rightarrow>
       \<lparr>pas_index = index, pas_subject = proposal, pas_status = status, pas_decision = decision,
        pas_approvalRequirement = approval, pas_riskLevel = risk, pas_ruleIds = [proposalRuleId (sap_entityType proposal)],
        pas_issues = issues, pas_reason = first_message issues ''Entity proposal complies with policy.'',
        pas_terminalTransition = terminal_proposal proposal,
        pas_customerMasterMutation = isCustomerMasterMutation (sap_proposedChanges proposal)\<rparr>)"

definition evaluateEntityProposal :: "po_input \<Rightarrow> nat \<Rightarrow> po_entity_assessment" where
  "evaluateEntityProposal input index = assess_entity input index (sg_entityProposals (poi_salesAgentResult input) ! index)"

definition evaluateCommercialEntityProposals :: "po_input \<Rightarrow> po_entities" where
  "evaluateCommercialEntityProposals input = evaluation_of (map (evaluateEntityProposal input)
     [0..<length (sg_entityProposals (poi_salesAgentResult input))])"

end
