(* ===== verification/PolicyEvaluation.thy ===== *)
theory PolicyEvaluation
  imports PolicyRules
begin

text \<open>
  The evaluation of the commercial policy (\<open>policy/evaluateCommercialPolicy.ts\<close>) and its safe failure
  (\<open>policy/createCommercialPolicyFailedSafe.ts\<close>).  The input has its type, so that the checks that its parts
  are objects pass; an invalid \<open>Date\<close> makes \<open>toISOString\<close> throw.
\<close>

section \<open>Safe failure\<close>

definition COMMERCIAL_POLICY_VERSION :: string where
  "COMMERCIAL_POLICY_VERSION = ''brain.commercial.policy.v1''"

definition COMMERCIAL_POLICY_CONTRACT_VERSION :: string where
  "COMMERCIAL_POLICY_CONTRACT_VERSION = ''brain.commercial.policy.contract.v1''"

definition buildValidationContext :: "po_input \<Rightarrow> sa_validation_context" where
  "buildValidationContext input = \<lparr>sav_expectedRunId = Some (sg_runId (poi_salesAgentResult input)),
     sav_contractVersion = Some ''brain.sales-agent.output.v1''\<rparr>"

text \<open>\<open>{...fields, key: value}\<close>: a key that is there keeps its place.\<close>

definition spread_with :: "(string \<times> json) list \<Rightarrow> (string \<times> json) list \<Rightarrow> (string \<times> json) list" where
  "spread_with kvs new = fold (\<lambda>(k, v) acc. AList.update k v acc) new kvs"

definition original_reference :: "po_input \<Rightarrow> po_reference" where
  "original_reference input = (let r = poi_salesAgentResult input in
     \<lparr>prf_runId = sg_runId r, prf_contractVersion = sg_contractVersion r, prf_outcome = sg_outcome r,
      prf_decisionType = sad_type (sg_decision r)\<rparr>)"

definition count_warnings :: "po_issue list \<Rightarrow> nat" where
  "count_warnings is = length (filter (\<lambda>i. pis_level i = Pl_warning) is)"

definition failed_safe_metadata :: "po_input \<Rightarrow> po_issue list \<Rightarrow> (string \<times> json) list \<Rightarrow> po_metadata result" where
  "failed_safe_metadata input issues safeMetadata =
    (let sanitized = sanitizePolicyRecord (JObj (spread_with safeMetadata
       [(''policyVersion'', JStr (poi_policyVersion input)), (''contractVersion'', JStr (poi_contractVersion input)),
        (''commercialPolicyEnabled'', JBool (pfl_commercialPolicyEnabled (poi_featureFlags input)))]))
     in bind_result (moment_string (poi_currentTime input)) (\<lambda>now.
       Inr \<lparr>pme_policyVersion = poi_policyVersion input, pme_contractVersion = poi_contractVersion input,
         pme_currentTime = now, pme_validatedAt = now, pme_allowedCapabilities = poi_allowedCapabilities input,
         pme_featureFlags = poi_featureFlags input, pme_issueCount = length issues + length (psz_issues sanitized),
         pme_warningCount = count_warnings issues + count_warnings (psz_issues sanitized), pme_appliedRuleCount = 1,
         pme_sanitized = (psz_sanitized sanitized \<or> psz_issues sanitized \<noteq> []),
         pme_sanitizedFields = psz_sanitizedFields sanitized, pme_safeMetadata = psz_value sanitized,
         pme_commercialContext = psz_value (sanitizePolicyRecord (nullish_or (poi_commercialContext input) (JObj [])))\<rparr>))"

definition failed_safe_message :: "po_failed_reason \<Rightarrow> string" where
  "failed_safe_message reason = (case reason of
      Pr_policy_disabled \<Rightarrow> ''Commercial policy is disabled.''
    | Pr_policy_version_mismatch \<Rightarrow> ''Commercial policy version mismatch.''
    | Pr_policy_context_missing \<Rightarrow> ''Commercial policy context is missing.''
    | _ \<Rightarrow> ''Commercial policy failed safe.'')"

definition createCommercialPolicyFailedSafe :: "po_input \<Rightarrow> po_failed_reason \<Rightarrow> po_issue list \<Rightarrow> po_result result" where
  "createCommercialPolicyFailedSafe input reason issues =
    (let agent_issues = map (\<lambda>i. \<lparr>sai_code = ''unknown_issue'', sai_fatal = (pis_level i = Pl_fatal),
           sai_message = pis_message i, sai_path = pis_path i\<rparr>) issues;
         failedSafe = createFailedSafeResult (buildValidationContext input) agent_issues
           (Some (failed_safe_message reason)) (Some ''blocked_by_policy'');
         codes = map (\<lambda>i. po_code_name (pis_code i)) issues;
         cloned = cloneSalesAgentResult failedSafe;
         governed = cloned\<lparr>sg_warnings := js_unique (sg_warnings cloned @ [''commercial_policy_failed_safe'',
             po_failed_reason_name reason] @ codes),
           sg_metadata := spread_with (sg_metadata cloned) [(''commercialPolicy'', JObj
             [(''version'', JStr COMMERCIAL_POLICY_VERSION), (''contractVersion'', JStr COMMERCIAL_POLICY_CONTRACT_VERSION),
              (''reason'', JStr (po_failed_reason_name reason)), (''issues'', JArr (map JStr codes))])]\<rparr>
     in bind_result (failed_safe_metadata input issues
          [(''reason'', JStr (po_failed_reason_name reason)), (''issues'', JArr (map JStr codes))]) (\<lambda>metadata.
        Inr \<lparr>pre_status = Po_failed_safe, pre_overallDecision = Pd_failed_safe, pre_riskLevel = Sr_blocked,
          pre_requiresApproval = Pa_blocked, pre_originalResultReference = original_reference input,
          pre_governedResult = governed, pre_claimAssessments = [], pre_actionAssessments = [],
          pre_toolRequestAssessments = [], pre_entityProposalAssessments = [], pre_blockedClaims = [],
          pre_blockedActions = [], pre_blockedToolRequests = [], pre_blockedEntityProposals = [],
          pre_appliedRules = [Ru_governance_fail_closed],
          pre_issues = (if issues \<noteq> [] then issues else [buildPolicyIssue Pc_failed_safe ''Commercial policy failed safe.'' []
            (Some Ru_governance_fail_closed) (JObj [(''reason'', JStr (po_failed_reason_name reason))]) Pl_fatal]),
          pre_warnings = js_unique ([''commercial_policy_failed_safe'', po_failed_reason_name reason] @ codes),
          pre_summary = \<lparr>psu_originalOutcome = sg_outcome (poi_salesAgentResult input), psu_governedOutcome = sg_outcome governed,
            psu_allowedClaims = 0, psu_blockedClaims = 0, psu_allowedActions = 0, psu_blockedActions = 0,
            psu_allowedToolRequests = 0, psu_blockedToolRequests = 0, psu_allowedEntityProposals = 0,
            psu_blockedEntityProposals = 0, psu_reviewRequired = False, psu_blocked = True,
            psu_notes = [po_failed_reason_name reason]\<rparr>,
          pre_metadata = metadata\<rparr>))"

section \<open>Status and channel\<close>

primrec mapApprovalToSalesAgentApproval :: "po_approval \<Rightarrow> sa_approval" where
  "mapApprovalToSalesAgentApproval Pa_blocked = Sa_blocked"
| "mapApprovalToSalesAgentApproval Pa_explicit_operator_approval = Sa_operator_review"
| "mapApprovalToSalesAgentApproval Pa_operator_review = Sa_operator_review"
| "mapApprovalToSalesAgentApproval Pa_none = Sa_none"

definition buildStatus :: "nat \<Rightarrow> nat \<Rightarrow> bool \<Rightarrow> bool \<Rightarrow> bool \<Rightarrow> bool \<Rightarrow> po_status" where
  "buildStatus blockedCount reviewCount hasFatalIssue hasAllowedContent channelReview channelBlock =
    (if channelBlock then Po_blocked
     else if hasFatalIssue then Po_blocked
     else if blockedCount > 0 \<and> \<not> hasAllowedContent \<and> reviewCount = 0 then Po_blocked
     else if reviewCount > 0 \<or> channelReview then Po_requires_review
     else if blockedCount > 0 \<and> hasAllowedContent then Po_allowed_with_restrictions
     else Po_allowed)"

definition buildOverallDecision :: "po_status \<Rightarrow> po_approval \<Rightarrow> po_decision" where
  "buildOverallDecision status requiresApproval =
    (if status = Po_failed_safe then Pd_failed_safe
     else if status = Po_blocked then Pd_block
     else if status = Po_requires_review then (if requiresApproval = Pa_none then Pd_downgrade_to_review else Pd_allow_with_approval)
     else if status = Po_allowed_with_restrictions then (if requiresApproval = Pa_none then Pd_allow else Pd_allow_with_approval)
     else (if requiresApproval = Pa_none then Pd_allow else Pd_allow_with_approval))"

definition channelBlock :: "po_channel \<Rightarrow> bool" where
  "channelBlock channel \<longleftrightarrow> pch_optOut channel \<or> pch_aiBlocked channel \<or> pch_identityConflict channel"

definition channelReview :: "po_channel \<Rightarrow> bool" where
  "channelReview channel \<longleftrightarrow> pch_humanOwnerActive channel \<or> pch_recentCustomerReply channel \<or> pch_quietHoursActive channel \<or>
     pch_manualApprovalRequired channel"

definition channel_issues :: "po_channel \<Rightarrow> po_issue list" where
  "channel_issues channel =
    (if pch_optOut channel then [buildPolicyIssue Pc_opt_out_active ''Outbound proposal is blocked by opt-out state.''
       [''channelContext'', ''optOut''] (Some Ru_outbound_optout) JNull Pl_fatal] else []) @
    (if pch_aiBlocked channel then [buildPolicyIssue Pc_ai_blocked
       ''Outbound proposal is blocked because AI is disabled for this channel.''
       [''channelContext'', ''aiBlocked''] (Some Ru_outbound_ai_blocked) JNull Pl_fatal] else []) @
    (if pch_identityConflict channel then [buildPolicyIssue Pc_identity_conflict
       ''Outbound proposal is blocked because of an identity conflict.''
       [''channelContext'', ''identityConflict''] (Some Ru_outbound_identity_conflict) JNull Pl_fatal] else []) @
    (if pch_humanOwnerActive channel then [buildPolicyIssue Pc_human_owner_active
       ''Human owner is active and requires review.''
       [''channelContext'', ''humanOwnerActive''] (Some Ru_outbound_human_owner) JNull Pl_warning] else [])"

definition buildPolicyMetadata :: "po_input \<Rightarrow> po_issue list \<Rightarrow> string list \<Rightarrow> po_metadata result" where
  "buildPolicyMetadata input issues warnings =
    (let meta = sanitizePolicyRecord (nullish_or (poi_metadata input) (JObj []));
         context = sanitizePolicyRecord (nullish_or (poi_commercialContext input) (JObj []))
     in bind_result (moment_string (poi_currentTime input)) (\<lambda>now.
       Inr \<lparr>pme_policyVersion = poi_policyVersion input, pme_contractVersion = poi_contractVersion input,
         pme_currentTime = now, pme_validatedAt = now, pme_allowedCapabilities = poi_allowedCapabilities input,
         pme_featureFlags = poi_featureFlags input,
         pme_issueCount = length issues + length (psz_issues meta) + length (psz_issues context),
         pme_warningCount = length warnings, pme_appliedRuleCount = 0,
         pme_sanitized = (psz_sanitized meta \<or> psz_sanitized context \<or> psz_issues meta \<noteq> [] \<or> psz_issues context \<noteq> []),
         pme_sanitizedFields = js_unique (psz_sanitizedFields meta @ psz_sanitizedFields context),
         pme_safeMetadata = spread_with (psz_value meta) [(''commercialContext'', JObj (psz_value context))],
         pme_commercialContext = psz_value context\<rparr>))"

section \<open>The evaluation\<close>

text \<open>The four evaluations and what is computed from them.\<close>

record po_parts =
  pp_claims :: po_claims
  pp_actions :: po_actions
  pp_tools :: po_tools
  pp_entities :: po_entities

definition policy_parts :: "(string \<Rightarrow> int option) \<Rightarrow> po_input \<Rightarrow> po_parts" where
  "policy_parts legacy input = \<lparr>pp_claims = evaluateCommercialClaims legacy input,
     pp_actions = evaluateCommercialActions legacy input, pp_tools = evaluateCommercialToolRequests input,
     pp_entities = evaluateCommercialEntityProposals input\<rparr>"

definition parts_issues :: "po_parts \<Rightarrow> po_issue list" where
  "parts_issues p = pev_issues (pp_claims p) @ pev_issues (pp_actions p) @ pev_issues (pp_tools p) @ pev_issues (pp_entities p)"

definition parts_warnings :: "po_channel \<Rightarrow> po_parts \<Rightarrow> string list" where
  "parts_warnings channel p = js_unique (pev_warnings (pp_claims p) @ pev_warnings (pp_actions p) @ pev_warnings (pp_tools p) @
     pev_warnings (pp_entities p) @ (if channelBlock channel then [''outbound_blocked''] else []) @
     (if channelReview channel then [''human_owner_active''] else []))"

definition parts_rules :: "po_channel \<Rightarrow> po_parts \<Rightarrow> po_rule list" where
  "parts_rules channel p = js_unique (pev_appliedRules (pp_claims p) @ pev_appliedRules (pp_actions p) @
     pev_appliedRules (pp_tools p) @ pev_appliedRules (pp_entities p) @
     (if channelBlock channel then [Ru_outbound_optout] else []) @
     (if channelReview channel then [Ru_outbound_human_owner] else []))"

definition parts_blocked :: "po_parts \<Rightarrow> nat" where
  "parts_blocked p = length (pev_blocked (pp_claims p)) + length (pev_blocked (pp_actions p)) +
     length (pev_blocked (pp_tools p)) + length (pev_blocked (pp_entities p))"

definition in_review :: "('a, ('a, 'b) po_assessment_scheme) po_evaluation \<Rightarrow> nat" where
  "in_review e = length (filter (\<lambda>a. pas_status a = Pv_review) (pev_assessments e))"

definition parts_review :: "po_parts \<Rightarrow> nat" where
  "parts_review p = in_review (pp_claims p) + in_review (pp_actions p) + in_review (pp_tools p) + in_review (pp_entities p)"

definition parts_approval :: "po_parts \<Rightarrow> po_approval" where
  "parts_approval p = maxApproval
     (maxApproval (pev_requiresApproval (pp_claims p)) (pev_requiresApproval (pp_actions p)))
     (maxApproval (pev_requiresApproval (pp_tools p)) (pev_requiresApproval (pp_entities p)))"

definition parts_risk :: "po_parts \<Rightarrow> sa_risk" where
  "parts_risk p = maxRisk (maxRisk (pev_riskLevel (pp_claims p)) (pev_riskLevel (pp_actions p)))
     (maxRisk (pev_riskLevel (pp_tools p)) (pev_riskLevel (pp_entities p)))"

definition parts_content :: "sa_result \<Rightarrow> po_parts \<Rightarrow> bool" where
  "parts_content result p \<longleftrightarrow> pev_kept (pp_claims p) \<noteq> [] \<or> pev_kept (pp_actions p) \<noteq> [] \<or> pev_kept (pp_tools p) \<noteq> [] \<or>
     pev_kept (pp_entities p) \<noteq> [] \<or> sg_responseProposal result \<noteq> None"

definition parts_status :: "po_input \<Rightarrow> po_parts \<Rightarrow> po_status" where
  "parts_status input p = (let channel = poi_channelContext input in
     buildStatus (parts_blocked p) (parts_review p)
       (list_ex (\<lambda>i. pis_level i = Pl_fatal) (parts_issues p @ channel_issues channel))
       (parts_content (poi_salesAgentResult input) p) (channelReview channel) (channelBlock channel))"

text \<open>The copy of the result with the parts that the policy keeps.\<close>

definition keep_parts :: "po_parts \<Rightarrow> sa_result \<Rightarrow> sa_result" where
  "keep_parts p result = result\<lparr>
     sg_responseProposal := map_option (\<lambda>r. r\<lparr>sar_claims := pev_kept (pp_claims p),
       sar_blockedClaims := js_unique (sar_blockedClaims r @ map sac_type (pev_blocked (pp_claims p)))\<rparr>)
       (sg_responseProposal result),
     sg_proposedActions := pev_kept (pp_actions p), sg_toolRequests := pev_kept (pp_tools p),
     sg_entityProposals := pev_kept (pp_entities p)\<rparr>"

definition govern_blocked :: "string list \<Rightarrow> sa_result \<Rightarrow> sa_result" where
  "govern_blocked rules r = r\<lparr>sg_outcome := ''blocked_by_policy'', sg_shouldRespondNow := False,
     sg_shouldRequestTool := False, sg_shouldRequestHuman := True, sg_shouldEvaluateFollowUp := False,
     sg_responseProposal := None, sg_proposedActions := [], sg_toolRequests := [], sg_entityProposals := [],
     sg_decision := \<lparr>sad_type = ''blocked_by_policy'', sad_reason = ''Commercial policy blocked the proposal.'',
       sad_confidence = ''low'', sad_riskLevel = Sr_blocked, sad_requiresApproval = Sa_blocked,
       sad_errorCode = Some ''blocked_by_policy'', sad_reasonCodes = rules,
       sad_policyTags = js_unique (sad_policyTags (sg_decision r) @ [''commercial_policy_blocked''])\<rparr>,
     sg_policyAssessment := \<lparr>sas_status = ''blocked'', sas_blocked = True,
       sas_reason = ''Commercial policy blocked the proposal.'', sas_confidence = ''low'', sas_riskLevel = Sr_blocked,
       sas_approvalRequirement = Sa_blocked, sas_errorCode = Some ''blocked_by_policy'', sas_reasonCodes = rules,
       sas_policyTags = js_unique (sas_policyTags (sg_policyAssessment r) @ [''commercial_policy_blocked''])\<rparr>\<rparr>"

definition unblocked_risk :: "sa_risk \<Rightarrow> sa_risk" where
  "unblocked_risk risk = (if risk = Sr_blocked then Sr_high else risk)"

definition govern_review :: "string list \<Rightarrow> sa_risk \<Rightarrow> po_approval \<Rightarrow> sa_result \<Rightarrow> sa_result" where
  "govern_review rules risk approval r = r\<lparr>sg_shouldRespondNow := False, sg_shouldRequestHuman := True,
     sg_shouldRequestTool := sg_toolRequests r \<noteq> [], sg_shouldEvaluateFollowUp := False,
     sg_decision := \<lparr>sad_type = ''request_human'', sad_reason = ''Commercial policy requires operator review.'',
       sad_confidence = ''medium'', sad_riskLevel = risk, sad_requiresApproval = mapApprovalToSalesAgentApproval approval,
       sad_errorCode = Some ''none'', sad_reasonCodes = rules,
       sad_policyTags = js_unique (sad_policyTags (sg_decision r) @ [''commercial_policy_review''])\<rparr>,
     sg_policyAssessment := \<lparr>sas_status = ''review'', sas_blocked = False,
       sas_reason = ''Commercial policy requires operator review.'', sas_confidence = ''medium'',
       sas_riskLevel = unblocked_risk risk, sas_approvalRequirement = mapApprovalToSalesAgentApproval approval,
       sas_errorCode = Some ''none'', sas_reasonCodes = rules,
       sas_policyTags = js_unique (sas_policyTags (sg_policyAssessment r) @ [''commercial_policy_review''])\<rparr>\<rparr>"

definition govern_allowed :: "string list \<Rightarrow> sa_risk \<Rightarrow> po_approval \<Rightarrow> bool \<Rightarrow> sa_result \<Rightarrow> sa_result" where
  "govern_allowed rules risk approval channel_blocked r = (let d = sg_decision r; a = sg_policyAssessment r in
     r\<lparr>sg_shouldRespondNow := (sg_responseProposal r \<noteq> None \<and> sg_shouldRespondNow r),
       sg_shouldRequestTool := sg_toolRequests r \<noteq> [], sg_shouldRequestHuman := approval \<noteq> Pa_none,
       sg_shouldEvaluateFollowUp := (sg_shouldEvaluateFollowUp r \<and> \<not> channel_blocked),
       sg_decision := d\<lparr>sad_type := (if sad_type d = ''blocked_by_policy'' then ''no_commercial_action'' else sad_type d),
         sad_riskLevel := unblocked_risk risk, sad_requiresApproval := mapApprovalToSalesAgentApproval approval,
         sad_reasonCodes := js_unique (sad_reasonCodes d @ rules),
         sad_policyTags := js_unique (sad_policyTags d @ [''commercial_policy_governed''])\<rparr>,
       sg_policyAssessment := \<lparr>sas_status = (if approval = Pa_none then ''allowed'' else ''review''), sas_blocked = False,
         sas_reason = ''Commercial policy governed the proposal.'', sas_confidence = ''medium'',
         sas_riskLevel = unblocked_risk risk, sas_approvalRequirement = mapApprovalToSalesAgentApproval approval,
         sas_errorCode = Some ''none'', sas_reasonCodes = js_unique (sas_reasonCodes a @ rules),
         sas_policyTags = js_unique (sas_policyTags a @ [''commercial_policy_governed''])\<rparr>\<rparr>)"

definition item_flags :: "po_parts \<Rightarrow> string list" where
  "item_flags p = (if parts_blocked p > 0 then [''commercial_policy_blocked_items''] else []) @
     (if parts_review p > 0 then [''commercial_policy_review_items''] else [])"

definition governed_result :: "po_input \<Rightarrow> po_parts \<Rightarrow> sa_result" where
  "governed_result input p =
    (let channel = poi_channelContext input; status = parts_status input p; approval = parts_approval p; risk = parts_risk p;
         rules = map po_rule_name (parts_rules channel p);
         kept = keep_parts p (cloneSalesAgentResult (poi_salesAgentResult input));
         r = (if status = Po_blocked then govern_blocked rules kept
              else if status = Po_requires_review then govern_review rules risk approval kept
              else govern_allowed rules risk approval (channelBlock channel) kept)
     in r\<lparr>sg_analysis := (sg_analysis r)\<lparr>san_riskLevel := unblocked_risk risk,
            san_reasonCodes := js_unique (san_reasonCodes (sg_analysis r) @ rules)\<rparr>,
          sg_warnings := js_unique (sg_warnings r @ parts_warnings channel p @ item_flags p),
          sg_rationale := (sg_rationale r)\<lparr>sal_policyRulesApplied := js_unique (sal_policyRulesApplied (sg_rationale r) @ rules),
            sal_riskFlags := js_unique (sal_riskFlags (sg_rationale r) @ item_flags p)\<rparr>,
          sg_metadata := spread_with (sg_metadata r) [(''commercialPolicy'', JObj
            [(''version'', JStr (poi_policyVersion input)), (''contractVersion'', JStr (poi_contractVersion input)),
             (''status'', JStr (po_status_name status)),
             (''overallDecision'', JStr (po_decision_name (buildOverallDecision status approval))),
             (''requiresApproval'', JStr (po_approval_name approval)), (''riskLevel'', JStr (sa_risk_name risk)),
             (''blockedCount'', JNum (int (parts_blocked p))), (''reviewCount'', JNum (int (parts_review p))),
             (''appliedRules'', JArr (map JStr rules))])]\<rparr>)"

definition policy_summary :: "po_input \<Rightarrow> po_parts \<Rightarrow> po_summary" where
  "policy_summary input p =
    (let status = parts_status input p; count = (\<lambda>n. if status = Po_blocked then 0 else n)
     in \<lparr>psu_originalOutcome = sg_outcome (poi_salesAgentResult input), psu_governedOutcome = sg_outcome (governed_result input p),
         psu_allowedClaims = count (length (pev_kept (pp_claims p))), psu_blockedClaims = length (pev_blocked (pp_claims p)),
         psu_allowedActions = count (length (pev_kept (pp_actions p))), psu_blockedActions = length (pev_blocked (pp_actions p)),
         psu_allowedToolRequests = count (length (pev_kept (pp_tools p))),
         psu_blockedToolRequests = length (pev_blocked (pp_tools p)),
         psu_allowedEntityProposals = count (length (pev_kept (pp_entities p))),
         psu_blockedEntityProposals = length (pev_blocked (pp_entities p)),
         psu_reviewRequired = (status = Po_requires_review), psu_blocked = (status = Po_blocked),
         psu_notes = (if status = Po_blocked then [''commercial_policy_blocked''] else []) @
           (if status = Po_requires_review then [''commercial_policy_review''] else []) @
           (if parts_blocked p > 0 then [''blocked_items_removed''] else []) @
           (if parts_review p > 0 then [''review_items_retained''] else [])\<rparr>)"

definition policy_result :: "po_input \<Rightarrow> po_parts \<Rightarrow> po_metadata \<Rightarrow> po_result" where
  "policy_result input p metadata =
    (let channel = poi_channelContext input; status = parts_status input p; rules = parts_rules channel p
     in \<lparr>pre_status = status, pre_overallDecision = buildOverallDecision status (parts_approval p), pre_riskLevel = parts_risk p,
         pre_requiresApproval = parts_approval p, pre_originalResultReference = original_reference input,
         pre_governedResult = governed_result input p, pre_claimAssessments = pev_assessments (pp_claims p),
         pre_actionAssessments = pev_assessments (pp_actions p), pre_toolRequestAssessments = pev_assessments (pp_tools p),
         pre_entityProposalAssessments = pev_assessments (pp_entities p), pre_blockedClaims = pev_blocked (pp_claims p),
         pre_blockedActions = pev_blocked (pp_actions p), pre_blockedToolRequests = pev_blocked (pp_tools p),
         pre_blockedEntityProposals = pev_blocked (pp_entities p), pre_appliedRules = rules,
         pre_issues = parts_issues p @ channel_issues channel, pre_warnings = parts_warnings channel p,
         pre_summary = policy_summary input p, pre_metadata = metadata\<lparr>pme_appliedRuleCount := length rules\<rparr>\<rparr>)"

definition version_details :: "po_input \<Rightarrow> json" where
  "version_details input = JObj [(''expectedPolicyVersion'', JStr COMMERCIAL_POLICY_VERSION),
     (''expectedContractVersion'', JStr COMMERCIAL_POLICY_CONTRACT_VERSION),
     (''receivedPolicyVersion'', JStr (poi_policyVersion input)), (''receivedContractVersion'', JStr (poi_contractVersion input))]"

definition isValidCurrentTime :: "(string \<Rightarrow> int option) \<Rightarrow> js_moment \<Rightarrow> bool" where
  "isValidCurrentTime legacy m \<longleftrightarrow> policy_parseTime legacy m > 0"

definition evaluateCommercialPolicy :: "(string \<Rightarrow> int option) \<Rightarrow> po_input \<Rightarrow> po_result result" where
  "evaluateCommercialPolicy legacy input =
    (if \<not> isValidCurrentTime legacy (poi_currentTime input) then
       createCommercialPolicyFailedSafe input Pr_invalid_input [buildPolicyIssue Pc_invalid_input
         ''Commercial policy currentTime is not valid.'' [''currentTime''] (Some Ru_governance_fail_closed) JNull Pl_fatal]
     else if poi_contractVersion input \<noteq> COMMERCIAL_POLICY_CONTRACT_VERSION \<or>
             poi_policyVersion input \<noteq> COMMERCIAL_POLICY_VERSION then
       createCommercialPolicyFailedSafe input Pr_policy_version_mismatch [buildPolicyIssue Pc_policy_version_mismatch
         ''Commercial policy version or contract version mismatch.'' [''policyVersion''] (Some Ru_version_mismatch)
         (version_details input) Pl_fatal]
     else if \<not> pfl_commercialPolicyEnabled (poi_featureFlags input) then
       createCommercialPolicyFailedSafe input Pr_policy_disabled [buildPolicyIssue Pc_policy_disabled
         ''Commercial policy is disabled by feature flags.'' [''featureFlags'', ''commercialPolicyEnabled''] (Some Ru_disabled)
         JNull Pl_fatal]
     else let p = policy_parts legacy input; channel = poi_channelContext input in
       bind_result (buildPolicyMetadata input (parts_issues p @ channel_issues channel) (parts_warnings channel p))
         (\<lambda>metadata. Inr (policy_result input p metadata)))"

end
