(* ===== verification/OperationalState.thy ===== *)
theory OperationalState
  imports PolicyEvaluation
begin

text \<open>
  The operational loop of the commercial agent (\<open>lib/brain/commercial/operational-loop\<close>): the state of an
  opportunity, the identity of the opportunity that a message belongs to, the reduction of the state, the
  next action and the validation of the transition.  Of the contexts only the fields that the loop reads
  are modelled; numbers used as identifiers are integers, and requirements, product interests and
  objections are values of \<open>JS_Value\<close>.
\<close>

section \<open>Types\<close>

datatype op_status = Os_new | Os_engaged | Os_qualifying | Os_quote_pending | Os_quote_ready_for_review | Os_quote_sent
  | Os_waiting_customer | Os_followup_scheduled | Os_negotiation | Os_stalled | Os_won | Os_lost | Os_cancelled | Os_archived

datatype op_stage = Og_discovery | Og_qualification | Og_solution_fit | Og_quotation | Og_negotiation | Og_closing | Og_post_sale_handoff

datatype op_signal = Sg_replied | Sg_no_reply | Sg_left_on_seen | Sg_high_intent | Sg_medium_intent | Sg_low_intent | Sg_asks_price
  | Sg_asks_stock | Sg_asks_delivery | Sg_asks_discount | Sg_asks_quote | Sg_shares_requirements | Sg_shares_budget
  | Sg_shares_deadline | Sg_objection_price | Sg_objection_timing | Sg_objection_trust | Sg_objection_product_fit
  | Sg_human_requested | Sg_purchase_confirmed | Sg_rejection_explicit | Sg_conversation_inactive

datatype op_priority = Op_low | Op_normal | Op_high | Op_urgent

datatype op_temperature = Ot_cold | Ot_warm | Ot_hot | Ot_unknown

datatype op_action_type = On_respond | On_ask_clarifying_question | On_qualify | On_recommend_products | On_prepare_quote
  | On_wait_for_customer | On_propose_followup | On_escalate_to_operator | On_pause | On_close_as_lost_candidate | On_no_action

datatype op_identity_status = Oi_continue_existing | Oi_create_new | Oi_possible_reopen | Oi_ambiguous | Oi_terminal
  | Oi_no_commercial_signal | Oi_blocked

datatype op_load_status = Ol_loaded | Ol_not_found | Ol_disabled | Ol_error

primrec op_status_name :: "op_status \<Rightarrow> string" where
  "op_status_name Os_new = ''new''"
| "op_status_name Os_engaged = ''engaged''"
| "op_status_name Os_qualifying = ''qualifying''"
| "op_status_name Os_quote_pending = ''quote_pending''"
| "op_status_name Os_quote_ready_for_review = ''quote_ready_for_review''"
| "op_status_name Os_quote_sent = ''quote_sent''"
| "op_status_name Os_waiting_customer = ''waiting_customer''"
| "op_status_name Os_followup_scheduled = ''followup_scheduled''"
| "op_status_name Os_negotiation = ''negotiation''"
| "op_status_name Os_stalled = ''stalled''"
| "op_status_name Os_won = ''won''"
| "op_status_name Os_lost = ''lost''"
| "op_status_name Os_cancelled = ''cancelled''"
| "op_status_name Os_archived = ''archived''"

primrec op_action_type_name :: "op_action_type \<Rightarrow> string" where
  "op_action_type_name On_respond = ''respond''"
| "op_action_type_name On_ask_clarifying_question = ''ask_clarifying_question''"
| "op_action_type_name On_qualify = ''qualify''"
| "op_action_type_name On_recommend_products = ''recommend_products''"
| "op_action_type_name On_prepare_quote = ''prepare_quote''"
| "op_action_type_name On_wait_for_customer = ''wait_for_customer''"
| "op_action_type_name On_propose_followup = ''propose_followup''"
| "op_action_type_name On_escalate_to_operator = ''escalate_to_operator''"
| "op_action_type_name On_pause = ''pause''"
| "op_action_type_name On_close_as_lost_candidate = ''close_as_lost_candidate''"
| "op_action_type_name On_no_action = ''no_action''"

text \<open>An identifier of type \<open>string | number\<close>.\<close>

datatype js_id = Id_text string | Id_num int

primrec id_text :: "js_id \<Rightarrow> string" where
  "id_text (Id_text s) = s"
| "id_text (Id_num n) = int_to_string n"

record op_decision_summary =
  ods_decisionId :: string
  ods_decisionStatus :: string
  ods_createdAt :: string

record op_state =
  ost_opportunityId :: "js_id option"
  ost_opportunityKey :: string
  ost_customerCandidateId :: "js_id option"
  ost_customerMasterId :: "js_id option"
  ost_leadId :: "js_id option"
  ost_conversationCaseId :: "js_id option"
  ost_waId :: "string option"
  ost_channel :: string
  ost_primaryIntent :: string
  ost_status :: op_status
  ost_stage :: "op_stage option"
  ost_temperature :: op_temperature
  ost_priority :: op_priority
  ost_currentSummary :: "string option"
  ost_requirements :: "json list"
  ost_missingRequirements :: "json list"
  ost_productInterests :: "json list"
  ost_objections :: "json list"
  ost_signals :: "op_signal list"
  ost_lastCustomerMessageId :: "js_id option"
  ost_lastAgentDecisionId :: "js_id option"
  ost_waitingFor :: "string option"
  ost_nextActionType :: "op_action_type option"
  ost_nextActionDueAt :: "string option"
  ost_humanOwnerActive :: bool
  ost_aiBlocked :: bool
  ost_version :: int
  ost_createdAt :: string
  ost_updatedAt :: string
  ost_lastActivityAt :: string
  ost_closedAt :: "string option"
  ost_previousDecision :: "op_decision_summary option"

record op_diff =
  odf_opportunityKey :: string
  odf_previousStatus :: "op_status option"
  odf_nextStatus :: op_status
  odf_previousStage :: "op_stage option"
  odf_nextStage :: "op_stage option"
  odf_statusChanged :: bool
  odf_stageChanged :: bool
  odf_summaryChanged :: bool
  odf_waitingForChanged :: bool
  odf_nextActionChanged :: bool
  odf_changedFields :: "string list"
  odf_addedSignals :: "op_signal list"
  odf_removedSignals :: "op_signal list"
  odf_addedRequirements :: "string list"
  odf_removedRequirements :: "string list"
  odf_addedObjections :: "string list"
  odf_removedObjections :: "string list"

record op_next_action =
  ona_type :: op_action_type
  ona_reason :: string
  ona_confidence :: string
  ona_riskLevel :: sa_risk
  ona_approvalRequirement :: po_approval
  ona_recommendedChannel :: string
  ona_draftMessage :: "string option"
  ona_requiredInformation :: "string list"
  ona_blockedReasons :: "string list"
  ona_executable :: bool

record op_decision =
  odc_decisionId :: string
  odc_opportunityId :: js_id
  odc_opportunityKey :: string
  odc_correlationId :: string
  odc_processInboundRunId :: "string option"
  odc_salesAgentRunId :: "string option"
  odc_messageId :: "string option"
  odc_previousStatus :: "op_status option"
  odc_nextStatus :: op_status
  odc_previousStage :: "op_stage option"
  odc_nextStage :: "op_stage option"
  odc_detectedSignals :: "op_signal list"
  odc_stateChanges :: op_diff
  odc_missingInformation :: "string list"
  odc_nextAction :: op_next_action
  odc_policyStatus :: po_status
  odc_riskLevel :: sa_risk
  odc_approvalRequirement :: po_approval
  odc_decisionStatus :: string
  odc_rationale :: string
  odc_warnings :: "string list"
  odc_contractVersion :: "string option"
  odc_policyVersion :: "string option"
  odc_runtimeVersion :: "string option"
  odc_createdAt :: string

record op_load_result =
  olr_status :: op_load_status
  olr_candidates :: "op_state list"
  olr_activeState :: "op_state option"
  olr_latestDecision :: "op_decision option"
  olr_warnings :: "string list"

text \<open>What the loop reads of the commercial context, the context of the conversation and the message.\<close>

record op_source =
  osm_channel :: "string option"
  osm_conversationCaseId :: "js_id option"
  osm_waId :: "string option"
  osm_humanOwnershipActive :: bool
  osm_aiBlocked :: bool
  osm_manualReplyActive :: bool
  osm_hasCustomerCandidate :: bool
  osm_hasCustomerReference :: bool
  osm_hasConversationHistory :: bool
  osm_hasLatestCustomerMessage :: bool
  osm_hasLatestOutboundMessage :: bool
  osm_hasCommercialEntity :: bool
  osm_commercialIntentLegacy :: "string option"
  osm_orderContextAvailable :: bool
  osm_productServiceContextAvailable :: bool
  osm_latestInboundAt :: "string option"
  osm_latestOutboundAt :: "string option"

record op_agent_input =
  oai_conversationCaseId :: "js_id option"
  oai_waId :: "string option"
  oai_customerCandidate :: json
  oai_commercialIntentLegacy :: "string option"
  oai_lead :: json
  oai_opportunity :: json

record op_context =
  oct_sourceSummary :: op_source
  oct_salesAgentInput :: "op_agent_input option"

record op_case =
  ocs_conversation_case_id :: "js_id option"
  ocs_ai_blocked :: bool
  ocs_service_code :: "string option"

record op_brain =
  obr_wa_id :: string
  obr_id_customer :: "js_id option"
  obr_active_case_id :: "js_id option"
  obr_active_case :: "op_case option"
  obr_manual_operator_lock :: bool
  obr_service_code :: string

record op_inbound =
  oin_messageId :: string
  oin_waId :: string
  oin_conversationCaseId :: "js_id option"
  oin_channel :: string

text \<open>\<open>a ?? b\<close> of values that may be \<open>null\<close> or \<open>undefined\<close>.\<close>

definition or_opt :: "'a option \<Rightarrow> 'a option \<Rightarrow> 'a option" where
  "or_opt a b = (case a of Some x \<Rightarrow> Some x | None \<Rightarrow> b)"

lemma or_opt_simps [simp]: "or_opt (Some x) b = Some x" "or_opt None b = b"
  by (simp_all add: or_opt_def)

definition or_value :: "'a option \<Rightarrow> 'a \<Rightarrow> 'a" where
  "or_value a b = (case a of Some x \<Rightarrow> x | None \<Rightarrow> b)"

lemma or_value_simps [simp]: "or_value (Some x) b = x" "or_value None b = b"
  by (simp_all add: or_value_def)

definition nonblank_strings :: "string list \<Rightarrow> string list" where
  "nonblank_strings xs = js_unique (filter (\<lambda>s. js_trim s \<noteq> []) xs)"

definition terminal_status :: "op_status \<Rightarrow> bool" where
  "terminal_status s \<longleftrightarrow> s \<in> {Os_won, Os_lost, Os_cancelled, Os_archived}"

lemma terminal_status_simps [simp]:
  "terminal_status Os_won" "terminal_status Os_lost" "terminal_status Os_cancelled" "terminal_status Os_archived"
  "\<not> terminal_status Os_new" "\<not> terminal_status Os_engaged" "\<not> terminal_status Os_qualifying" "\<not> terminal_status Os_quote_pending"
  "\<not> terminal_status Os_quote_ready_for_review" "\<not> terminal_status Os_quote_sent" "\<not> terminal_status Os_waiting_customer"
  "\<not> terminal_status Os_followup_scheduled" "\<not> terminal_status Os_negotiation" "\<not> terminal_status Os_stalled"
  by (simp_all add: terminal_status_def)

end
