(* ===== verification/OperationalLoop.thy ===== *)
theory OperationalLoop
  imports OperationalState
begin

text \<open>
  The steps of the operational loop: \<open>operational-loop/resolveOpportunityIdentity.ts\<close>, \<open>reduceCommercialState.ts\<close>,
  \<open>selectNextCommercialAction.ts\<close> and \<open>validateCommercialTransition.ts\<close>.
\<close>

section \<open>Identity\<close>

definition id_json :: "js_id option \<Rightarrow> json" where
  "id_json v = (case v of None \<Rightarrow> JNull | Some (Id_text s) \<Rightarrow> JStr s | Some (Id_num n) \<Rightarrow> JNum n)"

definition loop_asText :: "string option \<Rightarrow> string option" where
  "loop_asText v = (case v of None \<Rightarrow> None | Some s \<Rightarrow> if js_trim s \<noteq> [] then Some (js_trim s) else None)"

definition asId :: "json \<Rightarrow> js_id option" where
  "asId v = (case v of
      JStr s \<Rightarrow> if js_trim s \<noteq> [] then Some (Id_text (js_trim s)) else None
    | JNum n \<Rightarrow> Some (Id_num n)
    | _ \<Rightarrow> None)"

definition hasCommercialSignal :: "op_source option \<Rightarrow> bool" where
  "hasCommercialSignal src = (case src of None \<Rightarrow> False | Some s \<Rightarrow>
     osm_hasLatestCustomerMessage s \<or> osm_hasLatestOutboundMessage s \<or> osm_hasCustomerCandidate s \<or> osm_hasCustomerReference s \<or>
     osm_hasConversationHistory s \<or> osm_hasCommercialEntity s \<or> osm_orderContextAvailable s \<or> osm_productServiceContextAvailable s)"

definition COMMERCIAL_INTENTS :: "string list" where
  "COMMERCIAL_INTENTS = [''product_inquiry'', ''product_recommendation'', ''price_request'', ''stock_request'', ''quote_request'',
     ''delivery_request'', ''discount_request'', ''bulk_purchase'', ''equipment_project'', ''maintenance_request'',
     ''assembly_request'', ''post_sale_request'', ''general_information'', ''unknown'']"

definition normalizeCommercialIntent :: "string option \<Rightarrow> string" where
  "normalizeCommercialIntent v = (case v of None \<Rightarrow> ''unknown'' | Some s \<Rightarrow>
    (let normalized = js_lower (js_trim s); has = js_includes normalized
     in if normalized \<in> set COMMERCIAL_INTENTS then normalized
        else if has ''price'' \<or> has ''precio'' then ''price_request''
        else if has ''stock'' \<or> has ''inventario'' then ''stock_request''
        else if has ''quote'' \<or> has ''cotiz'' then ''quote_request''
        else if has ''delivery'' \<or> has ''despach'' \<or> has ''shipping'' then ''delivery_request''
        else if has ''discount'' \<or> has ''descuento'' then ''discount_request''
        else if has ''bulk'' \<or> has ''wholesale'' then ''bulk_purchase''
        else if has ''equipment'' \<or> has ''project'' then ''equipment_project''
        else if has ''maintenance'' then ''maintenance_request''
        else if has ''assembly'' then ''assembly_request''
        else if has ''post'' \<and> has ''sale'' then ''post_sale_request''
        else if has ''recommend'' then ''product_recommendation''
        else if has ''product'' then ''product_inquiry''
        else if has ''general'' then ''general_information''
        else ''unknown''))"

record op_hints =
  ohi_customerCandidateId :: "js_id option"
  ohi_customerMasterId :: "js_id option"
  ohi_leadId :: "js_id option"
  ohi_conversationCaseId :: "js_id option"
  ohi_waId :: "string option"
  ohi_channel :: string
  ohi_primaryIntent :: string
  ohi_threadKey :: string
  ohi_hasCommercialSignal :: bool
  ohi_hasExplicitCommercialState :: bool
  ohi_sourceSummary :: "op_source option"

definition json_truthy_record :: "json \<Rightarrow> bool" where
  "json_truthy_record v \<longleftrightarrow> \<not> is_nullish v"

definition buildCommercialIdentityHints :: "op_inbound \<Rightarrow> op_brain \<Rightarrow> op_context option \<Rightarrow> op_hints" where
  "buildCommercialIdentityHints inbound brain context =
    (let agent = Option.bind context oct_salesAgentInput; src = map_option oct_sourceSummary context;
         candidate = (case agent of None \<Rightarrow> JNull | Some a \<Rightarrow> oai_customerCandidate a);
         lead = (case agent of None \<Rightarrow> JUndef | Some a \<Rightarrow> oai_lead a);
         opportunity = (case agent of None \<Rightarrow> JUndef | Some a \<Rightarrow> oai_opportunity a);
         customerCandidateId = (if is_record candidate
           then asId (nullish_or (jget candidate ''id'') (nullish_or (jget candidate ''customerCandidateId'') (jget candidate ''customer_candidate_id'')))
           else None);
         customerMasterId = asId (id_json (or_opt (obr_id_customer brain) (obr_active_case_id brain)));
         leadId = (if is_record lead then asId (nullish_or (jget lead ''id'') (jget lead ''leadId'')) else None);
         opportunityId = (if is_record opportunity
           then asId (nullish_or (jget opportunity ''id'') (jget opportunity ''opportunityId'')) else None);
         waId = loop_asText (or_opt (Option.bind agent oai_waId) (or_opt (Option.bind src osm_waId) (Some (oin_waId inbound))));
         conversationCaseId = asId (id_json (or_opt (Option.bind agent oai_conversationCaseId)
           (or_opt (Option.bind src osm_conversationCaseId) (or_opt (oin_conversationCaseId inbound)
             (or_opt (obr_active_case_id brain) (Option.bind (obr_active_case brain) ocs_conversation_case_id))))));
         channel = or_value (Option.bind src osm_channel) (oin_channel inbound);
         primaryIntent = normalizeCommercialIntent (or_opt (Option.bind src osm_commercialIntentLegacy)
           (or_opt (Option.bind agent oai_commercialIntentLegacy)
             (or_opt (Option.bind (obr_active_case brain) ocs_service_code) (Some (obr_service_code brain)))));
         anchor = or_value (or_opt customerCandidateId (or_opt (map_option Id_text waId)
           (or_opt conversationCaseId (or_opt leadId opportunityId)))) (Id_text ''unknown'')
     in \<lparr>ohi_customerCandidateId = customerCandidateId, ohi_customerMasterId = customerMasterId, ohi_leadId = leadId,
         ohi_conversationCaseId = conversationCaseId, ohi_waId = waId, ohi_channel = channel, ohi_primaryIntent = primaryIntent,
         ohi_threadKey = js_join ''|'' [id_text anchor, channel, id_text (or_value conversationCaseId (Id_text ''no_case'')), primaryIntent],
         ohi_hasCommercialSignal = hasCommercialSignal src,
         ohi_hasExplicitCommercialState = (json_truthy_record lead \<or> json_truthy_record opportunity \<or>
           (case src of None \<Rightarrow> False | Some s \<Rightarrow> osm_hasCommercialEntity s)),
         ohi_sourceSummary = src\<rparr>)"

definition buildOpportunityKey :: "op_hints \<Rightarrow> string" where
  "buildOpportunityKey hints =
    (let anchor = or_value (or_opt (ohi_customerCandidateId hints) (or_opt (map_option Id_text (ohi_waId hints))
           (or_opt (ohi_customerMasterId hints) (or_opt (ohi_leadId hints) (ohi_conversationCaseId hints))))) (Id_text ''unknown'')
     in js_join '':'' (nonblank_strings [''opportunity'', id_text anchor, ohi_primaryIntent hints, ohi_channel hints, ohi_threadKey hints]))"

definition selectRelevantCandidates :: "op_state list \<Rightarrow> string \<Rightarrow> op_state list" where
  "selectRelevantCandidates candidates primaryIntent =
    (if primaryIntent = ''unknown'' then candidates else filter (\<lambda>c. ost_primaryIntent c = primaryIntent) candidates)"

text \<open>The first candidate that neither a human nor a block holds, else the first candidate.\<close>

definition first_free :: "op_state list \<Rightarrow> op_state option" where
  "first_free states = or_opt (find (\<lambda>c. \<not> ost_humanOwnerActive c \<and> \<not> ost_aiBlocked c) states)
     (case states of [] \<Rightarrow> None | c # _ \<Rightarrow> Some c)"

definition deriveSelectedState :: "op_load_result option \<Rightarrow> string \<Rightarrow> op_state option \<times> op_state option \<times> nat" where
  "deriveSelectedState loadResult primaryIntent = (case loadResult of
      None \<Rightarrow> (None, None, 0)
    | Some l \<Rightarrow>
        let relevant = selectRelevantCandidates (olr_candidates l) primaryIntent;
            live = filter (\<lambda>c. \<not> terminal_status (ost_status c)) relevant;
            selected = first_free live;
            reopen = (if selected \<noteq> None then None else find (\<lambda>c. terminal_status (ost_status c)) relevant)
        in (selected, reopen, length live))"

record op_identity_metadata =
  oim_threadKey :: string
  oim_sourceSummary :: "op_source option"
  oim_loadStatus :: "op_load_status option"
  oim_reopenCandidate :: "(js_id option \<times> string) option"

record op_identity =
  oid_status :: op_identity_status
  oid_opportunityKey :: string
  oid_opportunityId :: "js_id option"
  oid_candidateOpportunityIds :: "string list"
  oid_selectedOpportunityId :: "js_id option"
  oid_selectedState :: "op_state option"
  oid_primaryIntent :: string
  oid_channel :: string
  oid_reason :: string
  oid_isNewOpportunity :: bool
  oid_isAmbiguous :: bool
  oid_isTerminal :: bool
  oid_requiresHumanReview :: bool
  oid_warnings :: "string list"
  oid_metadata :: op_identity_metadata

text \<open>The resolution that every branch starts from: nothing is selected.\<close>

definition open_identity :: "op_hints \<Rightarrow> string list \<Rightarrow> op_identity_status \<Rightarrow> string \<Rightarrow> string list \<Rightarrow> op_identity" where
  "open_identity hints ids status reason warnings =
    \<lparr>oid_status = status, oid_opportunityKey = buildOpportunityKey hints, oid_opportunityId = None,
     oid_candidateOpportunityIds = ids, oid_selectedOpportunityId = None, oid_selectedState = None,
     oid_primaryIntent = ohi_primaryIntent hints, oid_channel = ohi_channel hints, oid_reason = reason,
     oid_isNewOpportunity = False, oid_isAmbiguous = False, oid_isTerminal = False, oid_requiresHumanReview = False,
     oid_warnings = warnings,
     oid_metadata = \<lparr>oim_threadKey = ohi_threadKey hints, oim_sourceSummary = ohi_sourceSummary hints, oim_loadStatus = None,
       oim_reopenCandidate = None\<rparr>\<rparr>"

definition resolveOpportunityIdentity :: "op_inbound \<Rightarrow> op_brain \<Rightarrow> op_context option \<Rightarrow> op_load_result option \<Rightarrow> op_identity" where
  "resolveOpportunityIdentity inbound brain context loadResult =
    (let hints = buildCommercialIdentityHints inbound brain context;
         ids = nonblank_strings (map id_text (List.map_filter ost_opportunityId
           (case loadResult of None \<Rightarrow> [] | Some l \<Rightarrow> olr_candidates l)));
         (selected, reopen, relevantCount) = deriveSelectedState loadResult (ohi_primaryIntent hints);
         base = open_identity hints ids
     in if (case loadResult of None \<Rightarrow> False | Some l \<Rightarrow> olr_status l = Ol_error) then
          (let b = base Oi_blocked ''Commercial state lookup failed and cannot be trusted for identity resolution.'' [''commercial_state_conflict'']
           in b\<lparr>oid_selectedState := selected, oid_requiresHumanReview := True,
                oid_metadata := (oid_metadata b)\<lparr>oim_loadStatus := map_option olr_status loadResult\<rparr>\<rparr>)
        else if \<not> ohi_hasCommercialSignal hints then
          (base Oi_no_commercial_signal ''No explicit commercial signal was found in the current input.'' [''commercial_state_missing''])
            \<lparr>oid_selectedState := selected\<rparr>
        else if relevantCount > 1 then
          (base Oi_ambiguous ''Multiple active commercial opportunities matched the same identity hints.'' [''commercial_state_ambiguous''])
            \<lparr>oid_selectedState := selected, oid_isAmbiguous := True, oid_requiresHumanReview := True\<rparr>
        else (case reopen of
          Some r \<Rightarrow>
            (let b = base Oi_possible_reopen (''Opportunity '' @ ost_opportunityKey r @
                   '' is terminal and shares this intent; it was not reopened automatically.'') [''commercial_state_terminal'']
             in b\<lparr>oid_isTerminal := True, oid_requiresHumanReview := True,
                  oid_metadata := (oid_metadata b)\<lparr>oim_reopenCandidate := Some (ost_opportunityId r, ost_opportunityKey r)\<rparr>\<rparr>)
        | None \<Rightarrow> (case selected of
            Some s \<Rightarrow>
              (base Oi_continue_existing ''A compatible active commercial opportunity was found.''
                (nonblank_strings ((if ost_humanOwnerActive s then [''commercial_state_human_owner_active''] else []) @
                   (if ost_aiBlocked s then [''commercial_state_ai_blocked''] else []))))
              \<lparr>oid_opportunityKey := ost_opportunityKey s, oid_opportunityId := ost_opportunityId s,
                oid_selectedOpportunityId := ost_opportunityId s, oid_selectedState := Some s,
                oid_primaryIntent := ost_primaryIntent s, oid_channel := ost_channel s,
                oid_requiresHumanReview := (ost_humanOwnerActive s \<or> ost_aiBlocked s)\<rparr>
          | None \<Rightarrow> (base Oi_create_new
              ''No compatible active commercial opportunity was found. A new operational opportunity can be created.'' [])
                \<lparr>oid_isNewOpportunity := ohi_hasCommercialSignal hints\<rparr>)))"

section \<open>Reduction\<close>

record op_input =
  opi_previousState :: "op_state option"
  opi_identityResolution :: op_identity
  opi_loadResult :: op_load_result
  opi_brainContext :: op_brain
  opi_inboundMessage :: op_inbound
  opi_commercialContext :: "op_context option"
  opi_salesAgentResult :: "sa_result option"
  opi_commercialPolicyResult :: "po_result option"
  opi_currentTime :: js_moment

definition loop_channels :: "string list" where
  "loop_channels = [''whatsapp'', ''email'', ''web'', ''phone'', ''pos'', ''hub'', ''campaign'', ''legacy'', ''unknown'']"

definition normalizeChannel :: "string option \<Rightarrow> string" where
  "normalizeChannel v = (case v of Some c \<Rightarrow> if c \<in> set loop_channels then c else ''unknown'' | None \<Rightarrow> ''unknown'')"

definition loop_toIsoString :: "(string \<Rightarrow> int option) \<Rightarrow> js_moment \<Rightarrow> string" where
  "loop_toIsoString legacy m = (case moment_time legacy m of None \<Rightarrow> iso_of_time 0 | Some t \<Rightarrow> iso_of_time t)"

definition toComparable :: "json \<Rightarrow> string" where
  "toComparable v = (if v = JUndef then [] else json_stringify v)"

definition diffArray :: "('a \<Rightarrow> 'b) \<Rightarrow> 'a list \<Rightarrow> 'a list \<Rightarrow> 'a list \<times> 'a list" where
  "diffArray f previous new =
    (filter (\<lambda>x. f x \<notin> f ` set previous) new, filter (\<lambda>x. f x \<notin> f ` set new) previous)"

definition agent_waits :: "sa_result option \<Rightarrow> bool" where
  "agent_waits r \<longleftrightarrow> (case r of None \<Rightarrow> False | Some a \<Rightarrow>
     sad_type (sg_decision a) = ''wait_for_customer'' \<or> sg_outcome a = ''waiting_for_customer'')"

definition agent_needs_tool :: "sa_result option \<Rightarrow> bool" where
  "agent_needs_tool r \<longleftrightarrow> (case r of None \<Rightarrow> False | Some a \<Rightarrow> sg_outcome a = ''tool_required'' \<or> sad_type (sg_decision a) = ''request_tool'')"

definition agent_blocked :: "sa_result option \<Rightarrow> bool" where
  "agent_blocked r \<longleftrightarrow> (case r of None \<Rightarrow> False | Some a \<Rightarrow>
     sad_type (sg_decision a) = ''blocked_by_policy'' \<or> sg_outcome a = ''blocked_by_policy'')"

definition when_signal :: "bool \<Rightarrow> op_signal \<Rightarrow> op_signal list" where
  "when_signal c s = (if c then [s] else [])"

definition deriveStructuralSignals :: "op_input \<Rightarrow> op_signal list" where
  "deriveStructuralSignals input =
    (let src = map_option oct_sourceSummary (opi_commercialContext input); agent = opi_salesAgentResult input;
         sees = (\<lambda>f. case src of None \<Rightarrow> False | Some s \<Rightarrow> f s); says = (\<lambda>f. case agent of None \<Rightarrow> False | Some a \<Rightarrow> f a)
     in js_unique ((case opi_previousState input of None \<Rightarrow> [] | Some p \<Rightarrow> ost_signals p) @
       when_signal (sees osm_hasLatestCustomerMessage) Sg_replied @ when_signal (sees osm_orderContextAvailable) Sg_shares_requirements @
       when_signal (sees osm_productServiceContextAvailable) Sg_shares_requirements @
       when_signal (sees osm_humanOwnershipActive) Sg_human_requested @ when_signal (sees osm_aiBlocked) Sg_rejection_explicit @
       when_signal (sees osm_manualReplyActive) Sg_replied @ when_signal (says sg_shouldRequestHuman) Sg_human_requested @
       when_signal (says sg_shouldRequestTool) Sg_shares_requirements @ when_signal (says sg_shouldRespondNow) Sg_replied @
       when_signal (agent_waits agent) Sg_conversation_inactive @ when_signal (agent_blocked agent) Sg_rejection_explicit))"

definition derivePriority :: "op_state option \<Rightarrow> op_signal list \<Rightarrow> op_priority" where
  "derivePriority previous signals =
    (case previous of
      Some p \<Rightarrow> if ost_priority p \<noteq> Op_normal then ost_priority p
        else if Sg_human_requested \<in> set signals then Op_high
        else if Sg_purchase_confirmed \<in> set signals then Op_urgent else Op_normal
    | None \<Rightarrow> if Sg_human_requested \<in> set signals then Op_high
        else if Sg_purchase_confirmed \<in> set signals then Op_urgent else Op_normal)"

definition deriveTemperature :: "op_state option \<Rightarrow> op_signal list \<Rightarrow> op_temperature" where
  "deriveTemperature previous signals =
    (case previous of
      Some p \<Rightarrow> ost_temperature p
    | None \<Rightarrow> if Sg_purchase_confirmed \<in> set signals then Ot_hot
        else if Sg_human_requested \<in> set signals then Ot_warm
        else if Sg_rejection_explicit \<in> set signals then Ot_cold else Ot_unknown)"

definition policy_blocks :: "po_result option \<Rightarrow> bool" where
  "policy_blocks r \<longleftrightarrow> (case r of None \<Rightarrow> False | Some p \<Rightarrow> pre_status p = Po_blocked \<or> pre_requiresApproval p = Pa_blocked)"

text \<open>The status of a live opportunity when neither the policy, nor a block or a human, nor a rejection holds it.\<close>

definition advance_status :: "op_status \<Rightarrow> sa_result option \<Rightarrow> op_signal list \<Rightarrow> op_status" where
  "advance_status status agent signals =
    (let replied = Sg_replied \<in> set signals
     in if status = Os_new \<and> replied then Os_engaged
        else if status = Os_engaged \<and> (Sg_human_requested \<in> set signals \<or> agent_needs_tool agent) then Os_qualifying
        else if status = Os_qualifying \<and> agent_needs_tool agent then Os_quote_pending
        else if status = Os_qualifying \<and> agent_waits agent then Os_waiting_customer
        else if status = Os_quote_pending \<and> agent_waits agent then Os_waiting_customer
        else if status = Os_waiting_customer \<and> replied then Os_engaged
        else if status = Os_stalled \<and> replied then Os_engaged
        else status)"

definition deriveStatus :: "op_state option \<Rightarrow> op_input \<Rightarrow> op_signal list \<Rightarrow> op_status" where
  "deriveStatus previous input signals =
    (let src = map_option oct_sourceSummary (opi_commercialContext input);
         held = ((case previous of None \<Rightarrow> False | Some p \<Rightarrow> ost_aiBlocked p \<or> ost_humanOwnerActive p) \<or>
           (case src of None \<Rightarrow> False | Some s \<Rightarrow> osm_humanOwnershipActive s \<or> osm_aiBlocked s))
     in case previous of
          Some p \<Rightarrow>
            if terminal_status (ost_status p) then ost_status p
            else if policy_blocks (opi_commercialPolicyResult input) then ost_status p
            else if held then (if ost_status p = Os_new then Os_stalled else ost_status p)
            else if Sg_rejection_explicit \<in> set signals then Os_stalled
            else advance_status (ost_status p) (opi_salesAgentResult input) signals
        | None \<Rightarrow>
            if policy_blocks (opi_commercialPolicyResult input) then Os_stalled
            else if held then Os_stalled
            else if Sg_rejection_explicit \<in> set signals then Os_stalled
            else if Sg_human_requested \<in> set signals then Os_stalled
            else if Sg_replied \<in> set signals then Os_engaged
            else Os_new)"

definition deriveStage :: "op_status \<Rightarrow> op_stage option" where
  "deriveStage status =
    (if status \<in> {Os_new, Os_engaged, Os_stalled} then Some Og_discovery
     else if status = Os_qualifying then Some Og_qualification
     else if status \<in> {Os_quote_pending, Os_quote_ready_for_review, Os_quote_sent} then Some Og_quotation
     else if status \<in> {Os_waiting_customer, Os_followup_scheduled} then Some Og_solution_fit
     else if status = Os_negotiation then Some Og_negotiation
     else if terminal_status status then Some Og_closing
     else None)"

text \<open>A field of the previous state with a default, and one that the selected state may give.\<close>

definition previous_or :: "op_state option \<Rightarrow> (op_state \<Rightarrow> 'a) \<Rightarrow> 'a \<Rightarrow> 'a" where
  "previous_or previous f d = (case previous of None \<Rightarrow> d | Some p \<Rightarrow> f p)"

definition kept_field :: "op_state option \<Rightarrow> op_identity \<Rightarrow> (op_state \<Rightarrow> 'a option) \<Rightarrow> 'a option" where
  "kept_field previous identity f = or_opt (Option.bind previous f) (Option.bind (oid_selectedState identity) f)"

definition buildBaseState :: "(string \<Rightarrow> int option) \<Rightarrow> op_input \<Rightarrow> op_signal list \<Rightarrow> op_state" where
  "buildBaseState legacy input signals =
    (let now = loop_toIsoString legacy (opi_currentTime input); previous = opi_previousState input;
         identity = opi_identityResolution input; brain = opi_brainContext input; inbound = opi_inboundMessage input;
         src = map_option oct_sourceSummary (opi_commercialContext input); agent = opi_salesAgentResult input
     in \<lparr>ost_opportunityId = or_opt (Option.bind previous ost_opportunityId)
           (or_opt (oid_selectedOpportunityId identity) (oid_opportunityId identity)),
         ost_opportunityKey = oid_opportunityKey identity,
         ost_customerCandidateId = kept_field previous identity ost_customerCandidateId, ost_customerMasterId = kept_field previous identity ost_customerMasterId,
         ost_leadId = kept_field previous identity ost_leadId,
         ost_conversationCaseId = or_opt (kept_field previous identity ost_conversationCaseId) (or_opt (oin_conversationCaseId inbound)
           (Option.bind (obr_active_case brain) ocs_conversation_case_id)),
         ost_waId = or_opt (kept_field previous identity ost_waId) (Some (obr_wa_id brain)),
         ost_channel = or_value (or_opt (map_option ost_channel previous) (map_option ost_channel (oid_selectedState identity)))
           (normalizeChannel (Option.bind src osm_channel)),
         ost_primaryIntent = previous_or previous ost_primaryIntent (oid_primaryIntent identity),
         ost_status = previous_or previous ost_status Os_new, ost_stage = previous_or previous ost_stage None,
         ost_temperature = previous_or previous ost_temperature Ot_unknown, ost_priority = previous_or previous ost_priority Op_normal,
         ost_currentSummary = or_opt (map_option (\<lambda>a. san_summary (sg_analysis a)) agent)
           (or_opt (Option.bind (opi_commercialPolicyResult input) (\<lambda>p. case psu_notes (pre_summary p) of [] \<Rightarrow> None | n # _ \<Rightarrow> Some n))
             (Option.bind previous ost_currentSummary)),
         ost_requirements = previous_or previous ost_requirements [], ost_missingRequirements = previous_or previous ost_missingRequirements [],
         ost_productInterests = previous_or previous ost_productInterests [], ost_objections = previous_or previous ost_objections [], ost_signals = signals,
         ost_lastCustomerMessageId = Some (Id_text (oin_messageId inbound)),
         ost_lastAgentDecisionId = or_opt (map_option (\<lambda>a. Id_text (sg_runId a)) agent) (Option.bind previous ost_lastAgentDecisionId),
         ost_waitingFor = Option.bind previous ost_waitingFor, ost_nextActionType = Option.bind previous ost_nextActionType,
         ost_nextActionDueAt = Option.bind previous ost_nextActionDueAt,
         ost_humanOwnerActive = previous_or previous ost_humanOwnerActive
           (case src of Some s \<Rightarrow> osm_humanOwnershipActive s | None \<Rightarrow> obr_manual_operator_lock brain),
         ost_aiBlocked = previous_or previous ost_aiBlocked (case src of Some s \<Rightarrow> osm_aiBlocked s
           | None \<Rightarrow> (case obr_active_case brain of Some c \<Rightarrow> ocs_ai_blocked c | None \<Rightarrow> False)),
         ost_version = previous_or previous ost_version 0 + 1, ost_createdAt = previous_or previous ost_createdAt now, ost_updatedAt = now,
         ost_lastActivityAt = or_value (or_opt (Option.bind src osm_latestInboundAt) (Option.bind src osm_latestOutboundAt)) now,
         ost_closedAt = Option.bind previous ost_closedAt,
         ost_previousDecision = (case olr_latestDecision (opi_loadResult input) of
             Some d \<Rightarrow> Some \<lparr>ods_decisionId = odc_decisionId d, ods_decisionStatus = odc_decisionStatus d, ods_createdAt = odc_createdAt d\<rparr>
           | None \<Rightarrow> Option.bind previous ost_previousDecision)\<rparr>)"

definition buildStateDiff :: "op_state option \<Rightarrow> op_state \<Rightarrow> op_diff" where
  "buildStateDiff previous result =
    (let differs = (\<lambda>same. case previous of None \<Rightarrow> True | Some p \<Rightarrow> \<not> same p);
         field = (\<lambda>same name. if differs same then [name] else []);
         old = (\<lambda>f. case previous of None \<Rightarrow> [] | Some p \<Rightarrow> f p);
         status = (\<lambda>p. ost_status p = ost_status result); stage = (\<lambda>p. ost_stage p = ost_stage result);
         summary = (\<lambda>p. ost_currentSummary p = ost_currentSummary result);
         waiting = (\<lambda>p. ost_waitingFor p = ost_waitingFor result);
         action = (\<lambda>p. ost_nextActionType p = ost_nextActionType result);
         signalDiff = diffArray id (case previous of None \<Rightarrow> [] | Some p \<Rightarrow> ost_signals p) (ost_signals result);
         requirementDiff = diffArray toComparable (old ost_requirements) (ost_requirements result);
         objectionDiff = diffArray toComparable (old ost_objections) (ost_objections result)
     in \<lparr>odf_opportunityKey = ost_opportunityKey result, odf_previousStatus = map_option ost_status previous,
         odf_nextStatus = ost_status result, odf_previousStage = Option.bind previous ost_stage, odf_nextStage = ost_stage result,
         odf_statusChanged = differs status, odf_stageChanged = differs stage, odf_summaryChanged = differs summary,
         odf_waitingForChanged = differs waiting, odf_nextActionChanged = differs action,
         odf_changedFields = field status ''status'' @ field stage ''stage'' @ field summary ''currentSummary'' @
           field waiting ''waitingFor'' @ field action ''nextActionType'' @
           field (\<lambda>p. ost_priority p = ost_priority result) ''priority'' @
           field (\<lambda>p. ost_temperature p = ost_temperature result) ''temperature'' @
           field (\<lambda>p. ost_humanOwnerActive p = ost_humanOwnerActive result) ''humanOwnerActive'' @
           field (\<lambda>p. ost_aiBlocked p = ost_aiBlocked result) ''aiBlocked'' @
           field (\<lambda>p. ost_version p = ost_version result) ''version'',
         odf_addedSignals = fst signalDiff, odf_removedSignals = snd signalDiff,
         odf_addedRequirements = map toComparable (fst requirementDiff), odf_removedRequirements = map toComparable (snd requirementDiff),
         odf_addedObjections = map toComparable (fst objectionDiff), odf_removedObjections = map toComparable (snd objectionDiff)\<rparr>)"

record op_reduction =
  ord_resultingState :: op_state
  ord_stateDiff :: op_diff
  ord_warnings :: "string list"
  ord_reason :: string

definition reduceCommercialState :: "(string \<Rightarrow> int option) \<Rightarrow> op_input \<Rightarrow> op_reduction" where
  "reduceCommercialState legacy input =
    (let previous = opi_previousState input; signals = deriveStructuralSignals input; policy = opi_commercialPolicyResult input;
         derivedStatus = deriveStatus previous input signals; base = buildBaseState legacy input signals;
         result = base\<lparr>ost_status := derivedStatus, ost_stage := deriveStage derivedStatus,
           ost_temperature := deriveTemperature previous signals, ost_priority := derivePriority previous signals,
           ost_waitingFor := (if policy_blocks policy then Some ''operator_review'' else Option.bind previous ost_waitingFor)\<rparr>;
         before = (\<lambda>f. case previous of None \<Rightarrow> False | Some p \<Rightarrow> f p);
         policy_is = (\<lambda>s. case policy of None \<Rightarrow> False | Some p \<Rightarrow> pre_status p = s)
     in \<lparr>ord_resultingState = result, ord_stateDiff = buildStateDiff previous result,
         ord_warnings =
           (if before ost_humanOwnerActive \<or> ost_humanOwnerActive result then [''commercial_state_human_owner_active''] else []) @
           (if before ost_aiBlocked \<or> ost_aiBlocked result then [''commercial_state_ai_blocked''] else []) @
           (if policy_is Po_blocked then [''commercial_state_policy_blocked''] else []) @
           (if policy_is Po_requires_review then [''commercial_state_conflict''] else []) @
           (if Sg_rejection_explicit \<in> set signals then [''commercial_state_transition_blocked''] else []),
         ord_reason =
           (if policy_is Po_blocked then ''Commercial policy blocked the state reduction.''
            else if before (\<lambda>p. ost_status p = ost_status result \<and> ost_stage p = ost_stage result)
            then ''Commercial state remained stable.''
            else ''Reduced commercial state to '' @ op_status_name (ost_status result) @ ''.'')\<rparr>)"

section \<open>The next action\<close>

record op_selection =
  osl_previousState :: "op_state option"
  osl_resultingState :: op_state
  osl_identityResolution :: op_identity
  osl_commercialPolicyResult :: "po_result option"
  osl_salesAgentResult :: "sa_result option"

text \<open>
  The approval requirement: of the policy, else of the agent, else \<open>blocked\<close>.  The agent's \<open>review\<close> and \<open>handoff\<close> count as
  a review, both in \<open>approvalOrBlocked\<close> and in the tests for \<open>none\<close> and \<open>blocked\<close>.
\<close>

primrec agent_approval :: "sa_approval \<Rightarrow> po_approval" where
  "agent_approval Sa_none = Pa_none"
| "agent_approval Sa_review = Pa_operator_review"
| "agent_approval Sa_operator_review = Pa_operator_review"
| "agent_approval Sa_handoff = Pa_operator_review"
| "agent_approval Sa_blocked = Pa_blocked"

definition selection_approval :: "op_selection \<Rightarrow> po_approval" where
  "selection_approval input = (case osl_commercialPolicyResult input of
      Some p \<Rightarrow> pre_requiresApproval p
    | None \<Rightarrow> (case osl_salesAgentResult input of Some a \<Rightarrow> agent_approval (sad_requiresApproval (sg_decision a)) | None \<Rightarrow> Pa_blocked))"

definition buildAction :: "op_action_type \<Rightarrow> string \<Rightarrow> op_selection \<Rightarrow> string option \<Rightarrow> string list \<Rightarrow> string list \<Rightarrow> op_next_action" where
  "buildAction type reason input draftMessage requiredInformation blockedReasons =
    \<lparr>ona_type = type, ona_reason = reason,
     ona_confidence = (case osl_salesAgentResult input of Some a \<Rightarrow> san_confidence (sg_analysis a) | None \<Rightarrow> ''low''),
     ona_riskLevel = (case osl_commercialPolicyResult input of Some p \<Rightarrow> pre_riskLevel p
       | None \<Rightarrow> (case osl_salesAgentResult input of Some a \<Rightarrow> san_riskLevel (sg_analysis a) | None \<Rightarrow> Sr_blocked)),
     ona_approvalRequirement = selection_approval input, ona_recommendedChannel = ost_channel (osl_resultingState input),
     ona_draftMessage = draftMessage, ona_requiredInformation = requiredInformation, ona_blockedReasons = blockedReasons,
     ona_executable = False\<rparr>"

definition getDraftText :: "sa_result option \<Rightarrow> string option" where
  "getDraftText result = (case Option.bind result sg_responseProposal of None \<Rightarrow> None | Some r \<Rightarrow> loop_asText (sar_draftText r))"

definition getQuestions :: "sa_result option \<Rightarrow> string list" where
  "getQuestions result = (case Option.bind result sg_responseProposal of None \<Rightarrow> []
     | Some r \<Rightarrow> filter (\<lambda>q. js_trim q \<noteq> []) (sar_questions r))"

definition getMissingInformation :: "op_selection \<Rightarrow> string list" where
  "getMissingInformation input = nonblank_strings
     ((case osl_salesAgentResult input of Some a \<Rightarrow> sal_missingInformation (sg_rationale a) | None \<Rightarrow> []) @
      map (\<lambda>item. case item of JStr s \<Rightarrow> s | _ \<Rightarrow> json_stringify item) (ost_missingRequirements (osl_resultingState input)))"

text \<open>The action for the intent of a proposed response.\<close>

definition intent_action :: "string \<Rightarrow> (op_action_type \<times> string \<times> string list) option" where
  "intent_action intent =
    (if intent = ''answer'' \<or> intent = ''confirm'' then Some (On_respond, ''The agent proposed an answer-ready response.'', [])
     else if intent = ''clarify'' then Some (On_ask_clarifying_question, ''The agent proposed a clarification response.'', [])
     else if intent = ''quote'' then Some (On_prepare_quote, ''The agent proposed a quote-oriented response.'', [])
     else if intent = ''follow_up'' then Some (On_propose_followup, ''The agent proposed a follow-up style response.'', [])
     else if intent = ''handoff'' then Some (On_escalate_to_operator, ''The agent proposed a human handoff.'', [])
     else if intent = ''no_response'' then Some (On_wait_for_customer, ''The agent proposed waiting for the customer.'', [])
     else if intent = ''blocked'' then Some (On_no_action, ''The response proposal is blocked.'', [''policy_blocked''])
     else if intent = ''reject'' then Some (On_close_as_lost_candidate, ''The agent signaled a rejection-style outcome.'', [])
     else None)"

definition selectNextCommercialAction :: "op_selection \<Rightarrow> op_next_action" where
  "selectNextCommercialAction input =
    (let policy = osl_commercialPolicyResult input; agent = osl_salesAgentResult input; result = osl_resultingState input;
         identity = osl_identityResolution input; approval = selection_approval input;
         blockedByPolicy = ((case policy of None \<Rightarrow> False | Some p \<Rightarrow> pre_status p = Po_blocked) \<or> approval = Pa_blocked);
         requiresReview = (approval \<noteq> Pa_none \<and> approval \<noteq> Pa_blocked);
         missing = getMissingInformation input; draft = getDraftText agent; questions = getQuestions agent;
         needed = (if missing \<noteq> [] then missing else questions);
         outcome = (\<lambda>o'. case agent of None \<Rightarrow> False | Some a \<Rightarrow> sg_outcome a = o');
         decision = (\<lambda>d. case agent of None \<Rightarrow> False | Some a \<Rightarrow> sad_type (sg_decision a) = d);
         intended = Option.bind (Option.bind agent sg_responseProposal) (\<lambda>r. intent_action (sar_messageIntent r));
         current = (case osl_previousState input of Some p \<Rightarrow> ost_status p | None \<Rightarrow> ost_status result)
     in if terminal_status current then
          buildAction On_no_action ''Terminal opportunity state must not be advanced automatically.'' input None [] [''terminal_state'']
        else if oid_isAmbiguous identity then
          buildAction On_escalate_to_operator ''Opportunity identity is ambiguous and requires human review.'' input None []
            [''identity_conflict'']
        else if ost_humanOwnerActive result \<or> requiresReview \<or> (case agent of None \<Rightarrow> False | Some a \<Rightarrow> sg_shouldRequestHuman a) then
          buildAction On_escalate_to_operator ''Human ownership or approval is active for this opportunity.'' input draft needed
            (if ost_humanOwnerActive result then [''human_owner_active''] else [''approval_required''])
        else if ost_aiBlocked result \<or> blockedByPolicy then
          buildAction On_no_action ''Commercial policy or AI blocking prevents autonomous action.'' input None []
            ((if ost_aiBlocked result then [''ai_blocked''] else []) @ (if blockedByPolicy then [''policy_blocked''] else []))
        else if (case osl_previousState input of None \<Rightarrow> False | Some p \<Rightarrow> ost_status p = Os_waiting_customer) \<and>
                \<not> outcome ''response_proposed'' then
          buildAction On_wait_for_customer ''The opportunity is already waiting for a customer reply.'' input draft missing []
        else if outcome ''waiting_for_customer'' \<or> decision ''wait_for_customer'' then
          buildAction On_wait_for_customer ''The validated result says the system should wait for the customer.'' input draft missing []
        else if outcome ''tool_required'' \<or> decision ''request_tool'' then
          (if missing \<noteq> [] \<or> questions \<noteq> [] then
             buildAction On_ask_clarifying_question ''Missing information should be collected before advancing.'' input draft needed []
           else buildAction On_qualify ''The opportunity needs qualification before any further step.'' input draft needed [])
        else if outcome ''insufficient_context'' \<or> decision ''insufficient_context'' then
          buildAction On_ask_clarifying_question ''The current commercial context is insufficient.'' input draft needed []
        else if decision ''request_human'' then
          buildAction On_escalate_to_operator ''The validated result explicitly requests human review.'' input draft needed []
        else (case intended of
          Some (type, reason, blocked) \<Rightarrow>
            (if blocked \<noteq> [] then buildAction type reason input None [] blocked else buildAction type reason input draft needed [])
        | None \<Rightarrow>
            if decision ''respond_now'' \<or> outcome ''response_proposed'' then
              buildAction On_respond ''The validated result is response-ready.'' input draft needed []
            else if outcome ''no_commercial_action'' \<or> decision ''no_commercial_action'' then
              buildAction On_no_action ''No governed commercial action was selected.'' input draft needed []
            else if decision ''failed_safe'' \<or> outcome ''failed_safe'' then
              buildAction On_no_action ''The validated result failed safe.'' input None [] [''failed_safe'']
            else buildAction On_no_action ''No deterministic commercial action was selected.'' input draft needed []))"

section \<open>Validation of the transition\<close>

record op_transition_input =
  oti_previousState :: "op_state option"
  oti_resultingState :: op_state
  oti_nextAction :: op_next_action
  oti_identityResolution :: op_identity
  oti_commercialPolicyResult :: "po_result option"

record op_transition =
  otr_allowed :: bool
  otr_fromStatus :: "op_status option"
  otr_toStatus :: op_status
  otr_fromStage :: "op_stage option"
  otr_toStage :: "op_stage option"
  otr_reason :: string
  otr_blockedReasons :: "string list"
  otr_warnings :: "string list"
  otr_requiresHumanReview :: bool
  otr_evidenceRequired :: bool

definition deriveExpectedStage :: "op_status \<Rightarrow> op_stage option" where
  "deriveExpectedStage status =
    (if status = Os_new \<or> status = Os_engaged \<or> status = Os_stalled then Some Og_discovery
     else if status = Os_qualifying then Some Og_qualification
     else if status = Os_quote_pending \<or> status = Os_quote_ready_for_review \<or> status = Os_quote_sent then Some Og_quotation
     else if status = Os_waiting_customer \<or> status = Os_followup_scheduled then Some Og_solution_fit
     else if status = Os_negotiation then Some Og_negotiation
     else if terminal_status status then Some Og_closing
     else None)"

fun allowedTransitions :: "op_status option \<Rightarrow> op_status list" where
  "allowedTransitions None = [Os_new, Os_engaged, Os_qualifying, Os_stalled]"
| "allowedTransitions (Some Os_new) = [Os_new, Os_engaged, Os_qualifying, Os_stalled]"
| "allowedTransitions (Some Os_engaged) = [Os_engaged, Os_qualifying, Os_quote_pending, Os_waiting_customer, Os_stalled]"
| "allowedTransitions (Some Os_qualifying) = [Os_qualifying, Os_quote_pending, Os_waiting_customer, Os_stalled]"
| "allowedTransitions (Some Os_quote_pending) = [Os_quote_pending, Os_waiting_customer, Os_quote_ready_for_review, Os_stalled]"
| "allowedTransitions (Some Os_quote_ready_for_review) = [Os_quote_ready_for_review, Os_quote_sent, Os_waiting_customer, Os_stalled]"
| "allowedTransitions (Some Os_quote_sent) = [Os_quote_sent, Os_waiting_customer, Os_negotiation, Os_stalled]"
| "allowedTransitions (Some Os_waiting_customer) = [Os_waiting_customer, Os_engaged, Os_qualifying, Os_followup_scheduled, Os_stalled]"
| "allowedTransitions (Some Os_followup_scheduled) = [Os_followup_scheduled, Os_engaged, Os_negotiation, Os_stalled]"
| "allowedTransitions (Some Os_negotiation) = [Os_negotiation, Os_stalled]"
| "allowedTransitions (Some Os_stalled) = [Os_stalled, Os_engaged, Os_qualifying, Os_waiting_customer, Os_lost]"
| "allowedTransitions (Some previous) = [previous]"

definition blockedReasonList :: "op_transition_input \<Rightarrow> string list \<Rightarrow> po_approval \<Rightarrow> string list" where
  "blockedReasonList input reasons approval =
    js_unique (reasons @
      (if oid_isAmbiguous (oti_identityResolution input) then [''identity_conflict''] else []) @
      (if oid_isTerminal (oti_identityResolution input) \<and> (case oti_previousState input of None \<Rightarrow> False
          | Some p \<Rightarrow> ost_status p \<noteq> ost_status (oti_resultingState input)) then [''terminal_state''] else []) @
      (if ost_aiBlocked (oti_resultingState input) then [''ai_blocked''] else []) @
      (if ost_humanOwnerActive (oti_resultingState input) then [''human_owner_active''] else []) @
      (case oti_commercialPolicyResult input of None \<Rightarrow> [] | Some p \<Rightarrow> if pre_status p = Po_blocked then [''policy_blocked''] else []) @
      (if approval = Pa_blocked then [''approval_blocked''] else []))"

definition transition_reasons :: "op_transition_input \<Rightarrow> string list" where
  "transition_reasons input =
    (let next_status = ost_status (oti_resultingState input); type = ona_type (oti_nextAction input)
     in (if oid_status (oti_identityResolution input) = Oi_blocked then [''identity_conflict''] else []) @
        (if next_status \<notin> set (allowedTransitions (map_option ost_status (oti_previousState input))) then [''transition_blocked''] else []) @
        (case oti_previousState input of None \<Rightarrow> [] | Some p \<Rightarrow>
           if terminal_status (ost_status p) \<and> ost_status p \<noteq> next_status then [''terminal_state''] else []) @
        (if deriveExpectedStage next_status \<noteq> ost_stage (oti_resultingState input) then [''stage_mismatch''] else []) @
        (case oti_commercialPolicyResult input of None \<Rightarrow> [] | Some p \<Rightarrow>
           if pre_status p = Po_blocked \<and> type \<noteq> On_no_action \<and> type \<noteq> On_escalate_to_operator then [''policy_blocked''] else []) @
        (if type = On_prepare_quote \<and> next_status \<noteq> Os_quote_pending \<and> next_status \<noteq> Os_quote_ready_for_review
         then [''quote_transition_mismatch''] else []) @
        (if type = On_close_as_lost_candidate \<and> next_status = Os_won then [''terminal_transition_blocked''] else []))"

definition validateCommercialTransition :: "op_transition_input \<Rightarrow> op_transition" where
  "validateCommercialTransition input =
    (let result = oti_resultingState input; approval = ona_approvalRequirement (oti_nextAction input);
         type = ona_type (oti_nextAction input); reasons = transition_reasons input; identity = oti_identityResolution input
     in \<lparr>otr_allowed = (reasons = []), otr_fromStatus = map_option ost_status (oti_previousState input),
         otr_toStatus = ost_status result, otr_fromStage = Option.bind (oti_previousState input) ost_stage,
         otr_toStage = ost_stage result,
         otr_reason = (case reasons of [] \<Rightarrow> ''Commercial transition is allowed.''
           | r # _ \<Rightarrow> if r = ''stage_mismatch'' then ''Resulting stage does not match the derived status.''
               else ''Commercial transition is not allowed.''),
         otr_blockedReasons = (if reasons \<noteq> [] then blockedReasonList input reasons approval else []),
         otr_warnings = oid_warnings identity,
         otr_requiresHumanReview = (approval \<noteq> Pa_none \<or> ost_humanOwnerActive result \<or> ost_aiBlocked result \<or>
           oid_requiresHumanReview identity \<or> (case oti_commercialPolicyResult input of None \<Rightarrow> False
             | Some p \<Rightarrow> pre_requiresApproval p = Pa_operator_review \<or> pre_requiresApproval p = Pa_explicit_operator_approval)),
         otr_evidenceRequired = (type = On_prepare_quote \<or> type = On_close_as_lost_candidate \<or>
           ost_status result = Os_won \<or> ost_status result = Os_lost)\<rparr>)"

end
