(* ===== verification/OperationalRun.thy ===== *)
theory OperationalRun
  imports OperationalLoop JS_Effect
begin

text \<open>
  A run of the operational loop (\<open>operational-loop/runCommercialOperationalLoop.ts\<close>) over any storage: the operations that
  load and persist the state are parameters, as they are fields of the input in the code; what the load
  is given besides the commercial context is fixed by the run.  The clock is the
  default one, which stands still at the time of the run.  The stages, metrics, versions, metadata and
  error texts of a result are not modelled.  The evaluation of the shadow result enters with its warnings.
\<close>

section \<open>Types\<close>

record op_flags =
  ofl_commercialOperationalLoopEnabled :: bool
  ofl_commercialStatePersistenceEnabled :: bool

record op_shadow =
  osw_status :: string
  osw_commercialContext :: "op_context option"
  osw_agentResult :: "sa_result option"
  osw_policyResult :: "po_result option"
  osw_warnings :: "string list"

record op_run_input =
  ori_inboundMessage :: op_inbound
  ori_brainContext :: op_brain
  ori_commercialContext :: "op_context option"
  ori_salesAgentResult :: "sa_result option"
  ori_commercialPolicyResult :: "po_result option"
  ori_evaluationWarnings :: "string list"
  ori_shadowResult :: "op_shadow option"
  ori_currentTime :: js_moment
  ori_correlationId :: string
  ori_processInboundRunId :: "string option"
  ori_salesAgentRunId :: "string option"
  ori_featureFlags :: op_flags
  ori_contractVersion :: "string option"
  ori_policyVersion :: "string option"
  ori_runtimeVersion :: "string option"
  ori_aborted :: bool

record op_persist_input =
  opp_previousState :: "op_state option"
  opp_resultingState :: op_state
  opp_identityResolution :: op_identity
  opp_transitionValidation :: op_transition
  opp_nextAction :: op_next_action
  opp_decisionRecord :: op_decision

datatype op_persist_status = Ow_persisted | Ow_skipped | Ow_duplicate | Ow_conflict | Ow_failed_safe

record op_persist_result =
  opr_status :: op_persist_status
  opr_opportunityWritten :: bool
  opr_decisionWritten :: bool
  opr_opportunityId :: "js_id option"
  opr_opportunityKey :: string
  opr_decisionId :: string
  opr_version :: "int option"
  opr_createdAt :: string
  opr_warnings :: "string list"
  opr_reason :: "string option"

datatype op_run_status = Rn_completed | Rn_skipped | Rn_blocked | Rn_failed_safe | Rn_persistence_failed

record op_side_effects =
  ose_outboundExecuted :: bool
  ose_toolsExecuted :: nat
  ose_followupScheduled :: bool
  ose_quoteCreated :: bool
  ose_leadCreated :: bool
  ose_caseMutated :: bool
  ose_controlsResponsePolicy :: bool
  ose_nextActionExecuted :: bool
  ose_commercialOpportunityWritten :: bool
  ose_commercialDecisionWritten :: bool

record op_run_result =
  orr_status :: op_run_status
  orr_eligible :: bool
  orr_skipReason :: "string option"
  orr_previousState :: "op_state option"
  orr_resultingState :: "op_state option"
  orr_stateDiff :: "op_diff option"
  orr_identityResolution :: "op_identity option"
  orr_selectedNextAction :: "op_next_action option"
  orr_transitionValidation :: "op_transition option"
  orr_persistenceResult :: "op_persist_result option"
  orr_decisionRecord :: "op_decision option"
  orr_warnings :: "string list"
  orr_sideEffects :: op_side_effects
  orr_executionDisposition :: string

section \<open>Results\<close>

definition emptySideEffects :: op_side_effects where
  "emptySideEffects = \<lparr>ose_outboundExecuted = False, ose_toolsExecuted = 0, ose_followupScheduled = False, ose_quoteCreated = False,
     ose_leadCreated = False, ose_caseMutated = False, ose_controlsResponsePolicy = False, ose_nextActionExecuted = False,
     ose_commercialOpportunityWritten = False, ose_commercialDecisionWritten = False\<rparr>"

definition buildSkippedResult :: "(string \<Rightarrow> int option) \<Rightarrow> op_run_input \<Rightarrow> string \<Rightarrow> string \<Rightarrow> string list \<Rightarrow> op_run_result" where
  "buildSkippedResult legacy input skipReason reason given =
    (let warnings = nonblank_strings (given @ [skipReason])
     in \<lparr>orr_status = Rn_skipped, orr_eligible = False, orr_skipReason = Some skipReason, orr_previousState = None,
         orr_resultingState = None, orr_stateDiff = None, orr_identityResolution = None, orr_selectedNextAction = None,
         orr_transitionValidation = None,
         orr_persistenceResult = Some \<lparr>opr_status = Ow_skipped, opr_opportunityWritten = False, opr_decisionWritten = False,
           opr_opportunityId = None, opr_opportunityKey = ''skipped'', opr_decisionId = ''skipped'', opr_version = None,
           opr_createdAt = loop_toIsoString legacy (ori_currentTime input), opr_warnings = warnings, opr_reason = Some reason\<rparr>,
         orr_decisionRecord = None, orr_warnings = warnings, orr_sideEffects = emptySideEffects,
         orr_executionDisposition = ''not_executed''\<rparr>)"

definition buildFailedSafeResult :: "op_run_status \<Rightarrow> string list \<Rightarrow> op_run_result" where
  "buildFailedSafeResult status given =
    \<lparr>orr_status = status, orr_eligible = True, orr_skipReason = None, orr_previousState = None, orr_resultingState = None,
     orr_stateDiff = None, orr_identityResolution = None, orr_selectedNextAction = None, orr_transitionValidation = None,
     orr_persistenceResult = None, orr_decisionRecord = None,
     orr_warnings = nonblank_strings (given @ [''commercial_state_failed_safe'']), orr_sideEffects = emptySideEffects,
     orr_executionDisposition = ''not_executed''\<rparr>"

definition stableDecisionId :: "(string \<Rightarrow> string) \<Rightarrow> op_run_input \<Rightarrow> string \<Rightarrow> string \<Rightarrow> int \<Rightarrow> string \<Rightarrow> string" where
  "stableDecisionId digest input resultingStateKey nextActionType version now =
    ''commercial-decision-'' @ take 32 (digest (js_join ''|'' [ori_correlationId input, or_value (ori_processInboundRunId input) [],
      or_value (ori_salesAgentRunId input) [], resultingStateKey, nextActionType, int_to_string version, now]))"

definition buildDecisionRecord :: "(string \<Rightarrow> string) \<Rightarrow> op_run_input \<Rightarrow> op_state \<Rightarrow> op_next_action \<Rightarrow> op_transition \<Rightarrow> op_identity \<Rightarrow>
    op_diff \<Rightarrow> string list \<Rightarrow> op_decision result" where
  "buildDecisionRecord digest input result action transition identity stateDiff warnings =
    bind_result (moment_string (ori_currentTime input)) (\<lambda>now. Inr
      \<lparr>odc_decisionId = stableDecisionId digest input (ost_opportunityKey result) (op_action_type_name (ona_type action)) (ost_version result) now,
       odc_opportunityId = or_value (or_opt (ost_opportunityId result) (or_opt (oid_selectedOpportunityId identity) (oid_opportunityId identity)))
         (Id_text (ost_opportunityKey result)),
       odc_opportunityKey = ost_opportunityKey result, odc_correlationId = ori_correlationId input,
       odc_processInboundRunId = ori_processInboundRunId input, odc_salesAgentRunId = ori_salesAgentRunId input,
       odc_messageId = Some (oin_messageId (ori_inboundMessage input)), odc_previousStatus = otr_fromStatus transition,
       odc_nextStatus = otr_toStatus transition, odc_previousStage = otr_fromStage transition, odc_nextStage = otr_toStage transition,
       odc_detectedSignals = js_unique (ost_signals result), odc_stateChanges = stateDiff,
       odc_missingInformation = ona_requiredInformation action, odc_nextAction = action,
       odc_policyStatus = (case ori_commercialPolicyResult input of Some p \<Rightarrow> pre_status p | None \<Rightarrow> Po_blocked),
       odc_riskLevel = (case ori_commercialPolicyResult input of Some p \<Rightarrow> pre_riskLevel p | None \<Rightarrow> Sr_blocked),
       odc_approvalRequirement = (case ori_commercialPolicyResult input of Some p \<Rightarrow> pre_requiresApproval p | None \<Rightarrow> Pa_blocked),
       odc_decisionStatus = ''recorded'', odc_rationale = ona_reason action, odc_warnings = warnings,
       odc_contractVersion = ori_contractVersion input,
       odc_policyVersion = Some (or_value (ori_policyVersion input) COMMERCIAL_POLICY_VERSION),
       odc_runtimeVersion = ori_runtimeVersion input, odc_createdAt = now\<rparr>)"

section \<open>The run\<close>

text \<open>What the pure steps of a run compute from what was loaded.\<close>

record op_steps =
  osp_identity :: op_identity
  osp_previousState :: "op_state option"
  osp_reduction :: op_reduction
  osp_nextAction :: op_next_action
  osp_transition :: op_transition

definition loop_steps :: "(string \<Rightarrow> int option) \<Rightarrow> op_run_input \<Rightarrow> op_context option \<Rightarrow> sa_result option \<Rightarrow> po_result option \<Rightarrow>
    op_load_result \<Rightarrow> op_steps" where
  "loop_steps legacy input context agent policy loadResult =
    (let identity = resolveOpportunityIdentity (ori_inboundMessage input) (ori_brainContext input) context (Some loadResult);
         previous = or_opt (oid_selectedState identity) (olr_activeState loadResult);
         reduction = reduceCommercialState legacy \<lparr>opi_previousState = previous, opi_identityResolution = identity,
           opi_loadResult = loadResult, opi_brainContext = ori_brainContext input, opi_inboundMessage = ori_inboundMessage input,
           opi_commercialContext = context, opi_salesAgentResult = agent, opi_commercialPolicyResult = policy,
           opi_currentTime = ori_currentTime input\<rparr>;
         nextAction = selectNextCommercialAction \<lparr>osl_previousState = previous, osl_resultingState = ord_resultingState reduction,
           osl_identityResolution = identity, osl_commercialPolicyResult = policy, osl_salesAgentResult = agent\<rparr>;
         transition = validateCommercialTransition \<lparr>oti_previousState = previous, oti_resultingState = ord_resultingState reduction,
           oti_nextAction = nextAction, oti_identityResolution = identity, oti_commercialPolicyResult = policy\<rparr>
     in \<lparr>osp_identity = identity, osp_previousState = previous, osp_reduction = reduction, osp_nextAction = nextAction,
         osp_transition = transition\<rparr>)"

definition stage_warnings :: "op_run_input \<Rightarrow> op_shadow \<Rightarrow> op_load_result \<Rightarrow> op_steps \<Rightarrow> string list" where
  "stage_warnings input shadow loadResult st = nonblank_strings (olr_warnings loadResult @ oid_warnings (osp_identity st) @
     ord_warnings (osp_reduction st) @ (if otr_allowed (osp_transition st) then [] else otr_blockedReasons (osp_transition st)) @
     ori_evaluationWarnings input @ osw_warnings shadow)"

text \<open>A failed result that shows the steps.\<close>

definition failed_with_steps :: "op_run_status \<Rightarrow> string list \<Rightarrow> op_steps \<Rightarrow> op_run_result" where
  "failed_with_steps status warnings st = (buildFailedSafeResult status warnings)
     \<lparr>orr_previousState := osp_previousState st, orr_resultingState := Some (ord_resultingState (osp_reduction st)),
      orr_identityResolution := Some (osp_identity st), orr_selectedNextAction := Some (osp_nextAction st),
      orr_transitionValidation := Some (osp_transition st)\<rparr>"

definition skipped_persistence :: "op_run_input \<Rightarrow> op_state \<Rightarrow> op_decision \<Rightarrow> op_persist_result" where
  "skipped_persistence input result decision = \<lparr>opr_status = Ow_skipped, opr_opportunityWritten = False, opr_decisionWritten = False,
     opr_opportunityId = ost_opportunityId result, opr_opportunityKey = ost_opportunityKey result,
     opr_decisionId = odc_decisionId decision, opr_version = Some (ost_version result), opr_createdAt = odc_createdAt decision,
     opr_warnings = [], opr_reason = (if ofl_commercialStatePersistenceEnabled (ori_featureFlags input) then None
       else Some ''Commercial state persistence is disabled.'')\<rparr>"

definition written_effects :: "op_persist_result \<Rightarrow> op_side_effects" where
  "written_effects p = emptySideEffects\<lparr>ose_commercialOpportunityWritten := (opr_status p = Ow_persisted),
     ose_commercialDecisionWritten := (opr_status p = Ow_persisted)\<rparr>"

definition finish_run :: "op_load_result \<Rightarrow> op_steps \<Rightarrow> string list \<Rightarrow> op_decision \<Rightarrow> op_side_effects \<Rightarrow> op_persist_result \<Rightarrow> op_run_result" where
  "finish_run loadResult st warnings decision effects persisted =
    \<lparr>orr_status = Rn_completed, orr_eligible = True, orr_skipReason = None, orr_previousState = osp_previousState st,
     orr_resultingState = Some (ord_resultingState (osp_reduction st)), orr_stateDiff = Some (ord_stateDiff (osp_reduction st)),
     orr_identityResolution = Some (osp_identity st), orr_selectedNextAction = Some (osp_nextAction st),
     orr_transitionValidation = Some (osp_transition st), orr_persistenceResult = Some persisted, orr_decisionRecord = Some decision,
     orr_warnings = nonblank_strings (warnings @ opr_warnings persisted @ ona_blockedReasons (osp_nextAction st) @
       otr_blockedReasons (osp_transition st) @ (if olr_status loadResult = Ol_error then [''commercial_state_missing''] else []) @
       (if opr_status persisted = Ow_duplicate then [''commercial_state_retry_reused''] else [])),
     orr_sideEffects = effects,
     orr_executionDisposition = (if opr_status persisted = Ow_persisted then ''persisted'' else ''observe_only'')\<rparr>"

definition run_loaded :: "(string \<Rightarrow> string) \<Rightarrow> (op_persist_input \<Rightarrow> ('s, op_persist_result) action) \<Rightarrow> op_run_input \<Rightarrow> op_shadow \<Rightarrow>
    op_load_result \<Rightarrow> op_steps \<Rightarrow> ('s, op_run_result) action" where
  "run_loaded digest persist input shadow loadResult st =
    (let warnings = stage_warnings input shadow loadResult st; result = ord_resultingState (osp_reduction st)
     in if oid_status (osp_identity st) = Oi_blocked \<or> \<not> otr_allowed (osp_transition st) then
          done_with (failed_with_steps Rn_blocked warnings st)
        else await (compute (buildDecisionRecord digest input result (osp_nextAction st) (osp_transition st) (osp_identity st)
               (ord_stateDiff (osp_reduction st)) warnings)) (\<lambda>decision.
          if \<not> ofl_commercialStatePersistenceEnabled (ori_featureFlags input) then
            done_with (finish_run loadResult st warnings decision emptySideEffects (skipped_persistence input result decision))
          else await (persist \<lparr>opp_previousState = osp_previousState st, opp_resultingState = result,
                 opp_identityResolution = osp_identity st, opp_transitionValidation = osp_transition st,
                 opp_nextAction = osp_nextAction st, opp_decisionRecord = decision\<rparr>) (\<lambda>persisted.
            if opr_status persisted = Ow_conflict \<or> opr_status persisted = Ow_failed_safe then
              done_with ((failed_with_steps Rn_persistence_failed (nonblank_strings (warnings @ opr_warnings persisted)) st)
                \<lparr>orr_persistenceResult := Some persisted, orr_decisionRecord := Some decision,
                 orr_sideEffects := written_effects persisted\<rparr>)
            else done_with (finish_run loadResult st warnings decision (written_effects persisted) persisted))))"

definition runCommercialOperationalLoop :: "(string \<Rightarrow> string) \<Rightarrow> (string \<Rightarrow> int option) \<Rightarrow> (op_context option \<Rightarrow> ('s, op_load_result) action) \<Rightarrow>
    (op_persist_input \<Rightarrow> ('s, op_persist_result) action) \<Rightarrow> op_run_input \<Rightarrow> ('s, op_run_result) action" where
  "runCommercialOperationalLoop digest legacy load persist input =
    (if \<not> ofl_commercialOperationalLoopEnabled (ori_featureFlags input) then
       done_with (buildSkippedResult legacy input ''skipped_by_flag'' ''Commercial operational loop is disabled.'' [''commercial_loop_disabled''])
     else if ori_aborted input then done_with (buildFailedSafeResult Rn_failed_safe [''commercial_loop_cancelled''])
     else case ori_shadowResult input of
       None \<Rightarrow> done_with (buildSkippedResult legacy input ''no_shadow_result'' ''No commercial shadow result was provided.''
         [''commercial_loop_skipped''])
     | Some shadow \<Rightarrow>
        if osw_status shadow = ''disabled'' \<or> osw_status shadow = ''skipped'' then
          done_with (buildSkippedResult legacy input ''no_shadow_result'' ''Commercial shadow did not produce an eligible result.''
            [''commercial_loop_skipped''])
        else if osw_status shadow = ''failed_safe'' \<or> osw_status shadow = ''timeout'' \<or> osw_status shadow = ''cancelled'' then
          done_with (buildFailedSafeResult Rn_failed_safe [''commercial_state_failed_safe''])
        else (let context = or_opt (ori_commercialContext input) (osw_commercialContext shadow);
                  agent = or_opt (ori_salesAgentResult input) (osw_agentResult shadow);
                  policy = or_opt (ori_commercialPolicyResult input) (osw_policyResult shadow)
              in if agent = None \<or> policy = None then
                   done_with (buildFailedSafeResult Rn_failed_safe [''commercial_state_missing''])
                 else await (load context) (\<lambda>loadResult.
                   let st = loop_steps legacy input context agent policy loadResult
                   in if oid_status (osp_identity st) = Oi_no_commercial_signal then
                        done_with (buildSkippedResult legacy input ''no_commercial_signal'' (oid_reason (osp_identity st))
                          (nonblank_strings (oid_warnings (osp_identity st) @ [''commercial_loop_skipped''])))
                      else run_loaded digest persist input shadow loadResult st)))"

end
