(* ===== verification/PolicySafety.thy ===== *)
theory PolicySafety
  imports PolicyEvaluation "HOL-Library.Multiset" "HOL-Library.Sublist"
begin

text \<open>
  What the commercial policy promises.  The locale \<open>screening\<close> states the contract of an assessment that looks
  at one item at a time; claims, tool requests and entity proposals are its instances.  Actions are
  assessed in sequence, because a duplicate of an action that was kept is removed.
\<close>

section \<open>Screening a list\<close>

lemma kept_and_blocked:
  "mset (map f (filter P xs)) + mset (map f (filter (\<lambda>x. \<not> P x) xs)) = mset (map f xs)"
  by (induction xs) auto

locale screening =
  fixes assess :: "nat \<Rightarrow> 'a \<Rightarrow> ('a, 'b) po_assessment_scheme"
    and verdict :: "'a \<Rightarrow> po_verdict"
  assumes subject: "pas_subject (assess i x) = x"
    and status: "pas_status (assess i x) = verdict x"
    and fatal: "issue \<in> set (pas_issues (assess i x)) \<Longrightarrow> pis_level issue = Pl_fatal \<Longrightarrow> verdict x = Pv_blocked"
begin

definition screened :: "'a list \<Rightarrow> ('a, ('a, 'b) po_assessment_scheme) po_evaluation" where
  "screened xs = evaluation_of (map (\<lambda>i. assess i (xs ! i)) [0..<length xs])"

lemma filtered:
  "filter (\<lambda>a. P (pas_status a)) (map (\<lambda>i. assess i (xs ! i)) [0..<length xs]) =
   map (\<lambda>i. assess i (xs ! i)) (filter (\<lambda>i. P (verdict (xs ! i))) [0..<length xs])"
  by (simp add: filter_map comp_def status)

lemma selected: "map ((!) xs) (filter (\<lambda>i. P (xs ! i)) [0..<length xs]) = filter P xs"
  using filter_map[of P "(!) xs" "[0..<length xs]"] by (simp add: comp_def map_nth)

lemma kept: "pev_kept (screened xs) = filter (\<lambda>x. verdict x \<noteq> Pv_blocked) xs"
  using filtered[where P = "\<lambda>s. s \<noteq> Pv_blocked" and xs = xs] selected[where P = "\<lambda>x. verdict x \<noteq> Pv_blocked" and xs = xs]
  by (simp add: screened_def evaluation_of_def Let_def comp_def subject)

lemma blocked: "pev_blocked (screened xs) = filter (\<lambda>x. verdict x = Pv_blocked) xs"
  using filtered[where P = "\<lambda>s. s = Pv_blocked" and xs = xs] selected[where P = "\<lambda>x. verdict x = Pv_blocked" and xs = xs]
  by (simp add: screened_def evaluation_of_def Let_def comp_def subject)

lemma reviewed: "in_review (screened xs) = length (filter (\<lambda>x. verdict x = Pv_review) xs)"
  using filtered[where P = "\<lambda>s. s = Pv_review" and xs = xs] arg_cong[OF selected[where P = "\<lambda>x. verdict x = Pv_review" and xs = xs], of length]
  by (simp add: in_review_def screened_def evaluation_of_def Let_def comp_def)

lemma subjects: "map pas_subject (pev_assessments (screened xs)) = xs"
  by (simp add: screened_def evaluation_of_def Let_def comp_def subject map_nth)

lemma no_fatal:
  assumes "\<forall>x \<in> set xs. verdict x \<noteq> Pv_blocked" "issue \<in> set (pev_issues (screened xs))"
  shows "pis_level issue \<noteq> Pl_fatal"
  using assms fatal by (fastforce simp: screened_def evaluation_of_def Let_def)

text \<open>Screening what was kept keeps all of it.\<close>

lemma again:
  "pev_kept (screened (pev_kept (screened xs))) = pev_kept (screened xs)"
  "pev_blocked (screened (pev_kept (screened xs))) = []"
  "in_review (screened (pev_kept (screened xs))) = in_review (screened xs)"
  by (auto simp: kept blocked reviewed intro!: arg_cong[of _ _ length] filter_cong)

end

section \<open>Claims, tool requests and entity proposals\<close>

definition claim_verdict :: "(string \<Rightarrow> int option) \<Rightarrow> po_input \<Rightarrow> sa_claim \<Rightarrow> po_verdict" where
  "claim_verdict legacy input claim =
    pas_status (assess_claim legacy input (policy_parseTime legacy (poi_currentTime input)) 0 claim)"

definition tool_verdict :: "po_input \<Rightarrow> sa_tool_request \<Rightarrow> po_verdict" where
  "tool_verdict input request = pas_status (assess_tool input 0 request)"

definition entity_verdict :: "po_input \<Rightarrow> sa_entity_proposal \<Rightarrow> po_verdict" where
  "entity_verdict input proposal = pas_status (assess_entity input 0 proposal)"

lemma pis_level_build [simp]: "pis_level (buildPolicyIssue c m p r d l) = l"
  by (simp add: buildPolicyIssue_def)

text \<open>Only a blocked verdict has a fatal issue, and no verdict depends on the index of the item.\<close>

definition fatal_blocks :: "po_judgement \<Rightarrow> bool" where
  "fatal_blocks j \<longleftrightarrow> (case j of (status, _, _, _, issues) \<Rightarrow>
     \<forall>issue \<in> set issues. pis_level issue = Pl_fatal \<longrightarrow> status = Pv_blocked)"

lemma fatal_blocks_simps [simp]:
  "fatal_blocks (Pv_blocked, d, r, a, is)"
  "fatal_blocks (s, d, r, a, [])"
  "pis_level issue \<noteq> Pl_fatal \<Longrightarrow> fatal_blocks (s, d, r, a, [issue])"
  "fatal_blocks (blocked_judgement issue)"
  by (simp_all add: fatal_blocks_def blocked_judgement_def)

lemma fatal_blocks_if: "(c \<Longrightarrow> fatal_blocks j) \<Longrightarrow> (\<not> c \<Longrightarrow> fatal_blocks k) \<Longrightarrow> fatal_blocks (if c then j else k)"
  by simp

lemma fatal_blocks_review: "fatal_blocks j \<Longrightarrow> pis_level issue \<noteq> Pl_fatal \<Longrightarrow> fatal_blocks (review_text issue j)"
  by (cases j) (auto simp: fatal_blocks_def)

lemma fatal_blocks_entity: "fatal_blocks j \<Longrightarrow> fatal_blocks (terminal_evidence x (own_requirement x j))"
  by (cases j) (auto simp: fatal_blocks_def)

lemma review_text_status: "fst (review_text issue j) = (if fst j = Pv_allowed then Pv_review else fst j)"
  by (cases j) simp

lemma entity_status:
  "fst (terminal_evidence x (own_requirement x j)) =
    (if sap_entityType x = Entity_opportunity \<and> terminal_proposal x \<and> \<not> hasStrongEvidence x \<or> sap_requiresApproval x = Sa_blocked
     then Pv_blocked
     else if sap_requiresApproval x = Sa_operator_review \<and> fst j = Pv_allowed then Pv_review else fst j)"
  by (cases j) simp

lemmas judgement_unfold = judge_claim_def judge_tool_def judge_entity_def judge_action_def Let_def
lemmas judgement_status = if_distrib[of fst] if_distrib[of "\<lambda>p. fst (fst p)"] fst_conv blocked_judgement_def flagged_review_def

lemma judge_claim_status: "fst (judge_claim flags i claim v f) = fst (judge_claim flags 0 claim v f)"
  by (simp only: judgement_unfold judgement_status)

lemma judge_tool_status: "fst (fst (judge_tool input i request)) = fst (fst (judge_tool input 0 request))"
  by (simp only: judgement_unfold judgement_status)

lemma judge_entity_status: "fst (judge_entity input i proposal) = fst (judge_entity input 0 proposal)"
  by (simp only: judgement_unfold judgement_status)

lemma judge_claim_fatal: "fatal_blocks (judge_claim flags i claim v f)"
  unfolding judgement_unfold by (intro fatal_blocks_if; simp only: fatal_blocks_simps pis_level_build po_level.distinct not_False_eq_True)

lemma judge_tool_fatal: "fatal_blocks (fst (judge_tool input i request))"
  unfolding judgement_unfold if_distrib[of fst] fst_conv tool_issue_def
  by (intro fatal_blocks_if; simp only: fatal_blocks_simps pis_level_build po_level.distinct not_False_eq_True)

lemma judge_entity_fatal: "fatal_blocks (judge_entity input i proposal)"
  unfolding judgement_unfold
  by (intro fatal_blocks_if; simp only: fatal_blocks_simps pis_level_build po_level.distinct not_False_eq_True)

lemma judge_action_fatal: "fatal_blocks (judge_action legacy input i action)"
  unfolding judgement_unfold flagged_review_def action_issue_def
  by (intro fatal_blocks_if; simp only: fatal_blocks_simps pis_level_build po_level.distinct not_False_eq_True)

lemma assess_claim_fields:
  "pas_subject (assess_claim legacy input now i x) = x"
  "pas_status (assess_claim legacy input now i x) = pas_status (assess_claim legacy input now 0 x)"
  "issue \<in> set (pas_issues (assess_claim legacy input now i x)) \<Longrightarrow> pis_level issue = Pl_fatal \<Longrightarrow>
   pas_status (assess_claim legacy input now 0 x) = Pv_blocked"
proof -
  define j where "j = (\<lambda>i. judge_claim (poi_featureFlags input) i x (claim_volatility (sac_type x))
    (freshnessForClaim legacy x (filter (\<lambda>e. sae_source e = sac_evidenceSource x) (sg_evidence (poi_salesAgentResult input)))
      now (claim_volatility (sac_type x))))"
  have fields: "pas_subject (assess_claim legacy input now i x) = x" "pas_status (assess_claim legacy input now i x) = fst (j i)"
    "pas_issues (assess_claim legacy input now i x) = snd (snd (snd (snd (j i))))" for i
    by (simp_all add: assess_claim_def j_def Let_def split: prod.split)
  have same: "pas_status (assess_claim legacy input now i x) = pas_status (assess_claim legacy input now 0 x)"
    unfolding fields j_def by (rule judge_claim_status)
  have "fatal_blocks (j i)" by (simp only: j_def judge_claim_fatal)
  then show "issue \<in> set (pas_issues (assess_claim legacy input now i x)) \<Longrightarrow> pis_level issue = Pl_fatal \<Longrightarrow>
    pas_status (assess_claim legacy input now 0 x) = Pv_blocked"
    unfolding same[symmetric] unfolding fields by (auto simp: fatal_blocks_def split: prod.splits)
  show "pas_subject (assess_claim legacy input now i x) = x" by (rule fields)
  show "pas_status (assess_claim legacy input now i x) = pas_status (assess_claim legacy input now 0 x)" by (rule same)
qed

lemma assess_tool_fields:
  "pas_subject (assess_tool input i x) = x"
  "pas_status (assess_tool input i x) = pas_status (assess_tool input 0 x)"
  "issue \<in> set (pas_issues (assess_tool input i x)) \<Longrightarrow> pis_level issue = Pl_fatal \<Longrightarrow>
   pas_status (assess_tool input 0 x) = Pv_blocked"
proof -
  define j where "j = (\<lambda>i. if inputs_claim_execution x then review_text (tool_issue i x Pc_tool_execution_claimed
             ''Tool request optional inputs contain execution-like claims.'' Pl_warning) (fst (judge_tool input i x))
      else fst (judge_tool input i x))"
  have fields: "pas_subject (assess_tool input i x) = x" "pas_status (assess_tool input i x) = fst (j i)"
    "pas_issues (assess_tool input i x) = snd (snd (snd (snd (j i))))" for i
    by (simp_all add: assess_tool_def j_def Let_def split: prod.split)
  have same: "pas_status (assess_tool input i x) = pas_status (assess_tool input 0 x)"
    unfolding fields j_def using judge_tool_status[of input i x] by (simp add: review_text_status)
  have "fatal_blocks (j i)"
    by (simp add: j_def judge_tool_fatal fatal_blocks_review tool_issue_def)
  then show "issue \<in> set (pas_issues (assess_tool input i x)) \<Longrightarrow> pis_level issue = Pl_fatal \<Longrightarrow>
    pas_status (assess_tool input 0 x) = Pv_blocked"
    unfolding same[symmetric] unfolding fields by (auto simp: fatal_blocks_def split: prod.splits)
  show "pas_subject (assess_tool input i x) = x" by (rule fields)
  show "pas_status (assess_tool input i x) = pas_status (assess_tool input 0 x)" by (rule same)
qed

lemma assess_entity_fields:
  "pas_subject (assess_entity input i x) = x"
  "pas_status (assess_entity input i x) = pas_status (assess_entity input 0 x)"
  "issue \<in> set (pas_issues (assess_entity input i x)) \<Longrightarrow> pis_level issue = Pl_fatal \<Longrightarrow>
   pas_status (assess_entity input 0 x) = Pv_blocked"
proof -
  define j where "j = (\<lambda>i. terminal_evidence x (own_requirement x (judge_entity input i x)))"
  have fields: "pas_subject (assess_entity input i x) = x" "pas_status (assess_entity input i x) = fst (j i)"
    "pas_issues (assess_entity input i x) = snd (snd (snd (snd (j i))))" for i
    by (simp_all add: assess_entity_def j_def Let_def split: prod.split)
  have same: "pas_status (assess_entity input i x) = pas_status (assess_entity input 0 x)"
    unfolding fields j_def using judge_entity_status[of input i x] by (simp only: entity_status)
  have "fatal_blocks (j i)"
    by (simp only: j_def fatal_blocks_entity judge_entity_fatal)
  then show "issue \<in> set (pas_issues (assess_entity input i x)) \<Longrightarrow> pis_level issue = Pl_fatal \<Longrightarrow>
    pas_status (assess_entity input 0 x) = Pv_blocked"
    unfolding same[symmetric] unfolding fields by (auto simp: fatal_blocks_def split: prod.splits)
  show "pas_subject (assess_entity input i x) = x" by (rule fields)
  show "pas_status (assess_entity input i x) = pas_status (assess_entity input 0 x)" by (rule same)
qed

interpretation claims_screen: screening
  "assess_claim legacy input (policy_parseTime legacy (poi_currentTime input))" "claim_verdict legacy input" for legacy input
  by unfold_locales (unfold claim_verdict_def, rule assess_claim_fields(1), rule assess_claim_fields(2), erule (1) assess_claim_fields(3))

interpretation tools_screen: screening "assess_tool input" "tool_verdict input" for input
  by unfold_locales (unfold tool_verdict_def, rule assess_tool_fields(1), rule assess_tool_fields(2), erule (1) assess_tool_fields(3))

interpretation entities_screen: screening "assess_entity input" "entity_verdict input" for input
  by unfold_locales (unfold entity_verdict_def, rule assess_entity_fields(1), rule assess_entity_fields(2), erule (1) assess_entity_fields(3))

lemma screened_claims:
  "evaluateCommercialClaims legacy input = claims_screen.screened legacy input (result_claims (poi_salesAgentResult input))"
  by (auto simp: evaluateCommercialClaims_def claims_screen.screened_def evaluateClaim_def Let_def intro!: arg_cong[of _ _ evaluation_of])

lemma screened_tools:
  "evaluateCommercialToolRequests input = tools_screen.screened input (sg_toolRequests (poi_salesAgentResult input))"
  by (auto simp: evaluateCommercialToolRequests_def tools_screen.screened_def evaluateToolRequest_def intro!: arg_cong[of _ _ evaluation_of])

lemma screened_entities:
  "evaluateCommercialEntityProposals input = entities_screen.screened input (sg_entityProposals (poi_salesAgentResult input))"
  by (auto simp: evaluateCommercialEntityProposals_def entities_screen.screened_def evaluateEntityProposal_def intro!: arg_cong[of _ _ evaluation_of])

section \<open>Actions\<close>

definition action_judgement :: "(string \<Rightarrow> int option) \<Rightarrow> po_input \<Rightarrow> nat \<Rightarrow> sa_action \<Rightarrow> po_judgement" where
  "action_judgement legacy input i x = (if claims_execution x then review_text (action_issue i x Pc_action_requires_approval
     ''Action text claims execution or completion and requires review.''
     (JObj [(''actionType'', JStr (saa_type x))]) Pl_warning) (judge_action legacy input i x) else judge_action legacy input i x)"

definition action_verdict :: "(string \<Rightarrow> int option) \<Rightarrow> po_input \<Rightarrow> sa_action \<Rightarrow> po_verdict" where
  "action_verdict legacy input x = fst (action_judgement legacy input 0 x)"

text \<open>What is removed is what is blocked.\<close>

definition removes_blocked :: "po_judgement \<Rightarrow> bool" where
  "removes_blocked j \<longleftrightarrow> (fst (snd j) = Pd_remove \<longleftrightarrow> fst j = Pv_blocked)"

lemma removes_blocked_simps [simp]:
  "removes_blocked (Pv_blocked, Pd_remove, r, a, is)"
  "removes_blocked (blocked_judgement issue)"
  "removes_blocked (Pv_review, Pd_allow_with_approval, r, a, is)"
  "removes_blocked (Pv_review, Pd_downgrade_to_review, r, a, is)"
  "removes_blocked (Pv_allowed, Pd_allow, r, a, is)"
  "removes_blocked (flagged_review enabled issue is)"
  by (simp_all add: removes_blocked_def blocked_judgement_def flagged_review_def)

lemma removes_blocked_if: "(c \<Longrightarrow> removes_blocked j) \<Longrightarrow> (\<not> c \<Longrightarrow> removes_blocked k) \<Longrightarrow> removes_blocked (if c then j else k)"
  by simp

lemma removes_blocked_review: "removes_blocked j \<Longrightarrow> removes_blocked (review_text issue j)"
  by (cases j) (auto simp: removes_blocked_def)

lemma judge_action_removes: "removes_blocked (judge_action legacy input i x)"
  unfolding judgement_unfold by (intro removes_blocked_if; simp only: removes_blocked_simps)

lemma judge_action_status: "fst (judge_action legacy input i x) = fst (judge_action legacy input 0 x)"
  by (simp only: judgement_unfold judgement_status)

lemma action_judgement_fields:
  "fst (action_judgement legacy input i x) = action_verdict legacy input x"
  "removes_blocked (action_judgement legacy input i x)" "fatal_blocks (action_judgement legacy input i x)"
  using judge_action_status[of legacy input i x] judge_action_removes[of legacy input i x]
    judge_action_fatal[of legacy input i x]
  by (simp_all add: action_verdict_def action_judgement_def review_text_status removes_blocked_review fatal_blocks_review
    action_issue_def)

lemma evaluateAction_fields:
  assumes "evaluateAction legacy input i x seen = (a, seen')"
  shows "pas_subject a = x"
    "pas_status a = (if action_key x \<in> fst ` set seen then Pv_blocked else action_verdict legacy input x)"
    "fst ` set seen' = (if action_key x \<in> fst ` set seen \<or> action_verdict legacy input x = Pv_blocked
       then fst ` set seen else insert (action_key x) (fst ` set seen))"
    "issue \<in> set (pas_issues a) \<Longrightarrow> pis_level issue = Pl_fatal \<Longrightarrow> pas_status a = Pv_blocked"
    "pas_status a \<noteq> Pv_blocked \<Longrightarrow> pas_approvalRequirement a = fst (snd (snd (snd (action_judgement legacy input i x))))"
proof -
  obtain s d r ap iss where j: "action_judgement legacy input i x = (s, d, r, ap, iss)" by (cases "action_judgement legacy input i x")
  have new: "s = action_verdict legacy input x" "d = Pd_remove \<longleftrightarrow> s = Pv_blocked"
    "\<And>issue. issue \<in> set iss \<Longrightarrow> pis_level issue = Pl_fatal \<Longrightarrow> s = Pv_blocked"
    using action_judgement_fields[of legacy input i x] by (auto simp: j removes_blocked_def fatal_blocks_def)
  have known: "map_of seen (action_key x) = None \<longleftrightarrow> action_key x \<notin> fst ` set seen" by (rule map_of_eq_None_iff)
  show "pas_subject a = x"
    using assms by (auto simp: evaluateAction_def Let_def split: prod.splits)
  show "pas_status a = (if action_key x \<in> fst ` set seen then Pv_blocked else action_verdict legacy input x)"
    "fst ` set seen' = (if action_key x \<in> fst ` set seen \<or> action_verdict legacy input x = Pv_blocked
       then fst ` set seen else insert (action_key x) (fst ` set seen))"
    "issue \<in> set (pas_issues a) \<Longrightarrow> pis_level issue = Pl_fatal \<Longrightarrow> pas_status a = Pv_blocked"
    "pas_status a \<noteq> Pv_blocked \<Longrightarrow> pas_approvalRequirement a = fst (snd (snd (snd (action_judgement legacy input i x))))"
    using assms j new known
    by (cases "map_of seen (action_key x)";
        auto simp: evaluateAction_def action_judgement_def action_issue_def Let_def split: if_splits)+
qed

text \<open>The actions that are kept when the keys of \<open>K\<close> were seen.\<close>

fun kept_actions :: "(sa_action \<Rightarrow> po_verdict) \<Rightarrow> string set \<Rightarrow> sa_action list \<Rightarrow> sa_action list" where
  "kept_actions v K [] = []"
| "kept_actions v K (x # xs) = (if action_key x \<in> K \<or> v x = Pv_blocked then kept_actions v K xs
     else x # kept_actions v (insert (action_key x) K) xs)"

lemma kept_actions_again: "kept_actions v K (kept_actions v K xs) = kept_actions v K xs"
  by (induction xs arbitrary: K) auto

lemma kept_actions_mem:
  "x \<in> set (kept_actions v K xs) \<Longrightarrow> x \<in> set xs \<and> v x \<noteq> Pv_blocked \<and> action_key x \<notin> K"
  by (induction xs arbitrary: K) (auto split: if_splits)

lemma kept_actions_distinct: "distinct (map action_key (kept_actions v K xs))"
  by (induction xs arbitrary: K) (auto dest: kept_actions_mem)

lemma kept_actions_subseq: "subseq (kept_actions v K xs) xs"
  by (induction xs arbitrary: K) auto

lemma evaluateActions_kept:
  "map pas_subject (filter (\<lambda>a. pas_status a \<noteq> Pv_blocked) (evaluateActions legacy input i xs seen)) =
     kept_actions (action_verdict legacy input) (fst ` set seen) xs"
  "length (filter (\<lambda>a. pas_status a = Pv_review) (evaluateActions legacy input i xs seen)) =
     length (filter (\<lambda>x. action_verdict legacy input x = Pv_review) (kept_actions (action_verdict legacy input) (fst ` set seen) xs))"
proof (induction xs arbitrary: i seen)
  case (Cons x xs)
  {
    case 1
    obtain a seen' where step: "evaluateAction legacy input i x seen = (a, seen')"
      by (cases "evaluateAction legacy input i x seen")
    show ?case using Cons.IH(1)[of "Suc i" seen'] by (auto simp: step evaluateAction_fields(1-3)[OF step])
  next
    case 2
    obtain a seen' where step: "evaluateAction legacy input i x seen = (a, seen')"
      by (cases "evaluateAction legacy input i x seen")
    show ?case using Cons.IH(2)[of "Suc i" seen'] by (auto simp: step evaluateAction_fields(1-3)[OF step])
  }
qed simp_all

lemma evaluateActions_fatal:
  "a \<in> set (evaluateActions legacy input i xs seen) \<Longrightarrow> issue \<in> set (pas_issues a) \<Longrightarrow> pis_level issue = Pl_fatal \<Longrightarrow>
   pas_status a = Pv_blocked"
proof (induction xs arbitrary: i seen)
  case (Cons x xs)
  obtain b seen' where step: "evaluateAction legacy input i x seen = (b, seen')"
    by (cases "evaluateAction legacy input i x seen")
  show ?case using Cons evaluateAction_fields(4)[OF step] by (auto simp: step)
qed simp

lemma evaluateActions_subjects: "map pas_subject (evaluateActions legacy input i xs seen) = xs"
  by (induction xs arbitrary: i seen) (auto split: prod.splits dest: evaluateAction_fields(1))

lemma actions_kept:
  "pev_kept (evaluateCommercialActions legacy input) =
     kept_actions (action_verdict legacy input) {} (sg_proposedActions (poi_salesAgentResult input))"
  "in_review (evaluateCommercialActions legacy input) = length (filter (\<lambda>x. action_verdict legacy input x = Pv_review)
     (kept_actions (action_verdict legacy input) {} (sg_proposedActions (poi_salesAgentResult input))))"
  using evaluateActions_kept[of legacy input 0 _ "[]"]
  by (simp_all add: evaluateCommercialActions_def evaluation_of_def in_review_def Let_def)

lemma unblocked_actions_not_fatal:
  assumes "pev_blocked (evaluateCommercialActions legacy input) = []"
    "issue \<in> set (pev_issues (evaluateCommercialActions legacy input))"
  shows "pis_level issue \<noteq> Pl_fatal"
  using assms evaluateActions_fatal
  by (fastforce simp: evaluateCommercialActions_def evaluation_of_def Let_def filter_empty_conv)

lemma actions_subjects:
  "map pas_subject (pev_assessments (evaluateCommercialActions legacy input)) = sg_proposedActions (poi_salesAgentResult input)"
  by (simp add: evaluateCommercialActions_def evaluation_of_def Let_def evaluateActions_subjects)

lemma actions_parted:
  "mset (pev_kept (evaluateCommercialActions legacy input)) + mset (pev_blocked (evaluateCommercialActions legacy input)) =
   mset (sg_proposedActions (poi_salesAgentResult input))"
proof -
  let ?as = "evaluateActions legacy input 0 (sg_proposedActions (poi_salesAgentResult input)) []"
  have "mset (map pas_subject (filter (\<lambda>a. pas_status a \<noteq> Pv_blocked) ?as)) +
      mset (map pas_subject (filter (\<lambda>a. pas_status a = Pv_blocked) ?as)) = mset (map pas_subject ?as)"
    using kept_and_blocked[of pas_subject "\<lambda>a. pas_status a \<noteq> Pv_blocked" ?as] by simp
  then show ?thesis
    by (simp add: evaluateCommercialActions_def evaluation_of_def Let_def evaluateActions_subjects)
qed

section \<open>The result\<close>

definition policy_runs :: "(string \<Rightarrow> int option) \<Rightarrow> po_input \<Rightarrow> bool" where
  "policy_runs legacy input \<longleftrightarrow> isValidCurrentTime legacy (poi_currentTime input) \<and>
     poi_contractVersion input = COMMERCIAL_POLICY_CONTRACT_VERSION \<and> poi_policyVersion input = COMMERCIAL_POLICY_VERSION \<and>
     pfl_commercialPolicyEnabled (poi_featureFlags input)"

lemma moment_string_Inl: "moment_string m = Inl e \<longleftrightarrow> m = Moment_date None \<and> e = RangeError ''Invalid time value''"
  by (cases m) (auto simp: to_iso_string_def split: option.splits)

lemma valid_time_string: "isValidCurrentTime legacy m \<Longrightarrow> \<exists>now. moment_string m = Inr now"
  by (cases m) (auto simp: isValidCurrentTime_def policy_parseTime_def to_iso_string_def split: option.splits)

text \<open>A result that carries nothing to do and asks for a human.\<close>

definition closed_result :: "sa_result \<Rightarrow> bool" where
  "closed_result r \<longleftrightarrow> sg_proposedActions r = [] \<and> sg_toolRequests r = [] \<and> sg_entityProposals r = [] \<and>
     sg_responseProposal r = None \<and> \<not> sg_shouldRespondNow r \<and> \<not> sg_shouldRequestTool r \<and> \<not> sg_shouldEvaluateFollowUp r \<and>
     sg_shouldRequestHuman r \<and> sas_blocked (sg_policyAssessment r)"

lemma failed_safe_fields:
  assumes "createCommercialPolicyFailedSafe input reason issues = Inr r"
  shows "pre_status r = Po_failed_safe" "closed_result (pre_governedResult r)" "pre_requiresApproval r = Pa_blocked"
    "pre_riskLevel r = Sr_blocked"
  using assms
  unfolding createCommercialPolicyFailedSafe_def Let_def bind_result_Inr_iff
  by (auto simp: closed_result_def createFailedSafeResult_def cloneSalesAgentResult_def Let_def)

lemma failed_safe_Inl:
  "createCommercialPolicyFailedSafe input reason issues = Inl e \<longleftrightarrow>
     poi_currentTime input = Moment_date None \<and> e = RangeError ''Invalid time value''"
  unfolding createCommercialPolicyFailedSafe_def failed_safe_metadata_def Let_def moment_string_Inl[symmetric]
  by (cases "moment_string (poi_currentTime input)") simp_all

lemma policy_evaluated:
  assumes "policy_runs legacy input"
  obtains m where "evaluateCommercialPolicy legacy input = Inr (policy_result input (policy_parts legacy input) m)"
proof -
  obtain now where "moment_string (poi_currentTime input) = Inr now"
    using assms valid_time_string by (auto simp: policy_runs_def)
  then show thesis
    using assms that by (auto simp: evaluateCommercialPolicy_def policy_runs_def buildPolicyMetadata_def bind_result_def Let_def)
qed

lemma policy_not_run:
  assumes "\<not> policy_runs legacy input"
  shows "\<exists>reason issues. evaluateCommercialPolicy legacy input = createCommercialPolicyFailedSafe input reason issues"
  using assms by (auto simp: evaluateCommercialPolicy_def policy_runs_def)

lemma status_not_failed [simp]: "parts_status input p \<noteq> Po_failed_safe"
  by (simp add: parts_status_def buildStatus_def Let_def)

lemma pre_status_result [simp]: "pre_status (policy_result input p m) = parts_status input p"
  by (simp add: policy_result_def Let_def)

lemma policy_resultE:
  assumes "evaluateCommercialPolicy legacy input = Inr r" "pre_status r \<noteq> Po_failed_safe"
  obtains m where "policy_runs legacy input" "r = policy_result input (policy_parts legacy input) m"
proof (cases "policy_runs legacy input")
  case True
  then show thesis using policy_evaluated[OF True] assms(1) that by (metis Inr_inject)
next
  case False
  then show thesis using policy_not_run[OF False] assms failed_safe_fields(1) by metis
qed

lemma governed_fields:
  "sg_proposedActions (governed_result input p) = (if parts_status input p = Po_blocked then [] else pev_kept (pp_actions p))"
  "sg_toolRequests (governed_result input p) = (if parts_status input p = Po_blocked then [] else pev_kept (pp_tools p))"
  "sg_entityProposals (governed_result input p) = (if parts_status input p = Po_blocked then [] else pev_kept (pp_entities p))"
  "result_claims (governed_result input p) = (if parts_status input p = Po_blocked \<or>
     sg_responseProposal (poi_salesAgentResult input) = None then [] else pev_kept (pp_claims p))"
  "sg_evidence (governed_result input p) = sg_evidence (poi_salesAgentResult input)"
  "parts_status input p = Po_blocked \<Longrightarrow> closed_result (governed_result input p)"
  "parts_status input p = Po_requires_review \<Longrightarrow> \<not> sg_shouldRespondNow (governed_result input p) \<and>
     sg_shouldRequestHuman (governed_result input p) \<and> \<not> sg_shouldEvaluateFollowUp (governed_result input p) \<and>
     sad_type (sg_decision (governed_result input p)) = ''request_human''"
  by (auto simp: governed_result_def govern_blocked_def govern_review_def govern_allowed_def keep_parts_def
    cloneSalesAgentResult_def closed_result_def result_claims_def Let_def split: option.splits)

lemma foldl_max_ge: "(a :: 'a :: linorder) \<le> foldl max a xs" "x \<in> set xs \<Longrightarrow> x \<le> foldl max a xs"
proof -
  have le: "b \<le> foldl max b ys" for b :: 'a and ys
    by (induction ys arbitrary: b) (auto intro: order_trans[OF max.cobounded1])
  show "a \<le> foldl max a xs" by (rule le)
  show "x \<in> set xs \<Longrightarrow> x \<le> foldl max a xs"
    by (induction xs arbitrary: a) (auto intro: order_trans[OF max.cobounded2 le])
qed

end
