(* ===== verification/PolicyGuarantees.thy ===== *)
theory PolicyGuarantees
  imports PolicySafety
begin

text \<open>
  The properties of the commercial policy: what a governed result can still propose, when the policy fails
  closed, and that governing a governed result changes nothing.
\<close>

section \<open>Kept actions and claims\<close>

lemma evaluateActions_mem:
  "b \<in> set (evaluateActions legacy input i xs seen) \<Longrightarrow>
   \<exists>j s s'. evaluateAction legacy input j (pas_subject b) s = (b, s')"
proof (induction xs arbitrary: i seen)
  case (Cons x xs)
  obtain a seen' where step: "evaluateAction legacy input i x seen = (a, seen')"
    by (cases "evaluateAction legacy input i x seen")
  show ?case using Cons evaluateAction_fields(1)[OF step] step by auto
qed simp

lemma kept_action_assessed:
  assumes "x \<in> set (pev_kept (evaluateCommercialActions legacy input))"
  shows "\<exists>i. fst (snd (snd (snd (action_judgement legacy input i x)))) \<le> pev_requiresApproval (evaluateCommercialActions legacy input)"
proof -
  let ?as = "evaluateActions legacy input 0 (sg_proposedActions (poi_salesAgentResult input)) []"
  obtain b where b: "b \<in> set ?as" "pas_status b \<noteq> Pv_blocked" "pas_subject b = x"
    using assms by (auto simp: evaluateCommercialActions_def evaluation_of_def Let_def)
  obtain i s s' where step: "evaluateAction legacy input i x s = (b, s')"
    using evaluateActions_mem[OF b(1)] b(3) by auto
  have "pas_approvalRequirement b \<le> foldl max Pa_none (map pas_approvalRequirement ?as)"
    using b(1) by (intro foldl_max_ge(2)) simp
  moreover have "pev_requiresApproval (evaluateCommercialActions legacy input) = foldl max Pa_none (map pas_approvalRequirement ?as)"
    by (simp add: evaluateCommercialActions_def evaluation_of_def Let_def cong: foldl_cong)
  ultimately show ?thesis using evaluateAction_fields(5)[OF step b(2)] by metis
qed

lemma judge_action_survives:
  assumes "fst (judge_action legacy input i x) \<noteq> Pv_blocked"
  shows "\<not> isBlockedAction (saa_type x)" "\<not> action_expired legacy input x"
  using assms unfolding judge_action_def Let_def blocked_judgement_def by (simp_all split: if_splits)

lemma judge_outbound:
  assumes "fst (judge_action legacy input i x) \<noteq> Pv_blocked" "saa_type x = ''send_whatsapp_message''"
  shows "judge_action legacy input i x = (Pv_review, Pd_allow_with_approval, Sr_high, Pa_explicit_operator_approval,
      [action_issue i x Pc_action_requires_approval ''Outbound message proposal requires explicit approval.''
         (JObj [(''actionType'', JStr (saa_type x))]) Pl_info])"
    "pfl_allowOutboundProposals (poi_featureFlags input) \<and> pch_outboundAllowed (poi_channelContext input) \<and>
     \<not> channelBlock (poi_channelContext input)"
  using assms by (auto simp: judge_action_def isBlockedAction_def blocked_judgement_def channelBlock_def Let_def split: if_splits)

lemma judged_not_blocked: "fst (action_judgement legacy input i x) = Pv_blocked \<longleftrightarrow> fst (judge_action legacy input i x) = Pv_blocked"
  by (simp add: action_judgement_def review_text_status)

lemma kept_action:
  assumes "x \<in> set (pev_kept (evaluateCommercialActions legacy input))"
  shows "x \<in> set (sg_proposedActions (poi_salesAgentResult input))" "fst (judge_action legacy input i x) \<noteq> Pv_blocked"
  using assms kept_actions_mem judge_action_status[of legacy input i x] judged_not_blocked[of legacy input 0 x]
  by (force simp: actions_kept action_verdict_def)+

lemma outbound_in_review:
  assumes "x \<in> set (pev_kept (evaluateCommercialActions legacy input))" "saa_type x = ''send_whatsapp_message''"
  shows "0 < in_review (evaluateCommercialActions legacy input)"
    "Pa_explicit_operator_approval \<le> pev_requiresApproval (evaluateCommercialActions legacy input)"
proof -
  have j: "fst (judge_action legacy input i x) = Pv_review" "fst (snd (snd (snd (judge_action legacy input i x)))) = Pa_explicit_operator_approval" for i
    using judge_outbound(1)[OF kept_action(2)[OF assms(1)] assms(2)] by simp_all
  have "action_verdict legacy input x = Pv_review"
    using j(1)[of 0] by (simp add: action_verdict_def action_judgement_def review_text_status)
  then show "0 < in_review (evaluateCommercialActions legacy input)"
    using assms(1) by (auto simp: actions_kept filter_empty_conv)
  obtain i where i: "fst (snd (snd (snd (action_judgement legacy input i x)))) \<le> pev_requiresApproval (evaluateCommercialActions legacy input)"
    using kept_action_assessed[OF assms(1)] by blast
  have "Pa_explicit_operator_approval \<le> fst (snd (snd (snd (action_judgement legacy input i x))))"
    using j(2)[of i] by (cases "judge_action legacy input i x") (auto simp: action_judgement_def less_eq_po_approval_def max_def)
  then show "Pa_explicit_operator_approval \<le> pev_requiresApproval (evaluateCommercialActions legacy input)"
    using i by (rule order_trans)
qed

lemma judge_claim_backed:
  assumes "fst (judge_claim flags i claim v f) \<noteq> Pv_blocked" "isSensitiveClaimType (sac_type claim)"
  shows "pfl_allowSensitiveClaims flags" "isStrongEvidenceSource (sac_evidenceSource claim)" "sac_verified claim"
  using assms unfolding judge_claim_def Let_def by (simp_all split: if_splits)

lemma judge_claim_allowed:
  assumes "fst (judge_claim flags i claim v f) = Pv_allowed" "v \<noteq> Vo_stable"
  shows "f = Pf_fresh" "sac_type claim \<noteq> ''delivery''" "sac_type claim \<noteq> ''dispatch''" "sac_type claim \<noteq> ''promotion''"
  using assms unfolding judge_claim_def Let_def by (simp_all split: if_splits)

lemma sensitive_volatile: "isSensitiveClaimType t \<Longrightarrow> claim_volatility t \<noteq> Vo_stable"
  by (auto simp: isSensitiveClaimType_def claim_volatility_def COMMERCIAL_POLICY_CLAIM_VOLATILITY_MAP_def)

lemma time_or_zero_pos: "0 < time_or_zero legacy v \<Longrightarrow> \<exists>t. v = Some t \<and> time_or_zero legacy v = policy_parseTime legacy (Moment_text t)"
  by (auto simp: time_or_zero_def split: option.splits if_splits)

lemma fresh_evidence:
  assumes "freshnessForClaim legacy claim evidence now v = Pf_fresh"
  shows "\<exists>e \<in> set evidence. \<exists>t. sae_capturedAt e = Some t \<and> 0 < policy_parseTime legacy (Moment_text t) \<and>
     now - policy_parseTime legacy (Moment_text t) \<le> 24 * 60 * 60 * 1000"
proof -
  obtain e where "find (\<lambda>e. given_text (sae_expiresAt e) \<or> given_text (sae_capturedAt e)) evidence = Some e"
    and captured: "0 < time_or_zero legacy (sae_capturedAt e)" "now - time_or_zero legacy (sae_capturedAt e) \<le> 24 * 60 * 60 * 1000"
    using assms by (auto simp: freshnessForClaim_def Let_def COMMERCIAL_POLICY_RECENT_EVIDENCE_MAX_AGE_MS_def
      split: option.splits if_splits)
  then show ?thesis using find_Some_prop time_or_zero_pos[OF captured(1)] by fastforce
qed

section \<open>The governed result\<close>

lemma parts_fields:
  "pp_actions (policy_parts legacy input) = evaluateCommercialActions legacy input"
  "pp_claims (policy_parts legacy input) = evaluateCommercialClaims legacy input"
  "pp_tools (policy_parts legacy input) = evaluateCommercialToolRequests input"
  "pp_entities (policy_parts legacy input) = evaluateCommercialEntityProposals input"
  by (simp_all add: policy_parts_def)

lemma result_fields:
  "pre_governedResult (policy_result input p m) = governed_result input p"
  "pre_requiresApproval (policy_result input p m) = parts_approval p"
  "pre_blockedActions (policy_result input p m) = pev_blocked (pp_actions p)"
  "pre_blockedClaims (policy_result input p m) = pev_blocked (pp_claims p)"
  "pre_blockedToolRequests (policy_result input p m) = pev_blocked (pp_tools p)"
  "pre_blockedEntityProposals (policy_result input p m) = pev_blocked (pp_entities p)"
  by (simp_all add: policy_result_def Let_def)

lemma review_status: "\<lbrakk>parts_status input p \<noteq> Po_blocked; 0 < parts_review p\<rbrakk> \<Longrightarrow> parts_status input p = Po_requires_review"
  by (auto simp: parts_status_def buildStatus_def Let_def split: if_splits)

lemma not_blocked_channel: "parts_status input p \<noteq> Po_blocked \<Longrightarrow> \<not> channelBlock (poi_channelContext input)"
  by (auto simp: parts_status_def buildStatus_def Let_def)

text \<open>An action of a governed result comes from a policy that ran and did not block.\<close>

lemma governed_actionE:
  assumes "evaluateCommercialPolicy legacy input = Inr r" "a \<in> set (sg_proposedActions (pre_governedResult r))"
  obtains m where "r = policy_result input (policy_parts legacy input) m" "pre_status r \<noteq> Po_blocked"
    "a \<in> set (pev_kept (evaluateCommercialActions legacy input))"
proof (cases "pre_status r = Po_failed_safe")
  case True
  then have "\<not> policy_runs legacy input"
    using assms(1) policy_evaluated by (metis Inr_inject pre_status_result status_not_failed)
  then show thesis using policy_not_run assms failed_safe_fields(2) by (metis closed_result_def empty_iff empty_set)
next
  case False
  then show thesis using policy_resultE[OF assms(1) False] assms(2) that
    by (metis governed_fields(1) parts_fields(1) result_fields(1) pre_status_result empty_iff empty_set)
qed

lemma governed_message_facts:
  assumes "evaluateCommercialPolicy legacy input = Inr r" "a \<in> set (sg_proposedActions (pre_governedResult r))"
    "saa_type a = ''send_whatsapp_message''"
  shows "a \<in> set (sg_proposedActions (poi_salesAgentResult input)) \<and> \<not> isBlockedAction (saa_type a) \<and>
    \<not> action_expired legacy input a \<and> pfl_commercialPolicyEnabled (poi_featureFlags input) \<and>
    pfl_allowOutboundProposals (poi_featureFlags input) \<and> pch_outboundAllowed (poi_channelContext input) \<and>
    \<not> pch_optOut (poi_channelContext input) \<and> \<not> pch_aiBlocked (poi_channelContext input) \<and>
    \<not> pch_identityConflict (poi_channelContext input) \<and> pre_status r = Po_requires_review \<and>
    Pa_explicit_operator_approval \<le> pre_requiresApproval r \<and> \<not> sg_shouldRespondNow (pre_governedResult r) \<and>
    sg_shouldRequestHuman (pre_governedResult r)"
proof -
  let ?p = "policy_parts legacy input"
  obtain m where r: "r = policy_result input ?p m" and open_status: "pre_status r \<noteq> Po_blocked"
    and kept: "a \<in> set (pev_kept (evaluateCommercialActions legacy input))"
    using governed_actionE[OF assms(1,2)] by blast
  have "0 < parts_review ?p" using outbound_in_review(1)[OF kept assms(3)] by (simp add: parts_review_def parts_fields)
  then have status: "parts_status input ?p = Po_requires_review" using open_status by (simp add: r review_status)
  have "Pa_explicit_operator_approval \<le> parts_approval ?p"
    using outbound_in_review(2)[OF kept assms(3)] by (simp add: parts_approval_def parts_fields le_max_iff_disj)
  moreover have "policy_runs legacy input"
    by (rule policy_resultE[OF assms(1)]) (simp add: r)
  ultimately show ?thesis
    using kept_action[OF kept] judge_action_survives[OF kept_action(2)[OF kept]]
      judge_outbound(2)[OF kept_action(2)[OF kept] assms(3)] governed_fields(7)[OF status] status
    by (auto simp: r result_fields channelBlock_def policy_runs_def)
qed

text \<open>
  C5. A message to the customer that the commercial policy lets through was proposed by the agent, is not hard
  blocked and had not expired; the flags and the channel allow it, nobody opted out, blocked the agent or
  disputes the identity; and the whole proposal waits for a human: its status is \<open>requires_review\<close>, it
  demands an explicit approval, and the agent does not respond now.
\<close>
theorem governed_message_needs_approval:
  assumes "evaluateCommercialPolicy legacy input = Inr r" "a \<in> set (sg_proposedActions (pre_governedResult r))"
    "saa_type a = ''send_whatsapp_message''"
  shows "a \<in> set (sg_proposedActions (poi_salesAgentResult input)) \<and> \<not> isBlockedAction (saa_type a) \<and>
    \<not> action_expired legacy input a \<and> pfl_commercialPolicyEnabled (poi_featureFlags input) \<and>
    pfl_allowOutboundProposals (poi_featureFlags input) \<and> pch_outboundAllowed (poi_channelContext input) \<and>
    \<not> pch_optOut (poi_channelContext input) \<and> \<not> pch_aiBlocked (poi_channelContext input) \<and>
    \<not> pch_identityConflict (poi_channelContext input) \<and> pre_status r = Po_requires_review \<and>
    Pa_explicit_operator_approval \<le> pre_requiresApproval r \<and> \<not> sg_shouldRespondNow (pre_governedResult r) \<and>
    sg_shouldRequestHuman (pre_governedResult r)"
  by (rule governed_message_facts[OF assms])

text \<open>
  C8. The actions of a governed result are actions that the agent proposed, in their order, none of them hard
  blocked or expired, and no two of them with the same key.
\<close>
theorem governed_actions_screened:
  assumes "evaluateCommercialPolicy legacy input = Inr r"
  shows "subseq (sg_proposedActions (pre_governedResult r)) (sg_proposedActions (poi_salesAgentResult input)) \<and>
    distinct (map action_key (sg_proposedActions (pre_governedResult r))) \<and>
    (\<forall>a \<in> set (sg_proposedActions (pre_governedResult r)). \<not> isBlockedAction (saa_type a) \<and> \<not> action_expired legacy input a)"
proof (cases "sg_proposedActions (pre_governedResult r)")
  case (Cons a as)
  then obtain m where "r = policy_result input (policy_parts legacy input) m" "pre_status r \<noteq> Po_blocked"
    using governed_actionE[OF assms, of a] by auto
  then have "sg_proposedActions (pre_governedResult r) = pev_kept (evaluateCommercialActions legacy input)"
    by (simp add: result_fields governed_fields parts_fields)
  moreover have "\<not> isBlockedAction (saa_type x) \<and> \<not> action_expired legacy input x"
    if "x \<in> set (pev_kept (evaluateCommercialActions legacy input))" for x
    using judge_action_survives[OF kept_action(2)[OF that, of 0]] by simp
  ultimately show ?thesis
    by (simp add: actions_kept kept_actions_subseq kept_actions_distinct)
qed simp

text \<open>
  C7. A claim about a price, a stock, a delivery or another sensitive fact that survives the policy has its flag on,
  comes from an authorised source and is verified; and if the policy asks for no review, its first dated
  evidence from that source was captured in the last 24 hours and the claim promises no delivery, dispatch
  or promotion.
\<close>
theorem governed_claims_backed:
  assumes "evaluateCommercialPolicy legacy input = Inr r" "c \<in> set (result_claims (pre_governedResult r))"
    "pre_status r \<noteq> Po_failed_safe" "isSensitiveClaimType (sac_type c)"
  shows "pfl_allowSensitiveClaims (poi_featureFlags input) \<and> isStrongEvidenceSource (sac_evidenceSource c) \<and> sac_verified c \<and>
    (pre_status r \<noteq> Po_requires_review \<longrightarrow> sac_type c \<notin> {''delivery'', ''dispatch'', ''promotion''} \<and>
      (\<exists>e \<in> set (sg_evidence (poi_salesAgentResult input)). sae_source e = sac_evidenceSource c \<and>
        (\<exists>t. sae_capturedAt e = Some t \<and> 0 < policy_parseTime legacy (Moment_text t) \<and>
          policy_parseTime legacy (poi_currentTime input) - policy_parseTime legacy (Moment_text t) \<le> 24 * 60 * 60 * 1000)))"
proof -
  let ?p = "policy_parts legacy input" and ?now = "policy_parseTime legacy (poi_currentTime input)"
    and ?e = "filter (\<lambda>e. sae_source e = sac_evidenceSource c) (sg_evidence (poi_salesAgentResult input))"
  define v where "v = claim_volatility (sac_type c)"
  define f where "f = freshnessForClaim legacy c ?e ?now v"
  obtain m where r: "r = policy_result input ?p m" using policy_resultE[OF assms(1,3)] by blast
  have kept: "c \<in> set (pev_kept (evaluateCommercialClaims legacy input))" and open_status: "parts_status input ?p \<noteq> Po_blocked"
    using assms(2) by (auto simp: r result_fields governed_fields parts_fields split: if_splits)
  have verdict: "claim_verdict legacy input c = fst (judge_claim (poi_featureFlags input) 0 c v f)"
    by (simp add: claim_verdict_def assess_claim_def v_def f_def Let_def split: prod.split)
  have kept_verdict: "claim_verdict legacy input c \<noteq> Pv_blocked" and mem: "c \<in> set (result_claims (poi_salesAgentResult input))"
    using kept by (auto simp: screened_claims claims_screen.kept)
  have "sac_type c \<notin> {''delivery'', ''dispatch'', ''promotion''} \<and> f = Pf_fresh" if "pre_status r \<noteq> Po_requires_review"
  proof -
    have "parts_review ?p = 0" using that open_status review_status by (auto simp: r)
    then have "claim_verdict legacy input c \<noteq> Pv_review"
      using mem by (auto simp: parts_review_def parts_fields screened_claims claims_screen.reviewed filter_empty_conv)
    then have "claim_verdict legacy input c = Pv_allowed" using kept_verdict by (cases "claim_verdict legacy input c") auto
    then show ?thesis
      using judge_claim_allowed[of "poi_featureFlags input" 0 c v f] sensitive_volatile[OF assms(4)] by (simp add: verdict v_def)
  qed
  then show ?thesis
    using judge_claim_backed[OF kept_verdict[unfolded verdict] assms(4)] fresh_evidence[of legacy c ?e ?now v]
    by (auto simp: f_def)
qed

section \<open>Failing closed\<close>

text \<open>
  C9. The policy fails safe exactly when the time, the versions or the flag do not let it run; a result that failed
  safe or is blocked proposes nothing, answers nothing and asks for a human.
\<close>
theorem policy_fails_closed:
  assumes "evaluateCommercialPolicy legacy input = Inr r"
  shows "(pre_status r = Po_failed_safe \<longleftrightarrow> \<not> (isValidCurrentTime legacy (poi_currentTime input) \<and>
      poi_contractVersion input = COMMERCIAL_POLICY_CONTRACT_VERSION \<and> poi_policyVersion input = COMMERCIAL_POLICY_VERSION \<and>
      pfl_commercialPolicyEnabled (poi_featureFlags input))) \<and>
    (channelBlock (poi_channelContext input) \<longrightarrow> pre_status r \<in> {Po_failed_safe, Po_blocked}) \<and>
    (pre_status r \<in> {Po_failed_safe, Po_blocked} \<longrightarrow> closed_result (pre_governedResult r))"
proof (cases "policy_runs legacy input")
  case True
  obtain m where "r = policy_result input (policy_parts legacy input) m"
    using policy_evaluated[OF True] assms by (metis Inr_inject)
  then show ?thesis
    using True governed_fields(6) not_blocked_channel by (auto simp: policy_runs_def result_fields)
next
  case False
  then show ?thesis using policy_not_run[OF False] assms failed_safe_fields(1,2) by (auto simp: policy_runs_def)
qed

text \<open>
  The policy throws exactly when the time is an invalid \<open>Date\<close>: the safe failure itself calls
  \<open>toISOString\<close> on it.
\<close>
theorem policy_throws_iff:
  "evaluateCommercialPolicy legacy input = Inl e \<longleftrightarrow>
     poi_currentTime input = Moment_date None \<and> e = RangeError ''Invalid time value''"
proof (cases "policy_runs legacy input")
  case True
  then have "poi_currentTime input \<noteq> Moment_date None"
    by (auto simp: policy_runs_def isValidCurrentTime_def policy_parseTime_def)
  then show ?thesis using policy_evaluated[OF True] by (metis Inl_Inr_False)
next
  case False
  then show ?thesis using policy_not_run[OF False] failed_safe_Inl by metis
qed

section \<open>Every item is assessed\<close>

text \<open>
  When the policy runs, it assesses every claim, action, tool request and entity proposal once and in order,
  and what it keeps and what it removes are together what was proposed.
\<close>
theorem policy_screens_everything:
  assumes "policy_runs legacy input"
  shows "\<exists>r. evaluateCommercialPolicy legacy input = Inr r \<and>
    map pas_subject (pre_actionAssessments r) = sg_proposedActions (poi_salesAgentResult input) \<and>
    map pas_subject (pre_claimAssessments r) = result_claims (poi_salesAgentResult input) \<and>
    map pas_subject (pre_toolRequestAssessments r) = sg_toolRequests (poi_salesAgentResult input) \<and>
    map pas_subject (pre_entityProposalAssessments r) = sg_entityProposals (poi_salesAgentResult input) \<and>
    (pre_status r \<noteq> Po_blocked \<longrightarrow>
      mset (sg_proposedActions (pre_governedResult r)) + mset (pre_blockedActions r) = mset (sg_proposedActions (poi_salesAgentResult input)) \<and>
      mset (sg_toolRequests (pre_governedResult r)) + mset (pre_blockedToolRequests r) = mset (sg_toolRequests (poi_salesAgentResult input)) \<and>
      mset (sg_entityProposals (pre_governedResult r)) + mset (pre_blockedEntityProposals r) =
        mset (sg_entityProposals (poi_salesAgentResult input)))"
proof -
  obtain m where r: "evaluateCommercialPolicy legacy input = Inr (policy_result input (policy_parts legacy input) m)"
    using policy_evaluated[OF assms] by blast
  note actions = actions_parted[of legacy input]
  have tools: "mset (pev_kept (evaluateCommercialToolRequests input)) + mset (pev_blocked (evaluateCommercialToolRequests input)) =
      mset (sg_toolRequests (poi_salesAgentResult input))"
    by (simp only: screened_tools tools_screen.kept tools_screen.blocked)
       (metis (no_types, lifting) filter_cong mset_filter multiset_partition)
  have entities: "mset (pev_kept (evaluateCommercialEntityProposals input)) + mset (pev_blocked (evaluateCommercialEntityProposals input)) =
      mset (sg_entityProposals (poi_salesAgentResult input))"
    by (simp only: screened_entities entities_screen.kept entities_screen.blocked)
       (metis (no_types, lifting) filter_cong mset_filter multiset_partition)
  show ?thesis
    using actions tools entities
    by (simp add: r result_fields governed_fields parts_fields policy_result_def actions_subjects screened_claims claims_screen.subjects
      screened_tools tools_screen.subjects screened_entities entities_screen.subjects Let_def)
qed

section \<open>Governing again\<close>

lemma input_update:
  "poi_featureFlags (input\<lparr>poi_salesAgentResult := g\<rparr>) = poi_featureFlags input"
  "poi_channelContext (input\<lparr>poi_salesAgentResult := g\<rparr>) = poi_channelContext input"
  "poi_currentTime (input\<lparr>poi_salesAgentResult := g\<rparr>) = poi_currentTime input"
  "poi_allowedCapabilities (input\<lparr>poi_salesAgentResult := g\<rparr>) = poi_allowedCapabilities input"
  "poi_salesAgentResult (input\<lparr>poi_salesAgentResult := g\<rparr>) = g"
  by simp_all

text \<open>The verdicts depend on the result only through its evidence.\<close>

lemma verdicts_again:
  "action_verdict legacy (input\<lparr>poi_salesAgentResult := g\<rparr>) = action_verdict legacy input"
  "tool_verdict (input\<lparr>poi_salesAgentResult := g\<rparr>) = tool_verdict input"
  "entity_verdict (input\<lparr>poi_salesAgentResult := g\<rparr>) = entity_verdict input"
  "sg_evidence g = sg_evidence (poi_salesAgentResult input) \<Longrightarrow>
   claim_verdict legacy (input\<lparr>poi_salesAgentResult := g\<rparr>) = claim_verdict legacy input"
proof -
  have "judge_action legacy (input\<lparr>poi_salesAgentResult := g\<rparr>) i x = judge_action legacy input i x" for i x
    by (simp only: judge_action_def action_expired_def input_update)
  then show "action_verdict legacy (input\<lparr>poi_salesAgentResult := g\<rparr>) = action_verdict legacy input"
    by (auto simp: action_verdict_def action_judgement_def)
  show "tool_verdict (input\<lparr>poi_salesAgentResult := g\<rparr>) = tool_verdict input"
    by (rule ext) (simp only: tool_verdict_def assess_tool_def judge_tool_def input_update)
  show "entity_verdict (input\<lparr>poi_salesAgentResult := g\<rparr>) = entity_verdict input"
    by (rule ext) (simp only: entity_verdict_def assess_entity_def judge_entity_def input_update)
  show "claim_verdict legacy (input\<lparr>poi_salesAgentResult := g\<rparr>) = claim_verdict legacy input"
    if "sg_evidence g = sg_evidence (poi_salesAgentResult input)"
    by (rule ext) (simp only: claim_verdict_def assess_claim_def input_update that)
qed

lemma actions_again:
  assumes "sg_proposedActions (poi_salesAgentResult input2) = pev_kept (evaluateCommercialActions legacy input)"
    "action_verdict legacy input2 = action_verdict legacy input"
  shows "pev_kept (evaluateCommercialActions legacy input2) = pev_kept (evaluateCommercialActions legacy input)"
    "pev_blocked (evaluateCommercialActions legacy input2) = []"
    "in_review (evaluateCommercialActions legacy input2) = in_review (evaluateCommercialActions legacy input)"
    "issue \<in> set (pev_issues (evaluateCommercialActions legacy input2)) \<Longrightarrow> pis_level issue \<noteq> Pl_fatal"
proof -
  show kept: "pev_kept (evaluateCommercialActions legacy input2) = pev_kept (evaluateCommercialActions legacy input)"
    by (simp add: actions_kept assms kept_actions_again)
  show "in_review (evaluateCommercialActions legacy input2) = in_review (evaluateCommercialActions legacy input)"
    by (simp add: actions_kept assms kept_actions_again)
  show none: "pev_blocked (evaluateCommercialActions legacy input2) = []"
    using actions_parted[of legacy input2] by (simp add: kept assms(1))
  show "issue \<in> set (pev_issues (evaluateCommercialActions legacy input2)) \<Longrightarrow> pis_level issue \<noteq> Pl_fatal"
    by (rule unblocked_actions_not_fatal[OF none])
qed

lemma status_again:
  assumes "parts_status input p \<noteq> Po_blocked" "parts_blocked q = 0" "parts_review q = parts_review p"
    "\<forall>issue \<in> set (parts_issues q). pis_level issue \<noteq> Pl_fatal"
  shows "parts_status (input\<lparr>poi_salesAgentResult := g\<rparr>) q =
    (if parts_status input p = Po_allowed_with_restrictions then Po_allowed else parts_status input p)"
proof -
  have "\<not> list_ex (\<lambda>i. pis_level i = Pl_fatal) (channel_issues (poi_channelContext input))"
    using assms(1) by (auto simp: parts_status_def buildStatus_def Let_def split: if_splits)
  then show ?thesis
    using assms by (auto simp: parts_status_def buildStatus_def list_ex_iff Let_def split: if_splits)
qed

lemma screened_again:
  assumes "policy_runs legacy input" "parts_status input (policy_parts legacy input) \<noteq> Po_blocked"
  defines "g \<equiv> governed_result input (policy_parts legacy input)"
  defines "input2 \<equiv> input\<lparr>poi_salesAgentResult := g\<rparr>"
  defines "p \<equiv> policy_parts legacy input" and "q \<equiv> policy_parts legacy input2"
  shows "pev_kept (pp_actions q) = pev_kept (pp_actions p)" "pev_kept (pp_tools q) = pev_kept (pp_tools p)"
    "pev_kept (pp_entities q) = pev_kept (pp_entities p)" "pev_kept (pp_claims q) = pev_kept (pp_claims p)"
    "pev_blocked (pp_actions q) = []" "pev_blocked (pp_tools q) = []" "pev_blocked (pp_entities q) = []" "pev_blocked (pp_claims q) = []"
    "parts_review q = parts_review p" "\<forall>issue \<in> set (parts_issues q). pis_level issue \<noteq> Pl_fatal"
proof -
  have evidence: "sg_evidence g = sg_evidence (poi_salesAgentResult input)" by (simp add: g_def governed_fields)
  have lists: "sg_proposedActions g = pev_kept (pp_actions p)" "sg_toolRequests g = pev_kept (pp_tools p)"
    "sg_entityProposals g = pev_kept (pp_entities p)"
    using assms(2) by (simp_all add: g_def p_def governed_fields)
  have "sg_responseProposal (poi_salesAgentResult input) = None \<Longrightarrow> result_claims (poi_salesAgentResult input) = []"
    by (simp add: result_claims_def)
  then have claims: "result_claims g = pev_kept (pp_claims p)"
    using assms(2) by (simp add: g_def p_def governed_fields parts_fields screened_claims claims_screen.kept)
  note actions = actions_again[of input2 legacy input, unfolded input2_def input_update, OF lists(1)[unfolded p_def parts_fields] verdicts_again(1), folded input2_def]
  have tools: "pp_tools q = tools_screen.screened input2 (pev_kept (tools_screen.screened input (sg_toolRequests (poi_salesAgentResult input))))"
    and entities: "pp_entities q = entities_screen.screened input2 (pev_kept (entities_screen.screened input (sg_entityProposals (poi_salesAgentResult input))))"
    and claim_list: "pp_claims q = claims_screen.screened legacy input2 (pev_kept (claims_screen.screened legacy input (result_claims (poi_salesAgentResult input))))"
    using lists claims by (simp_all add: q_def p_def parts_fields screened_tools screened_entities screened_claims input2_def)
  have same: "tool_verdict input2 = tool_verdict input" "entity_verdict input2 = entity_verdict input"
    "claim_verdict legacy input2 = claim_verdict legacy input"
    using evidence by (simp_all only: input2_def verdicts_again)
  show "pev_kept (pp_actions q) = pev_kept (pp_actions p)" "pev_blocked (pp_actions q) = []"
    using actions by (simp_all add: q_def p_def parts_fields)
  show kept: "pev_kept (pp_tools q) = pev_kept (pp_tools p)" "pev_kept (pp_entities q) = pev_kept (pp_entities p)"
    "pev_kept (pp_claims q) = pev_kept (pp_claims p)"
    and "pev_blocked (pp_tools q) = []" "pev_blocked (pp_entities q) = []" "pev_blocked (pp_claims q) = []"
    unfolding tools entities claim_list
    by (auto simp: p_def parts_fields screened_tools screened_entities screened_claims tools_screen.kept entities_screen.kept claims_screen.kept
      tools_screen.blocked entities_screen.blocked claims_screen.blocked same filter_empty_conv)
  have "in_review (pp_tools q) = in_review (pp_tools p)" "in_review (pp_entities q) = in_review (pp_entities p)"
    "in_review (pp_claims q) = in_review (pp_claims p)"
    unfolding tools entities claim_list
    by (auto simp: p_def parts_fields screened_tools screened_entities screened_claims tools_screen.kept entities_screen.kept claims_screen.kept
      tools_screen.reviewed entities_screen.reviewed claims_screen.reviewed same intro!: arg_cong[of _ _ length] filter_cong)
  then show "parts_review q = parts_review p"
    using actions(3) by (simp add: parts_review_def q_def p_def parts_fields)
  have fatal: "pis_level issue \<noteq> Pl_fatal" if "issue \<in> set (pev_issues (pp_tools q)) \<or> issue \<in> set (pev_issues (pp_entities q)) \<or>
      issue \<in> set (pev_issues (pp_claims q))" for issue
    using that unfolding tools entities claim_list
    by (auto dest!: tools_screen.no_fatal[rotated] entities_screen.no_fatal[rotated] claims_screen.no_fatal[rotated]
      simp: tools_screen.kept entities_screen.kept claims_screen.kept same)
  then show "\<forall>issue \<in> set (parts_issues q). pis_level issue \<noteq> Pl_fatal"
    using actions(4) by (auto simp: parts_issues_def q_def parts_fields)
qed

text \<open>
  C6. Governing a governed result changes no proposal: every claim, action, tool request and entity proposal that was
  kept is kept again, nothing is removed, and the status is the same, except that with nothing left to
  remove the restrictions are gone.
\<close>
theorem policy_is_idempotent:
  assumes "evaluateCommercialPolicy legacy input = Inr r" "pre_status r \<noteq> Po_failed_safe" "pre_status r \<noteq> Po_blocked"
  shows "\<exists>r2. evaluateCommercialPolicy legacy (input\<lparr>poi_salesAgentResult := pre_governedResult r\<rparr>) = Inr r2 \<and>
    pre_status r2 = (if pre_status r = Po_allowed_with_restrictions then Po_allowed else pre_status r) \<and>
    sg_proposedActions (pre_governedResult r2) = sg_proposedActions (pre_governedResult r) \<and>
    sg_toolRequests (pre_governedResult r2) = sg_toolRequests (pre_governedResult r) \<and>
    sg_entityProposals (pre_governedResult r2) = sg_entityProposals (pre_governedResult r) \<and>
    result_claims (pre_governedResult r2) = result_claims (pre_governedResult r) \<and>
    pre_blockedActions r2 = [] \<and> pre_blockedClaims r2 = [] \<and> pre_blockedToolRequests r2 = [] \<and> pre_blockedEntityProposals r2 = []"
proof -
  let ?p = "policy_parts legacy input"
  obtain m where run: "policy_runs legacy input" and r: "r = policy_result input ?p m"
    using policy_resultE[OF assms(1,2)] by blast
  let ?g = "governed_result input ?p"
  let ?input2 = "input\<lparr>poi_salesAgentResult := ?g\<rparr>"
  have "policy_runs legacy ?input2" using run by (simp add: policy_runs_def)
  then obtain m2 where r2: "evaluateCommercialPolicy legacy ?input2 = Inr (policy_result ?input2 (policy_parts legacy ?input2) m2)"
    by (rule policy_evaluated)
  have open_status: "parts_status input ?p \<noteq> Po_blocked" using assms(3) by (simp add: r)
  note again = screened_again[OF run open_status]
  have status: "parts_status ?input2 (policy_parts legacy ?input2) =
      (if parts_status input ?p = Po_allowed_with_restrictions then Po_allowed else parts_status input ?p)"
    by (rule status_again[OF open_status _ again(9,10)]) (simp add: parts_blocked_def again(5-8))
  moreover have "sg_responseProposal ?g = None \<longleftrightarrow> sg_responseProposal (poi_salesAgentResult input) = None"
    using open_status by (simp add: governed_result_def govern_review_def govern_allowed_def keep_parts_def cloneSalesAgentResult_def Let_def)
  ultimately show ?thesis
    using open_status again(1-8) r2 by (simp add: r result_fields governed_fields)
qed

section \<open>Metadata\<close>

definition clean_key :: "string \<Rightarrow> bool" where
  "clean_key k \<longleftrightarrow> k \<notin> set FORBIDDEN_KEYS \<and> \<not> regex_test SENSITIVE_KEY_PATTERN k"

fun clean_metadata :: "json \<Rightarrow> bool" where
  "clean_metadata JUndef = False"
| "clean_metadata (JArr xs) = (\<forall>x \<in> set xs. clean_metadata x)"
| "clean_metadata (JObj kvs) = (\<forall>kv \<in> set kvs. clean_key (fst kv) \<and> clean_metadata (snd kv))"
| "clean_metadata v = True"

lemma sanitize_makes_clean:
  "sanitizeRecursive v path = (w, iss, fs) \<Longrightarrow> w = JUndef \<or> clean_metadata w"
  "sanitizeItems xs n path = (ys, iss, fs) \<Longrightarrow> \<forall>y \<in> set ys. clean_metadata y"
  "sanitizeMembers kvs path = (out, iss, fs) \<Longrightarrow> \<forall>kv \<in> set out. clean_key (fst kv) \<and> clean_metadata (snd kv)"
proof (induction v path and xs n path and kvs path arbitrary: w iss fs and ys iss fs and out iss fs
    rule: sanitizeRecursive_sanitizeItems_sanitizeMembers.induct)
  case (8 key v kvs path)
  show ?case
  proof (cases "key \<in> set FORBIDDEN_KEYS \<or> regex_test SENSITIVE_KEY_PATTERN key")
    case True
    then show ?thesis using "8.IH"(1)[OF True] "8.prems" by (auto split: prod.splits)
  next
    case False
    then show ?thesis using "8.IH"(2)[OF False] "8.IH"(3)[OF False] "8.prems"
      by (fastforce split: prod.splits if_splits simp: clean_key_def)
  qed
qed (fastforce split: prod.splits if_splits)+

lemma sanitize_keeps_clean:
  "clean_metadata v \<longleftrightarrow> fst (snd (sanitizeRecursive v path)) = []"
  "(\<forall>x \<in> set xs. clean_metadata x) \<longleftrightarrow> fst (snd (sanitizeItems xs n path)) = []"
  "(\<forall>kv \<in> set kvs. clean_key (fst kv) \<and> clean_metadata (snd kv)) \<longleftrightarrow> fst (snd (sanitizeMembers kvs path)) = []"
  by (induction v path and xs n path and kvs path rule: sanitizeRecursive_sanitizeItems_sanitizeMembers.induct)
    (auto split: prod.splits simp: clean_key_def)

lemma sanitize_identity:
  "clean_metadata v \<Longrightarrow> sanitizeRecursive v path = (v, [], [])"
  "\<forall>x \<in> set xs. clean_metadata x \<Longrightarrow> sanitizeItems xs n path = (xs, [], [])"
  "\<forall>kv \<in> set kvs. clean_key (fst kv) \<and> clean_metadata (snd kv) \<Longrightarrow> sanitizeMembers kvs path = (kvs, [], [])"
  by (induction v path and xs n path and kvs path rule: sanitizeRecursive_sanitizeItems_sanitizeMembers.induct)
    (auto split: prod.splits simp: clean_key_def)

text \<open>
  Sanitized metadata hold no forbidden and no sensitive key and no \<open>undefined\<close> at any depth, sanitizing them again changes
  nothing, and metadata are reported as sanitized exactly when they were not such an object.
\<close>
theorem sanitizePolicyRecord_clean:
  "clean_metadata (JObj (psz_value (sanitizePolicyRecord v))) \<and>
   psz_value (sanitizePolicyRecord (JObj (psz_value (sanitizePolicyRecord v)))) = psz_value (sanitizePolicyRecord v) \<and>
   (psz_sanitized (sanitizePolicyRecord v) \<longleftrightarrow> \<not> (is_record v \<and> clean_metadata v))"
proof (cases "is_record v")
  case True
  then obtain kvs where v: "v = JObj kvs" by (rule is_recordE)
  obtain out iss fs where s: "sanitizeMembers kvs [] = (out, iss, fs)" by (cases "sanitizeMembers kvs []")
  have "\<forall>kv \<in> set out. clean_key (fst kv) \<and> clean_metadata (snd kv)" by (rule sanitize_makes_clean(3)[OF s])
  then show ?thesis
    using sanitize_keeps_clean(3)[of kvs "[]"] sanitize_identity(3)[of out "[]"] s by (auto simp: v sanitizePolicyRecord_def)
next
  case False
  then show ?thesis by (cases v) (auto simp: sanitizePolicyRecord_def)
qed

section \<open>Witnesses\<close>

definition sample_action :: "string \<Rightarrow> sa_action" where
  "sample_action type = \<lparr>saa_type = type, saa_priority = ''low'', saa_confidence = ''high'', saa_riskLevel = Sr_low,
     saa_requiresApproval = Sa_none, saa_reason = ''ok'', saa_payload = [], saa_dependencies = [], saa_policyTags = [],
     saa_expiresAt = None, saa_idempotencyHint = None\<rparr>"

definition sample_price :: sa_claim where
  "sample_price = \<lparr>sac_type = ''price'', sac_value = ''10'', sac_evidenceSource = ''tool_result'', sac_evidenceSummary = [],
     sac_evidenceReference = None, sac_verified = True, sac_confidence = ''high'', sac_expiresAt = None\<rparr>"

definition sample_agent_result :: "sa_action list \<Rightarrow> sa_claim list \<Rightarrow> sa_result" where
  "sample_agent_result actions claims = (createFailedSafeResult \<lparr>sav_expectedRunId = None, sav_contractVersion = None\<rparr> [] None None)
     \<lparr>sg_outcome := ''response_proposed'', sg_shouldRequestHuman := False, sg_proposedActions := actions,
      sg_responseProposal := Some \<lparr>sar_messageIntent = ''answer'', sar_draftText = Some ''Hola'', sar_language = ''es'',
        sar_tone = ''warm'', sar_questions = [], sar_claims = claims, sar_disclaimers = [], sar_requiresApproval = Sa_none,
        sar_blockedClaims = [], sar_confidence = ''high''\<rparr>,
      sg_evidence := [\<lparr>sae_source = ''tool_result'', sae_summary = [], sae_verified = True, sae_confidence = ''high'',
        sae_reference = None, sae_capturedAt = Some ''2026-01-02T00:00:00.000Z'', sae_expiresAt = None\<rparr>]\<rparr>"

definition sample_policy_input :: "sa_action list \<Rightarrow> sa_claim list \<Rightarrow> po_input" where
  "sample_policy_input actions claims = \<lparr>poi_salesAgentResult = sample_agent_result actions claims, poi_commercialContext = JObj [],
     poi_channelContext = \<lparr>pch_channel = Some ''whatsapp'', pch_available = True, pch_outboundAllowed = True,
       pch_manualApprovalRequired = False, pch_optOut = False, pch_quietHoursActive = False, pch_humanOwnerActive = False,
       pch_aiBlocked = False, pch_identityConflict = False, pch_recentCustomerReply = False, pch_recentHumanContact = False\<rparr>,
     poi_currentTime = Moment_date (Some 1767315600000), poi_contractVersion = COMMERCIAL_POLICY_CONTRACT_VERSION,
     poi_policyVersion = COMMERCIAL_POLICY_VERSION, poi_allowedCapabilities = [''searchProducts''],
     poi_featureFlags = \<lparr>pfl_commercialPolicyEnabled = True, pfl_allowDraftReplies = True, pfl_allowToolRequests = True,
       pfl_allowEntityProposals = True, pfl_allowFollowUpEvaluation = True, pfl_allowInternalTasks = True,
       pfl_allowQuoteDraftRequests = True, pfl_allowOperatorReviewRequests = True, pfl_allowSensitiveClaims = True,
       pfl_allowOutboundProposals = True\<rparr>,
     poi_metadata = JObj []\<rparr>"

definition sample_message :: po_input where
  "sample_message = sample_policy_input [sample_action ''send_whatsapp_message''] []"

definition sample_answer :: po_input where
  "sample_answer = sample_policy_input [] [sample_price]"

lemma sample_runs: "policy_runs (\<lambda>_. None) sample_message" "policy_runs (\<lambda>_. None) sample_answer"
  by (simp_all add: policy_runs_def isValidCurrentTime_def policy_parseTime_def sample_message_def sample_answer_def sample_policy_input_def)

lemma sample_message_kept:
  "pev_kept (evaluateCommercialActions (\<lambda>_. None) sample_message) = [sample_action ''send_whatsapp_message'']"
  by (simp add: actions_kept action_verdict_def action_judgement_def review_text_status judge_action_def isBlockedAction_def
    action_expired_def sample_message_def sample_policy_input_def sample_agent_result_def sample_action_def Let_def)

lemma sample_message_status: "parts_status sample_message (policy_parts (\<lambda>_. None) sample_message) = Po_requires_review"
proof -
  let ?p = "policy_parts (\<lambda>_. None) sample_message"
  have proposed: "sg_proposedActions (poi_salesAgentResult sample_message) = [sample_action ''send_whatsapp_message'']"
    "result_claims (poi_salesAgentResult sample_message) = []" "sg_toolRequests (poi_salesAgentResult sample_message) = []"
    "sg_entityProposals (poi_salesAgentResult sample_message) = []"
    by (simp_all add: sample_message_def sample_policy_input_def sample_agent_result_def createFailedSafeResult_def result_claims_def Let_def)
  have "pev_blocked (evaluateCommercialActions (\<lambda>_. None) sample_message) = []"
    using actions_parted[of "\<lambda>_. None" sample_message] by (simp add: sample_message_kept proposed)
  then have "\<forall>issue \<in> set (parts_issues ?p). pis_level issue \<noteq> Pl_fatal"
    using unblocked_actions_not_fatal
    by (auto simp: parts_issues_def parts_fields screened_claims screened_tools screened_entities proposed
      claims_screen.screened_def tools_screen.screened_def entities_screen.screened_def evaluation_of_def Let_def)
  moreover have "0 < parts_review ?p"
    using outbound_in_review(1)[of "sample_action ''send_whatsapp_message''" "\<lambda>_. None" sample_message]
    by (simp add: parts_review_def parts_fields sample_message_kept sample_action_def)
  ultimately show ?thesis
    by (auto simp: parts_status_def buildStatus_def parts_content_def parts_fields sample_message_kept list_ex_iff Let_def
      channel_issues_def channelBlock_def sample_message_def sample_policy_input_def)
qed

lemma sample_answer_status: "parts_status sample_answer (policy_parts (\<lambda>_. None) sample_answer) = Po_allowed"
  by code_simp

lemma sample_answer_kept: "pev_kept (pp_claims (policy_parts (\<lambda>_. None) sample_answer)) = [sample_price]"
  by code_simp

lemma sample_message_result:
  obtains r where "evaluateCommercialPolicy (\<lambda>_. None) sample_message = Inr r" "pre_status r = Po_requires_review"
    "sg_proposedActions (pre_governedResult r) = [sample_action ''send_whatsapp_message'']"
proof -
  obtain m where m: "evaluateCommercialPolicy (\<lambda>_. None) sample_message =
      Inr (policy_result sample_message (policy_parts (\<lambda>_. None) sample_message) m)"
    by (rule policy_evaluated[OF sample_runs(1)])
  show thesis
    by (rule that[OF m]) (simp_all add: result_fields governed_fields parts_fields sample_message_status sample_message_kept)
qed

lemma governed_message_needs_approval_witness:
  "\<exists>r. evaluateCommercialPolicy (\<lambda>_. None) sample_message = Inr r \<and>
     sg_proposedActions (pre_governedResult r) = [sample_action ''send_whatsapp_message''] \<and>
     Pa_explicit_operator_approval \<le> pre_requiresApproval r"
proof -
  obtain r where r: "evaluateCommercialPolicy (\<lambda>_. None) sample_message = Inr r" "pre_status r = Po_requires_review"
    "sg_proposedActions (pre_governedResult r) = [sample_action ''send_whatsapp_message'']" by (rule sample_message_result)
  have "Pa_explicit_operator_approval \<le> pre_requiresApproval r"
    using governed_message_needs_approval[OF r(1), of "sample_action ''send_whatsapp_message''"] r(3) by (simp add: sample_action_def)
  then show ?thesis using r by blast
qed

lemma governed_actions_screened_witness:
  "\<exists>r. evaluateCommercialPolicy (\<lambda>_. None) sample_message = Inr r \<and>
     distinct (map action_key (sg_proposedActions (pre_governedResult r))) \<and> sg_proposedActions (pre_governedResult r) \<noteq> []"
proof -
  obtain r where r: "evaluateCommercialPolicy (\<lambda>_. None) sample_message = Inr r" "pre_status r = Po_requires_review"
    "sg_proposedActions (pre_governedResult r) = [sample_action ''send_whatsapp_message'']" by (rule sample_message_result)
  show ?thesis using governed_actions_screened[OF r(1)] r by auto
qed

lemma governed_claims_backed_witness:
  "\<exists>r. evaluateCommercialPolicy (\<lambda>_. None) sample_answer = Inr r \<and> pre_status r = Po_allowed \<and>
     result_claims (pre_governedResult r) = [sample_price] \<and>
     (\<exists>e \<in> set (sg_evidence (poi_salesAgentResult sample_answer)). \<exists>t. sae_capturedAt e = Some t)"
proof -
  obtain m where m: "evaluateCommercialPolicy (\<lambda>_. None) sample_answer =
      Inr (policy_result sample_answer (policy_parts (\<lambda>_. None) sample_answer) m)" (is "_ = Inr ?r")
    by (rule policy_evaluated[OF sample_runs(2)])
  have "sg_responseProposal (poi_salesAgentResult sample_answer) \<noteq> None"
    by (simp add: sample_answer_def sample_policy_input_def sample_agent_result_def)
  then have claims: "result_claims (pre_governedResult ?r) = [sample_price]"
    by (simp add: result_fields governed_fields sample_answer_status sample_answer_kept)
  show ?thesis
    using governed_claims_backed[OF m, of sample_price] claims m
    by (auto simp: sample_answer_status sample_price_def isSensitiveClaimType_def)
qed

lemma policy_fails_closed_witness:
  "\<exists>r. evaluateCommercialPolicy (\<lambda>_. None) (sample_message\<lparr>poi_policyVersion := ''v2''\<rparr>) = Inr r \<and>
     pre_status r = Po_failed_safe \<and> closed_result (pre_governedResult r)"
proof -
  have "poi_currentTime (sample_message\<lparr>poi_policyVersion := ''v2''\<rparr>) \<noteq> Moment_date None"
    by (simp add: sample_message_def sample_policy_input_def)
  then obtain r where r: "evaluateCommercialPolicy (\<lambda>_. None) (sample_message\<lparr>poi_policyVersion := ''v2''\<rparr>) = Inr r"
    using failed_safe_Inl by (cases "evaluateCommercialPolicy (\<lambda>_. None) (sample_message\<lparr>poi_policyVersion := ''v2''\<rparr>)")
      (auto simp: evaluateCommercialPolicy_def COMMERCIAL_POLICY_VERSION_def split: if_splits)
  show ?thesis
    using policy_fails_closed[OF r] r by (simp add: COMMERCIAL_POLICY_VERSION_def)
qed

lemma policy_screens_everything_witness:
  "\<exists>r. evaluateCommercialPolicy (\<lambda>_. None) sample_message = Inr r \<and>
     map pas_subject (pre_actionAssessments r) = [sample_action ''send_whatsapp_message'']"
  using policy_screens_everything[OF sample_runs(1)]
  by (auto simp: sample_message_def sample_policy_input_def sample_agent_result_def)

lemma policy_is_idempotent_witness:
  "\<exists>r r2. evaluateCommercialPolicy (\<lambda>_. None) sample_message = Inr r \<and>
     evaluateCommercialPolicy (\<lambda>_. None) (sample_message\<lparr>poi_salesAgentResult := pre_governedResult r\<rparr>) = Inr r2 \<and>
     sg_proposedActions (pre_governedResult r2) = [sample_action ''send_whatsapp_message'']"
proof -
  obtain r where r: "evaluateCommercialPolicy (\<lambda>_. None) sample_message = Inr r" "pre_status r = Po_requires_review"
    "sg_proposedActions (pre_governedResult r) = [sample_action ''send_whatsapp_message'']" by (rule sample_message_result)
  show ?thesis using policy_is_idempotent[OF r(1)] r by auto
qed

end
