(* ===== verification/OperationalSafety.thy ===== *)
theory OperationalSafety
  imports OperationalRun PolicyGuarantees
begin

text \<open>
  What the operational loop promises: the reduced states follow the graph of statuses, the identity of an
  opportunity is chosen among live candidates only, and a run writes at most once and never acts.
\<close>

section \<open>Reduction\<close>

lemmas reduce_unfold = reduceCommercialState_def buildBaseState_def Let_def

lemma reduced_fields:
  fixes input :: op_input and legacy
  defines "r \<equiv> ord_resultingState (reduceCommercialState legacy input)"
  shows "ost_status r = deriveStatus (opi_previousState input) input (deriveStructuralSignals input)"
    "ost_stage r = deriveStage (ost_status r)"
    "ost_signals r = deriveStructuralSignals input"
    "ost_version r = previous_or (opi_previousState input) ost_version 0 + 1"
    "ost_opportunityId r = or_opt (Option.bind (opi_previousState input) ost_opportunityId)
       (or_opt (oid_selectedOpportunityId (opi_identityResolution input)) (oid_opportunityId (opi_identityResolution input)))"
    "ost_opportunityKey r = oid_opportunityKey (opi_identityResolution input)"
    "ost_waitingFor r = (if policy_blocks (opi_commercialPolicyResult input) then Some ''operator_review''
       else Option.bind (opi_previousState input) ost_waitingFor)"
  by (simp_all add: r_def reduce_unfold)

lemma derived_stage_expected [simp]: "deriveExpectedStage status = deriveStage status"
  by (cases status) (simp_all add: deriveExpectedStage_def deriveStage_def)

lemma terminal_allowed: "terminal_status s \<Longrightarrow> allowedTransitions (Some s) = [s]"
  by (cases s) simp_all

lemma live_may_stall: "\<not> terminal_status s \<Longrightarrow> s \<in> set (allowedTransitions (Some s)) \<and> Os_stalled \<in> set (allowedTransitions (Some s))"
  by (cases s) simp_all

lemma advance_allowed: "\<not> terminal_status s \<Longrightarrow> advance_status s agent signals \<in> set (allowedTransitions (Some s))"
  by (cases s) (simp_all add: advance_status_def Let_def)

lemma deriveStatus_allowed: "deriveStatus previous input signals \<in> set (allowedTransitions (map_option ost_status previous))"
proof (cases previous)
  case None
  then show ?thesis by (simp add: deriveStatus_def Let_def)
next
  case (Some p)
  show ?thesis
  proof (cases "terminal_status (ost_status p)")
    case True
    then show ?thesis using Some terminal_allowed[OF True] by (simp add: deriveStatus_def Let_def)
  next
    case False
    let ?a = "advance_status (ost_status p) (opi_salesAgentResult input) signals"
    have "deriveStatus previous input signals \<in> {ost_status p, Os_stalled, ?a}"
      using Some False by (simp add: deriveStatus_def Let_def)
    then show ?thesis
      using Some live_may_stall[OF False] advance_allowed[OF False, of "opi_salesAgentResult input" signals] by auto
  qed
qed

text \<open>
  Every status that the reduction gives is an allowed transition of the validator, its stage is the one that the
  validator expects, a terminal status stays, the version goes up by one, and no signal is forgotten.
\<close>
theorem reduced_state_follows_graph:
  "let r = ord_resultingState (reduceCommercialState legacy input); previous = opi_previousState input in
    ost_status r \<in> set (allowedTransitions (map_option ost_status previous)) \<and>
    ost_stage r = deriveExpectedStage (ost_status r) \<and>
    (case previous of None \<Rightarrow> ost_version r = 1 | Some p \<Rightarrow>
      (terminal_status (ost_status p) \<longrightarrow> ost_status r = ost_status p) \<and> ost_version r = ost_version p + 1 \<and>
      set (ost_signals p) \<subseteq> set (ost_signals r))"
proof -
  have "ost_status p = deriveStatus (Some p) input signals" if "terminal_status (ost_status p)" for p signals
    using that by (simp add: deriveStatus_def Let_def)
  then show ?thesis
    by (auto simp: reduced_fields deriveStatus_allowed previous_or_def deriveStructuralSignals_def Let_def split: option.splits)
qed

section \<open>Histories of an opportunity\<close>

text \<open>The states of an opportunity, the newest first: each is the reduction of the one before.\<close>

inductive opportunity_history :: "(string \<Rightarrow> int option) \<Rightarrow> op_state list \<Rightarrow> bool" for legacy where
  first: "opi_previousState input = None \<Longrightarrow> opportunity_history legacy [ord_resultingState (reduceCommercialState legacy input)]"
| later: "opportunity_history legacy (s # h) \<Longrightarrow> opi_previousState input = Some s \<Longrightarrow>
    opportunity_history legacy (ord_resultingState (reduceCommercialState legacy input) # s # h)"

inductive_cases opportunity_historyE: "opportunity_history legacy (s # t # h)"

text \<open>Once an opportunity is stalled with a rejection among its signals, it is never anything else.\<close>

definition rejected :: "op_state \<Rightarrow> bool" where
  "rejected s \<longleftrightarrow> ost_status s = Os_stalled \<and> Sg_rejection_explicit \<in> set (ost_signals s)"

lemma rejected_step:
  assumes "opi_previousState input = Some s" "rejected s"
  shows "rejected (ord_resultingState (reduceCommercialState legacy input))"
proof -
  have "set (ost_signals s) \<subseteq> set (deriveStructuralSignals input)"
    using assms(1) by (auto simp: deriveStructuralSignals_def Let_def)
  then have "Sg_rejection_explicit \<in> set (deriveStructuralSignals input)" using assms(2) by (auto simp: rejected_def)
  then show ?thesis
    using assms by (auto simp: rejected_def reduced_fields deriveStatus_def Let_def)
qed

lemma terminal_step:
  assumes "opi_previousState input = Some s" "terminal_status (ost_status s)"
  shows "ost_status (ord_resultingState (reduceCommercialState legacy input)) = ost_status s"
  using assms by (simp add: reduced_fields deriveStatus_def Let_def)

text \<open>
  C12. Over every history of an opportunity the version counts the states, a closed opportunity keeps its status, and one
  that was stalled with an explicit rejection stays stalled for ever, whatever the customer answers: the
  signals are never cleared.
\<close>
theorem opportunity_history_settles:
  assumes "opportunity_history legacy (s # h)"
  shows "ost_version s = int (length (s # h)) \<and> ost_stage s = deriveStage (ost_status s) \<and>
    (\<forall>t \<in> set h. terminal_status (ost_status t) \<longrightarrow> ost_status s = ost_status t) \<and>
    (\<forall>t \<in> set h. rejected t \<longrightarrow> rejected s)"
  using assms
proof (induction "s # h" arbitrary: s h)
  case (first input)
  then show ?case by (auto simp: reduced_fields previous_or_def)
next
  case (later t h input)
  then show ?case
    using terminal_step[OF later.hyps(3)] rejected_step[OF later.hyps(3)]
    by (auto simp: reduced_fields(2,4) previous_or_def)
qed

section \<open>Identity\<close>

lemma deriveSelectedState_facts:
  fixes l intent
  defines "relevant \<equiv> selectRelevantCandidates (olr_candidates l) intent"
  defines "live \<equiv> filter (\<lambda>c. \<not> terminal_status (ost_status c)) relevant"
  shows "deriveSelectedState (Some l) intent = (first_free live,
    (if live = [] then case relevant of [] \<Rightarrow> None | r # _ \<Rightarrow> Some r else None), length live)"
proof -
  have "first_free live \<noteq> None \<longleftrightarrow> live \<noteq> []"
    by (cases live) (simp_all add: first_free_def or_opt_def split: option.splits)
  moreover have "find (\<lambda>c. terminal_status (ost_status c)) relevant = (case relevant of [] \<Rightarrow> None | r # _ \<Rightarrow> Some r)" if "live = []"
    using that by (cases relevant) (simp_all add: live_def split: if_splits)
  ultimately show ?thesis
    by (simp add: deriveSelectedState_def Let_def relevant_def[symmetric] live_def[symmetric])
qed

lemma identity_facts:
  "let hints = buildCommercialIdentityHints inbound brain context; relevant = selectRelevantCandidates (olr_candidates l) (ohi_primaryIntent hints);
       live = filter (\<lambda>c. \<not> terminal_status (ost_status c)) relevant; identity = resolveOpportunityIdentity inbound brain context (Some l)
   in oid_status identity =
        (if olr_status l = Ol_error then Oi_blocked
         else if \<not> hasCommercialSignal (map_option oct_sourceSummary context) then Oi_no_commercial_signal
         else case live of [] \<Rightarrow> if relevant = [] then Oi_create_new else Oi_possible_reopen
           | [_] \<Rightarrow> Oi_continue_existing | _ \<Rightarrow> Oi_ambiguous) \<and>
      oid_selectedState identity = first_free live \<and>
      (oid_selectedOpportunityId identity, oid_opportunityKey identity) =
        (if oid_status identity = Oi_continue_existing then (ost_opportunityId (hd live), ost_opportunityKey (hd live))
         else (None, buildOpportunityKey hints)) \<and>
      (oid_isAmbiguous identity \<longleftrightarrow> oid_status identity = Oi_ambiguous) \<and>
      (oid_isTerminal identity \<longleftrightarrow> oid_status identity = Oi_possible_reopen) \<and>
      (oid_isNewOpportunity identity \<longleftrightarrow> oid_status identity = Oi_create_new)"
proof -
  define hints where "hints = buildCommercialIdentityHints inbound brain context"
  define relevant where "relevant = selectRelevantCandidates (olr_candidates l) (ohi_primaryIntent hints)"
  define live where "live = filter (\<lambda>c. \<not> terminal_status (ost_status c)) relevant"
  have signal: "ohi_hasCommercialSignal hints \<longleftrightarrow> hasCommercialSignal (map_option oct_sourceSummary context)"
    by (simp add: hints_def buildCommercialIdentityHints_def Let_def)
  have selected: "deriveSelectedState (Some l) (ohi_primaryIntent hints) = (first_free live,
    (if live = [] then case relevant of [] \<Rightarrow> None | r # _ \<Rightarrow> Some r else None), length live)"
    by (simp add: deriveSelectedState_facts relevant_def live_def)
  consider (none) "live = []" "relevant = []" | (closed) r rs where "live = []" "relevant = r # rs"
    | (one) c where "live = [c]" | (more) c d cs where "live = c # d # cs"
    by (cases live rule: list.exhaust; cases relevant; metis list.exhaust)
  then show ?thesis
    unfolding Let_def hints_def[symmetric] relevant_def[symmetric] live_def[symmetric]
    by cases (simp_all add: resolveOpportunityIdentity_def Let_def hints_def[symmetric] selected signal open_identity_def first_free_def
      nonblank_strings_def)
qed

text \<open>Without a continued candidate a resolution has no identifier.\<close>

lemma identity_open:
  "oid_status (resolveOpportunityIdentity inbound brain context l) \<noteq> Oi_continue_existing \<Longrightarrow>
   oid_opportunityId (resolveOpportunityIdentity inbound brain context l) = None"
  by (auto simp: resolveOpportunityIdentity_def Let_def open_identity_def split: prod.splits option.splits)

lemma identity_status_is:
  "oid_status (resolveOpportunityIdentity inbound brain context (Some l)) =
    (if olr_status l = Ol_error then Oi_blocked
     else if \<not> hasCommercialSignal (map_option oct_sourceSummary context) then Oi_no_commercial_signal
     else let relevant = selectRelevantCandidates (olr_candidates l) (ohi_primaryIntent (buildCommercialIdentityHints inbound brain context))
       in case filter (\<lambda>c. \<not> terminal_status (ost_status c)) relevant of
            [] \<Rightarrow> if relevant = [] then Oi_create_new else Oi_possible_reopen
          | [_] \<Rightarrow> Oi_continue_existing | _ \<Rightarrow> Oi_ambiguous)"
  using identity_facts[of inbound brain "context" l] by (simp only: Let_def)

text \<open>
  C14. The identity of an opportunity: the lookup must not have failed and there must be a commercial signal; then more than
  one live candidate of the intent is ambiguous, exactly one is continued, and with none of them a closed
  candidate may be reopened by a human, else a new opportunity is created.  Only the candidate that is
  continued gives its identifier and its key.
\<close>
theorem identity_resolution:
  "let hints = buildCommercialIdentityHints inbound brain context; relevant = selectRelevantCandidates (olr_candidates l) (ohi_primaryIntent hints);
       live = filter (\<lambda>c. \<not> terminal_status (ost_status c)) relevant; identity = resolveOpportunityIdentity inbound brain context (Some l)
   in oid_status identity =
        (if olr_status l = Ol_error then Oi_blocked
         else if \<not> hasCommercialSignal (map_option oct_sourceSummary context) then Oi_no_commercial_signal
         else case live of [] \<Rightarrow> if relevant = [] then Oi_create_new else Oi_possible_reopen
           | [_] \<Rightarrow> Oi_continue_existing | _ \<Rightarrow> Oi_ambiguous) \<and>
      oid_selectedState identity = first_free live \<and>
      (oid_selectedOpportunityId identity, oid_opportunityKey identity) =
        (if oid_status identity = Oi_continue_existing then (ost_opportunityId (hd live), ost_opportunityKey (hd live))
         else (None, buildOpportunityKey hints)) \<and>
      (oid_isAmbiguous identity \<longleftrightarrow> oid_status identity = Oi_ambiguous) \<and>
      (oid_isTerminal identity \<longleftrightarrow> oid_status identity = Oi_possible_reopen) \<and>
      (oid_isNewOpportunity identity \<longleftrightarrow> oid_status identity = Oi_create_new)"
  by (rule identity_facts)

section \<open>The next action and its transition\<close>

lemma four_guards:
  "f w \<in> S \<Longrightarrow> f x \<in> S \<Longrightarrow> f y \<in> S \<Longrightarrow> f z \<in> S \<Longrightarrow> a \<or> b \<or> c \<or> d \<Longrightarrow>
   f (if a then w else if b then x else if c then y else if d then z else rest) \<in> S"
  by auto

abbreviation passive_actions :: "op_action_type set" where
  "passive_actions \<equiv> {On_no_action, On_escalate_to_operator}"

definition current_status :: "op_selection \<Rightarrow> op_status" where
  "current_status input = (case osl_previousState input of Some p \<Rightarrow> ost_status p | None \<Rightarrow> ost_status (osl_resultingState input))"

definition held_selection :: "op_selection \<Rightarrow> bool" where
  "held_selection input \<longleftrightarrow> terminal_status (current_status input) \<or> oid_isAmbiguous (osl_identityResolution input) \<or>
     ost_humanOwnerActive (osl_resultingState input) \<or> ost_aiBlocked (osl_resultingState input) \<or>
     selection_approval input \<noteq> Pa_none \<or>
     (case osl_commercialPolicyResult input of None \<Rightarrow> False | Some p \<Rightarrow> pre_status p = Po_blocked) \<or>
     (case osl_salesAgentResult input of None \<Rightarrow> False | Some a \<Rightarrow> sg_shouldRequestHuman a)"

lemma buildAction_fields [simp]:
  "ona_type (buildAction type reason input draft needed blocked) = type"
  "ona_executable (buildAction type reason input draft needed blocked) = False"
  "ona_approvalRequirement (buildAction type reason input draft needed blocked) = selection_approval input"
  by (simp_all add: buildAction_def)

lemma held_selection_passive:
  assumes "held_selection input"
  shows "ona_type (selectNextCommercialAction input) \<in> passive_actions"
  unfolding selectNextCommercialAction_def Let_def
  by (rule four_guards) (use assms in \<open>auto simp: held_selection_def current_status_def\<close>)

lemma selection_terminal:
  assumes "terminal_status (current_status input)"
  shows "ona_type (selectNextCommercialAction input) = On_no_action"
  using assms by (simp add: selectNextCommercialAction_def Let_def current_status_def)

lemma selection_ambiguous:
  assumes "\<not> terminal_status (current_status input)" "oid_isAmbiguous (osl_identityResolution input)"
  shows "ona_type (selectNextCommercialAction input) = On_escalate_to_operator"
  using assms by (simp add: selectNextCommercialAction_def Let_def current_status_def)

text \<open>Every selected action is built from the approval of the selection.\<close>

lemma selected_action:
  assumes "\<And>type reason draft needed blocked. P (buildAction type reason input draft needed blocked)"
  shows "P (selectNextCommercialAction input)"
proof -
  have if_case: "P x \<Longrightarrow> P y \<Longrightarrow> P (if c then x else y)" for c x y by simp
  have option_case: "P x \<Longrightarrow> (\<And>a. P (f a)) \<Longrightarrow> P (case v of None \<Rightarrow> x | Some a \<Rightarrow> f a)"
    for x and v :: "(op_action_type \<times> string \<times> string list) option" and f by (cases v) simp_all
  have triple_case: "(\<And>x y z. P (f x y z)) \<Longrightarrow> P (case v of (x, y, z) \<Rightarrow> f x y z)"
    for v :: "op_action_type \<times> string \<times> string list" and f by (cases v) simp
  show ?thesis
    unfolding selectNextCommercialAction_def Let_def by (intro if_case option_case triple_case assms)
qed

lemma selection_approval_kept: "ona_approvalRequirement (selectNextCommercialAction input) = selection_approval input"
  by (rule selected_action) simp

lemma selection_not_executable: "\<not> ona_executable (selectNextCommercialAction input)"
  by (rule selected_action) simp

text \<open>
  C15. An action that does more than nothing or an escalation is selected only for an opportunity that is not closed, whose
  identity is not ambiguous, that no human owns and no block holds, under a policy that neither blocks
  nor asks for any approval, when the agent asks for no human; and even then it is not executable.
\<close>
theorem advancing_action_guarded:
  assumes "ona_type (selectNextCommercialAction input) \<notin> {On_no_action, On_escalate_to_operator}"
  shows "\<not> terminal_status (current_status input) \<and> \<not> oid_isAmbiguous (osl_identityResolution input) \<and>
    \<not> ost_humanOwnerActive (osl_resultingState input) \<and> \<not> ost_aiBlocked (osl_resultingState input) \<and>
    selection_approval input = Pa_none \<and>
    (case osl_commercialPolicyResult input of None \<Rightarrow> True | Some p \<Rightarrow> pre_status p \<noteq> Po_blocked \<and> pre_requiresApproval p = Pa_none) \<and>
    (case osl_salesAgentResult input of None \<Rightarrow> True | Some a \<Rightarrow> \<not> sg_shouldRequestHuman a) \<and>
    \<not> ona_executable (selectNextCommercialAction input)"
proof -
  have "\<not> held_selection input" using assms held_selection_passive by blast
  then show ?thesis
    by (simp add: held_selection_def selection_not_executable selection_approval_def split: option.splits)
qed

lemma transition_reasons_Nil:
  "transition_reasons input = [] \<longleftrightarrow>
    oid_status (oti_identityResolution input) \<noteq> Oi_blocked \<and>
    ost_status (oti_resultingState input) \<in> set (allowedTransitions (map_option ost_status (oti_previousState input))) \<and>
    (case oti_previousState input of None \<Rightarrow> True | Some p \<Rightarrow>
      terminal_status (ost_status p) \<longrightarrow> ost_status p = ost_status (oti_resultingState input)) \<and>
    deriveStage (ost_status (oti_resultingState input)) = ost_stage (oti_resultingState input) \<and>
    (case oti_commercialPolicyResult input of None \<Rightarrow> True | Some p \<Rightarrow>
      pre_status p = Po_blocked \<longrightarrow> ona_type (oti_nextAction input) \<in> passive_actions) \<and>
    (ona_type (oti_nextAction input) = On_prepare_quote \<longrightarrow>
      ost_status (oti_resultingState input) \<in> {Os_quote_pending, Os_quote_ready_for_review}) \<and>
    (ona_type (oti_nextAction input) = On_close_as_lost_candidate \<longrightarrow> ost_status (oti_resultingState input) \<noteq> Os_won)"
  by (auto simp: transition_reasons_def Let_def split: option.split)

lemma live_not_won: "\<not> terminal_status (ost_status p) \<Longrightarrow> \<not> terminal_status (deriveStatus (Some p) input signals)"
  by (cases "ost_status p") (simp_all add: deriveStatus_def advance_status_def Let_def)

lemma loop_steps_fields:
  fixes legacy input ctx agent policy l
  defines "st \<equiv> loop_steps legacy input ctx agent policy l"
  shows "osp_identity st = resolveOpportunityIdentity (ori_inboundMessage input) (ori_brainContext input) ctx (Some l)"
    "osp_previousState st = or_opt (oid_selectedState (osp_identity st)) (olr_activeState l)"
    "osp_reduction st = reduceCommercialState legacy \<lparr>opi_previousState = osp_previousState st, opi_identityResolution = osp_identity st,
       opi_loadResult = l, opi_brainContext = ori_brainContext input, opi_inboundMessage = ori_inboundMessage input,
       opi_commercialContext = ctx, opi_salesAgentResult = agent, opi_commercialPolicyResult = policy,
       opi_currentTime = ori_currentTime input\<rparr>"
    "osp_nextAction st = selectNextCommercialAction \<lparr>osl_previousState = osp_previousState st,
       osl_resultingState = ord_resultingState (osp_reduction st), osl_identityResolution = osp_identity st,
       osl_commercialPolicyResult = policy, osl_salesAgentResult = agent\<rparr>"
    "osp_transition st = validateCommercialTransition \<lparr>oti_previousState = osp_previousState st,
       oti_resultingState = ord_resultingState (osp_reduction st), oti_nextAction = osp_nextAction st,
       oti_identityResolution = osp_identity st, oti_commercialPolicyResult = policy\<rparr>"
  by (simp_all add: st_def loop_steps_def Let_def)

lemma validated_fields [simp]:
  "otr_allowed (validateCommercialTransition i) \<longleftrightarrow> transition_reasons i = []"
  "otr_toStatus (validateCommercialTransition i) = ost_status (oti_resultingState i)"
  "otr_fromStatus (validateCommercialTransition i) = map_option ost_status (oti_previousState i)"
  by (simp_all add: validateCommercialTransition_def Let_def)

lemma steps_status:
  fixes legacy input ctx agent policy l
  defines "st \<equiv> loop_steps legacy input ctx agent policy l"
  shows "ost_status (ord_resultingState (osp_reduction st)) \<in> set (allowedTransitions (map_option ost_status (osp_previousState st)))"
    "deriveStage (ost_status (ord_resultingState (osp_reduction st))) = ost_stage (ord_resultingState (osp_reduction st))"
    "\<And>p. osp_previousState st = Some p \<Longrightarrow> terminal_status (ost_status p) \<Longrightarrow>
       ost_status (ord_resultingState (osp_reduction st)) = ost_status p"
    "ost_status (ord_resultingState (osp_reduction st)) = Os_won \<Longrightarrow>
       ona_type (osp_nextAction st) = On_no_action"
proof -
  let ?r = "ord_resultingState (osp_reduction st)"
  obtain i where i: "osp_reduction st = reduceCommercialState legacy i" "opi_previousState i = osp_previousState st"
    using loop_steps_fields(3)[of legacy input ctx agent policy l] by (auto simp: st_def)
  show allowed: "ost_status ?r \<in> set (allowedTransitions (map_option ost_status (osp_previousState st)))"
    by (simp add: i reduced_fields deriveStatus_allowed flip: i(2))
  show "deriveStage (ost_status ?r) = ost_stage ?r" by (simp add: i reduced_fields)
  show kept: "ost_status ?r = ost_status p" if "osp_previousState st = Some p" "terminal_status (ost_status p)" for p
    using that by (simp add: i reduced_fields deriveStatus_def Let_def)
  assume won: "ost_status ?r = Os_won"
  show "ona_type (osp_nextAction st) = On_no_action"
    unfolding loop_steps_fields(4)[of legacy input ctx agent policy l, folded st_def]
  proof (rule selection_terminal)
    show "terminal_status (current_status \<lparr>osl_previousState = osp_previousState st, osl_resultingState = ?r,
        osl_identityResolution = osp_identity st, osl_commercialPolicyResult = policy, osl_salesAgentResult = agent\<rparr>)"
    proof (cases "osp_previousState st")
      case (Some p)
      then have "terminal_status (ost_status p)"
        using won live_not_won[of p i "deriveStructuralSignals i"] by (auto simp: i reduced_fields)
      then show ?thesis using Some by (simp add: current_status_def)
    qed (simp add: current_status_def won)
  qed
qed

lemma transition_rejected:
  "let st = loop_steps legacy input context agent policy l
   in \<not> otr_allowed (osp_transition st) \<longleftrightarrow> olr_status l = Ol_error \<or>
        (ona_type (osp_nextAction st) = On_prepare_quote \<and>
         ost_status (ord_resultingState (osp_reduction st)) \<notin> {Os_quote_pending, Os_quote_ready_for_review})"
proof -
  define st where "st = loop_steps legacy input context agent policy l"
  note f = loop_steps_fields[of legacy input "context" agent policy l, folded st_def]
  note status = steps_status[of legacy input "context" agent policy l, folded st_def]
  have blocked: "oid_status (osp_identity st) = Oi_blocked \<longleftrightarrow> olr_status l = Ol_error"
    using identity_status_is[of "ori_inboundMessage input" "ori_brainContext input" "context" l]
    by (auto simp: f(1) Let_def split: list.splits if_splits)
  have "ona_type (osp_nextAction st) \<in> passive_actions" if "policy = Some p" "pre_status p = Po_blocked" for p
    unfolding f(4) by (rule held_selection_passive) (simp add: held_selection_def that)
  then show ?thesis
    using status by (auto simp: Let_def st_def[symmetric] f(5) transition_reasons_Nil blocked split: option.split)
qed

text \<open>
  C16. In a run the validator rejects a transition in two cases only: the lookup of the state failed, or the agent proposed a
  quote for an opportunity whose derived status is not one of a quote.  Its other checks never fail on
  what the reduction and the selection give.
\<close>
theorem loop_transition_rejected_iff:
  "let st = loop_steps legacy input context agent policy l
   in \<not> otr_allowed (osp_transition st) \<longleftrightarrow> olr_status l = Ol_error \<or>
        (ona_type (osp_nextAction st) = On_prepare_quote \<and>
         ost_status (ord_resultingState (osp_reduction st)) \<notin> {Os_quote_pending, Os_quote_ready_for_review})"
  by (rule transition_rejected)

text \<open>
  C11. From the policy to the loop: when the policy lets a message to the customer through, the loop that is given that
  result of the policy does nothing or escalates, never executes, asks for a human review, and its
  transition is rejected only when the lookup failed.  This holds whatever result of the agent the loop is given
  beside it: the code passes the one the policy was asked about, not the governed one, and it need not ask for a human.
\<close>
theorem governed_message_is_escalated:
  assumes "evaluateCommercialPolicy legacy pin = Inr r" "a \<in> set (sg_proposedActions (pre_governedResult r))"
    "saa_type a = ''send_whatsapp_message''"
  shows "let st = loop_steps legacy input context agent (Some r) l
    in ona_type (osp_nextAction st) \<in> {On_no_action, On_escalate_to_operator} \<and> \<not> ona_executable (osp_nextAction st) \<and>
       otr_requiresHumanReview (osp_transition st) \<and> (otr_allowed (osp_transition st) \<longleftrightarrow> olr_status l \<noteq> Ol_error)"
proof -
  define st where "st = loop_steps legacy input context agent (Some r) l"
  note f = loop_steps_fields[of legacy input "context" agent "Some r" l, folded st_def]
  have "Pa_explicit_operator_approval \<le> pre_requiresApproval r"
    using governed_message_facts[OF assms] by simp
  then have approval: "pre_requiresApproval r \<noteq> Pa_none" by (cases "pre_requiresApproval r") (simp_all add: less_eq_po_approval_def)
  have idle: "ona_type (osp_nextAction st) \<in> passive_actions"
    unfolding f(4) by (rule held_selection_passive) (simp add: held_selection_def selection_approval_def approval)
  moreover have "ona_approvalRequirement (osp_nextAction st) = pre_requiresApproval r"
    by (simp add: f(4) selection_approval_kept selection_approval_def)
  ultimately show ?thesis
    using transition_rejected[of legacy input "context" agent "Some r" l] approval
    by (auto simp: Let_def st_def[symmetric] f(4) f(5) selection_not_executable validateCommercialTransition_def)
qed

lemma first_free_mem: "first_free xs = Some c \<Longrightarrow> c \<in> set xs"
  by (auto simp: first_free_def or_opt_def find_Some_iff split: option.splits list.splits)

lemma first_free_None: "first_free xs = None \<longleftrightarrow> xs = []"
  by (cases xs) (simp_all add: first_free_def or_opt_def split: option.splits)

text \<open>
  An ambiguous identity does not stop a run: the first free candidate is taken as the previous state, the action is an
  escalation, the transition is allowed, and the state to write carries the identifier of that candidate
  under a key that was built from the hints.
\<close>
theorem ambiguous_identity_is_written:
  assumes "oid_status (osp_identity (loop_steps legacy input context agent policy l)) = Oi_ambiguous"
  shows "let st = loop_steps legacy input context agent policy l; hints = buildCommercialIdentityHints (ori_inboundMessage input) (ori_brainContext input) context
    in ona_type (osp_nextAction st) = On_escalate_to_operator \<and> otr_allowed (osp_transition st) \<and>
       ost_opportunityKey (ord_resultingState (osp_reduction st)) = buildOpportunityKey hints \<and>
       (\<exists>c \<in> set (selectRelevantCandidates (olr_candidates l) (ohi_primaryIntent hints)). osp_previousState st = Some c \<and>
         \<not> terminal_status (ost_status c) \<and> ost_opportunityId (ord_resultingState (osp_reduction st)) = ost_opportunityId c)"
proof -
  define st where "st = loop_steps legacy input context agent policy l"
  define hints where "hints = buildCommercialIdentityHints (ori_inboundMessage input) (ori_brainContext input) context"
  define relevant where "relevant = selectRelevantCandidates (olr_candidates l) (ohi_primaryIntent hints)"
  note f = loop_steps_fields[of legacy input "context" agent policy l, folded st_def]
  note facts = identity_facts[of "ori_inboundMessage input" "ori_brainContext input" "context" l, folded hints_def, unfolded Let_def,
    folded relevant_def f(1)]
  have ambiguous: "oid_status (osp_identity st) = Oi_ambiguous" using assms by (simp add: st_def)
  then have ok: "olr_status l \<noteq> Ol_error" and live: "filter (\<lambda>c. \<not> terminal_status (ost_status c)) relevant \<noteq> []"
    using facts by (auto split: if_splits list.splits)
  obtain c where c: "first_free (filter (\<lambda>c. \<not> terminal_status (ost_status c)) relevant) = Some c"
    using live by (metis first_free_None not_Some_eq)
  have previous: "osp_previousState st = Some c" using facts c by (simp add: f(2))
  have "ona_type (osp_nextAction st) = On_escalate_to_operator"
    unfolding f(4) using first_free_mem[OF c] facts ambiguous
    by (intro selection_ambiguous) (simp_all add: current_status_def previous)
  moreover have "ost_opportunityId (ord_resultingState (osp_reduction st)) = ost_opportunityId c"
    "ost_opportunityKey (ord_resultingState (osp_reduction st)) = buildOpportunityKey hints"
    using facts ambiguous identity_open[of "ori_inboundMessage input" "ori_brainContext input" "context" "Some l", folded f(1)]
    by (auto simp: f(3) reduced_fields previous or_opt_def split: option.split)
  ultimately show ?thesis
    using transition_rejected[of legacy input "context" agent policy l] ok previous first_free_mem[OF c]
    by (auto simp: Let_def st_def[symmetric] hints_def[symmetric] relevant_def[symmetric])
qed

section \<open>The run\<close>

definition loop_context :: "op_run_input \<Rightarrow> op_context option" where
  "loop_context input = or_opt (ori_commercialContext input) (Option.bind (ori_shadowResult input) osw_commercialContext)"

text \<open>A result that did nothing but, at most, write the state and the decision, and says so.\<close>

definition quiet_result :: "op_run_result \<Rightarrow> bool" where
  "quiet_result r \<longleftrightarrow> (let e = orr_sideEffects r; written = (case orr_persistenceResult r of None \<Rightarrow> False | Some p \<Rightarrow> opr_status p = Ow_persisted)
     in \<not> ose_outboundExecuted e \<and> ose_toolsExecuted e = 0 \<and> \<not> ose_followupScheduled e \<and> \<not> ose_quoteCreated e \<and> \<not> ose_leadCreated e \<and>
        \<not> ose_caseMutated e \<and> \<not> ose_controlsResponsePolicy e \<and> \<not> ose_nextActionExecuted e \<and>
        ose_commercialOpportunityWritten e = written \<and> ose_commercialDecisionWritten e = written)"

text \<open>What a run may ask the storage to write.\<close>

definition justified_write :: "(string \<Rightarrow> int option) \<Rightarrow> op_run_input \<Rightarrow> op_persist_input \<Rightarrow> bool" where
  "justified_write legacy input w \<longleftrightarrow>
    ofl_commercialOperationalLoopEnabled (ori_featureFlags input) \<and> ofl_commercialStatePersistenceEnabled (ori_featureFlags input) \<and>
    \<not> ori_aborted input \<and> oid_status (opp_identityResolution w) \<notin> {Oi_blocked, Oi_no_commercial_signal} \<and>
    otr_allowed (opp_transitionValidation w) \<and> \<not> ona_executable (opp_nextAction w) \<and>
    odc_nextAction (opp_decisionRecord w) = opp_nextAction w \<and>
    odc_previousStatus (opp_decisionRecord w) = map_option ost_status (opp_previousState w) \<and>
    odc_nextStatus (opp_decisionRecord w) = ost_status (opp_resultingState w) \<and>
    (\<exists>i. opi_previousState i = opp_previousState w \<and> opp_resultingState w = ord_resultingState (reduceCommercialState legacy i))"

lemma quiet_results [simp]:
  "quiet_result (buildSkippedResult legacy input skip reason ws)"
  "quiet_result (buildFailedSafeResult status ws)"
  "quiet_result (failed_with_steps status ws st)"
  "quiet_result ((failed_with_steps status ws st)\<lparr>orr_persistenceResult := Some p, orr_decisionRecord := d, orr_sideEffects := written_effects p\<rparr>)"
  "quiet_result (finish_run l st ws dec (written_effects p) p)"
  "quiet_result (finish_run l st ws dec emptySideEffects (skipped_persistence input x dec))"
  by (simp_all add: quiet_result_def buildSkippedResult_def buildFailedSafeResult_def failed_with_steps_def written_effects_def
    emptySideEffects_def finish_run_def skipped_persistence_def Let_def)

lemma run_loaded_cases:
  assumes "run_loaded digest persist input shadow l st s = (outcome, t)"
  obtains (kept) "t = s" "case outcome of Inl _ \<Rightarrow> True | Inr r \<Rightarrow> quiet_result r"
  | (written) d where "oid_status (osp_identity st) \<noteq> Oi_blocked" "otr_allowed (osp_transition st)"
      "ofl_commercialStatePersistenceEnabled (ori_featureFlags input)"
      "buildDecisionRecord digest input (ord_resultingState (osp_reduction st)) (osp_nextAction st) (osp_transition st) (osp_identity st)
         (ord_stateDiff (osp_reduction st)) (stage_warnings input shadow l st) = Inr d"
      "t = snd (persist \<lparr>opp_previousState = osp_previousState st, opp_resultingState = ord_resultingState (osp_reduction st),
         opp_identityResolution = osp_identity st, opp_transitionValidation = osp_transition st, opp_nextAction = osp_nextAction st,
         opp_decisionRecord = d\<rparr> s)"
      "case outcome of Inl _ \<Rightarrow> True | Inr r \<Rightarrow> quiet_result r"
proof (cases "oid_status (osp_identity st) = Oi_blocked \<or> \<not> otr_allowed (osp_transition st)")
  case True
  then show thesis using assms by (intro kept) (auto simp: run_loaded_def Let_def done_with_def)
next
  case open_run: False
  define decision where "decision = buildDecisionRecord digest input (ord_resultingState (osp_reduction st)) (osp_nextAction st)
    (osp_transition st) (osp_identity st) (ord_stateDiff (osp_reduction st)) (stage_warnings input shadow l st)"
  show thesis
  proof (cases decision)
    case (Inl e)
    then show thesis using assms open_run
      by (intro kept) (auto simp: run_loaded_def Let_def raise_error_def decision_def[symmetric])
  next
    case (Inr d)
    show thesis
    proof (cases "ofl_commercialStatePersistenceEnabled (ori_featureFlags input)")
      case False
      then show thesis using assms open_run Inr
        by (intro kept) (auto simp: run_loaded_def Let_def done_with_def decision_def[symmetric])
    next
      case True
      show thesis
        by (rule written[OF _ _ True Inr[unfolded decision_def]])
          (use assms open_run True Inr in \<open>auto simp: run_loaded_def Let_def await_def done_with_def compute_def decision_def[symmetric]
             split: prod.splits sum.splits if_splits\<close>)
    qed
  qed
qed

lemma decision_fields:
  assumes "buildDecisionRecord digest input x action transition identity diff ws = Inr d"
  shows "odc_nextAction d = action" "odc_previousStatus d = otr_fromStatus transition" "odc_nextStatus d = otr_toStatus transition"
  using assms by (auto simp: buildDecisionRecord_def bind_result_def split: sum.splits)

lemma loop_run_cases:
  assumes "runCommercialOperationalLoop digest legacy load persist input s = (outcome, t)"
  obtains (unread) "t = s" "case outcome of Inl _ \<Rightarrow> True | Inr r \<Rightarrow> quiet_result r"
  | (unloaded) e where "load (loop_context input) s = (Inl e, t)" "outcome = Inl e"
  | (loaded) l s1 agent policy shadow where "load (loop_context input) s = (Inr l, s1)"
      "ofl_commercialOperationalLoopEnabled (ori_featureFlags input)" "\<not> ori_aborted input"
      "if oid_status (osp_identity (loop_steps legacy input (loop_context input) agent policy l)) = Oi_no_commercial_signal
       then t = s1 \<and> (case outcome of Inl _ \<Rightarrow> True | Inr r \<Rightarrow> quiet_result r)
       else run_loaded digest persist input shadow l (loop_steps legacy input (loop_context input) agent policy l) s1 = (outcome, t)"
proof (cases "ori_shadowResult input")
  case None
  then show thesis using assms by (intro unread) (auto simp: runCommercialOperationalLoop_def done_with_def split: if_splits)
next
  case (Some shadow)
  then have ctx: "or_opt (ori_commercialContext input) (osw_commercialContext shadow) = loop_context input"
    by (simp add: loop_context_def)
  define agent where "agent = or_opt (ori_salesAgentResult input) (osw_agentResult shadow)"
  define policy where "policy = or_opt (ori_commercialPolicyResult input) (osw_policyResult shadow)"
  let ?closed = "\<not> ofl_commercialOperationalLoopEnabled (ori_featureFlags input) \<or> ori_aborted input \<or>
    osw_status shadow \<in> {''disabled'', ''skipped'', ''failed_safe'', ''timeout'', ''cancelled''} \<or> agent = None \<or> policy = None"
  note run_def = runCommercialOperationalLoop_def Some option.case Let_def ctx agent_def[symmetric] policy_def[symmetric]
  show thesis
  proof (cases ?closed)
    case True
    then show thesis using assms unfolding run_def
      by (intro unread) (auto simp: done_with_def split: if_splits)
  next
    case False
    obtain o1 s1 where load: "load (loop_context input) s = (o1, s1)" by (cases "load (loop_context input) s")
    have run: "runCommercialOperationalLoop digest legacy load persist input s = await (load (loop_context input)) (\<lambda>l.
        let st = loop_steps legacy input (loop_context input) agent policy l
        in if oid_status (osp_identity st) = Oi_no_commercial_signal then
             done_with (buildSkippedResult legacy input ''no_commercial_signal'' (oid_reason (osp_identity st))
               (nonblank_strings (oid_warnings (osp_identity st) @ [''commercial_loop_skipped''])))
           else run_loaded digest persist input shadow l st) s"
      using False unfolding run_def by (simp del: not_None_eq)
    show thesis
    proof (cases o1)
      case (Inl e)
      then show thesis using assms load by (intro unloaded) (auto simp: run await_def)
    next
      case (Inr l)
      then show thesis using assms load False
        by (intro loaded[of l s1 agent policy shadow]) (auto simp: run await_def Let_def done_with_def split: if_splits)
    qed
  qed
qed

text \<open>
  C10. A run leaves the state of the storage as it was, or as the load left it, or as one call of the persistence left it,
  and that call is justified: the flags are on, the signal was not aborted, the identity is neither blocked nor
  without a signal, the transition is allowed, the record of the decision agrees with the transition, and the
  written state is a reduction of the previous one.  The result of a run never acts, and claims a write exactly when the
  persistence reported one.
\<close>
theorem run_writes_at_most_once:
  "case runCommercialOperationalLoop digest legacy load persist input s of (outcome, t) \<Rightarrow>
     (t \<in> {s, snd (load (loop_context input) s)} \<or>
      (\<exists>w. justified_write legacy input w \<and> t = snd (persist w (snd (load (loop_context input) s))))) \<and>
     (case outcome of Inl _ \<Rightarrow> True | Inr r \<Rightarrow> quiet_result r)"
proof -
  obtain outcome t where run: "runCommercialOperationalLoop digest legacy load persist input s = (outcome, t)"
    by (cases "runCommercialOperationalLoop digest legacy load persist input s")
  from run show ?thesis
  proof (cases rule: loop_run_cases)
    case (loaded l s1 agent policy shadow)
    define st where "st = loop_steps legacy input (loop_context input) agent policy l"
    note f = loop_steps_fields[of legacy input "loop_context input" agent policy l, folded st_def]
    show ?thesis
    proof (cases "oid_status (osp_identity st) = Oi_no_commercial_signal")
      case True
      then show ?thesis using loaded run by (simp add: st_def)
    next
      case False
      then have "run_loaded digest persist input shadow l st s1 = (outcome, t)" using loaded by (simp add: st_def)
      then show ?thesis
      proof (cases rule: run_loaded_cases)
        case kept
        then show ?thesis using loaded run by simp
      next
        case (written d)
        let ?w = "\<lparr>opp_previousState = osp_previousState st, opp_resultingState = ord_resultingState (osp_reduction st),
          opp_identityResolution = osp_identity st, opp_transitionValidation = osp_transition st, opp_nextAction = osp_nextAction st,
          opp_decisionRecord = d\<rparr>"
        have "\<exists>i. opi_previousState i = osp_previousState st \<and> osp_reduction st = reduceCommercialState legacy i"
          unfolding f(3) by (rule exI, rule conjI[rotated], rule refl) simp
        then have "justified_write legacy input ?w"
          using loaded written(1-3) False decision_fields[OF written(4)]
          by (auto simp: justified_write_def f(4,5) selection_not_executable)
        then show ?thesis using loaded(1) written(5,6) run by auto
      qed
    qed
  qed (use run in auto)
qed

text \<open>A run that is not stopped before the load.\<close>

definition eligible_run :: "op_run_input \<Rightarrow> sa_result option \<Rightarrow> po_result option \<Rightarrow> bool" where
  "eligible_run input agent policy \<longleftrightarrow> ofl_commercialOperationalLoopEnabled (ori_featureFlags input) \<and> \<not> ori_aborted input \<and>
    (case ori_shadowResult input of None \<Rightarrow> False | Some shadow \<Rightarrow>
      osw_status shadow \<notin> {''disabled'', ''skipped'', ''failed_safe'', ''timeout'', ''cancelled''} \<and>
      agent = or_opt (ori_salesAgentResult input) (osw_agentResult shadow) \<and>
      policy = or_opt (ori_commercialPolicyResult input) (osw_policyResult shadow)) \<and> agent \<noteq> None \<and> policy \<noteq> None"

lemma eligible_run_loads:
  fixes legacy
  assumes "eligible_run input agent policy" "load (loop_context input) s = (Inr l, s1)"
  defines "st \<equiv> loop_steps legacy input (loop_context input) agent policy l"
  obtains shadow where "runCommercialOperationalLoop digest legacy load persist input s =
    (if oid_status (osp_identity st) = Oi_no_commercial_signal then
       done_with (buildSkippedResult legacy input ''no_commercial_signal'' (oid_reason (osp_identity st))
         (nonblank_strings (oid_warnings (osp_identity st) @ [''commercial_loop_skipped'']))) s1
     else run_loaded digest persist input shadow l st s1)"
proof -
  obtain shadow where shadow: "ori_shadowResult input = Some shadow" using assms(1) by (auto simp: eligible_run_def split: option.splits)
  then have ctx: "or_opt (ori_commercialContext input) (osw_commercialContext shadow) = loop_context input"
    by (simp add: loop_context_def)
  have given: "or_opt (ori_salesAgentResult input) (osw_agentResult shadow) = agent" "agent \<noteq> None"
      "or_opt (ori_commercialPolicyResult input) (osw_policyResult shadow) = policy" "policy \<noteq> None"
      "ofl_commercialOperationalLoopEnabled (ori_featureFlags input)" "\<not> ori_aborted input"
      "osw_status shadow \<notin> {''disabled'', ''skipped'', ''failed_safe'', ''timeout'', ''cancelled''}"
    using assms(1) by (auto simp: eligible_run_def shadow)
  note run_def = runCommercialOperationalLoop_def shadow option.case Let_def ctx
  have "runCommercialOperationalLoop digest legacy load persist input s = await (load (loop_context input)) (\<lambda>l.
      let st = loop_steps legacy input (loop_context input) agent policy l
      in if oid_status (osp_identity st) = Oi_no_commercial_signal then
           done_with (buildSkippedResult legacy input ''no_commercial_signal'' (oid_reason (osp_identity st))
             (nonblank_strings (oid_warnings (osp_identity st) @ [''commercial_loop_skipped''])))
         else run_loaded digest persist input shadow l st) s"
    using given(2,4-7) unfolding run_def given(1,3) by (simp del: not_None_eq)
  then show thesis
    by (intro that[of shadow]) (simp add: await_Inr[where m = "load (loop_context input)", OF assms(2)] st_def Let_def)
qed

lemma run_loaded_state:
  assumes "buildDecisionRecord digest input (ord_resultingState (osp_reduction st)) (osp_nextAction st) (osp_transition st) (osp_identity st)
      (ord_stateDiff (osp_reduction st)) (stage_warnings input shadow l st) = Inr d"
  shows "snd (run_loaded digest persist input shadow l st s) =
    (if oid_status (osp_identity st) = Oi_blocked \<or> \<not> otr_allowed (osp_transition st) \<or>
        \<not> ofl_commercialStatePersistenceEnabled (ori_featureFlags input) then s
     else snd (persist \<lparr>opp_previousState = osp_previousState st, opp_resultingState = ord_resultingState (osp_reduction st),
       opp_identityResolution = osp_identity st, opp_transitionValidation = osp_transition st, opp_nextAction = osp_nextAction st,
       opp_decisionRecord = d\<rparr> s))"
  by (auto simp: run_loaded_def Let_def assms done_with_def await_def split: prod.split sum.split)

text \<open>
  C13. An eligible run whose state could be loaded writes exactly when the persistence is on, the lookup did not fail, there
  is a commercial signal and no quote is proposed for an opportunity that is not at a quote.  What it
  writes is the reduction, with a decision identified by the digest of the message's runs, the opportunity, the
  action, the version and the time.
\<close>
theorem eligible_run_writes_iff:
  assumes "eligible_run input agent policy" "load (loop_context input) s = (Inr l, s1)" "moment_string (ori_currentTime input) = Inr now"
  shows "let st = loop_steps legacy input (loop_context input) agent policy l; r = ord_resultingState (osp_reduction st)
    in \<exists>d. odc_decisionId d = stableDecisionId digest input (ost_opportunityKey r) (op_action_type_name (ona_type (osp_nextAction st))) (ost_version r) now \<and>
      snd (runCommercialOperationalLoop digest legacy load persist input s) =
      (if ofl_commercialStatePersistenceEnabled (ori_featureFlags input) \<and> olr_status l \<noteq> Ol_error \<and>
          hasCommercialSignal (map_option oct_sourceSummary (loop_context input)) \<and>
          \<not> (ona_type (osp_nextAction st) = On_prepare_quote \<and> ost_status r \<notin> {Os_quote_pending, Os_quote_ready_for_review})
       then snd (persist \<lparr>opp_previousState = osp_previousState st, opp_resultingState = r, opp_identityResolution = osp_identity st,
         opp_transitionValidation = osp_transition st, opp_nextAction = osp_nextAction st, opp_decisionRecord = d\<rparr> s1)
       else s1)"
proof -
  define st where "st = loop_steps legacy input (loop_context input) agent policy l"
  define r where "r = ord_resultingState (osp_reduction st)"
  obtain shadow where run: "runCommercialOperationalLoop digest legacy load persist input s =
    (if oid_status (osp_identity st) = Oi_no_commercial_signal then
       done_with (buildSkippedResult legacy input ''no_commercial_signal'' (oid_reason (osp_identity st))
         (nonblank_strings (oid_warnings (osp_identity st) @ [''commercial_loop_skipped'']))) s1
     else run_loaded digest persist input shadow l st s1)"
    using eligible_run_loads[where legacy = legacy and digest = digest and persist = persist and load = load, OF assms(1,2)] unfolding st_def by blast
  obtain d where d: "buildDecisionRecord digest input r (osp_nextAction st) (osp_transition st) (osp_identity st)
      (ord_stateDiff (osp_reduction st)) (stage_warnings input shadow l st) = Inr d"
    "odc_decisionId d = stableDecisionId digest input (ost_opportunityKey r) (op_action_type_name (ona_type (osp_nextAction st))) (ost_version r) now"
    by (simp add: buildDecisionRecord_def bind_result_def assms(3))
  have status: "oid_status (osp_identity st) = Oi_blocked \<longleftrightarrow> olr_status l = Ol_error"
    "oid_status (osp_identity st) = Oi_no_commercial_signal \<longleftrightarrow> olr_status l \<noteq> Ol_error \<and>
       \<not> hasCommercialSignal (map_option oct_sourceSummary (loop_context input))"
    by (auto simp: st_def loop_steps_fields(1) identity_status_is Let_def split: list.split)
  show ?thesis
    using run_loaded_state[OF d(1)[unfolded r_def], of persist s1] d(2) status
      transition_rejected[of legacy input "loop_context input" agent policy l]
    by (auto simp: Let_def st_def[symmetric] r_def[symmetric] run done_with_def)
qed

end
