(* ===== verification/OperationalExamples.thy ===== *)
theory OperationalExamples
  imports OperationalSafety
begin

text \<open>
  Concrete conversations for the theorems of OperationalSafety: a customer who writes on WhatsApp, an opportunity whose
  block became a rejection, two live opportunities of the same intent, and a run over a storage that keeps
  what it was asked to write.
\<close>

definition sample_source :: op_source where
  "sample_source = \<lparr>osm_channel = Some ''whatsapp'', osm_conversationCaseId = Some (Id_num 7), osm_waId = Some ''56900000000'',
     osm_humanOwnershipActive = False, osm_aiBlocked = False, osm_manualReplyActive = False, osm_hasCustomerCandidate = False,
     osm_hasCustomerReference = False, osm_hasConversationHistory = True, osm_hasLatestCustomerMessage = True,
     osm_hasLatestOutboundMessage = False, osm_hasCommercialEntity = False, osm_commercialIntentLegacy = Some ''quote_request'',
     osm_orderContextAvailable = False, osm_productServiceContextAvailable = False, osm_latestInboundAt = None, osm_latestOutboundAt = None\<rparr>"

definition sample_context :: op_context where
  "sample_context = \<lparr>oct_sourceSummary = sample_source, oct_salesAgentInput = None\<rparr>"

definition sample_brain :: op_brain where
  "sample_brain = \<lparr>obr_wa_id = ''56900000000'', obr_id_customer = None, obr_active_case_id = Some (Id_num 7), obr_active_case = None,
     obr_manual_operator_lock = False, obr_service_code = ''quote_request''\<rparr>"

definition sample_inbound :: op_inbound where
  "sample_inbound = \<lparr>oin_messageId = ''wamid-1'', oin_waId = ''56900000000'', oin_conversationCaseId = None, oin_channel = ''whatsapp''\<rparr>"

definition sample_load :: "op_state list \<Rightarrow> op_load_result" where
  "sample_load candidates = \<lparr>olr_status = (if candidates = [] then Ol_not_found else Ol_loaded), olr_candidates = candidates,
     olr_activeState = None, olr_latestDecision = None, olr_warnings = []\<rparr>"

definition sample_reduction :: "op_state option \<Rightarrow> bool \<Rightarrow> op_input" where
  "sample_reduction previous blocked = \<lparr>opi_previousState = previous,
     opi_identityResolution = resolveOpportunityIdentity sample_inbound sample_brain (Some sample_context) None,
     opi_loadResult = sample_load [], opi_brainContext = sample_brain, opi_inboundMessage = sample_inbound,
     opi_commercialContext = Some (sample_context\<lparr>oct_sourceSummary := sample_source\<lparr>osm_aiBlocked := blocked\<rparr>\<rparr>),
     opi_salesAgentResult = None, opi_commercialPolicyResult = None, opi_currentTime = Moment_date (Some 1767315600000)\<rparr>"

definition sample_state :: "bool \<Rightarrow> op_state option \<Rightarrow> op_state" where
  "sample_state blocked previous = ord_resultingState (reduceCommercialState (\<lambda>_. None) (sample_reduction previous blocked))"

lemma sample_blocked: "rejected (sample_state True None)"
  by (simp add: sample_state_def rejected_def reduced_fields deriveStatus_def deriveStructuralSignals_def when_signal_def
    sample_reduction_def sample_context_def sample_source_def Let_def)

lemma sample_history: "opportunity_history (\<lambda>_. None) [sample_state False (Some (sample_state True None)), sample_state True None]"
  unfolding sample_state_def by (intro opportunity_history.intros) (simp_all add: sample_reduction_def)

text \<open>The customer answers, and the block is gone, but the opportunity stays stalled.\<close>

lemma opportunity_history_settles_witness:
  "ost_status (sample_state False (Some (sample_state True None))) = Os_stalled \<and>
   ost_version (sample_state False (Some (sample_state True None))) = 2"
  using opportunity_history_settles[OF sample_history] sample_blocked by (simp add: rejected_def)

lemma advancing_action_guarded_witness:
  "let input = \<lparr>osl_previousState = None, osl_resultingState = sample_state False None,
     osl_identityResolution = resolveOpportunityIdentity sample_inbound sample_brain (Some sample_context) None,
     osl_commercialPolicyResult = None, osl_salesAgentResult = Some ((sample_agent_result [] [])\<lparr>sg_shouldRequestHuman := False,
       sg_decision := (sg_decision (sample_agent_result [] []))\<lparr>sad_requiresApproval := Sa_none, sad_type := ''respond_now''\<rparr>\<rparr>)\<rparr>
   in ona_type (selectNextCommercialAction input) = On_respond \<and> \<not> ona_executable (selectNextCommercialAction input) \<and>
     selection_approval input = Pa_none"
proof -
  define input where "input = \<lparr>osl_previousState = None, osl_resultingState = sample_state False None,
     osl_identityResolution = resolveOpportunityIdentity sample_inbound sample_brain (Some sample_context) None,
     osl_commercialPolicyResult = None, osl_salesAgentResult = Some ((sample_agent_result [] [])\<lparr>sg_shouldRequestHuman := False,
       sg_decision := (sg_decision (sample_agent_result [] []))\<lparr>sad_requiresApproval := Sa_none, sad_type := ''respond_now''\<rparr>\<rparr>)\<rparr>"
  have respond: "ona_type (selectNextCommercialAction input) = On_respond"
    by (simp add: input_def selectNextCommercialAction_def Let_def selection_approval_def sample_state_def reduceCommercialState_def
      buildBaseState_def deriveStatus_def deriveStructuralSignals_def when_signal_def previous_or_def sample_reduction_def sample_context_def
      sample_source_def sample_agent_result_def intent_action_def resolveOpportunityIdentity_def deriveSelectedState_def
      buildCommercialIdentityHints_def hasCommercialSignal_def open_identity_def)
  then show ?thesis
    using advancing_action_guarded[of input] by (simp add: input_def[symmetric] Let_def)
qed

section \<open>Runs\<close>

definition sample_run :: "sa_result \<Rightarrow> po_result \<Rightarrow> op_run_input" where
  "sample_run agent policy = \<lparr>ori_inboundMessage = sample_inbound, ori_brainContext = sample_brain,
     ori_commercialContext = Some sample_context, ori_salesAgentResult = Some agent, ori_commercialPolicyResult = Some policy,
     ori_evaluationWarnings = [], ori_shadowResult = Some \<lparr>osw_status = ''completed'', osw_commercialContext = None,
       osw_agentResult = None, osw_policyResult = None, osw_warnings = []\<rparr>,
     ori_currentTime = Moment_text ''2026-01-02T01:00:00.000Z'', ori_correlationId = ''c1'', ori_processInboundRunId = Some ''p1'',
     ori_salesAgentRunId = None, ori_featureFlags = \<lparr>ofl_commercialOperationalLoopEnabled = True,
       ofl_commercialStatePersistenceEnabled = True\<rparr>, ori_contractVersion = None, ori_policyVersion = None, ori_runtimeVersion = None,
     ori_aborted = False\<rparr>"

lemma sample_run_fields [simp]:
  "ori_inboundMessage (sample_run agent policy) = sample_inbound" "ori_brainContext (sample_run agent policy) = sample_brain"
  "loop_context (sample_run agent policy) = Some sample_context"
  "ori_currentTime (sample_run agent policy) = Moment_text ''2026-01-02T01:00:00.000Z''"
  "ofl_commercialStatePersistenceEnabled (ori_featureFlags (sample_run agent policy))"
  "eligible_run (sample_run agent policy) (Some agent) (Some policy)"
  by (simp_all add: sample_run_def loop_context_def eligible_run_def)

lemma sample_signal [simp]: "hasCommercialSignal (Some sample_source)" "oct_sourceSummary sample_context = sample_source"
  by (simp_all add: hasCommercialSignal_def sample_source_def sample_context_def)

text \<open>A storage that only remembers: it holds no state to load, and collects what it is asked to write.\<close>

definition sample_loads :: "op_state list \<Rightarrow> op_context option \<Rightarrow> (op_persist_input list, op_load_result) action" where
  "sample_loads candidates ctx = done_with (sample_load candidates)"

definition sample_persists :: "op_persist_input \<Rightarrow> (op_persist_input list, op_persist_result) action" where
  "sample_persists w s = (Inr \<lparr>opr_status = Ow_persisted, opr_opportunityWritten = True, opr_decisionWritten = True,
     opr_opportunityId = Some (Id_num 1), opr_opportunityKey = ost_opportunityKey (opp_resultingState w),
     opr_decisionId = odc_decisionId (opp_decisionRecord w), opr_version = Some (ost_version (opp_resultingState w)),
     opr_createdAt = [], opr_warnings = [], opr_reason = None\<rparr>, w # s)"

text \<open>
  The message is escalated although the agent, whose result goes to the loop as it was, asks for no human; and the run
  writes the new opportunity once.
\<close>

lemma governed_message_is_escalated_witness:
  "\<exists>r. evaluateCommercialPolicy (\<lambda>_. None) sample_message = Inr r \<and> \<not> sg_shouldRequestHuman (poi_salesAgentResult sample_message) \<and>
     (let next = osp_nextAction (loop_steps (\<lambda>_. None) (sample_run (poi_salesAgentResult sample_message) r) (Some sample_context)
        (Some (poi_salesAgentResult sample_message)) (Some r) (sample_load []))
      in ona_type next \<in> {On_no_action, On_escalate_to_operator} \<and> \<not> ona_executable next)"
proof -
  obtain r where r: "evaluateCommercialPolicy (\<lambda>_. None) sample_message = Inr r"
    "sg_proposedActions (pre_governedResult r) = [sample_action ''send_whatsapp_message'']" by (rule sample_message_result)
  have "\<not> sg_shouldRequestHuman (poi_salesAgentResult sample_message)"
    by (simp add: sample_message_def sample_policy_input_def sample_agent_result_def)
  then show ?thesis
    using r governed_message_is_escalated[OF r(1), of "sample_action ''send_whatsapp_message''"
      "sample_run (poi_salesAgentResult sample_message) r" "Some sample_context" "Some (poi_salesAgentResult sample_message)"
      "sample_load []"] by (auto simp: sample_action_def Let_def)
qed

lemma eligible_run_writes_iff_witness:
  "\<exists>r w. evaluateCommercialPolicy (\<lambda>_. None) sample_message = Inr r \<and>
     snd (runCommercialOperationalLoop id (\<lambda>_. None) (sample_loads []) sample_persists (sample_run (pre_governedResult r) r) []) = [w] \<and>
     ost_version (opp_resultingState w) = 1"
proof -
  obtain r where r: "evaluateCommercialPolicy (\<lambda>_. None) sample_message = Inr r"
    "sg_proposedActions (pre_governedResult r) = [sample_action ''send_whatsapp_message'']" by (rule sample_message_result)
  define input where "input = sample_run (pre_governedResult r) r"
  define st where "st = loop_steps (\<lambda>_. None) input (Some sample_context) (Some (pre_governedResult r)) (Some r) (sample_load [])"
  have "pre_requiresApproval r \<noteq> Pa_none"
    using governed_message_facts[OF r(1), of "sample_action ''send_whatsapp_message''"] r(2)
    by (auto simp: sample_action_def less_eq_po_approval_def)
  then have "ona_type (osp_nextAction st) \<in> passive_actions"
    unfolding st_def loop_steps_fields(4)
    by (intro held_selection_passive) (simp add: held_selection_def selection_approval_def)
  moreover have "osp_previousState st = None"
    by (simp add: st_def loop_steps_fields(1,2) sample_load_def resolveOpportunityIdentity_def deriveSelectedState_facts
      selectRelevantCandidates_def first_free_def open_identity_def Let_def)
  ultimately obtain w where w: "snd (runCommercialOperationalLoop id (\<lambda>_. None) (sample_loads []) sample_persists input []) = [w]"
      "opp_resultingState w = ord_resultingState (osp_reduction st)" "opp_previousState w = None"
    using eligible_run_writes_iff[of input "Some (pre_governedResult r)" "Some r" "sample_loads []" "[]" "sample_load []" "[]"
      "''2026-01-02T01:00:00.000Z''" "\<lambda>_. None" id sample_persists]
    by (auto simp: input_def Let_def st_def sample_loads_def done_with_def sample_persists_def sample_load_def)
  have "ost_version (opp_resultingState w) = 1"
    using \<open>osp_previousState st = None\<close>
    by (simp add: w(2)) (simp add: st_def loop_steps_fields(3) reduced_fields previous_or_def)
  then show ?thesis using r(1) w(1) by (auto simp: input_def)
qed

text \<open>Two live opportunities of the intent of the message.\<close>

lemma sample_state_live: "ost_status (sample_state False None) = Os_engaged"
  by (simp add: sample_state_def reduced_fields deriveStatus_def deriveStructuralSignals_def when_signal_def
    agent_blocked_def policy_blocks_def sample_reduction_def sample_context_def sample_source_def Let_def)

lemma sample_state_intent:
  "ost_primaryIntent (sample_state False None) = ohi_primaryIntent (buildCommercialIdentityHints sample_inbound sample_brain (Some sample_context))"
  by (simp add: sample_state_def reduce_unfold sample_reduction_def previous_or_def resolveOpportunityIdentity_def deriveSelectedState_def
    open_identity_def split: option.split)

lemma ambiguous_identity_is_written_witness:
  "\<exists>r. ona_type (osp_nextAction (loop_steps (\<lambda>_. None) (sample_run (sample_agent_result [] []) r) (Some sample_context) None None
       (sample_load [sample_state False None, sample_state False None]))) = On_escalate_to_operator \<and>
     otr_allowed (osp_transition (loop_steps (\<lambda>_. None) (sample_run (sample_agent_result [] []) r) (Some sample_context) None None
       (sample_load [sample_state False None, sample_state False None])))"
proof -
  obtain r where "evaluateCommercialPolicy (\<lambda>_. None) sample_message = Inr r" by (rule sample_message_result)
  have "oid_status (osp_identity (loop_steps (\<lambda>_. None) (sample_run (sample_agent_result [] []) r) (Some sample_context) None None
       (sample_load [sample_state False None, sample_state False None]))) = Oi_ambiguous"
    by (simp add: loop_steps_fields(1) identity_status_is sample_load_def selectRelevantCandidates_def sample_state_intent sample_state_live Let_def)
  then show ?thesis
    using ambiguous_identity_is_written[of "\<lambda>_. None" "sample_run (sample_agent_result [] []) r" "Some sample_context" None None] by (auto simp: Let_def)
qed

end
