(* ===== verification/Spec2Isabelle.thy ===== *)
theory Spec2Isabelle
  imports RepositoryContract OutboxLeases DispatchChain FollowUpReplanSafety OperationalExamples
begin

text \<open>
  Formal model of the execution core of the CRM's autonomous sales agent: the part of
  \<open>src/lib/brain\<close> that decides whether a proposed message may leave the system, turns it into a
  command of the outbox exactly once, delivers the rows of the outbox to a transport, and decides when
  a follow-up may be sent.

  \<^bold>\<open>The program.\<close>  A commercial action (\<open>commercial/action-lifecycle\<close>) moves through a graph of
  statuses.  The autonomy sandbox (\<open>commercial/autonomy-sandbox\<close>) decides whether an action may be
  executed without a human: a whitelist of test numbers, the safety of the message, the risk, the
  approval, the state of the case.  The execution gate (\<open>commercial/execution-gate\<close>) takes an action
  and its sandbox verdict, checks them again, and in one unit of work inserts a command in the
  outbox and marks the action as planned.  The outbox worker (\<open>messaging/outbox-worker\<close>) claims
  rows under a lease, marks them, calls a message transport and applies a plan for the answer:
  delivered, retry, dead letter.  The WhatsApp transport (\<open>messaging/whatsapp-transport\<close>) validates a
  message once more, builds the request of the Graph API and classifies its answer.  The scheduling
  engine (\<open>commercial/follow-up-scheduling\<close>) evaluates a planned follow-up at an instant: ready, wait,
  replan, cancel, block, expire or invalid.  Replanning (\<open>commercial/follow-up-replanning\<close>) makes a plan of
  operations for that decision and applies it to the stored follow-ups, in place or by a replacement.
  The commercial policy (\<open>commercial/policy\<close>) governs what the sales agent proposes: it assesses every claim,
  action, tool request and entity proposal of a result (\<open>commercial/sales-agent\<close>) against flags, channel
  and evidence, removes what is blocked, and decides whether a human has to review the rest.  The operational
  loop (\<open>commercial/operational-loop\<close>) takes the agent's own, ungoverned result for a message together with
  the result of the policy, finds the opportunity it belongs to, reduces the state of that opportunity, selects the
  next action, validates the transition and hands state and decision to a storage; it never executes the action.
  The autonomous loop (\<open>commercial/autonomous-loop/executeAutonomousLoop.ts\<close>) delivers an immediate action: sandbox,
  gate, command, outbox row, worker and WhatsApp transport in one go.

  \<^bold>\<open>The theories.\<close>
  \<^item> \<open>JS_Prelude\<close>, \<open>JS_Value\<close>, \<open>JS_Json\<close>, \<open>JS_Date\<close>, \<open>JS_Regex\<close>, \<open>JS_Text\<close>, \<open>JS_Effect\<close>: what the code
    uses of JavaScript (strings as character lists, exceptions as a sum, \<open>unknown\<close> values,
    \<open>JSON.stringify\<close>, \<open>Date\<close> parsing and printing, backtracking regular expressions, \<open>Number\<close> of a text
    with its rounding, sequenced asynchronous operations).
  \<^item> \<open>ActionLifecycle\<close>: \<open>action-lifecycle/*.ts\<close> and the metadata sanitiser of \<open>context/adapters.ts\<close>;
    the graph of 22 transitions, the histories it allows, the round trip of a proposed action.
  \<^item> \<open>AutonomySandbox\<close>: \<open>autonomy-sandbox/*.ts\<close>; eligibility as one condition, masking, the whitelist.
  \<^item> \<open>ExecutionGate\<close>: \<open>evaluateExecutionGate.ts\<close> and \<open>buildOutboxCommand.ts\<close>.
  \<^item> \<open>ExecutionStore\<close>: \<open>repositories.ts\<close> and \<open>inMemoryRepositories.ts\<close> with failure flags and unit of work.
  \<^item> \<open>ExecuteAction\<close>: \<open>executeActionThroughGate.ts\<close> over any repositories; \<open>Ledger\<close>, \<open>LedgerSafety\<close>,
    \<open>LedgerHistory\<close>: its abstract specification (a ledger of actions and rows), the refinement, the
    invariant of all histories; \<open>RepositoryContract\<close>: the laws of the repositories as locales.
  \<^item> \<open>OutboxWorker\<close>: \<open>types.ts\<close>, \<open>constants.ts\<close>, \<open>calculateRetrySchedule.ts\<close>, \<open>evaluateOutboxCandidate.ts\<close>.
  \<^item> \<open>OutboxPlan\<close>: \<open>buildOutboxWorkerPlan.ts\<close>; the contract of plans, the injectivity of their ids.
  \<^item> \<open>OutboxRuntime\<close>: \<open>repositories.ts\<close> and \<open>inMemoryOutboxRuntime.ts\<close>; the claim against its
    specification, the invariant of applied plans; \<open>OutboxLeases\<close>: exclusive leases over histories of claims
    and plans.
  \<^item> \<open>OutboxProcess\<close>: \<open>transport.ts\<close> and \<open>processOutboxMessage.ts\<close>.
  \<^item> \<open>OutboxBatch\<close>: the guarantees of a batch, over locales for a transport with a log of calls
    (\<open>counted_transport\<close>) and for a repository of rows (\<open>plan_repository\<close>), interpreted by the fake
    transport and the in-memory repository.
  \<^item> \<open>WhatsAppTransport\<close>: \<open>whatsapp-transport/*.ts\<close>; \<open>WhatsAppClient\<close>: \<open>fakeWhatsAppHttpClient.ts\<close>;
    \<open>WhatsAppSafety\<close>: what is posted and what the worker makes of an answer, over a locale for a client
    with a log of posts (\<open>journaled_client\<close>); \<open>DispatchChain\<close>: the delivery of an immediate action
    by the autonomous loop (\<open>executeAutonomousLoop.ts\<close>, \<open>buildAutonomousLoopContext.ts\<close>), from the gate to the post.
  \<^item> \<open>FollowUpSchedule\<close>: \<open>follow-up-scheduling/*.ts\<close>; \<open>FollowUpSafety\<close>: the bounds of a computed time,
    business hours, readiness, the stability of a replanned time.
  \<^item> \<open>FollowUpReplan\<close>: \<open>follow-up-replanning/*.ts\<close>; \<open>FollowUpReplanSafety\<close>: the shapes and the validity
    of plans, the lineage of replaced follow-ups over all histories, the cycle with the scheduler.
  \<^item> \<open>SalesAgent\<close>: the types of \<open>sales-agent/validationTypes.ts\<close> and \<open>createFailedSafeResult.ts\<close>;
    \<open>CommercialPolicy\<close>, \<open>PolicyRules\<close>, \<open>PolicyEvaluation\<close>: \<open>policy/*.ts\<close>; \<open>PolicySafety\<close>, \<open>PolicyGuarantees\<close>: the
    contract of an assessment as a locale (\<open>screening\<close>), interpreted by claims, tool requests and
    entity proposals, and what a governed result can still propose.
  \<^item> \<open>OperationalState\<close>, \<open>OperationalLoop\<close>, \<open>OperationalRun\<close>: \<open>operational-loop/*.ts\<close>, over any storage;
    \<open>OperationalSafety\<close>: the graph of statuses, the identity, the guards of the next action, what a run
    writes; \<open>OperationalExamples\<close>: concrete conversations.

  \<^bold>\<open>How state and operations correspond.\<close>  An object type of the source is a record, a union of
  literals a datatype with a function that gives the literal, an instance of a class the record of
  its private fields.  An \<open>async\<close> function is a function from the state to an outcome and the state
  it leaves; an operation that throws keeps what it changed before, and a unit of work restores
  its copy.  The state of a transport lives outside the unit of work, so a message that was sent
  stays sent.  Records are values, so \<open>structuredClone\<close> is the identity.

  \<^bold>\<open>What is shown.\<close>  The gate and the sandbox are characterised by single conditions, and an allowed
  action is sent to a whitelisted number with a safe text.  A request either leaves the store as it
  was or does what the ledger says, under any injected failure, and does so for certain without
  failures; a second request inserts nothing.  Its histories keep keys and links consistent as long as no two
  stored actions share a command id (\<open>commands_separate\<close>): the id joins action id and key with a colon,
  and the ids of replacements hold colons themselves, so that two actions can collide.  The worker claims exactly
  the first claimable rows, and while the lease of a worker lasts none of its rows, claimed, in processing or closed, is
  claimed by another, until a retry is scheduled or the claim is released; its batch touches only due and live rows, sends at
  most one message for each claimed row, and its counts add up.  Plans start only from their
  statuses and never revive a closed row.  Retries grow exponentially, within the maximum and
  before the expiry.  The WhatsApp transport posts exactly the admitted messages, once, to numbers of
  the whitelist, also under a whole batch; in the autonomous loop only for an action the gate allowed, once, to the
  number of that action with its text; every attempt makes
  the same request; the error texts it keeps are short and clean.  A follow-up is ready exactly when
  every guard holds and its time has come; that time is after both cooldowns, in the horizon, before the expiry
  and, in a zone whose offset changes rarely, in the business hours; a due one is ready; a replanned time is
  final.
  A mutation plan is applied at most once, gives the follow-up the status of the decision, changes
  no other, adds exactly one when it replaces and none otherwise, never changes a closed one and keeps identifiers, keys and lineage consistent over every history of plans; a
  follow-up moved in place keeps the stored time when it is evaluated again at any later instant before its expiry,
  waits until it comes and is ready then, unless the opportunity changed its stage after the action was made.  What
  the policy lets through is part of what was proposed: a message to the customer waits for an explicit
  approval, a sensitive claim is authorised and verified, no action is hard blocked, expired or
  doubled; a policy that fails or blocks closes the result, and governing twice is governing once.
  In the operational loop every reduced state follows the graph of its validator, a closed opportunity stays
  closed and a rejected one stalled; the identity is that of the only live candidate of the intent, or none;
  an action beyond an escalation needs an open opportunity without owner, block or approval; a run writes at
  most once, exactly under stated conditions, and never acts.  Some
  theorems state what the code does against its documentation: a failure
  after the send undoes the count of the attempt, so that a persistent failure resends for ever; a
  release does not release; expired rows are never moved to the dead letter by a batch.

  \<^bold>\<open>Bounds, fuel, parameters.\<close>  Recursion is structural, or decreases the rest of a text or list;
  the only fuel is that of \<open>json_text\<close> (twice the length of the text, more than the calls it can
  make).  The digest (\<open>sha256\<close>) and the collation (\<open>localeCompare\<close>) are parameters, and no theorem
  assumes anything of them; so are \<open>Date.parse\<close> of texts outside the interchange format (\<open>legacy\<close>), the
  HTTP client, and the time zones of \<open>Intl\<close> (\<open>zones\<close>, an offset for each instant).  Some theorems assume of a zone
  (\<open>daylight_zone\<close>) that its offset is in whole seconds and less than a day, changes at most once in any
  two days, and leaves out the opening hour of no day; the examples use \<open>America/Santiago\<close> with its summer time.
  Only the policy, the operational loop and the WhatsApp transport have the parameter \<open>legacy\<close>.  The lifecycle, the
  sandbox, the gate, the outbox worker and the follow-up engines (\<open>asIsoString\<close>, \<open>asIso\<close>, \<open>normalizeIsoTimestamp\<close>,
  \<open>parse_iso_text\<close>, \<open>parse_instant\<close>) read a date with \<open>date_parse\<close> alone: there a text outside the interchange format
  is no date, and everywhere a date and time without offset is UTC, the zone of the containers.  Characters are
  the 256 of Isabelle's \<open>char\<close>: letters beyond Latin-1
  are not in the model.  Counters are integers; \<open>NaN\<close>, infinities and fractions are not values of it.

  \<^bold>\<open>Not modelled.\<close>  The SQL repositories and every service over the database, HTTP or a queue; the
  language model and its prompts; the follow-up planner, the capability gateway, the
  conversation requests, the validation of the agent's output, the native cycle and, of the autonomous loop, everything but the
  delivery of an immediate action; of the operational loop its
  SQL load and persistence, which are parameters of the run, and the stages and metrics of its
  results; the web application; test data and compiled copies.
\<close>

end
